(* ===== verification/Float64.thy ===== *)
theory Float64
  imports Complex_Main "HOL-Library.Log_Nat"
begin

section \<open>IEEE 754 binary64\<close>

text \<open>
  The \<^verbatim>\<open>f64\<close> of the Rust code. A value is NaN, an infinity with its sign, or a finite number with
  its sign bit (so that \<open>0.0\<close> and \<open>-0.0\<close> differ) whose rational value is a fixed point of \<open>rnd\<close>, the
  rounding to nearest, ties to even, with gradual underflow below \<open>2 ^ - 1022\<close> and overflow to infinity
  from \<open>2 ^ 1024\<close>. Every arithmetic operation computes the exact rational result and rounds it once;
  \<open>mul_add\<close> rounds once as the fused operation does. Comparison is the partial comparison of Rust:
  false whenever an operand is NaN. \<open>f64_min\<close> and \<open>f64_max\<close> ignore one NaN operand, as
  \<^verbatim>\<open>f64::min\<close> and \<^verbatim>\<open>f64::max\<close> do. \<open>f64_powi\<close> is the repeated squaring of the compiler's runtime.
  The last part proves the order, monotonicity, sign and rounding-error facts that the component
  proofs use. The \<open>code\<close> equations make all of it evaluable on literals.
\<close>

subsection \<open>Rounding\<close>

definition pow2 :: "int \<Rightarrow> rat" where
  "pow2 e = 2 powi e"

function p2 :: "int \<Rightarrow> int" where
  "p2 e = (if e \<le> 0 then 1 else let h = p2 (e div 2) in if even e then h * h else 2 * (h * h))"
  by pat_completeness auto
termination
  by (relation "measure nat") auto

declare p2.simps [simp del]

lemma p2_eq: "p2 e = 2 ^ nat e"
proof (induction e rule: p2.induct)
  case (1 e)
  show ?case
  proof (cases "e \<le> 0")
    case True
    then show ?thesis by (simp add: p2.simps)
  next
    case False
    then have ih: "p2 (e div 2) = 2 ^ nat (e div 2)" using 1 by simp
    show ?thesis
    proof (cases "even e")
      case True
      then obtain k where "e = 2 * k" by blast
      then have k: "e = 2 * k" "nat e = nat k + nat k" using False by linarith+
      then show ?thesis using False ih by (simp add: p2.simps[of "2 * k"] Let_def power_add)
    next
      case odd: False
      then obtain k where "e = 2 * k + 1" by (rule oddE)
      then have k: "e = 2 * k + 1" "0 \<le> k" using False by simp_all
      then have "nat e = Suc (nat k + nat k)" by linarith
      then show ?thesis using False odd ih k by (simp add: p2.simps[of "2 * k + 1"] Let_def power_add)
    qed
  qed
qed

lemma pow2_code [code]:
  "pow2 e = (if 0 \<le> e then of_int (p2 e) else 1 / of_int (p2 (- e)))"
  by (simp add: pow2_def power_int_def p2_eq inverse_eq_divide power_one_over)

definition ilog2 :: "rat \<Rightarrow> int" where
  "ilog2 q = (case quotient_of q of (n, d) \<Rightarrow>
     let e = bitlen n - bitlen d in if pow2 e \<le> q then e else e - 1)"

definition uexp :: "rat \<Rightarrow> int" where
  "uexp q = max (ilog2 \<bar>q\<bar> - 52) (- 1074)"

definition rne :: "rat \<Rightarrow> int" where
  "rne x = (let f = \<lfloor>x\<rfloor>; r = x - of_int f in
     if r < 1 / 2 then f else if 1 / 2 < r then f + 1 else if even f then f else f + 1)"

definition rnd :: "rat \<Rightarrow> rat" where
  "rnd q = (if q = 0 then 0 else let u = pow2 (uexp q) in of_int (rne (q / u)) * u)"

lemma pow2_pos [simp]: "0 < pow2 e" "0 \<le> pow2 e" "pow2 e \<noteq> 0" "\<bar>pow2 e\<bar> = pow2 e"
  by (simp_all add: pow2_def)

lemma pow2_le_iff [simp]: "pow2 a \<le> pow2 b \<longleftrightarrow> a \<le> b"
  unfolding pow2_def
  by (metis linorder_not_less nle_le one_less_numeral_iff power_int_strict_increasing semiring_norm(76))

lemma pow2_less_iff [simp]: "pow2 a < pow2 b \<longleftrightarrow> a < b"
  by (meson linorder_not_less pow2_le_iff)

lemma pow2_add: "pow2 (a + b) = pow2 a * pow2 b"
  by (simp add: pow2_def power_int_add)

lemma pow2_diff: "pow2 (a - b) = pow2 a / pow2 b"
  by (simp add: pow2_def power_int_diff)

lemma pow2_int: "0 \<le> a \<Longrightarrow> pow2 a = of_int (2 ^ nat a)"
  by (simp add: pow2_def power_int_def)

lemma pow2_split: "a \<le> b \<Longrightarrow> pow2 b = of_int (2 ^ nat (b - a)) * pow2 a"
  using pow2_add[of "b - a" a] pow2_int[of "b - a"] by simp

lemma pow2_1 [simp]: "pow2 1 = 2"
  by (simp add: pow2_def)

lemma bitlen_pow2:
  assumes "0 < n"
  shows "pow2 (bitlen n - 1) \<le> (of_int n :: rat)" "of_int n < pow2 (bitlen n)"
proof -
  have p: "0 < bitlen n"
    using assms by (metis bitlen_eq_zero_iff bitlen_nonneg not_le order_le_less)
  have b: "2 ^ nat (bitlen n - 1) \<le> n" "n < 2 ^ nat (bitlen n)"
    using bitlen_bounds[OF assms] by simp_all
  have "pow2 (bitlen n - 1) = of_int (2 ^ nat (bitlen n - 1))"
    using p by (intro pow2_int) simp
  then show "pow2 (bitlen n - 1) \<le> (of_int n :: rat)"
    using b(1) of_int_le_iff by metis
  have "pow2 (bitlen n) = of_int (2 ^ nat (bitlen n))"
    using p by (intro pow2_int) simp
  then show "of_int n < pow2 (bitlen n)"
    using b(2) of_int_less_iff by metis
qed

lemma bitlen_quotient:
  assumes n: "0 < n" and d: "0 < d"
  shows "pow2 (bitlen n - bitlen d - 1) \<le> of_int n / of_int d"
    and "of_int n / of_int d < pow2 (bitlen n - bitlen d + 1)"
proof -
  note bn = bitlen_pow2[OF n] and bd = bitlen_pow2[OF d]
  have "pow2 (bitlen n - bitlen d - 1) = pow2 (bitlen n - 1) / pow2 (bitlen d)"
    by (simp flip: pow2_diff add: algebra_simps)
  also have "\<dots> \<le> of_int n / of_int d"
    using bn bd d n by (intro frac_le) simp_all
  finally show "pow2 (bitlen n - bitlen d - 1) \<le> of_int n / of_int d" .
  have "of_int n / of_int d < pow2 (bitlen n) / pow2 (bitlen d - 1)"
    using bn bd d n by (intro frac_less) simp_all
  also have "\<dots> = pow2 (bitlen n - bitlen d + 1)"
    by (simp flip: pow2_diff add: algebra_simps)
  finally show "of_int n / of_int d < pow2 (bitlen n - bitlen d + 1)" .
qed

lemma ilog2_bounds:
  assumes "0 < q"
  shows "pow2 (ilog2 q) \<le> q" "q < pow2 (ilog2 q + 1)"
proof -
  obtain n d where nd: "quotient_of q = (n, d)" by fastforce
  have d: "0 < d" using nd by (rule quotient_of_denom_pos)
  have q: "q = of_int n / of_int d" using nd by (rule quotient_of_div)
  have n: "0 < n" using assms q d by (simp add: zero_less_divide_iff)
  show "pow2 (ilog2 q) \<le> q" "q < pow2 (ilog2 q + 1)"
    using bitlen_quotient[OF n d, folded q] by (auto simp: ilog2_def nd Let_def)
qed

lemma ilog2_unique:
  assumes "pow2 e \<le> q" "q < pow2 (e + 1)"
  shows "ilog2 q = e"
proof -
  have q: "0 < q" using assms(1) pow2_pos[of e] by linarith
  have "pow2 e < pow2 (ilog2 q + 1)" "pow2 (ilog2 q) < pow2 (e + 1)"
    using ilog2_bounds[OF q] assms by linarith+
  then show ?thesis by simp
qed

lemma ilog2_mono:
  assumes "0 < p" "p \<le> q"
  shows "ilog2 p \<le> ilog2 q"
proof -
  have "pow2 (ilog2 p) < pow2 (ilog2 q + 1)"
    using ilog2_bounds[of p] ilog2_bounds[of q] assms by linarith
  then show ?thesis by simp
qed

lemma ilog2_less:
  assumes "0 < q" "q < pow2 e"
  shows "ilog2 q < e"
  using ilog2_bounds(1)[OF assms(1)] assms(2) pow2_less_iff by (meson order_le_less_trans)

subsection \<open>Rounding to an integer\<close>

lemma rne_of_int [simp]: "rne (of_int n) = n"
  by (simp add: rne_def)

lemma rne_floor_bounds: "\<lfloor>x\<rfloor> \<le> rne x" "rne x \<le> \<lfloor>x\<rfloor> + 1"
  by (simp_all add: rne_def Let_def)

lemma rne_mono: "x \<le> y \<Longrightarrow> rne x \<le> rne y"
proof (cases "\<lfloor>x\<rfloor> < \<lfloor>y\<rfloor>")
  case True
  then show ?thesis using rne_floor_bounds(2)[of x] rne_floor_bounds(1)[of y] by linarith
next
  case False
  assume le: "x \<le> y"
  then have "\<lfloor>x\<rfloor> = \<lfloor>y\<rfloor>" using False floor_mono[OF le] by linarith
  then show ?thesis using le by (auto simp: rne_def Let_def)
qed

lemma rne_minus: "rne (- x) = - rne x"
proof (cases "x = of_int \<lfloor>x\<rfloor>")
  case True
  then show ?thesis by (metis of_int_minus rne_of_int)
next
  case False
  then have f: "\<lfloor>- x\<rfloor> = - \<lfloor>x\<rfloor> - 1"
    by (simp add: floor_minus ceiling_altdef)
  show ?thesis using f False by (auto simp: rne_def Let_def f)
qed

lemma rne_error: "\<bar>of_int (rne x) - x\<bar> \<le> 1 / 2"
proof -
  have "of_int \<lfloor>x\<rfloor> \<le> x" "x < of_int \<lfloor>x\<rfloor> + 1" by linarith+
  then show ?thesis by (auto simp: rne_def Let_def abs_le_iff)
qed

subsection \<open>Rounding to binary64 precision\<close>

definition representable :: "rat \<Rightarrow> bool" where
  "representable q \<longleftrightarrow> rnd q = q"

lemma rnd_0 [simp]: "rnd 0 = 0"
  by (simp add: rnd_def)

lemma uexp_minus [simp]: "uexp (- q) = uexp q"
  by (simp add: uexp_def)

lemma rnd_minus [simp]: "rnd (- q) = - rnd q"
  by (simp add: rnd_def Let_def rne_minus)

lemma uexp_ge: "- 1074 \<le> uexp q" "ilog2 \<bar>q\<bar> - 52 \<le> uexp q"
  by (simp_all add: uexp_def)

lemma uexp_mono: "p \<noteq> 0 \<Longrightarrow> \<bar>p\<bar> \<le> \<bar>q\<bar> \<Longrightarrow> uexp p \<le> uexp q"
  using ilog2_mono[of "\<bar>p\<bar>" "\<bar>q\<bar>"] by (auto simp: uexp_def max_def)

text \<open>Rounding to a multiple of a power of two keeps every multiple it meets.\<close>

lemma rnd_le_multiple:
  assumes "q \<noteq> 0" "q \<le> of_int n * pow2 (uexp q)"
  shows "rnd q \<le> of_int n * pow2 (uexp q)"
proof -
  let ?u = "pow2 (uexp q) :: rat"
  have "q / ?u \<le> of_int n"
    using assms(2) by (simp add: divide_le_eq)
  then have "rne (q / ?u) \<le> n" using rne_mono[of "q / ?u" "of_int n"] by simp
  then show ?thesis using assms(1) by (simp add: rnd_def Let_def)
qed

lemma rnd_ge_multiple:
  assumes "q \<noteq> 0" "of_int n * pow2 (uexp q) \<le> q"
  shows "of_int n * pow2 (uexp q) \<le> rnd q"
  using rnd_le_multiple[of "- q" "- n"] assms by simp

lemma rnd_nonneg: "0 \<le> q \<Longrightarrow> 0 \<le> rnd q"
  using rnd_ge_multiple[of q 0] by (cases "q = 0") simp_all

lemma rnd_mono_pos:
  assumes "0 < x" "x \<le> y"
  shows "rnd x \<le> rnd y"
proof (cases "uexp x = uexp y")
  case True
  have "rne (x / pow2 (uexp x)) \<le> rne (y / pow2 (uexp x))"
    using assms by (intro rne_mono divide_right_mono) simp_all
  then show ?thesis using True assms by (simp add: rnd_def Let_def)
next
  case False
  let ?l = "ilog2 y"
  have xy: "uexp x < uexp y" using False uexp_mono[of x y] assms by linarith
  then have uy: "uexp y = ?l - 52" and ux: "uexp x \<le> ?l"
    using assms uexp_ge(1)[of x] by (auto simp: uexp_def)
  have "ilog2 x < ?l" using xy assms by (auto simp: uexp_def max_def split: if_splits)
  then have "x < pow2 ?l"
    using ilog2_bounds(2)[of x] assms pow2_le_iff[of "ilog2 x + 1" ?l] by linarith
  also have "pow2 ?l = of_int (2 ^ nat (?l - uexp x)) * pow2 (uexp x)"
    using ux by (rule pow2_split)
  finally have "rnd x \<le> of_int (2 ^ nat (?l - uexp x)) * pow2 (uexp x)"
    using assms by (intro rnd_le_multiple) simp_all
  also have "\<dots> = of_int (2 ^ 52) * pow2 (uexp y)"
    using pow2_split[OF ux] pow2_split[of "?l - 52" ?l] uy by simp
  also have "\<dots> \<le> rnd y"
  proof (rule rnd_ge_multiple)
    have "of_int (2 ^ 52) * pow2 (uexp y) = pow2 ?l"
      using uy pow2_split[of "?l - 52" ?l] by simp
    then show "of_int (2 ^ 52) * pow2 (uexp y) \<le> y"
      using ilog2_bounds(1)[of y] assms by simp
  qed (use assms in simp)
  finally show ?thesis .
qed

lemma rnd_mono: "x \<le> y \<Longrightarrow> rnd x \<le> rnd y"
proof -
  assume le: "x \<le> y"
  consider "0 < x" | "x \<le> 0" "0 \<le> y" | "y < 0" by linarith
  then show ?thesis
  proof cases
    case 1
    then show ?thesis using le by (rule rnd_mono_pos)
  next
    case 2
    then show ?thesis using rnd_nonneg[of y] rnd_nonneg[of "- x"] by simp
  next
    case 3
    then show ?thesis using rnd_mono_pos[of "- y" "- x"] le by simp
  qed
qed

lemma rnd_error: "\<bar>rnd q - q\<bar> \<le> pow2 (uexp q) / 2"
proof (cases "q = 0")
  case False
  let ?u = "pow2 (uexp q) :: rat"
  have "rnd q - q = (of_int (rne (q / ?u)) - q / ?u) * ?u"
    using False by (simp add: rnd_def Let_def field_simps)
  then have "\<bar>rnd q - q\<bar> = \<bar>of_int (rne (q / ?u)) - q / ?u\<bar> * ?u"
    by (simp add: abs_mult)
  also have "\<dots> \<le> 1 / 2 * ?u"
    by (intro mult_right_mono rne_error) simp
  finally show ?thesis by simp
qed simp

text \<open>The relative error of one rounding in the normal range is at most \<open>pow2 - 53\<close>.\<close>

lemma rnd_rel_error:
  assumes "pow2 (- 1022) \<le> \<bar>q\<bar>"
  shows "\<bar>rnd q - q\<bar> \<le> \<bar>q\<bar> * pow2 (- 53)"
proof -
  have q: "0 < \<bar>q\<bar>" using assms pow2_pos[of "- 1022"] by linarith
  have "pow2 (- 1022) < pow2 (ilog2 \<bar>q\<bar> + 1)"
    using assms ilog2_bounds(2)[OF q] by linarith
  then have "uexp q = ilog2 \<bar>q\<bar> - 52" by (simp add: uexp_def)
  then have "pow2 (uexp q) / 2 = pow2 (ilog2 \<bar>q\<bar>) * pow2 (- 53)"
    using pow2_diff[of "ilog2 \<bar>q\<bar> - 52" 1] pow2_add[of "ilog2 \<bar>q\<bar>" "- 53"] by simp
  also have "\<dots> \<le> \<bar>q\<bar> * pow2 (- 53)"
    using ilog2_bounds(1)[OF q] by (intro mult_right_mono) simp_all
  finally show ?thesis using rnd_error[of q] by linarith
qed

lemma representable_scaled:
  assumes "\<bar>m\<bar> < 2 ^ 53" "- 1074 \<le> e"
  shows "rnd (of_int m * pow2 e) = of_int m * pow2 e"
proof (cases "m = 0")
  case False
  let ?q = "of_int m * pow2 e :: rat"
  have "(of_int \<bar>m\<bar> :: rat) < of_int (2 ^ 53)" using assms(1) of_int_less_iff by blast
  then have "\<bar>?q\<bar> < pow2 53 * pow2 e"
    using pow2_int[of 53] by (simp add: abs_mult)
  then have "ilog2 \<bar>?q\<bar> < 53 + e"
    using False by (intro ilog2_less) (simp_all add: pow2_add)
  then have u: "uexp ?q \<le> e" using assms(2) by (simp add: uexp_def)
  have "?q / pow2 (uexp ?q) = of_int (m * 2 ^ nat (e - uexp ?q))"
    using pow2_split[OF u] by (metis (no_types, opaque_lifting) mult.assoc nonzero_mult_div_cancel_right of_int_mult pow2_pos(3))
  then have "rne (?q / pow2 (uexp ?q)) = m * 2 ^ nat (e - uexp ?q)"
    by (metis rne_of_int)
  moreover have "of_int (m * 2 ^ nat (e - uexp ?q)) * pow2 (uexp ?q) = ?q"
    using pow2_split[OF u] by simp
  ultimately show ?thesis using False by (simp add: rnd_def Let_def)
qed simp

lemma rnd_form: "\<exists>m e. rnd q = of_int m * pow2 e \<and> \<bar>m\<bar> \<le> 2 ^ 53 \<and> - 1074 \<le> e"
proof (cases "q = 0")
  case True
  then show ?thesis by (intro exI[of _ 0] exI[of _ 0]) simp
next
  case False
  let ?u = "pow2 (uexp q) :: rat"
  have "\<bar>q\<bar> < pow2 (ilog2 \<bar>q\<bar> + 1)" using False by (intro ilog2_bounds(2)) simp
  also have "\<dots> \<le> pow2 (53 + uexp q)"
    using uexp_ge(2)[of q] by simp
  also have "\<dots> = of_int (2 ^ 53) * ?u" using pow2_int[of 53] by (simp add: pow2_add)
  finally have "\<bar>q / ?u\<bar> \<le> of_int (2 ^ 53)"
    by (simp add: abs_divide divide_le_eq)
  then have "- of_int (2 ^ 53) \<le> q / ?u" "q / ?u \<le> of_int (2 ^ 53)"
    by (simp_all only: abs_le_iff minus_le_iff)
  then have r: "rne (of_int (- (2 ^ 53))) \<le> rne (q / ?u)" "rne (q / ?u) \<le> rne (of_int (2 ^ 53))"
    by (intro rne_mono, simp)+
  have "\<bar>rne (q / ?u)\<bar> \<le> 2 ^ 53"
    using r unfolding rne_of_int abs_le_iff by linarith
  then show ?thesis
    using False uexp_ge(1)[of q]
    by (intro exI[of _ "rne (q / ?u)"] exI[of _ "uexp q"]) (simp add: rnd_def Let_def)
qed

lemma rnd_idem [simp]: "rnd (rnd q) = rnd q"
proof -
  obtain m e where f: "rnd q = of_int m * pow2 e" "\<bar>m\<bar> \<le> 2 ^ 53" "- 1074 \<le> e"
    using rnd_form by blast
  show ?thesis
  proof (cases "\<bar>m\<bar> = 2 ^ 53")
    case True
    then have m: "m = sgn m * 2 ^ 53" by (metis sgn_mult_abs)
    have "rnd q = of_int (sgn m * 2 ^ 53) * pow2 e" using f(1) m by simp
    then have "rnd q = of_int (sgn m * 2 ^ 52) * pow2 (e + 1)"
      using pow2_split[of e "e + 1"] by simp
    moreover have "\<bar>sgn m * 2 ^ 52\<bar> < (2 ^ 53 :: int)" by (simp add: abs_mult)
    ultimately show ?thesis using f(3) representable_scaled[of "sgn m * 2 ^ 52" "e + 1"] by simp
  next
    case False
    then show ?thesis using f representable_scaled[of m e] by simp
  qed
qed

lemma rnd_int: "\<bar>n\<bar> \<le> 2 ^ 53 \<Longrightarrow> rnd (of_int n) = of_int n"
proof (cases "\<bar>n\<bar> = 2 ^ 53")
  case True
  then have n: "n = sgn n * 2 ^ 53" by (metis sgn_mult_abs)
  have "(of_int n :: rat) = of_int (sgn n * 2 ^ 52) * pow2 1"
    by (subst n) simp
  moreover have "\<bar>sgn n * 2 ^ 52\<bar> < (2 ^ 53 :: int)" by (simp add: abs_mult)
  ultimately show ?thesis using representable_scaled[of "sgn n * 2 ^ 52" 1] by simp
next
  case False
  assume "\<bar>n\<bar> \<le> 2 ^ 53"
  then show ?thesis using False representable_scaled[of n 0] by (simp add: pow2_def)
qed

lemma floor_form: "of_int \<lfloor>rnd q\<rfloor> = rnd q \<or> \<bar>\<lfloor>rnd q\<rfloor>\<bar> \<le> 2 ^ 53"
proof -
  obtain m e where f: "rnd q = of_int m * pow2 e" "\<bar>m\<bar> \<le> 2 ^ 53" "- 1074 \<le> e"
    using rnd_form by blast
  show ?thesis
  proof (cases "0 \<le> e")
    case True
    then have "rnd q = of_int (m * 2 ^ nat e)" using f(1) by (simp add: pow2_int)
    then show ?thesis by (metis floor_of_int)
  next
    case False
    then have "\<bar>rnd q\<bar> \<le> of_int \<bar>m\<bar> * pow2 0"
      using f(1) by (auto simp: abs_mult intro!: mult_left_mono)
    also have "\<dots> \<le> of_int (2 ^ 53)" using f(2) by (simp add: pow2_def del: of_int_power of_int_abs)
    finally have "- of_int (2 ^ 53) \<le> rnd q" "rnd q \<le> of_int (2 ^ 53)"
      unfolding abs_le_iff by linarith+
    then have "- (2 ^ 53) \<le> \<lfloor>rnd q\<rfloor>" "\<lfloor>rnd q\<rfloor> \<le> 2 ^ 53"
      by (simp_all add: le_floor_iff floor_le_iff)
    then show ?thesis unfolding abs_le_iff by linarith
  qed
qed

lemma rnd_floor: "rnd (of_int \<lfloor>rnd q\<rfloor>) = of_int \<lfloor>rnd q\<rfloor>"
  using floor_form[of q] rnd_int[of "\<lfloor>rnd q\<rfloor>"] rnd_idem[of q] by metis

subsection \<open>The type of binary64 values\<close>

datatype fraw = RNaN | RInf bool | RFin bool rat

definition fmax_bound :: rat where
  "fmax_bound = 2 ^ 1024"

lemma fmax_bound_code [code]: "fmax_bound = of_int (p2 1024)"
  by (simp add: fmax_bound_def p2_eq)

fun wf_raw :: "fraw \<Rightarrow> bool" where
  "wf_raw RNaN = True"
| "wf_raw (RInf s) = True"
| "wf_raw (RFin s q) = (rnd q = q \<and> \<bar>q\<bar> < fmax_bound \<and> (q \<noteq> 0 \<longrightarrow> s = (q < 0)))"

definition raw_mk :: "bool \<Rightarrow> rat \<Rightarrow> fraw" where
  "raw_mk s q = (let r = rnd q in
     if fmax_bound \<le> \<bar>r\<bar> then RInf (r < 0)
     else RFin (if r \<noteq> 0 then r < 0 else if q \<noteq> 0 then q < 0 else s) r)"

lemma wf_raw_mk [simp]: "wf_raw (raw_mk s q)"
  by (simp add: raw_mk_def Let_def)

typedef f64 = "{x. wf_raw x}"
  by (rule exI[of _ RNaN]) simp

setup_lifting type_definition_f64

fun raw_neg :: "fraw \<Rightarrow> fraw" where
  "raw_neg RNaN = RNaN"
| "raw_neg (RInf s) = RInf (\<not> s)"
| "raw_neg (RFin s q) = RFin (\<not> s) (- q)"

fun raw_abs :: "fraw \<Rightarrow> fraw" where
  "raw_abs RNaN = RNaN"
| "raw_abs (RInf s) = RInf False"
| "raw_abs (RFin s q) = RFin False \<bar>q\<bar>"

fun raw_add :: "fraw \<Rightarrow> fraw \<Rightarrow> fraw" where
  "raw_add RNaN y = RNaN"
| "raw_add x RNaN = RNaN"
| "raw_add (RInf s) (RInf t) = (if s = t then RInf s else RNaN)"
| "raw_add (RInf s) (RFin t q) = RInf s"
| "raw_add (RFin s p) (RInf t) = RInf t"
| "raw_add (RFin s p) (RFin t q) = raw_mk (s \<and> t) (p + q)"

fun raw_mul :: "fraw \<Rightarrow> fraw \<Rightarrow> fraw" where
  "raw_mul RNaN y = RNaN"
| "raw_mul x RNaN = RNaN"
| "raw_mul (RInf s) (RInf t) = RInf (s \<noteq> t)"
| "raw_mul (RInf s) (RFin t q) = (if q = 0 then RNaN else RInf (s \<noteq> t))"
| "raw_mul (RFin s p) (RInf t) = (if p = 0 then RNaN else RInf (s \<noteq> t))"
| "raw_mul (RFin s p) (RFin t q) = raw_mk (s \<noteq> t) (p * q)"

fun raw_div :: "fraw \<Rightarrow> fraw \<Rightarrow> fraw" where
  "raw_div RNaN y = RNaN"
| "raw_div x RNaN = RNaN"
| "raw_div (RInf s) (RInf t) = RNaN"
| "raw_div (RInf s) (RFin t q) = RInf (s \<noteq> t)"
| "raw_div (RFin s p) (RInf t) = RFin (s \<noteq> t) 0"
| "raw_div (RFin s p) (RFin t q) =
     (if q = 0 then (if p = 0 then RNaN else RInf (s \<noteq> t)) else raw_mk (s \<noteq> t) (p / q))"

fun raw_muladd :: "fraw \<Rightarrow> fraw \<Rightarrow> fraw \<Rightarrow> fraw" where
  "raw_muladd (RFin s p) (RFin t q) (RFin u r) = raw_mk ((s \<noteq> t) \<and> u) (p * q + r)"
| "raw_muladd (RFin s p) (RFin t q) (RInf u) = RInf u"
| "raw_muladd (RFin s p) (RFin t q) RNaN = RNaN"
| "raw_muladd x y z = raw_add (raw_mul x y) z"

fun raw_le :: "fraw \<Rightarrow> fraw \<Rightarrow> bool" where
  "raw_le RNaN y = False"
| "raw_le x RNaN = False"
| "raw_le (RInf s) (RInf t) = (t \<longrightarrow> s)"
| "raw_le (RInf s) (RFin t q) = s"
| "raw_le (RFin s p) (RInf t) = (\<not> t)"
| "raw_le (RFin s p) (RFin t q) = (p \<le> q)"

fun raw_int :: "(rat \<Rightarrow> int) \<Rightarrow> fraw \<Rightarrow> fraw" where
  "raw_int f RNaN = RNaN"
| "raw_int f (RInf s) = RInf s"
| "raw_int f (RFin s q) = raw_mk s (of_int (f q))"

lemma wf_raw_neg: "wf_raw x \<Longrightarrow> wf_raw (raw_neg x)"
  by (cases x) auto

lemma wf_raw_abs: "wf_raw x \<Longrightarrow> wf_raw (raw_abs x)"
  by (cases x) (auto simp: abs_if)

lemma wf_raw_add: "wf_raw x \<Longrightarrow> wf_raw y \<Longrightarrow> wf_raw (raw_add x y)"
  by (cases x; cases y) auto

lemma wf_raw_mul: "wf_raw x \<Longrightarrow> wf_raw y \<Longrightarrow> wf_raw (raw_mul x y)"
  by (cases x; cases y) auto

lemma wf_raw_div: "wf_raw x \<Longrightarrow> wf_raw y \<Longrightarrow> wf_raw (raw_div x y)"
  by (cases x; cases y) (auto simp: fmax_bound_def)

lemma wf_raw_muladd: "wf_raw x \<Longrightarrow> wf_raw y \<Longrightarrow> wf_raw z \<Longrightarrow> wf_raw (raw_muladd x y z)"
  by (cases x; cases y; cases z) (auto simp: wf_raw_add)

lemma wf_raw_int: "wf_raw x \<Longrightarrow> wf_raw (raw_int f x)"
  by (cases x) auto

lift_definition is_nan :: "f64 \<Rightarrow> bool" is "\<lambda>x. x = RNaN" .
lift_definition is_finite :: "f64 \<Rightarrow> bool" is "\<lambda>x. case x of RFin s q \<Rightarrow> True | _ \<Rightarrow> False" .
lift_definition fval :: "f64 \<Rightarrow> rat" is "\<lambda>x. case x of RFin s q \<Rightarrow> q | _ \<Rightarrow> 0" .
lift_definition f64_nan :: f64 is RNaN by simp
lift_definition f64_infinity :: f64 is "RInf False" by simp
lift_definition f64_lit :: "rat \<Rightarrow> f64" is "raw_mk False" by simp
lift_definition mul_add :: "f64 \<Rightarrow> f64 \<Rightarrow> f64 \<Rightarrow> f64" is raw_muladd by (rule wf_raw_muladd)
lift_definition f64_floor :: "f64 \<Rightarrow> f64" is "raw_int floor" by (rule wf_raw_int)
lift_definition f64_ceil :: "f64 \<Rightarrow> f64" is "raw_int ceiling" by (rule wf_raw_int)

lift_definition f64_round :: "f64 \<Rightarrow> f64"
  is "raw_int (\<lambda>q. if 0 \<le> q then \<lfloor>q + 1 / 2\<rfloor> else - \<lfloor>- q + 1 / 2\<rfloor>)" by (rule wf_raw_int)

instantiation f64 :: "{plus, minus, uminus, times, inverse, zero, one, ord, abs, equal}"
begin

lift_definition plus_f64 :: "f64 \<Rightarrow> f64 \<Rightarrow> f64" is raw_add by (rule wf_raw_add)
lift_definition minus_f64 :: "f64 \<Rightarrow> f64 \<Rightarrow> f64" is "\<lambda>x y. raw_add x (raw_neg y)"
  by (intro wf_raw_add wf_raw_neg)
lift_definition uminus_f64 :: "f64 \<Rightarrow> f64" is raw_neg by (rule wf_raw_neg)
lift_definition times_f64 :: "f64 \<Rightarrow> f64 \<Rightarrow> f64" is raw_mul by (rule wf_raw_mul)
lift_definition divide_f64 :: "f64 \<Rightarrow> f64 \<Rightarrow> f64" is raw_div by (rule wf_raw_div)
lift_definition inverse_f64 :: "f64 \<Rightarrow> f64" is "raw_div (RFin False 1)"
  by (intro wf_raw_div) (simp_all add: rnd_int[of 1, simplified] fmax_bound_def)
lift_definition zero_f64 :: f64 is "RFin False 0" by (simp add: fmax_bound_def)
lift_definition one_f64 :: f64 is "RFin False 1"
  by (simp add: rnd_int[of 1, simplified] fmax_bound_def)
lift_definition less_eq_f64 :: "f64 \<Rightarrow> f64 \<Rightarrow> bool" is raw_le .
lift_definition less_f64 :: "f64 \<Rightarrow> f64 \<Rightarrow> bool" is "\<lambda>x y. raw_le x y \<and> \<not> raw_le y x" .
lift_definition abs_f64 :: "f64 \<Rightarrow> f64" is raw_abs by (rule wf_raw_abs)
lift_definition equal_f64 :: "f64 \<Rightarrow> f64 \<Rightarrow> bool" is "(=)" .

instance
  by standard (transfer, rule refl)

end


subsection \<open>Evaluation\<close>

text \<open>Code equations that round a fraction of integers without normalising it first.\<close>

definition le_pow2 :: "int \<Rightarrow> int \<Rightarrow> int \<Rightarrow> bool" where
  "le_pow2 e n d = (if 0 \<le> e then p2 e * d \<le> n else d \<le> n * p2 (- e))"

lemma le_pow2_iff: "0 < d \<Longrightarrow> le_pow2 e n d \<longleftrightarrow> pow2 e \<le> of_int n / of_int d"
proof -
  assume d: "0 < d"
  show ?thesis
  proof (cases "0 \<le> e")
    case True
    have "pow2 e \<le> of_int n / of_int d \<longleftrightarrow> (of_int (p2 e * d) :: rat) \<le> of_int n"
      using d True by (simp add: le_divide_eq pow2_code)
    then show ?thesis using True by (simp only: le_pow2_def of_int_le_iff if_True)
  next
    case False
    have "0 < (of_int (p2 (- e)) :: rat)" by (simp add: p2_eq)
    then have "pow2 e \<le> of_int n / of_int d \<longleftrightarrow> (of_int d :: rat) \<le> of_int (n * p2 (- e))"
      using d False by (simp add: pow2_code field_simps)
    then show ?thesis using False by (simp only: le_pow2_def of_int_le_iff if_False)
  qed
qed

definition ilog2f :: "int \<Rightarrow> int \<Rightarrow> int" where
  "ilog2f n d = (let e = bitlen n - bitlen d in if le_pow2 e n d then e else e - 1)"

lemma ilog2f: "0 < n \<Longrightarrow> 0 < d \<Longrightarrow> ilog2f n d = ilog2 (of_int n / of_int d)"
proof -
  assume n: "0 < n" and d: "0 < d"
  let ?e = "bitlen n - bitlen d" and ?q = "of_int n / of_int d :: rat"
  have "pow2 (?e - 1) \<le> ?q" "?q < pow2 (?e + 1)"
    using bitlen_quotient[OF n d] by simp_all
  then show ?thesis
    unfolding ilog2f_def Let_def le_pow2_iff[OF d]
    by (intro ilog2_unique[symmetric]) (auto simp: not_le split: if_splits)
qed

definition rne_div :: "int \<Rightarrow> int \<Rightarrow> int" where
  "rne_div a b = (case (a div b, a mod b) of (m, r) \<Rightarrow>
     if 2 * r < b then m else if b < 2 * r then m + 1 else if even m then m else m + 1)"

lemma rne_div: "0 < b \<Longrightarrow> rne_div a b = rne (of_int a / of_int b)"
proof -
  assume b: "0 < b"
  have f: "\<lfloor>of_int a / of_int b :: rat\<rfloor> = a div b" by (rule floor_divide_of_int_eq)
  have "(of_int a :: rat) = of_int (a div b * b + a mod b)" by simp
  then have m: "(of_int a / of_int b - of_int (a div b) :: rat) = of_int (a mod b) / of_int b"
    using b by (simp only: of_int_add of_int_mult) (simp add: field_simps)
  have "(of_int (a mod b) / of_int b < (1 / 2 :: rat)) \<longleftrightarrow> 2 * (a mod b) < b"
    "((1 / 2 :: rat) < of_int (a mod b) / of_int b) \<longleftrightarrow> b < 2 * (a mod b)"
    using b of_int_less_iff[of "2 * (a mod b)" b, where ?'a = rat]
      of_int_less_iff[of b "2 * (a mod b)", where ?'a = rat] by (simp_all add: field_simps)
  then show ?thesis unfolding rne_div_def rne_def Let_def f m prod.case by presburger
qed

fun dyad :: "int \<Rightarrow> int \<Rightarrow> int \<times> int" where
  "dyad m k = (if 0 < k \<and> even m then dyad (m div 2) (k - 1) else (m, k))"

declare dyad.simps [simp del]

lemma dyad: "0 \<le> k \<Longrightarrow> dyad m k = (m', k') \<Longrightarrow>
  0 \<le> k' \<and> of_int m' / of_int (p2 k') = (of_int m / of_int (p2 k) :: rat) \<and> (k' = 0 \<or> odd m')"
proof (induction m k arbitrary: m' k' rule: dyad.induct)
  case (1 m k)
  show ?case
  proof (cases "0 < k \<and> even m")
    case True
    then obtain c where c: "m = 2 * c" by blast
    have "p2 k = 2 * p2 (k - 1)"
      using True by (simp add: p2_eq nat_diff_distrib flip: power_Suc)
    then show ?thesis using 1 True c by (simp add: dyad.simps[of "2 * c" k])
  next
    case False
    then show ?thesis using 1 by (auto simp: dyad.simps[of m k])
  qed
qed

definition dyadic :: "int \<Rightarrow> int \<Rightarrow> rat" where
  "dyadic m k = of_int m / of_int (p2 k)"

lemma quotient_of_odd: "k = 0 \<or> odd m \<Longrightarrow> quotient_of (of_int m / of_int (p2 k)) = (m, p2 k)"
proof -
  assume "k = 0 \<or> odd m"
  then have "coprime m (p2 k)" by (auto simp: p2_eq coprime_right_2_iff_odd)
  moreover have "0 < p2 k" by (simp add: p2_eq)
  ultimately have "quotient_of (Fract m (p2 k)) = (m, p2 k)"
    by (simp add: quotient_of_Fract normalize_def Let_def coprime_iff_gcd_eq_1)
  then show ?thesis by (simp add: Fract_of_int_quotient)
qed

lemma dyadic_code [code abstract]:
  "quotient_of (dyadic m k) = (if k < 0 then (m, 1) else case dyad m k of (m', k') \<Rightarrow> (m', p2 k'))"
proof (cases "k < 0")
  case True
  then show ?thesis by (simp add: dyadic_def p2_eq)
next
  case False
  obtain m' k' where d: "dyad m k = (m', k')" by fastforce
  then show ?thesis using False dyad[of k m m' k'] quotient_of_odd[of k' m'] by (simp add: dyadic_def)
qed

definition rndf :: "int \<Rightarrow> int \<Rightarrow> rat" where
  "rndf n d = rnd (of_int n / of_int d)"

lemma rndf_code [code]:
  "rndf n d = (if d \<le> 0 then Code.abort STR ''rndf'' (\<lambda>_. rndf n d) else if n = 0 then 0 else
     let u = max (ilog2f \<bar>n\<bar> d - 52) (- 1074) in
     if 0 \<le> u then of_int (rne_div n (d * p2 u) * p2 u) else dyadic (rne_div (n * p2 (- u)) d) (- u))"
proof (cases "d \<le> 0 \<or> n = 0")
  case False
  then have d: "0 < d" and n: "0 < \<bar>n\<bar>" "n \<noteq> 0" by simp_all
  define q u where "q = (of_int n / of_int d :: rat)" and "u = uexp q"
  have q: "q \<noteq> 0" using d n by (simp add: q_def)
  have "\<bar>q\<bar> = of_int \<bar>n\<bar> / of_int d" using d by (simp add: q_def)
  then have u: "max (ilog2f \<bar>n\<bar> d - 52) (- 1074) = u"
    using ilog2f[OF n(1) d] by (simp add: u_def uexp_def)
  have r: "rndf n d = of_int (rne (q / pow2 u)) * pow2 u"
    using q by (simp add: rndf_def rnd_def Let_def u_def q_def)
  have p: "0 < p2 u" "0 < p2 (- u)" by (simp_all add: p2_eq)
  show ?thesis
  proof (cases "0 \<le> u")
    case True
    then have "q / pow2 u = of_int n / of_int (d * p2 u)" by (simp add: q_def pow2_code)
    then have "rne (q / pow2 u) = rne_div n (d * p2 u)" using rne_div[of "d * p2 u" n] d p by simp
    then show ?thesis using True False u r by (simp add: Let_def pow2_code)
  next
    case neg: False
    then have "q / pow2 u = of_int (n * p2 (- u)) / of_int d" by (simp add: q_def pow2_code)
    then have "rne (q / pow2 u) = rne_div (n * p2 (- u)) d" using rne_div[of d "n * p2 (- u)"] d by simp
    then show ?thesis using neg False u r by (simp add: Let_def pow2_code dyadic_def)
  qed
qed (auto simp: rndf_def)

lemma rnd_code [code]: "rnd q = (case quotient_of q of (n, d) \<Rightarrow> rndf n d)"
  unfolding rndf_def by (metis case_prod_conv quotient_of_div surj_pair)

definition raw_mkf :: "bool \<Rightarrow> int \<Rightarrow> int \<Rightarrow> fraw" where
  "raw_mkf s n d = raw_mk s (of_int n / of_int d)"

lemma raw_mkf_code [code]:
  "raw_mkf s n d = (if d \<le> 0 then Code.abort STR ''raw_mkf'' (\<lambda>_. raw_mkf s n d) else
     let r = rndf n d in
     if fmax_bound \<le> \<bar>r\<bar> then RInf (r < 0)
     else RFin (if r \<noteq> 0 then r < 0 else if n \<noteq> 0 then n < 0 else s) r)"
  by (auto simp: raw_mkf_def raw_mk_def rndf_def Let_def divide_less_0_iff)

lemma raw_mk_code [code]: "raw_mk s q = (case quotient_of q of (n, d) \<Rightarrow> raw_mkf s n d)"
  unfolding raw_mkf_def by (metis case_prod_conv quotient_of_div surj_pair)

lemma raw_add_fin_code [code]: "raw_add (RFin s p) (RFin t q) =
   (case (quotient_of p, quotient_of q) of ((a, b), (c, d)) \<Rightarrow> raw_mkf (s \<and> t) (a * d + c * b) (b * d))"
proof -
  obtain a b c d where e: "quotient_of p = (a, b)" "quotient_of q = (c, d)" by fastforce
  have "b > 0" "d > 0" using e by (auto dest: quotient_of_denom_pos)
  then have "p + q = of_int (a * d + c * b) / of_int (b * d)"
    using e[THEN quotient_of_div] by (simp add: add_frac_eq)
  then show ?thesis by (simp add: e raw_mkf_def)
qed

lemma raw_mul_fin_code [code]: "raw_mul (RFin s p) (RFin t q) =
   (case (quotient_of p, quotient_of q) of ((a, b), (c, d)) \<Rightarrow> raw_mkf (s \<noteq> t) (a * c) (b * d))"
proof -
  obtain a b c d where e: "quotient_of p = (a, b)" "quotient_of q = (c, d)" by fastforce
  then have "p * q = of_int (a * c) / of_int (b * d)"
    using e[THEN quotient_of_div] by simp
  then show ?thesis by (simp add: e raw_mkf_def)
qed

subsection \<open>Derived operations of the standard library\<close>

definition f64_min :: "f64 \<Rightarrow> f64 \<Rightarrow> f64" where
  "f64_min x y = (if is_nan x then y else if is_nan y then x else if y < x then y else x)"

definition f64_max :: "f64 \<Rightarrow> f64 \<Rightarrow> f64" where
  "f64_max x y = (if is_nan x then y else if is_nan y then x else if x < y then y else x)"

definition f64_clamp :: "f64 \<Rightarrow> f64 \<Rightarrow> f64 \<Rightarrow> f64" where
  "f64_clamp x lo hi = (let x1 = (if x < lo then lo else x) in if hi < x1 then hi else x1)"

definition f64_eq :: "f64 \<Rightarrow> f64 \<Rightarrow> bool" where
  "f64_eq x y \<longleftrightarrow> x \<le> y \<and> y \<le> x"

definition f64_of_nat :: "nat \<Rightarrow> f64" where
  "f64_of_nat n = f64_lit (of_nat n)"

function powi_loop :: "f64 \<Rightarrow> nat \<Rightarrow> f64 \<Rightarrow> f64" where
  "powi_loop a b r = (let r1 = (if odd b then r * a else r) in
     if b div 2 = 0 then r1 else powi_loop (a * a) (b div 2) r1)"
  by pat_completeness auto
termination
  by (relation "measure (\<lambda>(a, b, r). b)") auto

declare powi_loop.simps [simp del]

definition f64_powi :: "f64 \<Rightarrow> nat \<Rightarrow> f64" where
  "f64_powi a b = powi_loop a b 1"

subsection \<open>The order\<close>

lemma raw_le_trans: "raw_le x y \<Longrightarrow> raw_le y z \<Longrightarrow> raw_le x z"
  by (cases x; cases y; cases z) auto

lemma f64_le_trans [trans]: "x \<le> y \<Longrightarrow> y \<le> z \<Longrightarrow> x \<le> (z :: f64)"
  by transfer (rule raw_le_trans)

lemma f64_less_le: "x < y \<longleftrightarrow> x \<le> y \<and> \<not> y \<le> (x :: f64)"
  by transfer simp

lemma f64_less_imp_le: "x < y \<Longrightarrow> x \<le> (y :: f64)"
  by (simp add: f64_less_le)

lemma f64_less_le_trans [trans]: "x < y \<Longrightarrow> y \<le> z \<Longrightarrow> x < (z :: f64)"
  by (meson f64_le_trans f64_less_le)

lemma f64_le_less_trans [trans]: "x \<le> y \<Longrightarrow> y < z \<Longrightarrow> x < (z :: f64)"
  by (meson f64_le_trans f64_less_le)

lemma f64_le_not_nan: "x \<le> y \<Longrightarrow> \<not> is_nan x \<and> \<not> is_nan y"
proof (transfer)
  fix x y show "raw_le x y \<Longrightarrow> x \<noteq> RNaN \<and> y \<noteq> RNaN" by (cases x; cases y) auto
qed

lemma f64_less_not_nan: "x < y \<Longrightarrow> \<not> is_nan x \<and> \<not> is_nan y"
  using f64_le_not_nan[of x y] by (simp add: f64_less_le)

lemma f64_le_refl [simp]: "x \<le> x \<longleftrightarrow> \<not> is_nan x"
proof (transfer)
  fix x show "raw_le x x = (x \<noteq> RNaN)" by (cases x) auto
qed

lemma f64_less_irrefl [simp]: "\<not> x < (x :: f64)"
  by (simp add: f64_less_le)

lemma f64_linear: "\<not> is_nan x \<Longrightarrow> \<not> is_nan y \<Longrightarrow> x \<le> y \<or> y \<le> x"
proof (transfer)
  fix x y show "x \<noteq> RNaN \<Longrightarrow> y \<noteq> RNaN \<Longrightarrow> raw_le x y \<or> raw_le y x"
    by (cases x; cases y) auto
qed

lemma f64_not_le: "\<not> is_nan x \<Longrightarrow> \<not> is_nan y \<Longrightarrow> \<not> x \<le> y \<longleftrightarrow> y < x"
  using f64_linear f64_less_le by blast

lemma f64_not_less: "\<not> is_nan x \<Longrightarrow> \<not> is_nan y \<Longrightarrow> \<not> x < y \<longleftrightarrow> y \<le> x"
  using f64_linear f64_less_le by blast

lemma f64_less_imp_not_le: "x < y \<Longrightarrow> \<not> y \<le> (x :: f64)"
  by (simp add: f64_less_le)

lemma f64_le_imp_not_less: "x \<le> y \<Longrightarrow> \<not> y < (x :: f64)"
  by (simp add: f64_less_le)

subsection \<open>Finite values\<close>

lemma is_finite_not_nan: "is_finite x \<Longrightarrow> \<not> is_nan x"
  by transfer auto

lemma f64_le_finite: "is_finite x \<Longrightarrow> is_finite y \<Longrightarrow> x \<le> y \<longleftrightarrow> fval x \<le> fval y"
  by transfer (auto split: fraw.splits)

lemma f64_less_finite: "is_finite x \<Longrightarrow> is_finite y \<Longrightarrow> x < y \<longleftrightarrow> fval x < fval y"
  by (auto simp: f64_less_le f64_le_finite)

lemma f64_between_finite: "is_finite x \<Longrightarrow> is_finite z \<Longrightarrow> x \<le> y \<Longrightarrow> y \<le> z \<Longrightarrow> is_finite y"
proof (transfer)
  fix x y z
  show "(case x of RFin s q \<Rightarrow> True | _ \<Rightarrow> False) \<Longrightarrow> (case z of RFin s q \<Rightarrow> True | _ \<Rightarrow> False) \<Longrightarrow>
    raw_le x y \<Longrightarrow> raw_le y z \<Longrightarrow> (case y of RFin s q \<Rightarrow> True | _ \<Rightarrow> False)"
    by (cases x; cases y; cases z) auto
qed

lemma finite_0 [simp]: "is_finite 0" "fval 0 = 0"
  by (transfer, simp)+

lemma finite_1 [simp]: "is_finite 1" "fval 1 = 1"
  by (transfer, simp)+

lemma rnd_fval [simp]: "rnd (fval x) = fval x"
  by transfer (auto split: fraw.splits)

lemma finite_add_args: "is_finite (x + y) \<Longrightarrow> is_finite x \<and> is_finite y"
proof (transfer)
  fix x y
  show "(case raw_add x y of RFin s q \<Rightarrow> True | _ \<Rightarrow> False) \<Longrightarrow>
    (case x of RFin s q \<Rightarrow> True | _ \<Rightarrow> False) \<and> (case y of RFin s q \<Rightarrow> True | _ \<Rightarrow> False)"
    by (cases x; cases y) (auto split: if_splits)
qed

lemma raw_neg_view:
  "(case raw_neg x of RFin s q \<Rightarrow> True | _ \<Rightarrow> False) = (case x of RFin s q \<Rightarrow> True | _ \<Rightarrow> False)"
  "(case raw_neg x of RFin s q \<Rightarrow> q | _ \<Rightarrow> 0) = - (case x of RFin s q \<Rightarrow> q | _ \<Rightarrow> 0)"
  "(raw_neg x = RNaN) = (x = RNaN)"
  by (cases x; simp)+

lemma finite_uminus [simp]: "is_finite (- x) = is_finite x" "fval (- x) = - fval x" "is_nan (- x) = is_nan x"
  by (transfer, rule raw_neg_view)+

lemma f64_minus_def: "x - y = x + - (y :: f64)"
  by transfer simp

lemma fval_add: "is_finite (x + y) \<Longrightarrow> fval (x + y) = rnd (fval x + fval y)"
proof (transfer)
  fix x y
  show "(case raw_add x y of RFin s q \<Rightarrow> True | _ \<Rightarrow> False) \<Longrightarrow>
    (case raw_add x y of RFin s q \<Rightarrow> q | _ \<Rightarrow> 0) =
    rnd ((case x of RFin s q \<Rightarrow> q | _ \<Rightarrow> 0) + (case y of RFin s q \<Rightarrow> q | _ \<Rightarrow> 0))"
    by (cases x; cases y) (auto simp: raw_mk_def Let_def split: if_splits)
qed

lemma fval_sub: "is_finite (x - y) \<Longrightarrow> fval (x - y) = rnd (fval x - fval y)"
  using fval_add[of x "- y"] by (simp add: f64_minus_def)

lemma finite_sub_args: "is_finite (x - y) \<Longrightarrow> is_finite x \<and> is_finite y"
  using finite_add_args[of x "- y"] by (simp add: f64_minus_def)

lemma fval_mul: "is_finite (x * y) \<Longrightarrow> fval (x * y) = rnd (fval x * fval y)"
proof (transfer)
  fix x y
  show "(case raw_mul x y of RFin s q \<Rightarrow> True | _ \<Rightarrow> False) \<Longrightarrow>
    (case raw_mul x y of RFin s q \<Rightarrow> q | _ \<Rightarrow> 0) =
    rnd ((case x of RFin s q \<Rightarrow> q | _ \<Rightarrow> 0) * (case y of RFin s q \<Rightarrow> q | _ \<Rightarrow> 0))"
    by (cases x; cases y) (auto simp: raw_mk_def Let_def split: if_splits)
qed

lemma finite_mul_args: "is_finite (x * y) \<Longrightarrow> is_finite x \<and> is_finite y"
proof (transfer)
  fix x y
  show "(case raw_mul x y of RFin s q \<Rightarrow> True | _ \<Rightarrow> False) \<Longrightarrow>
    (case x of RFin s q \<Rightarrow> True | _ \<Rightarrow> False) \<and> (case y of RFin s q \<Rightarrow> True | _ \<Rightarrow> False)"
    by (cases x; cases y) (auto split: if_splits)
qed

lemma fval_div: "is_finite (x / y) \<Longrightarrow> is_finite y \<Longrightarrow> fval (x / y) = rnd (fval x / fval y)"
proof (transfer)
  fix x y
  show "(case raw_div x y of RFin s q \<Rightarrow> True | _ \<Rightarrow> False) \<Longrightarrow> (case y of RFin s q \<Rightarrow> True | _ \<Rightarrow> False) \<Longrightarrow>
    (case raw_div x y of RFin s q \<Rightarrow> q | _ \<Rightarrow> 0) =
    rnd ((case x of RFin s q \<Rightarrow> q | _ \<Rightarrow> 0) / (case y of RFin s q \<Rightarrow> q | _ \<Rightarrow> 0))"
    by (cases x; cases y) (auto simp: raw_mk_def Let_def split: if_splits)
qed

lemma finite_div_arg: "is_finite (x / y) \<Longrightarrow> is_finite x"
proof (transfer)
  fix x y
  show "(case raw_div x y of RFin s q \<Rightarrow> True | _ \<Rightarrow> False) \<Longrightarrow> (case x of RFin s q \<Rightarrow> True | _ \<Rightarrow> False)"
    by (cases x; cases y) (auto split: if_splits)
qed

lemma raw_mk_exact: "rnd q = q \<Longrightarrow> \<bar>q\<bar> < fmax_bound \<Longrightarrow> \<exists>t. raw_mk s q = RFin t q"
  by (simp add: raw_mk_def)

lemma floor_exact:
  assumes "rnd q = q" "\<bar>q\<bar> < fmax_bound"
  shows "rnd (of_int \<lfloor>q\<rfloor>) = of_int \<lfloor>q\<rfloor>" "\<bar>of_int \<lfloor>q\<rfloor> :: rat\<bar> < fmax_bound"
proof -
  show "rnd (of_int \<lfloor>q\<rfloor>) = of_int \<lfloor>q\<rfloor>" using rnd_floor[of q] assms(1) by simp
  show "\<bar>of_int \<lfloor>q\<rfloor> :: rat\<bar> < fmax_bound"
  proof (cases "\<bar>\<lfloor>q\<rfloor>\<bar> \<le> 2 ^ 53")
    case True
    then have "(of_int \<bar>\<lfloor>q\<rfloor>\<bar> :: rat) \<le> of_int (2 ^ 53)" by (simp only: of_int_le_iff)
    also have "\<dots> < fmax_bound" by (simp add: fmax_bound_def)
    finally show ?thesis by simp
  next
    case False
    then have "of_int \<lfloor>q\<rfloor> = q" using floor_form[of q] unfolding assms(1) by blast
    then show ?thesis using assms(2) by metis
  qed
qed

lemma ceil_exact:
  assumes "rnd q = q" "\<bar>q\<bar> < fmax_bound"
  shows "rnd (of_int \<lceil>q\<rceil>) = of_int \<lceil>q\<rceil>" "\<bar>of_int \<lceil>q\<rceil> :: rat\<bar> < fmax_bound"
  using floor_exact[of "- q"] assms by (simp_all add: ceiling_def)

lemma raw_int_view:
  assumes "wf_raw x" "\<And>s q. x = RFin s q \<Longrightarrow> rnd (of_int (f q)) = of_int (f q) \<and> \<bar>of_int (f q) :: rat\<bar> < fmax_bound"
    and "f 0 = 0"
  shows "(case raw_int f x of RFin s q \<Rightarrow> True | _ \<Rightarrow> False) = (case x of RFin s q \<Rightarrow> True | _ \<Rightarrow> False)"
    and "(case raw_int f x of RFin s q \<Rightarrow> q | _ \<Rightarrow> 0) = of_int (f (case x of RFin s q \<Rightarrow> q | _ \<Rightarrow> 0))"
proof -
  have "x = RFin s q \<Longrightarrow> \<exists>t. raw_int f x = RFin t (of_int (f q))" for s q
    using assms(2)[of s q] raw_mk_exact[of "of_int (f q)" s] by simp
  then show "(case raw_int f x of RFin s q \<Rightarrow> True | _ \<Rightarrow> False) = (case x of RFin s q \<Rightarrow> True | _ \<Rightarrow> False)"
    "(case raw_int f x of RFin s q \<Rightarrow> q | _ \<Rightarrow> 0) = of_int (f (case x of RFin s q \<Rightarrow> q | _ \<Rightarrow> 0))"
    using assms(3) by (cases x; fastforce)+
qed

lemma floor_finite [simp]: "is_finite (f64_floor x) = is_finite x" "fval (f64_floor x) = of_int \<lfloor>fval x\<rfloor>"
  by (transfer, rule raw_int_view, simp_all add: floor_exact)+

lemma ceil_finite [simp]: "is_finite (f64_ceil x) = is_finite x" "fval (f64_ceil x) = of_int \<lceil>fval x\<rceil>"
  by (transfer, rule raw_int_view, simp_all add: ceil_exact)+

subsection \<open>Monotonicity and sign\<close>

lemma raw_mk_not_nan [simp]: "raw_mk s q \<noteq> RNaN"
  by (simp add: raw_mk_def Let_def)

lemma raw_le_inf [simp]: "raw_le (RInf True) x \<longleftrightarrow> x \<noteq> RNaN" "raw_le x (RInf False) \<longleftrightarrow> x \<noteq> RNaN"
  by (cases x; simp)+

lemma raw_mk_mono: "q \<le> r \<Longrightarrow> raw_le (raw_mk s q) (raw_mk t r)"
  using rnd_mono[of q r] by (auto simp: raw_mk_def Let_def)

lemma f64_add_mono:
  "x \<le> y \<Longrightarrow> \<not> is_nan (x + z) \<Longrightarrow> \<not> is_nan (y + z) \<Longrightarrow> x + z \<le> y + (z :: f64)"
proof (transfer)
  fix x y z
  show "raw_le x y \<Longrightarrow> raw_add x z \<noteq> RNaN \<Longrightarrow> raw_add y z \<noteq> RNaN \<Longrightarrow> raw_le (raw_add x z) (raw_add y z)"
    by (cases x; cases y; cases z) (auto intro: raw_mk_mono split: if_splits)
qed

lemma f64_add_comm: "x + y = y + (x :: f64)"
proof (transfer)
  fix x y show "raw_add x y = raw_add y x"
    by (cases x; cases y) (auto simp: add.commute conj_commute)
qed

lemma f64_mul_comm: "x * y = y * (x :: f64)"
proof (transfer)
  fix x y show "raw_mul x y = raw_mul y x"
    by (cases x; cases y) (auto simp: mult.commute intro!: arg_cong2[where f = raw_mk])
qed

lemma raw_mk_nonneg: "0 \<le> q \<Longrightarrow> raw_le (RFin False 0) (raw_mk s q)"
  using raw_mk_mono[of 0 q False s] by (simp add: raw_mk_def fmax_bound_def)

lemma raw_mk_nonpos: "q \<le> 0 \<Longrightarrow> raw_le (raw_mk s q) (RFin False 0)"
  using raw_mk_mono[of q 0 s False] by (simp add: raw_mk_def fmax_bound_def)

lemma f64_add_nonneg: "0 \<le> x \<Longrightarrow> 0 \<le> y \<Longrightarrow> 0 \<le> x + (y :: f64)"
proof (transfer)
  fix x y show "raw_le (RFin False 0) x \<Longrightarrow> raw_le (RFin False 0) y \<Longrightarrow> raw_le (RFin False 0) (raw_add x y)"
    by (cases x; cases y) (auto intro: raw_mk_nonneg)
qed

lemma f64_mul_nonneg: "0 \<le> x \<Longrightarrow> 0 \<le> y \<Longrightarrow> \<not> is_nan (x * y) \<Longrightarrow> 0 \<le> x * (y :: f64)"
proof (transfer)
  fix x y show "wf_raw x \<Longrightarrow> wf_raw y \<Longrightarrow> raw_le (RFin False 0) x \<Longrightarrow> raw_le (RFin False 0) y \<Longrightarrow>
    raw_mul x y \<noteq> RNaN \<Longrightarrow> raw_le (RFin False 0) (raw_mul x y)"
    by (cases x; cases y) (auto intro: raw_mk_nonneg split: if_splits)
qed

lemma f64_div_nonneg: "0 \<le> x \<Longrightarrow> 0 < y \<Longrightarrow> \<not> is_nan (x / y) \<Longrightarrow> 0 \<le> x / (y :: f64)"
proof (transfer)
  fix x y show "wf_raw x \<Longrightarrow> wf_raw y \<Longrightarrow> raw_le (RFin False 0) x \<Longrightarrow>
    raw_le (RFin False 0) y \<and> \<not> raw_le y (RFin False 0) \<Longrightarrow>
    raw_div x y \<noteq> RNaN \<Longrightarrow> raw_le (RFin False 0) (raw_div x y)"
    by (cases x; cases y) (auto intro: raw_mk_nonneg split: if_splits)
qed

lemma f64_sub_le: "0 \<le> y \<Longrightarrow> \<not> is_nan (x - y) \<Longrightarrow> x - y \<le> (x :: f64)"
proof (transfer)
  fix x y
  assume w: "wf_raw y" "wf_raw x"
  show "raw_le (RFin False 0) y \<Longrightarrow> raw_add x (raw_neg y) \<noteq> RNaN \<Longrightarrow> raw_le (raw_add x (raw_neg y)) x"
  proof (cases x; cases y)
    fix s p t q assume c: "x = RFin s p" "y = RFin t q" and "raw_le (RFin False 0) y"
    then have "raw_le (raw_mk (s \<and> \<not> t) (p - q)) (raw_mk s p)" by (intro raw_mk_mono) simp
    moreover have "raw_mk s p = x"
      using w(2) c by (simp add: raw_mk_def)
    ultimately show "raw_le (raw_add x (raw_neg y)) x" using c by simp
  qed (auto split: if_splits)
qed

lemma f64_sub_nonneg: "y \<le> x \<Longrightarrow> \<not> is_nan (x - y) \<Longrightarrow> 0 \<le> x - (y :: f64)"
proof (transfer)
  fix x y
  show "raw_le y x \<Longrightarrow> raw_add x (raw_neg y) \<noteq> RNaN \<Longrightarrow> raw_le (RFin False 0) (raw_add x (raw_neg y))"
    by (cases x; cases y) (auto intro: raw_mk_nonneg split: if_splits)
qed

lemma f64_sub_nonpos: "x \<le> y \<Longrightarrow> \<not> is_nan (x - y) \<Longrightarrow> x - y \<le> (0 :: f64)"
proof (transfer)
  fix x y
  show "raw_le x y \<Longrightarrow> raw_add x (raw_neg y) \<noteq> RNaN \<Longrightarrow> raw_le (raw_add x (raw_neg y)) (RFin False 0)"
    by (cases x; cases y) (auto intro: raw_mk_nonpos split: if_splits)
qed

lemma f64_sub_self: "\<bar>x - x\<bar> = (0 :: f64) \<or> is_nan \<bar>x - x\<bar>"
proof (transfer)
  fix x show "raw_abs (raw_add x (raw_neg x)) = RFin False 0 \<or> raw_abs (raw_add x (raw_neg x)) = RNaN"
    by (cases x) (auto simp: raw_mk_def fmax_bound_def)
qed

lemma f64_sub_self_small: "0 \<le> t \<Longrightarrow> \<not> t < \<bar>x - (x :: f64)\<bar>"
proof
  assume "0 \<le> t" "t < \<bar>x - x\<bar>"
  then show False
    using f64_sub_self[of x] f64_le_imp_not_less[of 0 t] f64_less_not_nan[of t "\<bar>x - x\<bar>"] by auto
qed

lemma is_finite_sub_self: "is_finite x \<Longrightarrow> fval (x - x) = 0 \<and> is_finite (x - x)"
proof (transfer)
  fix x
  show "(case x of RFin s q \<Rightarrow> True | _ \<Rightarrow> False) \<Longrightarrow>
    (case raw_add x (raw_neg x) of RFin s q \<Rightarrow> q | _ \<Rightarrow> 0) = 0 \<and>
    (case raw_add x (raw_neg x) of RFin s q \<Rightarrow> True | _ \<Rightarrow> False)"
    by (cases x) (auto simp: raw_mk_def fmax_bound_def)
qed

lemma lit_is_finite: "\<bar>rnd q\<bar> < fmax_bound \<Longrightarrow> is_finite (f64_lit q)"
  by transfer (simp add: raw_mk_def Let_def)

lemma lit_fval: "\<bar>rnd q\<bar> < fmax_bound \<Longrightarrow> fval (f64_lit q) = rnd q"
  by transfer (simp add: raw_mk_def Let_def)

lemma rnd_bounded: "\<bar>q\<bar> \<le> of_int (2 ^ 53) \<Longrightarrow> \<bar>rnd q\<bar> < fmax_bound"
proof -
  assume q: "\<bar>q\<bar> \<le> of_int (2 ^ 53)"
  then have "- of_int (2 ^ 53) \<le> q" "q \<le> of_int (2 ^ 53)"
    unfolding abs_le_iff by linarith+
  then have "rnd (of_int (- (2 ^ 53))) \<le> rnd q" "rnd q \<le> rnd (of_int (2 ^ 53))"
    unfolding of_int_minus by (simp_all only: rnd_mono)
  moreover have "rnd (of_int (2 ^ 53)) = of_int (2 ^ 53)" by (rule rnd_int) simp
  ultimately have "\<bar>rnd q\<bar> \<le> of_int (2 ^ 53)"
    unfolding of_int_minus rnd_minus abs_le_iff by linarith
  also have "\<dots> < fmax_bound" by (simp add: fmax_bound_def)
  finally show ?thesis .
qed

lemma lit_small: "\<bar>q\<bar> \<le> of_int (2 ^ 53) \<Longrightarrow> is_finite (f64_lit q) \<and> fval (f64_lit q) = rnd q"
  using rnd_bounded[of q] lit_is_finite[of q] lit_fval[of q] by simp

lemma lit_mono: "q \<le> r \<Longrightarrow> f64_lit q \<le> f64_lit r"
  by transfer (rule raw_mk_mono)

lemma lit_0 [simp]: "f64_lit 0 = 0"
  by transfer (simp add: raw_mk_def fmax_bound_def)

lemma lit_1 [simp]: "f64_lit 1 = 1"
  by transfer (simp add: raw_mk_def fmax_bound_def rnd_int[of 1, simplified])

lemma lit_nonneg: "0 \<le> q \<Longrightarrow> 0 \<le> f64_lit q"
  using lit_mono[of 0 q] by simp

lemma not_nan_simps [simp]: "\<not> is_nan 0" "\<not> is_nan 1" "\<not> is_nan (f64_lit q)" "\<not> is_nan f64_infinity" "is_nan f64_nan"
  by (transfer, simp)+

lemma le_infinity [simp]: "x \<le> f64_infinity \<longleftrightarrow> \<not> is_nan x"
  by transfer simp

lemma f64_mul_le_left: "0 \<le> x \<Longrightarrow> 0 \<le> y \<Longrightarrow> y \<le> 1 \<Longrightarrow> is_finite x \<Longrightarrow> 0 \<le> x * y \<and> x * y \<le> (x :: f64)"
proof (transfer)
  fix x y
  assume w: "wf_raw x" "wf_raw y" and b: "raw_le (RFin False 0) x" "raw_le (RFin False 0) y"
    "raw_le y (RFin False 1)" and f: "case x of RFin s q \<Rightarrow> True | _ \<Rightarrow> False"
  from f obtain s p where x: "x = RFin s p" by (cases x) auto
  from b obtain t q where y: "y = RFin t q" by (cases y) auto
  have "p * q \<le> p * 1" using b x y by (intro mult_left_mono) auto
  then have "raw_le (raw_mk (s \<noteq> t) (p * q)) (raw_mk s p)" by (intro raw_mk_mono) simp
  moreover have "raw_mk s p = x" using w x by (simp add: raw_mk_def)
  moreover have "raw_le (RFin False 0) (raw_mk (s \<noteq> t) (p * q))"
    using b x y by (intro raw_mk_nonneg) simp
  ultimately show "raw_le (RFin False 0) (raw_mul x y) \<and> raw_le (raw_mul x y) x"
    using x y by simp
qed

text \<open>The unit interval is closed under the operations the probability arithmetic uses.\<close>

definition unit_f64 :: "f64 \<Rightarrow> bool" where
  "unit_f64 x \<longleftrightarrow> 0 \<le> x \<and> x \<le> 1"

lemma unit_f64_finite: "unit_f64 x \<Longrightarrow> is_finite x"
  unfolding unit_f64_def by (rule f64_between_finite[of 0 1]) simp_all

lemma unit_f64_mul: "unit_f64 x \<Longrightarrow> unit_f64 y \<Longrightarrow> unit_f64 (x * y)"
  using f64_mul_le_left[of x y] f64_le_trans[of "x * y" x 1] unit_f64_finite[of x]
  by (simp add: unit_f64_def)

lemma unit_f64_1 [simp]: "unit_f64 1"
  by (simp add: unit_f64_def f64_le_finite)

lemma unit_f64_compl: "unit_f64 x \<Longrightarrow> unit_f64 (1 - x)"
proof -
  assume u: "unit_f64 x"
  then have f: "is_finite x" by (rule unit_f64_finite)
  have nn: "\<not> is_nan (1 - x)" using f
  proof transfer
    fix x show "(case x of RFin s q \<Rightarrow> True | _ \<Rightarrow> False) \<Longrightarrow> raw_add (RFin False 1) (raw_neg x) \<noteq> RNaN"
      by (cases x) auto
  qed
  show "unit_f64 (1 - x)"
    using u f64_sub_nonneg[OF _ nn] f64_sub_le[OF _ nn] by (simp add: unit_f64_def)
qed

lemma unit_powi_loop: "unit_f64 a \<Longrightarrow> unit_f64 r \<Longrightarrow> unit_f64 (powi_loop a b r)"
proof (induction a b r rule: powi_loop.induct)
  case (1 a b r)
  have "unit_f64 (a * a)" "unit_f64 (if odd b then r * a else r)"
    using 1(2,3) by (auto intro: unit_f64_mul)
  with 1 show ?case by (subst powi_loop.simps) (auto simp: Let_def)
qed

lemma unit_f64_powi: "unit_f64 a \<Longrightarrow> unit_f64 (f64_powi a b)"
  by (simp add: f64_powi_def unit_powi_loop)

lemma f64_div_unit:
  assumes "is_finite x" "is_finite y" "0 \<le> fval x" "fval x \<le> fval y" "0 < fval y"
  shows "unit_f64 (x / y)"
  using assms unfolding unit_f64_def
proof transfer
  fix x y
  assume f: "case x of RFin s q \<Rightarrow> True | _ \<Rightarrow> False" "case y of RFin s q \<Rightarrow> True | _ \<Rightarrow> False"
    and b: "0 \<le> (case x of RFin s q \<Rightarrow> q | _ \<Rightarrow> 0)"
      "(case x of RFin s q \<Rightarrow> q | _ \<Rightarrow> 0) \<le> (case y of RFin s q \<Rightarrow> q | _ \<Rightarrow> 0)"
      "0 < (case y of RFin s q \<Rightarrow> q | _ \<Rightarrow> 0)"
  from f obtain s p t q where xy: "x = RFin s p" "y = RFin t q" by (cases x; cases y) auto
  with b have u: "0 \<le> p / q" "p / q \<le> 1" and q: "q \<noteq> 0" by (simp_all add: divide_le_eq)
  have "raw_mk False 1 = RFin False 1" using rnd_int[of 1] by (simp add: raw_mk_def fmax_bound_def)
  then have "raw_le (raw_mk (s \<noteq> t) (p / q)) (RFin False 1)"
    using raw_mk_mono[OF u(2), of "s \<noteq> t" False] by simp
  then show "raw_le (RFin False 0) (raw_div x y) \<and> raw_le (raw_div x y) (RFin False 1)"
    using raw_mk_nonneg[OF u(1)] xy q by simp
qed

lemma f64_finite_add_not_nan: "is_finite x \<Longrightarrow> is_finite y \<Longrightarrow> \<not> is_nan (x + y) \<and> \<not> is_nan (x - y)"
proof transfer
  fix x y show "(case x of RFin s q \<Rightarrow> True | _ \<Rightarrow> False) \<Longrightarrow> (case y of RFin s q \<Rightarrow> True | _ \<Rightarrow> False) \<Longrightarrow>
    raw_add x y \<noteq> RNaN \<and> raw_add x (raw_neg y) \<noteq> RNaN"
    by (cases x; cases y) auto
qed

lemma f64_neg_antimono: "x \<le> y \<Longrightarrow> - y \<le> - (x :: f64)"
proof transfer
  fix x y show "raw_le x y \<Longrightarrow> raw_le (raw_neg y) (raw_neg x)" by (cases x; cases y) auto
qed

lemma f64_neg_0_le: "- (0 :: f64) \<le> x \<longleftrightarrow> 0 \<le> x" "x \<le> - (0 :: f64) \<longleftrightarrow> x \<le> 0"
proof -
  show "- (0 :: f64) \<le> x \<longleftrightarrow> 0 \<le> x"
  proof transfer
    fix x show "raw_le (raw_neg (RFin False 0)) x = raw_le (RFin False 0) x" by (cases x) auto
  qed
  show "x \<le> - (0 :: f64) \<longleftrightarrow> x \<le> 0"
  proof transfer
    fix x show "raw_le x (raw_neg (RFin False 0)) = raw_le x (RFin False 0)" by (cases x) auto
  qed
qed

lemma f64_unit_diff: "unit_f64 x \<Longrightarrow> unit_f64 y \<Longrightarrow> - 1 \<le> x - y \<and> x - y \<le> 1"
proof -
  assume u: "unit_f64 x" "unit_f64 y"
  then have f: "is_finite x" "is_finite y" by (auto intro: unit_f64_finite)
  note nn = f64_finite_add_not_nan[OF f, THEN conjunct2] f64_finite_add_not_nan[OF finite_0(1) f(2), THEN conjunct2]
  have lo: "0 - y \<le> x - y" using u nn f64_add_mono[of 0 x "- y"] by (simp add: unit_f64_def f64_minus_def)
  have "- 1 \<le> 0 - y"
    using u(2) unfolding unit_f64_def
  proof transfer
    fix y assume w: "wf_raw y" and "raw_le (RFin False 0) y \<and> raw_le y (RFin False 1)"
    then show "raw_le (raw_neg (RFin False 1)) (raw_add (RFin False 0) (raw_neg y))"
      by (cases y) (auto simp: raw_mk_def Let_def)
  qed
  with lo have "- 1 \<le> x - y" by (metis f64_le_trans)
  moreover have "x - y \<le> 1"
    using u f64_sub_le[OF _ nn(1)] f64_le_trans by (auto simp: unit_f64_def)
  ultimately show ?thesis by simp
qed

subsection \<open>Minimum, maximum and clamping\<close>

lemma f64_max_ge: "\<not> is_nan x \<Longrightarrow> x \<le> f64_max x y" "\<not> is_nan y \<Longrightarrow> y \<le> f64_max x y"
  using f64_not_less[of x y] by (auto simp: f64_max_def f64_less_imp_le)

lemma f64_min_le: "\<not> is_nan x \<Longrightarrow> f64_min x y \<le> x" "\<not> is_nan y \<Longrightarrow> f64_min x y \<le> y"
  using f64_not_less[of y x] by (auto simp: f64_min_def f64_less_imp_le)

lemma f64_min_cases: "f64_min x y = x \<or> f64_min x y = y"
  by (simp add: f64_min_def)

lemma f64_max_cases: "f64_max x y = x \<or> f64_max x y = y"
  by (simp add: f64_max_def)

lemma f64_min_nan: "is_nan (f64_min x y) \<longleftrightarrow> is_nan x \<and> is_nan y"
  by (simp add: f64_min_def)

lemma f64_max_nan: "is_nan (f64_max x y) \<longleftrightarrow> is_nan x \<and> is_nan y"
  by (simp add: f64_max_def)

lemma f64_min_greatest: "z \<le> x \<Longrightarrow> z \<le> y \<Longrightarrow> z \<le> f64_min x y"
  by (simp add: f64_min_def)

lemma f64_max_least: "x \<le> z \<Longrightarrow> y \<le> z \<Longrightarrow> f64_max x y \<le> z"
  by (simp add: f64_max_def)

lemma f64_max_0_nonneg [simp]: "0 \<le> f64_max x 0"
  by (rule f64_max_ge) simp

lemma f64_max_0_finite: "is_finite x \<Longrightarrow> is_finite (f64_max x 0)"
  using f64_max_cases[of x 0] by auto

lemma f64_max_0_le: "x \<le> z \<Longrightarrow> 0 \<le> z \<Longrightarrow> f64_max x 0 \<le> z"
  by (rule f64_max_least)

lemma f64_max_0_id: "0 \<le> x \<Longrightarrow> f64_max x 0 = x"
  using f64_le_not_nan[of 0 x] f64_le_imp_not_less[of 0 x] by (simp add: f64_max_def)

lemma f64_clamp_bounds:
  "lo \<le> hi \<Longrightarrow> \<not> is_nan x \<Longrightarrow> lo \<le> f64_clamp x lo hi \<and> f64_clamp x lo hi \<le> hi"
  using f64_le_not_nan[of lo hi]
  by (auto simp: f64_clamp_def Let_def f64_not_less f64_less_imp_le dest: f64_less_imp_le)
end
