(* ===== verification/Prelude.thy ===== *)
theory Prelude
  imports Float64 "HOL-Library.Word"
begin

section \<open>Shared types, standard-library operations and lemmas\<close>

text \<open>
  The vocabulary every component theory uses: the machine integers of the Rust code as words,
  the saturating arithmetic of \<^verbatim>\<open>core::num\<close>, the casts between integers and \<open>f64\<close>, the bounded
  buffers that several components keep, the textual labels that are persisted, and the two
  interfaces that recur: a bounded buffer and a label codec. Additions of \<open>u64\<close> wrap, as they do in
  the release profile of the workspace; a theorem that needs the addition not to wrap says so.
\<close>

named_theorems paint_simps \<open>unfolding rules of the small operations of the model\<close>
named_theorems ledger_simps \<open>field equations of the reserve operations of the bankroll\<close>

type_synonym u64 = "64 word"
type_synonym u32 = "32 word"
type_synonym i64 = int

subsection \<open>Saturating arithmetic and casts\<close>

definition saturating_sub :: "u64 \<Rightarrow> u64 \<Rightarrow> u64" where
  "saturating_sub a b = (if a \<le> b then 0 else a - b)"

definition saturating_add :: "u64 \<Rightarrow> u64 \<Rightarrow> u64" where
  "saturating_add a b = (if unat a + unat b < 2 ^ 64 then a + b else - 1)"

definition saturating_mul :: "u64 \<Rightarrow> u64 \<Rightarrow> u64" where
  "saturating_mul a b = (if unat a * unat b < 2 ^ 64 then a * b else - 1)"

definition abs_diff :: "u64 \<Rightarrow> u64 \<Rightarrow> u64" where
  "abs_diff a b = (if a \<le> b then b - a else a - b)"

definition f64_of_u64 :: "u64 \<Rightarrow> f64" where
  "f64_of_u64 n = f64_lit (of_int (uint n))"

definition f64_of_u32 :: "u32 \<Rightarrow> f64" where
  "f64_of_u32 n = f64_lit (of_int (uint n))"

text \<open>The cast \<open>x as u64\<close>: truncation towards zero, saturation at both ends, zero for NaN.\<close>

definition f64_trunc_sat :: "int \<Rightarrow> int \<Rightarrow> f64 \<Rightarrow> int" where
  "f64_trunc_sat lo hi x =
     (if is_nan x then 0
      else if is_finite x then
        (let t = (if 0 \<le> fval x then \<lfloor>fval x\<rfloor> else \<lceil>fval x\<rceil>) in max lo (min hi t))
      else if 0 < x then hi else lo)"

definition f64_to_u64 :: "f64 \<Rightarrow> u64" where
  "f64_to_u64 x = of_int (f64_trunc_sat 0 (2 ^ 64 - 1) x)"

definition f64_to_u32 :: "f64 \<Rightarrow> u32" where
  "f64_to_u32 x = of_int (f64_trunc_sat 0 (2 ^ 32 - 1) x)"

definition f64_to_i32 :: "f64 \<Rightarrow> int" where
  "f64_to_i32 x = f64_trunc_sat (- (2 ^ 31)) (2 ^ 31 - 1) x"

definition f64_to_usize :: "f64 \<Rightarrow> nat" where
  "f64_to_usize x = nat (f64_trunc_sat 0 (2 ^ 64 - 1) x)"

lemma unat_saturating_sub: "unat (saturating_sub a b) = unat a - unat b"
  by (simp add: saturating_sub_def word_le_nat_alt unat_sub)

lemma saturating_sub_0 [simp]: "saturating_sub a a = 0" "saturating_sub a 0 = a"
  by (simp_all add: saturating_sub_def)

lemma saturating_sub_le: "saturating_sub a b \<le> a"
  by (simp add: word_le_nat_alt unat_saturating_sub)

lemma unat_max_u64: "unat (- 1 :: u64) = 2 ^ 64 - 1"
  by (simp add: unsigned_minus_1_eq_mask mask_eq_exp_minus_1)

lemma unat_u64_less: "unat (a :: u64) < 2 ^ 64"
  by (rule order_less_le_trans[OF unsigned_less]) simp

lemma unat_u32_less: "unat (a :: u32) < 2 ^ 32"
  by (rule order_less_le_trans[OF unsigned_less]) simp

lemma unat_saturating_add: "unat (saturating_add a b) = min (unat a + unat b) (2 ^ 64 - 1)"
  by (auto simp: saturating_add_def unat_word_ariths unat_max_u64 min_def)

lemma saturating_add_ge: "a \<le> saturating_add a b"
  using unat_u64_less[of a] by (simp add: word_le_nat_alt unat_saturating_add)

lemma f64_of_u64_nonneg: "0 \<le> f64_of_u64 n"
  unfolding f64_of_u64_def by (rule lit_nonneg) (simp only: of_int_0_le_iff uint_ge_0)

lemma unat_add_no_wrap: "unat a + unat b < 2 ^ 64 \<Longrightarrow> unat (a + b) = unat a + unat (b :: u64)"
  by (simp add: unat_word_ariths)

subsection \<open>Bounded buffers\<close>

text \<open>The code pushes at the back of a vector and removes index 0 once the length exceeds a bound.\<close>

definition push_bounded :: "nat \<Rightarrow> 'a \<Rightarrow> 'a list \<Rightarrow> 'a list" where
  "push_bounded cap x xs = (let ys = xs @ [x] in if cap < length ys then tl ys else ys)"

locale bounded_buffer =
  fixes push :: "'a \<Rightarrow> 's \<Rightarrow> 's" and items :: "'s \<Rightarrow> 'b list" and cap :: "'s \<Rightarrow> nat" and item :: "'a \<Rightarrow> 'b"
  assumes items_push: "items (push x s) = push_bounded (cap s) (item x) (items s)"
    and cap_push: "cap (push x s) = cap s"
begin

lemma length_push: "length (items s) \<le> cap s \<Longrightarrow> length (items (push x s)) \<le> cap (push x s)"
  by (auto simp: items_push cap_push push_bounded_def Let_def)

lemma cap_fold: "cap (fold push xs s) = cap s"
  by (induction xs arbitrary: s) (simp_all add: cap_push)

lemma length_fold: "length (items s) \<le> cap s \<Longrightarrow> length (items (fold push xs s)) \<le> cap s"
proof (induction xs arbitrary: s)
  case (Cons x xs)
  then show ?case using length_push[of s x] Cons.IH[of "push x s"] by (simp add: cap_push)
qed simp

lemma items_push_drop:
  assumes "length (items s) \<le> cap s"
  shows "items (push x s) = drop (Suc (length (items s)) - cap s) (items s @ [item x])"
proof (cases "length (items s) = cap s")
  case True
  then show ?thesis
    by (simp only: items_push push_bounded_def Let_def Suc_diff_le le_refl diff_self_eq_0 drop_Suc drop_0) simp
next
  case False
  with assms show ?thesis by (simp add: items_push push_bounded_def)
qed

text \<open>A run of pushes keeps exactly the most recent entries, in order.\<close>

lemma items_fold:
  assumes "length (items s) \<le> cap s"
  shows "items (fold push xs s) =
    drop (length (items s) + length xs - cap s) (items s @ map item xs)"
proof (induction xs rule: rev_induct)
  case Nil
  then show ?case using assms by simp
next
  case (snoc x xs)
  let ?t = "fold push xs s" and ?n = "length (items s) + length xs"
  let ?L = "items s @ map item xs"
  have len: "length (items ?t) \<le> cap ?t" using length_fold[OF assms] by (simp add: cap_fold)
  have "items (push x ?t) = drop (Suc (length (items ?t)) - cap s) (items ?t @ [item x])"
    using items_push_drop[OF len] by (simp only: cap_fold)
  also have "items ?t @ [item x] = drop (?n - cap s) (?L @ [item x])"
    using snoc.IH by simp
  finally have "items (push x ?t) =
      drop (Suc (length (items ?t)) - cap s + (?n - cap s)) (?L @ [item x])"
    by (simp only: drop_drop)
  moreover have "length (items ?t) = ?n - (?n - cap s)" by (simp only: snoc.IH length_drop length_append length_map)
  then have "Suc (length (items ?t)) - cap s + (?n - cap s) = Suc ?n - cap s" by arith
  ultimately show ?case by simp
qed

end

subsection \<open>Label codecs\<close>

text \<open>
  Enumerations are persisted as text labels and read back. The contract is that reading a label
  gives the value it was written for and that nothing else is accepted.
\<close>

locale label_codec =
  fixes enc :: "'a \<Rightarrow> string" and dec :: "string \<Rightarrow> 'a option"
  assumes dec_enc: "dec (enc x) = Some x"
    and enc_dec: "dec s = Some x \<Longrightarrow> enc x = s"
begin

lemma enc_inj: "enc x = enc y \<longleftrightarrow> x = y"
  using dec_enc by (metis option.inject)

lemma dec_None_iff: "dec s = None \<longleftrightarrow> s \<notin> range enc"
  using dec_enc enc_dec by (metis not_None_eq rangeE rangeI)

lemma dec_Some_iff: "dec s = Some x \<longleftrightarrow> s = enc x"
  using dec_enc enc_dec by blast

end

subsection \<open>Guarded state machines\<close>

text \<open>
  The contract between a component that keeps state and its clients: each operation the client may
  issue keeps the component's invariant, so every sequence of such operations does.
\<close>

locale guarded_machine =
  fixes step :: "'e \<Rightarrow> 's \<Rightarrow> 's" and ok :: "'e \<Rightarrow> bool" and inv :: "'s \<Rightarrow> bool"
  assumes inv_step: "inv s \<Longrightarrow> ok e \<Longrightarrow> inv (step e s)"
begin

lemma inv_run: "inv s \<Longrightarrow> list_all ok es \<Longrightarrow> inv (fold step es s)"
  by (induction es arbitrary: s) (simp_all add: inv_step)

lemma inv_prefix: "inv s \<Longrightarrow> list_all ok (es @ es') \<Longrightarrow> inv (fold step es s)"
  by (simp add: inv_run)

end

text \<open>A machine whose every operation also moves an observation forward in a reflexive, transitive order.\<close>

locale monotone_machine = guarded_machine step ok inv
  for step :: "'e \<Rightarrow> 's \<Rightarrow> 's" and ok :: "'e \<Rightarrow> bool" and inv :: "'s \<Rightarrow> bool" +
  fixes leq :: "'s \<Rightarrow> 's \<Rightarrow> bool"
  assumes leq_refl: "inv s \<Longrightarrow> leq s s"
    and leq_trans: "leq s t \<Longrightarrow> leq t u \<Longrightarrow> leq s u"
    and leq_step: "inv s \<Longrightarrow> ok e \<Longrightarrow> leq s (step e s)"
begin

lemma leq_run: "inv s \<Longrightarrow> list_all ok es \<Longrightarrow> leq s (fold step es s)"
proof (induction es arbitrary: s)
  case (Cons e es)
  then have "leq (step e s) (fold step es (step e s))" by (simp add: inv_step)
  moreover have "leq s (step e s)" using Cons.prems by (simp add: leq_step)
  ultimately show ?case using leq_trans by fastforce
qed (simp add: leq_refl)

end

subsection \<open>Options and lists\<close>

text \<open>\<open>Option::or\<close>, and the predicates \<open>is_some_and\<close> and \<open>is_none_or\<close> of the standard library.\<close>

definition opt_or :: "'a option \<Rightarrow> 'a option \<Rightarrow> 'a option" where
  "opt_or x y = (case x of Some v \<Rightarrow> Some v | None \<Rightarrow> y)"

definition unwrap_or :: "'a option \<Rightarrow> 'a \<Rightarrow> 'a" where
  "unwrap_or x d = (case x of Some v \<Rightarrow> v | None \<Rightarrow> d)"

definition is_some_and :: "'a option \<Rightarrow> ('a \<Rightarrow> bool) \<Rightarrow> bool" where
  "is_some_and x p = (case x of Some v \<Rightarrow> p v | None \<Rightarrow> False)"

definition is_none_or :: "'a option \<Rightarrow> ('a \<Rightarrow> bool) \<Rightarrow> bool" where
  "is_none_or x p = (case x of Some v \<Rightarrow> p v | None \<Rightarrow> True)"

text \<open>\<open>Result::ok\<close>.\<close>

fun result_ok :: "'e + 'a \<Rightarrow> 'a option" where
  "result_ok (Inl e) = None"
| "result_ok (Inr x) = Some x"

lemma option_ops [simp]:
  "opt_or None y = y" "opt_or (Some v) y = Some v"
  "unwrap_or None d = d" "unwrap_or (Some v) d = v"
  "is_some_and None p = False" "is_some_and (Some v) p = p v"
  "is_none_or None p = True" "is_none_or (Some v) p = p v"
  by (simp_all add: opt_or_def unwrap_or_def is_some_and_def is_none_or_def)

text \<open>\<open>Iterator::position\<close>.\<close>

fun position :: "('a \<Rightarrow> bool) \<Rightarrow> 'a list \<Rightarrow> nat option" where
  "position p [] = None"
| "position p (x # xs) = (if p x then Some 0 else map_option Suc (position p xs))"

lemma position_Some:
  "position p xs = Some i \<Longrightarrow> i < length xs \<and> p (xs ! i) \<and> (\<forall>j < i. \<not> p (xs ! j))"
proof (induction xs arbitrary: i)
  case (Cons x xs)
  show ?case
  proof (cases "p x")
    case False
    with Cons.prems obtain j where "position p xs = Some j" "i = Suc j" by auto
    with Cons.IH[of j] False show ?thesis by (auto simp: less_Suc_eq_0_disj)
  qed (use Cons.prems in auto)
qed simp

lemma position_None: "position p xs = None \<longleftrightarrow> (\<forall>x \<in> set xs. \<not> p x)"
  by (induction xs) auto

text \<open>Decimal formatting of integers.\<close>

fun nat_digits :: "nat \<Rightarrow> string \<Rightarrow> string" where
  "nat_digits n acc = (let acc' = char_of (48 + n mod 10) # acc in
     if n < 10 then acc' else nat_digits (n div 10) acc')"

declare nat_digits.simps [simp del]

definition nat_to_string :: "nat \<Rightarrow> string" where
  "nat_to_string n = nat_digits n []"

definition int_to_string :: "int \<Rightarrow> string" where
  "int_to_string i = (if i < 0 then CHR ''-'' # nat_to_string (nat (- i)) else nat_to_string (nat i))"

text \<open>A JSON value, as \<^verbatim>\<open>serde_json::json!\<close> builds it: a number that is not finite becomes null.\<close>

datatype json = JNull | JBool bool | JNum f64 | JInt int | JStr string | JArr "json list" | JObj "(string \<times> json) list"

definition json_f64 :: "f64 \<Rightarrow> json" where
  "json_f64 x = (if is_finite x then JNum x else JNull)"

definition json_u64 :: "u64 \<Rightarrow> json" where
  "json_u64 n = JInt (uint n)"

definition json_u32 :: "u32 \<Rightarrow> json" where
  "json_u32 n = JInt (uint n)"

definition json_opt :: "('a \<Rightarrow> json) \<Rightarrow> 'a option \<Rightarrow> json" where
  "json_opt f x = (case x of Some v \<Rightarrow> f v | None \<Rightarrow> JNull)"

end
