(* ===== verification/Types.thy ===== *)
theory Types
  imports Prelude
begin

section \<open>Domain types\<close>

text \<open>
  \<^verbatim>\<open>src/bots/paint/src/types.rs\<close> and the feature snapshot of \<^verbatim>\<open>signal_features.rs\<close>: directions, trade
  states and fidelities with the labels they are persisted under, the top-of-book quotes, the
  signal with its telemetry, the strategy context, the rejection samples, and the simulated trade
  with its settlement result. A struct is a record whose fields carry the source's names behind a
  short prefix; a JSON object is the association list of its members in source order.
\<close>

type_synonym json_object = "(string \<times> json) list"

subsection \<open>Persisted labels\<close>

datatype SignalDirection = Up | Down

fun direction_to_string :: "SignalDirection \<Rightarrow> string" where
  "direction_to_string Up = ''UP''"
| "direction_to_string Down = ''DOWN''"

definition direction_from_str :: "string \<Rightarrow> string + SignalDirection" where
  "direction_from_str s =
     (if s = ''UP'' then Inr Up else if s = ''DOWN'' then Inr Down
      else Inl (''invalid SignalDirection: '' @ s))"

datatype TradeStatus = Open | Closed | Expired

fun trade_status_to_string :: "TradeStatus \<Rightarrow> string" where
  "trade_status_to_string Open = ''open''"
| "trade_status_to_string Closed = ''closed''"
| "trade_status_to_string Expired = ''expired''"

definition trade_status_from_str :: "string \<Rightarrow> string + TradeStatus" where
  "trade_status_from_str s =
     (if s = ''open'' then Inr Open else if s = ''closed'' then Inr Closed
      else if s = ''expired'' then Inr Expired else Inl (''invalid TradeStatus: '' @ s))"

datatype ReplayFidelity = RawEvent | LegacySnapshot

fun fidelity_to_string :: "ReplayFidelity \<Rightarrow> string" where
  "fidelity_to_string RawEvent = ''raw_event''"
| "fidelity_to_string LegacySnapshot = ''legacy_snapshot''"

definition fidelity_from_str :: "string \<Rightarrow> string + ReplayFidelity" where
  "fidelity_from_str s =
     (if s = ''raw_event'' then Inr RawEvent else if s = ''legacy_snapshot'' then Inr LegacySnapshot
      else Inl (''invalid ReplayFidelity: '' @ s))"

interpretation direction_codec: label_codec direction_to_string "result_ok \<circ> direction_from_str"
proof
  show "(result_ok \<circ> direction_from_str) (direction_to_string x) = Some x" for x
    by (cases x) (simp_all add: direction_from_str_def)
  show "direction_to_string x = s" if "(result_ok \<circ> direction_from_str) s = Some x" for s x
    using that by (auto simp: direction_from_str_def split: if_splits)
qed

interpretation trade_status_codec: label_codec trade_status_to_string "result_ok \<circ> trade_status_from_str"
proof
  show "(result_ok \<circ> trade_status_from_str) (trade_status_to_string x) = Some x" for x
    by (cases x) (simp_all add: trade_status_from_str_def)
  show "trade_status_to_string x = s" if "(result_ok \<circ> trade_status_from_str) s = Some x" for s x
    using that by (auto simp: trade_status_from_str_def split: if_splits)
qed

interpretation fidelity_codec: label_codec fidelity_to_string "result_ok \<circ> fidelity_from_str"
proof
  show "(result_ok \<circ> fidelity_from_str) (fidelity_to_string x) = Some x" for x
    by (cases x) (simp_all add: fidelity_from_str_def)
  show "fidelity_to_string x = s" if "(result_ok \<circ> fidelity_from_str) s = Some x" for s x
    using that by (auto simp: fidelity_from_str_def split: if_splits)
qed

datatype StrategyRejectionReason =
    WindowTooLate
  | BookUnavailable
  | FeaturesStale
  | LegsOutOfSync
  | SpreadBudgetTooSmall
  | BlockedByRouter
  | CooldownActive
  | NonPositiveQuotes
  | DirectionNotSelected
  | EntryAskBelowMin
  | EntryAskAboveMax
  | CalmWindowInactive
  | DistanceBelowThreshold
  | VolatilityTooHigh
  | OpenCrossesTooHigh
  | OrderflowNotAligned
  | SpreadThresholdNotMet
  | LeggingRiskTooHigh
  | ExpectedEdgeNonPositive
  | ExpectedEdgeBelowMin
  | DuplicateOpenPosition
  | DuplicatePendingOrder

fun rejection_reason_as_str :: "StrategyRejectionReason \<Rightarrow> string" where
  "rejection_reason_as_str WindowTooLate = ''window_too_late''"
| "rejection_reason_as_str BookUnavailable = ''book_unavailable''"
| "rejection_reason_as_str FeaturesStale = ''features_stale''"
| "rejection_reason_as_str LegsOutOfSync = ''legs_out_of_sync''"
| "rejection_reason_as_str SpreadBudgetTooSmall = ''spread_budget_too_small''"
| "rejection_reason_as_str BlockedByRouter = ''blocked_by_router''"
| "rejection_reason_as_str CooldownActive = ''cooldown_active''"
| "rejection_reason_as_str NonPositiveQuotes = ''non_positive_quotes''"
| "rejection_reason_as_str DirectionNotSelected = ''direction_not_selected''"
| "rejection_reason_as_str EntryAskBelowMin = ''entry_ask_below_min''"
| "rejection_reason_as_str EntryAskAboveMax = ''entry_ask_above_max''"
| "rejection_reason_as_str CalmWindowInactive = ''calm_window_inactive''"
| "rejection_reason_as_str DistanceBelowThreshold = ''distance_below_threshold''"
| "rejection_reason_as_str VolatilityTooHigh = ''volatility_too_high''"
| "rejection_reason_as_str OpenCrossesTooHigh = ''open_crosses_too_high''"
| "rejection_reason_as_str OrderflowNotAligned = ''orderflow_not_aligned''"
| "rejection_reason_as_str SpreadThresholdNotMet = ''spread_threshold_not_met''"
| "rejection_reason_as_str LeggingRiskTooHigh = ''legging_risk_too_high''"
| "rejection_reason_as_str ExpectedEdgeNonPositive = ''expected_edge_non_positive''"
| "rejection_reason_as_str ExpectedEdgeBelowMin = ''expected_edge_below_min''"
| "rejection_reason_as_str DuplicateOpenPosition = ''duplicate_open_position''"
| "rejection_reason_as_str DuplicatePendingOrder = ''duplicate_pending_order''"

datatype FeatureMode = LegacyCore | RawEventFull

fun feature_mode_as_str :: "FeatureMode \<Rightarrow> string" where
  "feature_mode_as_str LegacyCore = ''legacy_core''"
| "feature_mode_as_str RawEventFull = ''raw_event_full''"

subsection \<open>Quotes and market windows\<close>

record order_level =
  lvl_price :: f64
  lvl_size :: f64

record top_of_book =
  tob_best_bid :: f64
  tob_best_ask :: f64
  tob_bid_size :: f64
  tob_ask_size :: f64
  tob_timestamp :: u64
  tob_observed_at_ms :: u64

record book_state =
  book_up :: "top_of_book option"
  book_down :: "top_of_book option"

record market_window =
  mw_market_id :: string
  mw_question :: string
  mw_up_token_id :: string
  mw_down_token_id :: string
  mw_condition_id :: string
  mw_start_time :: u64
  mw_end_time :: u64
  mw_slug :: string
  mw_outcome :: "string option"
  mw_resolution_source :: "string option"
  mw_fee_profile :: "string option"
  mw_order_min_size :: "f64 option"
  mw_order_price_min_tick_size :: "f64 option"
  mw_maker_base_fee :: "f64 option"
  mw_taker_base_fee :: "f64 option"
  mw_rewards_min_size :: "f64 option"
  mw_rewards_max_spread :: "f64 option"
  mw_fees_enabled :: "bool option"
  mw_fee_schedule_json :: "string option"
  mw_token_fee_rates_json :: "string option"
  mw_accepting_orders :: "bool option"
  mw_accepting_orders_timestamp :: "string option"
  mw_clear_book_on_start :: "bool option"

definition effective_book_timestamp :: "top_of_book \<Rightarrow> u64" where
  "effective_book_timestamp book = max (tob_observed_at_ms book) (tob_timestamp book)"

subsection \<open>Feature snapshot\<close>

record features =
  ft_feature_mode :: FeatureMode
  ft_momentum_30s :: f64
  ft_distance_from_open_bps :: "f64 option"
  ft_return_250ms :: "f64 option"
  ft_return_500ms :: "f64 option"
  ft_return_1000ms :: "f64 option"
  ft_chainlink_basis_bps :: "f64 option"
  ft_realized_vol_5s_bps :: "f64 option"
  ft_realized_vol_15s_bps :: "f64 option"
  ft_realized_vol_30s_bps :: "f64 option"
  ft_open_crosses_10s :: "u32 option"
  ft_open_crosses_30s :: "u32 option"
  ft_min_signed_distance_10s_bps :: "f64 option"
  ft_max_signed_distance_10s_bps :: "f64 option"
  ft_min_signed_distance_30s_bps :: "f64 option"
  ft_max_signed_distance_30s_bps :: "f64 option"
  ft_summed_ask_edge :: "f64 option"
  ft_summed_mid_edge :: "f64 option"
  ft_up_ask :: "f64 option"
  ft_down_ask :: "f64 option"
  ft_total_ask :: "f64 option"
  ft_binance_age_ms :: "u64 option"
  ft_chainlink_age_ms :: "u64 option"
  ft_clob_age_ms :: "u64 option"
  ft_quote_age_ms :: "u64 option"
  ft_book_staleness_ms :: "u64 option"
  ft_up_effective_book_ts_ms :: "u64 option"
  ft_down_effective_book_ts_ms :: "u64 option"
  ft_inter_leg_skew_ms :: "u64 option"
  ft_binance_signed_trade_imbalance :: "f64 option"
  ft_binance_book_imbalance :: "f64 option"
  ft_binance_depth_sweep_cost :: "f64 option"
  ft_polymarket_quote_churn_per_s :: "f64 option"
  ft_polymarket_microprice_skew :: "f64 option"
  ft_event_to_decision_lag_us :: "u64 option"
  ft_expected_up_fee :: "f64 option"
  ft_expected_down_fee :: "f64 option"
  ft_expected_up_slippage :: "f64 option"
  ft_expected_down_slippage :: "f64 option"

definition features_default :: features where
  "features_default = \<lparr>
     ft_feature_mode = LegacyCore,
     ft_momentum_30s = 0,
     ft_distance_from_open_bps = None,
     ft_return_250ms = None,
     ft_return_500ms = None,
     ft_return_1000ms = None,
     ft_chainlink_basis_bps = None,
     ft_realized_vol_5s_bps = None,
     ft_realized_vol_15s_bps = None,
     ft_realized_vol_30s_bps = None,
     ft_open_crosses_10s = None,
     ft_open_crosses_30s = None,
     ft_min_signed_distance_10s_bps = None,
     ft_max_signed_distance_10s_bps = None,
     ft_min_signed_distance_30s_bps = None,
     ft_max_signed_distance_30s_bps = None,
     ft_summed_ask_edge = None,
     ft_summed_mid_edge = None,
     ft_up_ask = None,
     ft_down_ask = None,
     ft_total_ask = None,
     ft_binance_age_ms = None,
     ft_chainlink_age_ms = None,
     ft_clob_age_ms = None,
     ft_quote_age_ms = None,
     ft_book_staleness_ms = None,
     ft_up_effective_book_ts_ms = None,
     ft_down_effective_book_ts_ms = None,
     ft_inter_leg_skew_ms = None,
     ft_binance_signed_trade_imbalance = None,
     ft_binance_book_imbalance = None,
     ft_binance_depth_sweep_cost = None,
     ft_polymarket_quote_churn_per_s = None,
     ft_polymarket_microprice_skew = None,
     ft_event_to_decision_lag_us = None,
     ft_expected_up_fee = None,
     ft_expected_down_fee = None,
     ft_expected_up_slippage = None,
     ft_expected_down_slippage = None\<rparr>"

definition present :: "'a option \<Rightarrow> u32" where
  "present x = (case x of Some _ \<Rightarrow> 1 | None \<Rightarrow> 0)"

definition available_feature_count :: "features \<Rightarrow> u32" where
  "available_feature_count f = sum_list [
     present (ft_distance_from_open_bps f),
     present (ft_return_250ms f),
     present (ft_return_500ms f),
     present (ft_return_1000ms f),
     present (ft_chainlink_basis_bps f),
     present (ft_realized_vol_5s_bps f),
     present (ft_realized_vol_15s_bps f),
     present (ft_realized_vol_30s_bps f),
     present (ft_open_crosses_10s f),
     present (ft_open_crosses_30s f),
     present (ft_min_signed_distance_10s_bps f),
     present (ft_max_signed_distance_10s_bps f),
     present (ft_min_signed_distance_30s_bps f),
     present (ft_max_signed_distance_30s_bps f),
     present (ft_summed_ask_edge f),
     present (ft_summed_mid_edge f),
     present (ft_up_ask f),
     present (ft_down_ask f),
     present (ft_total_ask f),
     present (ft_binance_age_ms f),
     present (ft_chainlink_age_ms f),
     present (ft_clob_age_ms f),
     present (ft_quote_age_ms f),
     present (ft_book_staleness_ms f),
     present (ft_up_effective_book_ts_ms f),
     present (ft_down_effective_book_ts_ms f),
     present (ft_inter_leg_skew_ms f),
     present (ft_binance_signed_trade_imbalance f),
     present (ft_binance_book_imbalance f),
     present (ft_binance_depth_sweep_cost f),
     present (ft_polymarket_quote_churn_per_s f),
     present (ft_polymarket_microprice_skew f),
     present (ft_event_to_decision_lag_us f),
     present (ft_expected_up_fee f),
     present (ft_expected_down_fee f),
     present (ft_expected_up_slippage f),
     present (ft_expected_down_slippage f)]"

definition features_to_json :: "features \<Rightarrow> json_object" where
  "features_to_json f = [
     (''featureMode'', JStr (feature_mode_as_str (ft_feature_mode f))),
     (''momentum30s'', json_f64 (ft_momentum_30s f)),
     (''distanceFromOpenBps'', json_opt json_f64 (ft_distance_from_open_bps f)),
     (''return250ms'', json_opt json_f64 (ft_return_250ms f)),
     (''return500ms'', json_opt json_f64 (ft_return_500ms f)),
     (''return1000ms'', json_opt json_f64 (ft_return_1000ms f)),
     (''chainlinkBasisBps'', json_opt json_f64 (ft_chainlink_basis_bps f)),
     (''realizedVol5sBps'', json_opt json_f64 (ft_realized_vol_5s_bps f)),
     (''realizedVol15sBps'', json_opt json_f64 (ft_realized_vol_15s_bps f)),
     (''realizedVol30sBps'', json_opt json_f64 (ft_realized_vol_30s_bps f)),
     (''openCrosses10s'', json_opt json_u32 (ft_open_crosses_10s f)),
     (''openCrosses30s'', json_opt json_u32 (ft_open_crosses_30s f)),
     (''minSignedDistance10sBps'', json_opt json_f64 (ft_min_signed_distance_10s_bps f)),
     (''maxSignedDistance10sBps'', json_opt json_f64 (ft_max_signed_distance_10s_bps f)),
     (''minSignedDistance30sBps'', json_opt json_f64 (ft_min_signed_distance_30s_bps f)),
     (''maxSignedDistance30sBps'', json_opt json_f64 (ft_max_signed_distance_30s_bps f)),
     (''summedAskEdge'', json_opt json_f64 (ft_summed_ask_edge f)),
     (''summedMidEdge'', json_opt json_f64 (ft_summed_mid_edge f)),
     (''upAsk'', json_opt json_f64 (ft_up_ask f)),
     (''downAsk'', json_opt json_f64 (ft_down_ask f)),
     (''totalAsk'', json_opt json_f64 (ft_total_ask f)),
     (''binanceAgeMs'', json_opt json_u64 (ft_binance_age_ms f)),
     (''chainlinkAgeMs'', json_opt json_u64 (ft_chainlink_age_ms f)),
     (''clobAgeMs'', json_opt json_u64 (ft_clob_age_ms f)),
     (''quoteAgeMs'', json_opt json_u64 (ft_quote_age_ms f)),
     (''bookStalenessMs'', json_opt json_u64 (ft_book_staleness_ms f)),
     (''upEffectiveBookTsMs'', json_opt json_u64 (ft_up_effective_book_ts_ms f)),
     (''downEffectiveBookTsMs'', json_opt json_u64 (ft_down_effective_book_ts_ms f)),
     (''interLegSkewMs'', json_opt json_u64 (ft_inter_leg_skew_ms f)),
     (''binanceSignedTradeImbalance'', json_opt json_f64 (ft_binance_signed_trade_imbalance f)),
     (''binanceBookImbalance'', json_opt json_f64 (ft_binance_book_imbalance f)),
     (''binanceDepthSweepCost'', json_opt json_f64 (ft_binance_depth_sweep_cost f)),
     (''polymarketQuoteChurnPerS'', json_opt json_f64 (ft_polymarket_quote_churn_per_s f)),
     (''polymarketMicropriceSkew'', json_opt json_f64 (ft_polymarket_microprice_skew f)),
     (''eventToDecisionLagUs'', json_opt json_u64 (ft_event_to_decision_lag_us f)),
     (''expectedUpFee'', json_opt json_f64 (ft_expected_up_fee f)),
     (''expectedDownFee'', json_opt json_f64 (ft_expected_down_fee f)),
     (''expectedUpSlippage'', json_opt json_f64 (ft_expected_up_slippage f)),
     (''expectedDownSlippage'', json_opt json_f64 (ft_expected_down_slippage f))]"

subsection \<open>Signals and contexts\<close>

record signal_telemetry =
  tel_generated_at_ms :: u64
  tel_generated_at_us :: "u64 option"
  tel_order_submitted_at_ms :: "u64 option"
  tel_order_submitted_at_us :: "u64 option"
  tel_expected_arrival_at_ms :: "u64 option"
  tel_expected_arrival_at_us :: "u64 option"
  tel_order_processed_at_ms :: "u64 option"
  tel_order_processed_at_us :: "u64 option"
  tel_effective_arrival_delay_ms :: "u64 option"
  tel_binance_age_ms :: "u64 option"
  tel_chainlink_age_ms :: "u64 option"
  tel_clob_age_ms :: "u64 option"
  tel_quote_age_ms :: "u64 option"
  tel_book_staleness_ms :: "u64 option"
  tel_expected_fee :: "f64 option"
  tel_expected_slippage :: "f64 option"
  tel_expected_edge :: "f64 option"
  tel_available_feature_count :: u32
  tel_decision_status :: string
  tel_rejection_reason :: "string option"
  tel_features_json :: json_object

record signal =
  sig_timestamp :: u64
  sig_strategy :: string
  sig_strategy_version :: string
  sig_feature_mode :: string
  sig_direction :: SignalDirection
  sig_confidence :: f64
  sig_binance_price :: f64
  sig_chainlink_price :: f64
  sig_up_ask :: f64
  sig_down_ask :: f64
  sig_up_bid :: f64
  sig_down_bid :: f64
  sig_expected_edge :: "f64 option"
  sig_metadata :: json_object
  sig_telemetry :: "signal_telemetry option"

record strategy_context =
  ctx_binance_price :: f64
  ctx_binance_momentum :: f64
  ctx_chainlink_price :: "f64 option"
  ctx_book_state :: book_state
  ctx_window_open_price :: "f64 option"
  ctx_window_time_remaining_ms :: u64
  ctx_now_us :: "u64 option"
  ctx_features :: features

record rejection_sample =
  rs_up_ask :: "f64 option"
  rs_down_ask :: "f64 option"
  rs_total_ask :: "f64 option"
  rs_distance_from_open_bps :: "f64 option"
  rs_realized_vol_15s_bps :: "f64 option"
  rs_distance_vol_ratio :: "f64 option"
  rs_open_crosses_30s :: "u32 option"
  rs_alignment_fraction :: "f64 option"
  rs_external_bias :: "f64 option"
  rs_up_edge :: "f64 option"
  rs_down_edge :: "f64 option"
  rs_expected_fee :: "f64 option"
  rs_expected_slippage :: "f64 option"
  rs_expected_edge :: "f64 option"
  rs_quote_age_ms :: "u64 option"
  rs_book_staleness_ms :: "u64 option"
  rs_inter_leg_skew_ms :: "u64 option"
  rs_available_spread_budget :: "f64 option"
  rs_required_pair_notional :: "f64 option"
  rs_required_pair_units :: "f64 option"
  rs_window_time_remaining_ms :: "u64 option"
  rs_quote_churn_per_s :: "f64 option"
  rs_move_velocity :: "f64 option"

definition rejection_sample_from_ctx :: "strategy_context \<Rightarrow> rejection_sample" where
  "rejection_sample_from_ctx ctx =
    (let f = ctx_features ctx;
       up_ask = opt_or (ft_up_ask f) (map_option tob_best_ask (book_up (ctx_book_state ctx)));
       down_ask = opt_or (ft_down_ask f) (map_option tob_best_ask (book_down (ctx_book_state ctx)))
     in \<lparr>rs_up_ask = up_ask,
       rs_down_ask = down_ask,
       rs_total_ask = opt_or (ft_total_ask f) (case (up_ask, down_ask) of (Some up, Some down) \<Rightarrow> Some (up + down) | _ \<Rightarrow> None),
       rs_distance_from_open_bps = ft_distance_from_open_bps f,
       rs_realized_vol_15s_bps = ft_realized_vol_15s_bps f,
       rs_distance_vol_ratio = None,
       rs_open_crosses_30s = ft_open_crosses_30s f,
       rs_alignment_fraction = None,
       rs_external_bias = None,
       rs_up_edge = None,
       rs_down_edge = None,
       rs_expected_fee = None,
       rs_expected_slippage = None,
       rs_expected_edge = None,
       rs_quote_age_ms = ft_quote_age_ms f,
       rs_book_staleness_ms = ft_book_staleness_ms f,
       rs_inter_leg_skew_ms = ft_inter_leg_skew_ms f,
       rs_available_spread_budget = None,
       rs_required_pair_notional = None,
       rs_required_pair_units = None,
       rs_window_time_remaining_ms = Some (ctx_window_time_remaining_ms ctx),
       rs_quote_churn_per_s = ft_polymarket_quote_churn_per_s f,
       rs_move_velocity = map_option abs (opt_or (ft_return_250ms f) (opt_or (ft_return_500ms f)
           (opt_or (ft_return_1000ms f) (Some (ctx_binance_momentum ctx)))))\<rparr>)"

definition rejection_sample_to_json :: "rejection_sample \<Rightarrow> json_object" where
  "rejection_sample_to_json r = [
     (''upAsk'', json_opt json_f64 (rs_up_ask r)),
     (''downAsk'', json_opt json_f64 (rs_down_ask r)),
     (''totalAsk'', json_opt json_f64 (rs_total_ask r)),
     (''distanceFromOpenBps'', json_opt json_f64 (rs_distance_from_open_bps r)),
     (''realizedVol15sBps'', json_opt json_f64 (rs_realized_vol_15s_bps r)),
     (''distanceVolRatio'', json_opt json_f64 (rs_distance_vol_ratio r)),
     (''openCrosses30s'', json_opt json_u32 (rs_open_crosses_30s r)),
     (''alignmentFraction'', json_opt json_f64 (rs_alignment_fraction r)),
     (''externalBias'', json_opt json_f64 (rs_external_bias r)),
     (''upEdge'', json_opt json_f64 (rs_up_edge r)),
     (''downEdge'', json_opt json_f64 (rs_down_edge r)),
     (''expectedFee'', json_opt json_f64 (rs_expected_fee r)),
     (''expectedSlippage'', json_opt json_f64 (rs_expected_slippage r)),
     (''expectedEdge'', json_opt json_f64 (rs_expected_edge r)),
     (''quoteAgeMs'', json_opt json_u64 (rs_quote_age_ms r)),
     (''bookStalenessMs'', json_opt json_u64 (rs_book_staleness_ms r)),
     (''interLegSkewMs'', json_opt json_u64 (rs_inter_leg_skew_ms r)),
     (''availableSpreadBudget'', json_opt json_f64 (rs_available_spread_budget r)),
     (''requiredPairNotional'', json_opt json_f64 (rs_required_pair_notional r)),
     (''requiredPairUnits'', json_opt json_f64 (rs_required_pair_units r)),
     (''windowTimeRemainingMs'', json_opt json_u64 (rs_window_time_remaining_ms r)),
     (''quoteChurnPerS'', json_opt json_f64 (rs_quote_churn_per_s r)),
     (''moveVelocity'', json_opt json_f64 (rs_move_velocity r))]"

record rejection =
  rej_strategy :: string
  rej_reason :: StrategyRejectionReason
  rej_sample :: rejection_sample

record rejection_summary =
  su_timestamp_ms :: u64
  su_market_id :: string
  su_strategy :: string
  su_reason :: string
  su_count :: u64
  su_details :: json

subsection \<open>Trades\<close>

record trade =
  tr_id :: "i64 option"
  tr_timestamp :: u64
  tr_market_id :: string
  tr_strategy :: string
  tr_side :: SignalDirection
  tr_token_id :: string
  tr_entry_price :: f64
  tr_size :: f64
  tr_status :: TradeStatus
  tr_signal_id :: "i64 option"
  tr_requested_price :: "f64 option"
  tr_requested_size :: "f64 option"
  tr_filled_size :: "f64 option"
  tr_avg_fill_price :: "f64 option"
  tr_fill_status :: "string option"
  tr_fill_reason :: "string option"
  tr_fill_latency_ms :: "u64 option"
  tr_execution_group_id :: "string option"
  tr_execution_fidelity :: "string option"
  tr_execution_mode :: "string option"
  tr_order_id :: "string option"
  tr_fill_price :: "f64 option"

record trade_result =
  res_trade_id :: i64
  res_exit_price :: f64
  res_settlement_price :: f64
  res_pnl_0pct :: f64
  res_pnl_1pct :: f64
  res_pnl_2pct :: f64
  res_pnl_3pct :: f64
  res_fee_amount :: f64
  res_pnl_net :: f64
  res_settlement_status :: string
  res_provisional_pnl :: "f64 option"

subsection \<open>Labels are distinct\<close>

lemma rejection_reason_as_str_inj: "rejection_reason_as_str a = rejection_reason_as_str b \<longleftrightarrow> a = b"
  by (cases a; cases b) simp_all

end
