(* ===== verification/Config.thy ===== *)
theory Config
  imports Prelude
begin

section \<open>Runtime configuration\<close>

text \<open>
  \<^verbatim>\<open>src/bots/paint/src/config.rs\<close>: the execution modes and storage profiles with their labels, the
  pending-settlement policy, the configuration record with its defaults, the open-exposure ceiling,
  the start-up validation and the parameter setters of the sweep engine and the command line. URL and
  IP-address parsing belong to the \<open>reqwest\<close> crate and the network types, so \<open>validate\<close> takes the
  two parsers as arguments. Reading the process environment is not modelled.
\<close>

subsection \<open>Strings\<close>

definition is_ascii_space :: "char \<Rightarrow> bool" where
  "is_ascii_space c = (let n = of_char c :: nat in n = 32 \<or> (9 \<le> n \<and> n \<le> 13))"

definition str_trim :: "string \<Rightarrow> string" where
  "str_trim s = rev (dropWhile is_ascii_space (rev (dropWhile is_ascii_space s)))"

definition ascii_lower :: "char \<Rightarrow> char" where
  "ascii_lower c = (let n = of_char c :: nat in if 65 \<le> n \<and> n \<le> 90 then char_of (n + 32) else c)"

definition parse_boolish :: "string \<Rightarrow> bool option" where
  "parse_boolish raw = (let s = map ascii_lower (str_trim raw) in
     if s = ''1'' \<or> s = ''true'' \<or> s = ''yes'' \<or> s = ''on'' then Some True
     else if s = ''0'' \<or> s = ''false'' \<or> s = ''no'' \<or> s = ''off'' then Some False
     else None)"

subsection \<open>Modes and profiles\<close>

datatype FeedEventStorageProfile = Compact | ReplayGrade | FullDebug

fun storage_profile_as_str :: "FeedEventStorageProfile \<Rightarrow> string" where
  "storage_profile_as_str Compact = ''compact''"
| "storage_profile_as_str ReplayGrade = ''replay_grade''"
| "storage_profile_as_str FullDebug = ''full_debug''"

definition storage_profile_from_env_value :: "string option \<Rightarrow> FeedEventStorageProfile" where
  "storage_profile_from_env_value raw =
     (if raw = Some ''full_debug'' then FullDebug
      else if raw = Some ''compact'' then Compact else ReplayGrade)"

datatype BacktestSettlementMode = Immediate | ObservedMarketResolution

fun settlement_mode_as_str :: "BacktestSettlementMode \<Rightarrow> string" where
  "settlement_mode_as_str Immediate = ''immediate''"
| "settlement_mode_as_str ObservedMarketResolution = ''observed_market_resolution''"

definition settlement_mode_from_env_value :: "string option \<Rightarrow> BacktestSettlementMode" where
  "settlement_mode_from_env_value raw =
     (if raw = Some ''observed_market_resolution'' then ObservedMarketResolution else Immediate)"

datatype ExecutionMode = Paper | LiveReadonly | LiveTrading

fun execution_mode_as_str :: "ExecutionMode \<Rightarrow> string" where
  "execution_mode_as_str Paper = ''paper''"
| "execution_mode_as_str LiveReadonly = ''live_readonly''"
| "execution_mode_as_str LiveTrading = ''live_trading''"

definition execution_mode_from_env_value :: "string option \<Rightarrow> ExecutionMode" where
  "execution_mode_from_env_value raw =
     (if raw = Some ''live_readonly'' then LiveReadonly
      else if raw = Some ''live_trading'' then LiveTrading else Paper)"

fun uses_live_sidecar :: "ExecutionMode \<Rightarrow> bool" where
  "uses_live_sidecar Paper = False"
| "uses_live_sidecar LiveReadonly = True"
| "uses_live_sidecar LiveTrading = True"

subsection \<open>Pending-settlement policy\<close>

datatype PendingSettlementReserveMode = Compatibility | Conservative | Risky | Custom

fun reserve_mode_as_str :: "PendingSettlementReserveMode \<Rightarrow> string" where
  "reserve_mode_as_str Compatibility = ''compatibility''"
| "reserve_mode_as_str Conservative = ''conservative''"
| "reserve_mode_as_str Risky = ''risky''"
| "reserve_mode_as_str Custom = ''custom''"

record pending_policy =
  pp_mode :: PendingSettlementReserveMode
  family_reserve_fraction :: f64
  global_reserve_fraction :: f64
  counts_as_open_position :: bool

definition policy_compatibility :: pending_policy where
  "policy_compatibility = \<lparr>pp_mode = Compatibility, family_reserve_fraction = 1,
     global_reserve_fraction = 1, counts_as_open_position = True\<rparr>"

definition policy_conservative :: pending_policy where
  "policy_conservative = \<lparr>pp_mode = Conservative, family_reserve_fraction = 0,
     global_reserve_fraction = 1, counts_as_open_position = False\<rparr>"

definition policy_risky :: pending_policy where
  "policy_risky = \<lparr>pp_mode = Risky, family_reserve_fraction = 0,
     global_reserve_fraction = f64_lit 0.25, counts_as_open_position = False\<rparr>"

definition approx_f64 :: "f64 \<Rightarrow> f64 \<Rightarrow> bool" where
  "approx_f64 left right \<longleftrightarrow> \<bar>left - right\<bar> \<le> f64_lit 0.000000001"

definition policy_classify :: "f64 \<Rightarrow> f64 \<Rightarrow> bool \<Rightarrow> pending_policy" where
  "policy_classify fam glob cnt =
     \<lparr>pp_mode =
        (if approx_f64 fam 1 \<and> approx_f64 glob 1 \<and> cnt then Compatibility
         else if approx_f64 fam 0 \<and> approx_f64 glob 1 \<and> \<not> cnt then Conservative
         else if approx_f64 fam 0 \<and> approx_f64 glob (f64_lit 0.25) \<and> \<not> cnt then Risky
         else Custom),
      family_reserve_fraction = fam, global_reserve_fraction = glob, counts_as_open_position = cnt\<rparr>"

datatype config_error =
    FamilyReserveFractionOutOfRange f64
  | GlobalReserveFractionOutOfRange f64
  | ConfigBail string
  | BadEgressIp string
  | BadUrl string string

definition policy_validate :: "pending_policy \<Rightarrow> config_error + pending_policy" where
  "policy_validate p =
     (if \<not> (0 \<le> family_reserve_fraction p \<and> family_reserve_fraction p \<le> 1)
      then Inl (FamilyReserveFractionOutOfRange (family_reserve_fraction p))
      else if \<not> (0 \<le> global_reserve_fraction p \<and> global_reserve_fraction p \<le> 1)
      then Inl (GlobalReserveFractionOutOfRange (global_reserve_fraction p))
      else Inr p)"

definition default_binance_ws_url :: "string \<Rightarrow> string \<Rightarrow> string \<Rightarrow> bool \<Rightarrow> string" where
  "default_binance_ws_url trade book depth micros =
     (let base = ''wss://stream.binance.com:9443/stream?streams='' @ trade @ ''/'' @ book @ ''/'' @ depth
      in if micros then base @ ''&timeUnit=MICROSECOND'' else base)"

subsection \<open>The configuration record\<close>

record config =
  binance_ws_url :: string
  binance_trade_stream :: string
  binance_book_ticker_stream :: string
  binance_depth_stream :: string
  clob_ws_url :: string
  clob_api_url :: string
  rtds_ws_url :: string
  gamma_api_url :: string
  gamma_poll_interval :: u64
  tick_interval :: u64
  tick_data_logging_enabled :: bool
  clob_ping_interval :: u64
  rtds_ping_interval :: u64
  chainlink_stale_ms :: u64
  websocket_connect_timeout_ms :: u64
  binance_no_message_reconnect_ms :: u64
  clob_no_message_reconnect_ms :: u64
  reconnect_base_delay :: u64
  reconnect_max_delay :: u64
  reconnect_min_stable_ms :: u64
  reconnect_max_failures :: u32
  reconnect_pause_ms :: u64
  db_path :: string
  latency_arb_momentum_threshold :: f64
  latency_arb_max_ask :: f64
  latency_arb_min_ask :: f64
  latency_arb_cooldown_ms :: u64
  latency_arb_adaptive_window_ms :: u64
  latency_arb_enabled :: bool
  latency_arb_max_position_fraction :: "f64 option"
  spread_capture_threshold :: f64
  spread_capture_min_ask :: f64
  spread_capture_max_leg_skew_ms :: u64
  spread_capture_max_quote_churn_per_s :: f64
  spread_capture_enabled :: bool
  spread_capture_max_position_fraction :: "f64 option"
  calm_persistence_enabled :: bool
  calm_persistence_min_window_time_ms :: u64
  calm_persistence_max_window_time_ms :: u64
  calm_persistence_max_ask :: f64
  calm_persistence_min_abs_distance_bps :: f64
  calm_persistence_distance_vol_ratio_threshold :: f64
  calm_persistence_max_realized_vol_15s_bps :: f64
  calm_persistence_max_open_crosses_30s :: u32
  calm_persistence_max_quote_churn_per_s :: f64
  calm_persistence_min_alignment_fraction :: f64
  calm_persistence_max_fair_bias :: f64
  calm_persistence_min_expected_edge :: f64
  calm_persistence_max_position_fraction :: "f64 option"
  momentum_window_ms :: u64
  starting_balance :: f64
  max_position_fraction :: f64
  min_balance_threshold :: f64
  max_drawdown_pct :: f64
  max_position_usd_fraction :: f64
  kelly_fraction :: f64
  min_win_rate_for_kelly :: f64
  min_trades_for_kelly :: u64
  min_kelly_floor :: f64
  min_bet_usd :: f64
  kelly_rolling_window :: u64
  max_open_positions :: u64
  min_window_time_ms :: u64
  circuit_breaker_losses :: u64
  circuit_breaker_pause_ms :: u64
  peak_dd_pause_pct :: f64
  peak_dd_pause_ms :: u64
  dd_pause_recovery_pct :: f64
  trend_filter_enabled :: bool
  trend_filter_threshold :: f64
  trend_filter_window :: u64
  trend_filter_per_strategy :: bool
  regime_detection_enabled :: bool
  log_level :: string
  gamma_market_limit :: u64
  max_position_usd :: f64
  taker_fee_rate :: f64
  taker_fee_exponent :: u32
  taker_fee_override_explicit :: bool
  execution_mode :: ExecutionMode
  live_sidecar_url :: string
  live_sidecar_request_timeout_ms :: u64
  live_sidecar_emergency_timeout_ms :: u64
  live_session_cash_cap_usd :: f64
  live_max_single_order_usd :: f64
  live_max_open_notional_usd :: f64
  live_max_daily_loss_usd :: f64
  live_max_session_drawdown_usd :: f64
  live_min_required_cash_usd :: f64
  live_expected_signature_type :: "u32 option"
  live_allow_deposit_wallet :: bool
  live_expected_egress_ip :: "string option"
  enforce_open_exposure_caps :: bool
  live_onchain_reconcile :: bool
  live_onchain_reconcile_grace_ms :: u64
  live_onchain_reconcile_retry_interval_ms :: u64
  live_onchain_reconcile_max_attempts :: u32
  live_dry_run :: bool
  live_max_session_orders :: u32
  live_max_session_fills :: u32
  live_armed_feed_outage_halt_ms :: u64
  feed_event_storage_profile :: FeedEventStorageProfile
  feed_event_writer_queue_capacity :: nat
  feed_event_writer_batch_size :: nat
  feed_event_writer_flush_ms :: u64
  feed_event_writer_max_lag_ms :: u64
  clob_replay_block_max_rows :: nat
  clob_replay_block_max_ms :: u64
  clob_replay_block_zstd_level :: int
  live_runtime_max_db_bytes :: u64
  live_feed_batch_max_messages :: nat
  live_decision_queue_capacity :: nat
  live_decision_output_queue_capacity :: nat
  live_runtime_persistence_queue_capacity :: nat
  live_submission_queue_capacity :: nat
  max_live_decision_age_ms :: u64
  worker_shutdown_timeout_ms :: u64
  sim_order_latency_ms :: u64
  max_book_staleness_ms :: u64
  max_signal_feed_age_ms :: u64
  max_quote_age_ms :: u64
  resolution_poll_retries :: u32
  resolution_initial_delay_ms :: u64
  resolution_poll_delay_ms :: u64
  pending_settlement_family_reserve_fraction :: f64
  pending_settlement_global_reserve_fraction :: f64
  pending_settlement_counts_as_open_position :: bool
  backtest_settlement_mode :: BacktestSettlementMode

definition config_default :: config where
  "config_default = \<lparr>
     binance_ws_url = default_binance_ws_url ''btcusdt@aggTrade'' ''btcusdt@bookTicker'' ''btcusdt@depth5@100ms'' True,
     binance_trade_stream = ''btcusdt@aggTrade'',
     binance_book_ticker_stream = ''btcusdt@bookTicker'',
     binance_depth_stream = ''btcusdt@depth5@100ms'',
     clob_ws_url = ''wss://ws-subscriptions-clob.polymarket.com/ws/market'',
     clob_api_url = ''https://clob.polymarket.com'',
     rtds_ws_url = ''wss://ws-live-data.polymarket.com'',
     gamma_api_url = ''https://gamma-api.polymarket.com'',
     gamma_poll_interval = 60000,
     tick_interval = 1000,
     tick_data_logging_enabled = False,
     clob_ping_interval = 10000,
     rtds_ping_interval = 5000,
     chainlink_stale_ms = 30000,
     websocket_connect_timeout_ms = 10000,
     binance_no_message_reconnect_ms = 5000,
     clob_no_message_reconnect_ms = 20000,
     reconnect_base_delay = 1000,
     reconnect_max_delay = 30000,
     reconnect_min_stable_ms = 5000,
     reconnect_max_failures = 20,
     reconnect_pause_ms = 300000,
     db_path = ''./data/paint.db'',
     latency_arb_momentum_threshold = f64_lit 0.0008,
     latency_arb_max_ask = f64_lit 0.6,
     latency_arb_min_ask = f64_lit 0.3,
     latency_arb_cooldown_ms = 60000,
     latency_arb_adaptive_window_ms = 1800000,
     latency_arb_enabled = True,
     latency_arb_max_position_fraction = Some (f64_lit 0.125),
     spread_capture_threshold = f64_lit 0.97,
     spread_capture_min_ask = f64_lit 0.15,
     spread_capture_max_leg_skew_ms = 25,
     spread_capture_max_quote_churn_per_s = f64_lit 8,
     spread_capture_enabled = False,
     spread_capture_max_position_fraction = Some (f64_lit 0.05),
     calm_persistence_enabled = False,
     calm_persistence_min_window_time_ms = 30000,
     calm_persistence_max_window_time_ms = 90000,
     calm_persistence_max_ask = f64_lit 0.65,
     calm_persistence_min_abs_distance_bps = f64_lit 6,
     calm_persistence_distance_vol_ratio_threshold = 1,
     calm_persistence_max_realized_vol_15s_bps = f64_lit 80,
     calm_persistence_max_open_crosses_30s = 1,
     calm_persistence_max_quote_churn_per_s = f64_lit 100,
     calm_persistence_min_alignment_fraction = f64_lit 0.5,
     calm_persistence_max_fair_bias = f64_lit 0.35,
     calm_persistence_min_expected_edge = f64_lit 0.05,
     calm_persistence_max_position_fraction = Some (f64_lit 0.05),
     momentum_window_ms = 30000,
     starting_balance = f64_lit 100,
     max_position_fraction = f64_lit 0.05,
     min_balance_threshold = f64_lit 20,
     max_drawdown_pct = f64_lit 0.5,
     max_position_usd_fraction = f64_lit 0.2,
     kelly_fraction = f64_lit 0.5,
     min_win_rate_for_kelly = f64_lit 0.52,
     min_trades_for_kelly = 20,
     min_kelly_floor = f64_lit 0.03,
     min_bet_usd = f64_lit 5,
     kelly_rolling_window = 30,
     max_open_positions = 5,
     min_window_time_ms = 90000,
     circuit_breaker_losses = 3,
     circuit_breaker_pause_ms = 900000,
     peak_dd_pause_pct = f64_lit 0.3,
     peak_dd_pause_ms = 3600000,
     dd_pause_recovery_pct = f64_lit 0.05,
     trend_filter_enabled = False,
     trend_filter_threshold = f64_lit 0.3,
     trend_filter_window = 10,
     trend_filter_per_strategy = False,
     regime_detection_enabled = False,
     log_level = ''info'',
     gamma_market_limit = 20,
     max_position_usd = f64_lit 500,
     taker_fee_rate = f64_lit 0.07,
     taker_fee_exponent = 1,
     taker_fee_override_explicit = False,
     execution_mode = Paper,
     live_sidecar_url = ''http://127.0.0.1:3210'',
     live_sidecar_request_timeout_ms = 5000,
     live_sidecar_emergency_timeout_ms = 2000,
     live_session_cash_cap_usd = f64_lit 100,
     live_max_single_order_usd = f64_lit 10,
     live_max_open_notional_usd = f64_lit 25,
     live_max_daily_loss_usd = f64_lit 15,
     live_max_session_drawdown_usd = f64_lit 20,
     live_min_required_cash_usd = f64_lit 25,
     live_expected_signature_type = None,
     live_allow_deposit_wallet = False,
     live_expected_egress_ip = None,
     enforce_open_exposure_caps = False,
     live_onchain_reconcile = True,
     live_onchain_reconcile_grace_ms = 6000,
     live_onchain_reconcile_retry_interval_ms = 3000,
     live_onchain_reconcile_max_attempts = 5,
     live_dry_run = False,
     live_max_session_orders = 0,
     live_max_session_fills = 0,
     live_armed_feed_outage_halt_ms = 120000,
     feed_event_storage_profile = ReplayGrade,
     feed_event_writer_queue_capacity = 50000,
     feed_event_writer_batch_size = 500,
     feed_event_writer_flush_ms = 100,
     feed_event_writer_max_lag_ms = 2000,
     clob_replay_block_max_rows = 10000,
     clob_replay_block_max_ms = 1000,
     clob_replay_block_zstd_level = 3,
     live_runtime_max_db_bytes = 50000000000,
     live_feed_batch_max_messages = 64,
     live_decision_queue_capacity = 128,
     live_decision_output_queue_capacity = 1024,
     live_runtime_persistence_queue_capacity = 10000,
     live_submission_queue_capacity = 1024,
     max_live_decision_age_ms = 250,
     worker_shutdown_timeout_ms = 5000,
     sim_order_latency_ms = 250,
     max_book_staleness_ms = 1000,
     max_signal_feed_age_ms = 1000,
     max_quote_age_ms = 750,
     resolution_poll_retries = 30,
     resolution_initial_delay_ms = 30000,
     resolution_poll_delay_ms = 10000,
     pending_settlement_family_reserve_fraction = 0,
     pending_settlement_global_reserve_fraction = f64_lit 0.25,
     pending_settlement_counts_as_open_position = False,
     backtest_settlement_mode = Immediate\<rparr>"

definition enabled_strategy_names :: "config \<Rightarrow> string list" where
  "enabled_strategy_names c =
     (if latency_arb_enabled c then [''latency-arb''] else []) @
     (if spread_capture_enabled c then [''spread-capture''] else []) @
     (if calm_persistence_enabled c then [''calm-persistence''] else [])"

definition pending_settlement_policy_unchecked :: "config \<Rightarrow> pending_policy" where
  "pending_settlement_policy_unchecked c =
     policy_classify (pending_settlement_family_reserve_fraction c)
       (pending_settlement_global_reserve_fraction c) (pending_settlement_counts_as_open_position c)"

definition pending_settlement_policy :: "config \<Rightarrow> config_error + pending_policy" where
  "pending_settlement_policy c = policy_validate (pending_settlement_policy_unchecked c)"

definition is_live_execution :: "config \<Rightarrow> bool" where
  "is_live_execution c = uses_live_sidecar (execution_mode c)"

definition open_exposure_ceiling_usd :: "config \<Rightarrow> f64 option" where
  "open_exposure_ceiling_usd c =
     (if is_live_execution c \<or> enforce_open_exposure_caps c
      then Some (f64_min (live_max_open_notional_usd c) (live_session_cash_cap_usd c)) else None)"

definition live_onchain_reconcile_enabled :: "config \<Rightarrow> bool" where
  "live_onchain_reconcile_enabled c \<longleftrightarrow> is_live_execution c \<and> live_onchain_reconcile c"

definition positive_finite :: "f64 \<Rightarrow> bool" where
  "positive_finite x \<longleftrightarrow> is_finite x \<and> 0 < x"

definition validate_config ::
  "(string \<Rightarrow> bool) \<Rightarrow> (string \<Rightarrow> bool) \<Rightarrow> config \<Rightarrow> config_error + unit" where
  "validate_config url_ok ip_ok c =
     (case pending_settlement_policy c of Inl e \<Rightarrow> Inl e | Inr _ \<Rightarrow>
      if websocket_connect_timeout_ms c = 0 then Inl (ConfigBail ''WEBSOCKET_CONNECT_TIMEOUT_MS'')
      else if binance_no_message_reconnect_ms c = 0 then Inl (ConfigBail ''BINANCE_NO_MESSAGE_RECONNECT_MS'')
      else if clob_no_message_reconnect_ms c = 0 then Inl (ConfigBail ''CLOB_NO_MESSAGE_RECONNECT_MS'')
      else if open_exposure_ceiling_usd c \<noteq> None \<and> \<not> positive_finite (live_max_open_notional_usd c)
        then Inl (ConfigBail ''LIVE_MAX_OPEN_NOTIONAL_USD'')
      else if open_exposure_ceiling_usd c \<noteq> None \<and> \<not> positive_finite (live_session_cash_cap_usd c)
        then Inl (ConfigBail ''LIVE_SESSION_CASH_CAP_USD'')
      else if \<not> is_live_execution c then Inr ()
      else if live_session_cash_cap_usd c \<le> 0 then Inl (ConfigBail ''LIVE_SESSION_CASH_CAP_USD'')
      else if live_max_single_order_usd c \<le> 0 then Inl (ConfigBail ''LIVE_MAX_SINGLE_ORDER_USD'')
      else if live_max_open_notional_usd c \<le> 0 then Inl (ConfigBail ''LIVE_MAX_OPEN_NOTIONAL_USD'')
      else if live_max_daily_loss_usd c \<le> 0 then Inl (ConfigBail ''LIVE_MAX_DAILY_LOSS_USD'')
      else if live_max_session_drawdown_usd c \<le> 0 then Inl (ConfigBail ''LIVE_MAX_SESSION_DRAWDOWN_USD'')
      else if live_min_required_cash_usd c \<le> 0 then Inl (ConfigBail ''LIVE_MIN_REQUIRED_CASH_USD'')
      else if live_session_cash_cap_usd c < live_min_required_cash_usd c
        then Inl (ConfigBail ''LIVE_MIN_REQUIRED_CASH_USD'')
      else if live_max_open_notional_usd c < live_max_single_order_usd c
        then Inl (ConfigBail ''LIVE_MAX_SINGLE_ORDER_USD'')
      else if str_trim (live_sidecar_url c) = [] then Inl (ConfigBail ''LIVE_SIDECAR_URL'')
      else if live_sidecar_request_timeout_ms c = 0 then Inl (ConfigBail ''LIVE_SIDECAR_REQUEST_TIMEOUT_MS'')
      else if live_sidecar_emergency_timeout_ms c = 0 then Inl (ConfigBail ''LIVE_SIDECAR_EMERGENCY_TIMEOUT_MS'')
      else if is_some_and (live_expected_signature_type c) (\<lambda>e. 3 < e)
        then Inl (ConfigBail ''LIVE_EXPECTED_SIGNATURE_TYPE'')
      else if is_some_and (live_expected_egress_ip c) (\<lambda>ip. \<not> ip_ok ip)
        then Inl (BadEgressIp (unwrap_or (live_expected_egress_ip c) []))
      else if \<not> url_ok (live_sidecar_url c) then Inl (BadUrl ''LIVE_SIDECAR_URL'' (live_sidecar_url c))
      else if \<not> url_ok (clob_api_url c) then Inl (BadUrl ''CLOB_API_URL'' (clob_api_url c))
      else if \<not> url_ok (gamma_api_url c) then Inl (BadUrl ''GAMMA_API_URL'' (gamma_api_url c))
      else Inr ())"

subsection \<open>Setters\<close>

definition set_param :: "config \<Rightarrow> string \<Rightarrow> f64 \<Rightarrow> config \<times> bool" where
  "set_param c name v =
     (if name = ''LATENCY_ARB_MOMENTUM_THRESHOLD'' then (c\<lparr>latency_arb_momentum_threshold := v\<rparr>, True)
      else if name = ''LATENCY_ARB_MAX_ASK'' then (c\<lparr>latency_arb_max_ask := v\<rparr>, True)
      else if name = ''LATENCY_ARB_MIN_ASK'' then (c\<lparr>latency_arb_min_ask := v\<rparr>, True)
      else if name = ''LATENCY_ARB_COOLDOWN_MS'' then (c\<lparr>latency_arb_cooldown_ms := f64_to_u64 v\<rparr>, True)
      else if name = ''LATENCY_ARB_ADAPTIVE_WINDOW_MS'' then (c\<lparr>latency_arb_adaptive_window_ms := f64_to_u64 v\<rparr>, True)
      else if name = ''LATENCY_ARB_ENABLED'' then (c\<lparr>latency_arb_enabled := \<not> f64_eq v 0\<rparr>, True)
      else if name = ''LATENCY_ARB_MAX_POSITION_FRACTION'' then (c\<lparr>latency_arb_max_position_fraction := Some v\<rparr>, True)
      else if name = ''MAX_POSITION_FRACTION'' then (c\<lparr>max_position_fraction := v\<rparr>, True)
      else if name = ''MAX_POSITION_USD'' then (c\<lparr>max_position_usd := v\<rparr>, True)
      else if name = ''SPREAD_CAPTURE_THRESHOLD'' then (c\<lparr>spread_capture_threshold := v\<rparr>, True)
      else if name = ''SPREAD_CAPTURE_MIN_ASK'' then (c\<lparr>spread_capture_min_ask := v\<rparr>, True)
      else if name = ''SPREAD_CAPTURE_MAX_LEG_SKEW_MS'' then (c\<lparr>spread_capture_max_leg_skew_ms := f64_to_u64 v\<rparr>, True)
      else if name = ''SPREAD_CAPTURE_MAX_QUOTE_CHURN_PER_S'' then (c\<lparr>spread_capture_max_quote_churn_per_s := v\<rparr>, True)
      else if name = ''SPREAD_CAPTURE_ENABLED'' then (c\<lparr>spread_capture_enabled := \<not> f64_eq v 0\<rparr>, True)
      else if name = ''SPREAD_CAPTURE_MAX_POSITION_FRACTION'' then (c\<lparr>spread_capture_max_position_fraction := Some v\<rparr>, True)
      else if name = ''CALM_PERSISTENCE_ENABLED'' then (c\<lparr>calm_persistence_enabled := \<not> f64_eq v 0\<rparr>, True)
      else if name = ''CALM_PERSISTENCE_MIN_WINDOW_TIME_MS'' then (c\<lparr>calm_persistence_min_window_time_ms := f64_to_u64 v\<rparr>, True)
      else if name = ''CALM_PERSISTENCE_MAX_WINDOW_TIME_MS'' then (c\<lparr>calm_persistence_max_window_time_ms := f64_to_u64 v\<rparr>, True)
      else if name = ''CALM_PERSISTENCE_MAX_ASK'' then (c\<lparr>calm_persistence_max_ask := v\<rparr>, True)
      else if name = ''CALM_PERSISTENCE_MIN_ABS_DISTANCE_BPS'' then (c\<lparr>calm_persistence_min_abs_distance_bps := v\<rparr>, True)
      else if name = ''CALM_PERSISTENCE_DISTANCE_VOL_RATIO_THRESHOLD'' then (c\<lparr>calm_persistence_distance_vol_ratio_threshold := v\<rparr>, True)
      else if name = ''CALM_PERSISTENCE_MAX_REALIZED_VOL_15S_BPS'' then (c\<lparr>calm_persistence_max_realized_vol_15s_bps := v\<rparr>, True)
      else if name = ''CALM_PERSISTENCE_MAX_OPEN_CROSSES_30S'' then (c\<lparr>calm_persistence_max_open_crosses_30s := f64_to_u32 v\<rparr>, True)
      else if name = ''CALM_PERSISTENCE_MAX_QUOTE_CHURN_PER_S'' then (c\<lparr>calm_persistence_max_quote_churn_per_s := v\<rparr>, True)
      else if name = ''CALM_PERSISTENCE_MIN_ALIGNMENT_FRACTION'' then (c\<lparr>calm_persistence_min_alignment_fraction := v\<rparr>, True)
      else if name = ''CALM_PERSISTENCE_MAX_FAIR_BIAS'' then (c\<lparr>calm_persistence_max_fair_bias := v\<rparr>, True)
      else if name = ''CALM_PERSISTENCE_MIN_EXPECTED_EDGE'' then (c\<lparr>calm_persistence_min_expected_edge := v\<rparr>, True)
      else if name = ''CALM_PERSISTENCE_MAX_POSITION_FRACTION'' then (c\<lparr>calm_persistence_max_position_fraction := Some v\<rparr>, True)
      else if name = ''PEAK_DD_PAUSE_PCT'' then (c\<lparr>peak_dd_pause_pct := v\<rparr>, True)
      else if name = ''PEAK_DD_PAUSE_MS'' then (c\<lparr>peak_dd_pause_ms := f64_to_u64 v\<rparr>, True)
      else if name = ''DD_PAUSE_RECOVERY_PCT'' then (c\<lparr>dd_pause_recovery_pct := v\<rparr>, True)
      else if name = ''STARTING_BALANCE'' then (c\<lparr>starting_balance := v\<rparr>, True)
      else if name = ''MOMENTUM_WINDOW_MS'' then (c\<lparr>momentum_window_ms := f64_to_u64 v\<rparr>, True)
      else if name = ''MAX_POSITION_USD_FRACTION'' then (c\<lparr>max_position_usd_fraction := v\<rparr>, True)
      else if name = ''MIN_BALANCE_THRESHOLD'' then (c\<lparr>min_balance_threshold := v\<rparr>, True)
      else if name = ''MAX_DRAWDOWN_PCT'' then (c\<lparr>max_drawdown_pct := v\<rparr>, True)
      else if name = ''KELLY_FRACTION'' then (c\<lparr>kelly_fraction := v\<rparr>, True)
      else if name = ''MIN_WIN_RATE_FOR_KELLY'' then (c\<lparr>min_win_rate_for_kelly := v\<rparr>, True)
      else if name = ''MIN_TRADES_FOR_KELLY'' then (c\<lparr>min_trades_for_kelly := f64_to_u64 v\<rparr>, True)
      else if name = ''MIN_KELLY_FLOOR'' then (c\<lparr>min_kelly_floor := v\<rparr>, True)
      else if name = ''MIN_BET_USD'' then (c\<lparr>min_bet_usd := v\<rparr>, True)
      else if name = ''KELLY_ROLLING_WINDOW'' then (c\<lparr>kelly_rolling_window := f64_to_u64 v\<rparr>, True)
      else if name = ''MAX_OPEN_POSITIONS'' then (c\<lparr>max_open_positions := f64_to_u64 v\<rparr>, True)
      else if name = ''MIN_WINDOW_TIME_MS'' then (c\<lparr>min_window_time_ms := f64_to_u64 v\<rparr>, True)
      else if name = ''CIRCUIT_BREAKER_LOSSES'' then (c\<lparr>circuit_breaker_losses := f64_to_u64 v\<rparr>, True)
      else if name = ''CIRCUIT_BREAKER_PAUSE_MS'' then (c\<lparr>circuit_breaker_pause_ms := f64_to_u64 v\<rparr>, True)
      else if name = ''RECONNECT_MIN_STABLE_MS'' then (c\<lparr>reconnect_min_stable_ms := f64_to_u64 v\<rparr>, True)
      else if name = ''RECONNECT_MAX_FAILURES'' then (c\<lparr>reconnect_max_failures := f64_to_u32 v\<rparr>, True)
      else if name = ''RECONNECT_PAUSE_MS'' then (c\<lparr>reconnect_pause_ms := f64_to_u64 v\<rparr>, True)
      else if name = ''WEBSOCKET_CONNECT_TIMEOUT_MS'' then (c\<lparr>websocket_connect_timeout_ms := f64_to_u64 v\<rparr>, True)
      else if name = ''BINANCE_NO_MESSAGE_RECONNECT_MS'' then (c\<lparr>binance_no_message_reconnect_ms := f64_to_u64 v\<rparr>, True)
      else if name = ''CLOB_NO_MESSAGE_RECONNECT_MS'' then (c\<lparr>clob_no_message_reconnect_ms := f64_to_u64 v\<rparr>, True)
      else if name = ''TREND_FILTER_THRESHOLD'' then (c\<lparr>trend_filter_threshold := v\<rparr>, True)
      else if name = ''TREND_FILTER_WINDOW'' then (c\<lparr>trend_filter_window := f64_to_u64 v\<rparr>, True)
      else if name = ''TREND_FILTER_PER_STRATEGY'' then (c\<lparr>trend_filter_per_strategy := \<not> f64_eq v 0\<rparr>, True)
      else if name = ''REGIME_DETECTION_ENABLED'' then (c\<lparr>regime_detection_enabled := \<not> f64_eq v 0\<rparr>, True)
      else if name = ''RESOLUTION_POLL_RETRIES'' then (c\<lparr>resolution_poll_retries := f64_to_u32 v\<rparr>, True)
      else if name = ''RESOLUTION_INITIAL_DELAY_MS'' then (c\<lparr>resolution_initial_delay_ms := f64_to_u64 v\<rparr>, True)
      else if name = ''RESOLUTION_POLL_DELAY_MS'' then (c\<lparr>resolution_poll_delay_ms := f64_to_u64 v\<rparr>, True)
      else if name = ''PENDING_SETTLEMENT_FAMILY_RESERVE_FRACTION'' then (c\<lparr>pending_settlement_family_reserve_fraction := v\<rparr>, True)
      else if name = ''PENDING_SETTLEMENT_GLOBAL_RESERVE_FRACTION'' then (c\<lparr>pending_settlement_global_reserve_fraction := v\<rparr>, True)
      else if name = ''PENDING_SETTLEMENT_COUNTS_AS_OPEN_POSITION'' then (c\<lparr>pending_settlement_counts_as_open_position := \<not> f64_eq v 0\<rparr>, True)
      else if name = ''TAKER_FEE_RATE'' then (c\<lparr>taker_fee_rate := v, taker_fee_override_explicit := True\<rparr>, True)
      else if name = ''TAKER_FEE_EXPONENT'' then (c\<lparr>taker_fee_exponent := f64_to_u32 v, taker_fee_override_explicit := True\<rparr>, True)
      else if name = ''SIM_ORDER_LATENCY_MS'' then (c\<lparr>sim_order_latency_ms := f64_to_u64 v\<rparr>, True)
      else if name = ''MAX_BOOK_STALENESS_MS'' then (c\<lparr>max_book_staleness_ms := f64_to_u64 v\<rparr>, True)
      else if name = ''MAX_SIGNAL_FEED_AGE_MS'' then (c\<lparr>max_signal_feed_age_ms := f64_to_u64 v\<rparr>, True)
      else if name = ''MAX_QUOTE_AGE_MS'' then (c\<lparr>max_quote_age_ms := f64_to_u64 v\<rparr>, True)
      else if name = ''CLOB_REPLAY_BLOCK_MAX_ROWS'' then (c\<lparr>clob_replay_block_max_rows := f64_to_usize v\<rparr>, True)
      else if name = ''CLOB_REPLAY_BLOCK_MAX_MS'' then (c\<lparr>clob_replay_block_max_ms := f64_to_u64 v\<rparr>, True)
      else if name = ''CLOB_REPLAY_BLOCK_ZSTD_LEVEL'' then (c\<lparr>clob_replay_block_zstd_level := f64_to_i32 v\<rparr>, True)
      else (c, False))"

definition set_bool_param :: "config \<Rightarrow> string \<Rightarrow> bool \<Rightarrow> config \<times> bool" where
  "set_bool_param c name v =
     (if name = ''LATENCY_ARB_ENABLED'' then (c\<lparr>latency_arb_enabled := v\<rparr>, True)
      else if name = ''SPREAD_CAPTURE_ENABLED'' then (c\<lparr>spread_capture_enabled := v\<rparr>, True)
      else if name = ''CALM_PERSISTENCE_ENABLED'' then (c\<lparr>calm_persistence_enabled := v\<rparr>, True)
      else if name = ''TREND_FILTER_ENABLED'' then (c\<lparr>trend_filter_enabled := v\<rparr>, True)
      else if name = ''TREND_FILTER_PER_STRATEGY'' then (c\<lparr>trend_filter_per_strategy := v\<rparr>, True)
      else if name = ''REGIME_DETECTION_ENABLED'' then (c\<lparr>regime_detection_enabled := v\<rparr>, True)
      else if name = ''PENDING_SETTLEMENT_COUNTS_AS_OPEN_POSITION''
        then (c\<lparr>pending_settlement_counts_as_open_position := v\<rparr>, True)
      else (c, False))"

definition set_string_param :: "config \<Rightarrow> string \<Rightarrow> string \<Rightarrow> config \<times> bool" where
  "set_string_param c name v =
     (if name = ''EXECUTION_MODE''
        then (c\<lparr>execution_mode := execution_mode_from_env_value (Some v)\<rparr>, True)
      else if name = ''LIVE_SIDECAR_URL'' then (c\<lparr>live_sidecar_url := v\<rparr>, True)
      else if name = ''CLOB_API_URL'' then (c\<lparr>clob_api_url := v\<rparr>, True)
      else if name = ''GAMMA_API_URL'' then (c\<lparr>gamma_api_url := v\<rparr>, True)
      else if name = ''DB_PATH'' then (c\<lparr>db_path := v\<rparr>, True)
      else if name = ''LOG_LEVEL'' then (c\<lparr>log_level := v\<rparr>, True)
      else if name = ''FEED_EVENT_STORAGE_PROFILE''
        then (c\<lparr>feed_event_storage_profile := storage_profile_from_env_value (Some v)\<rparr>, True)
      else (c, False))"

subsection \<open>What validation guarantees\<close>

lemma validated_caps:
  assumes "validate_config url_ok ip_ok c = Inr ()" "open_exposure_ceiling_usd c \<noteq> None"
  shows "positive_finite (live_max_open_notional_usd c)" "positive_finite (live_session_cash_cap_usd c)"
  using assms by (auto simp: validate_config_def split: if_splits sum.splits)

lemma validated_ceiling:
  assumes "validate_config url_ok ip_ok c = Inr ()" "open_exposure_ceiling_usd c = Some M"
  shows "is_finite M \<and> 0 < M"
proof -
  have "M = f64_min (live_max_open_notional_usd c) (live_session_cash_cap_usd c)"
    using assms(2) by (simp add: open_exposure_ceiling_usd_def split: if_splits)
  then show ?thesis
    using validated_caps[OF assms(1)] assms(2) f64_min_cases[of "live_max_open_notional_usd c" "live_session_cash_cap_usd c"]
    by (auto simp: positive_finite_def)
qed

lemma validated_live_order:
  assumes "validate_config url_ok ip_ok c = Inr ()" "is_live_execution c"
  shows "\<not> live_max_open_notional_usd c < live_max_single_order_usd c"
    "\<not> live_session_cash_cap_usd c < live_min_required_cash_usd c" "\<not> live_max_single_order_usd c \<le> 0"
  using assms by (auto simp: validate_config_def split: if_splits sum.splits)

end
