(* ===== verification/Portfolio.thy ===== *)
theory Portfolio
  imports Types Config
begin

section \<open>Strategy families and the regime router\<close>

text \<open>
  \<^verbatim>\<open>src/bots/paint/src/portfolio.rs\<close>, first half: the strategy families and market regimes with their
  labels, the regime detection on a feature snapshot, and the router that selects the one family
  that may trade. The attribution counters, which need the executor's outcomes, are in \<open>Attribution\<close>.
\<close>

datatype StrategyFamily = LatencyArb | SpreadCapture | CalmPersistence

fun family_as_str :: "StrategyFamily \<Rightarrow> string" where
  "family_as_str LatencyArb = ''latency-arb''"
| "family_as_str SpreadCapture = ''spread-capture''"
| "family_as_str CalmPersistence = ''calm-persistence''"

definition from_strategy_name :: "string \<Rightarrow> StrategyFamily option" where
  "from_strategy_name s =
     (if s = ''latency-arb'' then Some LatencyArb
      else if s = ''spread-capture'' then Some SpreadCapture
      else if s = ''calm-persistence'' then Some CalmPersistence else None)"

interpretation family_codec: label_codec family_as_str from_strategy_name
proof
  show "from_strategy_name (family_as_str x) = Some x" for x
    by (cases x) (simp_all add: from_strategy_name_def)
  show "family_as_str x = s" if "from_strategy_name s = Some x" for s x
    using that by (auto simp: from_strategy_name_def split: if_splits)
qed

datatype PortfolioRegime = Dislocation | StructuralPair | Calm

fun regime_as_str :: "PortfolioRegime \<Rightarrow> string" where
  "regime_as_str Dislocation = ''dislocation''"
| "regime_as_str StructuralPair = ''structural_pair''"
| "regime_as_str Calm = ''calm''"

datatype RouterBlockReason = RegimeMismatch

fun block_reason_as_str :: "RouterBlockReason \<Rightarrow> string" where
  "block_reason_as_str RegimeMismatch = ''regime_mismatch''"

record router_selection =
  regime :: PortfolioRegime
  selected_family :: "StrategyFamily option"

definition looks_like_structural_pair :: "strategy_context \<Rightarrow> config \<Rightarrow> bool" where
  "looks_like_structural_pair ctx c =
     (let f = ctx_features ctx in
      case (ft_total_ask f, ft_up_ask f, ft_down_ask f) of
        (Some total_ask, Some up_ask, Some down_ask) \<Rightarrow>
          let skew_ok = is_none_or (ft_inter_leg_skew_ms f)
                (\<lambda>skew. skew \<le> spread_capture_max_leg_skew_ms c);
              churn_ok = is_none_or (ft_polymarket_quote_churn_per_s f)
                (\<lambda>churn. churn \<le> spread_capture_max_quote_churn_per_s c)
          in spread_capture_min_ask c \<le> up_ask \<and> spread_capture_min_ask c \<le> down_ask \<and>
             total_ask \<le> spread_capture_threshold c \<and> skew_ok \<and> churn_ok
      | _ \<Rightarrow> False)"

definition looks_like_calm_regime :: "strategy_context \<Rightarrow> config \<Rightarrow> bool" where
  "looks_like_calm_regime ctx c =
     (if ctx_window_time_remaining_ms ctx < calm_persistence_min_window_time_ms c
         \<or> calm_persistence_max_window_time_ms c < ctx_window_time_remaining_ms ctx then False
      else let f = ctx_features ctx;
        vol_ok = is_some_and (ft_realized_vol_15s_bps f)
          (\<lambda>vol. vol \<le> calm_persistence_max_realized_vol_15s_bps c);
        crosses_ok = is_some_and (ft_open_crosses_30s f)
          (\<lambda>crosses. crosses \<le> calm_persistence_max_open_crosses_30s c);
        churn_ok = is_none_or (ft_polymarket_quote_churn_per_s f)
          (\<lambda>churn. churn \<le> calm_persistence_max_quote_churn_per_s c)
      in vol_ok \<and> crosses_ok \<and> churn_ok)"

definition detect_regime :: "strategy_context \<Rightarrow> config \<Rightarrow> PortfolioRegime" where
  "detect_regime ctx c =
     (if looks_like_structural_pair ctx c then StructuralPair
      else if looks_like_calm_regime ctx c then Calm else Dislocation)"

fun family_matches_regime :: "StrategyFamily \<Rightarrow> PortfolioRegime \<Rightarrow> bool" where
  "family_matches_regime LatencyArb Dislocation = True"
| "family_matches_regime SpreadCapture StructuralPair = True"
| "family_matches_regime CalmPersistence Calm = True"
| "family_matches_regime _ _ = False"

definition select_family_for_candidates ::
  "strategy_context \<Rightarrow> config \<Rightarrow> StrategyFamily list \<Rightarrow> router_selection" where
  "select_family_for_candidates ctx c candidates =
     (let r = detect_regime ctx c in
      \<lparr>regime = r, selected_family = find (\<lambda>f. family_matches_regime f r) candidates\<rparr>)"

subsection \<open>The router\<close>

text \<open>Each regime admits exactly one family, so the choice does not depend on the candidates' order.\<close>

definition family_of_regime :: "PortfolioRegime \<Rightarrow> StrategyFamily" where
  "family_of_regime r = (case r of Dislocation \<Rightarrow> LatencyArb
     | StructuralPair \<Rightarrow> SpreadCapture | Calm \<Rightarrow> CalmPersistence)"

lemma family_matches_regime_iff: "family_matches_regime f r \<longleftrightarrow> f = family_of_regime r"
  by (cases f; cases r) (simp_all add: family_of_regime_def)

lemma find_eq_member: "find (\<lambda>f. f = x) xs = (if x \<in> set xs then Some x else None)"
  by (induction xs) auto

lemma select_family_eq:
  "selected_family (select_family_for_candidates ctx c fs) =
     (if family_of_regime (detect_regime ctx c) \<in> set fs
      then Some (family_of_regime (detect_regime ctx c)) else None)"
  by (simp add: select_family_for_candidates_def Let_def family_matches_regime_iff find_eq_member)

end
