(* ===== verification/Database.thy ===== *)
theory Database
  imports Types Portfolio
begin

section \<open>The run database\<close>

text \<open>
  The part of \<^verbatim>\<open>src/bots/paint/src/db/database.rs\<close> (with the tables of \<^verbatim>\<open>db/schema.rs\<close>) the trading core
  reads and writes: markets, signals and their metrics, simulated trades, trade results and the
  balance log. A table is the list of its rows in row-id order. SQLite itself is the parameter of the
  model: the store carries the outcomes of the coming statements (\<open>db_faults\<close>, \<open>True\<close> for a statement that the
  engine fails, no entry meaning success) and whether the connection enforces foreign keys. What the
  engine does with the values is written out: a NaN is bound as NULL, so a NOT NULL column rejects it; a
  \<open>u64\<close> of \<open>2 ^ 63\<close> or more cannot be bound; a failed statement or transaction changes no table.
  Row ids come from the AUTOINCREMENT sequences and are unbounded integers here.
\<close>

datatype db_error = SqliteError | IntegerOverflow | NotNullViolation | ForeignKeyViolation
  | UniqueViolation | UnexpectedRowCount nat | InvalidLabel string

record market_row =
  mk_window :: market_window
  mk_status :: string

record signal_row =
  sr_id :: i64
  sr_timestamp :: u64
  sr_strategy :: string
  sr_direction :: string
  sr_binance_price :: "f64 option"
  sr_chainlink_price :: "f64 option"
  sr_up_ask :: "f64 option"
  sr_down_ask :: "f64 option"
  sr_up_bid :: "f64 option"
  sr_down_bid :: "f64 option"
  sr_metadata :: json_object
  sr_market_id :: "string option"
  sr_execution_fidelity :: "string option"
  sr_strategy_version :: string
  sr_feature_mode :: string
  sr_order_submitted_at_ms :: "u64 option"
  sr_order_arrival_at_ms :: "u64 option"

record signal_metric =
  sm_signal_id :: i64
  sm_generated_at_ms :: u64
  sm_generated_at_us :: "u64 option"
  sm_order_submitted_at_ms :: "u64 option"
  sm_order_submitted_at_us :: "u64 option"
  sm_expected_arrival_at_ms :: "u64 option"
  sm_expected_arrival_at_us :: "u64 option"
  sm_order_processed_at_ms :: "u64 option"
  sm_order_processed_at_us :: "u64 option"
  sm_effective_arrival_delay_ms :: "u64 option"
  sm_binance_age_ms :: "u64 option"
  sm_chainlink_age_ms :: "u64 option"
  sm_clob_age_ms :: "u64 option"
  sm_quote_age_ms :: "u64 option"
  sm_book_staleness_ms :: "u64 option"
  sm_expected_fee :: "f64 option"
  sm_expected_slippage :: "f64 option"
  sm_expected_edge :: "f64 option"
  sm_available_feature_count :: u32
  sm_decision_status :: string
  sm_rejection_reason :: "string option"
  sm_features_json :: json_object

text \<open>A trade row keeps the columns in a trade; side and status are the text labels.\<close>

record trade_row =
  row_id :: i64
  row_trade :: trade
  row_side :: string
  row_status :: string

record result_row =
  rr_trade_id :: i64
  rr_result :: trade_result
  rr_resolved_at :: u64

record balance_row =
  bl_timestamp :: u64
  bl_event :: string
  bl_trade_id :: "i64 option"
  bl_amount :: f64
  bl_balance :: f64

record store =
  db_faults :: "bool list"
  db_foreign_keys :: bool
  db_markets :: "market_row list"
  db_signals :: "signal_row list"
  db_signal_seq :: i64
  db_metrics :: "signal_metric list"
  db_trades :: "trade_row list"
  db_trade_seq :: i64
  db_results :: "result_row list"
  db_balance_log :: "balance_row list"
  db_summaries :: "(i64 \<times> rejection_summary) list"
  db_summary_seq :: i64

definition db_empty :: "bool list \<Rightarrow> store" where
  "db_empty faults = \<lparr>db_faults = faults, db_foreign_keys = True, db_markets = [], db_signals = [],
     db_signal_seq = 0, db_metrics = [], db_trades = [], db_trade_seq = 0, db_results = [],
     db_balance_log = [], db_summaries = [], db_summary_seq = 0\<rparr>"

subsection \<open>Statements\<close>

definition sql_call :: "u64 list \<Rightarrow> (store \<Rightarrow> (db_error + 'a) \<times> store) \<Rightarrow> store \<Rightarrow> (db_error + 'a) \<times> store" where
  "sql_call params body s =
     (if \<exists>n \<in> set params. 2 ^ 63 \<le> unat n then (Inl IntegerOverflow, s)
      else (case db_faults s of
          [] \<Rightarrow> body s
        | fault # rest \<Rightarrow>
            if fault then (Inl SqliteError, s\<lparr>db_faults := rest\<rparr>) else body (s\<lparr>db_faults := rest\<rparr>)))"

definition sql_real :: "f64 \<Rightarrow> f64 option" where
  "sql_real x = (if is_nan x then None else Some x)"

definition sql_real_opt :: "f64 option \<Rightarrow> f64 option" where
  "sql_real_opt x = Option.bind x sql_real"

definition opt_params :: "u64 option list \<Rightarrow> u64 list" where
  "opt_params xs = map the (filter (\<lambda>x. x \<noteq> None) xs)"

subsection \<open>Markets\<close>

definition merge_market :: "market_window \<Rightarrow> market_window \<Rightarrow> market_window" where
  "merge_market old new = \<lparr>
     mw_market_id = mw_market_id old,
     mw_question = mw_question new,
     mw_up_token_id = mw_up_token_id new,
     mw_down_token_id = mw_down_token_id new,
     mw_condition_id = mw_condition_id new,
     mw_start_time = mw_start_time new,
     mw_end_time = mw_end_time new,
     mw_slug = mw_slug new,
     mw_outcome = opt_or (mw_outcome new) (mw_outcome old),
     mw_resolution_source = opt_or (mw_resolution_source new) (mw_resolution_source old),
     mw_fee_profile = opt_or (mw_fee_profile new) (mw_fee_profile old),
     mw_order_min_size = opt_or (mw_order_min_size new) (mw_order_min_size old),
     mw_order_price_min_tick_size = opt_or (mw_order_price_min_tick_size new) (mw_order_price_min_tick_size old),
     mw_maker_base_fee = opt_or (mw_maker_base_fee new) (mw_maker_base_fee old),
     mw_taker_base_fee = opt_or (mw_taker_base_fee new) (mw_taker_base_fee old),
     mw_rewards_min_size = opt_or (mw_rewards_min_size new) (mw_rewards_min_size old),
     mw_rewards_max_spread = opt_or (mw_rewards_max_spread new) (mw_rewards_max_spread old),
     mw_fees_enabled = opt_or (mw_fees_enabled new) (mw_fees_enabled old),
     mw_fee_schedule_json = opt_or (mw_fee_schedule_json new) (mw_fee_schedule_json old),
     mw_token_fee_rates_json = opt_or (mw_token_fee_rates_json new) (mw_token_fee_rates_json old),
     mw_accepting_orders = opt_or (mw_accepting_orders new) (mw_accepting_orders old),
     mw_accepting_orders_timestamp = opt_or (mw_accepting_orders_timestamp new) (mw_accepting_orders_timestamp old),
     mw_clear_book_on_start = opt_or (mw_clear_book_on_start new) (mw_clear_book_on_start old)\<rparr>"

definition upsert_market :: "market_window \<Rightarrow> store \<Rightarrow> (db_error + unit) \<times> store" where
  "upsert_market w = sql_call [mw_start_time w, mw_end_time w] (\<lambda>s.
     (Inr (), s\<lparr>db_markets :=
        (if \<exists>m \<in> set (db_markets s). mw_market_id (mk_window m) = mw_market_id w
         then map (\<lambda>m. if mw_market_id (mk_window m) = mw_market_id w
                       then m\<lparr>mk_window := merge_market (mk_window m) w\<rparr> else m) (db_markets s)
         else db_markets s @ [\<lparr>mk_window = w, mk_status = ''active''\<rparr>])\<rparr>))"

definition resolve_market_with_outcome :: "string \<Rightarrow> string \<Rightarrow> string \<Rightarrow> store \<Rightarrow> (db_error + unit) \<times> store" where
  "resolve_market_with_outcome market_id status outcome = sql_call [] (\<lambda>s.
     (Inr (), s\<lparr>db_markets := map (\<lambda>m. if mw_market_id (mk_window m) = market_id
        then m\<lparr>mk_status := status, mk_window := (mk_window m)\<lparr>mw_outcome := Some outcome\<rparr>\<rparr> else m)
        (db_markets s)\<rparr>))"

definition resolve_market :: "string \<Rightarrow> string \<Rightarrow> store \<Rightarrow> (db_error + unit) \<times> store" where
  "resolve_market market_id status = sql_call [] (\<lambda>s.
     (Inr (), s\<lparr>db_markets := map (\<lambda>m. if mw_market_id (mk_window m) = market_id then m\<lparr>mk_status := status\<rparr> else m)
        (db_markets s)\<rparr>))"

definition market_end_time :: "store \<Rightarrow> string \<Rightarrow> u64 option" where
  "market_end_time s market_id = map_option (mw_end_time \<circ> mk_window)
     (find (\<lambda>m. mw_market_id (mk_window m) = market_id) (db_markets s))"

subsection \<open>Signals and their metrics\<close>

definition log_signal_with_context ::
  "signal \<Rightarrow> string option \<Rightarrow> ReplayFidelity option \<Rightarrow> u64 option \<Rightarrow> u64 option \<Rightarrow> store \<Rightarrow> (db_error + i64) \<times> store" where
  "log_signal_with_context sig market_id fidelity submitted arrival =
     sql_call (sig_timestamp sig # opt_params [submitted, arrival]) (\<lambda>s.
       let new_id = db_signal_seq s + 1;
           row = \<lparr>sr_id = new_id, sr_timestamp = sig_timestamp sig, sr_strategy = sig_strategy sig,
             sr_direction = direction_to_string (sig_direction sig),
             sr_binance_price = sql_real (sig_binance_price sig),
             sr_chainlink_price = sql_real (sig_chainlink_price sig),
             sr_up_ask = sql_real (sig_up_ask sig), sr_down_ask = sql_real (sig_down_ask sig),
             sr_up_bid = sql_real (sig_up_bid sig), sr_down_bid = sql_real (sig_down_bid sig),
             sr_metadata = sig_metadata sig, sr_market_id = market_id,
             sr_execution_fidelity = map_option fidelity_to_string fidelity,
             sr_strategy_version = sig_strategy_version sig, sr_feature_mode = sig_feature_mode sig,
             sr_order_submitted_at_ms = submitted, sr_order_arrival_at_ms = arrival\<rparr>
       in (Inr new_id, s\<lparr>db_signals := db_signals s @ [row], db_signal_seq := new_id\<rparr>))"

definition resolve_related_us :: "u64 \<Rightarrow> u64 option \<Rightarrow> u64 option \<Rightarrow> u64 option \<Rightarrow> u64 option" where
  "resolve_related_us base_ms base_us target_ms explicit_us =
     opt_or explicit_us
       (case (base_us, target_ms) of
          (Some us, Some ms) \<Rightarrow> Some (saturating_add us (saturating_mul (saturating_sub ms base_ms) 1000))
        | _ \<Rightarrow> None)"

definition metric_params :: "signal_metric \<Rightarrow> u64 list" where
  "metric_params r = sm_generated_at_ms r # opt_params
     [sm_generated_at_us r, sm_order_submitted_at_ms r, sm_order_submitted_at_us r,
      sm_expected_arrival_at_ms r, sm_expected_arrival_at_us r, sm_order_processed_at_ms r,
      sm_order_processed_at_us r, sm_effective_arrival_delay_ms r, sm_binance_age_ms r,
      sm_chainlink_age_ms r, sm_clob_age_ms r, sm_quote_age_ms r, sm_book_staleness_ms r]"

definition upsert_signal_metrics :: "signal_metric \<Rightarrow> store \<Rightarrow> (db_error + unit) \<times> store" where
  "upsert_signal_metrics r = sql_call (metric_params r) (\<lambda>s.
     let row = r\<lparr>sm_expected_fee := sql_real_opt (sm_expected_fee r),
                sm_expected_slippage := sql_real_opt (sm_expected_slippage r),
                sm_expected_edge := sql_real_opt (sm_expected_edge r)\<rparr>
     in if db_foreign_keys s \<and> \<not> (\<exists>x \<in> set (db_signals s). sr_id x = sm_signal_id r)
        then (Inl ForeignKeyViolation, s)
        else (Inr (), s\<lparr>db_metrics :=
        (if \<exists>m \<in> set (db_metrics s). sm_signal_id m = sm_signal_id r
         then map (\<lambda>m. if sm_signal_id m = sm_signal_id r then row else m) (db_metrics s)
         else db_metrics s @ [row])\<rparr>))"

definition upsert_signal_telemetry ::
  "i64 \<Rightarrow> signal_telemetry \<Rightarrow> u64 option \<Rightarrow> u64 option \<Rightarrow> string option \<Rightarrow> string option \<Rightarrow> store \<Rightarrow> (db_error + unit) \<times> store" where
  "upsert_signal_telemetry sid t submitted arrival status reason =
     (let submitted_ms = opt_or submitted (tel_order_submitted_at_ms t);
          arrival_ms = opt_or arrival (tel_expected_arrival_at_ms t)
      in upsert_signal_metrics \<lparr>
        sm_signal_id = sid,
        sm_generated_at_ms = tel_generated_at_ms t,
        sm_generated_at_us = tel_generated_at_us t,
        sm_order_submitted_at_ms = submitted_ms,
        sm_order_submitted_at_us = resolve_related_us (tel_generated_at_ms t) (tel_generated_at_us t)
          submitted_ms (tel_order_submitted_at_us t),
        sm_expected_arrival_at_ms = arrival_ms,
        sm_expected_arrival_at_us = resolve_related_us (tel_generated_at_ms t) (tel_generated_at_us t)
          arrival_ms (tel_expected_arrival_at_us t),
        sm_order_processed_at_ms = tel_order_processed_at_ms t,
        sm_order_processed_at_us = tel_order_processed_at_us t,
        sm_effective_arrival_delay_ms = tel_effective_arrival_delay_ms t,
        sm_binance_age_ms = tel_binance_age_ms t,
        sm_chainlink_age_ms = tel_chainlink_age_ms t,
        sm_clob_age_ms = tel_clob_age_ms t,
        sm_quote_age_ms = tel_quote_age_ms t,
        sm_book_staleness_ms = tel_book_staleness_ms t,
        sm_expected_fee = tel_expected_fee t,
        sm_expected_slippage = tel_expected_slippage t,
        sm_expected_edge = tel_expected_edge t,
        sm_available_feature_count = tel_available_feature_count t,
        sm_decision_status = unwrap_or status (tel_decision_status t),
        sm_rejection_reason = opt_or reason (tel_rejection_reason t),
        sm_features_json = tel_features_json t\<rparr>)"

text \<open>\<open>signal_id\<close> is the primary key, so the update touches at most one row; any other count is an error.\<close>

definition update_signal_execution_outcome ::
  "i64 \<Rightarrow> u64 \<Rightarrow> u64 option \<Rightarrow> u64 \<Rightarrow> string \<Rightarrow> string option \<Rightarrow> store \<Rightarrow> (db_error + unit) \<times> store" where
  "update_signal_execution_outcome sid processed_ms processed_us delay_ms status reason =
     sql_call (processed_ms # delay_ms # opt_params [processed_us]) (\<lambda>s.
       let updated = length (filter (\<lambda>m. sm_signal_id m = sid) (db_metrics s));
           s' = s\<lparr>db_metrics := map (\<lambda>m. if sm_signal_id m = sid
             then m\<lparr>sm_order_processed_at_ms := Some processed_ms, sm_order_processed_at_us := processed_us,
                    sm_effective_arrival_delay_ms := Some delay_ms, sm_decision_status := status,
                    sm_rejection_reason := reason\<rparr> else m) (db_metrics s)\<rparr>
       in if updated \<noteq> 1 then (Inl (UnexpectedRowCount updated), s') else (Inr (), s'))"

subsection \<open>Trades\<close>

definition trade_columns :: "trade \<Rightarrow> trade" where
  "trade_columns t = t\<lparr>tr_fill_price := sql_real_opt (tr_fill_price t),
     tr_requested_price := sql_real_opt (tr_requested_price t),
     tr_requested_size := sql_real_opt (tr_requested_size t),
     tr_filled_size := sql_real_opt (tr_filled_size t),
     tr_avg_fill_price := sql_real_opt (tr_avg_fill_price t)\<rparr>"

definition trade_row_of :: "i64 \<Rightarrow> trade \<Rightarrow> trade_row" where
  "trade_row_of i t = \<lparr>row_id = i, row_trade = trade_columns t,
     row_side = direction_to_string (tr_side t), row_status = trade_status_to_string (tr_status t)\<rparr>"

definition trade_of_row :: "trade_row \<Rightarrow> db_error + trade" where
  "trade_of_row r = (case direction_from_str (row_side r) of Inl e \<Rightarrow> Inl (InvalidLabel e) | Inr d \<Rightarrow>
     (case trade_status_from_str (row_status r) of Inl e \<Rightarrow> Inl (InvalidLabel e) | Inr st \<Rightarrow>
       Inr ((row_trade r)\<lparr>tr_id := Some (row_id r), tr_side := d, tr_status := st\<rparr>)))"

definition trade_insert_error :: "trade \<Rightarrow> store \<Rightarrow> db_error option" where
  "trade_insert_error t s =
     (if is_nan (tr_entry_price t) \<or> is_nan (tr_size t) then Some NotNullViolation
      else if db_foreign_keys s \<and> market_end_time s (tr_market_id t) = None then Some ForeignKeyViolation
      else None)"

definition trade_params :: "trade \<Rightarrow> u64 list" where
  "trade_params t = tr_timestamp t # opt_params [tr_fill_latency_ms t]"

definition open_trade_with_id :: "i64 \<Rightarrow> trade \<Rightarrow> store \<Rightarrow> (db_error + i64) \<times> store" where
  "open_trade_with_id i t = sql_call (trade_params t) (\<lambda>s.
     case trade_insert_error t s of Some e \<Rightarrow> (Inl e, s)
     | None \<Rightarrow> (Inr i, s\<lparr>db_trades :=
         insort_key row_id (trade_row_of i t) (filter (\<lambda>r. row_id r \<noteq> i) (db_trades s)),
         db_trade_seq := max (db_trade_seq s) i\<rparr>))"

definition open_trade :: "trade \<Rightarrow> store \<Rightarrow> (db_error + i64) \<times> store" where
  "open_trade t = (case tr_id t of Some i \<Rightarrow> open_trade_with_id i t
     | None \<Rightarrow> sql_call (trade_params t) (\<lambda>s.
         case trade_insert_error t s of Some e \<Rightarrow> (Inl e, s)
         | None \<Rightarrow> (let i = db_trade_seq s + 1 in
             (Inr i, s\<lparr>db_trades := db_trades s @ [trade_row_of i t], db_trade_seq := i\<rparr>))))"

definition close_trade_error :: "i64 \<Rightarrow> trade_result \<Rightarrow> store \<Rightarrow> db_error option" where
  "close_trade_error i r s =
     (if is_nan (res_settlement_price r) \<or> is_nan (res_pnl_0pct r) \<or> is_nan (res_pnl_1pct r)
         \<or> is_nan (res_pnl_2pct r) \<or> is_nan (res_pnl_3pct r) then Some NotNullViolation
      else if \<exists>x \<in> set (db_results s). rr_trade_id x = i then Some UniqueViolation
      else if db_foreign_keys s \<and> \<not> (\<exists>x \<in> set (db_trades s). row_id x = i) then Some ForeignKeyViolation
      else None)"

text \<open>One transaction: the status update and the result row, or neither. \<open>wall\<close> is the system clock.\<close>

definition close_trade :: "u64 \<Rightarrow> i64 \<Rightarrow> trade_result \<Rightarrow> store \<Rightarrow> (db_error + unit) \<times> store" where
  "close_trade wall i r = sql_call [wall] (\<lambda>s.
     case close_trade_error i r s of Some e \<Rightarrow> (Inl e, s)
     | None \<Rightarrow> (Inr (), s\<lparr>db_trades := map (\<lambda>x. if row_id x = i then x\<lparr>row_status := ''closed''\<rparr> else x) (db_trades s),
         db_results := db_results s @ [\<lparr>rr_trade_id = i, rr_result = r, rr_resolved_at = wall\<rparr>]\<rparr>))"

fun collect_rows :: "(db_error + 'a) list \<Rightarrow> db_error + 'a list" where
  "collect_rows [] = Inr []"
| "collect_rows (Inl e # rs) = Inl e"
| "collect_rows (Inr x # rs) = (case collect_rows rs of Inl e \<Rightarrow> Inl e | Inr xs \<Rightarrow> Inr (x # xs))"

definition open_rows_for_market :: "string \<Rightarrow> store \<Rightarrow> trade_row list" where
  "open_rows_for_market market_id s =
     filter (\<lambda>r. tr_market_id (row_trade r) = market_id \<and> row_status r = ''open'') (db_trades s)"

definition get_open_trades_for_market :: "string \<Rightarrow> store \<Rightarrow> (db_error + trade list) \<times> store" where
  "get_open_trades_for_market market_id = sql_call [] (\<lambda>s.
     (collect_rows (map trade_of_row (open_rows_for_market market_id s)), s))"

definition open_rows :: "store \<Rightarrow> trade_row list" where
  "open_rows s = filter (\<lambda>r. row_status r = ''open'') (db_trades s)"

definition count_open_trades :: "store \<Rightarrow> (db_error + u64) \<times> store" where
  "count_open_trades = sql_call [] (\<lambda>s. (Inr (of_nat (length (open_rows s))), s))"

text \<open>The open trades joined with their market, without a result row.\<close>

definition unresolved_rows :: "store \<Rightarrow> (trade_row \<times> u64) list" where
  "unresolved_rows s = concat (map (\<lambda>r. case market_end_time s (tr_market_id (row_trade r)) of
       Some e \<Rightarrow> [(r, e)] | None \<Rightarrow> [])
     (filter (\<lambda>r. \<not> (\<exists>x \<in> set (db_results s). rr_trade_id x = row_id r)) (open_rows s)))"

definition count_active_open_trades :: "u64 \<Rightarrow> store \<Rightarrow> (db_error + u64) \<times> store" where
  "count_active_open_trades now_ms = sql_call [now_ms] (\<lambda>s.
     (Inr (of_nat (length (filter (\<lambda>(r, e). now_ms < e) (unresolved_rows s)))), s))"

definition count_pending_settlement_open_trades :: "u64 \<Rightarrow> store \<Rightarrow> (db_error + u64) \<times> store" where
  "count_pending_settlement_open_trades now_ms = sql_call [now_ms] (\<lambda>s.
     (Inr (of_nat (length (filter (\<lambda>(r, e). e \<le> now_ms) (unresolved_rows s)))), s))"

record exposure =
  ex_trade_id :: i64
  ex_market_id :: string
  ex_strategy :: string
  ex_entry_price :: f64
  ex_size :: f64
  ex_market_end_time :: u64

definition exposure_of :: "trade_row \<times> u64 \<Rightarrow> exposure" where
  "exposure_of = (\<lambda>(r, e). \<lparr>ex_trade_id = row_id r, ex_market_id = tr_market_id (row_trade r),
     ex_strategy = tr_strategy (row_trade r), ex_entry_price = tr_entry_price (row_trade r),
     ex_size = tr_size (row_trade r), ex_market_end_time = e\<rparr>)"

definition unresolved_trade_exposures :: "store \<Rightarrow> (db_error + exposure list) \<times> store" where
  "unresolved_trade_exposures = sql_call [] (\<lambda>s.
     (Inr (map exposure_of (sort_key (\<lambda>(r, e). (unat e)) (unresolved_rows s))), s))"

subsection \<open>The balance log\<close>

definition log_balance_event ::
  "u64 \<Rightarrow> string \<Rightarrow> i64 option \<Rightarrow> f64 \<Rightarrow> f64 \<Rightarrow> store \<Rightarrow> (db_error + unit) \<times> store" where
  "log_balance_event ts event trade_id amount balance = sql_call [ts] (\<lambda>s.
     if is_nan amount \<or> is_nan balance then (Inl NotNullViolation, s)
     else if db_foreign_keys s \<and> is_some_and trade_id (\<lambda>i. \<not> (\<exists>x \<in> set (db_trades s). row_id x = i))
     then (Inl ForeignKeyViolation, s)
     else (Inr (), s\<lparr>db_balance_log := db_balance_log s @
       [\<lparr>bl_timestamp = ts, bl_event = event, bl_trade_id = trade_id, bl_amount = amount, bl_balance = balance\<rparr>]\<rparr>))"

definition get_latest_balance :: "store \<Rightarrow> (db_error + f64 option) \<times> store" where
  "get_latest_balance = sql_call [] (\<lambda>s.
     (Inr (if db_balance_log s = [] then None else Some (bl_balance (last (db_balance_log s)))), s))"

subsection \<open>Rejection summaries\<close>

definition log_strategy_rejection_summary :: "rejection_summary \<Rightarrow> store \<Rightarrow> (db_error + i64) \<times> store" where
  "log_strategy_rejection_summary r = sql_call [su_timestamp_ms r, su_count r] (\<lambda>s. let i = db_summary_seq s + 1 in
     (Inr i, s\<lparr>db_summaries := db_summaries s @ [(i, r)], db_summary_seq := i\<rparr>))"

subsection \<open>Laws of the store\<close>

text \<open>Every statement succeeds or leaves all tables as they were.\<close>

definition same_tables :: "store \<Rightarrow> store \<Rightarrow> bool" where
  "same_tables s t \<longleftrightarrow> t = s\<lparr>db_faults := db_faults t\<rparr>"

lemma same_tables_refl [simp]: "same_tables s s"
  by (simp add: same_tables_def)

lemma same_tables_faults [simp]: "same_tables s (s\<lparr>db_faults := fs\<rparr>)"
  by (simp add: same_tables_def)

lemma same_tables_trans: "same_tables s t \<Longrightarrow> same_tables t u \<Longrightarrow> same_tables s u"
  unfolding same_tables_def by (metis store.surjective store.update_convs(1))

lemma same_tables_fields:
  assumes "same_tables s t"
  shows "db_markets t = db_markets s" "db_signals t = db_signals s" "db_metrics t = db_metrics s"
    "db_trades t = db_trades s" "db_results t = db_results s" "db_balance_log t = db_balance_log s"
    "db_trade_seq t = db_trade_seq s" "db_signal_seq t = db_signal_seq s"
    "db_foreign_keys t = db_foreign_keys s" "db_summaries t = db_summaries s"
  using assms unfolding same_tables_def by (metis store.select_convs(2-11) store.surjective store.update_convs(1))+

lemma sql_call_cases:
  obtains (ran) s1 where "sql_call ps body s = body s1" "same_tables s s1"
  | (failed) e s1 where "sql_call ps body s = (Inl e, s1)" "same_tables s s1"
proof (cases "\<exists>n \<in> set ps. 2 ^ 63 \<le> unat n")
  case True
  then show ?thesis using failed[of IntegerOverflow s] by (simp add: sql_call_def)
next
  case False
  show ?thesis
  proof (cases "db_faults s")
    case Nil
    then show ?thesis using False ran[of s] by (simp add: sql_call_def)
  next
    case (Cons f fs)
    then show ?thesis
      using False ran[of "s\<lparr>db_faults := fs\<rparr>"] failed[of SqliteError "s\<lparr>db_faults := fs\<rparr>"]
      by (cases f) (simp_all add: sql_call_def)
  qed
qed

lemma sql_call_no_fault:
  "\<forall>n \<in> set ps. unat n < 2 ^ 63 \<Longrightarrow> db_faults s = [] \<Longrightarrow> sql_call ps body s = body s"
  by (auto simp: sql_call_def not_le)

lemma read_only:
  assumes "\<And>t. snd (body t) = t"
  shows "same_tables s (snd (sql_call ps body s))"
  by (rule sql_call_cases[of ps body s]) (simp_all add: assms)

lemma read_only_ops:
  "same_tables s (snd (get_open_trades_for_market m s))"
  "same_tables s (snd (count_open_trades s))"
  "same_tables s (snd (count_active_open_trades now s))"
  "same_tables s (snd (unresolved_trade_exposures s))"
  "same_tables s (snd (get_latest_balance s))"
  by (simp_all add: get_open_trades_for_market_def count_open_trades_def count_active_open_trades_def
      unresolved_trade_exposures_def get_latest_balance_def read_only)

text \<open>The labels written by \<open>trade_row_of\<close> are read back: a stored trade comes back unchanged up to its id.\<close>

lemma label_round_trip [simp]:
  "direction_from_str (direction_to_string d) = Inr d"
  "trade_status_from_str (trade_status_to_string st) = Inr st"
  by (cases d; simp add: direction_from_str_def) (cases st; simp add: trade_status_from_str_def)

lemma trade_of_row_of:
  "trade_of_row (trade_row_of i t) = Inr ((trade_columns t)\<lparr>tr_id := Some i\<rparr>)"
  by (simp add: trade_of_row_def trade_row_of_def trade_columns_def)

lemma collect_rows_Inr: "collect_rows (map Inr xs) = Inr xs"
  by (induction xs) simp_all

end
