(* ===== verification/Fees.thy ===== *)
theory Fees
  imports Types Config
begin

section \<open>Taker fees\<close>

text \<open>
  \<^verbatim>\<open>src/bots/paint/src/fees.rs\<close>: how the fee parameters of a market are resolved and what fee a fill
  of a number of shares at a price costs. The JSON parser of the fee schedule (\<open>serde_json\<close>) is the
  argument \<open>parse\<close>: it gives the exponent and the rate of a schedule text, or nothing.
\<close>

definition CRYPTO_FEE_CHANGEOVER_MS :: u64 where
  "CRYPTO_FEE_CHANGEOVER_MS = 1774828800000"

record fee_params =
  fee_rate :: f64
  exponent :: u32

record fee_schedule =
  fs_exponent :: "u32 option"
  fs_rate :: "f64 option"
  fs_taker_only :: "bool option"
  fs_rebate_rate :: "f64 option"

definition market_fee_schedule_params ::
  "(string \<Rightarrow> fee_schedule option) \<Rightarrow> market_window \<Rightarrow> fee_params option" where
  "market_fee_schedule_params parse m =
     (case mw_fee_schedule_json m of None \<Rightarrow> None | Some raw \<Rightarrow>
      (case parse raw of None \<Rightarrow> None | Some schedule \<Rightarrow>
       (case fs_rate schedule of None \<Rightarrow> None | Some rate \<Rightarrow>
          Some \<lparr>fee_rate = rate, exponent = unwrap_or (fs_exponent schedule) 1\<rparr>)))"

definition crypto_fee_params :: "u64 \<Rightarrow> fee_params" where
  "crypto_fee_params timestamp_ms =
     (if CRYPTO_FEE_CHANGEOVER_MS \<le> timestamp_ms then \<lparr>fee_rate = f64_lit 0.07, exponent = 1\<rparr>
      else \<lparr>fee_rate = f64_lit 0.25, exponent = 2\<rparr>)"

definition eq_ignore_ascii_case :: "string \<Rightarrow> string \<Rightarrow> bool" where
  "eq_ignore_ascii_case a b \<longleftrightarrow> map ascii_lower a = map ascii_lower b"

definition configured_fee_params :: "config \<Rightarrow> fee_params" where
  "configured_fee_params c = \<lparr>fee_rate = taker_fee_rate c, exponent = taker_fee_exponent c\<rparr>"

definition resolve_fee_params ::
  "(string \<Rightarrow> fee_schedule option) \<Rightarrow> config \<Rightarrow> market_window option \<Rightarrow> u64 \<Rightarrow> fee_params" where
  "resolve_fee_params parse c market timestamp_ms =
     (if taker_fee_override_explicit c then configured_fee_params c
      else if is_some_and market (\<lambda>m. mw_fees_enabled m = Some False)
        then \<lparr>fee_rate = 0, exponent = 1\<rparr>
      else (case Option.bind market (market_fee_schedule_params parse) of
          Some params \<Rightarrow> params
        | None \<Rightarrow>
          if is_some_and (Option.bind market mw_fee_profile) (\<lambda>p. eq_ignore_ascii_case p ''crypto'')
          then crypto_fee_params timestamp_ms
          else configured_fee_params c))"

text \<open>\<open>i32::try_from(exponent).unwrap_or(2)\<close>.\<close>

definition powi_exponent :: "u32 \<Rightarrow> nat" where
  "powi_exponent e = (if unat e < 2 ^ 31 then unat e else 2)"

definition compute_taker_fee :: "f64 \<Rightarrow> f64 \<Rightarrow> f64 \<Rightarrow> u32 \<Rightarrow> f64" where
  "compute_taker_fee price shares rate e =
     (if price \<le> 0 \<or> 1 \<le> price \<or> shares \<le> 0 \<or> rate \<le> 0 then 0
      else let variance = price * (1 - price) in
        shares * price * rate * f64_powi variance (powi_exponent e))"

definition effective_fee_rate :: "f64 \<Rightarrow> f64 \<Rightarrow> u32 \<Rightarrow> f64" where
  "effective_fee_rate price rate e =
     (if price \<le> 0 \<or> 1 \<le> price then 0
      else let variance = price * (1 - price) in rate * f64_powi variance (powi_exponent e))"

definition spread_net_edge :: "f64 \<Rightarrow> f64 \<Rightarrow> f64 \<Rightarrow> f64 \<Rightarrow> u32 \<Rightarrow> f64" where
  "spread_net_edge up_price down_price shares rate e =
     (if shares \<le> 0 then 0
      else let gross = shares * (1 - up_price - down_price);
               fees = compute_taker_fee up_price shares rate e
                    + compute_taker_fee down_price shares rate e
           in gross - fees)"

subsection \<open>Bounds\<close>

lemma variance_unit: "unit_f64 p \<Longrightarrow> unit_f64 (f64_powi (p * (1 - p)) n)"
  by (intro unit_f64_powi unit_f64_mul unit_f64_compl)

lemma fee_factor_bounds:
  assumes "0 \<le> p" "p \<le> 1" "0 \<le> sh" "is_finite sh" "unit_f64 r"
  shows "0 \<le> sh * p * r * f64_powi (p * (1 - p)) n \<and> sh * p * r * f64_powi (p * (1 - p)) n \<le> sh * p"
proof -
  have p: "unit_f64 p" using assms by (simp add: unit_f64_def)
  have 1: "0 \<le> sh * p" "sh * p \<le> sh" using f64_mul_le_left[OF assms(3,1,2,4)] by simp_all
  have f1: "is_finite (sh * p)" by (rule f64_between_finite[OF finite_0(1) assms(4) 1])
  have 2: "0 \<le> sh * p * r" "sh * p * r \<le> sh * p"
    using f64_mul_le_left[OF 1(1) _ _ f1, of r] assms(5) by (simp_all add: unit_f64_def)
  have f2: "is_finite (sh * p * r)" by (rule f64_between_finite[OF finite_0(1) f1 2])
  show ?thesis
    using f64_mul_le_left[OF 2(1) _ _ f2, of "f64_powi (p * (1 - p)) n"] variance_unit[OF p, of n]
      f64_le_trans[OF _ 2(2)] by (auto simp: unit_f64_def)
qed

lemma taker_fee_bounds:
  assumes "\<not> is_nan p" "0 \<le> sh" "is_finite sh" "unit_f64 r"
  shows "0 \<le> compute_taker_fee p sh r e"
    and "0 \<le> p \<Longrightarrow> p \<le> 1 \<Longrightarrow> compute_taker_fee p sh r e \<le> sh * p"
proof -
  show "0 \<le> compute_taker_fee p sh r e"
  proof (cases "p \<le> 0 \<or> 1 \<le> p \<or> sh \<le> 0 \<or> r \<le> 0")
    case False
    then have "0 \<le> p" "p \<le> 1"
      using assms(1) f64_linear[of p 0] f64_linear[of p 1] by auto
    then show ?thesis
      using fee_factor_bounds[OF _ _ assms(2-4)] False
      by (simp add: compute_taker_fee_def Let_def)
  qed (simp add: compute_taker_fee_def)
  assume b: "0 \<le> p" "p \<le> 1"
  show "compute_taker_fee p sh r e \<le> sh * p"
  proof (cases "p \<le> 0 \<or> 1 \<le> p \<or> sh \<le> 0 \<or> r \<le> 0")
    case True
    then show ?thesis using f64_mul_le_left[OF assms(2) b assms(3)]
      by (simp add: compute_taker_fee_def)
  next
    case False
    then show ?thesis
      using fee_factor_bounds[OF b assms(2-4)] by (simp add: compute_taker_fee_def Let_def)
  qed
qed

text \<open>
  The two-leg edge is positive only when the two asks leave a gross margin: fees never create edge.
\<close>

lemma spread_net_edge_pos_gross:
  assumes "\<not> is_nan up" "\<not> is_nan down" "unit_f64 r" "0 < spread_net_edge up down 1 r e"
  shows "0 < 1 * (1 - up - down)"
proof -
  let ?fees = "compute_taker_fee up 1 r e + compute_taker_fee down 1 r e"
  have fees: "0 \<le> ?fees"
    using assms(1-3) by (intro f64_add_nonneg taker_fee_bounds(1)) (simp_all add: f64_le_finite)
  have n: "\<not> (1 :: f64) \<le> 0" by (simp add: f64_le_finite)
  have pos: "0 < 1 * (1 - up - down) - ?fees" using assms(4) n by (simp add: spread_net_edge_def Let_def)
  then have "\<not> is_nan (1 * (1 - up - down) - ?fees)" using f64_less_not_nan by blast
  with pos show ?thesis using f64_sub_le[OF fees] f64_less_le_trans by blast
qed

end
