(* ===== verification/Bankroll.thy ===== *)
theory Bankroll
  imports Database Fees
begin

section \<open>Bankroll manager\<close>

text \<open>
  \<^verbatim>\<open>src/bots/paint/src/bankroll.rs\<close>: balance, high-water mark and drawdown, the reserve buckets (active
  and pending settlement, in total and per strategy family), order sizing, the drawdown pause, and the
  application of trade results and settlement corrections. Every reading of the clock is an argument.
  Log output is not modelled; the rate-limiting timestamp of \<open>log_blocked\<close> is.
\<close>

subsection \<open>State\<close>

datatype SpreadAffordabilityFailureReason = AffSpreadBudgetTooSmall | BelowMarketMinSizeOnSubmit

fun affordability_reason_as_str :: "SpreadAffordabilityFailureReason \<Rightarrow> string" where
  "affordability_reason_as_str AffSpreadBudgetTooSmall = ''spread_budget_too_small''"
| "affordability_reason_as_str BelowMarketMinSizeOnSubmit = ''below_market_min_size_on_submit''"

record affordability_check =
  queueable :: bool
  available_spread_budget :: f64
  required_pair_units :: f64
  required_pair_notional :: f64
  failure_reason :: "SpreadAffordabilityFailureReason option"

record strategy_record =
  sr_wins :: u64
  sr_losses :: u64

record trade_result_record =
  trr_strategy :: string
  trr_won :: bool

record bankroll_stats =
  bs_starting_balance :: f64
  bs_current_balance :: f64
  bs_high_water_mark :: f64
  bs_max_drawdown_pct :: f64
  bs_total_trades :: u64
  bs_wins :: u64
  bs_losses :: u64
  bs_win_rate :: f64
  bs_total_pnl :: f64
  bs_total_fees :: f64

type_synonym family_amounts = "StrategyFamily \<rightharpoonup> f64"

record bankroll =
  bk_starting_balance :: f64
  bk_current_balance :: f64
  bk_high_water_mark :: f64
  bk_peak_drawdown_pct :: f64
  bk_total_wins :: u64
  bk_total_losses :: u64
  bk_total_trades :: u64
  bk_active :: f64
  bk_pending :: f64
  bk_reserved :: f64
  bk_active_by_family :: family_amounts
  bk_pending_by_family :: family_amounts
  bk_reserved_by_family :: family_amounts
  bk_peak_dd_pause_until :: u64
  bk_dd_pause_armed :: bool
  bk_total_fees :: f64
  bk_strategy_stats :: "string \<rightharpoonup> strategy_record"
  bk_recent_results :: "trade_result_record list"
  bk_kelly_rolling_window :: nat
  bk_last_blocked_log_ms :: u64

definition fam_get :: "family_amounts \<Rightarrow> StrategyFamily \<Rightarrow> f64" where
  "fam_get m f = unwrap_or (m f) 0"

text \<open>\<open>*entry(family).or_insert(0.0) += amount\<close> and the in-place update of an existing entry.\<close>

definition fam_add :: "StrategyFamily \<Rightarrow> f64 \<Rightarrow> family_amounts \<Rightarrow> family_amounts" where
  "fam_add f amount m = m(f \<mapsto> fam_get m f + amount)"

definition fam_sub :: "StrategyFamily \<Rightarrow> f64 \<Rightarrow> family_amounts \<Rightarrow> family_amounts" where
  "fam_sub f amount m = (case m f of None \<Rightarrow> m | Some x \<Rightarrow> m(f \<mapsto> f64_max (x - amount) 0))"

definition all_families :: "StrategyFamily list" where
  "all_families = [LatencyArb, SpreadCapture, CalmPersistence]"

definition new_in_memory :: "f64 \<Rightarrow> f64 \<Rightarrow> config \<Rightarrow> bankroll" where
  "new_in_memory starting current c = \<lparr>bk_starting_balance = starting, bk_current_balance = current,
     bk_high_water_mark = f64_max starting current, bk_peak_drawdown_pct = 0, bk_total_wins = 0,
     bk_total_losses = 0, bk_total_trades = 0, bk_active = 0, bk_pending = 0, bk_reserved = 0,
     bk_active_by_family = Map.empty, bk_pending_by_family = Map.empty,
     bk_reserved_by_family = Map.empty, bk_peak_dd_pause_until = 0, bk_dd_pause_armed = True,
     bk_total_fees = 0, bk_strategy_stats = Map.empty, bk_recent_results = [],
     bk_kelly_rolling_window = unat (kelly_rolling_window c), bk_last_blocked_log_ms = 0\<rparr>"

subsection \<open>Reserve buckets\<close>

definition family_for_strategy :: "string \<Rightarrow> StrategyFamily" where
  "family_for_strategy strategy = unwrap_or (from_strategy_name strategy) LatencyArb"

definition sync_raw_reserved_totals :: "bankroll \<Rightarrow> bankroll" where
  "sync_raw_reserved_totals b = b\<lparr>bk_reserved := bk_active b + bk_pending b,
     bk_reserved_by_family := map_of (map (\<lambda>f.
       (f, fam_get (bk_active_by_family b) f + fam_get (bk_pending_by_family b) f)) all_families)\<rparr>"

definition manually_overridden :: "bankroll \<Rightarrow> bool" where
  "manually_overridden b \<longleftrightarrow> f64_lit 0.000000001 < \<bar>bk_reserved b - (bk_active b + bk_pending b)\<bar>"

definition manually_overridden_for_family :: "StrategyFamily \<Rightarrow> bankroll \<Rightarrow> bool" where
  "manually_overridden_for_family f b \<longleftrightarrow> manually_overridden b \<or>
     f64_lit 0.000000001 < \<bar>fam_get (bk_reserved_by_family b) f -
       (fam_get (bk_active_by_family b) f + fam_get (bk_pending_by_family b) f)\<bar>"

definition add_reserved :: "StrategyFamily \<Rightarrow> f64 \<Rightarrow> bankroll \<Rightarrow> bankroll" where
  "add_reserved f amount b = sync_raw_reserved_totals
     (b\<lparr>bk_active := bk_active b + amount, bk_active_by_family := fam_add f amount (bk_active_by_family b)\<rparr>)"

definition hydrate_trade_reserve :: "exposure \<Rightarrow> u64 \<Rightarrow> bankroll \<Rightarrow> bankroll" where
  "hydrate_trade_reserve e now_ms b =
     (let f = family_for_strategy (ex_strategy e); amount = ex_entry_price e * ex_size e in
      sync_raw_reserved_totals
        (if ex_market_end_time e \<le> now_ms
         then b\<lparr>bk_pending := bk_pending b + amount,
                bk_pending_by_family := fam_add f amount (bk_pending_by_family b)\<rparr>
         else b\<lparr>bk_active := bk_active b + amount,
                bk_active_by_family := fam_add f amount (bk_active_by_family b)\<rparr>))"

definition hydrate_unresolved_exposure_rows :: "exposure list \<Rightarrow> u64 \<Rightarrow> bankroll \<Rightarrow> bankroll" where
  "hydrate_unresolved_exposure_rows es now_ms b = fold (\<lambda>e. hydrate_trade_reserve e now_ms) es b"

definition hydrate_unresolved_reserves :: "u64 \<Rightarrow> store \<Rightarrow> bankroll \<Rightarrow> bankroll \<times> store" where
  "hydrate_unresolved_reserves now_ms s b =
     (case unresolved_trade_exposures s of
        (Inl _, s') \<Rightarrow> (b, s')
      | (Inr es, s') \<Rightarrow> (fold (\<lambda>e. hydrate_trade_reserve e now_ms) es b, s'))"

definition bankroll_new :: "f64 \<Rightarrow> config \<Rightarrow> u64 \<Rightarrow> u64 \<Rightarrow> store \<Rightarrow> bankroll \<times> store" where
  "bankroll_new starting c now1 now2 s =
     (case get_latest_balance s of (r, s1) \<Rightarrow>
       (case (case r of Inl _ \<Rightarrow> None | Inr x \<Rightarrow> x) of
          Some bal \<Rightarrow> hydrate_unresolved_reserves now2 s1 (new_in_memory starting bal c)
        | None \<Rightarrow> (case log_balance_event now1 ''init'' None 0 starting s1 of (_, s2) \<Rightarrow>
            hydrate_unresolved_reserves now2 s2 (new_in_memory starting starting c))))"

definition consume_family_active_reserve :: "f64 \<Rightarrow> StrategyFamily \<Rightarrow> bankroll \<Rightarrow> f64 \<times> bankroll" where
  "consume_family_active_reserve amount f b =
     (let released = f64_min amount (fam_get (bk_active_by_family b) f) in
      (released, if 0 < released
        then b\<lparr>bk_active := f64_max (bk_active b - released) 0,
               bk_active_by_family := fam_sub f released (bk_active_by_family b)\<rparr> else b))"

definition consume_family_pending_reserve :: "f64 \<Rightarrow> StrategyFamily \<Rightarrow> bankroll \<Rightarrow> f64 \<times> bankroll" where
  "consume_family_pending_reserve amount f b =
     (let released = f64_min amount (fam_get (bk_pending_by_family b) f) in
      (released, if 0 < released
        then b\<lparr>bk_pending := f64_max (bk_pending b - released) 0,
               bk_pending_by_family := fam_sub f released (bk_pending_by_family b)\<rparr> else b))"

fun consume_families :: "bool \<Rightarrow> StrategyFamily list \<Rightarrow> f64 \<Rightarrow> bankroll \<Rightarrow> f64 \<times> bankroll" where
  "consume_families act [] remaining b = (remaining, b)"
| "consume_families act (f # fs) remaining b =
     (if remaining \<le> 0 then (remaining, b)
      else (case (if act then consume_family_active_reserve remaining f b
                  else consume_family_pending_reserve remaining f b) of
        (released, b') \<Rightarrow> consume_families act fs (f64_max (remaining - released) 0) b'))"

definition consume_across_families :: "f64 \<Rightarrow> bool \<Rightarrow> bankroll \<Rightarrow> f64 \<times> bankroll" where
  "consume_across_families amount act b = consume_families act all_families (f64_max amount 0) b"

definition transition_family_reserve_to_pending :: "f64 \<Rightarrow> StrategyFamily \<Rightarrow> bankroll \<Rightarrow> bankroll" where
  "transition_family_reserve_to_pending amount f b =
     (if manually_overridden_for_family f b then b
      else (case consume_family_active_reserve amount f b of (moved, b') \<Rightarrow>
        if moved \<le> 0 then b'
        else sync_raw_reserved_totals (b'\<lparr>bk_pending := bk_pending b' + moved,
               bk_pending_by_family := fam_add f moved (bk_pending_by_family b')\<rparr>)))"

definition release_reserved :: "f64 \<Rightarrow> bankroll \<Rightarrow> bankroll" where
  "release_reserved amount b =
     (if manually_overridden b then b\<lparr>bk_reserved := f64_max (bk_reserved b - amount) 0\<rparr>
      else (case consume_across_families amount True b of (remaining, b1) \<Rightarrow>
        sync_raw_reserved_totals
          (if 0 < remaining then snd (consume_across_families remaining False b1) else b1)))"

definition release_reserved_for_family :: "f64 \<Rightarrow> StrategyFamily \<Rightarrow> bankroll \<Rightarrow> bankroll" where
  "release_reserved_for_family amount f b =
     (if manually_overridden_for_family f b
      then b\<lparr>bk_reserved := f64_max (bk_reserved b - amount) 0,
             bk_reserved_by_family := fam_sub f amount (bk_reserved_by_family b)\<rparr>
      else (case consume_family_active_reserve amount f b of (active_released, b1) \<Rightarrow>
        let remaining = f64_max (amount - active_released) 0 in
        sync_raw_reserved_totals
          (if 0 < remaining then snd (consume_family_pending_reserve remaining f b1) else b1)))"

definition release_reserved_for_strategy :: "f64 \<Rightarrow> string \<Rightarrow> bankroll \<Rightarrow> bankroll" where
  "release_reserved_for_strategy amount strategy b =
     release_reserved_for_family amount (family_for_strategy strategy) b"

definition transition_trade_to_pending_settlement :: "f64 \<Rightarrow> string \<Rightarrow> bankroll \<Rightarrow> bankroll" where
  "transition_trade_to_pending_settlement amount strategy b =
     transition_family_reserve_to_pending amount (family_for_strategy strategy) b"

subsection \<open>Derived quantities\<close>

definition get_drawdown_pct :: "bankroll \<Rightarrow> f64" where
  "get_drawdown_pct b = (if bk_high_water_mark b \<le> 0 then 0
     else (bk_high_water_mark b - bk_current_balance b) / bk_high_water_mark b)"

definition get_win_rate :: "bankroll \<Rightarrow> f64" where
  "get_win_rate b = (if 0 < bk_total_trades b
     then f64_of_u64 (bk_total_wins b) / f64_of_u64 (bk_total_trades b) else 0)"

definition get_strategy_win_rate :: "string \<Rightarrow> bankroll \<Rightarrow> f64" where
  "get_strategy_win_rate strategy b =
     (let rolling = filter (\<lambda>r. trr_strategy r = strategy) (bk_recent_results b) in
      if 5 \<le> length rolling
      then f64_of_nat (length (filter trr_won rolling)) / f64_of_nat (length rolling)
      else (case bk_strategy_stats b strategy of None \<Rightarrow> 0
        | Some stats \<Rightarrow> let n = sr_wins stats + sr_losses stats in
            if 0 < n then f64_of_u64 (sr_wins stats) / f64_of_u64 n else 0))"

definition get_stats :: "bankroll \<Rightarrow> bankroll_stats" where
  "get_stats b = \<lparr>bs_starting_balance = bk_starting_balance b,
     bs_current_balance = bk_current_balance b, bs_high_water_mark = bk_high_water_mark b,
     bs_max_drawdown_pct = bk_peak_drawdown_pct b, bs_total_trades = bk_total_trades b,
     bs_wins = bk_total_wins b, bs_losses = bk_total_losses b, bs_win_rate = get_win_rate b,
     bs_total_pnl = bk_current_balance b - bk_starting_balance b, bs_total_fees = bk_total_fees b\<rparr>"

definition explicit_family_sleeve_fraction :: "StrategyFamily \<Rightarrow> config \<Rightarrow> f64 option" where
  "explicit_family_sleeve_fraction f c = (case f of
     LatencyArb \<Rightarrow> latency_arb_max_position_fraction c
   | SpreadCapture \<Rightarrow> spread_capture_max_position_fraction c
   | CalmPersistence \<Rightarrow> calm_persistence_max_position_fraction c)"

definition position_fraction_target :: "StrategyFamily \<Rightarrow> config \<Rightarrow> f64" where
  "position_fraction_target f c = (case f of
     LatencyArb \<Rightarrow> unwrap_or (latency_arb_max_position_fraction c) (max_position_fraction c)
   | SpreadCapture \<Rightarrow> unwrap_or (spread_capture_max_position_fraction c) (max_position_fraction c)
   | CalmPersistence \<Rightarrow> unwrap_or (calm_persistence_max_position_fraction c) (max_position_fraction c))"

definition effective_reserved_capital :: "config \<Rightarrow> bankroll \<Rightarrow> f64" where
  "effective_reserved_capital c b =
     (if manually_overridden b then f64_max (bk_reserved b) 0
      else bk_active b + bk_pending b * global_reserve_fraction (pending_settlement_policy_unchecked c))"

definition effective_reserved_for_family :: "StrategyFamily \<Rightarrow> config \<Rightarrow> bankroll \<Rightarrow> f64" where
  "effective_reserved_for_family f c b =
     (let act = fam_get (bk_active_by_family b) f; pending = fam_get (bk_pending_by_family b) f;
          total_f = fam_get (bk_reserved_by_family b) f
      in if f64_lit 0.000000001 < \<bar>total_f - (act + pending)\<bar> then f64_max total_f 0
         else act + pending * family_reserve_fraction (pending_settlement_policy_unchecked c))"

definition open_exposure_headroom :: "config \<Rightarrow> bankroll \<Rightarrow> f64" where
  "open_exposure_headroom c b = (case open_exposure_ceiling_usd c of
     None \<Rightarrow> f64_infinity
   | Some ceil_usd \<Rightarrow> f64_max (ceil_usd - (bk_active b + bk_pending b)) 0)"

definition available_spread_budget_for_family :: "StrategyFamily \<Rightarrow> config \<Rightarrow> bankroll \<Rightarrow> f64" where
  "available_spread_budget_for_family f c b =
     (let available = f64_max (bk_current_balance b - effective_reserved_capital c b) 0;
          max_usd = bk_current_balance b * max_position_usd_fraction c;
          per_trade_cap = bk_current_balance b * position_fraction_target f c;
          budget = f64_min (f64_min (f64_min available max_usd) (max_position_usd c)) per_trade_cap;
          budget' = (case explicit_family_sleeve_fraction f c of None \<Rightarrow> budget
            | Some fraction \<Rightarrow> f64_min budget
                (f64_max (bk_current_balance b * fraction - effective_reserved_for_family f c b) 0))
      in f64_max budget' 0)"

definition get_kelly_fraction :: "f64 \<Rightarrow> f64 \<Rightarrow> config \<Rightarrow> f64" where
  "get_kelly_fraction entry_price win_rate c =
     (if win_rate < min_win_rate_for_kelly c then min_kelly_floor c
      else let odds = (1 - entry_price) / entry_price; q = 1 - win_rate;
               full_kelly = (odds * win_rate - q) / odds
           in if full_kelly \<le> 0 then min_kelly_floor c else full_kelly * kelly_fraction c)"

definition get_position_fraction ::
  "f64 \<Rightarrow> f64 \<Rightarrow> string \<Rightarrow> StrategyFamily \<Rightarrow> config \<Rightarrow> bankroll \<Rightarrow> f64" where
  "get_position_fraction entry_price confidence strategy f c b =
     (let strat_total = (case bk_strategy_stats b strategy of None \<Rightarrow> 0
            | Some s \<Rightarrow> sr_wins s + sr_losses s);
          fraction = (if min_trades_for_kelly c \<le> strat_total
            then get_kelly_fraction entry_price (get_strategy_win_rate strategy b) c
            else position_fraction_target f c);
          multiplier = f64_max (mul_add (confidence - f64_lit 0.5) (f64_lit 2.5) 0) 0
      in f64_min (fraction * multiplier) (position_fraction_target f c))"

subsection \<open>Trading permission\<close>

definition log_blocked :: "u64 \<Rightarrow> bankroll \<Rightarrow> bankroll" where
  "log_blocked now b =
     (if bk_last_blocked_log_ms b = 0 \<or> 60000 \<le> saturating_sub now (bk_last_blocked_log_ms b)
      then b\<lparr>bk_last_blocked_log_ms := now\<rparr> else b)"

definition bk_can_trade :: "config \<Rightarrow> u64 \<Rightarrow> bankroll \<Rightarrow> bool \<times> bankroll" where
  "bk_can_trade c now b =
     (if bk_current_balance b < min_balance_threshold c then (False, log_blocked now b)
      else if max_drawdown_pct c \<le> get_drawdown_pct b then (False, log_blocked now b)
      else let peak_dd = get_drawdown_pct b;
               recovery_threshold = peak_dd_pause_pct c - dd_pause_recovery_pct c;
               b1 = (if peak_dd < recovery_threshold
                     then b\<lparr>bk_dd_pause_armed := True, bk_peak_dd_pause_until := 0\<rparr> else b)
           in if peak_dd_pause_pct c \<le> peak_dd \<and> bk_dd_pause_armed b1
              then let b2 = (if bk_peak_dd_pause_until b1 = 0
                             then b1\<lparr>bk_peak_dd_pause_until := now + peak_dd_pause_ms c\<rparr> else b1)
                   in if now < bk_peak_dd_pause_until b2 then (False, log_blocked now b2)
                      else (True, b2\<lparr>bk_peak_dd_pause_until := 0, bk_dd_pause_armed := False\<rparr>)
              else if peak_dd < peak_dd_pause_pct c then (True, b1\<lparr>bk_peak_dd_pause_until := 0\<rparr>)
              else (True, b1))"

subsection \<open>Reservations\<close>

definition single_available :: "StrategyFamily \<Rightarrow> config \<Rightarrow> bankroll \<Rightarrow> f64" where
  "single_available f c b = f64_min (f64_min (available_spread_budget_for_family f c b)
     (bk_current_balance b - effective_reserved_capital c b)) (open_exposure_headroom c b)"

definition bad_price :: "f64 \<Rightarrow> bool" where
  "bad_price p \<longleftrightarrow> p \<le> 0 \<or> 1 \<le> p"

text \<open>The token count for a notional, raised to the minimum bet where the budget allows it.\<close>

definition token_count :: "f64 \<Rightarrow> f64 \<Rightarrow> f64 \<Rightarrow> f64 \<Rightarrow> f64 \<Rightarrow> config \<Rightarrow> f64" where
  "token_count notional entry_price reserve_price available max_usd c =
     (let count0 = f64_floor (notional / reserve_price);
          min_tokens = f64_ceil (min_bet_usd c / entry_price)
      in if 0 < count0 \<and> count0 * entry_price < min_bet_usd c
            \<and> min_tokens * reserve_price \<le> available
            \<and> min_tokens * reserve_price \<le> max_usd
            \<and> min_tokens * reserve_price \<le> max_position_usd c
         then min_tokens else count0)"

definition reserve_capital_with_reserve_price ::
  "f64 \<Rightarrow> f64 \<Rightarrow> f64 \<Rightarrow> string \<Rightarrow> StrategyFamily \<Rightarrow> config \<Rightarrow> u64 \<Rightarrow> bankroll \<Rightarrow> f64 \<times> bankroll" where
  "reserve_capital_with_reserve_price entry_price reserve_price confidence strategy f c now b0 =
     (case bk_can_trade c now b0 of (allowed, b) \<Rightarrow>
      if \<not> allowed then (0, b)
      else if bad_price entry_price \<or> bad_price reserve_price then (0, b)
      else let available = single_available f c b in
        if available \<le> 0 then (0, b)
        else let fraction = get_position_fraction entry_price confidence strategy f c b in
          if fraction \<le> 0 then (0, b)
          else let kelly_notional = bk_current_balance b * fraction;
                   max_usd = bk_current_balance b * max_position_usd_fraction c;
                   notional = f64_min (f64_min (f64_min kelly_notional available) max_usd) (max_position_usd c);
                   count = token_count notional entry_price reserve_price available max_usd c
               in if count \<le> 0 then (0, b)
                  else (count, add_reserved f (count * reserve_price) b))"

definition reserve_capital ::
  "f64 \<Rightarrow> f64 \<Rightarrow> string \<Rightarrow> config \<Rightarrow> u64 \<Rightarrow> bankroll \<Rightarrow> f64 \<times> bankroll" where
  "reserve_capital entry_price confidence strategy c now b =
     reserve_capital_with_reserve_price entry_price entry_price confidence strategy
       (family_for_strategy strategy) c now b"

definition reserve_spread_capital_for_family ::
  "f64 \<Rightarrow> f64 \<Rightarrow> f64 \<Rightarrow> StrategyFamily \<Rightarrow> config \<Rightarrow> u64 \<Rightarrow> bankroll \<Rightarrow> (f64 \<times> f64) \<times> bankroll" where
  "reserve_spread_capital_for_family up_ask down_ask confidence f c now b0 =
     (case bk_can_trade c now b0 of (allowed, b) \<Rightarrow>
      if \<not> allowed then ((0, 0), b)
      else if up_ask \<le> 0 \<or> down_ask \<le> 0 \<or> 1 \<le> up_ask \<or> 1 \<le> down_ask then ((0, 0), b)
      else let available = single_available f c b in
        if available \<le> 0 then ((0, 0), b)
        else let unit_cost = up_ask + down_ask; pair_units = f64_floor (available / unit_cost) in
          if pair_units \<le> 0 then ((0, 0), b)
          else ((pair_units, pair_units), add_reserved f (pair_units * unit_cost) b))"

definition reserve_spread_capital ::
  "f64 \<Rightarrow> f64 \<Rightarrow> f64 \<Rightarrow> config \<Rightarrow> u64 \<Rightarrow> bankroll \<Rightarrow> (f64 \<times> f64) \<times> bankroll" where
  "reserve_spread_capital up_ask down_ask confidence c now b =
     reserve_spread_capital_for_family up_ask down_ask confidence SpreadCapture c now b"

definition assess_spread_affordability_for_family ::
  "f64 \<Rightarrow> f64 \<Rightarrow> f64 \<Rightarrow> StrategyFamily \<Rightarrow> config \<Rightarrow> bankroll \<Rightarrow> affordability_check" where
  "assess_spread_affordability_for_family up_ask down_ask order_min_size f c b =
     (let budget = available_spread_budget_for_family f c b; unit_cost = up_ask + down_ask in
      if up_ask \<le> 0 \<or> down_ask \<le> 0 \<or> 1 \<le> up_ask \<or> 1 \<le> down_ask \<or> unit_cost \<le> 0
      then \<lparr>queueable = False, available_spread_budget = budget, required_pair_units = 0,
            required_pair_notional = 0, failure_reason = Some AffSpreadBudgetTooSmall\<rparr>
      else let for_bet = f64_max (f64_ceil (min_bet_usd c / up_ask)) (f64_ceil (min_bet_usd c / down_ask));
               for_market = (if 0 < order_min_size then f64_ceil order_min_size else 0);
               units = f64_max (f64_max for_bet for_market) 1;
               notional = units * unit_cost
           in if notional \<le> budget + f64_lit 0.000000001
              then \<lparr>queueable = True, available_spread_budget = budget, required_pair_units = units,
                    required_pair_notional = notional, failure_reason = None\<rparr>
              else \<lparr>queueable = False, available_spread_budget = budget, required_pair_units = units,
                    required_pair_notional = notional,
                    failure_reason = Some (if for_bet < for_market then BelowMarketMinSizeOnSubmit
                                           else AffSpreadBudgetTooSmall)\<rparr>)"

definition assess_spread_affordability :: "f64 \<Rightarrow> f64 \<Rightarrow> f64 \<Rightarrow> config \<Rightarrow> bankroll \<Rightarrow> affordability_check" where
  "assess_spread_affordability up_ask down_ask order_min_size c b =
     assess_spread_affordability_for_family up_ask down_ask order_min_size SpreadCapture c b"

subsection \<open>Results and corrections\<close>

definition record_peaks :: "bankroll \<Rightarrow> bankroll" where
  "record_peaks b =
     (let b1 = (if bk_high_water_mark b < bk_current_balance b
                then b\<lparr>bk_high_water_mark := bk_current_balance b\<rparr> else b);
          drawdown = get_drawdown_pct b1
      in if bk_peak_drawdown_pct b1 < drawdown then b1\<lparr>bk_peak_drawdown_pct := drawdown\<rparr> else b1)"

definition record_strategy_result :: "string \<Rightarrow> bool \<Rightarrow> bankroll \<Rightarrow> bankroll" where
  "record_strategy_result strategy won b =
     (let stats = unwrap_or (bk_strategy_stats b strategy) \<lparr>sr_wins = 0, sr_losses = 0\<rparr>;
          stats' = (if won then stats\<lparr>sr_wins := sr_wins stats + 1\<rparr> else stats\<lparr>sr_losses := sr_losses stats + 1\<rparr>);
          rs = bk_recent_results b @ [\<lparr>trr_strategy = strategy, trr_won = won\<rparr>]
      in b\<lparr>bk_strategy_stats := (bk_strategy_stats b)(strategy \<mapsto> stats'),
           bk_recent_results := (if bk_kelly_rolling_window b < length rs then tl rs else rs)\<rparr>)"

definition apply_trade_result_in_memory ::
  "f64 \<Rightarrow> f64 \<Rightarrow> f64 \<Rightarrow> f64 \<Rightarrow> string \<Rightarrow> bankroll \<Rightarrow> f64 \<times> bankroll" where
  "apply_trade_result_in_memory entry_price size_t settlement_price fee_amount strategy b =
     (let cost = entry_price * size_t; payout = settlement_price * size_t;
          pnl = payout - cost - fee_amount;
          b1 = release_reserved_for_strategy cost strategy b;
          won = (0 < pnl);
          b2 = b1\<lparr>bk_current_balance := bk_current_balance b1 + pnl,
                  bk_total_fees := bk_total_fees b1 + fee_amount,
                  bk_total_trades := bk_total_trades b1 + 1,
                  bk_total_wins := (if won then bk_total_wins b1 + 1 else bk_total_wins b1),
                  bk_total_losses := (if won then bk_total_losses b1 else bk_total_losses b1 + 1)\<rparr>
      in (pnl, record_peaks (record_strategy_result strategy won b2)))"

definition apply_trade_result ::
  "i64 \<Rightarrow> f64 \<Rightarrow> f64 \<Rightarrow> f64 \<Rightarrow> f64 \<Rightarrow> string \<Rightarrow> u64 \<Rightarrow> store \<Rightarrow> bankroll \<Rightarrow> bankroll \<times> store" where
  "apply_trade_result trade_id entry_price size_t settlement_price fee_amount strategy now s b =
     (let cost = entry_price * size_t; payout = settlement_price * size_t;
          pnl = payout - cost - fee_amount;
          b1 = release_reserved_for_strategy cost strategy b;
          b2 = b1\<lparr>bk_current_balance := bk_current_balance b1 + pnl,
                  bk_total_fees := bk_total_fees b1 + fee_amount,
                  bk_total_trades := bk_total_trades b1 + 1\<rparr>;
          won = (0 < pnl);
          b3 = (if won then b2\<lparr>bk_total_wins := bk_total_wins b2 + 1\<rparr>
                else b2\<lparr>bk_total_losses := bk_total_losses b2 + 1\<rparr>);
          b4 = record_peaks (record_strategy_result strategy won b3)
      in (b4, snd (log_balance_event now ''trade_close'' (Some trade_id) pnl (bk_current_balance b4) s)))"

definition apply_settlement_correction ::
  "i64 \<Rightarrow> f64 \<Rightarrow> f64 \<Rightarrow> u64 \<Rightarrow> store \<Rightarrow> bankroll \<Rightarrow> bankroll \<times> store" where
  "apply_settlement_correction trade_id old_pnl new_pnl now s b =
     (let delta = new_pnl - old_pnl;
          b1 = b\<lparr>bk_current_balance := bk_current_balance b + delta,
                 bk_total_fees := f64_max (bk_total_fees b + delta) 0\<rparr>;
          was_win = (0 < old_pnl); is_win = (0 < new_pnl);
          b2 = (if was_win \<and> \<not> is_win
                then b1\<lparr>bk_total_wins := (if 0 < bk_total_wins b1 then bk_total_wins b1 - 1 else bk_total_wins b1),
                        bk_total_losses := bk_total_losses b1 + 1\<rparr>
                else if \<not> was_win \<and> is_win
                then b1\<lparr>bk_total_losses := (if 0 < bk_total_losses b1 then bk_total_losses b1 - 1 else bk_total_losses b1),
                        bk_total_wins := bk_total_wins b1 + 1\<rparr>
                else b1);
          b3 = record_peaks b2
      in (b3, snd (log_balance_event now ''settlement_correction'' (Some trade_id) delta (bk_current_balance b3) s)))"

end
