(* ===== verification/Executor.thy ===== *)
theory Executor
  imports Bankroll Fees "HOL-Library.AList"
begin

section \<open>Execution engine\<close>

text \<open>
  \<^verbatim>\<open>src/bots/paint/src/executor.rs\<close>: the queue of simulated orders. A submission logs its signal, checks
  the position limits, reserves capital, and queues one order or the two legs of a spread; the due
  orders are then filled against the current book or missed, and the reserve is released. The handlers
  work on a world of the engine, the store and the bankroll, the three objects the code passes by reference.
  A database error ends a handler early, with the changes made so far kept, as the \<open>?\<close> operator does.
\<close>

subsection \<open>State\<close>

record pending_order =
  po_signal_id :: i64
  po_signal_timestamp :: u64
  po_market_id :: string
  po_strategy :: string
  po_side :: SignalDirection
  po_token_id :: string
  po_arrival_ts :: u64
  po_requested_price :: f64
  po_limit_price :: f64
  po_requested_size :: f64
  po_reserved_cost :: f64
  po_execution_group_id :: "string option"
  po_execution_fidelity :: ReplayFidelity

record execution_stats =
  st_submitted_orders :: u64
  st_filled_orders :: u64
  st_partial_fills :: u64
  st_no_fills :: u64
  st_spread_legging_failures :: u64
  st_residual_positions :: u64
  st_total_requested_size :: f64
  st_total_filled_size :: f64
  st_total_slippage :: f64
  st_total_fill_latency_ms :: u64
  st_raw_event_batches :: u64
  st_legacy_snapshot_batches :: u64

definition stats_default :: execution_stats where
  "stats_default = \<lparr>st_submitted_orders = 0, st_filled_orders = 0, st_partial_fills = 0, st_no_fills = 0,
     st_spread_legging_failures = 0, st_residual_positions = 0, st_total_requested_size = 0,
     st_total_filled_size = 0, st_total_slippage = 0, st_total_fill_latency_ms = 0,
     st_raw_event_batches = 0, st_legacy_snapshot_batches = 0\<rparr>"

definition fill_rate :: "execution_stats \<Rightarrow> f64" where
  "fill_rate s = (if st_submitted_orders s = 0 then 0
     else f64_of_u64 (st_filled_orders s) / f64_of_u64 (st_submitted_orders s))"

definition avg_fill_latency_ms :: "execution_stats \<Rightarrow> f64 option" where
  "avg_fill_latency_ms s = (if st_filled_orders s = 0 then None
     else Some (f64_of_u64 (st_total_fill_latency_ms s) / f64_of_u64 (st_filled_orders s)))"

definition avg_slippage :: "execution_stats \<Rightarrow> f64 option" where
  "avg_slippage s = (if st_total_filled_size s \<le> 0 then None
     else Some (st_total_slippage s / st_total_filled_size s))"

datatype OrderOutcomeDisposition = Filled | Missed

record processed_outcome =
  out_signal_id :: i64
  out_market_id :: string
  out_strategy :: string
  out_side :: SignalDirection
  out_disposition :: OrderOutcomeDisposition
  out_reason :: "string option"
  out_best_ask :: "f64 option"
  out_ask_size :: "f64 option"
  out_freshness_ms :: "u64 option"
  out_requested_size :: f64
  out_filled_size :: f64
  out_effective_arrival_delay_ms :: u64
  out_partial_fill :: bool

datatype QueueRejectionReason = MaxOpenPositions | QueueDuplicateOpenPosition | QueueDuplicatePendingOrder

fun queue_rejection_as_str :: "QueueRejectionReason \<Rightarrow> string" where
  "queue_rejection_as_str MaxOpenPositions = ''max_open_positions''"
| "queue_rejection_as_str QueueDuplicateOpenPosition = ''duplicate_open_position''"
| "queue_rejection_as_str QueueDuplicatePendingOrder = ''duplicate_pending_order''"

record queued_intent =
  qi_signal_id :: i64
  qi_signal_timestamp :: u64
  qi_market_id :: string
  qi_strategy :: string
  qi_side :: SignalDirection
  qi_token_id :: string
  qi_arrival_ts :: u64
  qi_requested_price :: f64
  qi_limit_price :: f64
  qi_requested_size :: f64
  qi_reserved_cost :: f64
  qi_execution_group_id :: "string option"
  qi_execution_fidelity :: ReplayFidelity

datatype SubmissionOutcome =
    Queued "i64 list" "queued_intent list"
  | SubmissionRejected "i64 list" string

record engine =
  en_pending_orders :: "pending_order list"
  en_recent_outcomes :: "processed_outcome list"
  en_stats :: execution_stats
  en_next_group_id :: u64

record world =
  w_engine :: engine
  w_db :: store
  w_bank :: bankroll

definition engine_new :: engine where
  "engine_new = \<lparr>en_pending_orders = [], en_recent_outcomes = [], en_stats = stats_default, en_next_group_id = 1\<rparr>"

definition take_recent_outcomes :: "engine \<Rightarrow> processed_outcome list \<times> engine" where
  "take_recent_outcomes e = (en_recent_outcomes e, e\<lparr>en_recent_outcomes := []\<rparr>)"

definition note_replay_fidelity :: "ReplayFidelity \<Rightarrow> engine \<Rightarrow> engine" where
  "note_replay_fidelity f e = (let s = en_stats e in e\<lparr>en_stats := (case f of
     RawEvent \<Rightarrow> s\<lparr>st_raw_event_batches := st_raw_event_batches s + 1\<rparr>
   | LegacySnapshot \<Rightarrow> s\<lparr>st_legacy_snapshot_batches := st_legacy_snapshot_batches s + 1\<rparr>)\<rparr>)"

subsection \<open>Helpers\<close>

definition family_for_signal :: "signal \<Rightarrow> StrategyFamily" where
  "family_for_signal sig = unwrap_or (from_strategy_name (sig_strategy sig)) LatencyArb"

definition single_order_limit_price :: "signal \<Rightarrow> config \<Rightarrow> f64" where
  "single_order_limit_price sig c = (case family_for_signal sig of
     CalmPersistence \<Rightarrow> calm_persistence_max_ask c
   | LatencyArb \<Rightarrow> latency_arb_max_ask c
   | SpreadCapture \<Rightarrow> latency_arb_max_ask c)"

definition signal_ask :: "signal \<Rightarrow> f64" where
  "signal_ask sig = (case sig_direction sig of Up \<Rightarrow> sig_up_ask sig | Down \<Rightarrow> sig_down_ask sig)"

definition window_token :: "market_window \<Rightarrow> SignalDirection \<Rightarrow> string" where
  "window_token w d = (case d of Up \<Rightarrow> mw_up_token_id w | Down \<Rightarrow> mw_down_token_id w)"

definition queued_order_intent :: "pending_order \<Rightarrow> queued_intent" where
  "queued_order_intent po = \<lparr>qi_signal_id = po_signal_id po, qi_signal_timestamp = po_signal_timestamp po,
     qi_market_id = po_market_id po, qi_strategy = po_strategy po, qi_side = po_side po,
     qi_token_id = po_token_id po, qi_arrival_ts = po_arrival_ts po,
     qi_requested_price = po_requested_price po, qi_limit_price = po_limit_price po,
     qi_requested_size = po_requested_size po, qi_reserved_cost = po_reserved_cost po,
     qi_execution_group_id = po_execution_group_id po, qi_execution_fidelity = po_execution_fidelity po\<rparr>"

definition count_queue_relevant_open_trades :: "config \<Rightarrow> u64 \<Rightarrow> store \<Rightarrow> (db_error + u64) \<times> store" where
  "count_queue_relevant_open_trades c now_ms s =
     (if counts_as_open_position (pending_settlement_policy_unchecked c)
      then count_open_trades s else count_active_open_trades now_ms s)"

definition submission_size_rejection_reason :: "f64 \<Rightarrow> f64 \<Rightarrow> f64 \<Rightarrow> f64 \<Rightarrow> string option" where
  "submission_size_rejection_reason requested_size requested_price market_min_size min_bet =
     (if 0 < market_min_size \<and> requested_size < market_min_size then Some ''below_market_min_size_on_submit''
      else if requested_size * requested_price < min_bet then Some ''below_min_bet_on_submit''
      else None)"

definition spread_submission_rejection_reason ::
  "f64 \<Rightarrow> f64 \<Rightarrow> f64 \<Rightarrow> f64 \<Rightarrow> f64 \<Rightarrow> f64 \<Rightarrow> string option" where
  "spread_submission_rejection_reason up_size down_size up_price down_price market_min_size min_bet =
     opt_or (submission_size_rejection_reason up_size up_price market_min_size min_bet)
       (submission_size_rejection_reason down_size down_price market_min_size min_bet)"

definition fill_size_rejected :: "f64 \<Rightarrow> f64 \<Rightarrow> f64 \<Rightarrow> f64 \<Rightarrow> bool" where
  "fill_size_rejected filled_size fill_price market_min_size min_bet \<longleftrightarrow>
     filled_size \<le> 0 \<or> (0 < market_min_size \<and> filled_size < market_min_size) \<or>
     filled_size * fill_price < min_bet"

definition book_fill_rejection_reason :: "top_of_book \<Rightarrow> u64 \<Rightarrow> f64 \<Rightarrow> u64 \<Rightarrow> string option" where
  "book_fill_rejection_reason book now limit_price max_staleness_ms =
     (if max_staleness_ms < saturating_sub now (effective_book_timestamp book) then Some ''book_stale_on_arrival''
      else if tob_best_ask book \<le> 0 then Some ''book_unavailable_on_arrival''
      else if limit_price < tob_best_ask book then Some ''limit_price_not_crossed_on_arrival''
      else if tob_ask_size book \<le> 0 then Some ''zero_liquidity_on_arrival''
      else None)"

definition price_is_tick_aligned :: "f64 \<Rightarrow> f64 \<Rightarrow> bool" where
  "price_is_tick_aligned price tick_size =
     (if tick_size \<le> 0 then True
      else let units = price / tick_size in \<bar>units - f64_round units\<bar> < f64_lit 0.000000001)"

definition side_book :: "book_state \<Rightarrow> SignalDirection \<Rightarrow> top_of_book option" where
  "side_book b d = (case d of Up \<Rightarrow> book_up b | Down \<Rightarrow> book_down b)"

definition build_trade :: "pending_order \<Rightarrow> f64 \<Rightarrow> f64 \<Rightarrow> u64 \<Rightarrow> string \<Rightarrow> trade" where
  "build_trade po fill_price filled_size now mode = \<lparr>tr_id = None, tr_timestamp = now,
     tr_market_id = po_market_id po, tr_strategy = po_strategy po, tr_side = po_side po,
     tr_token_id = po_token_id po, tr_entry_price = fill_price, tr_size = filled_size, tr_status = Open,
     tr_signal_id = Some (po_signal_id po), tr_requested_price = Some (po_limit_price po),
     tr_requested_size = Some (po_requested_size po), tr_filled_size = Some filled_size,
     tr_avg_fill_price = Some fill_price,
     tr_fill_status = Some (if filled_size < po_requested_size po then ''partial'' else ''filled''),
     tr_fill_reason = Some ''book_fill'',
     tr_fill_latency_ms = Some (saturating_sub now (po_signal_timestamp po)),
     tr_execution_group_id = po_execution_group_id po,
     tr_execution_fidelity = Some (fidelity_to_string (po_execution_fidelity po)),
     tr_execution_mode = Some mode, tr_order_id = Some (''paper-'' @ int_to_string (po_signal_id po)),
     tr_fill_price = Some fill_price\<rparr>"

definition record_submitted_order :: "pending_order \<Rightarrow> engine \<Rightarrow> engine" where
  "record_submitted_order po e = (let s = en_stats e in
     e\<lparr>en_stats := s\<lparr>st_submitted_orders := st_submitted_orders s + 1,
        st_total_requested_size := st_total_requested_size s + po_requested_size po\<rparr>\<rparr>)"

definition record_fill :: "pending_order \<Rightarrow> f64 \<Rightarrow> f64 \<Rightarrow> u64 \<Rightarrow> engine \<Rightarrow> engine" where
  "record_fill po fill_price filled_size now e = (let s = en_stats e in
     e\<lparr>en_stats := s\<lparr>
        st_partial_fills := (if filled_size < po_requested_size po then st_partial_fills s + 1 else st_partial_fills s),
        st_filled_orders := st_filled_orders s + 1,
        st_total_filled_size := st_total_filled_size s + filled_size,
        st_total_slippage := st_total_slippage s + f64_max (fill_price - po_requested_price po) 0 * filled_size,
        st_total_fill_latency_ms := st_total_fill_latency_ms s + saturating_sub now (po_signal_timestamp po)\<rparr>\<rparr>)"

definition push_pending :: "config \<Rightarrow> pending_order list \<Rightarrow> engine \<Rightarrow> engine" where
  "push_pending c pos e = (if execution_mode c \<noteq> LiveTrading
     then e\<lparr>en_pending_orders := en_pending_orders e @ pos\<rparr> else e)"

subsection \<open>Queue checks\<close>

definition duplicate_open :: "trade list \<Rightarrow> signal \<Rightarrow> bool \<Rightarrow> bool" where
  "duplicate_open existing sig is_batch = list_ex (\<lambda>t. tr_strategy t = sig_strategy sig \<and>
     (is_batch \<longrightarrow> tr_side t = sig_direction sig)) existing"

definition duplicate_pending :: "pending_order list \<Rightarrow> string \<Rightarrow> signal \<Rightarrow> bool \<Rightarrow> bool" where
  "duplicate_pending pos market_id sig is_batch = list_ex (\<lambda>po. po_market_id po = market_id \<and>
     po_strategy po = sig_strategy sig \<and> (is_batch \<longrightarrow> po_side po = sig_direction sig)) pos"

text \<open>The slots a new submission would occupy: open trades, pending orders and the new legs, in \<open>u64\<close> arithmetic.\<close>

definition slots_needed :: "u64 \<Rightarrow> engine \<Rightarrow> u64 \<Rightarrow> u64" where
  "slots_needed open_count e required = open_count + of_nat (length (en_pending_orders e)) + required"

definition can_queue_order ::
  "signal \<Rightarrow> market_window \<Rightarrow> bool \<Rightarrow> u64 \<Rightarrow> config \<Rightarrow> u64 \<Rightarrow> engine \<Rightarrow> store \<Rightarrow>
     (db_error + QueueRejectionReason option) \<times> store" where
  "can_queue_order sig w is_batch required_slots c now_ms e s =
     (case count_queue_relevant_open_trades c now_ms s of
        (Inl err, s1) \<Rightarrow> (Inl err, s1)
      | (Inr open_count, s1) \<Rightarrow>
          if max_open_positions c < slots_needed open_count e required_slots
          then (Inr (Some MaxOpenPositions), s1)
          else (case get_open_trades_for_market (mw_market_id w) s1 of
              (Inl err, s2) \<Rightarrow> (Inl err, s2)
            | (Inr existing, s2) \<Rightarrow>
                if duplicate_open existing sig is_batch then (Inr (Some QueueDuplicateOpenPosition), s2)
                else if duplicate_pending (en_pending_orders e) (mw_market_id w) sig is_batch
                then (Inr (Some QueueDuplicatePendingOrder), s2)
                else (Inr None, s2)))"

definition precheck_single_submission ::
  "signal \<Rightarrow> market_window \<Rightarrow> config \<Rightarrow> u64 \<Rightarrow> engine \<Rightarrow> store \<Rightarrow> (db_error + QueueRejectionReason option) \<times> store" where
  "precheck_single_submission sig w c now e s = can_queue_order sig w False 1 c now e s"

definition can_queue_spread ::
  "signal list \<Rightarrow> market_window \<Rightarrow> config \<Rightarrow> u64 \<Rightarrow> engine \<Rightarrow> store \<Rightarrow> (db_error + QueueRejectionReason option) \<times> store" where
  "can_queue_spread sigs w c now_ms e s =
     (case count_queue_relevant_open_trades c now_ms s of
        (Inl err, s1) \<Rightarrow> (Inl err, s1)
      | (Inr open_count, s1) \<Rightarrow>
          if max_open_positions c < slots_needed open_count e 2 then (Inr (Some MaxOpenPositions), s1)
          else (case get_open_trades_for_market (mw_market_id w) s1 of
              (Inl err, s2) \<Rightarrow> (Inl err, s2)
            | (Inr existing, s2) \<Rightarrow>
                if list_ex (\<lambda>sig. duplicate_open existing sig True) sigs
                then (Inr (Some QueueDuplicateOpenPosition), s2)
                else if list_ex (\<lambda>sig. duplicate_pending (en_pending_orders e) (mw_market_id w) sig True) sigs
                then (Inr (Some QueueDuplicatePendingOrder), s2)
                else (Inr None, s2)))"

subsection \<open>Single submissions\<close>

definition reject_single_submission :: "signal \<Rightarrow> i64 \<Rightarrow> string \<Rightarrow> store \<Rightarrow> SubmissionOutcome \<times> store" where
  "reject_single_submission sig sid reason s =
     (SubmissionRejected [sid] reason,
      case sig_telemetry sig of None \<Rightarrow> s
      | Some t \<Rightarrow> snd (upsert_signal_telemetry sid t None None (Some ''rejected'') (Some reason) s))"

definition arrival_of :: "signal \<Rightarrow> config \<Rightarrow> u64" where
  "arrival_of sig c = saturating_add (sig_timestamp sig) (sim_order_latency_ms c)"

definition single_order ::
  "signal \<Rightarrow> i64 \<Rightarrow> market_window \<Rightarrow> f64 \<Rightarrow> f64 \<Rightarrow> f64 \<Rightarrow> config \<Rightarrow> ReplayFidelity \<Rightarrow> pending_order" where
  "single_order sig sid w requested_price limit_price requested_size c fid =
     \<lparr>po_signal_id = sid, po_signal_timestamp = sig_timestamp sig, po_market_id = mw_market_id w,
      po_strategy = sig_strategy sig, po_side = sig_direction sig,
      po_token_id = window_token w (sig_direction sig), po_arrival_ts = arrival_of sig c,
      po_requested_price = requested_price, po_limit_price = limit_price,
      po_requested_size = requested_size, po_reserved_cost = requested_size * limit_price,
      po_execution_group_id = None, po_execution_fidelity = fid\<rparr>"

definition queue_single_submission ::
  "signal \<Rightarrow> i64 \<Rightarrow> market_window \<Rightarrow> f64 \<Rightarrow> f64 \<Rightarrow> f64 \<Rightarrow> config \<Rightarrow> ReplayFidelity \<Rightarrow>
     engine \<Rightarrow> store \<Rightarrow> SubmissionOutcome \<times> engine \<times> store" where
  "queue_single_submission sig sid w requested_price limit_price requested_size c fid e s =
     (let po = single_order sig sid w requested_price limit_price requested_size c fid;
          e1 = push_pending c [po] (record_submitted_order po e);
          s1 = (case sig_telemetry sig of None \<Rightarrow> s
            | Some t \<Rightarrow> snd (upsert_signal_telemetry sid t (Some (sig_timestamp sig))
                (Some (arrival_of sig c)) (Some ''submitted'') None s))
      in (Queued [sid] [queued_order_intent po], e1, s1))"

definition submit_single ::
  "signal \<Rightarrow> market_window \<Rightarrow> config \<Rightarrow> u64 \<Rightarrow> u64 \<Rightarrow> ReplayFidelity \<Rightarrow> world \<Rightarrow> (db_error + SubmissionOutcome) \<times> world" where
  "submit_single sig w c now1 now2 fid x =
     (case log_signal_with_context sig (Some (mw_market_id w)) (Some fid) (Some (sig_timestamp sig))
        (Some (arrival_of sig c)) (w_db x) of
        (Inl err, s1) \<Rightarrow> (Inl err, x\<lparr>w_db := s1\<rparr>)
      | (Inr sid, s1) \<Rightarrow>
        (case precheck_single_submission sig w c now1 (w_engine x) s1 of
          (Inl err, s2) \<Rightarrow> (Inl err, x\<lparr>w_db := s2\<rparr>)
        | (Inr (Some reason), s2) \<Rightarrow>
            (case reject_single_submission sig sid (queue_rejection_as_str reason) s2 of
              (r, s3) \<Rightarrow> (Inr r, x\<lparr>w_db := s3\<rparr>))
        | (Inr None, s2) \<Rightarrow>
            let requested_price = signal_ask sig; limit_price = single_order_limit_price sig c in
            (case reserve_capital_with_reserve_price requested_price limit_price (sig_confidence sig)
               (sig_strategy sig) (family_for_signal sig) c now2 (w_bank x) of
              (requested_size, b1) \<Rightarrow>
                if requested_size \<le> 0
                then (case reject_single_submission sig sid ''strategy_sleeve_exhausted'' s2 of
                  (r, s3) \<Rightarrow> (Inr r, x\<lparr>w_db := s3, w_bank := b1\<rparr>))
                else (case submission_size_rejection_reason requested_size requested_price
                        (unwrap_or (mw_order_min_size w) 0) (min_bet_usd c) of
                    Some reason \<Rightarrow>
                      (case reject_single_submission sig sid reason s2 of
                        (r, s3) \<Rightarrow> (Inr r, x\<lparr>w_db := s3, w_bank :=
                          release_reserved_for_strategy (requested_size * limit_price) (sig_strategy sig) b1\<rparr>))
                  | None \<Rightarrow>
                      (case queue_single_submission sig sid w requested_price limit_price requested_size c fid
                              (w_engine x) s2 of
                        (r, e1, s3) \<Rightarrow> (Inr r, \<lparr>w_engine = e1, w_db = s3, w_bank = b1\<rparr>))))))"

subsection \<open>Spread submissions\<close>

fun log_spread_signals ::
  "signal list \<Rightarrow> market_window \<Rightarrow> u64 \<Rightarrow> ReplayFidelity \<Rightarrow> store \<Rightarrow> (db_error + i64 list) \<times> store" where
  "log_spread_signals [] w arrival fid s = (Inr [], s)"
| "log_spread_signals (sig # sigs) w arrival fid s =
     (case log_signal_with_context sig (Some (mw_market_id w)) (Some fid) (Some (sig_timestamp sig)) (Some arrival) s of
        (Inl err, s1) \<Rightarrow> (Inl err, s1)
      | (Inr sid, s1) \<Rightarrow> (case log_spread_signals sigs w arrival fid s1 of
          (Inl err, s2) \<Rightarrow> (Inl err, s2)
        | (Inr sids, s2) \<Rightarrow> (Inr (sid # sids), s2)))"

fun update_spread_signal_metrics ::
  "signal list \<Rightarrow> i64 list \<Rightarrow> u64 option \<Rightarrow> string \<Rightarrow> string option \<Rightarrow> store \<Rightarrow> store" where
  "update_spread_signal_metrics (sig # sigs) (sid # sids) arrival status reason s =
     update_spread_signal_metrics sigs sids arrival status reason
       (case sig_telemetry sig of None \<Rightarrow> s
        | Some t \<Rightarrow> snd (upsert_signal_telemetry sid t (map_option (\<lambda>_. sig_timestamp sig) arrival) arrival
            (Some status) reason s))"
| "update_spread_signal_metrics _ _ arrival status reason s = s"

definition reject_spread_submission ::
  "signal list \<Rightarrow> i64 list \<Rightarrow> string \<Rightarrow> store \<Rightarrow> SubmissionOutcome \<times> store" where
  "reject_spread_submission sigs sids reason s =
     (SubmissionRejected sids reason, update_spread_signal_metrics sigs sids None ''rejected'' (Some reason) s)"

definition spread_arrival_ts :: "signal list \<Rightarrow> config \<Rightarrow> u64 \<Rightarrow> u64" where
  "spread_arrival_ts sigs c now = (case sigs of [] \<Rightarrow> saturating_add now (sim_order_latency_ms c)
     | sig # rest \<Rightarrow> fold max (map (\<lambda>x. arrival_of x c) rest) (arrival_of sig c))"

definition spread_signal_pair :: "signal list \<Rightarrow> i64 list \<Rightarrow> (signal \<times> signal \<times> i64 \<times> i64) option" where
  "spread_signal_pair sigs sids =
     (case (position (\<lambda>x. sig_direction x = Up) sigs, position (\<lambda>x. sig_direction x = Down) sigs) of
        (Some i, Some j) \<Rightarrow>
          if i < length sids \<and> j < length sids then Some (sigs ! i, sigs ! j, sids ! i, sids ! j) else None
      | _ \<Rightarrow> None)"

definition build_spread_order ::
  "signal \<Rightarrow> i64 \<Rightarrow> string \<Rightarrow> string \<Rightarrow> u64 \<Rightarrow> string option \<Rightarrow> ReplayFidelity \<Rightarrow> f64 \<Rightarrow> pending_order" where
  "build_spread_order sig sid market_id token_id arrival group_id fid requested_size =
     \<lparr>po_signal_id = sid, po_signal_timestamp = sig_timestamp sig, po_market_id = market_id,
      po_strategy = sig_strategy sig, po_side = sig_direction sig, po_token_id = token_id,
      po_arrival_ts = arrival, po_requested_price = signal_ask sig, po_limit_price = signal_ask sig,
      po_requested_size = requested_size, po_reserved_cost = requested_size * signal_ask sig,
      po_execution_group_id = group_id, po_execution_fidelity = fid\<rparr>"

definition queue_spread_submission_orders ::
  "signal \<Rightarrow> signal \<Rightarrow> i64 \<Rightarrow> i64 \<Rightarrow> market_window \<Rightarrow> u64 \<Rightarrow> f64 \<Rightarrow> f64 \<Rightarrow> ReplayFidelity \<Rightarrow> config \<Rightarrow>
     engine \<Rightarrow> queued_intent list \<times> engine" where
  "queue_spread_submission_orders up_sig down_sig up_id down_id w arrival up_tokens down_tokens fid c e =
     (let group_id = ''spread-'' @ nat_to_string (unat (en_next_group_id e));
          up_order = build_spread_order up_sig up_id (mw_market_id w) (mw_up_token_id w) arrival (Some group_id) fid up_tokens;
          down_order = build_spread_order down_sig down_id (mw_market_id w) (mw_down_token_id w) arrival (Some group_id) fid down_tokens
      in ([queued_order_intent up_order, queued_order_intent down_order],
          push_pending c [up_order, down_order] (record_submitted_order down_order (record_submitted_order up_order
            (e\<lparr>en_next_group_id := en_next_group_id e + 1\<rparr>)))))"

definition submit_spread ::
  "(string \<Rightarrow> fee_schedule option) \<Rightarrow> signal list \<Rightarrow> market_window \<Rightarrow> config \<Rightarrow> u64 \<Rightarrow> u64 \<Rightarrow> u64 \<Rightarrow> ReplayFidelity \<Rightarrow>
     world \<Rightarrow> (db_error + SubmissionOutcome) \<times> world" where
  "submit_spread parse sigs w c now0 now1 now2 fid x =
     (let arrival = spread_arrival_ts sigs c now0 in
      case log_spread_signals sigs w arrival fid (w_db x) of
        (Inl err, s1) \<Rightarrow> (Inl err, x\<lparr>w_db := s1\<rparr>)
      | (Inr sids, s1) \<Rightarrow>
        (case can_queue_spread sigs w c now1 (w_engine x) s1 of
          (Inl err, s2) \<Rightarrow> (Inl err, x\<lparr>w_db := s2\<rparr>)
        | (Inr (Some reason), s2) \<Rightarrow>
            (case reject_spread_submission sigs sids (queue_rejection_as_str reason) s2 of
              (r, s3) \<Rightarrow> (Inr r, x\<lparr>w_db := s3\<rparr>))
        | (Inr None, s2) \<Rightarrow>
          (case spread_signal_pair sigs sids of
            None \<Rightarrow> (Inr (Queued sids []), x\<lparr>w_db := s2\<rparr>)
          | Some (up_sig, down_sig, up_id, down_id) \<Rightarrow>
            let fp = resolve_fee_params parse c (Some w) (mw_end_time w) in
            if spread_net_edge (sig_up_ask up_sig) (sig_down_ask down_sig) 1 (fee_rate fp) (exponent fp) \<le> 0
            then (case reject_spread_submission sigs sids ''net_edge'' s2 of (r, s3) \<Rightarrow> (Inr r, x\<lparr>w_db := s3\<rparr>))
            else (case reserve_spread_capital (sig_up_ask up_sig) (sig_down_ask down_sig)
                    (f64_max (sig_confidence up_sig) (sig_confidence down_sig)) c now2 (w_bank x) of
              ((up_tokens, down_tokens), b1) \<Rightarrow>
                if up_tokens \<le> 0 \<or> down_tokens \<le> 0
                then (case reject_spread_submission sigs sids ''strategy_sleeve_exhausted'' s2 of
                  (r, s3) \<Rightarrow> (Inr r, x\<lparr>w_db := s3, w_bank := b1\<rparr>))
                else (case spread_submission_rejection_reason up_tokens down_tokens (sig_up_ask up_sig)
                        (sig_down_ask down_sig) (unwrap_or (mw_order_min_size w) 0) (min_bet_usd c) of
                    Some reason \<Rightarrow>
                      (case reject_spread_submission sigs sids reason s2 of
                        (r, s3) \<Rightarrow> (Inr r, x\<lparr>w_db := s3, w_bank := release_reserved_for_strategy
                          (up_tokens * sig_up_ask up_sig + down_tokens * sig_down_ask down_sig)
                          (sig_strategy up_sig) b1\<rparr>))
                  | None \<Rightarrow>
                      (case queue_spread_submission_orders up_sig down_sig up_id down_id w arrival
                              up_tokens down_tokens fid c (w_engine x) of
                        (orders, e1) \<Rightarrow> (Inr (Queued sids orders),
                          \<lparr>w_engine = e1,
                           w_db = update_spread_signal_metrics sigs sids (Some arrival) ''submitted'' None s2,
                           w_bank = b1\<rparr>)))))))"

subsection \<open>Due orders\<close>

datatype OrderDisposition =
    Deferred pending_order
  | DispMissed "string option" processed_outcome
  | DispFilled trade "string option" processed_outcome

record due_context =
  dc_now :: u64
  dc_now_us :: "u64 option"
  dc_window :: "market_window option"
  dc_book :: book_state
  dc_config :: config

record miss_context =
  ms_track_group :: bool
  ms_reason :: string
  ms_best_ask :: "f64 option"
  ms_ask_size :: "f64 option"
  ms_freshness_ms :: "u64 option"

definition reject_order :: "due_context \<Rightarrow> pending_order \<Rightarrow> miss_context \<Rightarrow> world \<Rightarrow> (db_error + OrderDisposition) \<times> world" where
  "reject_order dc po m x =
     (let b1 = release_reserved_for_strategy (po_reserved_cost po) (po_strategy po) (w_bank x);
          e1 = (w_engine x)\<lparr>en_stats := (en_stats (w_engine x))\<lparr>st_no_fills := st_no_fills (en_stats (w_engine x)) + 1\<rparr>\<rparr>;
          delay = saturating_sub (dc_now dc) (po_signal_timestamp po)
      in case update_signal_execution_outcome (po_signal_id po) (dc_now dc) (dc_now_us dc) delay ''missed''
                (Some (ms_reason m)) (w_db x) of
          (Inl err, s1) \<Rightarrow> (Inl err, \<lparr>w_engine = e1, w_db = s1, w_bank = b1\<rparr>)
        | (Inr _, s1) \<Rightarrow>
            (Inr (DispMissed (if ms_track_group m then po_execution_group_id po else None)
              \<lparr>out_signal_id = po_signal_id po, out_market_id = po_market_id po, out_strategy = po_strategy po,
               out_side = po_side po, out_disposition = Missed, out_reason = Some (ms_reason m),
               out_best_ask = ms_best_ask m, out_ask_size = ms_ask_size m, out_freshness_ms = ms_freshness_ms m,
               out_requested_size = po_requested_size po, out_filled_size = 0,
               out_effective_arrival_delay_ms = delay, out_partial_fill = False\<rparr>),
             \<lparr>w_engine = e1, w_db = s1, w_bank = b1\<rparr>))"

definition fill_due_order ::
  "due_context \<Rightarrow> pending_order \<Rightarrow> top_of_book \<Rightarrow> u64 option \<Rightarrow> f64 \<Rightarrow> world \<Rightarrow> (db_error + OrderDisposition) \<times> world" where
  "fill_due_order dc po book freshness filled_size x =
     (let fill_cost = filled_size * tob_best_ask book;
          b1 = (if fill_cost < po_reserved_cost po
                then release_reserved_for_strategy (po_reserved_cost po - fill_cost) (po_strategy po) (w_bank x)
                else w_bank x);
          e1 = record_fill po (tob_best_ask book) filled_size (dc_now dc) (w_engine x);
          t = build_trade po (tob_best_ask book) filled_size (dc_now dc) (execution_mode_as_str (execution_mode (dc_config dc)))
      in case open_trade t (w_db x) of
          (Inl err, s1) \<Rightarrow> (Inl err, \<lparr>w_engine = e1, w_db = s1, w_bank = b1\<rparr>)
        | (Inr trade_id, s1) \<Rightarrow>
          (let delay = saturating_sub (dc_now dc) (po_signal_timestamp po) in
           case update_signal_execution_outcome (po_signal_id po) (dc_now dc) (dc_now_us dc) delay ''filled'' None s1 of
            (Inl err, s2) \<Rightarrow> (Inl err, \<lparr>w_engine = e1, w_db = s2, w_bank = b1\<rparr>)
          | (Inr _, s2) \<Rightarrow>
              (Inr (DispFilled (t\<lparr>tr_id := Some trade_id\<rparr>) (po_execution_group_id po)
                \<lparr>out_signal_id = po_signal_id po, out_market_id = po_market_id po, out_strategy = po_strategy po,
                 out_side = po_side po, out_disposition = Filled, out_reason = None,
                 out_best_ask = Some (tob_best_ask book), out_ask_size = Some (tob_ask_size book),
                 out_freshness_ms = freshness, out_requested_size = po_requested_size po,
                 out_filled_size = filled_size, out_effective_arrival_delay_ms = delay,
                 out_partial_fill = (filled_size < po_requested_size po)\<rparr>),
               \<lparr>w_engine = e1, w_db = s2, w_bank = b1\<rparr>)))"

definition miss_on_book :: "string \<Rightarrow> top_of_book \<Rightarrow> u64 option \<Rightarrow> miss_context" where
  "miss_on_book reason book freshness = \<lparr>ms_track_group = True, ms_reason = reason,
     ms_best_ask = Some (tob_best_ask book), ms_ask_size = Some (tob_ask_size book), ms_freshness_ms = freshness\<rparr>"

definition process_due_order :: "due_context \<Rightarrow> pending_order \<Rightarrow> world \<Rightarrow> (db_error + OrderDisposition) \<times> world" where
  "process_due_order dc po x =
     (if dc_now dc < po_arrival_ts po then (Inr (Deferred po), x)
      else (case dc_window dc of
        None \<Rightarrow> reject_order dc po \<lparr>ms_track_group = False, ms_reason = ''window_missing_on_arrival'',
            ms_best_ask = None, ms_ask_size = None, ms_freshness_ms = None\<rparr> x
      | Some window \<Rightarrow>
        if mw_market_id window \<noteq> po_market_id po
        then reject_order dc po \<lparr>ms_track_group = False, ms_reason = ''window_missing_on_arrival'',
            ms_best_ask = None, ms_ask_size = None, ms_freshness_ms = None\<rparr> x
        else (case side_book (dc_book dc) (po_side po) of
          None \<Rightarrow> reject_order dc po \<lparr>ms_track_group = True, ms_reason = ''book_unavailable_on_arrival'',
            ms_best_ask = None, ms_ask_size = None, ms_freshness_ms = None\<rparr> x
        | Some book \<Rightarrow>
          let freshness = Some (saturating_sub (dc_now dc) (effective_book_timestamp book)) in
          (case book_fill_rejection_reason book (dc_now dc) (po_limit_price po) (max_book_staleness_ms (dc_config dc)) of
            Some reason \<Rightarrow> reject_order dc po (miss_on_book reason book freshness) x
          | None \<Rightarrow>
            let tick_size = unwrap_or (mw_order_price_min_tick_size window) 0 in
            if 0 < tick_size \<and> (\<not> price_is_tick_aligned (po_limit_price po) tick_size
                 \<or> \<not> price_is_tick_aligned (tob_best_ask book) tick_size)
            then reject_order dc po (miss_on_book ''tick_misaligned_on_arrival'' book freshness) x
            else let filled_size = f64_min (po_requested_size po) (tob_ask_size book) in
              if fill_size_rejected filled_size (tob_best_ask book) (unwrap_or (mw_order_min_size window) 0)
                   (min_bet_usd (dc_config dc))
              then reject_order dc po (miss_on_book ''fill_below_min_on_arrival'' book freshness) x
              else fill_due_order dc po book freshness filled_size x))))"

type_synonym group_outcomes = "(string \<times> (u64 \<times> u64)) list"

definition record_group_outcome :: "string option \<Rightarrow> bool \<Rightarrow> group_outcomes \<Rightarrow> group_outcomes" where
  "record_group_outcome gid filled gs = (case gid of None \<Rightarrow> gs
     | Some g \<Rightarrow> let entry = (case map_of gs g of Some v \<Rightarrow> v | None \<Rightarrow> (0, 0)) in
         AList.update g (if filled then fst entry + 1 else fst entry, snd entry + 1) gs)"

definition count_legging :: "group_outcomes \<Rightarrow> execution_stats \<Rightarrow> execution_stats" where
  "count_legging gs s = fold (\<lambda>(g, filled, total_n) st.
     if total_n = 2 \<and> filled = 1
     then st\<lparr>st_spread_legging_failures := st_spread_legging_failures st + 1,
             st_residual_positions := st_residual_positions st + 1\<rparr> else st) gs s"

text \<open>
  The loop takes the pending orders from the front; \<open>kept\<close> are the deferred ones. On a database error the
  order being processed is gone: the queue becomes the deferred orders and the ones not yet taken.
\<close>

fun due_loop ::
  "due_context \<Rightarrow> pending_order list \<Rightarrow> pending_order list \<Rightarrow> trade list \<Rightarrow> group_outcomes \<Rightarrow> world \<Rightarrow>
     (db_error + trade list) \<times> world" where
  "due_loop dc [] kept opened gs x =
     (Inr opened, x\<lparr>w_engine := (w_engine x)\<lparr>en_pending_orders := kept,
        en_stats := count_legging gs (en_stats (w_engine x))\<rparr>\<rparr>)"
| "due_loop dc (po # rest) kept opened gs x =
     (case process_due_order dc po x of
        (Inl err, x1) \<Rightarrow> (Inl err, x1\<lparr>w_engine := (w_engine x1)\<lparr>en_pending_orders := kept @ rest\<rparr>\<rparr>)
      | (Inr (Deferred po'), x1) \<Rightarrow> due_loop dc rest (kept @ [po']) opened gs x1
      | (Inr (DispMissed gid out), x1) \<Rightarrow>
          due_loop dc rest kept opened (record_group_outcome gid False gs)
            (x1\<lparr>w_engine := (w_engine x1)\<lparr>en_recent_outcomes := en_recent_outcomes (w_engine x1) @ [out]\<rparr>\<rparr>)
      | (Inr (DispFilled t gid out), x1) \<Rightarrow>
          due_loop dc rest kept (opened @ [t]) (record_group_outcome gid True gs)
            (x1\<lparr>w_engine := (w_engine x1)\<lparr>en_recent_outcomes := en_recent_outcomes (w_engine x1) @ [out]\<rparr>\<rparr>))"

definition process_due_orders :: "due_context \<Rightarrow> world \<Rightarrow> (db_error + trade list) \<times> world" where
  "process_due_orders dc x = due_loop dc (en_pending_orders (w_engine x)) [] [] [] x"

end
