(* ===== verification/Rounding.thy ===== *)
theory Rounding
  imports Float64
begin

section \<open>Error analysis of rounded arithmetic\<close>

text \<open>
  One rounding of a non-negative number moves it by at most the relative error \<open>ulp_rel\<close> and the
  absolute error \<open>ulp_abs\<close> (the second only matters near zero). The lemmas below lift this to
  the operations on finite \<open>f64\<close> values, and give the finiteness of results whose exact value is moderate.
\<close>

definition ulp_rel :: rat where
  "ulp_rel = pow2 (- 53)"

definition ulp_abs :: rat where
  "ulp_abs = pow2 (- 1074)"

lemma ulp_pos: "0 < ulp_rel" "0 < ulp_abs"
  by (simp_all add: ulp_rel_def ulp_abs_def)

lemma rnd_error_total:
  assumes "0 \<le> q"
  shows "\<bar>rnd q - q\<bar> \<le> q * ulp_rel + ulp_abs"
proof (cases "pow2 (- 1022) \<le> \<bar>q\<bar>")
  case True
  then show ?thesis using rnd_rel_error[OF True] ulp_pos assms by (simp add: ulp_rel_def)
next
  case small: False
  show ?thesis
  proof (cases "q = 0")
    case False
    with assms have q: "0 < \<bar>q\<bar>" by simp
    have "pow2 (ilog2 \<bar>q\<bar>) < pow2 (- 1022)" using small ilog2_bounds(1)[OF q] by linarith
    then have "ilog2 \<bar>q\<bar> < - 1022" by (simp only: pow2_less_iff)
    then have "uexp q = - 1074" by (simp add: uexp_def)
    then have "\<bar>rnd q - q\<bar> \<le> ulp_abs / 2" using rnd_error[of q] by (simp add: ulp_abs_def)
    moreover have "0 \<le> q * ulp_rel" using assms ulp_pos by simp
    ultimately show ?thesis using ulp_pos by linarith
  qed (simp add: ulp_pos less_imp_le)
qed

lemma rnd_upper: "0 \<le> q \<Longrightarrow> rnd q \<le> q * (1 + ulp_rel) + ulp_abs"
  using rnd_error_total[of q] by (simp add: abs_le_iff distrib_left)

lemma rnd_lower: "0 \<le> q \<Longrightarrow> q * (1 - ulp_rel) - ulp_abs \<le> rnd q"
  using rnd_error_total[of q] by (simp add: abs_le_iff right_diff_distrib)

subsection \<open>Finiteness of moderate results\<close>

lemma raw_mk_moderate: "\<bar>q\<bar> \<le> of_int (2 ^ 53) \<Longrightarrow> \<exists>t. raw_mk s q = RFin t (rnd q)"
  using rnd_bounded[of q] by (auto simp: raw_mk_def Let_def)

lemma add_moderate:
  assumes "is_finite x" "is_finite y" "\<bar>fval x + fval y\<bar> \<le> of_int (2 ^ 53)"
  shows "is_finite (x + y)"
  using assms
proof transfer
  fix x y
  assume "case x of RFin s q \<Rightarrow> True | _ \<Rightarrow> False" "case y of RFin s q \<Rightarrow> True | _ \<Rightarrow> False"
    and b: "\<bar>(case x of RFin s q \<Rightarrow> q | _ \<Rightarrow> 0) + (case y of RFin s q \<Rightarrow> q | _ \<Rightarrow> 0)\<bar> \<le> of_int (2 ^ 53)"
  then obtain s p t q where xy: "x = RFin s p" "y = RFin t q" by (cases x; cases y) auto
  with b raw_mk_moderate[of "p + q" "s \<and> t"] show "case raw_add x y of RFin s q \<Rightarrow> True | _ \<Rightarrow> False" by auto
qed

lemma mul_moderate:
  assumes "is_finite x" "is_finite y" "\<bar>fval x * fval y\<bar> \<le> of_int (2 ^ 53)"
  shows "is_finite (x * y)"
  using assms
proof transfer
  fix x y
  assume "case x of RFin s q \<Rightarrow> True | _ \<Rightarrow> False" "case y of RFin s q \<Rightarrow> True | _ \<Rightarrow> False"
    and b: "\<bar>(case x of RFin s q \<Rightarrow> q | _ \<Rightarrow> 0) * (case y of RFin s q \<Rightarrow> q | _ \<Rightarrow> 0)\<bar> \<le> of_int (2 ^ 53)"
  then obtain s p t q where xy: "x = RFin s p" "y = RFin t q" by (cases x; cases y) auto
  with b raw_mk_moderate[of "p * q" "s \<noteq> t"] show "case raw_mul x y of RFin s q \<Rightarrow> True | _ \<Rightarrow> False" by auto
qed

lemma div_moderate:
  assumes "is_finite x" "is_finite y" "fval y \<noteq> 0" "\<bar>fval x / fval y\<bar> \<le> of_int (2 ^ 53)"
  shows "is_finite (x / y)"
  using assms
proof transfer
  fix x y
  assume "case x of RFin s q \<Rightarrow> True | _ \<Rightarrow> False" "case y of RFin s q \<Rightarrow> True | _ \<Rightarrow> False"
    and b: "(case y of RFin s q \<Rightarrow> q | _ \<Rightarrow> 0) \<noteq> 0"
      "\<bar>(case x of RFin s q \<Rightarrow> q | _ \<Rightarrow> 0) / (case y of RFin s q \<Rightarrow> q | _ \<Rightarrow> 0)\<bar> \<le> of_int (2 ^ 53)"
  then obtain s p t q where xy: "x = RFin s p" "y = RFin t q" by (cases x; cases y) auto
  with b raw_mk_moderate[of "p / q" "s \<noteq> t"] show "case raw_div x y of RFin s q \<Rightarrow> True | _ \<Rightarrow> False" by auto
qed

subsection \<open>NaN propagation\<close>

lemma raw_floor_nonpos: "raw_le x (RFin False 0) \<Longrightarrow> raw_le (raw_int floor x) (RFin False 0)"
proof (cases x)
  case (RFin s q)
  assume "raw_le x (RFin False 0)"
  then have "q \<le> 0" using RFin by simp
  then have "(of_int \<lfloor>q\<rfloor> :: rat) \<le> 0" by linarith
  then show ?thesis using RFin raw_mk_nonpos by simp
qed simp_all

lemma div_not_nan: "\<not> is_nan x \<Longrightarrow> is_finite y \<Longrightarrow> 0 < y \<Longrightarrow> \<not> is_nan (x / y)"
proof transfer
  fix x y
  show "x \<noteq> RNaN \<Longrightarrow> (case y of RFin s q \<Rightarrow> True | _ \<Rightarrow> False) \<Longrightarrow>
    raw_le (RFin False 0) y \<and> \<not> raw_le y (RFin False 0) \<Longrightarrow> raw_div x y \<noteq> RNaN"
    by (cases x; cases y) (auto split: if_splits)
qed

lemma floor_nan [simp]: "is_nan (f64_floor x) = is_nan x"
proof transfer
  fix x show "(raw_int floor x = RNaN) = (x = RNaN)" by (cases x) simp_all
qed

lemma mul_pos: "0 < x \<Longrightarrow> 0 < y \<Longrightarrow> 0 \<le> x * (y :: f64)"
proof transfer
  fix x y
  show "wf_raw x \<Longrightarrow> wf_raw y \<Longrightarrow> raw_le (RFin False 0) x \<and> \<not> raw_le x (RFin False 0) \<Longrightarrow>
    raw_le (RFin False 0) y \<and> \<not> raw_le y (RFin False 0) \<Longrightarrow> raw_le (RFin False 0) (raw_mul x y)"
    by (cases x; cases y) (auto intro: raw_mk_nonneg split: if_splits)
qed

lemma sub_pos_finite: "0 < x - y \<Longrightarrow> is_finite x \<Longrightarrow> 0 \<le> y \<Longrightarrow> is_finite y"
proof transfer
  fix x y
  show "raw_le (RFin False 0) (raw_add x (raw_neg y)) \<and> \<not> raw_le (raw_add x (raw_neg y)) (RFin False 0) \<Longrightarrow>
    (case x of RFin s q \<Rightarrow> True | _ \<Rightarrow> False) \<Longrightarrow> raw_le (RFin False 0) y \<Longrightarrow> (case y of RFin s q \<Rightarrow> True | _ \<Rightarrow> False)"
    by (cases x; cases y) auto
qed

lemma pos_le_finite: "0 < x \<Longrightarrow> x \<le> y \<Longrightarrow> is_finite y \<Longrightarrow> is_finite x"
  using f64_between_finite[of 0 y x] f64_less_imp_le by simp

lemma fval_pos: "is_finite x \<Longrightarrow> 0 < x \<Longrightarrow> 0 < fval x"
  using f64_less_finite[of 0 x] by simp

lemma fval_nonneg: "is_finite x \<Longrightarrow> 0 \<le> x \<Longrightarrow> 0 \<le> fval x"
  using f64_le_finite[of 0 x] by simp

lemma nan_mul: "is_nan x \<Longrightarrow> is_nan (x * y)" "is_nan y \<Longrightarrow> is_nan (x * y)"
proof -
  show "is_nan x \<Longrightarrow> is_nan (x * y)" by transfer simp
  show "is_nan y \<Longrightarrow> is_nan (x * y)"
  proof transfer
    fix x y show "y = RNaN \<Longrightarrow> raw_mul x y = RNaN" by (cases x) simp_all
  qed
qed

text \<open>The sum of two prices strictly between zero and one.\<close>

lemma unit_sum:
  assumes "0 < x" "x < 1" "0 < y" "y < (1 :: f64)"
  shows "is_finite (x + y)" "0 < x + y" "fval (x + y) = rnd (fval x + fval y)"
    "fval x \<le> fval (x + y)" "fval (x + y) \<le> 2"
proof -
  have f: "is_finite x" "is_finite y" using assms f64_between_finite[of 0 1] f64_less_imp_le by auto
  have v: "0 < fval x" "fval x < 1" "0 < fval y" "fval y < 1"
    using assms f f64_less_finite[of 0 x] f64_less_finite[of x 1] f64_less_finite[of 0 y] f64_less_finite[of y 1] by auto
  show fin: "is_finite (x + y)" by (rule add_moderate[OF f]) (use v in simp)
  show e: "fval (x + y) = rnd (fval x + fval y)" by (rule fval_add[OF fin])
  have "rnd (fval x) \<le> rnd (fval x + fval y)" using v by (intro rnd_mono) simp
  then show le: "fval x \<le> fval (x + y)" using e by simp
  have "rnd (fval x + fval y) \<le> rnd (of_int 2)" using v by (intro rnd_mono) simp
  then show "fval (x + y) \<le> 2" using e rnd_int[of 2] by simp
  show "0 < x + y" using f64_less_finite[of 0 "x + y"] fin le v by simp
qed

lemma floor_div_pos: "is_finite p \<Longrightarrow> 0 < p \<Longrightarrow> 0 < f64_floor (n / p) \<Longrightarrow> 0 < n"
proof transfer
  fix p n
  assume w: "wf_raw p" "wf_raw n" and f: "case p of RFin s q \<Rightarrow> True | _ \<Rightarrow> False"
    and p: "raw_le (RFin False 0) p \<and> \<not> raw_le p (RFin False 0)"
    and t: "raw_le (RFin False 0) (raw_int floor (raw_div n p)) \<and> \<not> raw_le (raw_int floor (raw_div n p)) (RFin False 0)"
  from f obtain s q where pq: "p = RFin s q" by (cases p) auto
  with p have q: "0 < q" by auto
  show "raw_le (RFin False 0) n \<and> \<not> raw_le n (RFin False 0)"
  proof (cases n)
    case (RFin u m)
    have "0 < m"
    proof (rule ccontr)
      assume "\<not> 0 < m"
      then have "m / q \<le> 0" using q by (simp add: divide_le_0_iff)
      then have "raw_le (raw_mk (u \<noteq> s) (m / q)) (RFin False 0)" by (rule raw_mk_nonpos)
      then have "raw_le (raw_int floor (raw_mk (u \<noteq> s) (m / q))) (RFin False 0)"
        by (rule raw_floor_nonpos)
      then show False using t RFin pq q by simp
    qed
    then show ?thesis using RFin by simp
  qed (use t pq w q in \<open>auto split: if_splits\<close>)
qed

subsection \<open>Small counts are exact\<close>

lemma f64_of_nat_exact [simp]:
  assumes "n \<le> 2 ^ 53"
  shows "is_finite (f64_of_nat n)" "fval (f64_of_nat n) = of_nat n"
proof -
  have "\<bar>of_nat n :: rat\<bar> \<le> of_int (2 ^ 53)" using assms of_nat_le_iff[of n "2 ^ 53", where ?'a = rat] by simp
  then show "is_finite (f64_of_nat n)" "fval (f64_of_nat n) = of_nat n"
    using lit_small[of "of_nat n"] rnd_int[of "int n"] assms by (simp_all add: f64_of_nat_def)
qed

subsection \<open>Signs and NaN\<close>

lemma ulp_small: "ulp_rel \<le> 1 / 1000" "ulp_abs \<le> 1 / 1000"
  by (simp_all add: ulp_rel_def ulp_abs_def pow2_def)

lemma pos_of_not_le: "\<not> is_nan x \<Longrightarrow> \<not> x \<le> 0 \<Longrightarrow> 0 < (x :: f64)"
  by (simp add: f64_not_le)

lemma clamp_unit: "\<not> is_nan x \<Longrightarrow> unit_f64 (f64_clamp x 0 1)"
  using f64_clamp_bounds[of 0 1 x] by (simp add: unit_f64_def f64_le_finite)

lemma nonneg_not_nan: "0 \<le> x \<Longrightarrow> \<not> is_nan (x :: f64)"
  using f64_le_not_nan by blast

lemma f64_neg_neg [simp]: "- (- x) = (x :: f64)"
proof transfer
  fix x show "raw_neg (raw_neg x) = x" by (cases x) simp_all
qed

lemma f64_abs_nonneg: "\<not> is_nan x \<Longrightarrow> 0 \<le> \<bar>x\<bar>"
proof transfer
  fix x assume "x \<noteq> RNaN"
  then show "raw_le (RFin False 0) (raw_abs x)" by (cases x) simp_all
qed

lemma finite_mul_not_nan: "is_finite x \<Longrightarrow> is_finite y \<Longrightarrow> \<not> is_nan (x * y)"
  by transfer (auto split: fraw.splits)

lemma mul_pos_not_nan: "0 < y \<Longrightarrow> is_finite y \<Longrightarrow> \<not> is_nan x \<Longrightarrow> \<not> is_nan (x * y)"
proof transfer
  fix x y
  assume "raw_le (RFin False 0) y \<and> \<not> raw_le y (RFin False 0)" "case y of RFin s q \<Rightarrow> True | _ \<Rightarrow> False" "x \<noteq> RNaN"
  then show "raw_mul x y \<noteq> RNaN" by (cases x; cases y) auto
qed

lemma nan_div_abs: "is_nan x \<Longrightarrow> is_nan (\<bar>x\<bar> / y)"
  by transfer simp

lemma abs_div_max_nonneg: "\<not> is_nan (\<bar>x\<bar> / f64_max v 1) \<Longrightarrow> 0 \<le> \<bar>x\<bar> / f64_max v 1" if "\<not> is_nan x"
proof -
  have "0 \<le> \<bar>x\<bar>" using that by (simp add: f64_abs_nonneg)
  moreover have "0 < f64_max v 1" by (rule f64_less_le_trans[of 0 1]) (simp_all add: f64_less_finite f64_max_ge)
  ultimately show "\<not> is_nan (\<bar>x\<bar> / f64_max v 1) \<Longrightarrow> ?thesis" by (rule f64_div_nonneg)
qed

lemma lit_pos:
  assumes "1 / 100 \<le> q"
  shows "0 < f64_lit q"
proof -
  have "1 / 100 - 1 / 100 * ulp_rel - ulp_abs \<le> rnd (1 / 100)" using rnd_lower[of "1 / 100"] by (simp add: field_simps)
  then have "0 < rnd (1 / 100)" using ulp_small by linarith
  then have "0 < f64_lit (1 / 100)" using lit_small[of "1 / 100"] by (simp add: f64_less_finite)
  also have "\<dots> \<le> f64_lit q" by (rule lit_mono[OF assms])
  finally show ?thesis .
qed

end
