(* ===== verification/Ledger.thy ===== *)
theory Ledger
  imports Bankroll Rounding
begin

section \<open>The reserve ledger\<close>

text \<open>
  The contract of the reserve buckets of \<^verbatim>\<open>bankroll.rs\<close>: every bucket is non-negative, the raw totals are
  exactly the sums of the active and pending buckets, and therefore the branch for manually
  overridden totals is never taken. Every operation of the bankroll keeps the contract; the
  interpretation of \<open>guarded_machine\<close> carries it to every sequence of operations.
\<close>

definition ledger_ok :: "bankroll \<Rightarrow> bool" where
  "ledger_ok b \<longleftrightarrow> 0 \<le> bk_active b \<and> 0 \<le> bk_pending b \<and> bk_reserved b = bk_active b + bk_pending b \<and>
     list_all (\<lambda>f. 0 \<le> fam_get (bk_active_by_family b) f \<and> 0 \<le> fam_get (bk_pending_by_family b) f \<and>
       fam_get (bk_reserved_by_family b) f =
         fam_get (bk_active_by_family b) f + fam_get (bk_pending_by_family b) f) all_families"

text \<open>The non-negativity part, which holds between the two halves of an operation.\<close>

definition buckets_ok :: "bankroll \<Rightarrow> bool" where
  "buckets_ok b \<longleftrightarrow> 0 \<le> bk_active b \<and> 0 \<le> bk_pending b \<and>
     (\<forall>f. 0 \<le> fam_get (bk_active_by_family b) f) \<and> (\<forall>f. 0 \<le> fam_get (bk_pending_by_family b) f)"

lemma all_families_UNIV: "set all_families = UNIV"
proof -
  have "f \<in> set all_families" for f by (cases f) (simp_all add: all_families_def)
  then show ?thesis by blast
qed

lemma list_all_families: "list_all P all_families \<longleftrightarrow> (\<forall>f. P f)"
  by (simp add: list_all_iff all_families_UNIV)

lemma ledger_ok_alt:
  "ledger_ok b \<longleftrightarrow> buckets_ok b \<and> bk_reserved b = bk_active b + bk_pending b \<and>
     (\<forall>f. fam_get (bk_reserved_by_family b) f =
        fam_get (bk_active_by_family b) f + fam_get (bk_pending_by_family b) f)"
  by (auto simp: ledger_ok_def buckets_ok_def list_all_families)

lemma ledger_buckets: "ledger_ok b \<Longrightarrow> buckets_ok b"
  by (simp add: ledger_ok_alt)

subsection \<open>Family maps\<close>

lemma fam_get_add: "fam_get (fam_add f x m) g = (if g = f then fam_get m f + x else fam_get m g)"
  by (simp add: fam_get_def fam_add_def)

lemma fam_get_sub:
  "fam_get (fam_sub f x m) g =
     (if g = f \<and> m f \<noteq> None then f64_max (fam_get m f - x) 0 else fam_get m g)"
  by (auto simp: fam_get_def fam_sub_def split: option.splits)

lemma fam_get_sub_nonneg: "0 \<le> fam_get m g \<Longrightarrow> 0 \<le> fam_get (fam_sub f x m) g"
  by (simp add: fam_get_sub)

lemma fam_get_pos_Some: "0 < fam_get m f \<Longrightarrow> m f \<noteq> None"
  by (cases "m f") (simp_all add: fam_get_def)

lemma fam_get_map_of: "fam_get (map_of (map (\<lambda>f. (f, h f)) all_families)) g = h g"
  by (cases g) (simp_all add: fam_get_def all_families_def)

lemma fam_get_0_nonneg [simp]: "0 \<le> fam_get Map.empty f"
  by (simp add: fam_get_def)

subsection \<open>Synchronisation re-establishes the contract\<close>

lemma sync_fields [simp]:
  "bk_active (sync_raw_reserved_totals b) = bk_active b"
  "bk_pending (sync_raw_reserved_totals b) = bk_pending b"
  "bk_active_by_family (sync_raw_reserved_totals b) = bk_active_by_family b"
  "bk_pending_by_family (sync_raw_reserved_totals b) = bk_pending_by_family b"
  "bk_reserved (sync_raw_reserved_totals b) = bk_active b + bk_pending b"
  "fam_get (bk_reserved_by_family (sync_raw_reserved_totals b)) f =
     fam_get (bk_active_by_family b) f + fam_get (bk_pending_by_family b) f"
  "bk_current_balance (sync_raw_reserved_totals b) = bk_current_balance b"
  "bk_high_water_mark (sync_raw_reserved_totals b) = bk_high_water_mark b"
  by (simp_all add: sync_raw_reserved_totals_def fam_get_map_of)

lemma sync_ledger: "buckets_ok b \<Longrightarrow> ledger_ok (sync_raw_reserved_totals b)"
  by (simp add: ledger_ok_alt buckets_ok_def)

lemma tolerance_nonneg: "0 \<le> f64_lit 0.000000001"
  by (rule lit_nonneg) simp

lemma not_overridden:
  assumes "ledger_ok b"
  shows "\<not> manually_overridden b" "\<not> manually_overridden_for_family f b"
  using assms f64_sub_self_small[OF tolerance_nonneg]
  by (simp_all add: manually_overridden_def manually_overridden_for_family_def ledger_ok_alt)

lemma effective_reserved_exact:
  assumes "ledger_ok b"
  shows "effective_reserved_capital c b =
      bk_active b + bk_pending b * global_reserve_fraction (pending_settlement_policy_unchecked c)"
    and "effective_reserved_for_family f c b = fam_get (bk_active_by_family b) f +
      fam_get (bk_pending_by_family b) f * family_reserve_fraction (pending_settlement_policy_unchecked c)"
  using assms not_overridden(1)[OF assms] f64_sub_self_small[OF tolerance_nonneg]
  by (simp_all add: effective_reserved_capital_def effective_reserved_for_family_def ledger_ok_alt Let_def)

subsection \<open>The primitive moves\<close>

lemma consume_active_buckets:
  "buckets_ok b \<Longrightarrow> buckets_ok (snd (consume_family_active_reserve x f b))"
  by (auto simp: buckets_ok_def consume_family_active_reserve_def Let_def fam_get_sub_nonneg)

lemma consume_pending_buckets:
  "buckets_ok b \<Longrightarrow> buckets_ok (snd (consume_family_pending_reserve x f b))"
  by (auto simp: buckets_ok_def consume_family_pending_reserve_def Let_def fam_get_sub_nonneg)

lemma consume_families_buckets:
  "buckets_ok b \<Longrightarrow> buckets_ok (snd (consume_families act fs x b))"
proof (induction act fs x b rule: consume_families.induct)
  case (2 act f fs x b)
  show ?case
  proof (cases "x \<le> 0")
    case False
    let ?r = "if act then consume_family_active_reserve x f b else consume_family_pending_reserve x f b"
    obtain y b' where r: "?r = (y, b')" by (cases ?r)
    have "buckets_ok b'"
      using consume_active_buckets[OF 2(2), of x f] consume_pending_buckets[OF 2(2), of x f] r
      by (auto split: if_splits)
    then have "buckets_ok (snd (consume_families act fs (f64_max (x - y) 0) b'))"
      using 2(1)[OF False r[symmetric]] by simp
    then show ?thesis using False r by simp
  qed (simp add: 2)
qed simp

lemma add_reserved_ledger: "ledger_ok b \<Longrightarrow> 0 \<le> x \<Longrightarrow> ledger_ok (add_reserved f x b)"
  unfolding add_reserved_def
  by (rule sync_ledger) (auto simp: ledger_ok_alt buckets_ok_def fam_get_add intro: f64_add_nonneg)

lemma hydrate_ledger:
  "ledger_ok b \<Longrightarrow> 0 \<le> ex_entry_price e * ex_size e \<Longrightarrow> ledger_ok (hydrate_trade_reserve e now b)"
  unfolding hydrate_trade_reserve_def Let_def
  by (rule sync_ledger) (auto simp: ledger_ok_alt buckets_ok_def fam_get_add intro: f64_add_nonneg)

lemma release_ledger: "ledger_ok b \<Longrightarrow> ledger_ok (release_reserved x b)"
proof -
  assume ok: "ledger_ok b"
  obtain r b1 where c: "consume_across_families x True b = (r, b1)" by fastforce
  then have b1: "buckets_ok b1"
    using consume_families_buckets[OF ledger_buckets[OF ok], of True all_families "f64_max x 0"]
    by (simp add: consume_across_families_def)
  then have "buckets_ok (snd (consume_across_families r False b1))"
    by (simp add: consume_across_families_def consume_families_buckets)
  with b1 c show ?thesis
    by (simp add: release_reserved_def not_overridden[OF ok] sync_ledger)
qed

lemma release_family_ledger: "ledger_ok b \<Longrightarrow> ledger_ok (release_reserved_for_family x f b)"
proof -
  assume ok: "ledger_ok b"
  obtain r b1 where c: "consume_family_active_reserve x f b = (r, b1)" by fastforce
  then have "buckets_ok b1" using consume_active_buckets[OF ledger_buckets[OF ok], of x f] by simp
  with c show ?thesis
    by (simp add: release_reserved_for_family_def not_overridden[OF ok] Let_def sync_ledger consume_pending_buckets)
qed

lemma consume_active_eq:
  "consume_family_active_reserve x f b = (f64_min x (fam_get (bk_active_by_family b) f),
     if 0 < f64_min x (fam_get (bk_active_by_family b) f)
     then b\<lparr>bk_active := f64_max (bk_active b - f64_min x (fam_get (bk_active_by_family b) f)) 0,
            bk_active_by_family := fam_sub f (f64_min x (fam_get (bk_active_by_family b) f)) (bk_active_by_family b)\<rparr>
     else b)"
  by (simp add: consume_family_active_reserve_def Let_def)

lemma transition_ledger: "ledger_ok b \<Longrightarrow> ledger_ok (transition_family_reserve_to_pending x f b)"
proof -
  assume ok: "ledger_ok b"
  let ?m = "f64_min x (fam_get (bk_active_by_family b) f)"
  have nn: "\<not> is_nan ?m" using ok f64_le_not_nan by (auto simp: f64_min_nan ledger_ok_alt buckets_ok_def)
  show ?thesis
  proof (cases "?m \<le> 0")
    case True
    then have "\<not> 0 < ?m" by (simp add: f64_le_imp_not_less)
    with True ok show ?thesis
      by (simp add: transition_family_reserve_to_pending_def not_overridden consume_active_eq)
  next
    case False
    with nn have pos: "0 < ?m" by (simp add: f64_not_le)
    obtain b1 where c: "consume_family_active_reserve x f b = (?m, b1)"
      by (simp add: consume_active_eq)
    then have "buckets_ok b1" using consume_active_buckets[OF ledger_buckets[OF ok], of x f] by simp
    then have "buckets_ok (b1\<lparr>bk_pending := bk_pending b1 + ?m,
        bk_pending_by_family := fam_add f ?m (bk_pending_by_family b1)\<rparr>)"
      using f64_less_imp_le[OF pos] by (auto simp: buckets_ok_def fam_get_add intro: f64_add_nonneg)
    with c False ok show ?thesis
      by (simp add: transition_family_reserve_to_pending_def not_overridden sync_ledger)
  qed
qed

subsection \<open>Every operation keeps the contract\<close>

text \<open>The fields an operation leaves alone, and the buckets it works on.\<close>

definition same_buckets :: "bankroll \<Rightarrow> bankroll \<Rightarrow> bool" where
  "same_buckets b b' \<longleftrightarrow> bk_active b' = bk_active b \<and> bk_pending b' = bk_pending b \<and>
     bk_reserved b' = bk_reserved b \<and> bk_active_by_family b' = bk_active_by_family b \<and>
     bk_pending_by_family b' = bk_pending_by_family b \<and> bk_reserved_by_family b' = bk_reserved_by_family b"

definition same_money :: "bankroll \<Rightarrow> bankroll \<Rightarrow> bool" where
  "same_money b b' \<longleftrightarrow> bk_starting_balance b' = bk_starting_balance b \<and> bk_current_balance b' = bk_current_balance b \<and>
     bk_high_water_mark b' = bk_high_water_mark b \<and> bk_peak_drawdown_pct b' = bk_peak_drawdown_pct b \<and>
     bk_total_wins b' = bk_total_wins b \<and> bk_total_losses b' = bk_total_losses b \<and>
     bk_total_trades b' = bk_total_trades b \<and> bk_total_fees b' = bk_total_fees b \<and>
     bk_strategy_stats b' = bk_strategy_stats b \<and> bk_recent_results b' = bk_recent_results b \<and>
     bk_kelly_rolling_window b' = bk_kelly_rolling_window b"

lemma same_buckets_ledger: "same_buckets b b' \<Longrightarrow> ledger_ok b' = ledger_ok b"
  by (simp add: same_buckets_def ledger_ok_def)

lemma same_buckets_refl [simp]: "same_buckets b b"
  by (simp add: same_buckets_def)

lemma same_money_refl [simp]: "same_money b b"
  by (simp add: same_money_def)

lemma can_trade_same_buckets: "same_buckets b (snd (bk_can_trade c now b))"
  by (simp add: bk_can_trade_def log_blocked_def Let_def same_buckets_def)

lemma can_trade_same_money: "same_money b (snd (bk_can_trade c now b))"
  by (simp add: bk_can_trade_def log_blocked_def Let_def same_money_def)

lemma can_trade_ledger: "ledger_ok b \<Longrightarrow> ledger_ok (snd (bk_can_trade c now b))"
  using same_buckets_ledger[OF can_trade_same_buckets] by blast

lemma record_peaks_same_buckets: "same_buckets b (record_peaks b)"
  by (simp add: record_peaks_def Let_def same_buckets_def)

lemma record_strategy_same_buckets: "same_buckets b (record_strategy_result st won b)"
  by (simp add: record_strategy_result_def Let_def same_buckets_def)

lemma same_buckets_trans: "same_buckets a b \<Longrightarrow> same_buckets b d \<Longrightarrow> same_buckets a d"
  by (simp add: same_buckets_def)

lemma apply_result_buckets:
  "same_buckets (release_reserved_for_strategy (e * sz) st b) (snd (apply_trade_result_in_memory e sz p fee st b))"
  unfolding apply_trade_result_in_memory_def Let_def snd_conv
  by (rule same_buckets_trans[OF _ record_peaks_same_buckets], rule same_buckets_trans[OF _ record_strategy_same_buckets])
    (simp add: same_buckets_def)

lemma correction_buckets: "same_buckets b (fst (apply_settlement_correction i old_pnl new_pnl now s b))"
  unfolding apply_settlement_correction_def Let_def fst_conv
  by (rule same_buckets_trans[OF _ record_peaks_same_buckets]) (simp add: same_buckets_def)

text \<open>The database variant of the result application does to the bankroll what the in-memory variant does.\<close>

lemma apply_trade_result_refines:
  "fst (apply_trade_result i e sz p fee st now s b) = snd (apply_trade_result_in_memory e sz p fee st b)"
proof -
  let ?won = "0 < p * sz - e * sz - fee"
  show ?thesis
    by (cases ?won) (simp_all add: apply_trade_result_def apply_trade_result_in_memory_def Let_def)
qed

lemma apply_result_ledger: "ledger_ok b \<Longrightarrow> ledger_ok (snd (apply_trade_result_in_memory e sz p fee st b))"
  using same_buckets_ledger[OF apply_result_buckets] release_family_ledger
  by (simp add: release_reserved_for_strategy_def)

end
