(* ===== verification/Exposure.thy ===== *)
theory Exposure
  imports Ledger
begin

section \<open>Reservations and the open-exposure ceiling\<close>

text \<open>
  What a successful reservation does: the tokens come from the budget that was available, the cost
  enters the active bucket of the family, and, with a ceiling configured, the committed exposure
  stays below it up to the rounding of the arithmetic, for which a relative margin of \<open>2 ^ - 50\<close> is enough.
\<close>

subsection \<open>Shape of a reservation\<close>

lemma single_available_not_nan: "\<not> is_nan (single_available f c b)"
  using f64_le_not_nan[OF f64_max_0_nonneg]
  by (simp add: single_available_def f64_min_nan available_spread_budget_for_family_def Let_def)

lemma single_available_le_headroom:
  "\<not> is_nan (open_exposure_headroom c b) \<Longrightarrow> single_available f c b \<le> open_exposure_headroom c b"
  unfolding single_available_def by (rule f64_min_le(2))

text \<open>How the token count relates to the budget: a floor of a part of the budget, or an affordable minimum.\<close>

definition sized_within :: "f64 \<Rightarrow> f64 \<Rightarrow> f64 \<Rightarrow> bool" where
  "sized_within available price count \<longleftrightarrow>
     (\<exists>n. n \<le> available \<and> count = f64_floor (n / price)) \<or> count * price \<le> available"

lemma notional_le:
  assumes "\<not> is_nan a"
  shows "f64_min (f64_min (f64_min k a) m) u \<le> a"
proof -
  have "\<not> is_nan (f64_min k a)" "\<not> is_nan (f64_min (f64_min k a) m)" using assms by (simp_all add: f64_min_nan)
  then show ?thesis using f64_min_le assms by (meson f64_le_trans)
qed

lemma token_count_within:
  "n \<le> a \<Longrightarrow> sized_within a rp (token_count n ep rp a m c)"
  unfolding sized_within_def token_count_def Let_def by (simp split: if_split) blast

lemma reserve_cases:
  assumes r: "reserve_capital_with_reserve_price ep rp conf st f c now b0 = (t, b')"
    and nn: "\<not> is_nan ep" "\<not> is_nan rp"
  obtains (none) "t = 0" "same_buckets b0 b'" "same_money b0 b'"
  | (some) b where "b = snd (bk_can_trade c now b0)" "fst (bk_can_trade c now b0)"
      "0 < t" "0 < rp" "rp < 1" "0 < ep" "ep < 1" "0 < single_available f c b"
      "sized_within (single_available f c b) rp t" "b' = add_reserved f (t * rp) b"
proof -
  let ?a = "fst (bk_can_trade c now b0)" and ?b = "snd (bk_can_trade c now b0)"
  let ?av = "single_available f c ?b"
  note bs = can_trade_same_buckets[of b0 c now] can_trade_same_money[of b0 c now]
  let ?fr = "get_position_fraction ep conf st f c ?b" and ?mx = "bk_current_balance ?b * max_position_usd_fraction c"
  let ?n = "f64_min (f64_min (f64_min (bk_current_balance ?b * ?fr) ?av) ?mx) (max_position_usd c)"
  let ?t = "token_count ?n ep rp ?av ?mx c"
  have within: "sized_within ?av rp ?t"
    by (rule token_count_within[OF notional_le[OF single_available_not_nan]])
  have eq: "(t, b') = (if \<not> ?a then (0, ?b) else if bad_price ep \<or> bad_price rp then (0, ?b)
      else if ?av \<le> 0 then (0, ?b) else if ?fr \<le> 0 then (0, ?b)
      else if ?t \<le> 0 then (0, ?b) else (?t, add_reserved f (?t * rp) ?b))"
    unfolding r[symmetric] reserve_capital_with_reserve_price_def case_prod_beta Let_def by (rule refl)
  consider "t = 0" "b' = ?b" | "?a" "\<not> bad_price ep" "\<not> bad_price rp" "\<not> ?av \<le> 0"
      "sized_within ?av rp t" "\<not> t \<le> 0" "b' = add_reserved f (t * rp) ?b"
    using eq within by (simp only: prod.inject de_Morgan_disj not_not split: if_split_asm) metis+
  then show thesis
  proof cases
    case 1
    then show thesis using none bs by simp
  next
    case 2
    have p: "0 < rp" "rp < 1" "0 < ep" "ep < 1"
      using 2(2,3) nn by (simp_all add: bad_price_def f64_not_le)
    have av: "0 < ?av" using 2(4) single_available_not_nan by (simp add: f64_not_le)
    have fin: "is_finite rp" using p f64_between_finite[of 0 1 rp] by (simp add: f64_less_imp_le)
    have "\<not> is_nan t" using 2(5) unfolding sized_within_def
    proof (elim disjE exE conjE)
      fix n assume "n \<le> ?av" "t = f64_floor (n / rp)"
      then show ?thesis using div_not_nan[OF _ fin p(1)] f64_le_not_nan by auto
    next
      assume "t * rp \<le> ?av"
      then show ?thesis using f64_le_not_nan nan_mul by blast
    qed
    then have "0 < t" using 2(6) by (simp add: f64_not_le)
    then show thesis using some[of ?b] 2 p av by simp
  qed
qed

lemma reserve_ledger:
  assumes "ledger_ok b0" "\<not> is_nan ep" "\<not> is_nan rp"
  shows "ledger_ok (snd (reserve_capital_with_reserve_price ep rp conf st f c now b0))"
proof -
  obtain t b' where r: "reserve_capital_with_reserve_price ep rp conf st f c now b0 = (t, b')" by fastforce
  from r assms(2,3) show ?thesis
  proof (cases rule: reserve_cases)
    case none
    then show ?thesis using same_buckets_ledger assms(1) r by simp
  next
    case (some b)
    then show ?thesis
      using add_reserved_ledger[OF can_trade_ledger[OF assms(1)] mul_pos] r by simp
  qed
qed

lemma spread_cases:
  assumes r: "reserve_spread_capital_for_family up dn conf f c now b0 = ((t1, t2), b')"
    and nn: "\<not> is_nan up" "\<not> is_nan dn"
  obtains (none) "t1 = 0" "t2 = 0" "same_buckets b0 b'" "same_money b0 b'"
  | (some) b where "b = snd (bk_can_trade c now b0)" "fst (bk_can_trade c now b0)"
      "0 < t1" "t2 = t1" "0 < up" "up < 1" "0 < dn" "dn < 1" "0 < single_available f c b"
      "t1 = f64_floor (single_available f c b / (up + dn))" "b' = add_reserved f (t1 * (up + dn)) b"
proof -
  let ?a = "fst (bk_can_trade c now b0)" and ?b = "snd (bk_can_trade c now b0)"
  let ?av = "single_available f c ?b"
  note bs = can_trade_same_buckets[of b0 c now] can_trade_same_money[of b0 c now]
  let ?t = "f64_floor (?av / (up + dn))"
  have eq: "((t1, t2), b') = (if \<not> ?a then ((0, 0), ?b)
      else if up \<le> 0 \<or> dn \<le> 0 \<or> 1 \<le> up \<or> 1 \<le> dn then ((0, 0), ?b)
      else if ?av \<le> 0 then ((0, 0), ?b)
      else if ?t \<le> 0 then ((0, 0), ?b) else ((?t, ?t), add_reserved f (?t * (up + dn)) ?b))"
    unfolding r[symmetric] reserve_spread_capital_for_family_def case_prod_beta Let_def by (rule refl)
  consider "t1 = 0" "t2 = 0" "b' = ?b" | "?a" "\<not> bad_price up" "\<not> bad_price dn" "\<not> ?av \<le> 0" "t2 = t1"
      "t1 = f64_floor (?av / (up + dn))" "\<not> t1 \<le> 0" "b' = add_reserved f (t1 * (up + dn)) ?b"
    using eq by (simp only: prod.inject bad_price_def de_Morgan_disj not_not split: if_split_asm) metis+
  then show thesis
  proof cases
    case 1
    then show thesis using none bs by simp
  next
    case 2
    have p: "0 < up" "up < 1" "0 < dn" "dn < 1"
      using 2(2,3) nn by (simp_all add: bad_price_def f64_not_le)
    have av: "0 < ?av" using 2(4) single_available_not_nan by (simp add: f64_not_le)
    have u: "is_finite (up + dn)" "0 < up + dn" using unit_sum[OF p] by simp_all
    have "\<not> is_nan t1" using 2(6) div_not_nan[OF single_available_not_nan u] by simp
    then have "0 < t1" using 2(7) by (simp add: f64_not_le)
    then show thesis using some[of ?b] 2 p av by simp
  qed
qed

lemma spread_ledger:
  assumes "ledger_ok b0" "\<not> is_nan up" "\<not> is_nan dn"
  shows "ledger_ok (snd (reserve_spread_capital_for_family up dn conf f c now b0))"
proof -
  obtain t1 t2 b' where r: "reserve_spread_capital_for_family up dn conf f c now b0 = ((t1, t2), b')"
    by (metis surj_pair)
  from r assms(2,3) show ?thesis
  proof (cases rule: spread_cases)
    case none
    then show ?thesis using same_buckets_ledger assms(1) r by simp
  next
    case (some b)
    then show ?thesis
      using add_reserved_ledger[OF can_trade_ledger[OF assms(1)] mul_pos] unit_sum(2)[OF some(5-8)] r by simp
  qed
qed

subsection \<open>Rounding margins\<close>

text \<open>The constants of the error analysis as plain rationals; near zero a generous \<open>2 ^ - 60\<close> is enough.\<close>

lemma ulp_rel_value: "ulp_rel = 1 / 2 ^ 53"
  by (simp add: ulp_rel_def pow2_def power_int_def inverse_eq_divide power_one_over)

lemma ulp_abs_le: "ulp_abs \<le> 1 / 2 ^ 60"
proof -
  have "pow2 (- 1074) \<le> pow2 (- 60)" by (simp only: pow2_le_iff)
  then show ?thesis by (simp add: ulp_abs_def pow2_def[of "- 60"] power_int_def inverse_eq_divide power_one_over)
qed

lemma rnd_up: "0 \<le> q \<Longrightarrow> rnd q \<le> q * (1 + 1 / 2 ^ 53) + 1 / 2 ^ 60"
  using rnd_upper[of q] ulp_abs_le by (simp add: ulp_rel_value)

lemma rnd_down: "0 \<le> q \<Longrightarrow> q * (1 - 1 / 2 ^ 53) - 1 / 2 ^ 60 \<le> rnd q"
  using rnd_lower[of q] ulp_abs_le by (simp add: ulp_rel_value)

lemma floor_cost_bound:
  assumes fin: "is_finite n" "is_finite p" and pos: "0 < fval n" "fval n \<le> 10 ^ 12"
    and p: "9 / 10000 \<le> fval p" "fval p \<le> 2" and t: "t = f64_floor (n / p)"
  shows "is_finite (t * p) \<and> 0 \<le> fval (t * p) \<and>
    fval (t * p) \<le> (fval n * (1 + 1 / 2 ^ 53) + 2 / 2 ^ 60) * (1 + 1 / 2 ^ 53) + 1 / 2 ^ 60"
proof -
  have p0: "0 < fval p" using p by simp
  have "fval n / fval p \<le> 10 ^ 12 / (9 / 10000)"
    using pos p by (intro frac_le) simp_all
  also have "10 ^ 12 / (9 / 10000) \<le> (2 * 10 ^ 15 :: rat)" by simp
  finally have q: "0 \<le> fval n / fval p" "fval n / fval p \<le> 2 * 10 ^ 15" using pos p0 by simp_all
  have fq: "is_finite (n / p)" using fin p0 q by (intro div_moderate) simp_all
  have vq: "fval (n / p) = rnd (fval n / fval p)" by (rule fval_div[OF fq fin(2)])
  have vt: "fval t = of_int \<lfloor>fval (n / p)\<rfloor>" "is_finite t" using fq by (simp_all add: t)
  have t0: "0 \<le> fval t" using rnd_nonneg[OF q(1)] by (simp add: vt vq)
  have "fval t \<le> rnd (fval n / fval p)" by (simp add: vt vq)
  also have "\<dots> \<le> fval n / fval p * (1 + 1 / 2 ^ 53) + 1 / 2 ^ 60" by (rule rnd_up[OF q(1)])
  finally have "fval t * fval p \<le> (fval n / fval p * (1 + 1 / 2 ^ 53) + 1 / 2 ^ 60) * fval p"
    using p0 by (intro mult_right_mono) simp_all
  also have "\<dots> = fval n * (1 + 1 / 2 ^ 53) + fval p / 2 ^ 60"
    using p0 by (simp add: distrib_right)
  also have "\<dots> \<le> fval n * (1 + 1 / 2 ^ 53) + 2 / 2 ^ 60" using p by simp
  finally have tp: "fval t * fval p \<le> fval n * (1 + 1 / 2 ^ 53) + 2 / 2 ^ 60" .
  have tp0: "0 \<le> fval t * fval p" using t0 p0 by simp
  have ft: "is_finite (t * p)" using vt(2) fin(2) tp tp0 pos by (intro mul_moderate) simp_all
  have v: "fval (t * p) = rnd (fval t * fval p)" by (rule fval_mul[OF ft])
  have "rnd (fval t * fval p) \<le> (fval n * (1 + 1 / 2 ^ 53) + 2 / 2 ^ 60) * (1 + 1 / 2 ^ 53) + 1 / 2 ^ 60"
    by (rule order_trans[OF rnd_up[OF tp0]], intro add_right_mono mult_right_mono[OF tp]) simp
  then show ?thesis using ft v rnd_nonneg[OF tp0] by metis
qed

lemma ceiling_arith:
  fixes A P M C H c A' T :: rat
  assumes "0 \<le> A" "0 \<le> P" "1 \<le> M"
    and "(A + P) * (1 - 1 / 2 ^ 53) - 1 / 2 ^ 60 \<le> C"
    and "H \<le> (M - C) * (1 + 1 / 2 ^ 53) + 1 / 2 ^ 60"
    and "c \<le> (H * (1 + 1 / 2 ^ 53) + 2 / 2 ^ 60) * (1 + 1 / 2 ^ 53) + 1 / 2 ^ 60"
    and "A' \<le> (A + c) * (1 + 1 / 2 ^ 53) + 1 / 2 ^ 60"
    and "T \<le> (A' + P) * (1 + 1 / 2 ^ 53) + 1 / 2 ^ 60"
  shows "T \<le> M * (1 + 1 / 2 ^ 50)"
  using assms by (simp add: field_simps)

definition cost_margin :: "rat \<Rightarrow> rat" where
  "cost_margin a = (a * (1 + 1 / 2 ^ 53) + 2 / 2 ^ 60) * (1 + 1 / 2 ^ 53) + 1 / 2 ^ 60"

lemma cost_margin_ge: "0 \<le> a \<Longrightarrow> a \<le> cost_margin a"
  by (simp add: cost_margin_def field_simps)

lemma cost_margin_mono: "a \<le> a' \<Longrightarrow> cost_margin a \<le> cost_margin a'"
  by (simp add: cost_margin_def)

lemma min_price_value: "9 / 10000 \<le> fval (f64_lit 0.001)"
proof -
  have "fval (f64_lit 0.001) = rnd 0.001" using lit_small[of "0.001"] by simp
  moreover have "(0.001 :: rat) * (1 - 1 / 2 ^ 53) - 1 / 2 ^ 60 \<le> rnd 0.001" by (rule rnd_down) simp
  ultimately show ?thesis by simp
qed

lemma min_price_ge:
  assumes "f64_lit 0.001 \<le> p" "p < 1"
  shows "is_finite p" "9 / 10000 \<le> fval p" "fval p \<le> 2"
proof -
  have l: "is_finite (f64_lit 0.001)" using lit_small[of "0.001"] by simp
  show f: "is_finite p" by (rule f64_between_finite[OF l finite_1(1) assms(1) f64_less_imp_le[OF assms(2)]])
  show "9 / 10000 \<le> fval p" using assms(1) f64_le_finite[OF l f] min_price_value by simp
  show "fval p \<le> 2" using assms(2) f64_less_finite[OF f finite_1(1)] by simp
qed

lemma sized_within_cost:
  assumes sw: "sized_within a p t" and a: "is_finite a" "0 < a" "fval a \<le> 10 ^ 12" and t: "0 < t"
    and p: "f64_lit 0.001 \<le> p" "p < 1"
  shows "is_finite (t * p) \<and> 0 \<le> fval (t * p) \<and> fval (t * p) \<le> cost_margin (fval a)"
  using sw unfolding sized_within_def
proof (elim disjE exE conjE)
  fix n assume n: "n \<le> a" "t = f64_floor (n / p)"
  note p' = min_price_ge[OF p]
  have pp: "0 < p" using f64_less_finite[OF finite_0(1) p'(1)] p'(2) by simp
  have pn: "0 < n" by (rule floor_div_pos[OF p'(1) pp]) (use t n(2) in simp)
  have fn: "is_finite n" by (rule pos_le_finite[OF pn n(1) a(1)])
  have v: "0 < fval n" "fval n \<le> fval a" using fval_pos[OF fn pn] f64_le_finite[OF fn a(1)] n(1) by simp_all
  have "is_finite (t * p) \<and> 0 \<le> fval (t * p) \<and> fval (t * p) \<le> cost_margin (fval n)"
    unfolding cost_margin_def by (rule floor_cost_bound[OF fn p'(1) v(1) _ p'(2,3) n(2)]) (use v a(3) in simp)
  then show ?thesis using cost_margin_mono[OF v(2)] by auto
next
  assume c: "t * p \<le> a"
  note p' = min_price_ge[OF p]
  have pp: "0 < p" using f64_less_finite[OF finite_0(1) p'(1)] p'(2) by simp
  have f: "is_finite (t * p)" by (rule f64_between_finite[OF finite_0(1) a(1) mul_pos[OF t pp] c])
  then show ?thesis
    using c f64_le_finite[OF f a(1)] fval_nonneg[OF f mul_pos[OF t pp]] cost_margin_ge[of "fval a"] fval_pos[OF a(1,2)]
    by auto
qed

lemma magnitude_arith:
  "s * (1 - 1 / 2 ^ 53) - 1 / 2 ^ 60 \<le> C \<Longrightarrow> C \<le> 10 ^ 12 \<Longrightarrow> s \<le> 2 * 10 ^ 12"
  "x \<le> cost_margin m \<Longrightarrow> m \<le> 10 ^ 12 \<Longrightarrow> x \<le> 2 * 10 ^ 12"
  "y \<le> (s + x) * (1 + 1 / 2 ^ 53) + 1 / 2 ^ 60 \<Longrightarrow> s + z \<le> 2 * 10 ^ 12 \<Longrightarrow> x \<le> 2 * 10 ^ 12 \<Longrightarrow>
    0 \<le> s \<Longrightarrow> 0 \<le> z \<Longrightarrow> y + z \<le> 2 ^ 53"
  for s C x m y z :: rat
  by (simp_all add: cost_margin_def field_simps)

text \<open>The committed exposure after a reservation whose cost is within the margin of the budget.\<close>

lemma committed_bound:
  assumes ok: "ledger_ok b" and cl: "open_exposure_ceiling_usd c = Some M" "1 \<le> M" "M \<le> f64_lit (10 ^ 12)"
    and av: "0 < single_available f c b"
    and x: "is_finite (single_available f c b) \<Longrightarrow> fval (single_available f c b) \<le> 10 ^ 12 \<Longrightarrow>
      is_finite x \<and> 0 \<le> fval x \<and> fval x \<le> cost_margin (fval (single_available f c b))"
  shows "is_finite (bk_active b + x + bk_pending b) \<and>
    fval (bk_active b + x + bk_pending b) \<le> fval M * (1 + 1 / 2 ^ 50)"
proof -
  let ?A = "bk_active b" and ?P = "bk_pending b" and ?av = "single_available f c b"
  let ?C = "?A + ?P" and ?H = "open_exposure_headroom c b"
  have lit: "is_finite (f64_lit (10 ^ 12))" "fval (f64_lit (10 ^ 12)) = 10 ^ 12"
    using lit_small[of "10 ^ 12"] rnd_int[of "10 ^ 12"] by simp_all
  have M: "is_finite M" by (rule f64_between_finite[OF finite_1(1) lit(1) cl(2,3)])
  have Mv: "1 \<le> fval M" "fval M \<le> 10 ^ 12"
    using cl(2,3) f64_le_finite[OF finite_1(1) M] f64_le_finite[OF M lit(1)] lit(2) by simp_all
  have nnH: "\<not> is_nan ?H" using f64_le_not_nan[OF f64_max_0_nonneg] cl(1) by (simp add: open_exposure_headroom_def)
  have avH: "?av \<le> ?H" by (rule single_available_le_headroom[OF nnH])
  have Hd: "?H = f64_max (M - ?C) 0" using cl(1) by (simp add: open_exposure_headroom_def)
  have H0: "0 < ?H" by (rule f64_less_le_trans[OF av avH])
  then have "f64_max (M - ?C) 0 \<noteq> 0" using f64_less_irrefl[of 0] unfolding Hd by metis
  then have H1: "f64_max (M - ?C) 0 = M - ?C" using f64_max_cases[of "M - ?C" 0] by blast
  have H: "?H = M - ?C" "0 < M - ?C" using Hd H0 unfolding H1 by metis+
  have nonneg: "0 \<le> ?A" "0 \<le> ?P" using ok by (simp_all add: ledger_ok_alt buckets_ok_def)
  have fC: "is_finite ?C" by (rule sub_pos_finite[OF H(2) M f64_add_nonneg[OF nonneg]])
  have fin: "is_finite ?A" "is_finite ?P" using finite_add_args[OF fC] by simp_all
  have v: "0 \<le> fval ?A" "0 \<le> fval ?P" using fval_nonneg[OF fin(1) nonneg(1)] fval_nonneg[OF fin(2) nonneg(2)] by auto
  have C: "fval ?C = rnd (fval ?A + fval ?P)" by (rule fval_add[OF fC])
  have C0: "0 \<le> fval ?C" using rnd_nonneg v C by simp
  have leM: "\<not> is_nan (M - ?C)" using H(2) f64_less_not_nan by blast
  have fH: "is_finite (M - ?C)"
    by (rule pos_le_finite[OF H(2) f64_sub_le[OF f64_add_nonneg[OF nonneg] leM] M])
  have Hv: "fval (M - ?C) = rnd (fval M - fval ?C)" by (rule fval_sub[OF fH])
  have MC: "0 \<le> fval M - fval ?C"
    using fval_pos[OF fH H(2)] Hv rnd_mono[of "fval M - fval ?C" 0] by (cases "0 \<le> fval M - fval ?C") simp_all
  have fa: "is_finite ?av" by (rule pos_le_finite[OF av _ fH]) (use avH H in simp)
  have aH: "fval ?av \<le> fval (M - ?C)" using avH H(1) f64_le_finite[OF fa fH] by simp
  have Hup: "fval (M - ?C) \<le> (fval M - fval ?C) * (1 + 1 / 2 ^ 53) + 1 / 2 ^ 60"
    using rnd_up[OF MC] Hv by simp
  have HM: "fval (M - ?C) \<le> fval M"
    using f64_sub_le[OF f64_add_nonneg[OF nonneg] leM] f64_le_finite[OF fH M] by simp
  then have X: "is_finite x" "0 \<le> fval x" "fval x \<le> cost_margin (fval (M - ?C))"
    using x[OF fa] aH Mv cost_margin_mono[OF aH] by linarith+
  have Clow: "(fval ?A + fval ?P) * (1 - 1 / 2 ^ 53) - 1 / 2 ^ 60 \<le> fval ?C"
    using rnd_down[of "fval ?A + fval ?P"] v C by simp
  have APM: "fval ?A + fval ?P \<le> 2 * 10 ^ 12" "fval x \<le> 2 * 10 ^ 12"
    using magnitude_arith(1)[OF Clow] magnitude_arith(2)[OF order_trans[OF X(3) cost_margin_mono[OF HM]] Mv(2)]
      MC Mv(2) by simp_all
  have f1: "is_finite (?A + x)" using fin(1) X APM v by (intro add_moderate) simp_all
  have v1: "fval (?A + x) = rnd (fval ?A + fval x)" by (rule fval_add[OF f1])
  have up1: "fval (?A + x) \<le> (fval ?A + fval x) * (1 + 1 / 2 ^ 53) + 1 / 2 ^ 60"
    using rnd_up[of "fval ?A + fval x"] v X v1 by simp
  have pos1: "0 \<le> fval (?A + x)" using rnd_nonneg[of "fval ?A + fval x"] v X v1 by simp
  have "fval (?A + x) + fval ?P \<le> of_int (2 ^ 53)" using magnitude_arith(3)[OF up1 APM v] by simp
  then have f2: "is_finite (?A + x + ?P)" using pos1 v by (intro add_moderate[OF f1 fin(2)]) simp
  have "fval (?A + x + ?P) \<le> (fval (?A + x) + fval ?P) * (1 + 1 / 2 ^ 53) + 1 / 2 ^ 60"
    using rnd_up[of "fval (?A + x) + fval ?P"] fval_add[OF f2] pos1 v by simp
  from ceiling_arith[OF v Mv(1) Clow Hup X(3)[unfolded cost_margin_def] up1 this] f2 show ?thesis by simp
qed

lemma exposure_ceiling_single:
  assumes "ledger_ok b" "open_exposure_ceiling_usd c = Some M" "1 \<le> M" "M \<le> f64_lit (10 ^ 12)"
    and "\<not> is_nan ep" "f64_lit 0.001 \<le> rp"
    and r: "reserve_capital_with_reserve_price ep rp conf st f c now b = (t, b')" and "0 < t"
  shows "is_finite (bk_active b' + bk_pending b') \<and>
    fval (bk_active b' + bk_pending b') \<le> fval M * (1 + 1 / 2 ^ 50)"
proof -
  have "\<not> is_nan rp" using f64_le_not_nan[OF assms(6)] by simp
  from r assms(5) this show ?thesis
  proof (cases rule: reserve_cases)
    case none
    then show ?thesis using assms(8) by simp
  next
    case (some b1)
    note ok = can_trade_ledger[OF assms(1), of c now, folded some(1)]
    have "is_finite (bk_active b1 + t * rp + bk_pending b1) \<and>
        fval (bk_active b1 + t * rp + bk_pending b1) \<le> fval M * (1 + 1 / 2 ^ 50)"
      by (rule committed_bound[OF ok assms(2-4) some(8)], rule sized_within_cost)
        (use some assms(6) in simp_all)
    then show ?thesis using some(10) by (simp add: add_reserved_def)
  qed
qed

lemma exposure_ceiling_spread:
  assumes "ledger_ok b" "open_exposure_ceiling_usd c = Some M" "1 \<le> M" "M \<le> f64_lit (10 ^ 12)"
    and "f64_lit 0.001 \<le> up" "f64_lit 0.001 \<le> dn"
    and r: "reserve_spread_capital_for_family up dn conf f c now b = ((t1, t2), b')" and "0 < t1"
  shows "is_finite (bk_active b' + bk_pending b') \<and>
    fval (bk_active b' + bk_pending b') \<le> fval M * (1 + 1 / 2 ^ 50)"
proof -
  have "\<not> is_nan up" "\<not> is_nan dn" using f64_le_not_nan[OF assms(5)] f64_le_not_nan[OF assms(6)] by simp_all
  from r this show ?thesis
  proof (cases rule: spread_cases)
    case none
    then show ?thesis using assms(8) by simp
  next
    case (some b1)
    note ok = can_trade_ledger[OF assms(1), of c now, folded some(1)]
    note u = unit_sum[OF some(5-8)]
    have av: "is_finite (single_available f c b1) \<Longrightarrow> fval (single_available f c b1) \<le> 10 ^ 12 \<Longrightarrow>
      is_finite (t1 * (up + dn)) \<and> 0 \<le> fval (t1 * (up + dn)) \<and>
      fval (t1 * (up + dn)) \<le> cost_margin (fval (single_available f c b1))"
      unfolding cost_margin_def
      by (rule floor_cost_bound[OF _ u(1) _ _ _ u(5) some(10)])
        (use fval_pos[OF _ some(9)] min_price_ge[OF assms(5) some(6)] u(4) in auto)
    have "is_finite (bk_active b1 + t1 * (up + dn) + bk_pending b1) \<and>
        fval (bk_active b1 + t1 * (up + dn) + bk_pending b1) \<le> fval M * (1 + 1 / 2 ^ 50)"
      by (rule committed_bound[OF ok assms(2-4) some(9) av])
    then show ?thesis using some(11) by (simp add: add_reserved_def)
  qed
qed

end
