(* ===== verification/BankrollMachine.thy ===== *)
theory BankrollMachine
  imports Exposure
begin

section \<open>The bankroll as a state machine\<close>

text \<open>
  The operations of \<^verbatim>\<open>BankrollManager\<close> as the steps of one machine, with the interpretations that carry
  its invariants to every history: the reserve ledger, the counters of wins and losses, the
  high-water mark, the rolling window of results, and the drawdown pause.
\<close>

datatype bk_op =
    OpCanTrade config u64
  | OpReserve f64 f64 f64 string StrategyFamily config u64
  | OpReserveSpread f64 f64 f64 StrategyFamily config u64
  | OpRelease f64
  | OpReleaseStrategy f64 string
  | OpTransition f64 string
  | OpHydrate exposure u64
  | OpResult f64 f64 f64 f64 string
  | OpCorrection i64 f64 f64 u64 store

fun bk_step :: "bk_op \<Rightarrow> bankroll \<Rightarrow> bankroll" where
  "bk_step (OpCanTrade c now) b = snd (bk_can_trade c now b)"
| "bk_step (OpReserve ep rp conf st f c now) b = snd (reserve_capital_with_reserve_price ep rp conf st f c now b)"
| "bk_step (OpReserveSpread up dn conf f c now) b = snd (reserve_spread_capital_for_family up dn conf f c now b)"
| "bk_step (OpRelease x) b = release_reserved x b"
| "bk_step (OpReleaseStrategy x st) b = release_reserved_for_strategy x st b"
| "bk_step (OpTransition x st) b = transition_trade_to_pending_settlement x st b"
| "bk_step (OpHydrate e now) b = hydrate_trade_reserve e now b"
| "bk_step (OpResult ep sz sp fee st) b = snd (apply_trade_result_in_memory ep sz sp fee st b)"
| "bk_step (OpCorrection i old_pnl new_pnl now s) b = fst (apply_settlement_correction i old_pnl new_pnl now s b)"

text \<open>The callers pass prices that are numbers and rehydrate trades of non-negative cost; amounts are arbitrary.\<close>

fun bk_op_ok :: "bk_op \<Rightarrow> bool" where
  "bk_op_ok (OpReserve ep rp conf st f c now) = (\<not> is_nan ep \<and> \<not> is_nan rp)"
| "bk_op_ok (OpReserveSpread up dn conf f c now) = (\<not> is_nan up \<and> \<not> is_nan dn)"
| "bk_op_ok (OpHydrate e now) = (0 \<le> ex_entry_price e * ex_size e)"
| "bk_op_ok _ = True"

lemma bk_step_ledger: "ledger_ok b \<Longrightarrow> bk_op_ok e \<Longrightarrow> ledger_ok (bk_step e b)"
proof (cases e)
  case (OpCorrection i old_pnl new_pnl now s)
  then show "ledger_ok b \<Longrightarrow> ?thesis"
    using same_buckets_ledger[OF correction_buckets] by simp
qed (auto intro: can_trade_ledger reserve_ledger spread_ledger release_ledger release_family_ledger
      transition_ledger hydrate_ledger apply_result_ledger
      simp: release_reserved_for_strategy_def transition_trade_to_pending_settlement_def)

interpretation ledger_machine: guarded_machine bk_step bk_op_ok ledger_ok
  by unfold_locales (rule bk_step_ledger)

lemma new_in_memory_ledger: "ledger_ok (new_in_memory starting current c)"
proof -
  have "(0 :: f64) + 0 = 0" by transfer (simp add: raw_mk_def fmax_bound_def)
  then show ?thesis by (simp add: ledger_ok_alt buckets_ok_def new_in_memory_def fam_get_def)
qed

subsection \<open>The rolling window of results\<close>

definition result_push :: "string \<times> bool \<Rightarrow> bankroll \<Rightarrow> bankroll" where
  "result_push = (\<lambda>(st, won). record_strategy_result st won)"

definition result_item :: "string \<times> bool \<Rightarrow> trade_result_record" where
  "result_item = (\<lambda>(st, won). \<lparr>trr_strategy = st, trr_won = won\<rparr>)"

interpretation result_window: bounded_buffer result_push bk_recent_results bk_kelly_rolling_window result_item
  by unfold_locales
    (auto simp: result_push_def result_item_def record_strategy_result_def push_bounded_def Let_def)

subsection \<open>Money, peaks and counters\<close>

lemma same_money_sync [simp]: "same_money b (sync_raw_reserved_totals b)"
  by (simp add: same_money_def sync_raw_reserved_totals_def)

lemma same_money_trans: "same_money a b \<Longrightarrow> same_money b d \<Longrightarrow> same_money a d"
  by (simp add: same_money_def)

lemma consume_same_money:
  "same_money b (snd (consume_family_active_reserve x f b))"
  "same_money b (snd (consume_family_pending_reserve x f b))"
  by (simp_all add: consume_family_active_reserve_def consume_family_pending_reserve_def Let_def same_money_def)

lemma consume_families_same_money: "same_money b (snd (consume_families act fs x b))"
proof (induction act fs x b rule: consume_families.induct)
  case (2 act f fs x b)
  let ?r = "if act then consume_family_active_reserve x f b else consume_family_pending_reserve x f b"
  obtain y b' where r: "?r = (y, b')" by (cases ?r)
  have "same_money b b'" using consume_same_money[of b x f] r by (auto split: if_splits)
  then show ?case using 2(1)[OF _ r[symmetric]] same_money_trans r by fastforce
qed simp

lemma release_same_money: "same_money b (release_reserved x b)"
proof -
  let ?r = "consume_across_families x True b"
  have c: "same_money b (snd (consume_across_families x act b))" for x act b
    by (simp add: consume_across_families_def consume_families_same_money)
  have "same_money b (snd (consume_across_families (fst ?r) False (snd ?r)))"
    by (rule same_money_trans[OF c c])
  moreover have "same_money b (b\<lparr>bk_reserved := y\<rparr>)" for y by (simp add: same_money_def)
  ultimately show ?thesis
    using c by (auto simp: release_reserved_def case_prod_beta intro: same_money_trans[OF _ same_money_sync])
qed

lemma release_family_same_money: "same_money b (release_reserved_for_family x f b)"
proof -
  let ?r = "consume_family_active_reserve x f b"
  have "same_money b (snd (consume_family_pending_reserve y f (snd ?r)))" for y
    by (rule same_money_trans[OF consume_same_money(1) consume_same_money(2)])
  moreover have "same_money b (b\<lparr>bk_reserved := y, bk_reserved_by_family := m\<rparr>)" for y m by (simp add: same_money_def)
  ultimately show ?thesis
    by (auto simp: release_reserved_for_family_def case_prod_beta Let_def
        intro: same_money_trans[OF _ same_money_sync] consume_same_money)
qed

lemma transition_same_money: "same_money b (transition_family_reserve_to_pending x f b)"
proof -
  have p: "same_money b (b\<lparr>bk_pending := y, bk_pending_by_family := m\<rparr>)" for y m b by (simp add: same_money_def)
  show ?thesis
    by (auto simp: transition_family_reserve_to_pending_def case_prod_beta
        intro: same_money_trans[OF _ same_money_sync] same_money_trans[OF _ p] consume_same_money)
qed

lemma add_reserved_same_money: "same_money b (add_reserved f x b)"
  by (simp add: add_reserved_def same_money_def sync_raw_reserved_totals_def)

text \<open>The counters agree: every applied result is a win or a loss. The sums are modulo \<open>2 ^ 64\<close>.\<close>

definition counts_ok :: "bankroll \<Rightarrow> bool" where
  "counts_ok b \<longleftrightarrow> bk_total_wins b + bk_total_losses b = bk_total_trades b"

text \<open>The balance never exceeds the high-water mark.\<close>

definition hwm_ok :: "bankroll \<Rightarrow> bool" where
  "hwm_ok b \<longleftrightarrow> bk_current_balance b \<le> bk_high_water_mark b"

lemma record_peaks_eq:
  "record_peaks b = b\<lparr>bk_high_water_mark := (if bk_high_water_mark b < bk_current_balance b then bk_current_balance b else bk_high_water_mark b),
     bk_peak_drawdown_pct := bk_peak_drawdown_pct (record_peaks b)\<rparr>"
  by (simp add: record_peaks_def Let_def)

lemma record_peaks_hwm:
  assumes "\<not> is_nan (bk_current_balance b)" "\<not> is_nan (bk_high_water_mark b)"
  shows "hwm_ok (record_peaks b)" "bk_high_water_mark b \<le> bk_high_water_mark (record_peaks b)"
proof -
  show "hwm_ok (record_peaks b)"
    using assms f64_not_less[of "bk_high_water_mark b" "bk_current_balance b"]
    by (subst record_peaks_eq) (simp add: hwm_ok_def)
  show "bk_high_water_mark b \<le> bk_high_water_mark (record_peaks b)"
    using assms f64_less_imp_le by (subst record_peaks_eq) simp
qed

lemma record_peaks_drawdown:
  assumes "\<not> is_nan (get_drawdown_pct (record_peaks b))" "\<not> is_nan (bk_peak_drawdown_pct b)"
  shows "get_drawdown_pct (record_peaks b) \<le> bk_peak_drawdown_pct (record_peaks b)"
    "bk_peak_drawdown_pct b \<le> bk_peak_drawdown_pct (record_peaks b)"
proof -
  have g: "get_drawdown_pct (a\<lparr>bk_peak_drawdown_pct := x\<rparr>) = get_drawdown_pct a" for a x
    by (simp add: get_drawdown_pct_def)
  have d: "get_drawdown_pct (record_peaks b) = get_drawdown_pct
      (if bk_high_water_mark b < bk_current_balance b then b\<lparr>bk_high_water_mark := bk_current_balance b\<rparr> else b)"
    by (simp add: record_peaks_def Let_def get_drawdown_pct_def)
  show "get_drawdown_pct (record_peaks b) \<le> bk_peak_drawdown_pct (record_peaks b)"
    using assms f64_not_less f64_less_not_nan by (auto simp: d g record_peaks_def Let_def)
  show "bk_peak_drawdown_pct b \<le> bk_peak_drawdown_pct (record_peaks b)"
    using assms f64_less_imp_le by (auto simp: record_peaks_def Let_def)
qed

lemma bk_step_same_money:
  assumes "\<forall>ep sz sp fee st. e \<noteq> OpResult ep sz sp fee st" "\<forall>i x y now s. e \<noteq> OpCorrection i x y now s"
    and "bk_op_ok e"
  shows "same_money b (bk_step e b)"
proof (cases e)
  case (OpReserve ep rp conf st f c now)
  obtain t b' where r: "reserve_capital_with_reserve_price ep rp conf st f c now b = (t, b')" by fastforce
  have nn: "\<not> is_nan ep" "\<not> is_nan rp" using assms(3) OpReserve by simp_all
  from r nn have "same_money b b'"
    by (cases rule: reserve_cases) (auto intro: same_money_trans[OF can_trade_same_money add_reserved_same_money])
  then show ?thesis using OpReserve r by simp
next
  case (OpReserveSpread up dn conf f c now)
  obtain t1 t2 b' where r: "reserve_spread_capital_for_family up dn conf f c now b = ((t1, t2), b')"
    by (metis surj_pair)
  have nn: "\<not> is_nan up" "\<not> is_nan dn" using assms(3) OpReserveSpread by simp_all
  from r nn have "same_money b b'"
    by (cases rule: spread_cases) (auto intro: same_money_trans[OF can_trade_same_money add_reserved_same_money])
  then show ?thesis using OpReserveSpread r by simp
next
  case (OpHydrate x now)
  have "same_money b (if q then b\<lparr>bk_pending := y, bk_pending_by_family := m\<rparr> else b\<lparr>bk_active := z, bk_active_by_family := k\<rparr>)"
    for q y m z k by (simp add: same_money_def)
  then show ?thesis using OpHydrate same_money_trans[OF _ same_money_sync]
    by (simp add: hydrate_trade_reserve_def Let_def)
qed (use assms in \<open>auto simp: can_trade_same_money release_same_money release_family_same_money transition_same_money
      release_reserved_for_strategy_def transition_trade_to_pending_settlement_def\<close>)

lemma result_money:
  "bk_total_wins (snd (apply_trade_result_in_memory e sz p fee st b)) +
     bk_total_losses (snd (apply_trade_result_in_memory e sz p fee st b)) =
     bk_total_wins b + bk_total_losses b + 1"
  "bk_total_trades (snd (apply_trade_result_in_memory e sz p fee st b)) = bk_total_trades b + 1"
  "bk_current_balance (snd (apply_trade_result_in_memory e sz p fee st b)) =
     bk_current_balance b + (p * sz - e * sz - fee)"
  "bk_high_water_mark (snd (apply_trade_result_in_memory e sz p fee st b)) =
     (let bal = bk_current_balance b + (p * sz - e * sz - fee) in
      if bk_high_water_mark b < bal then bal else bk_high_water_mark b)"
  using release_family_same_money[of b "e * sz" "family_for_strategy st"]
  by (simp_all add: apply_trade_result_in_memory_def Let_def record_peaks_def record_strategy_result_def
      same_money_def release_reserved_for_strategy_def)

lemma correction_money:
  "bk_current_balance (fst (apply_settlement_correction i old_pnl new_pnl now s b)) =
     bk_current_balance b + (new_pnl - old_pnl)"
  "bk_total_trades (fst (apply_settlement_correction i old_pnl new_pnl now s b)) = bk_total_trades b"
  "bk_high_water_mark (fst (apply_settlement_correction i old_pnl new_pnl now s b)) =
     (let bal = bk_current_balance b + (new_pnl - old_pnl) in
      if bk_high_water_mark b < bal then bal else bk_high_water_mark b)"
  "bk_total_fees (fst (apply_settlement_correction i old_pnl new_pnl now s b)) =
     f64_max (bk_total_fees b + (new_pnl - old_pnl)) 0"
  by (simp_all add: apply_settlement_correction_def Let_def record_peaks_def)

lemma correction_counts:
  assumes "0 < old_pnl \<Longrightarrow> \<not> 0 < new_pnl \<Longrightarrow> 0 < bk_total_wins b"
    and "\<not> 0 < old_pnl \<Longrightarrow> 0 < new_pnl \<Longrightarrow> 0 < bk_total_losses b" and "counts_ok b"
  shows "counts_ok (fst (apply_settlement_correction i old_pnl new_pnl now s b))"
  using assms by (auto simp: apply_settlement_correction_def Let_def record_peaks_def counts_ok_def)

text \<open>The high-water mark never falls, whatever the operation; the machine needs no guard for it.\<close>

definition hwm_le :: "bankroll \<Rightarrow> bankroll \<Rightarrow> bool" where
  "hwm_le b b' \<longleftrightarrow> bk_high_water_mark b \<le> bk_high_water_mark b'"

definition hwm_number :: "bankroll \<Rightarrow> bool" where
  "hwm_number b \<longleftrightarrow> \<not> is_nan (bk_high_water_mark b)"

lemma bk_step_hwm:
  assumes "hwm_number b" "bk_op_ok e"
  shows "hwm_le b (bk_step e b)"
proof -
  have r: "bk_high_water_mark b \<le> (if bk_high_water_mark b < x then x else bk_high_water_mark b)" for x
    using assms(1) f64_less_imp_le by (simp add: hwm_number_def)
  consider (res) ep sz sp fee st where "e = OpResult ep sz sp fee st"
    | (corr) i x y now s where "e = OpCorrection i x y now s"
    | (other) "\<forall>ep sz sp fee st. e \<noteq> OpResult ep sz sp fee st" "\<forall>i x y now s. e \<noteq> OpCorrection i x y now s"
    by blast
  then show ?thesis
  proof cases
    case other
    then show ?thesis using bk_step_same_money[OF _ _ assms(2), of b] assms(1)
      by (simp add: hwm_le_def hwm_number_def same_money_def)
  qed (use r in \<open>simp_all add: hwm_le_def result_money correction_money Let_def\<close>)
qed

interpretation hwm_machine: monotone_machine bk_step bk_op_ok hwm_number hwm_le
proof
  show "hwm_number b \<Longrightarrow> bk_op_ok e \<Longrightarrow> hwm_number (bk_step e b)" for b e
    using bk_step_hwm[of b e] f64_le_not_nan by (simp add: hwm_number_def hwm_le_def)
  show "hwm_number b \<Longrightarrow> hwm_le b b" for b by (simp add: hwm_number_def hwm_le_def)
  show "hwm_le a b \<Longrightarrow> hwm_le b d \<Longrightarrow> hwm_le a d" for a b d unfolding hwm_le_def by (rule f64_le_trans)
  show "hwm_number b \<Longrightarrow> bk_op_ok e \<Longrightarrow> hwm_le b (bk_step e b)" for b e by (rule bk_step_hwm)
qed

text \<open>The counters: corrections apart, every operation keeps them in step.\<close>

fun bk_op_counted :: "bk_op \<Rightarrow> bool" where
  "bk_op_counted (OpCorrection i old_pnl new_pnl now s) = False"
| "bk_op_counted e = bk_op_ok e"

interpretation counts_machine: guarded_machine bk_step bk_op_counted counts_ok
proof
  fix b e assume c: "counts_ok b" "bk_op_counted e"
  show "counts_ok (bk_step e b)"
  proof (cases "\<exists>ep sz sp fee st. e = OpResult ep sz sp fee st")
    case True
    then show ?thesis using c(1) by (auto simp: counts_ok_def result_money)
  next
    case False
    moreover have "bk_op_ok e" "\<forall>i x y now s. e \<noteq> OpCorrection i x y now s" using c(2) by (cases e; simp)+
    ultimately show ?thesis using bk_step_same_money[of e b] c(1) by (simp add: counts_ok_def same_money_def)
  qed
qed

subsection \<open>The drawdown pause\<close>

text \<open>
  The pause zone: the balance and the drawdown allow trading in principle, and the drawdown has
  reached the pause threshold and not fallen below the recovery threshold.
\<close>

definition pause_zone :: "config \<Rightarrow> bankroll \<Rightarrow> bool" where
  "pause_zone c b \<longleftrightarrow> \<not> bk_current_balance b < min_balance_threshold c \<and>
     \<not> max_drawdown_pct c \<le> get_drawdown_pct b \<and> peak_dd_pause_pct c \<le> get_drawdown_pct b \<and>
     \<not> get_drawdown_pct b < peak_dd_pause_pct c - dd_pause_recovery_pct c"

lemma drawdown_same_money: "same_money b b' \<Longrightarrow> get_drawdown_pct b' = get_drawdown_pct b"
  by (simp add: get_drawdown_pct_def same_money_def)

lemma pause_zone_same_money: "same_money b b' \<Longrightarrow> pause_zone c b' = pause_zone c b"
  using drawdown_same_money[of b b'] by (simp add: pause_zone_def same_money_def)

lemma log_blocked_fields [simp]:
  "bk_peak_dd_pause_until (log_blocked now b) = bk_peak_dd_pause_until b"
  "bk_dd_pause_armed (log_blocked now b) = bk_dd_pause_armed b"
  by (simp_all add: log_blocked_def)

lemma can_trade_zone:
  assumes "pause_zone c b"
  shows "bk_can_trade c now b =
    (if bk_dd_pause_armed b
     then let b2 = (if bk_peak_dd_pause_until b = 0
            then b\<lparr>bk_peak_dd_pause_until := now + peak_dd_pause_ms c\<rparr> else b)
          in if now < bk_peak_dd_pause_until b2 then (False, log_blocked now b2)
             else (True, b2\<lparr>bk_peak_dd_pause_until := 0, bk_dd_pause_armed := False\<rparr>)
     else (True, b))"
  using assms by (simp add: pause_zone_def bk_can_trade_def Let_def f64_le_imp_not_less)

lemma can_trade_zone_closed: "pause_zone c b \<Longrightarrow> pause_zone c (snd (bk_can_trade c now b))"
  using pause_zone_same_money[OF can_trade_same_money] by blast

text \<open>Armed with a running pause: blocked until it ends, then let through once and disarmed.\<close>

lemma can_trade_paused:
  assumes z: "pause_zone c b" and a: "bk_dd_pause_armed b" "bk_peak_dd_pause_until b \<noteq> 0"
  shows "fst (bk_can_trade c now b) \<longleftrightarrow> bk_peak_dd_pause_until b \<le> now"
    and "now < bk_peak_dd_pause_until b \<Longrightarrow> bk_peak_dd_pause_until (snd (bk_can_trade c now b)) = bk_peak_dd_pause_until b
      \<and> bk_dd_pause_armed (snd (bk_can_trade c now b))"
    and "bk_peak_dd_pause_until b \<le> now \<Longrightarrow> \<not> bk_dd_pause_armed (snd (bk_can_trade c now b))"
  using a by (simp_all add: can_trade_zone[OF z] not_le not_less)

lemma can_trade_disarmed:
  assumes "pause_zone c b" "\<not> bk_dd_pause_armed b"
  shows "bk_can_trade c now b = (True, b)"
  using assms by (simp add: can_trade_zone)

text \<open>A run of permission checks at the given times, with the answers.\<close>

fun check_times :: "config \<Rightarrow> u64 list \<Rightarrow> bankroll \<Rightarrow> bool list \<times> bankroll" where
  "check_times c [] b = ([], b)"
| "check_times c (t # ts) b = (case bk_can_trade c t b of (r, b1) \<Rightarrow>
     (case check_times c ts b1 of (rs, b2) \<Rightarrow> (r # rs, b2)))"

lemma check_times_disarmed:
  "pause_zone c b \<Longrightarrow> \<not> bk_dd_pause_armed b \<Longrightarrow> fst (check_times c ts b) = map (\<lambda>_. True) ts"
  by (induction ts) (simp_all add: can_trade_disarmed case_prod_beta)

lemma check_times_paused:
  assumes "pause_zone c b" "bk_dd_pause_armed b" "bk_peak_dd_pause_until b = d" "d \<noteq> 0"
    and "sorted ts"
  shows "fst (check_times c ts b) = map (\<lambda>t. d \<le> t) ts"
  using assms
proof (induction ts arbitrary: b)
  case (Cons t ts)
  let ?b = "snd (bk_can_trade c t b)"
  have z: "pause_zone c ?b" by (rule can_trade_zone_closed[OF Cons.prems(1)])
  have d0: "bk_peak_dd_pause_until b \<noteq> 0" using Cons.prems(3,4) by simp
  note p = can_trade_paused[OF Cons.prems(1,2) d0, of t, unfolded Cons.prems(3)]
  have "fst (check_times c ts ?b) = map (\<lambda>t. d \<le> t) ts"
  proof (cases "d \<le> t")
    case True
    then have "fst (check_times c ts ?b) = map (\<lambda>_. True) ts" using p(3) check_times_disarmed[OF z] by simp
    moreover have "\<forall>x \<in> set ts. d \<le> x" using Cons.prems(5) True by auto
    ultimately show ?thesis by simp
  next
    case False
    then have "bk_dd_pause_armed ?b" "bk_peak_dd_pause_until ?b = d" using p(2) by (simp_all add: not_le)
    then show ?thesis using Cons.IH[OF z] Cons.prems(4,5) by simp
  qed
  then show ?case using p(1) by (simp add: case_prod_beta)
qed simp

text \<open>The first check in the zone starts the pause.\<close>

lemma check_times_first:
  assumes z: "pause_zone c b" and a: "bk_dd_pause_armed b" "bk_peak_dd_pause_until b = 0"
    and t0: "t0 < t0 + peak_dd_pause_ms c" and ts: "sorted ts"
  shows "fst (check_times c (t0 # ts) b) = False # map (\<lambda>t. t0 + peak_dd_pause_ms c \<le> t) ts"
proof -
  let ?b = "snd (bk_can_trade c t0 b)"
  have first: "bk_can_trade c t0 b = (False, log_blocked t0 (b\<lparr>bk_peak_dd_pause_until := t0 + peak_dd_pause_ms c\<rparr>))"
    using a t0 by (simp add: can_trade_zone[OF z] Let_def)
  have "fst (check_times c ts ?b) = map (\<lambda>t. t0 + peak_dd_pause_ms c \<le> t) ts"
  proof (rule check_times_paused[OF can_trade_zone_closed[OF z] _ _ _ ts])
    show "t0 + peak_dd_pause_ms c \<noteq> 0" using t0 by auto
  qed (simp_all add: first a)
  then show ?thesis by (simp add: first case_prod_beta)
qed

subsection \<open>Releases and transitions, bucket by bucket\<close>

lemma max_sub_self: "is_finite x \<Longrightarrow> \<not> 0 < f64_max (x - x) 0"
  using is_finite_sub_self[of x] f64_max_cases[of "x - x" 0] f64_less_finite[of 0 "x - x"] by fastforce

lemma release_family_effect:
  assumes ok: "ledger_ok b" and x: "0 < x" "x \<le> fam_get (bk_active_by_family b) f"
    and fin: "is_finite x"
  shows "fam_get (bk_active_by_family (release_reserved_for_family x f b)) g =
      (if g = f then f64_max (fam_get (bk_active_by_family b) f - x) 0 else fam_get (bk_active_by_family b) g)"
    and "bk_pending_by_family (release_reserved_for_family x f b) = bk_pending_by_family b"
    and "bk_pending (release_reserved_for_family x f b) = bk_pending b"
    and "bk_active (release_reserved_for_family x f b) = f64_max (bk_active b - x) 0"
proof -
  have m: "f64_min x (fam_get (bk_active_by_family b) f) = x"
    using x f64_le_not_nan[OF x(2)] f64_le_imp_not_less[OF x(2)] by (simp add: f64_min_def)
  have some: "bk_active_by_family b f \<noteq> None"
    using x f64_less_le_trans fam_get_pos_Some by blast
  note r = max_sub_self[OF fin]
  show "fam_get (bk_active_by_family (release_reserved_for_family x f b)) g =
      (if g = f then f64_max (fam_get (bk_active_by_family b) f - x) 0 else fam_get (bk_active_by_family b) g)"
    "bk_pending_by_family (release_reserved_for_family x f b) = bk_pending_by_family b"
    "bk_pending (release_reserved_for_family x f b) = bk_pending b"
    "bk_active (release_reserved_for_family x f b) = f64_max (bk_active b - x) 0"
    using x(1) some r
    by (simp_all add: release_reserved_for_family_def not_overridden[OF ok] consume_active_eq m fam_get_sub Let_def)
qed

lemma transition_effect:
  assumes ok: "ledger_ok b" and x: "0 < x" "x \<le> fam_get (bk_active_by_family b) f"
  shows "fam_get (bk_active_by_family (transition_family_reserve_to_pending x f b)) f =
      f64_max (fam_get (bk_active_by_family b) f - x) 0"
    and "fam_get (bk_pending_by_family (transition_family_reserve_to_pending x f b)) f =
      fam_get (bk_pending_by_family b) f + x"
    and "g \<noteq> f \<Longrightarrow> fam_get (bk_active_by_family (transition_family_reserve_to_pending x f b)) g = fam_get (bk_active_by_family b) g
      \<and> fam_get (bk_pending_by_family (transition_family_reserve_to_pending x f b)) g = fam_get (bk_pending_by_family b) g"
proof -
  have m: "f64_min x (fam_get (bk_active_by_family b) f) = x"
    using x f64_le_not_nan[OF x(2)] f64_le_imp_not_less[OF x(2)] by (simp add: f64_min_def)
  have some: "bk_active_by_family b f \<noteq> None"
    using x f64_less_le_trans fam_get_pos_Some by blast
  note eqs = transition_family_reserve_to_pending_def not_overridden[OF ok] consume_active_eq m fam_get_sub fam_get_add
  have np: "\<not> x \<le> 0" by (rule f64_less_imp_not_le[OF x(1)])
  show "fam_get (bk_active_by_family (transition_family_reserve_to_pending x f b)) f =
      f64_max (fam_get (bk_active_by_family b) f - x) 0"
    "fam_get (bk_pending_by_family (transition_family_reserve_to_pending x f b)) f = fam_get (bk_pending_by_family b) f + x"
    using x(1) np some by (simp_all add: eqs)
  show "g \<noteq> f \<Longrightarrow> fam_get (bk_active_by_family (transition_family_reserve_to_pending x f b)) g = fam_get (bk_active_by_family b) g
      \<and> fam_get (bk_pending_by_family (transition_family_reserve_to_pending x f b)) g = fam_get (bk_pending_by_family b) g"
    using x(1) np by (simp add: eqs)
qed

end
