(* ===== verification/OrderQueue.thy ===== *)
theory OrderQueue
  imports Executor BankrollMachine
begin

section \<open>Behaviour of the execution engine\<close>

text \<open>
  Case rules for the handlers of the execution engine and what they give: the reserve ledger survives every
  handler, a queued order fits the position limit and is unique in its market, every due order leaves the queue
  with exactly one outcome, and a fill respects the order's limit price and the quoted size.
\<close>

subsection \<open>Single submissions\<close>

lemma submit_single_cases:
  assumes r: "submit_single sig w c now1 now2 fid x = (r, x')"
  obtains (error) e where "r = Inl e" "w_engine x' = w_engine x" "w_bank x' = w_bank x"
  | (refused) sids reason where "r = Inr (SubmissionRejected sids reason)" "w_engine x' = w_engine x" "w_bank x' = w_bank x"
  | (unsized) sids reason t where "r = Inr (SubmissionRejected sids reason)" "w_engine x' = w_engine x"
      "reserve_capital_with_reserve_price (signal_ask sig) (single_order_limit_price sig c) (sig_confidence sig)
         (sig_strategy sig) (family_for_signal sig) c now2 (w_bank x) = (t, w_bank x')" "t \<le> 0"
  | (undersized) sids reason t b1 where "r = Inr (SubmissionRejected sids reason)" "w_engine x' = w_engine x"
      "reserve_capital_with_reserve_price (signal_ask sig) (single_order_limit_price sig c) (sig_confidence sig)
         (sig_strategy sig) (family_for_signal sig) c now2 (w_bank x) = (t, b1)" "\<not> t \<le> 0"
      "w_bank x' = release_reserved_for_strategy (t * single_order_limit_price sig c) (sig_strategy sig) b1"
  | (queued) sid s1 s2 t po where "r = Inr (Queued [sid] [queued_order_intent po])"
      "log_signal_with_context sig (Some (mw_market_id w)) (Some fid) (Some (sig_timestamp sig)) (Some (arrival_of sig c)) (w_db x) = (Inr sid, s1)"
      "precheck_single_submission sig w c now1 (w_engine x) s1 = (Inr None, s2)"
      "reserve_capital_with_reserve_price (signal_ask sig) (single_order_limit_price sig c) (sig_confidence sig)
         (sig_strategy sig) (family_for_signal sig) c now2 (w_bank x) = (t, w_bank x')" "\<not> t \<le> 0"
      "submission_size_rejection_reason t (signal_ask sig) (unwrap_or (mw_order_min_size w) 0) (min_bet_usd c) = None"
      "po = single_order sig sid w (signal_ask sig) (single_order_limit_price sig c) t c fid"
      "w_engine x' = push_pending c [po] (record_submitted_order po (w_engine x))"
proof -
  obtain l s1 where l: "log_signal_with_context sig (Some (mw_market_id w)) (Some fid) (Some (sig_timestamp sig))
      (Some (arrival_of sig c)) (w_db x) = (l, s1)" by fastforce
  show thesis
  proof (cases l)
    case (Inl e)
    then show thesis using r l by (intro error[of e]) (auto simp: submit_single_def)
  next
    case (Inr sid)
    obtain p s2 where p: "precheck_single_submission sig w c now1 (w_engine x) s1 = (p, s2)" by fastforce
    consider e where "p = Inl e" | reason where "p = Inr (Some reason)" | "p = Inr None"
      by (cases p; simp) (metis not_None_eq)
    then show thesis
    proof cases
      case (1 e)
      then show thesis using r l p Inr by (intro error[of e]) (auto simp: submit_single_def)
    next
      case (2 reason)
      then show thesis using r l p Inr
        by (intro refused) (auto simp: submit_single_def reject_single_submission_def)
    next
      case 3
      obtain t b1 where t: "reserve_capital_with_reserve_price (signal_ask sig) (single_order_limit_price sig c) (sig_confidence sig)
         (sig_strategy sig) (family_for_signal sig) c now2 (w_bank x) = (t, b1)" by fastforce
      note eqs = submit_single_def Let_def l p Inr 3 t
      show thesis
      proof (cases "t \<le> 0")
        case True
        then show thesis using r t
          by (intro unsized[of "[sid]" "''strategy_sleeve_exhausted''" t]) (auto simp: eqs reject_single_submission_def)
      next
        case False
        let ?q = "submission_size_rejection_reason t (signal_ask sig) (unwrap_or (mw_order_min_size w) 0) (min_bet_usd c)"
        show thesis
        proof (cases ?q)
          case (Some reason)
          then show thesis using r t False
            by (intro undersized[of "[sid]" reason t b1]) (auto simp: eqs reject_single_submission_def)
        next
          case None
          let ?po = "single_order sig sid w (signal_ask sig) (single_order_limit_price sig c) t c fid"
          have x': "r = Inr (Queued [sid] [queued_order_intent ?po])" "w_bank x' = b1"
            "w_engine x' = push_pending c [?po] (record_submitted_order ?po (w_engine x))"
            using r False None by (auto simp: eqs queue_single_submission_def)
          show thesis
            by (rule queued[of sid ?po s1 s2 t]) (use x' l p Inr 3 t False None in simp_all)
        qed
      qed
    qed
  qed
qed

lemma submit_single_ledger:
  assumes "ledger_ok (w_bank x)" "\<not> is_nan (signal_ask sig)" "\<not> is_nan (single_order_limit_price sig c)"
    and r: "submit_single sig w c now1 now2 fid x = (r, x')"
  shows "ledger_ok (w_bank x')"
  using r
proof (cases rule: submit_single_cases)
  case (unsized sids reason t)
  then show ?thesis using reserve_ledger[OF assms(1-3)] by (metis snd_conv)
next
  case (undersized sids reason t b1)
  then show ?thesis using reserve_ledger[OF assms(1-3)] release_family_ledger
    by (metis snd_conv release_reserved_for_strategy_def)
next
  case (queued sid s1 s2 t po)
  then show ?thesis using reserve_ledger[OF assms(1-3)] by (metis snd_conv)
qed (use assms(1) in simp_all)

subsection \<open>Queue checks\<close>

lemma count_relevant_Inr:
  assumes "count_queue_relevant_open_trades c now s = (Inr n, s1)"
  shows "same_tables s s1"
    and "n = (if counts_as_open_position (pending_settlement_policy_unchecked c)
      then of_nat (length (open_rows s)) else of_nat (length (filter (\<lambda>(r, e). now < e) (unresolved_rows s))))"
proof -
  show "same_tables s s1"
    using assms read_only_ops(2)[of s] read_only_ops(3)[of s now]
    by (auto simp: count_queue_relevant_open_trades_def split: if_splits)
  show "n = (if counts_as_open_position (pending_settlement_policy_unchecked c)
      then of_nat (length (open_rows s)) else of_nat (length (filter (\<lambda>(r, e). now < e) (unresolved_rows s))))"
    using assms unfolding count_queue_relevant_open_trades_def count_open_trades_def count_active_open_trades_def
    by (auto simp: sql_call_def open_rows_def unresolved_rows_def market_end_time_def split: if_splits list.splits)
qed

lemma can_queue_order_None:
  assumes "can_queue_order sig w is_batch required c now e s = (Inr None, s2)"
  obtains n s1 existing where "count_queue_relevant_open_trades c now s = (Inr n, s1)"
    "slots_needed n e required \<le> max_open_positions c"
    "get_open_trades_for_market (mw_market_id w) s1 = (Inr existing, s2)"
    "\<not> duplicate_open existing sig is_batch"
    "\<not> duplicate_pending (en_pending_orders e) (mw_market_id w) sig is_batch"
  using assms unfolding can_queue_order_def
  by (auto split: prod.splits sum.splits if_splits simp: not_less)

lemma can_queue_spread_None:
  assumes "can_queue_spread sigs w c now e s = (Inr None, s2)"
  obtains n s1 existing where "count_queue_relevant_open_trades c now s = (Inr n, s1)"
    "slots_needed n e 2 \<le> max_open_positions c"
    "get_open_trades_for_market (mw_market_id w) s1 = (Inr existing, s2)"
    "\<forall>sig \<in> set sigs. \<not> duplicate_open existing sig True"
    "\<forall>sig \<in> set sigs. \<not> duplicate_pending (en_pending_orders e) (mw_market_id w) sig True"
  using assms unfolding can_queue_spread_def
  by (auto split: prod.splits sum.splits if_splits simp: not_less list_ex_iff)

lemma slots_bound:
  assumes "slots_needed (of_nat k) e n \<le> m" "k + length (en_pending_orders e) + unat n < 2 ^ 64"
  shows "k + length (en_pending_orders e) + unat n \<le> unat m"
proof -
  have "slots_needed (of_nat k) e n = of_nat (k + length (en_pending_orders e) + unat n)"
    by (simp add: slots_needed_def)
  then have "unat (slots_needed (of_nat k) e n) = k + length (en_pending_orders e) + unat n"
    using assms(2) by (simp only: unat_of_nat) simp
  with assms(1) show ?thesis by (simp add: word_le_nat_alt)
qed

subsection \<open>Spread submissions\<close>

lemma spread_signal_pair_Some:
  assumes "spread_signal_pair sigs sids = Some (u, d, i, j)"
  shows "u \<in> set sigs" "d \<in> set sigs" "sig_direction u = Up" "sig_direction d = Down" "i \<in> set sids" "j \<in> set sids"
  using assms position_Some[of "\<lambda>x. sig_direction x = Up" sigs] position_Some[of "\<lambda>x. sig_direction x = Down" sigs]
  by (auto simp: spread_signal_pair_def split: option.splits if_splits)

lemma submit_spread_cases:
  assumes r: "submit_spread parse sigs w c now0 now1 now2 fid x = (r, x')"
  obtains (error) e where "r = Inl e" "w_engine x' = w_engine x" "w_bank x' = w_bank x"
  | (refused) sids reason where "r = Inr (SubmissionRejected sids reason)" "w_engine x' = w_engine x" "w_bank x' = w_bank x"
  | (unpaired) sids where "r = Inr (Queued sids [])" "w_engine x' = w_engine x" "w_bank x' = w_bank x"
  | (unsized) sids reason u d t1 t2 where "r = Inr (SubmissionRejected sids reason)" "w_engine x' = w_engine x"
      "u \<in> set sigs" "d \<in> set sigs"
      "reserve_spread_capital (sig_up_ask u) (sig_down_ask d) (f64_max (sig_confidence u) (sig_confidence d)) c now2
         (w_bank x) = ((t1, t2), w_bank x')"
  | (undersized) sids reason u d t1 t2 b1 where "r = Inr (SubmissionRejected sids reason)" "w_engine x' = w_engine x"
      "u \<in> set sigs" "d \<in> set sigs"
      "reserve_spread_capital (sig_up_ask u) (sig_down_ask d) (f64_max (sig_confidence u) (sig_confidence d)) c now2
         (w_bank x) = ((t1, t2), b1)"
      "w_bank x' = release_reserved_for_strategy (t1 * sig_up_ask u + t2 * sig_down_ask d) (sig_strategy u) b1"
  | (queued) sids orders s1 s2 u d i j t1 t2 where "r = Inr (Queued sids orders)"
      "log_spread_signals sigs w (spread_arrival_ts sigs c now0) fid (w_db x) = (Inr sids, s1)"
      "can_queue_spread sigs w c now1 (w_engine x) s1 = (Inr None, s2)"
      "spread_signal_pair sigs sids = Some (u, d, i, j)"
      "\<not> spread_net_edge (sig_up_ask u) (sig_down_ask d) 1 (fee_rate (resolve_fee_params parse c (Some w) (mw_end_time w)))
         (exponent (resolve_fee_params parse c (Some w) (mw_end_time w))) \<le> 0"
      "reserve_spread_capital (sig_up_ask u) (sig_down_ask d) (f64_max (sig_confidence u) (sig_confidence d)) c now2
         (w_bank x) = ((t1, t2), w_bank x')" "\<not> t1 \<le> 0" "\<not> t2 \<le> 0"
      "queue_spread_submission_orders u d i j w (spread_arrival_ts sigs c now0) t1 t2 fid c (w_engine x) = (orders, w_engine x')"
proof -
  let ?arr = "spread_arrival_ts sigs c now0"
  obtain l s1 where l: "log_spread_signals sigs w ?arr fid (w_db x) = (l, s1)" by fastforce
  show thesis
  proof (cases l)
    case (Inl e)
    then show thesis using r l by (intro error[of e]) (auto simp: submit_spread_def)
  next
    case (Inr sids)
    obtain p s2 where p: "can_queue_spread sigs w c now1 (w_engine x) s1 = (p, s2)" by fastforce
    note eq1 = submit_spread_def Let_def l p Inr
    consider e where "p = Inl e" | reason where "p = Inr (Some reason)"
      | "p = Inr None" "spread_signal_pair sigs sids = None"
      | u d i j where "p = Inr None" "spread_signal_pair sigs sids = Some (u, d, i, j)"
      by (cases p; simp) (metis not_None_eq prod_cases4)
    then show thesis
    proof cases
      case (1 e)
      then show thesis using r by (intro error[of e]) (auto simp: eq1)
    next
      case (2 reason)
      then show thesis using r by (intro refused) (auto simp: eq1 reject_spread_submission_def)
    next
      case 3
      then show thesis using r by (intro unpaired[of sids]) (auto simp: eq1)
    next
      case (4 u d i j)
      note ud = spread_signal_pair_Some(1,2)[OF 4(2)]
      let ?fp = "resolve_fee_params parse c (Some w) (mw_end_time w)"
      let ?edge = "spread_net_edge (sig_up_ask u) (sig_down_ask d) 1 (fee_rate ?fp) (exponent ?fp)"
      obtain t1 t2 b1 where t: "reserve_spread_capital (sig_up_ask u) (sig_down_ask d)
          (f64_max (sig_confidence u) (sig_confidence d)) c now2 (w_bank x) = ((t1, t2), b1)" by (metis surj_pair)
      note eq2 = eq1 4 t
      let ?q = "spread_submission_rejection_reason t1 t2 (sig_up_ask u) (sig_down_ask d)
          (unwrap_or (mw_order_min_size w) 0) (min_bet_usd c)"
      obtain orders e1 where o: "queue_spread_submission_orders u d i j w ?arr t1 t2 fid c (w_engine x) = (orders, e1)"
        by fastforce
      consider "?edge \<le> 0" | "\<not> ?edge \<le> 0" "t1 \<le> 0 \<or> t2 \<le> 0"
        | reason where "\<not> ?edge \<le> 0" "\<not> (t1 \<le> 0 \<or> t2 \<le> 0)" "?q = Some reason"
        | "\<not> ?edge \<le> 0" "\<not> (t1 \<le> 0 \<or> t2 \<le> 0)" "?q = None" by (metis not_None_eq)
      then show thesis
      proof cases
        case 1
        then show thesis using r by (intro refused) (auto simp: eq2 reject_spread_submission_def)
      next
        case 2
        then show thesis using r ud t
          by (intro unsized[of sids "''strategy_sleeve_exhausted''" u d t1 t2]) (auto simp: eq2 reject_spread_submission_def)
      next
        case (3 reason)
        then show thesis using r ud t
          by (intro undersized[of sids reason u d t1 t2 b1]) (auto simp: eq2 reject_spread_submission_def)
      next
        case 4
        have "r = Inr (Queued sids orders)" "w_bank x' = b1" "w_engine x' = e1"
          using r 4 by (auto simp: eq2 o)
        then show thesis
          by (intro queued[of sids orders s1 s2 u d i j t1 t2]) (use l p Inr eq2(6,7) 4 t o in simp_all)
      qed
    qed
  qed
qed

lemma submit_spread_ledger:
  assumes "ledger_ok (w_bank x)" "\<forall>sig \<in> set sigs. \<not> is_nan (sig_up_ask sig) \<and> \<not> is_nan (sig_down_ask sig)"
    and r: "submit_spread parse sigs w c now0 now1 now2 fid x = (r, x')"
  shows "ledger_ok (w_bank x')"
proof -
  have sp: "ledger_ok b1" if "u \<in> set sigs" "d \<in> set sigs"
    "reserve_spread_capital (sig_up_ask u) (sig_down_ask d) conf c now2 (w_bank x) = (t, b1)" for u d conf t b1
    using spread_ledger[OF assms(1), of "sig_up_ask u" "sig_down_ask d" conf SpreadCapture c now2] that assms(2)
    by (simp add: reserve_spread_capital_def)
  from r show ?thesis
  proof (cases rule: submit_spread_cases)
    case (unsized sids reason u d t1 t2)
    then show ?thesis using sp by blast
  next
    case (undersized sids reason u d t1 t2 b1)
    then show ?thesis using sp release_family_ledger by (simp add: release_reserved_for_strategy_def)
  next
    case (queued sids orders s1 s2 u d i j t1 t2)
    then show ?thesis using sp spread_signal_pair_Some[OF queued(4)] by blast
  qed (use assms(1) in simp_all)
qed

subsection \<open>One due order\<close>

text \<open>A book that may fill an order: quoted, fresh, at or below the limit, with size, on the tick grid.\<close>

definition fillable :: "due_context \<Rightarrow> pending_order \<Rightarrow> market_window \<Rightarrow> top_of_book \<Rightarrow> bool" where
  "fillable dc po window book \<longleftrightarrow> dc_window dc = Some window \<and> mw_market_id window = po_market_id po \<and>
     side_book (dc_book dc) (po_side po) = Some book \<and>
     book_fill_rejection_reason book (dc_now dc) (po_limit_price po) (max_book_staleness_ms (dc_config dc)) = None \<and>
     \<not> fill_size_rejected (f64_min (po_requested_size po) (tob_ask_size book)) (tob_best_ask book)
         (unwrap_or (mw_order_min_size window) 0) (min_bet_usd (dc_config dc))"

lemma process_due_order_cases:
  obtains (deferred) "dc_now dc < po_arrival_ts po" "process_due_order dc po x = (Inr (Deferred po), x)"
  | (missed) m where "po_arrival_ts po \<le> dc_now dc" "process_due_order dc po x = reject_order dc po m x"
  | (filled) window book where "po_arrival_ts po \<le> dc_now dc" "fillable dc po window book"
      "process_due_order dc po x = fill_due_order dc po book
         (Some (saturating_sub (dc_now dc) (effective_book_timestamp book))) (f64_min (po_requested_size po) (tob_ask_size book)) x"
proof (cases "dc_now dc < po_arrival_ts po")
  case True
  then show thesis using deferred by (simp add: process_due_order_def)
next
  case False
  then have due: "po_arrival_ts po \<le> dc_now dc" by simp
  note step = process_due_order_def Let_def not_less[THEN iffD2, OF due]
  consider (missing) "dc_window dc = None"
    | (other) window where "dc_window dc = Some window" "mw_market_id window \<noteq> po_market_id po"
    | (unquoted) window where "dc_window dc = Some window" "mw_market_id window = po_market_id po"
        "side_book (dc_book dc) (po_side po) = None"
    | (quoted) window book where "dc_window dc = Some window" "mw_market_id window = po_market_id po"
        "side_book (dc_book dc) (po_side po) = Some book"
    by (cases "dc_window dc"; cases "side_book (dc_book dc) (po_side po)") auto
  then show thesis
  proof cases
    case missing
    then show thesis by (intro missed[OF due]) (simp add: step)
  next
    case other
    then show thesis by (intro missed[OF due]) (simp add: step)
  next
    case unquoted
    then show thesis by (intro missed[OF due]) (simp add: step)
  next
    case (quoted window book)
    let ?reason = "book_fill_rejection_reason book (dc_now dc) (po_limit_price po) (max_book_staleness_ms (dc_config dc))"
    let ?tick = "unwrap_or (mw_order_price_min_tick_size window) 0"
    let ?off = "0 < ?tick \<and> (\<not> price_is_tick_aligned (po_limit_price po) ?tick
       \<or> \<not> price_is_tick_aligned (tob_best_ask book) ?tick)"
    let ?q = "f64_min (po_requested_size po) (tob_ask_size book)"
    let ?small = "fill_size_rejected ?q (tob_best_ask book) (unwrap_or (mw_order_min_size window) 0) (min_bet_usd (dc_config dc))"
    consider reason where "?reason = Some reason" | "?reason = None" "?off" | "?reason = None" "\<not> ?off" "?small"
      | "?reason = None" "\<not> ?off" "\<not> ?small" by fastforce
    then show thesis
    proof cases
      case 3
      then show thesis using quoted
        by (intro missed[OF due, of "miss_on_book ''fill_below_min_on_arrival'' book
          (Some (saturating_sub (dc_now dc) (effective_book_timestamp book)))"]) (auto simp: step)
    next
      case 4
      then show thesis using quoted by (intro filled[OF due]) (auto simp: step fillable_def)
    qed (intro missed[OF due]; simp add: step quoted)+
  qed
qed

lemma reject_order_result:
  assumes "reject_order dc po m x = (r, x')"
  obtains (error) e where "r = Inl e"
  | (missed) g out where "r = Inr (DispMissed g out)" "out_signal_id out = po_signal_id po" "out_disposition out = Missed"
  using assms by (auto simp: reject_order_def Let_def split: prod.splits sum.splits)

lemma reject_order_frame:
  assumes "reject_order dc po m x = (r, x')"
  shows "en_pending_orders (w_engine x') = en_pending_orders (w_engine x)"
    "en_recent_outcomes (w_engine x') = en_recent_outcomes (w_engine x)"
    "w_bank x' = release_reserved_for_strategy (po_reserved_cost po) (po_strategy po) (w_bank x)"
  using assms by (auto simp: reject_order_def Let_def split: prod.splits sum.splits)

text \<open>What a fill promises about the trade it opens.\<close>

definition fill_ok :: "due_context \<Rightarrow> pending_order \<Rightarrow> trade \<Rightarrow> bool" where
  "fill_ok dc po t \<longleftrightarrow> (\<exists>window book i. fillable dc po window book \<and>
     t = (build_trade po (tob_best_ask book) (f64_min (po_requested_size po) (tob_ask_size book)) (dc_now dc)
       (execution_mode_as_str (execution_mode (dc_config dc))))\<lparr>tr_id := Some i\<rparr>) \<and>
     \<not> is_nan (tr_entry_price t) \<and> \<not> is_nan (tr_size t)"

text \<open>The NOT NULL columns refuse a price or a size that is not a number.\<close>

lemma open_trade_not_nan:
  "open_trade t s = (Inr i, s') \<Longrightarrow> \<not> is_nan (tr_entry_price t) \<and> \<not> is_nan (tr_size t)"
  by (auto simp: open_trade_def open_trade_with_id_def sql_call_def trade_insert_error_def Let_def
      split: list.splits if_splits option.splits)

lemma fill_due_order_result:
  assumes "fill_due_order dc po book fresh q x = (r, x')"
  obtains (error) e where "r = Inl e"
  | (filled) i out where "r = Inr (DispFilled ((build_trade po (tob_best_ask book) q (dc_now dc)
        (execution_mode_as_str (execution_mode (dc_config dc))))\<lparr>tr_id := Some i\<rparr>) (po_execution_group_id po) out)"
      "out_signal_id out = po_signal_id po" "out_disposition out = Filled"
      "\<not> is_nan (tob_best_ask book)" "\<not> is_nan q"
  using assms
  by (auto simp: fill_due_order_def Let_def build_trade_def split: prod.splits sum.splits dest!: open_trade_not_nan)

lemma fill_due_order_frame:
  assumes "fill_due_order dc po book fresh q x = (r, x')"
  shows "en_pending_orders (w_engine x') = en_pending_orders (w_engine x)"
    "en_recent_outcomes (w_engine x') = en_recent_outcomes (w_engine x)"
    "w_bank x' = (if q * tob_best_ask book < po_reserved_cost po
       then release_reserved_for_strategy (po_reserved_cost po - q * tob_best_ask book) (po_strategy po) (w_bank x)
       else w_bank x)"
  using assms by (auto simp: fill_due_order_def Let_def record_fill_def split: prod.splits sum.splits)

lemma process_due_order_frame:
  assumes "process_due_order dc po x = (r, x')"
  shows "en_pending_orders (w_engine x') = en_pending_orders (w_engine x)"
    "en_recent_outcomes (w_engine x') = en_recent_outcomes (w_engine x)"
    "ledger_ok (w_bank x) \<Longrightarrow> ledger_ok (w_bank x')"
proof -
  have l: "ledger_ok b \<Longrightarrow> ledger_ok (release_reserved_for_strategy y st b)" for b y st
    by (simp add: release_reserved_for_strategy_def release_family_ledger)
  have "en_pending_orders (w_engine x') = en_pending_orders (w_engine x) \<and>
    en_recent_outcomes (w_engine x') = en_recent_outcomes (w_engine x) \<and>
    (ledger_ok (w_bank x) \<longrightarrow> ledger_ok (w_bank x'))"
  proof (cases rule: process_due_order_cases[of dc po x])
    case deferred
    then show ?thesis using assms by simp
  next
    case (missed m)
    then show ?thesis using assms reject_order_frame[of dc po m x r x'] l by simp
  next
    case (filled window book)
    note f = fill_due_order_frame[OF filled(3)[symmetric, unfolded assms]]
    show ?thesis using f(1,2) l by (simp add: f(3))
  qed
  then show "en_pending_orders (w_engine x') = en_pending_orders (w_engine x)"
    "en_recent_outcomes (w_engine x') = en_recent_outcomes (w_engine x)"
    "ledger_ok (w_bank x) \<Longrightarrow> ledger_ok (w_bank x')" by blast+
qed

lemma process_due_order_result:
  assumes "process_due_order dc po x = (r, x')"
  obtains (deferred) "dc_now dc < po_arrival_ts po" "r = Inr (Deferred po)" "x' = x"
  | (error) e where "po_arrival_ts po \<le> dc_now dc" "r = Inl e"
  | (missed) g out where "po_arrival_ts po \<le> dc_now dc" "r = Inr (DispMissed g out)"
      "out_signal_id out = po_signal_id po" "out_disposition out = Missed"
  | (filled) t g out where "po_arrival_ts po \<le> dc_now dc" "r = Inr (DispFilled t g out)" "fill_ok dc po t"
      "out_signal_id out = po_signal_id po" "out_disposition out = Filled"
proof -
  show thesis
  proof (cases rule: process_due_order_cases[of dc po x])
    case deferred
    then show thesis using that(1) assms by simp
  next
    case (missed m)
    then have "reject_order dc po m x = (r, x')" using assms by simp
    then show thesis by (cases rule: reject_order_result) (use that(2,3) missed(1) in blast)+
  next
    case (filled window book)
    from filled(3)[symmetric, unfolded assms] show thesis
      by (cases rule: fill_due_order_result) (use that(2,4) filled(1,2) in \<open>auto simp: fill_ok_def build_trade_def\<close>)
  qed
qed

subsection \<open>The loop over the due orders\<close>

definition due :: "due_context \<Rightarrow> pending_order \<Rightarrow> bool" where
  "due dc po \<longleftrightarrow> po_arrival_ts po \<le> dc_now dc"

text \<open>A completed pass: the queue keeps the orders that are not due, and every due order has one outcome, in order.\<close>

definition pass_ok :: "due_context \<Rightarrow> pending_order list \<Rightarrow> processed_outcome list \<Rightarrow> trade list \<Rightarrow> bool" where
  "pass_ok dc pos outs ts \<longleftrightarrow> map out_signal_id outs = map po_signal_id (filter (due dc) pos) \<and>
     length ts = length (filter (\<lambda>out. out_disposition out = Filled) outs) \<and>
     (\<forall>t \<in> set ts. \<exists>po \<in> set pos. due dc po \<and> fill_ok dc po t)"

lemma pass_ok_Nil: "pass_ok dc [] [] []"
  by (simp add: pass_ok_def)

lemma pass_ok_deferred: "pass_ok dc pos outs ts \<Longrightarrow> \<not> due dc po \<Longrightarrow> pass_ok dc (pos @ [po]) outs ts"
  by (fastforce simp: pass_ok_def)

lemma pass_ok_missed:
  "pass_ok dc pos outs ts \<Longrightarrow> due dc po \<Longrightarrow> out_signal_id out = po_signal_id po \<Longrightarrow> out_disposition out = Missed \<Longrightarrow>
    pass_ok dc (pos @ [po]) (outs @ [out]) ts"
  by (fastforce simp: pass_ok_def)

lemma pass_ok_filled:
  "pass_ok dc pos outs ts \<Longrightarrow> due dc po \<Longrightarrow> out_signal_id out = po_signal_id po \<Longrightarrow> out_disposition out = Filled \<Longrightarrow>
    fill_ok dc po t \<Longrightarrow> pass_ok dc (pos @ [po]) (outs @ [out]) (ts @ [t])"
  by (fastforce simp: pass_ok_def)

lemma due_loop_ok:
  assumes "due_loop dc rest kept opened gs x = (Inr ts, x')"
    and "pass_ok dc seen outs opened" "kept = filter (\<lambda>po. \<not> due dc po) seen"
    and "en_recent_outcomes (w_engine x) = base @ outs"
  shows "en_pending_orders (w_engine x') = filter (\<lambda>po. \<not> due dc po) (seen @ rest) \<and>
    (\<exists>outs'. en_recent_outcomes (w_engine x') = base @ outs' \<and> pass_ok dc (seen @ rest) outs' ts)"
  using assms
proof (induction rest arbitrary: kept opened gs x seen outs)
  case (Cons po rest)
  obtain r x1 where p: "process_due_order dc po x = (r, x1)" by fastforce
  note rec = process_due_order_frame(2)[OF p]
  have step: "seen @ po # rest = (seen @ [po]) @ rest" by simp
  from p show ?case
  proof (cases rule: process_due_order_result)
    case deferred
    have nd: "\<not> due dc po" using deferred(1) by (simp add: due_def not_le)
    show ?thesis unfolding step
      by (rule Cons.IH[OF _ pass_ok_deferred[OF Cons.prems(2) nd] _ Cons.prems(4)])
        (use Cons.prems(1,3) p deferred nd in simp_all)
  next
    case (error e)
    then show ?thesis using Cons.prems(1) p by simp
  next
    case (missed g out)
    have d: "due dc po" using missed(1) by (simp add: due_def)
    note loop = Cons.prems(1)[unfolded due_loop.simps p missed(2) Let_def, simplified]
    show ?thesis unfolding step
      by (rule Cons.IH[OF loop pass_ok_missed[OF Cons.prems(2) d missed(3,4)]])
        (use Cons.prems(3,4) d rec in simp_all)
  next
    case (filled t g out)
    have d: "due dc po" using filled(1) by (simp add: due_def)
    note loop = Cons.prems(1)[unfolded due_loop.simps p filled(2) Let_def, simplified]
    show ?thesis unfolding step
      by (rule Cons.IH[OF loop pass_ok_filled[OF Cons.prems(2) d filled(4,5,3)]])
        (use Cons.prems(3,4) d rec in simp_all)
  qed
qed auto

text \<open>A pass cut short by a database error: the order at fault is the only one without an outcome that leaves the queue.\<close>

lemma due_loop_error:
  assumes "due_loop dc rest kept opened gs x = (Inl e, x')"
    and "pass_ok dc seen outs opened" "kept = filter (\<lambda>po. \<not> due dc po) seen"
    and "en_recent_outcomes (w_engine x) = base @ outs"
  shows "\<exists>pre po post outs' ts. seen @ rest = pre @ po # post \<and> due dc po \<and>
    en_pending_orders (w_engine x') = filter (\<lambda>po. \<not> due dc po) pre @ post \<and>
    en_recent_outcomes (w_engine x') = base @ outs' \<and> pass_ok dc pre outs' ts"
  using assms
proof (induction rest arbitrary: kept opened gs x seen outs)
  case (Cons po rest)
  obtain r x1 where p: "process_due_order dc po x = (r, x1)" by fastforce
  note rec = process_due_order_frame(2)[OF p]
  have step: "seen @ po # rest = (seen @ [po]) @ rest" by simp
  from p show ?case
  proof (cases rule: process_due_order_result)
    case deferred
    have nd: "\<not> due dc po" using deferred(1) by (simp add: due_def not_le)
    show ?thesis unfolding step
      by (rule Cons.IH[OF _ pass_ok_deferred[OF Cons.prems(2) nd] _ Cons.prems(4)])
        (use Cons.prems(1,3) p deferred nd in simp_all)
  next
    case (error e')
    then show ?thesis using Cons.prems p rec
      by (intro exI[of _ seen] exI[of _ po] exI[of _ rest] exI[of _ outs] exI[of _ opened]) (auto simp: due_def)
  next
    case (missed g out)
    have d: "due dc po" using missed(1) by (simp add: due_def)
    note loop = Cons.prems(1)[unfolded due_loop.simps p missed(2) Let_def, simplified]
    show ?thesis unfolding step
      by (rule Cons.IH[OF loop pass_ok_missed[OF Cons.prems(2) d missed(3,4)]])
        (use Cons.prems(3,4) d rec in simp_all)
  next
    case (filled t g out)
    have d: "due dc po" using filled(1) by (simp add: due_def)
    note loop = Cons.prems(1)[unfolded due_loop.simps p filled(2) Let_def, simplified]
    show ?thesis unfolding step
      by (rule Cons.IH[OF loop pass_ok_filled[OF Cons.prems(2) d filled(4,5,3)]])
        (use Cons.prems(3,4) d rec in simp_all)
  qed
qed simp

lemma due_loop_ledger:
  "ledger_ok (w_bank x) \<Longrightarrow> due_loop dc rest kept opened gs x = (r, x') \<Longrightarrow> ledger_ok (w_bank x')"
proof (induction rest arbitrary: kept opened gs x)
  case (Cons po rest)
  obtain q x1 where p: "process_due_order dc po x = (q, x1)" by fastforce
  have ok: "ledger_ok (w_bank x1)" by (rule process_due_order_frame(3)[OF p Cons.prems(1)])
  from p show ?case
  proof (cases rule: process_due_order_result)
    case deferred
    show ?thesis by (rule Cons.IH[OF ok]) (use Cons.prems(2) p deferred in simp)
  next
    case (error e)
    then show ?thesis using Cons.prems(2) p ok by auto
  next
    case (missed g out)
    show ?thesis by (rule Cons.IH[OF _ Cons.prems(2)[unfolded due_loop.simps p missed(2) Let_def, simplified]]) (simp add: ok)
  next
    case (filled t g out)
    show ?thesis by (rule Cons.IH[OF _ Cons.prems(2)[unfolded due_loop.simps p filled(2) Let_def, simplified]]) (simp add: ok)
  qed
qed auto

end
