(* ===== verification/EngineMachine.thy ===== *)
theory EngineMachine
  imports OrderQueue
begin

section \<open>Histories of the execution engine\<close>

text \<open>
  The public methods of \<^verbatim>\<open>ExecutionEngine\<close> as the steps of one machine on the world of engine, store and
  bankroll. Two invariants hold along every history, database errors included: the reserve ledger of the
  bankroll, and the uniqueness of a queued order's market, strategy and side.
\<close>

datatype en_op =
    SubmitSingle signal market_window config u64 u64 ReplayFidelity
  | SubmitSpread "string \<Rightarrow> fee_schedule option" "signal list" market_window config u64 u64 u64 ReplayFidelity
  | ProcessDue due_context
  | TakeOutcomes
  | NoteFidelity ReplayFidelity

fun en_step :: "en_op \<Rightarrow> world \<Rightarrow> world" where
  "en_step (SubmitSingle sig w c now1 now2 fid) x = snd (submit_single sig w c now1 now2 fid x)"
| "en_step (SubmitSpread parse sigs w c now0 now1 now2 fid) x = snd (submit_spread parse sigs w c now0 now1 now2 fid x)"
| "en_step (ProcessDue dc) x = snd (process_due_orders dc x)"
| "en_step TakeOutcomes x = x\<lparr>w_engine := snd (take_recent_outcomes (w_engine x))\<rparr>"
| "en_step (NoteFidelity fid) x = x\<lparr>w_engine := note_replay_fidelity fid (w_engine x)\<rparr>"

text \<open>The quotes of a submitted signal are numbers.\<close>

fun en_op_ok :: "en_op \<Rightarrow> bool" where
  "en_op_ok (SubmitSingle sig w c now1 now2 fid) \<longleftrightarrow>
     \<not> is_nan (signal_ask sig) \<and> \<not> is_nan (single_order_limit_price sig c)"
| "en_op_ok (SubmitSpread parse sigs w c now0 now1 now2 fid) \<longleftrightarrow>
     list_all (\<lambda>sig. \<not> is_nan (sig_up_ask sig) \<and> \<not> is_nan (sig_down_ask sig)) sigs"
| "en_op_ok _ \<longleftrightarrow> True"

definition order_key :: "pending_order \<Rightarrow> string \<times> string \<times> SignalDirection" where
  "order_key po = (po_market_id po, po_strategy po, po_side po)"

definition queue_distinct :: "world \<Rightarrow> bool" where
  "queue_distinct x \<longleftrightarrow> distinct (map order_key (en_pending_orders (w_engine x)))"

subsection \<open>What a submission queues\<close>

lemma record_submitted_pending [simp]:
  "en_pending_orders (record_submitted_order po e) = en_pending_orders e"
  by (simp add: record_submitted_order_def Let_def)

lemma push_pending_queue:
  "en_pending_orders (push_pending c pos e) = en_pending_orders e @ (if execution_mode c = LiveTrading then [] else pos)"
  by (simp add: push_pending_def)

lemma submit_single_queue:
  assumes "submit_single sig w c now1 now2 fid x = (r, x')"
  obtains (same) "en_pending_orders (w_engine x') = en_pending_orders (w_engine x)"
  | (added) po where "en_pending_orders (w_engine x') = en_pending_orders (w_engine x) @ [po]"
      "execution_mode c \<noteq> LiveTrading" "order_key po = (mw_market_id w, sig_strategy sig, sig_direction sig)"
      "\<not> duplicate_pending (en_pending_orders (w_engine x)) (mw_market_id w) sig False"
  using assms
proof (cases rule: submit_single_cases)
  case (queued sid s1 s2 t po)
  have "\<not> duplicate_pending (en_pending_orders (w_engine x)) (mw_market_id w) sig False"
    using queued(3) by (auto simp: precheck_single_submission_def elim: can_queue_order_None)
  moreover have "order_key po = (mw_market_id w, sig_strategy sig, sig_direction sig)"
    by (simp add: queued(7) order_key_def single_order_def)
  ultimately show thesis using same added queued(8) by (cases "execution_mode c = LiveTrading") (simp_all add: push_pending_queue)
qed (use same in simp_all)

lemma spread_orders_pending:
  assumes "queue_spread_submission_orders u d i j w arr t1 t2 fid c e = (orders, e1)"
  obtains up down where "order_key up = (mw_market_id w, sig_strategy u, sig_direction u)"
    "order_key down = (mw_market_id w, sig_strategy d, sig_direction d)"
    "en_pending_orders e1 = en_pending_orders e @ (if execution_mode c = LiveTrading then [] else [up, down])"
proof -
  let ?g = "Some (''spread-'' @ nat_to_string (unat (en_next_group_id e)))"
  show thesis
    by (rule that[of "build_spread_order u i (mw_market_id w) (mw_up_token_id w) arr ?g fid t1"
          "build_spread_order d j (mw_market_id w) (mw_down_token_id w) arr ?g fid t2"])
      (use assms in \<open>auto simp: order_key_def build_spread_order_def push_pending_queue queue_spread_submission_orders_def Let_def\<close>)
qed

lemma submit_spread_queue:
  assumes "submit_spread parse sigs w c now0 now1 now2 fid x = (r, x')"
  obtains (same) "en_pending_orders (w_engine x') = en_pending_orders (w_engine x)"
  | (added) up down u d where "en_pending_orders (w_engine x') = en_pending_orders (w_engine x) @ [up, down]"
      "execution_mode c \<noteq> LiveTrading" "u \<in> set sigs" "d \<in> set sigs"
      "order_key up = (mw_market_id w, sig_strategy u, Up)" "order_key down = (mw_market_id w, sig_strategy d, Down)"
      "sig_direction u = Up" "sig_direction d = Down"
      "\<forall>sig \<in> set sigs. \<not> duplicate_pending (en_pending_orders (w_engine x)) (mw_market_id w) sig True"
  using assms
proof (cases rule: submit_spread_cases)
  case (queued sids orders s1 s2 u d i j t1 t2)
  note ud = spread_signal_pair_Some[OF queued(4)]
  have fresh: "\<forall>sig \<in> set sigs. \<not> duplicate_pending (en_pending_orders (w_engine x)) (mw_market_id w) sig True"
    using queued(3) by (auto elim: can_queue_spread_None)
  obtain up down where "order_key up = (mw_market_id w, sig_strategy u, Up)"
    "order_key down = (mw_market_id w, sig_strategy d, Down)"
    "en_pending_orders (w_engine x') = en_pending_orders (w_engine x) @ (if execution_mode c = LiveTrading then [] else [up, down])"
    using queued(9) ud(3,4) by (metis spread_orders_pending)
  then show thesis
    using same added[OF _ _ ud(1,2) _ _ ud(3,4) fresh] by (cases "execution_mode c = LiveTrading") simp_all
qed (use same in simp_all)

subsection \<open>The queue stays free of duplicates\<close>

lemma fresh_single:
  "\<not> duplicate_pending pos m sig False \<Longrightarrow> po \<in> set pos \<Longrightarrow> order_key po \<noteq> (m, sig_strategy sig, d)"
  by (auto simp: duplicate_pending_def order_key_def list_ex_iff)

lemma fresh_leg:
  "\<not> duplicate_pending pos m sig True \<Longrightarrow> po \<in> set pos \<Longrightarrow> order_key po \<noteq> (m, sig_strategy sig, sig_direction sig)"
  by (auto simp: duplicate_pending_def order_key_def list_ex_iff)

lemma submit_single_distinct:
  assumes "queue_distinct x" and r: "submit_single sig w c now1 now2 fid x = (r, x')"
  shows "queue_distinct x'"
  using r
proof (cases rule: submit_single_queue)
  case (added po)
  show ?thesis using assms(1) added(1,3) fresh_single[OF added(4), of _ "sig_direction sig"]
    by (fastforce simp: queue_distinct_def)
qed (use assms(1) in \<open>simp add: queue_distinct_def\<close>)

lemma submit_spread_distinct:
  assumes "queue_distinct x" and r: "submit_spread parse sigs w c now0 now1 now2 fid x = (r, x')"
  shows "queue_distinct x'"
  using r
proof (cases rule: submit_spread_queue)
  case (added up down u d)
  have "order_key up \<notin> order_key ` set (en_pending_orders (w_engine x))"
    using fresh_leg[OF bspec[OF added(9,3)]] added(5,7) by fastforce
  moreover have "order_key down \<notin> order_key ` set (en_pending_orders (w_engine x))"
    using fresh_leg[OF bspec[OF added(9,4)]] added(6,8) by fastforce
  ultimately show ?thesis using assms(1) added(1,5,6) by (simp add: queue_distinct_def)
qed (use assms(1) in \<open>simp add: queue_distinct_def\<close>)

text \<open>What a pass over the due orders leaves of the queue: the orders that are not due, or after an error the
  orders of the rest of the queue too.\<close>

lemma process_due_orders_ok:
  assumes "process_due_orders dc x = (Inr ts, x')"
  shows "en_pending_orders (w_engine x') = filter (\<lambda>po. \<not> due dc po) (en_pending_orders (w_engine x)) \<and>
    (\<exists>outs. en_recent_outcomes (w_engine x') = en_recent_outcomes (w_engine x) @ outs \<and>
       pass_ok dc (en_pending_orders (w_engine x)) outs ts)"
  using due_loop_ok[OF assms[unfolded process_due_orders_def] pass_ok_Nil] by simp

lemma process_due_orders_error:
  assumes "process_due_orders dc x = (Inl e, x')"
  shows "\<exists>pre po post outs ts. en_pending_orders (w_engine x) = pre @ po # post \<and> due dc po \<and>
    en_pending_orders (w_engine x') = filter (\<lambda>po. \<not> due dc po) pre @ post \<and>
    en_recent_outcomes (w_engine x') = en_recent_outcomes (w_engine x) @ outs \<and> pass_ok dc pre outs ts"
  using due_loop_error[OF assms[unfolded process_due_orders_def] pass_ok_Nil] by simp

lemma distinct_map_filter_append:
  "distinct (map f (xs @ y # ys)) \<Longrightarrow> distinct (map f (filter P xs @ ys))"
  by (auto simp: distinct_map_filter)

lemma process_due_orders_distinct:
  assumes "queue_distinct x" "process_due_orders dc x = (r, x')"
  shows "queue_distinct x'"
proof (cases r)
  case (Inl e)
  then show ?thesis using process_due_orders_error[of dc x e x'] assms distinct_map_filter_append[of order_key]
    by (auto simp: queue_distinct_def simp del: map_append)
next
  case (Inr ts)
  then show ?thesis using process_due_orders_ok[of dc x ts x'] assms
    by (simp add: queue_distinct_def distinct_map_filter)
qed

lemma process_due_orders_ledger:
  "ledger_ok (w_bank x) \<Longrightarrow> process_due_orders dc x = (r, x') \<Longrightarrow> ledger_ok (w_bank x')"
  unfolding process_due_orders_def by (rule due_loop_ledger)

lemmas small_ops = take_recent_outcomes_def note_replay_fidelity_def Let_def

lemma note_replay_fidelity_frame [simp]:
  "en_pending_orders (note_replay_fidelity fid e) = en_pending_orders e"
  "en_pending_orders (snd (take_recent_outcomes e)) = en_pending_orders e"
  by (cases fid; simp add: small_ops)+

interpretation queue_machine: guarded_machine en_step "\<lambda>_. True" queue_distinct
proof
  fix x e assume q: "queue_distinct x"
  show "queue_distinct (en_step e x)"
  proof (cases e)
    case (SubmitSingle sig w c now1 now2 fid)
    then show ?thesis using submit_single_distinct[OF q, of sig w c now1 now2 fid] by (metis en_step.simps(1) surjective_pairing)
  next
    case (SubmitSpread parse sigs w c now0 now1 now2 fid)
    then show ?thesis using submit_spread_distinct[OF q, of parse sigs w c now0 now1 now2 fid]
      by (metis en_step.simps(2) surjective_pairing)
  next
    case (ProcessDue dc)
    then show ?thesis using process_due_orders_distinct[OF q, of dc] by (metis en_step.simps(3) surjective_pairing)
  qed (use q in \<open>simp_all add: queue_distinct_def\<close>)
qed

interpretation engine_ledger: guarded_machine en_step en_op_ok "\<lambda>x. ledger_ok (w_bank x)"
proof
  fix x :: world and e assume q: "ledger_ok (w_bank x)" and ok: "en_op_ok e"
  show "ledger_ok (w_bank (en_step e x))"
  proof (cases e)
    case (SubmitSingle sig w c now1 now2 fid)
    then show ?thesis using submit_single_ledger[OF q, of sig c w now1 now2 fid] ok by (metis en_op_ok.simps(1) en_step.simps(1) surjective_pairing)
  next
    case (SubmitSpread parse sigs w c now0 now1 now2 fid)
    then show ?thesis using submit_spread_ledger[OF q, of sigs parse w c now0 now1 now2 fid] ok
      by (metis en_op_ok.simps(2) en_step.simps(2) list_all_iff surjective_pairing)
  next
    case (ProcessDue dc)
    then show ?thesis using process_due_orders_ledger[OF q, of dc] by (metis en_step.simps(3) surjective_pairing)
  qed (use q in simp_all)
qed

subsection \<open>Position limit, reserve and fill terms\<close>

text \<open>The open trades that count against the position limit.\<close>

definition relevant_open :: "config \<Rightarrow> u64 \<Rightarrow> store \<Rightarrow> nat" where
  "relevant_open c now s = (if counts_as_open_position (pending_settlement_policy_unchecked c)
     then length (open_rows s) else length (filter (\<lambda>(r, e). now < e) (unresolved_rows s)))"

lemma count_relevant: "count_queue_relevant_open_trades c now s = (Inr n, s1) \<Longrightarrow> n = of_nat (relevant_open c now s)"
  using count_relevant_Inr(2)[of c now s n s1] by (simp add: relevant_open_def)

lemma log_signal_frame:
  assumes "log_signal_with_context sig m fid sub arr s = (r, s1)"
  shows "db_trades s1 = db_trades s \<and> db_markets s1 = db_markets s \<and> db_results s1 = db_results s"
  using assms by (auto simp: log_signal_with_context_def sql_call_def Let_def split: list.splits if_splits)

lemma relevant_open_frame:
  "db_trades s1 = db_trades s \<and> db_markets s1 = db_markets s \<and> db_results s1 = db_results s \<Longrightarrow>
    relevant_open c now s1 = relevant_open c now s"
  by (simp add: relevant_open_def open_rows_def unresolved_rows_def market_end_time_def)

lemma log_spread_frame:
  "log_spread_signals sigs w arr fid s = (r, s1) \<Longrightarrow>
    db_trades s1 = db_trades s \<and> db_markets s1 = db_markets s \<and> db_results s1 = db_results s"
proof (induction sigs arbitrary: s r s1)
  case (Cons sig sigs)
  then show ?case by (auto split: prod.splits sum.splits dest!: log_signal_frame)
qed simp

lemma submit_single_slots:
  assumes q: "submit_single sig w c now1 now2 fid x = (Inr (Queued ids orders), x')" and m: "execution_mode c \<noteq> LiveTrading"
    and fits: "relevant_open c now1 (w_db x) + length (en_pending_orders (w_engine x)) + 1 < 2 ^ 64"
  shows "relevant_open c now1 (w_db x) + length (en_pending_orders (w_engine x')) \<le> unat (max_open_positions c)"
  using q
proof (cases rule: submit_single_cases)
  case (queued sid s1 s2 t po)
  obtain n s3 where n: "count_queue_relevant_open_trades c now1 s1 = (Inr n, s3)"
    "slots_needed n (w_engine x) 1 \<le> max_open_positions c"
    using queued(3) by (auto simp: precheck_single_submission_def elim: can_queue_order_None)
  have k: "n = of_nat (relevant_open c now1 (w_db x))"
    using count_relevant[OF n(1)] relevant_open_frame[OF log_signal_frame[OF queued(2)]] by simp
  show ?thesis using slots_bound[OF n(2)[unfolded k]] fits m queued(8) by (simp add: push_pending_queue)
qed simp_all

lemma submit_spread_slots:
  assumes q: "submit_spread parse sigs w c now0 now1 now2 fid x = (Inr (Queued ids orders), x')"
    and o: "orders \<noteq> []" and m: "execution_mode c \<noteq> LiveTrading"
    and fits: "relevant_open c now1 (w_db x) + length (en_pending_orders (w_engine x)) + 2 < 2 ^ 64"
  shows "relevant_open c now1 (w_db x) + length (en_pending_orders (w_engine x')) \<le> unat (max_open_positions c)"
  using q
proof (cases rule: submit_spread_cases)
  case (queued sids orders' s1 s2 u d i j t1 t2)
  obtain n s3 where n: "count_queue_relevant_open_trades c now1 s1 = (Inr n, s3)"
    "slots_needed n (w_engine x) 2 \<le> max_open_positions c"
    using queued(3) by (auto elim: can_queue_spread_None)
  have k: "n = of_nat (relevant_open c now1 (w_db x))"
    using count_relevant[OF n(1)] relevant_open_frame[OF log_spread_frame[OF queued(2)]] by simp
  obtain up down where e: "en_pending_orders (w_engine x') = en_pending_orders (w_engine x) @ [up, down]"
    by (rule spread_orders_pending[OF queued(9)]) (use m in auto)
  show ?thesis using slots_bound[OF n(2)[unfolded k]] fits e by simp
qed (use o in simp_all)

text \<open>The reserve a queued order carries is the amount its family's active bucket grew by.\<close>

lemma submit_single_reserves:
  assumes q: "submit_single sig w c now1 now2 fid x = (Inr (Queued ids [o1]), x')"
    and nn: "\<not> is_nan (signal_ask sig)" "\<not> is_nan (single_order_limit_price sig c)"
  shows "bk_active (w_bank x') = bk_active (w_bank x) + qi_reserved_cost o1"
    "fam_get (bk_active_by_family (w_bank x')) f = (if f = family_for_signal sig
       then fam_get (bk_active_by_family (w_bank x)) f + qi_reserved_cost o1 else fam_get (bk_active_by_family (w_bank x)) f)"
    "bk_pending (w_bank x') = bk_pending (w_bank x)"
proof -
  from q obtain sid s1 s2 t po where qd: "o1 = queued_order_intent po" "\<not> t \<le> 0"
      "po = single_order sig sid w (signal_ask sig) (single_order_limit_price sig c) t c fid"
      "reserve_capital_with_reserve_price (signal_ask sig) (single_order_limit_price sig c) (sig_confidence sig)
         (sig_strategy sig) (family_for_signal sig) c now2 (w_bank x) = (t, w_bank x')"
    by (cases rule: submit_single_cases) auto
  have cost: "qi_reserved_cost o1 = t * single_order_limit_price sig c"
    by (simp add: qd(1,3) queued_order_intent_def single_order_def)
  from qd(4) nn have "bk_active (w_bank x') = bk_active (w_bank x) + qi_reserved_cost o1 \<and>
    bk_active_by_family (w_bank x') = fam_add (family_for_signal sig) (qi_reserved_cost o1) (bk_active_by_family (w_bank x)) \<and>
    bk_pending (w_bank x') = bk_pending (w_bank x)"
  proof (cases rule: reserve_cases)
    case none
    then show ?thesis using qd(2) by simp
  next
    case (some b)
    then show ?thesis using can_trade_same_buckets[of "w_bank x" c now2]
      by (simp add: cost add_reserved_def sync_raw_reserved_totals_def same_buckets_def)
  qed
  then show "bk_active (w_bank x') = bk_active (w_bank x) + qi_reserved_cost o1"
    "fam_get (bk_active_by_family (w_bank x')) f = (if f = family_for_signal sig
       then fam_get (bk_active_by_family (w_bank x)) f + qi_reserved_cost o1 else fam_get (bk_active_by_family (w_bank x)) f)"
    "bk_pending (w_bank x') = bk_pending (w_bank x)" by (auto simp: fam_get_add)
qed

text \<open>The terms of a fill: the quoted ask, within the limit, for the smaller of the requested and the quoted size.\<close>

definition fill_terms :: "due_context \<Rightarrow> pending_order \<Rightarrow> trade \<Rightarrow> bool" where
  "fill_terms dc po t \<longleftrightarrow> tr_market_id t = po_market_id po \<and> tr_strategy t = po_strategy po \<and> tr_side t = po_side po \<and>
     tr_signal_id t = Some (po_signal_id po) \<and> 0 < tr_entry_price t \<and> tr_entry_price t \<le> po_limit_price po \<and>
     0 < tr_size t \<and> tr_size t \<le> po_requested_size po \<and> \<not> tr_size t * tr_entry_price t < min_bet_usd (dc_config dc)"

lemma fill_ok_terms:
  assumes "fill_ok dc po t" "\<not> is_nan (po_limit_price po)" "\<not> is_nan (po_requested_size po)"
  shows "fill_terms dc po t"
proof -
  obtain window book i where f: "fillable dc po window book" "\<not> is_nan (tr_entry_price t)" "\<not> is_nan (tr_size t)"
    "t = (build_trade po (tob_best_ask book) (f64_min (po_requested_size po) (tob_ask_size book)) (dc_now dc)
       (execution_mode_as_str (execution_mode (dc_config dc))))\<lparr>tr_id := Some i\<rparr>"
    using assms(1) by (auto simp: fill_ok_def)
  let ?p = "tob_best_ask book" and ?q = "f64_min (po_requested_size po) (tob_ask_size book)"
  have t: "tr_entry_price t = ?p" "tr_size t = ?q" by (simp_all add: f(4) build_trade_def)
  have "\<not> ?p \<le> 0" "\<not> po_limit_price po < ?p" "\<not> ?q \<le> 0" "\<not> ?q * ?p < min_bet_usd (dc_config dc)"
    using f(1) by (auto simp: fillable_def book_fill_rejection_reason_def fill_size_rejected_def split: if_splits)
  then have "0 < ?p" "?p \<le> po_limit_price po" "0 < ?q" "\<not> ?q * ?p < min_bet_usd (dc_config dc)"
    using f(2,3) assms(2) by (simp_all add: t f64_not_le f64_not_less)
  then show ?thesis using f64_min_le(1)[OF assms(3)] by (simp add: fill_terms_def t) (simp add: f(4) build_trade_def)
qed

end
