(* ===== verification/Evaluation.thy ===== *)
theory Evaluation
  imports Rounding
begin

section \<open>Evaluation of exact literals by rewriting\<close>

text \<open>
  On literals whose value is representable the operations compute on the rationals, so closed
  instances of the model evaluate by \<open>simp\<close> with the collection \<open>lit_eval\<close>. Values with a power of two as
  denominator are recognised as exact. A sum, difference, product or quotient of exact literals is the literal of
  the rational result, rounded by the literal itself.
\<close>

named_theorems lit_eval \<open>evaluation of operations on exact literals\<close>

definition exact :: "rat \<Rightarrow> bool" where
  "exact q \<longleftrightarrow> rnd q = q \<and> \<bar>q\<bar> < fmax_bound"

lemma exact_raw_mk: "exact q \<Longrightarrow> raw_mk False q = RFin (q < 0) q"
  by (auto simp: exact_def raw_mk_def)

subsection \<open>Exact numbers\<close>

lemma exact_dyadic:
  assumes "\<bar>m\<bar> < 2 ^ 53" "k \<le> 60"
  shows "exact (of_int m / 2 ^ k)"
proof -
  have p: "pow2 (- int k) = 1 / 2 ^ k" by (simp add: pow2_def power_int_def inverse_eq_divide power_one_over)
  have e: "of_int m / 2 ^ k = of_int m * pow2 (- int k)" by (simp add: p)
  have "rnd (of_int m / 2 ^ k) = of_int m / 2 ^ k"
    unfolding e using assms by (intro representable_scaled) simp_all
  moreover have "\<bar>of_int m / 2 ^ k :: rat\<bar> < fmax_bound"
  proof -
    have one: "(1 :: rat) \<le> 2 ^ k" by simp
    have "\<bar>of_int m / 2 ^ k :: rat\<bar> = of_int \<bar>m\<bar> / 2 ^ k" by simp
    also have "\<dots> \<le> of_int \<bar>m\<bar> / 1" by (rule divide_left_mono[OF one]) simp_all
    also have "\<dots> < of_int (2 ^ 53)" using assms(1) by (simp only: div_by_1 of_int_less_iff)
    also have "\<dots> < fmax_bound" by (simp add: fmax_bound_def)
    finally show ?thesis .
  qed
  ultimately show ?thesis by (simp add: exact_def)
qed

lemma exact_numeral [lit_eval]:
  "exact 0" "exact 1" "exact (- 1)"
  "(numeral n :: int) < 2 ^ 53 \<Longrightarrow> exact (numeral n)"
  "(numeral n :: int) < 2 ^ 53 \<Longrightarrow> exact (- numeral n)"
  using exact_dyadic[of 0 0] exact_dyadic[of 1 0] exact_dyadic[of "- 1" 0]
    exact_dyadic[of "numeral n" 0] exact_dyadic[of "- numeral n" 0] by simp_all

lemma exact_fraction [lit_eval]:
  "(numeral n :: int) < 2 ^ 53 \<Longrightarrow> exact (numeral n / 2)" "(numeral n :: int) < 2 ^ 53 \<Longrightarrow> exact (- (numeral n / 2))"
  "(numeral n :: int) < 2 ^ 53 \<Longrightarrow> exact (numeral n / 4)" "(numeral n :: int) < 2 ^ 53 \<Longrightarrow> exact (- (numeral n / 4))"
  "(numeral n :: int) < 2 ^ 53 \<Longrightarrow> exact (numeral n / 8)" "(numeral n :: int) < 2 ^ 53 \<Longrightarrow> exact (- (numeral n / 8))"
  "(numeral n :: int) < 2 ^ 53 \<Longrightarrow> exact (numeral n / 16)" "(numeral n :: int) < 2 ^ 53 \<Longrightarrow> exact (- (numeral n / 16))"
  "(numeral n :: int) < 2 ^ 53 \<Longrightarrow> exact (numeral n / 32)" "(numeral n :: int) < 2 ^ 53 \<Longrightarrow> exact (- (numeral n / 32))"
  "(numeral n :: int) < 2 ^ 53 \<Longrightarrow> exact (numeral n / 64)" "(numeral n :: int) < 2 ^ 53 \<Longrightarrow> exact (- (numeral n / 64))"
  using exact_dyadic[of "numeral n" 1] exact_dyadic[of "numeral n" 2] exact_dyadic[of "numeral n" 3]
    exact_dyadic[of "numeral n" 4] exact_dyadic[of "numeral n" 5] exact_dyadic[of "numeral n" 6]
    exact_dyadic[of "- numeral n" 1] exact_dyadic[of "- numeral n" 2] exact_dyadic[of "- numeral n" 3]
    exact_dyadic[of "- numeral n" 4] exact_dyadic[of "- numeral n" 5] exact_dyadic[of "- numeral n" 6]
  by simp_all

lemma exact_unit_fraction [lit_eval]:
  "exact (1 / 2)" "exact (1 / 4)" "exact (1 / 8)" "exact (1 / 16)" "exact (1 / 32)" "exact (1 / 64)"
  "exact (- (1 / 2))" "exact (- (1 / 4))" "exact (- (1 / 8))" "exact (- (1 / 16))" "exact (- (1 / 32))" "exact (- (1 / 64))"
  using exact_dyadic[of 1 1] exact_dyadic[of 1 2] exact_dyadic[of 1 3] exact_dyadic[of 1 4] exact_dyadic[of 1 5]
    exact_dyadic[of 1 6] exact_dyadic[of "- 1" 1] exact_dyadic[of "- 1" 2] exact_dyadic[of "- 1" 3]
    exact_dyadic[of "- 1" 4] exact_dyadic[of "- 1" 5] exact_dyadic[of "- 1" 6] by simp_all

subsection \<open>Operations\<close>

lemma raw_mk_sign: "(q = 0 \<Longrightarrow> s = t) \<Longrightarrow> raw_mk s q = raw_mk t q"
  by (cases "q = 0") (simp_all add: raw_mk_def)

lemma lit_const [lit_eval]: "(0 :: f64) = f64_lit 0" "(1 :: f64) = f64_lit 1"
  by simp_all

lemma lit_add [lit_eval]: "exact p \<Longrightarrow> exact q \<Longrightarrow> f64_lit p + f64_lit q = f64_lit (p + q)"
proof transfer
  fix p q assume e: "exact p" "exact q"
  have "raw_mk ((p < 0) \<and> (q < 0)) (p + q) = raw_mk False (p + q)" by (rule raw_mk_sign) auto
  then show "raw_add (raw_mk False p) (raw_mk False q) = raw_mk False (p + q)"
    using e by (simp add: exact_raw_mk)
qed

lemma lit_sub [lit_eval]: "exact p \<Longrightarrow> exact q \<Longrightarrow> f64_lit p - f64_lit q = f64_lit (p - q)"
proof transfer
  fix p q assume e: "exact p" "exact q"
  have "raw_mk ((p < 0) \<and> \<not> (q < 0)) (p - q) = raw_mk False (p - q)" by (rule raw_mk_sign) auto
  then show "raw_add (raw_mk False p) (raw_neg (raw_mk False q)) = raw_mk False (p - q)"
    using e by (simp add: exact_raw_mk)
qed

lemma lit_mul [lit_eval]:
  "exact p \<Longrightarrow> exact q \<Longrightarrow> p * q \<noteq> 0 \<or> 0 \<le> p \<and> 0 \<le> q \<Longrightarrow> f64_lit p * f64_lit q = f64_lit (p * q)"
proof transfer
  fix p q assume e: "exact p" "exact q" and z: "p * q \<noteq> 0 \<or> 0 \<le> p \<and> 0 \<le> q"
  have "raw_mk ((p < 0) \<noteq> (q < 0)) (p * q) = raw_mk False (p * q)" by (rule raw_mk_sign) (use z in auto)
  then show "raw_mul (raw_mk False p) (raw_mk False q) = raw_mk False (p * q)"
    using e by (simp add: exact_raw_mk)
qed

lemma lit_div [lit_eval]:
  "exact p \<Longrightarrow> exact q \<Longrightarrow> q \<noteq> 0 \<Longrightarrow> p \<noteq> 0 \<or> 0 \<le> q \<Longrightarrow> f64_lit p / f64_lit q = f64_lit (p / q)"
proof transfer
  fix p q assume e: "exact p" "exact q" "q \<noteq> 0" and z: "p \<noteq> 0 \<or> 0 \<le> q"
  have "raw_mk ((p < 0) \<noteq> (q < 0)) (p / q) = raw_mk False (p / q)" by (rule raw_mk_sign) (use e z in auto)
  then show "raw_div (raw_mk False p) (raw_mk False q) = raw_mk False (p / q)"
    using e by (simp add: exact_raw_mk)
qed

lemma lit_neg [lit_eval]: "exact p \<Longrightarrow> p \<noteq> 0 \<Longrightarrow> - f64_lit p = f64_lit (- p)"
proof transfer
  fix p assume e: "exact p" "p \<noteq> 0"
  then have "exact (- p)" by (simp add: exact_def)
  with e show "raw_neg (raw_mk False p) = raw_mk False (- p)" by (simp add: exact_raw_mk not_less order.order_iff_strict)
qed

lemma lit_abs [lit_eval]: "exact p \<Longrightarrow> \<bar>f64_lit p\<bar> = f64_lit \<bar>p\<bar>"
proof transfer
  fix p assume e: "exact p"
  then have "exact \<bar>p\<bar>" by (simp add: exact_def abs_if)
  with e show "raw_abs (raw_mk False p) = raw_mk False \<bar>p\<bar>" by (simp add: exact_raw_mk)
qed

lemma lit_le [lit_eval]: "exact p \<Longrightarrow> exact q \<Longrightarrow> f64_lit p \<le> f64_lit q \<longleftrightarrow> p \<le> q"
  by transfer (simp add: exact_raw_mk)

lemma lit_less [lit_eval]: "exact p \<Longrightarrow> exact q \<Longrightarrow> f64_lit p < f64_lit q \<longleftrightarrow> p < q"
  by transfer (simp add: exact_raw_mk less_le_not_le)

lemma lit_finite [lit_eval]: "exact p \<Longrightarrow> is_finite (f64_lit p)" "exact p \<Longrightarrow> fval (f64_lit p) = p"
  by (transfer, simp add: exact_raw_mk)+

lemma lit_nan [lit_eval]: "\<not> is_nan (f64_lit p)" "\<not> is_nan f64_infinity"
  by simp_all

lemma lit_infinity [lit_eval]:
  "exact p \<Longrightarrow> f64_lit p < f64_infinity" "\<not> f64_infinity < f64_lit p" "exact p \<Longrightarrow> \<not> f64_infinity \<le> f64_lit p"
proof -
  show 1: "exact p \<Longrightarrow> f64_lit p < f64_infinity" by transfer (simp add: exact_raw_mk)
  show "\<not> f64_infinity < f64_lit p" using f64_le_imp_not_less[of "f64_lit p" f64_infinity] by simp
  show "exact p \<Longrightarrow> \<not> f64_infinity \<le> f64_lit p" using 1 f64_less_imp_not_le by blast
qed

lemma lit_floor [lit_eval]: "exact p \<Longrightarrow> f64_floor (f64_lit p) = f64_lit (of_int \<lfloor>p\<rfloor>)"
proof transfer
  fix p assume e: "exact p"
  have "raw_mk (p < 0) (of_int \<lfloor>p\<rfloor>) = raw_mk False (of_int \<lfloor>p\<rfloor>)"
    by (rule raw_mk_sign) (auto simp: floor_eq_iff)
  with e show "raw_int floor (raw_mk False p) = raw_mk False (of_int \<lfloor>p\<rfloor>)" by (simp add: exact_raw_mk)
qed

lemma lit_ceil [lit_eval]: "exact p \<Longrightarrow> p \<le> - 1 \<or> 0 \<le> p \<Longrightarrow> f64_ceil (f64_lit p) = f64_lit (of_int \<lceil>p\<rceil>)"
proof transfer
  fix p assume e: "exact p" and z: "p \<le> - 1 \<or> 0 \<le> p"
  have "raw_mk (p < 0) (of_int \<lceil>p\<rceil>) = raw_mk False (of_int \<lceil>p\<rceil>)"
    by (rule raw_mk_sign) (use z in \<open>auto simp: ceiling_eq_iff\<close>)
  with e show "raw_int ceiling (raw_mk False p) = raw_mk False (of_int \<lceil>p\<rceil>)" by (simp add: exact_raw_mk)
qed

lemma lit_mul_add [lit_eval]:
  "exact p \<Longrightarrow> exact q \<Longrightarrow> exact r \<Longrightarrow> 0 \<le> p \<Longrightarrow> 0 \<le> q \<Longrightarrow> 0 \<le> r \<Longrightarrow>
    mul_add (f64_lit p) (f64_lit q) (f64_lit r) = f64_lit (p * q + r)"
proof transfer
  fix p q r assume "exact p" "exact q" "exact r" "0 \<le> p" "0 \<le> q" "0 \<le> r"
  then show "raw_muladd (raw_mk False p) (raw_mk False q) (raw_mk False r) = raw_mk False (p * q + r)"
    by (simp add: exact_raw_mk)
qed

lemma lit_inj [lit_eval]: "exact p \<Longrightarrow> exact q \<Longrightarrow> f64_lit p = f64_lit q \<longleftrightarrow> p = q"
  using lit_finite(2) by metis

lemma lit_min_max [lit_eval]:
  "exact p \<Longrightarrow> exact q \<Longrightarrow> f64_min (f64_lit p) (f64_lit q) = f64_lit (min p q)"
  "exact p \<Longrightarrow> exact q \<Longrightarrow> f64_max (f64_lit p) (f64_lit q) = f64_lit (max p q)"
  "exact p \<Longrightarrow> f64_min (f64_lit p) f64_infinity = f64_lit p"
  by (auto simp: f64_min_def f64_max_def lit_less lit_infinity min_def max_def)

lemma lit_clamp [lit_eval]:
  "exact p \<Longrightarrow> exact q \<Longrightarrow> exact r \<Longrightarrow> f64_clamp (f64_lit p) (f64_lit q) (f64_lit r) = f64_lit (min r (max q p))"
  by (auto simp: f64_clamp_def lit_less min_def max_def)

lemma lit_not_less_0 [lit_eval]: "0 \<le> q \<Longrightarrow> \<not> f64_lit q < f64_lit 0"
  by (simp add: lit_nonneg f64_le_imp_not_less)

lemmas weak_congs = let_weak_cong if_weak_cong option.case_cong_weak prod.case_cong_weak

end
