(* ===== verification/Instances.thy ===== *)
theory Instances
  imports EngineMachine Evaluation
begin

section \<open>Concrete instances\<close>

text \<open>
  A configuration, a bankroll and orders on which the properties are instantiated. The amounts are dyadic, so the
  arithmetic of the instances is exact and evaluates by rewriting.
\<close>

definition demo :: config where
  "demo = config_default\<lparr>enforce_open_exposure_caps := True, live_max_open_notional_usd := f64_lit 64,
     live_session_cash_cap_usd := f64_lit 128, max_position_fraction := 1,
     latency_arb_max_position_fraction := None, max_position_usd := f64_lit 512,
     max_position_usd_fraction := 1, min_balance_threshold := 1, max_drawdown_pct := 1,
     peak_dd_pause_pct := f64_lit 0.5, dd_pause_recovery_pct := f64_lit 0.25, min_bet_usd := 1, latency_arb_max_ask := f64_lit 0.5\<rparr>"

lemma demo_fields [simp]:
  "enforce_open_exposure_caps demo" "live_max_open_notional_usd demo = f64_lit 64"
  "live_session_cash_cap_usd demo = f64_lit 128" "max_position_fraction demo = 1"
  "latency_arb_max_position_fraction demo = None" "max_position_usd demo = f64_lit 512"
  "max_position_usd_fraction demo = 1" "min_balance_threshold demo = 1" "max_drawdown_pct demo = 1"
  "peak_dd_pause_pct demo = f64_lit 0.5" "dd_pause_recovery_pct demo = f64_lit 0.25" "min_bet_usd demo = 1"
  "min_trades_for_kelly demo = 20" "execution_mode demo = Paper" "kelly_rolling_window demo = 30"
  "peak_dd_pause_ms demo = 3600000" "pending_settlement_family_reserve_fraction demo = 0"
  "pending_settlement_global_reserve_fraction demo = f64_lit 0.25"
  "\<not> pending_settlement_counts_as_open_position demo" "max_open_positions demo = 5"
  "latency_arb_max_ask demo = f64_lit 0.5" "sim_order_latency_ms demo = 250" "max_book_staleness_ms demo = 1000"
  by (simp_all add: demo_def config_default_def)

subsection \<open>A reservation at the ceiling\<close>

definition demo_bank :: bankroll where
  "demo_bank = new_in_memory (f64_lit 1024) (f64_lit 1024) demo"

lemmas demo_bankroll_defs = demo_bank_def new_in_memory_def bk_can_trade_def single_available_def
  available_spread_budget_for_family_def effective_reserved_capital_def effective_reserved_for_family_def
  open_exposure_headroom_def get_position_fraction_def token_count_def position_fraction_target_def
  explicit_family_sleeve_fraction_def open_exposure_ceiling_usd_def is_live_execution_def
  pending_settlement_policy_unchecked_def bad_price_def get_drawdown_pct_def manually_overridden_def
  add_reserved_def sync_raw_reserved_totals_def policy_classify_def

lemma demo_ceiling: "open_exposure_ceiling_usd demo = Some (f64_lit 64)"
  by (simp add: demo_bankroll_defs lit_eval Let_def del: lit_0 lit_1 cong: weak_congs)

lemma demo_reserve:
  "fst (reserve_capital_with_reserve_price (f64_lit 0.5) (f64_lit 0.5) 1 ''latency-arb'' LatencyArb demo 5 demo_bank)
     = f64_lit 128"
  by (simp add: reserve_capital_with_reserve_price_def demo_bankroll_defs lit_eval Let_def
      del: lit_0 lit_1 cong: weak_congs)

lemma demo_spread:
  "fst (reserve_spread_capital_for_family (f64_lit 0.25) (f64_lit 0.25) 1 LatencyArb demo 5 demo_bank)
     = (f64_lit 128, f64_lit 128)"
  by (simp add: reserve_spread_capital_for_family_def demo_bankroll_defs lit_eval Let_def
      del: lit_0 lit_1 cong: weak_congs)

lemma demo_bank_ledger: "ledger_ok demo_bank"
  unfolding demo_bank_def by (rule new_in_memory_ledger)

lemma demo_bank_hwm: "bk_high_water_mark demo_bank = f64_lit 1024"
  by (simp add: demo_bank_def new_in_memory_def lit_min_max exact_numeral)

lemma demo_ceiling_range: "1 \<le> f64_lit 64" "f64_lit 64 \<le> f64_lit (10 ^ 12)"
  by (simp_all add: lit_eval del: lit_1)

lemma demo_order_facts:
  "f64_lit 0.001 \<le> f64_lit 0.5" "f64_lit 0.001 \<le> f64_lit 0.25" "0 < f64_lit 128"
  by (simp_all add: lit_mono lit_eval del: lit_0)

text \<open>A reservation, its result, and the checks between them.\<close>

definition demo_ops :: "bk_op list" where
  "demo_ops = [OpCanTrade demo 4, OpReserve (f64_lit 0.5) (f64_lit 0.5) 1 ''latency-arb'' LatencyArb demo 5,
     OpTransition (f64_lit 64) ''latency-arb'', OpResult (f64_lit 0.5) (f64_lit 128) 1 0 ''latency-arb'']"

lemma demo_ops_ok: "list_all bk_op_ok demo_ops" and demo_ops_counted: "list_all bk_op_counted demo_ops"
  by (simp_all add: demo_ops_def)

subsection \<open>A submission and a pass over the queue\<close>

definition demo_window :: market_window where
  "demo_window = \<lparr>mw_market_id = ''m1'', mw_question = ''q'', mw_up_token_id = ''up'', mw_down_token_id = ''down'',
     mw_condition_id = ''c'', mw_start_time = 0, mw_end_time = 300000, mw_slug = ''s'', mw_outcome = None,
     mw_resolution_source = None, mw_fee_profile = None, mw_order_min_size = None,
     mw_order_price_min_tick_size = None, mw_maker_base_fee = None, mw_taker_base_fee = None,
     mw_rewards_min_size = None, mw_rewards_max_spread = None, mw_fees_enabled = None, mw_fee_schedule_json = None,
     mw_token_fee_rates_json = None, mw_accepting_orders = None, mw_accepting_orders_timestamp = None,
     mw_clear_book_on_start = None\<rparr>"

definition demo_signal :: signal where
  "demo_signal = \<lparr>sig_timestamp = 1000, sig_strategy = ''latency-arb'', sig_strategy_version = ''v1'',
     sig_feature_mode = ''legacy_core'', sig_direction = Up, sig_confidence = 1, sig_binance_price = 1,
     sig_chainlink_price = 1, sig_up_ask = f64_lit 0.5, sig_down_ask = f64_lit 0.5, sig_up_bid = f64_lit 0.25,
     sig_down_bid = f64_lit 0.25, sig_expected_edge = None, sig_metadata = [], sig_telemetry = None\<rparr>"

definition demo_store :: store where
  "demo_store = (db_empty [])\<lparr>db_markets := [\<lparr>mk_window = demo_window, mk_status = ''active''\<rparr>]\<rparr>"

definition demo_world :: world where
  "demo_world = \<lparr>w_engine = engine_new, w_db = demo_store, w_bank = demo_bank\<rparr>"

lemmas demo_world_defs = demo_world_def demo_store_def demo_window_def demo_signal_def engine_new_def db_empty_def

lemma demo_signal_terms:
  "family_for_signal demo_signal = LatencyArb" "single_order_limit_price demo_signal demo = f64_lit 0.5"
  "signal_ask demo_signal = f64_lit 0.5" "arrival_of demo_signal demo = 1250"
  by (simp_all add: family_for_signal_def from_strategy_name_def single_order_limit_price_def signal_ask_def
      demo_signal_def arrival_of_def saturating_add_def)

lemma demo_log: "\<exists>s1. log_signal_with_context demo_signal (Some ''m1'') (Some RawEvent) (Some 1000) (Some 1250) demo_store = (Inr 1, s1) \<and> db_faults s1 = [] \<and> db_trades s1 = []"
  by (simp add: log_signal_with_context_def sql_call_def opt_params_def demo_world_defs)

lemma demo_queue_free: "db_faults s = [] \<Longrightarrow> db_trades s = [] \<Longrightarrow> precheck_single_submission demo_signal demo_window demo 1000 engine_new s = (Inr None, s)"
  by (simp add: precheck_single_submission_def can_queue_order_def count_queue_relevant_open_trades_def pending_settlement_policy_unchecked_def policy_classify_def
   count_active_open_trades_def count_open_trades_def sql_call_def get_open_trades_for_market_def open_rows_def unresolved_rows_def open_rows_for_market_def slots_needed_def engine_new_def duplicate_open_def duplicate_pending_def)

lemma demo_submit: "fst (submit_single demo_signal demo_window demo 1000 5 RawEvent demo_world) = Inr (Queued [1] [queued_order_intent (single_order demo_signal 1 demo_window (f64_lit 0.5) (f64_lit 0.5) (f64_lit 128) demo RawEvent)])"
proof -
  obtain s1 where l: "log_signal_with_context demo_signal (Some ''m1'') (Some RawEvent) (Some 1000) (Some 1250) demo_store = (Inr 1, s1)"
    "db_faults s1 = []" "db_trades s1 = []" using demo_log by blast
  have f: "mw_market_id demo_window = ''m1''" "sig_timestamp demo_signal = 1000" "w_db demo_world = demo_store" "w_engine demo_world = engine_new"
    "w_bank demo_world = demo_bank" "sig_strategy demo_signal = ''latency-arb''" "sig_confidence demo_signal = 1" "mw_order_min_size demo_window = None" "sig_telemetry demo_signal = None"
    by (simp_all add: demo_window_def demo_signal_def demo_world_def)
  have sz: "submission_size_rejection_reason (f64_lit 128) (f64_lit (1 / 2)) 0 1 = None"
    by (simp add: submission_size_rejection_reason_def lit_eval del: lit_0 lit_1)
  let ?r = "reserve_capital_with_reserve_price (f64_lit (1 / 2)) (f64_lit (1 / 2)) 1 ''latency-arb'' LatencyArb demo 5 demo_bank"
  have r: "?r = (f64_lit 128, snd ?r)" using demo_reserve by (simp add: prod_eq_iff)
  have p: "\<not> f64_lit 128 \<le> 0" by (simp add: lit_eval del: lit_0 lit_1)
  show ?thesis using p sz
    by (simp add: submit_single_def Let_def f demo_signal_terms l(1) demo_queue_free[OF l(2,3)] queue_single_submission_def,
      subst r, simp add: f queue_single_submission_def Let_def)
qed

definition demo_order :: pending_order where
  "demo_order = single_order demo_signal 1 demo_window (f64_lit 0.5) (f64_lit 0.5) (f64_lit 128) demo RawEvent"

definition demo_late_order :: pending_order where
  "demo_late_order = demo_order\<lparr>po_signal_id := 2, po_side := Down, po_arrival_ts := 9000\<rparr>"

definition demo_metric :: signal_metric where
  "demo_metric = \<lparr>sm_signal_id = 1, sm_generated_at_ms = 1000, sm_generated_at_us = None, sm_order_submitted_at_ms = None,
     sm_order_submitted_at_us = None, sm_expected_arrival_at_ms = None, sm_expected_arrival_at_us = None,
     sm_order_processed_at_ms = None, sm_order_processed_at_us = None, sm_effective_arrival_delay_ms = None,
     sm_binance_age_ms = None, sm_chainlink_age_ms = None, sm_clob_age_ms = None, sm_quote_age_ms = None,
     sm_book_staleness_ms = None, sm_expected_fee = None, sm_expected_slippage = None, sm_expected_edge = None,
     sm_available_feature_count = 0, sm_decision_status = ''submitted'', sm_rejection_reason = None, sm_features_json = []\<rparr>"

definition demo_due :: due_context where
  "demo_due = \<lparr>dc_now = 1300, dc_now_us = None, dc_window = Some demo_window,
     dc_book = \<lparr>book_up = Some \<lparr>tob_best_bid = 0, tob_best_ask = f64_lit 0.25, tob_bid_size = 0, tob_ask_size = f64_lit 64,
       tob_timestamp = 1200, tob_observed_at_ms = 1200\<rparr>, book_down = None\<rparr>, dc_config = demo\<rparr>"

definition demo_queue :: "bool list \<Rightarrow> world" where
  "demo_queue faults = \<lparr>w_engine = engine_new\<lparr>en_pending_orders := [demo_order, demo_late_order]\<rparr>,
     w_db = demo_store\<lparr>db_faults := faults, db_metrics := [demo_metric]\<rparr>, w_bank = demo_bank\<rparr>"

lemmas demo_due_defs = process_due_orders_def process_due_order_def demo_due_def demo_order_def demo_late_order_def
  single_order_def demo_signal_terms demo_queue_def demo_metric_def side_book_def book_fill_rejection_reason_def
  effective_book_timestamp_def saturating_sub_def fill_size_rejected_def fill_due_order_def build_trade_def
  open_trade_def trade_params_def opt_params_def trade_insert_error_def market_end_time_def sql_call_def
  update_signal_execution_outcome_def record_fill_def arrival_of_def saturating_add_def

lemma demo_pass:
  "map_sum id (map tr_size) (fst (process_due_orders demo_due (demo_queue []))) = Inr [f64_lit 64]"
  by (simp add: demo_due_defs demo_world_defs lit_eval Let_def max_def del: lit_0 lit_1 cong: weak_congs)

lemma demo_pass_fault:
  "fst (process_due_orders demo_due (demo_queue [True])) = Inl SqliteError"
  by (simp add: demo_due_defs demo_world_defs lit_eval Let_def max_def del: lit_0 lit_1 cong: weak_congs)

lemma demo_pass_trade: "\<exists>t x'. process_due_orders demo_due (demo_queue []) = (Inr [t], x')"
  using demo_pass
  by (cases "process_due_orders demo_due (demo_queue [])"; cases "fst (process_due_orders demo_due (demo_queue []))") auto

lemma demo_queue_pending: "en_pending_orders (w_engine (demo_queue fs)) = [demo_order, demo_late_order]"
  by (simp add: demo_queue_def)

lemma demo_due_split: "due demo_due demo_order" "\<not> due demo_due demo_late_order"
  by (simp_all add: due_def demo_due_def demo_late_order_def demo_order_def single_order_def demo_signal_terms)

lemma demo_orders_numbers:
  "\<not> is_nan (po_limit_price demo_order)" "\<not> is_nan (po_requested_size demo_order)"
  "\<not> is_nan (po_limit_price demo_late_order)" "\<not> is_nan (po_requested_size demo_late_order)"
  by (simp_all add: demo_late_order_def demo_order_def single_order_def)

lemma demo_world_open: "relevant_open demo 1000 (w_db demo_world) = 0" "en_pending_orders (w_engine demo_world) = []"
  by (simp_all add: relevant_open_def demo_world_defs open_rows_def unresolved_rows_def)

lemma demo_submit_order:
  "submit_single demo_signal demo_window demo 1000 5 RawEvent demo_world =
     (Inr (Queued [1] [queued_order_intent demo_order]), snd (submit_single demo_signal demo_window demo 1000 5 RawEvent demo_world))"
  using demo_submit by (simp only: demo_order_def prod_eq_iff fst_conv snd_conv simp_thms)

lemma demo_order_cost: "qi_reserved_cost (queued_order_intent demo_order) = f64_lit 64"
  by (simp add: queued_order_intent_def demo_order_def single_order_def lit_eval del: lit_0 lit_1)

text \<open>The two legs of a spread, without fees.\<close>

definition demo_down_signal :: signal where
  "demo_down_signal = demo_signal\<lparr>sig_direction := Down, sig_down_ask := f64_lit 0.25, sig_strategy := ''spread-capture''\<rparr>"

definition demo_up_signal :: signal where
  "demo_up_signal = demo_signal\<lparr>sig_up_ask := f64_lit 0.25, sig_strategy := ''spread-capture''\<rparr>"

definition demo_free :: config where
  "demo_free = demo\<lparr>taker_fee_override_explicit := True, taker_fee_rate := 0, spread_capture_max_position_fraction := None\<rparr>"

lemma demo_free_fields [simp]:
  "taker_fee_override_explicit demo_free" "taker_fee_rate demo_free = 0" "spread_capture_max_position_fraction demo_free = None"
  "enforce_open_exposure_caps demo_free" "live_max_open_notional_usd demo_free = f64_lit 64"
  "live_session_cash_cap_usd demo_free = f64_lit 128" "max_position_fraction demo_free = 1"
  "max_position_usd demo_free = f64_lit 512" "min_balance_threshold demo_free = 1" "max_drawdown_pct demo_free = 1"
  "peak_dd_pause_pct demo_free = f64_lit 0.5" "dd_pause_recovery_pct demo_free = f64_lit 0.25" "min_bet_usd demo_free = 1"
  "execution_mode demo_free = Paper" "pending_settlement_family_reserve_fraction demo_free = 0"
  "pending_settlement_global_reserve_fraction demo_free = f64_lit 0.25"
  "\<not> pending_settlement_counts_as_open_position demo_free" "max_open_positions demo_free = 5"
  "sim_order_latency_ms demo_free = 250" "max_position_usd_fraction demo_free = 1"
  by (simp_all add: demo_free_def)

lemmas demo_spread_defs = submit_spread_def spread_arrival_ts_def log_spread_signals.simps log_signal_with_context_def
  sql_call_def opt_params_def demo_up_signal_def demo_down_signal_def can_queue_spread_def
  count_queue_relevant_open_trades_def count_active_open_trades_def count_open_trades_def
  get_open_trades_for_market_def open_rows_def unresolved_rows_def open_rows_for_market_def slots_needed_def
  duplicate_open_def duplicate_pending_def spread_signal_pair_def resolve_fee_params_def configured_fee_params_def
  spread_net_edge_def compute_taker_fee_def reserve_spread_capital_def reserve_spread_capital_for_family_def
  spread_submission_rejection_reason_def submission_size_rejection_reason_def queue_spread_submission_orders_def
  saturating_add_def arrival_of_def max_def

lemma demo_spread_submit:
  "\<exists>o1 o2. fst (submit_spread (\<lambda>_. None) [demo_up_signal, demo_down_signal] demo_window demo_free 1000 1000 5 RawEvent demo_world)
     = Inr (Queued [1, 2] [o1, o2])"
  by (simp add: demo_spread_defs demo_world_defs demo_bankroll_defs lit_eval Let_def del: lit_0 lit_1 cong: weak_congs)

lemma demo_world_open_free: "relevant_open demo_free 1000 (w_db demo_world) = 0"
  by (simp add: relevant_open_def demo_world_defs open_rows_def unresolved_rows_def)

subsection \<open>A bankroll in the pause zone and a valid configuration\<close>

definition demo_drawdown :: bankroll where
  "demo_drawdown = demo_bank\<lparr>bk_current_balance := f64_lit 512\<rparr>"

lemma demo_drawdown_zone: "pause_zone demo demo_drawdown"
  by (simp add: pause_zone_def demo_drawdown_def demo_bankroll_defs lit_eval Let_def del: lit_0 lit_1 cong: weak_congs)

lemma demo_drawdown_armed: "bk_dd_pause_armed demo_drawdown" "bk_peak_dd_pause_until demo_drawdown = 0"
  by (simp_all add: demo_drawdown_def demo_bank_def new_in_memory_def)

lemma demo_valid: "validate_config (\<lambda>_. True) (\<lambda>_. True) demo = Inr ()"
  by (simp add: validate_config_def pending_settlement_policy_def policy_validate_def demo_bankroll_defs positive_finite_def
      lit_eval Let_def del: lit_0 lit_1 cong: weak_congs) (simp add: demo_def config_default_def)

end
