(* ===== verification/TradeStore.thy ===== *)
theory TradeStore
  imports Database
begin

section \<open>The trade table as a book of open trades\<close>

text \<open>
  What the clients of \<^verbatim>\<open>db/database.rs\<close> rely on: an opened trade is listed under a fresh id until it is closed,
  and a failed statement changes nothing. The contract is a locale; \<open>open_trade\<close> and \<open>close_trade\<close> satisfy it with
  any pattern of database faults.
\<close>

datatype ('t, 'c) book_op = BookOpen 't | BookClose int 'c

text \<open>The effect of one operation on the list of open trades, given whether it succeeded.\<close>

fun book_effect :: "('t, 'c) book_op \<Rightarrow> int option \<Rightarrow> (int \<times> 't) list \<Rightarrow> (int \<times> 't) list" where
  "book_effect op None xs = xs"
| "book_effect (BookOpen t) (Some i) xs = xs @ [(i, t)]"
| "book_effect (BookClose j r) (Some i) xs = filter (\<lambda>(k, _). k \<noteq> j) xs"

text \<open>Runs of operations on a store, with the answers, and on the abstract list, given the answers.\<close>

fun book_step :: "('t \<Rightarrow> 's \<Rightarrow> int option \<times> 's) \<Rightarrow> (int \<Rightarrow> 'c \<Rightarrow> 's \<Rightarrow> int option \<times> 's) \<Rightarrow>
    ('t, 'c) book_op \<Rightarrow> 's \<Rightarrow> int option \<times> 's" where
  "book_step opn cls (BookOpen t) s = opn t s"
| "book_step opn cls (BookClose j r) s = cls j r s"

fun book_run :: "(('t, 'c) book_op \<Rightarrow> 's \<Rightarrow> int option \<times> 's) \<Rightarrow> ('t, 'c) book_op list \<Rightarrow> 's \<Rightarrow> int option list \<times> 's" where
  "book_run step [] s = ([], s)"
| "book_run step (e # es) s = (case step e s of (r, s1) \<Rightarrow> (case book_run step es s1 of (rs, s2) \<Rightarrow> (r # rs, s2)))"

fun stored_op :: "('t \<Rightarrow> 't) \<Rightarrow> ('t, 'c) book_op \<Rightarrow> ('t, 'c) book_op" where
  "stored_op cols (BookOpen t) = BookOpen (cols t)"
| "stored_op cols (BookClose j r) = BookClose j r"

fun spec_run :: "('t, 'c) book_op list \<Rightarrow> int option list \<Rightarrow> (int \<times> 't) list \<Rightarrow> (int \<times> 't) list" where
  "spec_run (e # es) (r # rs) xs = spec_run es rs (book_effect e r xs)"
| "spec_run _ _ xs = xs"

locale trade_book =
  fixes opn :: "'t \<Rightarrow> 's \<Rightarrow> int option \<times> 's" and cls :: "int \<Rightarrow> 'c \<Rightarrow> 's \<Rightarrow> int option \<times> 's"
    and listed :: "'s \<Rightarrow> (int \<times> 't) list" and fresh :: "'s \<Rightarrow> int" and inv :: "'s \<Rightarrow> bool" and cols :: "'t \<Rightarrow> 't"
  assumes opn_ok: "inv s \<Longrightarrow> opn t s = (Some i, s') \<Longrightarrow> inv s' \<and> listed s' = listed s @ [(i, cols t)] \<and> fresh s < i \<and> fresh s' = i"
    and opn_err: "inv s \<Longrightarrow> opn t s = (None, s') \<Longrightarrow> inv s' \<and> listed s' = listed s \<and> fresh s' = fresh s"
    and cls_ok: "inv s \<Longrightarrow> cls j r s = (Some i, s') \<Longrightarrow>
      inv s' \<and> listed s' = filter (\<lambda>(k, _). k \<noteq> j) (listed s) \<and> fresh s' = fresh s"
    and cls_err: "inv s \<Longrightarrow> cls j r s = (None, s') \<Longrightarrow> inv s' \<and> listed s' = listed s \<and> fresh s' = fresh s"
    and listed_fresh: "inv s \<Longrightarrow> (i, t) \<in> set (listed s) \<Longrightarrow> i \<le> fresh s"
begin

definition book_inv :: "'s \<Rightarrow> bool" where
  "book_inv s \<longleftrightarrow> inv s \<and> distinct (map fst (listed s))"

lemma book_step_refines:
  assumes "book_inv s" "book_step opn cls e s = (r, s')"
  shows "book_inv s' \<and> listed s' = book_effect (stored_op cols e) r (listed s)"
proof -
  have i: "inv s" "distinct (map fst (listed s))" using assms(1) by (simp_all add: book_inv_def)
  show ?thesis
  proof (cases e; cases r)
    fix t assume "e = BookOpen t" "r = None"
    then show ?thesis using assms(2) i opn_err[OF i(1)] by (fastforce simp: book_inv_def)
  next
    fix t k assume "e = BookOpen t" "r = Some k"
    then show ?thesis
      using assms(2) i opn_ok[OF i(1), of t k s'] listed_fresh[OF i(1), of k] by (force simp: book_inv_def)
  next
    fix j c assume "e = BookClose j c" "r = None"
    then show ?thesis using assms(2) i cls_err[OF i(1)] by (fastforce simp: book_inv_def)
  next
    fix j c k assume "e = BookClose j c" "r = Some k"
    then show ?thesis using assms(2) i cls_ok[OF i(1), of j c k s'] by (simp add: book_inv_def distinct_map_filter)
  qed
qed

lemma book_run_refines:
  "book_inv s \<Longrightarrow> book_run (book_step opn cls) es s = (rs, s') \<Longrightarrow>
    book_inv s' \<and> listed s' = spec_run (map (stored_op cols) es) rs (listed s)"
proof (induction es arbitrary: s rs)
  case (Cons e es)
  obtain r s1 where 1: "book_step opn cls e s = (r, s1)" by fastforce
  obtain rs2 where 2: "book_run (book_step opn cls) es s1 = (rs2, s')" "rs = r # rs2"
    using Cons.prems(2) 1 by (auto split: prod.splits)
  show ?case using Cons.IH[OF _ 2(1)] book_step_refines[OF Cons.prems(1) 1] 2(2) by simp
qed simp

end

subsection \<open>The trade table satisfies the contract\<close>

definition store_open :: "trade \<Rightarrow> store \<Rightarrow> int option \<times> store" where
  "store_open t s = apfst result_ok (open_trade (t\<lparr>tr_id := None, tr_status := Open\<rparr>) s)"

definition store_close :: "i64 \<Rightarrow> u64 \<times> trade_result \<Rightarrow> store \<Rightarrow> int option \<times> store" where
  "store_close i wr s = apfst (\<lambda>r. map_option (\<lambda>_. i) (result_ok r)) (close_trade (fst wr) i (snd wr) s)"

definition open_book :: "store \<Rightarrow> (i64 \<times> trade) list" where
  "open_book s = map (\<lambda>r. (row_id r, row_trade r)) (open_rows s)"

definition store_inv :: "store \<Rightarrow> bool" where
  "store_inv s \<longleftrightarrow> (\<forall>r \<in> set (db_trades s). row_id r \<le> db_trade_seq s)"

lemma same_tables_book:
  "same_tables s t \<Longrightarrow> store_inv t = store_inv s \<and> open_book t = open_book s \<and> db_trade_seq t = db_trade_seq s"
  by (simp add: store_inv_def open_book_def open_rows_def same_tables_fields)

lemma open_trade_ok:
  assumes "tr_id t = None" "open_trade t s = (Inr i, s')"
  shows "db_trades s' = db_trades s @ [trade_row_of i t] \<and> i = db_trade_seq s + 1 \<and> db_trade_seq s' = i"
  using assms by (auto simp: open_trade_def sql_call_def Let_def split: list.splits if_splits option.splits)

lemma open_trade_err: "tr_id t = None \<Longrightarrow> open_trade t s = (Inl e, s') \<Longrightarrow> same_tables s s'"
  by (auto simp: open_trade_def sql_call_def Let_def split: list.splits if_splits option.splits)

lemma close_trade_ok:
  assumes "close_trade wall i r s = (Inr u, s')"
  shows "db_trades s' = map (\<lambda>x. if row_id x = i then x\<lparr>row_status := ''closed''\<rparr> else x) (db_trades s) \<and>
    db_trade_seq s' = db_trade_seq s"
  using assms by (auto simp: close_trade_def sql_call_def split: list.splits if_splits option.splits)

lemma close_trade_err: "close_trade wall i r s = (Inl e, s') \<Longrightarrow> same_tables s s'"
  by (auto simp: close_trade_def sql_call_def split: list.splits if_splits option.splits)

lemma closed_rows:
  "map (\<lambda>r. (row_id r, row_trade r)) (filter (\<lambda>r. row_status r = ''open'')
     (map (\<lambda>x. if row_id x = i then x\<lparr>row_status := ''closed''\<rparr> else x) rs)) =
   filter (\<lambda>(k, _). k \<noteq> i) (map (\<lambda>r. (row_id r, row_trade r)) (filter (\<lambda>r. row_status r = ''open'') rs))"
  by (induction rs) auto

interpretation store_book: trade_book store_open store_close open_book db_trade_seq store_inv
  "\<lambda>t. trade_columns (t\<lparr>tr_id := None, tr_status := Open\<rparr>)"
proof
  fix s s' :: store and t i
  assume "store_inv s" "store_open t s = (Some i, s')"
  moreover from this(2) have "open_trade (t\<lparr>tr_id := None, tr_status := Open\<rparr>) s = (Inr i, s')"
    by (cases "open_trade (t\<lparr>tr_id := None, tr_status := Open\<rparr>) s"; cases "fst (open_trade (t\<lparr>tr_id := None, tr_status := Open\<rparr>) s)")
      (auto simp: store_open_def)
  ultimately show "store_inv s' \<and> open_book s' = open_book s @ [(i, trade_columns (t\<lparr>tr_id := None, tr_status := Open\<rparr>))]
      \<and> db_trade_seq s < i \<and> db_trade_seq s' = i"
    using open_trade_ok[of "t\<lparr>tr_id := None, tr_status := Open\<rparr>" s i s']
    by (fastforce simp: store_inv_def open_book_def open_rows_def trade_row_of_def)
next
  fix s s' :: store and t
  assume "store_inv s" "store_open t s = (None, s')"
  moreover from this(2) obtain e where "open_trade (t\<lparr>tr_id := None, tr_status := Open\<rparr>) s = (Inl e, s')"
    by (cases "open_trade (t\<lparr>tr_id := None, tr_status := Open\<rparr>) s"; cases "fst (open_trade (t\<lparr>tr_id := None, tr_status := Open\<rparr>) s)")
      (auto simp: store_open_def)
  ultimately show "store_inv s' \<and> open_book s' = open_book s \<and> db_trade_seq s' = db_trade_seq s"
    using open_trade_err[of "t\<lparr>tr_id := None, tr_status := Open\<rparr>" s] same_tables_book by fastforce
next
  fix s s' :: store and j r i
  assume "store_inv s" "store_close j r s = (Some i, s')"
  moreover from this(2) have "close_trade (fst r) j (snd r) s = (Inr (), s')"
    by (cases "close_trade (fst r) j (snd r) s"; cases "fst (close_trade (fst r) j (snd r) s)") (auto simp: store_close_def)
  ultimately show "store_inv s' \<and> open_book s' = filter (\<lambda>(k, _). k \<noteq> j) (open_book s) \<and> db_trade_seq s' = db_trade_seq s"
    using close_trade_ok by (auto simp: store_inv_def open_book_def open_rows_def closed_rows)
next
  fix s s' :: store and j r
  assume "store_inv s" "store_close j r s = (None, s')"
  moreover from this(2) obtain e where "close_trade (fst r) j (snd r) s = (Inl e, s')"
    by (cases "close_trade (fst r) j (snd r) s"; cases "fst (close_trade (fst r) j (snd r) s)") (auto simp: store_close_def)
  ultimately show "store_inv s' \<and> open_book s' = open_book s \<and> db_trade_seq s' = db_trade_seq s"
    using close_trade_err same_tables_book by blast
next
  fix s :: store and i t
  assume "store_inv s" "(i, t) \<in> set (open_book s)"
  then show "i \<le> db_trade_seq s" by (auto simp: store_inv_def open_book_def open_rows_def)
qed

end
