(* ===== verification/PositionManager.thy ===== *)
theory PositionManager
  imports Executor BankrollMachine TradeStore
begin

section \<open>Position manager\<close>

text \<open>
  \<^verbatim>\<open>src/bots/paint/src/position_manager.rs\<close>: positions opened directly, without the queue, and the settlement of a
  resolved window. The methods work on a desk of the counter of open positions, the store and the bankroll. The
  readings of the clock are arguments; for the settlement loop they are functions of the position in the loop.
\<close>

record desk =
  dk_open_count :: u64
  dk_db :: store
  dk_bank :: bankroll

definition pm_new :: "store \<Rightarrow> bankroll \<Rightarrow> desk" where
  "pm_new s b = \<lparr>dk_open_count = 0, dk_db = s, dk_bank = b\<rparr>"

definition has_duplicate_position :: "trade list \<Rightarrow> signal \<Rightarrow> bool \<Rightarrow> bool" where
  "has_duplicate_position existing sig is_batch =
     (if is_batch then list_ex (\<lambda>t. tr_strategy t = sig_strategy sig \<and> tr_side t = sig_direction sig) existing
      else list_ex (\<lambda>t. tr_strategy t = sig_strategy sig) existing)"

definition trade_entry :: "signal \<Rightarrow> market_window \<Rightarrow> f64 \<times> string" where
  "trade_entry sig w = (case sig_direction sig of
     Up \<Rightarrow> (sig_up_ask sig, mw_up_token_id w) | Down \<Rightarrow> (sig_down_ask sig, mw_down_token_id w))"

definition clamp_to_liquidity :: "f64 \<Rightarrow> f64 \<Rightarrow> f64 \<Rightarrow> bankroll \<Rightarrow> f64 \<times> bankroll" where
  "clamp_to_liquidity reserved_size available entry_price b =
     (if 0 < available \<and> available < reserved_size
      then (available, release_reserved ((reserved_size - available) * entry_price) b)
      else (reserved_size, b))"

definition size_meets_min_bet :: "f64 \<Rightarrow> f64 \<Rightarrow> f64 \<Rightarrow> bool" where
  "size_meets_min_bet sz entry_price min_bet \<longleftrightarrow> min_bet \<le> sz * entry_price"

definition new_position :: "signal \<Rightarrow> market_window \<Rightarrow> f64 \<Rightarrow> string \<Rightarrow> f64 \<Rightarrow> trade" where
  "new_position sig w entry_price token sz = \<lparr>tr_id = None, tr_timestamp = sig_timestamp sig,
     tr_market_id = mw_market_id w, tr_strategy = sig_strategy sig, tr_side = sig_direction sig, tr_token_id = token,
     tr_entry_price = entry_price, tr_size = sz, tr_status = Open, tr_signal_id = None, tr_requested_price = None,
     tr_requested_size = None, tr_filled_size = None, tr_avg_fill_price = None, tr_fill_status = None,
     tr_fill_reason = None, tr_fill_latency_ms = None, tr_execution_group_id = None, tr_execution_fidelity = None,
     tr_execution_mode = None, tr_order_id = None, tr_fill_price = None\<rparr>"

definition can_open_position ::
  "signal \<Rightarrow> market_window \<Rightarrow> bool \<Rightarrow> config \<Rightarrow> u64 \<Rightarrow> desk \<Rightarrow> bool option \<times> desk" where
  "can_open_position sig w is_batch c now x =
     (if max_open_positions c \<le> dk_open_count x then (Some False, x)
      else (case bk_can_trade c now (dk_bank x) of (allowed, b1) \<Rightarrow>
        let x1 = x\<lparr>dk_bank := b1\<rparr> in
        if \<not> allowed then (Some False, x1)
        else (case get_open_trades_for_market (mw_market_id w) (dk_db x1) of
            (Inl err, s1) \<Rightarrow> (None, x1\<lparr>dk_db := s1\<rparr>)
          | (Inr existing, s1) \<Rightarrow> (Some (\<not> has_duplicate_position existing sig is_batch), x1\<lparr>dk_db := s1\<rparr>))))"

definition try_open ::
  "signal \<Rightarrow> market_window \<Rightarrow> bool \<Rightarrow> f64 \<Rightarrow> config \<Rightarrow> u64 \<Rightarrow> u64 \<Rightarrow> desk \<Rightarrow> trade option \<times> desk" where
  "try_open sig w is_batch available c now1 now2 x =
     (case can_open_position sig w is_batch c now1 x of
        (None, x1) \<Rightarrow> (None, x1)
      | (Some False, x1) \<Rightarrow> (None, x1)
      | (Some True, x1) \<Rightarrow>
          (case trade_entry sig w of (entry_price, token) \<Rightarrow>
           (case reserve_capital entry_price (sig_confidence sig) (sig_strategy sig) c now2 (dk_bank x1) of
             (sz, b2) \<Rightarrow>
              if sz \<le> 0 then (None, x1\<lparr>dk_bank := b2\<rparr>)
              else (case clamp_to_liquidity sz available entry_price b2 of (sz', b3) \<Rightarrow>
                if \<not> size_meets_min_bet sz' entry_price (min_bet_usd c)
                then (None, x1\<lparr>dk_bank := release_reserved (sz' * entry_price) b3\<rparr>)
                else let t = new_position sig w entry_price token sz' in
                  (case open_trade t (dk_db x1) of
                     (Inl err, s2) \<Rightarrow> (None, x1\<lparr>dk_db := s2, dk_bank := b3\<rparr>)
                   | (Inr i, s2) \<Rightarrow> (Some (t\<lparr>tr_id := Some i\<rparr>),
                       \<lparr>dk_open_count = dk_open_count x1 + 1, dk_db = s2, dk_bank = b3\<rparr>))))))"

text \<open>The loop over the two legs; a failing insert discards the trades opened so far.\<close>

fun open_legs :: "(signal \<times> f64) list \<Rightarrow> market_window \<Rightarrow> trade list \<Rightarrow> desk \<Rightarrow> trade list \<times> desk" where
  "open_legs [] w opened x = (opened, x)"
| "open_legs ((sig, sz) # legs) w opened x =
     (case trade_entry sig w of (entry_price, token) \<Rightarrow>
      let t = new_position sig w entry_price token sz in
      (case open_trade t (dk_db x) of
         (Inl err, s1) \<Rightarrow> ([], x\<lparr>dk_db := s1\<rparr>)
       | (Inr i, s1) \<Rightarrow> open_legs legs w (opened @ [t\<lparr>tr_id := Some i\<rparr>])
           (x\<lparr>dk_open_count := dk_open_count x + 1, dk_db := s1\<rparr>)))"

definition try_open_spread ::
  "signal list \<Rightarrow> market_window \<Rightarrow> config \<Rightarrow> u64 \<Rightarrow> u64 \<Rightarrow> desk \<Rightarrow> trade list \<times> desk" where
  "try_open_spread sigs w c now1 now2 x =
     (if max_open_positions c < dk_open_count x + 2 then ([], x)
      else (case bk_can_trade c now1 (dk_bank x) of (allowed, b1) \<Rightarrow>
        let x1 = x\<lparr>dk_bank := b1\<rparr> in
        if \<not> allowed then ([], x1)
        else (case (find (\<lambda>s. sig_direction s = Up) sigs, find (\<lambda>s. sig_direction s = Down) sigs) of
          (Some up_sig, Some down_sig) \<Rightarrow>
            (case get_open_trades_for_market (mw_market_id w) (dk_db x1) of
               (Inl err, s1) \<Rightarrow> ([], x1\<lparr>dk_db := s1\<rparr>)
             | (Inr existing, s1) \<Rightarrow>
                 let x2 = x1\<lparr>dk_db := s1\<rparr> in
                 if has_duplicate_position existing up_sig True \<or> has_duplicate_position existing down_sig True
                 then ([], x2)
                 else (case reserve_spread_capital (sig_up_ask up_sig) (sig_down_ask down_sig) (sig_confidence up_sig)
                          c now2 (dk_bank x2) of
                   ((up_tokens, down_tokens), b2) \<Rightarrow>
                     let x3 = x2\<lparr>dk_bank := b2\<rparr> in
                     if up_tokens \<le> 0 \<or> down_tokens \<le> 0 then ([], x3)
                     else open_legs [(up_sig, up_tokens), (down_sig, down_tokens)] w [] x3))
        | _ \<Rightarrow> ([], x1))))"

subsection \<open>Settlement\<close>

definition settlement_result :: "fee_params \<Rightarrow> SignalDirection \<Rightarrow> i64 \<Rightarrow> trade \<Rightarrow> trade_result" where
  "settlement_result fp outcome i t =
     (let settlement_price = (if tr_side t = outcome then 1 else 0);
          gross = (settlement_price - tr_entry_price t) * tr_size t;
          entry_cost = tr_entry_price t * tr_size t;
          fee = compute_taker_fee (tr_entry_price t) (tr_size t) (fee_rate fp) (exponent fp)
      in \<lparr>res_trade_id = i, res_exit_price = settlement_price, res_settlement_price = settlement_price,
          res_pnl_0pct = gross, res_pnl_1pct = gross - entry_cost * f64_lit 0.01,
          res_pnl_2pct = gross - entry_cost * f64_lit 0.02, res_pnl_3pct = gross - entry_cost * f64_lit 0.03,
          res_fee_amount = fee, res_pnl_net = gross - fee, res_settlement_status = ''confirmed'',
          res_provisional_pnl = None\<rparr>)"

definition settle_one :: "fee_params \<Rightarrow> SignalDirection \<Rightarrow> u64 \<Rightarrow> u64 \<Rightarrow> i64 \<Rightarrow> trade \<Rightarrow> desk \<Rightarrow> trade_result \<times> desk" where
  "settle_one fp outcome now wall i t x =
     (let r = settlement_result fp outcome i t;
          s1 = snd (close_trade wall i r (dk_db x))
      in (case apply_trade_result i (tr_entry_price t) (tr_size t) (res_settlement_price r) (res_fee_amount r)
                 (tr_strategy t) now s1 (dk_bank x) of
           (b1, s2) \<Rightarrow> (r, \<lparr>dk_open_count = (if 0 < dk_open_count x then dk_open_count x - 1 else dk_open_count x),
             dk_db = s2, dk_bank = b1\<rparr>)))"

fun settle_all ::
  "fee_params \<Rightarrow> SignalDirection \<Rightarrow> (nat \<Rightarrow> u64) \<Rightarrow> (nat \<Rightarrow> u64) \<Rightarrow> nat \<Rightarrow> trade list \<Rightarrow> desk \<Rightarrow>
     (trade \<times> trade_result) list \<times> desk" where
  "settle_all fp outcome now wall k [] x = ([], x)"
| "settle_all fp outcome now wall k (t # ts) x = (case tr_id t of
     None \<Rightarrow> settle_all fp outcome now wall (Suc k) ts x
   | Some i \<Rightarrow> (case settle_one fp outcome (now k) (wall k) i t x of
       (r, x1) \<Rightarrow> (case settle_all fp outcome now wall (Suc k) ts x1 of (rs, x2) \<Rightarrow> ((t, r) # rs, x2))))"

fun outcome_label :: "SignalDirection \<Rightarrow> string" where
  "outcome_label Up = ''UP''"
| "outcome_label Down = ''DOWN''"

definition mark_resolved :: "market_window \<Rightarrow> SignalDirection \<Rightarrow> desk \<Rightarrow> desk" where
  "mark_resolved w outcome x =
     x\<lparr>dk_db := snd (resolve_market_with_outcome (mw_market_id w) ''resolved'' (outcome_label outcome) (dk_db x))\<rparr>"

definition resolve_window_with_outcome ::
  "(string \<Rightarrow> fee_schedule option) \<Rightarrow> market_window \<Rightarrow> SignalDirection \<Rightarrow> config \<Rightarrow> (nat \<Rightarrow> u64) \<Rightarrow> (nat \<Rightarrow> u64) \<Rightarrow>
     desk \<Rightarrow> (trade \<times> trade_result) list \<times> desk" where
  "resolve_window_with_outcome parse w outcome c now wall x =
     (case get_open_trades_for_market (mw_market_id w) (dk_db x) of
        (Inl err, s1) \<Rightarrow> ([], mark_resolved w outcome (x\<lparr>dk_db := s1\<rparr>))
      | (Inr trades, s1) \<Rightarrow>
          if trades = [] then ([], mark_resolved w outcome (x\<lparr>dk_db := s1\<rparr>))
          else (case settle_all (resolve_fee_params parse c (Some w) (mw_end_time w)) outcome now wall 0 trades
                  (x\<lparr>dk_db := s1\<rparr>) of
             (rs, x2) \<Rightarrow> (rs, mark_resolved w outcome x2)))"

definition resolve_window ::
  "(string \<Rightarrow> fee_schedule option) \<Rightarrow> market_window \<Rightarrow> f64 \<Rightarrow> f64 \<Rightarrow> config \<Rightarrow> (nat \<Rightarrow> u64) \<Rightarrow> (nat \<Rightarrow> u64) \<Rightarrow>
     desk \<Rightarrow> (trade \<times> trade_result) list \<times> desk" where
  "resolve_window parse w open_price close_price c now wall x =
     resolve_window_with_outcome parse w (if open_price \<le> close_price then Up else Down) c now wall x"

end
