(* ===== verification/Settlement.thy ===== *)
theory Settlement
  imports PositionManager OrderQueue
begin

section \<open>Behaviour of the position manager\<close>

text \<open>
  The desk as a step relation. On every reachable desk the counter of open positions is within the limit and the
  reserve ledger holds. A resolved window settles every open trade of its market once, in order, and the bankroll
  changes as the in-memory results say; without faults no trade of the market stays open.
\<close>

subsection \<open>Opening positions\<close>

lemma can_open_frame:
  assumes "can_open_position sig w is_batch c now x = (r, x1)"
  shows "dk_open_count x1 = dk_open_count x" "r = Some True \<Longrightarrow> dk_open_count x < max_open_positions c"
    "dk_bank x1 = dk_bank x \<or> dk_bank x1 = snd (bk_can_trade c now (dk_bank x))"
  using assms by (auto simp: can_open_position_def Let_def case_prod_beta not_le split: if_splits sum.splits prod.splits)

lemma try_open_count:
  assumes "try_open sig w is_batch available c now1 now2 x = (r, x')"
  shows "dk_open_count x' = (if r = None then dk_open_count x else dk_open_count x + 1)"
    "r \<noteq> None \<Longrightarrow> dk_open_count x < max_open_positions c"
proof -
  obtain q x1 where q: "can_open_position sig w is_batch c now1 x = (q, x1)" by fastforce
  note f = can_open_frame(1,2)[OF q]
  show "dk_open_count x' = (if r = None then dk_open_count x else dk_open_count x + 1)"
    "r \<noteq> None \<Longrightarrow> dk_open_count x < max_open_positions c"
    using assms f by (auto simp: try_open_def q Let_def split: option.splits bool.splits prod.splits if_splits sum.splits)
qed

lemma clamp_ledger: "ledger_ok b \<Longrightarrow> clamp_to_liquidity sz av p b = (sz', b') \<Longrightarrow> ledger_ok b'"
  by (auto simp: clamp_to_liquidity_def release_ledger split: if_splits)

lemma can_open_ledger:
  "can_open_position sig w is_batch c now x = (r, x1) \<Longrightarrow> ledger_ok (dk_bank x) \<Longrightarrow> ledger_ok (dk_bank x1)"
  using can_open_frame(3) can_trade_ledger by metis

lemma try_open_ledger:
  assumes "try_open sig w is_batch available c now1 now2 x = (r, x')" "ledger_ok (dk_bank x)"
    and nn: "\<not> is_nan (fst (trade_entry sig w))"
  shows "ledger_ok (dk_bank x')"
proof -
  obtain q x1 where q: "can_open_position sig w is_batch c now1 x = (q, x1)" by fastforce
  obtain p tok where e: "trade_entry sig w = (p, tok)" by fastforce
  obtain sz b2 where b2: "reserve_capital p (sig_confidence sig) (sig_strategy sig) c now2 (dk_bank x1) = (sz, b2)" by fastforce
  obtain sz' b3 where b3: "clamp_to_liquidity sz available p b2 = (sz', b3)" by fastforce
  have 1: "ledger_ok (dk_bank x1)" by (rule can_open_ledger[OF q assms(2)])
  have 2: "ledger_ok b2" using reserve_ledger[OF 1, of p p] b2 nn e by (simp add: reserve_capital_def) (metis snd_conv)
  have 3: "ledger_ok b3" by (rule clamp_ledger[OF 2 b3])
  show ?thesis using assms(1) 1 2 3 release_ledger[OF 3]
    by (auto simp: try_open_def q e b2 b3 Let_def split: option.splits bool.splits prod.splits if_splits sum.splits)
qed

lemma open_legs_frame:
  "open_legs legs w opened x = (ts, x') \<Longrightarrow> dk_bank x' = dk_bank x \<and>
    (\<exists>k \<le> length legs. dk_open_count x' = dk_open_count x + of_nat k)"
proof (induction legs arbitrary: opened x)
  case (Cons leg legs)
  obtain sig sz where leg: "leg = (sig, sz)" by fastforce
  obtain p tok where e: "trade_entry sig w = (p, tok)" by fastforce
  obtain r s1 where o: "open_trade (new_position sig w p tok sz) (dk_db x) = (r, s1)" by fastforce
  show ?case
  proof (cases r)
    case (Inl err)
    then show ?thesis using Cons.prems by (auto simp: leg e o intro!: exI[of _ 0])
  next
    case (Inr i)
    from Cons.IH[of "opened @ [(new_position sig w p tok sz)\<lparr>tr_id := Some i\<rparr>]"
        "x\<lparr>dk_open_count := dk_open_count x + 1, dk_db := s1\<rparr>"] Cons.prems Inr obtain k where
      "dk_bank x' = dk_bank x" "k \<le> length legs" "dk_open_count x' = dk_open_count x + 1 + of_nat k"
      by (auto simp: leg e o Let_def)
    then show ?thesis by (intro conjI exI[of _ "Suc k"]) (simp_all add: algebra_simps)
  qed
qed (auto intro: exI[of _ 0])

lemma try_open_spread_cases:
  assumes "try_open_spread sigs w c now1 now2 x = (ts, x')"
  obtains (blocked) "ts = []" "dk_open_count x' = dk_open_count x"
      "dk_bank x' = dk_bank x \<or> dk_bank x' = snd (bk_can_trade c now1 (dk_bank x))"
  | (reserved) u d conf t k where "u \<in> set sigs" "d \<in> set sigs" "\<not> max_open_positions c < dk_open_count x + 2" "k \<le> 2"
      "dk_open_count x' = dk_open_count x + of_nat k"
      "reserve_spread_capital (sig_up_ask u) (sig_down_ask d) conf c now2 (snd (bk_can_trade c now1 (dk_bank x))) = (t, dk_bank x')"
proof -
  let ?b1 = "snd (bk_can_trade c now1 (dk_bank x))" and ?u = "find (\<lambda>s. sig_direction s = Up) sigs"
    and ?d = "find (\<lambda>s. sig_direction s = Down) sigs"
  obtain g s1 where g: "get_open_trades_for_market (mw_market_id w) (dk_db x) = (g, s1)" by fastforce
  note eqs = try_open_spread_def Let_def case_prod_beta g
  show thesis
  proof (cases "\<not> max_open_positions c < dk_open_count x + 2 \<and> (\<exists>u d existing. ?u = Some u \<and> ?d = Some d \<and> g = Inr existing \<and>
      fst (bk_can_trade c now1 (dk_bank x)) \<and>
      \<not> (has_duplicate_position existing u True \<or> has_duplicate_position existing d True))")
    case False
    then show thesis using assms blocked
      by (auto simp: eqs split: if_splits option.splits sum.splits)
  next
    case True
    then obtain u d existing where ud: "?u = Some u" "?d = Some d" "g = Inr existing" "fst (bk_can_trade c now1 (dk_bank x))"
      "\<not> has_duplicate_position existing u True" "\<not> has_duplicate_position existing d True"
      "\<not> max_open_positions c < dk_open_count x + 2" by blast
    obtain t1 t2 b2 where r: "reserve_spread_capital (sig_up_ask u) (sig_down_ask d) (sig_confidence u) c now2 ?b1 = ((t1, t2), b2)"
      by (metis surj_pair)
    obtain b1 where can: "bk_can_trade c now1 (dk_bank x) = (True, b1)" using ud(4) by (metis surjective_pairing)
    have mem: "u \<in> set sigs" "d \<in> set sigs" using ud(1,2) by (auto simp: find_Some_iff)
    let ?x3 = "x\<lparr>dk_bank := b1, dk_db := s1, dk_bank := b2\<rparr>"
    have x': "(ts, x') = (if t1 \<le> 0 \<or> t2 \<le> 0 then ([], ?x3) else open_legs [(u, t1), (d, t2)] w [] ?x3)"
      using assms ud r by (simp add: try_open_spread_def Let_def g can del: open_legs.simps)
    show thesis
    proof (cases "t1 \<le> 0 \<or> t2 \<le> 0")
      case True
      then show thesis using reserved[OF mem ud(7), of 0] x' r by simp
    next
      case False
      then have "open_legs [(u, t1), (d, t2)] w [] ?x3 = (ts, x')" using x' by simp
      from open_legs_frame[OF this] obtain k where
        k: "k \<le> 2" "dk_open_count x' = dk_open_count x + of_nat k" "dk_bank x' = b2" by (auto simp: numeral_2_eq_2)
      show thesis by (rule reserved[OF mem ud(7) k(1,2)]) (use r k(3) in simp)
    qed
  qed
qed

subsection \<open>Settlement\<close>

text \<open>The change of the bankroll by one settled trade.\<close>

definition settle_bank :: "fee_params \<Rightarrow> SignalDirection \<Rightarrow> trade \<Rightarrow> bankroll \<Rightarrow> bankroll" where
  "settle_bank fp outcome t b = snd (apply_trade_result_in_memory (tr_entry_price t) (tr_size t)
     (if tr_side t = outcome then 1 else 0)
     (compute_taker_fee (tr_entry_price t) (tr_size t) (fee_rate fp) (exponent fp)) (tr_strategy t) b)"

lemma settle_one_effect:
  assumes "settle_one fp outcome now wall i t x = (r, x')"
  shows "r = settlement_result fp outcome i t" "dk_bank x' = settle_bank fp outcome t (dk_bank x)"
    "dk_open_count x' = (if 0 < dk_open_count x then dk_open_count x - 1 else 0)"
    "\<exists>amount balance. dk_db x' = snd (log_balance_event now ''trade_close'' (Some i) amount balance
       (snd (close_trade wall i r (dk_db x))))"
proof -
  let ?s1 = "snd (close_trade wall i (settlement_result fp outcome i t) (dk_db x))"
  let ?a = "apply_trade_result i (tr_entry_price t) (tr_size t) (res_settlement_price (settlement_result fp outcome i t))
       (res_fee_amount (settlement_result fp outcome i t)) (tr_strategy t) now ?s1 (dk_bank x)"
  have eq: "r = settlement_result fp outcome i t" "x' = \<lparr>dk_open_count = (if 0 < dk_open_count x then dk_open_count x - 1 else dk_open_count x),
      dk_db = snd ?a, dk_bank = fst ?a\<rparr>"
    using assms by (auto simp: settle_one_def Let_def case_prod_beta)
  show "r = settlement_result fp outcome i t" by (rule eq)
  show "dk_bank x' = settle_bank fp outcome t (dk_bank x)"
    by (simp add: eq apply_trade_result_refines settle_bank_def settlement_result_def Let_def)
  show "dk_open_count x' = (if 0 < dk_open_count x then dk_open_count x - 1 else 0)"
    by (simp add: eq word_neq_0_conv[symmetric])
  show "\<exists>amount balance. dk_db x' = snd (log_balance_event now ''trade_close'' (Some i) amount balance
       (snd (close_trade wall i r (dk_db x))))"
    by (simp add: eq apply_trade_result_def Let_def) blast
qed

lemma settle_all_effect:
  assumes "settle_all fp outcome now wall k ts x = (rs, x')" "\<forall>t \<in> set ts. tr_id t \<noteq> None"
  shows "map fst rs = ts" "list_all (\<lambda>(t, r). r = settlement_result fp outcome (the (tr_id t)) t) rs"
    "dk_bank x' = fold (settle_bank fp outcome) ts (dk_bank x)" "dk_open_count x' \<le> dk_open_count x"
proof -
  have "map fst rs = ts \<and> list_all (\<lambda>(t, r). r = settlement_result fp outcome (the (tr_id t)) t) rs \<and>
    dk_bank x' = fold (settle_bank fp outcome) ts (dk_bank x) \<and> dk_open_count x' \<le> dk_open_count x"
    using assms
  proof (induction ts arbitrary: k x rs)
    case (Cons t ts)
    obtain i where i: "tr_id t = Some i" using Cons.prems(2) by auto
    obtain r x1 where 1: "settle_one fp outcome (now k) (wall k) i t x = (r, x1)" by fastforce
    obtain rs2 where 2: "settle_all fp outcome now wall (Suc k) ts x1 = (rs2, x')" "rs = (t, r) # rs2"
      using Cons.prems(1) i 1 by (auto split: prod.splits)
    have "dk_open_count x1 \<le> dk_open_count x"
      by (simp add: settle_one_effect(3)[OF 1] word_le_nat_alt unat_minus_one word_neq_0_conv)
    then show ?case using Cons.IH[OF 2(1)] Cons.prems(2) settle_one_effect(1,2)[OF 1] 2(2) i by auto
  qed simp
  then show "map fst rs = ts" "list_all (\<lambda>(t, r). r = settlement_result fp outcome (the (tr_id t)) t) rs"
    "dk_bank x' = fold (settle_bank fp outcome) ts (dk_bank x)" "dk_open_count x' \<le> dk_open_count x" by blast+
qed

lemma collect_rows_Inr_iff: "collect_rows rs = Inr xs \<longleftrightarrow> rs = map Inr xs"
  by (induction rs arbitrary: xs rule: collect_rows.induct) (auto simp: collect_rows_Inr split: sum.splits)

lemma get_open_rows:
  assumes "get_open_trades_for_market m s = (Inr ts, s1)"
  shows "map trade_of_row (open_rows_for_market m s) = map Inr ts" "same_tables s s1" "\<forall>t \<in> set ts. tr_id t \<noteq> None"
proof -
  show r: "map trade_of_row (open_rows_for_market m s) = map Inr ts"
    using assms by (auto simp: get_open_trades_for_market_def sql_call_def collect_rows_Inr_iff open_rows_for_market_def
        split: list.splits if_splits)
  show "same_tables s s1" using read_only_ops(1)[of s m] assms by simp
  show "\<forall>t \<in> set ts. tr_id t \<noteq> None"
  proof
    fix t assume "t \<in> set ts"
    then have "Inr t \<in> set (map trade_of_row (open_rows_for_market m s))" using r by simp
    then show "tr_id t \<noteq> None" by (auto simp: trade_of_row_def split: sum.splits)
  qed
qed

lemma mark_resolved_frame [simp]:
  "dk_bank (mark_resolved w outcome x) = dk_bank x" "dk_open_count (mark_resolved w outcome x) = dk_open_count x"
  by (simp_all add: mark_resolved_def)

lemma resolve_effect:
  assumes "resolve_window_with_outcome parse w outcome c now wall x = (rs, x')"
    and "get_open_trades_for_market (mw_market_id w) (dk_db x) = (Inr ts, s1)"
    and "fp = resolve_fee_params parse c (Some w) (mw_end_time w)"
  shows "map fst rs = ts" "list_all (\<lambda>(t, r). r = settlement_result fp outcome (the (tr_id t)) t) rs"
    "dk_bank x' = fold (settle_bank fp outcome) ts (dk_bank x)" "dk_open_count x' \<le> dk_open_count x"
proof -
  obtain rs2 x2 where a: "settle_all fp outcome now wall 0 ts (x\<lparr>dk_db := s1\<rparr>) = (rs2, x2)" by fastforce
  have x': "rs = rs2 \<and> x' = mark_resolved w outcome x2"
    using assms(1) a by (cases "ts = []") (auto simp: resolve_window_with_outcome_def assms(2) assms(3)[symmetric])
  show "map fst rs = ts" "list_all (\<lambda>(t, r). r = settlement_result fp outcome (the (tr_id t)) t) rs"
    "dk_bank x' = fold (settle_bank fp outcome) ts (dk_bank x)" "dk_open_count x' \<le> dk_open_count x"
    using settle_all_effect[OF a get_open_rows(3)[OF assms(2)]] x' by simp_all
qed

lemma resolve_error_effect:
  assumes "resolve_window_with_outcome parse w outcome c now wall x = (rs, x')"
    and "get_open_trades_for_market (mw_market_id w) (dk_db x) = (Inl e, s1)"
  shows "dk_bank x' = dk_bank x" "dk_open_count x' = dk_open_count x" "rs = []"
  using assms by (auto simp: resolve_window_with_outcome_def)

subsection \<open>Reachable desks\<close>

text \<open>The methods of the manager as steps; the quotes of the signals are numbers.\<close>

inductive desk_step :: "config \<Rightarrow> desk \<Rightarrow> desk \<Rightarrow> bool" for c where
  open_one: "try_open sig w is_batch available c now1 now2 x = (r, x') \<Longrightarrow> \<not> is_nan (fst (trade_entry sig w)) \<Longrightarrow> desk_step c x x'"
| open_pair: "try_open_spread sigs w c now1 now2 x = (ts, x') \<Longrightarrow>
    \<forall>s \<in> set sigs. \<not> is_nan (sig_up_ask s) \<and> \<not> is_nan (sig_down_ask s) \<Longrightarrow> desk_step c x x'"
| resolve: "resolve_window_with_outcome parse w outcome c now wall x = (rs, x') \<Longrightarrow> desk_step c x x'"

inductive_cases desk_stepE: "desk_step c x x'"

lemma settle_bank_ledger: "ledger_ok b \<Longrightarrow> ledger_ok (settle_bank fp outcome t b)"
  by (simp add: settle_bank_def apply_result_ledger)

lemma fold_settle_ledger: "ledger_ok b \<Longrightarrow> ledger_ok (fold (settle_bank fp outcome) ts b)"
  by (induction ts arbitrary: b) (simp_all add: settle_bank_ledger)

lemma resolve_count_ledger:
  assumes "resolve_window_with_outcome parse w outcome c now wall x = (rs, x')"
  shows "dk_open_count x' \<le> dk_open_count x \<and> (ledger_ok (dk_bank x) \<longrightarrow> ledger_ok (dk_bank x'))"
proof -
  obtain g s1 where g: "get_open_trades_for_market (mw_market_id w) (dk_db x) = (g, s1)" by fastforce
  show ?thesis
  proof (cases g)
    case (Inl e)
    then show ?thesis using resolve_error_effect[OF assms] g by simp
  next
    case (Inr ts)
    then show ?thesis using resolve_effect[OF assms _ refl] g fold_settle_ledger by simp
  qed
qed

lemma desk_step_ledger: "desk_step c x x' \<Longrightarrow> ledger_ok (dk_bank x) \<Longrightarrow> ledger_ok (dk_bank x')"
proof (induction rule: desk_step.induct)
  case (open_one sig w is_batch available now1 now2 x r x')
  then show ?case using try_open_ledger by blast
next
  case (open_pair sigs w now1 now2 x ts x')
  from open_pair.hyps(1) show ?case
  proof (cases rule: try_open_spread_cases)
    case blocked
    then show ?thesis using open_pair.prems can_trade_ledger by metis
  next
    case (reserved u d conf t k)
    then show ?thesis
      using spread_ledger[OF can_trade_ledger[OF open_pair.prems], of "sig_up_ask u" "sig_down_ask d"] open_pair.hyps(2)
      by (metis reserve_spread_capital_def snd_conv)
  qed
next
  case (resolve parse w outcome now wall x rs x')
  then show ?case using resolve_count_ledger by blast
qed

lemma desk_step_count:
  assumes fits: "unat (max_open_positions c) + 2 < 2 ^ 64"
  shows "desk_step c x x' \<Longrightarrow> dk_open_count x \<le> max_open_positions c \<Longrightarrow> dk_open_count x' \<le> max_open_positions c"
proof (induction rule: desk_step.induct)
  case (open_one sig w is_batch available now1 now2 x r x')
  show ?case using try_open_count[OF open_one.hyps(1)] open_one.prems inc_le[of "dk_open_count x" "max_open_positions c"]
    by (cases r) simp_all
next
  case (open_pair sigs w now1 now2 x ts x')
  from open_pair.hyps(1) show ?case
  proof (cases rule: try_open_spread_cases)
    case blocked
    then show ?thesis using open_pair.prems by simp
  next
    case (reserved u d conf t k)
    have le: "unat (dk_open_count x) \<le> unat (max_open_positions c)" using open_pair.prems by (simp add: word_le_nat_alt)
    have add: "unat (dk_open_count x + of_nat n) = unat (dk_open_count x) + n" if "n \<le> 2" for n
      using that le fits by (simp add: unat_word_ariths unat_of_nat)
    have "unat (dk_open_count x) + 2 \<le> unat (max_open_positions c)"
      using reserved(3) add[of 2] by (simp add: word_le_nat_alt not_less)
    then show ?thesis using reserved(4) add[OF reserved(4)] by (simp add: reserved(5) word_le_nat_alt)
  qed
next
  case (resolve parse w outcome now wall x rs x')
  then show ?case using resolve_count_ledger order_trans by blast
qed

lemma desk_reachable:
  assumes "(desk_step c)\<^sup>*\<^sup>* x x'" "unat (max_open_positions c) + 2 < 2 ^ 64"
    and "dk_open_count x \<le> max_open_positions c" "ledger_ok (dk_bank x)"
  shows "dk_open_count x' \<le> max_open_positions c \<and> ledger_ok (dk_bank x')"
  using assms(1) by (induction rule: rtranclp_induct) (use assms desk_step_count desk_step_ledger in blast)+

subsection \<open>A resolved market has no open trades\<close>

definition storable :: "trade_result \<Rightarrow> bool" where
  "storable r \<longleftrightarrow> \<not> is_nan (res_settlement_price r) \<and> \<not> is_nan (res_pnl_0pct r) \<and> \<not> is_nan (res_pnl_1pct r) \<and>
     \<not> is_nan (res_pnl_2pct r) \<and> \<not> is_nan (res_pnl_3pct r)"

definition mark_closed :: "i64 set \<Rightarrow> trade_row \<Rightarrow> trade_row" where
  "mark_closed ids r = (if row_id r \<in> ids then r\<lparr>row_status := ''closed''\<rparr> else r)"

lemma row_id_mark_closed [simp]: "row_id (mark_closed ids r) = row_id r"
  by (simp add: mark_closed_def)

lemma log_balance_frame:
  assumes "db_faults s = []"
  shows "db_trades (snd (log_balance_event now e i a b s)) = db_trades s"
    "db_results (snd (log_balance_event now e i a b s)) = db_results s"
    "db_faults (snd (log_balance_event now e i a b s)) = []"
  using assms by (simp_all add: log_balance_event_def sql_call_def)

lemma close_trade_no_fault:
  assumes "db_faults s = []" "unat wall < 2 ^ 63" "storable r" "i \<notin> rr_trade_id ` set (db_results s)"
    and "i \<in> row_id ` set (db_trades s)"
  shows "db_trades (snd (close_trade wall i r s)) = map (mark_closed {i}) (db_trades s)"
    "rr_trade_id ` set (db_results (snd (close_trade wall i r s))) = insert i (rr_trade_id ` set (db_results s))"
    "db_faults (snd (close_trade wall i r s)) = []"
proof -
  have "\<not> (\<exists>x \<in> set (db_results s). rr_trade_id x = i)" "\<exists>x \<in> set (db_trades s). row_id x = i"
    using assms(4,5) by (blast, blast)
  then have ok: "close_trade_error i r s = None" using assms(3) by (simp add: close_trade_error_def storable_def)
  show "db_trades (snd (close_trade wall i r s)) = map (mark_closed {i}) (db_trades s)"
    "rr_trade_id ` set (db_results (snd (close_trade wall i r s))) = insert i (rr_trade_id ` set (db_results s))"
    "db_faults (snd (close_trade wall i r s)) = []"
    using assms(1,2) by (auto simp: close_trade_def sql_call_def ok mark_closed_def)
qed

lemma settle_all_closes:
  assumes "settle_all fp outcome now wall k ts x = (rs, x')" "db_faults (dk_db x) = []"
    and "\<forall>n. unat (wall n) < 2 ^ 63" "distinct (map tr_id ts)"
    and "\<forall>t \<in> set ts. \<exists>i. tr_id t = Some i \<and> storable (settlement_result fp outcome i t) \<and>
      i \<in> row_id ` set (db_trades (dk_db x)) \<and> i \<notin> rr_trade_id ` set (db_results (dk_db x))"
  shows "db_trades (dk_db x') = map (mark_closed {i. Some i \<in> tr_id ` set ts}) (db_trades (dk_db x)) \<and> db_faults (dk_db x') = []"
  using assms
proof (induction ts arbitrary: k x rs)
  case Nil
  then show ?case by (simp add: mark_closed_def[abs_def])
next
  case (Cons t ts)
  obtain i where i: "tr_id t = Some i" "storable (settlement_result fp outcome i t)"
    "i \<in> row_id ` set (db_trades (dk_db x))" "i \<notin> rr_trade_id ` set (db_results (dk_db x))"
    using Cons.prems(5) by auto
  obtain r x1 where 1: "settle_one fp outcome (now k) (wall k) i t x = (r, x1)" by fastforce
  obtain rs2 where 2: "settle_all fp outcome now wall (Suc k) ts x1 = (rs2, x')"
    using Cons.prems(1) i 1 by (auto split: prod.splits)
  let ?s = "snd (close_trade (wall k) i r (dk_db x))"
  have cl: "db_trades ?s = map (mark_closed {i}) (db_trades (dk_db x))"
    "rr_trade_id ` set (db_results ?s) = insert i (rr_trade_id ` set (db_results (dk_db x)))" "db_faults ?s = []"
    using close_trade_no_fault[OF Cons.prems(2) spec[OF Cons.prems(3)] i(2,4,3), of k] settle_one_effect(1)[OF 1] by simp_all
  obtain a b where db: "dk_db x1 = snd (log_balance_event (now k) ''trade_close'' (Some i) a b ?s)"
    using settle_one_effect(4)[OF 1] by blast
  note x1 = log_balance_frame[OF cl(3), of "now k" "''trade_close''" "Some i" a b, folded db]
  have "\<forall>t' \<in> set ts. \<exists>j. tr_id t' = Some j \<and> storable (settlement_result fp outcome j t') \<and>
      j \<in> row_id ` set (db_trades (dk_db x1)) \<and> j \<notin> rr_trade_id ` set (db_results (dk_db x1))"
  proof
    fix t' assume t': "t' \<in> set ts"
    then obtain j where j: "tr_id t' = Some j" "storable (settlement_result fp outcome j t')"
      "j \<in> row_id ` set (db_trades (dk_db x))" "j \<notin> rr_trade_id ` set (db_results (dk_db x))"
      using Cons.prems(5) by auto
    have "j \<noteq> i" using Cons.prems(4) t' i(1) j(1) by force
    moreover have "row_id ` set (map (mark_closed {i}) rows) = row_id ` set rows" for rows
      by (simp add: image_image row_id_mark_closed)
    ultimately show "\<exists>j. tr_id t' = Some j \<and> storable (settlement_result fp outcome j t') \<and>
      j \<in> row_id ` set (db_trades (dk_db x1)) \<and> j \<notin> rr_trade_id ` set (db_results (dk_db x1))"
      using j cl(2) by (simp add: x1 cl(1)) 
  qed
  then have "db_trades (dk_db x') = map (mark_closed {i. Some i \<in> tr_id ` set ts}) (db_trades (dk_db x1)) \<and> db_faults (dk_db x') = []"
    using Cons.IH[OF 2] Cons.prems(3,4) x1(3) by simp
  then show ?case by (simp add: x1 cl(1) i(1)) (auto simp: mark_closed_def)
qed

lemma resolve_closes:
  assumes r: "resolve_window_with_outcome parse w outcome c now wall x = (rs, x')"
    and g: "get_open_trades_for_market (mw_market_id w) (dk_db x) = (Inr ts, dk_db x)"
    and "db_faults (dk_db x) = []" "\<forall>n. unat (wall n) < 2 ^ 63" "distinct (map row_id (db_trades (dk_db x)))"
    and st: "\<forall>t \<in> set ts. \<forall>i. tr_id t = Some i \<longrightarrow>
      storable (settlement_result (resolve_fee_params parse c (Some w) (mw_end_time w)) outcome i t) \<and>
      i \<notin> rr_trade_id ` set (db_results (dk_db x))"
  shows "open_rows_for_market (mw_market_id w) (dk_db x') = []"
proof -
  let ?fp = "resolve_fee_params parse c (Some w) (mw_end_time w)" and ?rows = "open_rows_for_market (mw_market_id w) (dk_db x)"
  have rows: "map trade_of_row ?rows = map Inr ts" by (rule get_open_rows(1)[OF g])
  have ids: "map tr_id ts = map (Some \<circ> row_id) ?rows"
  proof -
    have "map (\<lambda>r. tr_id (sum.projr (trade_of_row r))) ?rows = map tr_id ts"
      using arg_cong[OF rows, of "map (\<lambda>z. tr_id (sum.projr z))"] by (simp add: comp_def)
    moreover have "tr_id (sum.projr (trade_of_row r)) = Some (row_id r)" if "r \<in> set ?rows" for r
    proof -
      have "trade_of_row r \<in> set (map Inr ts)" unfolding rows[symmetric] using that by simp
      then show ?thesis by (auto simp: trade_of_row_def split: sum.splits)
    qed
    ultimately show ?thesis by (metis (mono_tags, lifting) comp_apply map_eq_conv)
  qed
  have dist: "distinct (map tr_id ts)"
    using assms(5) unfolding ids open_rows_for_market_def by (simp add: distinct_map_filter distinct_map comp_def inj_on_def)
  have mem: "\<forall>t \<in> set ts. \<exists>i. tr_id t = Some i \<and> storable (settlement_result ?fp outcome i t) \<and>
      i \<in> row_id ` set (db_trades (dk_db x)) \<and> i \<notin> rr_trade_id ` set (db_results (dk_db x))"
  proof
    fix t assume t: "t \<in> set ts"
    then have "tr_id t \<in> set (map (Some \<circ> row_id) ?rows)" unfolding ids[symmetric] by simp
    then obtain i where "tr_id t = Some i" "i \<in> row_id ` set (db_trades (dk_db x))"
      by (auto simp: open_rows_for_market_def)
    then show "\<exists>i. tr_id t = Some i \<and> storable (settlement_result ?fp outcome i t) \<and>
      i \<in> row_id ` set (db_trades (dk_db x)) \<and> i \<notin> rr_trade_id ` set (db_results (dk_db x))" using st t by blast
  qed
  obtain rs2 x2 where a: "settle_all ?fp outcome now wall 0 ts x = (rs2, x2)" by fastforce
  have x': "x' = mark_resolved w outcome x2"
    using r a by (cases "ts = []") (auto simp: resolve_window_with_outcome_def g)
  have trades: "db_trades (dk_db x') = map (mark_closed {i. Some i \<in> tr_id ` set ts}) (db_trades (dk_db x))"
    using settle_all_closes[OF a assms(3,4) dist mem]
    by (simp add: x' mark_resolved_def resolve_market_with_outcome_def sql_call_def)
  have set_ids: "tr_id ` set ts = (Some \<circ> row_id) ` set ?rows" using arg_cong[OF ids, of set] by simp
  show ?thesis
    by (auto simp: open_rows_for_market_def trades mark_closed_def set_ids filter_empty_conv)
qed

subsection \<open>Reading an opened trade back\<close>

definition opt_numbers :: "trade \<Rightarrow> bool" where
  "opt_numbers t \<longleftrightarrow> list_all (\<lambda>x. is_none_or x (\<lambda>v. \<not> is_nan v))
     [tr_fill_price t, tr_requested_price t, tr_requested_size t, tr_filled_size t, tr_avg_fill_price t]"

lemma sql_real_opt_id: "is_none_or x (\<lambda>v. \<not> is_nan v) \<Longrightarrow> sql_real_opt x = x"
  by (cases x) (simp_all add: sql_real_opt_def sql_real_def)

lemma trade_row_roundtrip: "opt_numbers t \<Longrightarrow> trade_of_row (trade_row_of i t) = Inr (t\<lparr>tr_id := Some i\<rparr>)"
  by (cases "tr_side t"; cases "tr_status t")
    (simp_all add: trade_of_row_def trade_row_of_def trade_columns_def direction_from_str_def trade_status_from_str_def
      opt_numbers_def sql_real_opt_id)

lemma opened_trade_listed:
  assumes "open_trade t s = (Inr i, s1)" "tr_id t = None" "tr_status t = Open" "opt_numbers t"
    and "get_open_trades_for_market (tr_market_id t) s1 = (Inr ts, s2)"
  shows "ts \<noteq> [] \<and> last ts = t\<lparr>tr_id := Some i\<rparr>"
proof -
  obtain rows where "db_trades s1 = rows @ [trade_row_of i t]"
    using assms(1,2) by (auto simp: open_trade_def sql_call_def Let_def split: if_splits list.splits option.splits)
  then have rows: "open_rows_for_market (tr_market_id t) s1 =
      filter (\<lambda>r. tr_market_id (row_trade r) = tr_market_id t \<and> row_status r = ''open'') rows @ [trade_row_of i t]"
    using assms(3) by (simp add: open_rows_for_market_def trade_row_of_def trade_columns_def)
  have "map trade_of_row (open_rows_for_market (tr_market_id t) s1) = map Inr ts"
    by (rule get_open_rows(1)[OF assms(5)])
  then have "map Inr ts = map trade_of_row (filter (\<lambda>r. tr_market_id (row_trade r) = tr_market_id t \<and> row_status r = ''open'') rows)
      @ [Inr (t\<lparr>tr_id := Some i\<rparr>)]" by (simp add: rows trade_row_roundtrip[OF assms(4)])
  then show ?thesis by (cases ts rule: rev_cases) auto
qed

end
