(* ===== verification/Strategies.thy ===== *)
theory Strategies
  imports Fees Portfolio Rounding
begin

section \<open>Strategies\<close>

text \<open>
  \<^verbatim>\<open>src/bots/paint/src/strategies\<close>: the three signal generators. A strategy maps a context, the configuration and the
  time to a rejection with its reason, one signal, or the two legs of a spread. Only the latency strategy keeps state.
  A panic of the code (a slice or an index out of range, a clamp with an empty interval) is the value \<open>None\<close>.
\<close>

datatype StrategyResult = NoResult | Rejected rejection | Single signal | Batch "signal list"

definition reject :: "string \<Rightarrow> StrategyRejectionReason \<Rightarrow> rejection_sample \<Rightarrow> StrategyResult" where
  "reject name reason sample = Rejected \<lparr>rej_strategy = name, rej_reason = reason, rej_sample = sample\<rparr>"

text \<open>\<open>f64::clamp\<close> panics unless \<open>min <= max\<close>.\<close>

definition clamp_checked :: "f64 \<Rightarrow> f64 \<Rightarrow> f64 \<Rightarrow> f64 option" where
  "clamp_checked x lo hi = (if lo \<le> hi then Some (f64_clamp x lo hi) else None)"

definition build_telemetry ::
  "strategy_context \<Rightarrow> u64 \<Rightarrow> f64 option \<Rightarrow> f64 option \<Rightarrow> f64 option \<Rightarrow> signal_telemetry" where
  "build_telemetry ctx now expected_fee expected_slippage expected_edge =
     (let f = ctx_features ctx in
      \<lparr>tel_generated_at_ms = now, tel_generated_at_us = ctx_now_us ctx, tel_order_submitted_at_ms = None,
       tel_order_submitted_at_us = None, tel_expected_arrival_at_ms = None, tel_expected_arrival_at_us = None,
       tel_order_processed_at_ms = None, tel_order_processed_at_us = None, tel_effective_arrival_delay_ms = None,
       tel_binance_age_ms = ft_binance_age_ms f, tel_chainlink_age_ms = ft_chainlink_age_ms f,
       tel_clob_age_ms = ft_clob_age_ms f, tel_quote_age_ms = ft_quote_age_ms f,
       tel_book_staleness_ms = ft_book_staleness_ms f, tel_expected_fee = expected_fee,
       tel_expected_slippage = expected_slippage, tel_expected_edge = expected_edge,
       tel_available_feature_count = available_feature_count f, tel_decision_status = ''generated'',
       tel_rejection_reason = None, tel_features_json = features_to_json f\<rparr>)"

definition quotes_are_fresh :: "strategy_context \<Rightarrow> config \<Rightarrow> bool" where
  "quotes_are_fresh ctx c =
     (if is_some_and (ft_book_staleness_ms (ctx_features ctx)) (\<lambda>age. max_book_staleness_ms c < age) then False
      else is_none_or (ft_quote_age_ms (ctx_features ctx)) (\<lambda>age. age \<le> max_quote_age_ms c))"

definition short_return :: "strategy_context \<Rightarrow> f64" where
  "short_return ctx = unwrap_or (opt_or (opt_or (ft_return_250ms (ctx_features ctx)) (ft_return_500ms (ctx_features ctx)))
     (ft_return_1000ms (ctx_features ctx))) (ctx_binance_momentum ctx)"

record price_levels =
  pl_up_ask :: f64
  pl_down_ask :: f64
  pl_up_bid :: f64
  pl_down_bid :: f64

definition levels_of :: "top_of_book \<Rightarrow> top_of_book \<Rightarrow> price_levels" where
  "levels_of up down = \<lparr>pl_up_ask = tob_best_ask up, pl_down_ask = tob_best_ask down,
     pl_up_bid = tob_best_bid up, pl_down_bid = tob_best_bid down\<rparr>"

definition level_ask :: "price_levels \<Rightarrow> SignalDirection \<Rightarrow> f64" where
  "level_ask pl d = (case d of Up \<Rightarrow> pl_up_ask pl | Down \<Rightarrow> pl_down_ask pl)"

definition cost_sample ::
  "rejection_sample \<Rightarrow> f64 option \<Rightarrow> f64 option \<Rightarrow> f64 option \<Rightarrow> rejection_sample" where
  "cost_sample sample expected_fee expected_slippage expected_edge =
     sample\<lparr>rs_expected_fee := expected_fee, rs_expected_slippage := expected_slippage, rs_expected_edge := expected_edge\<rparr>"

subsection \<open>Latency arbitrage\<close>

definition MOMENTUM_BUFFER_SIZE :: nat where "MOMENTUM_BUFFER_SIZE = 1800"

record latency_arb =
  la_last_signal_time :: u64
  la_momentum_buffer :: "f64 list"
  la_momentum_timestamps :: "u64 list"
  la_adaptive_threshold :: f64
  la_adaptive_window_ms :: u64
  la_last_threshold_calc :: u64

definition la_new :: "f64 \<Rightarrow> latency_arb" where
  "la_new initial_threshold = \<lparr>la_last_signal_time = 0, la_momentum_buffer = [], la_momentum_timestamps = [],
     la_adaptive_threshold = initial_threshold, la_adaptive_window_ms = 1800000, la_last_threshold_calc = 0\<rparr>"

text \<open>
  \<open>sort_by\<close> with the comparison of the code is a stable sort; on samples without NaN the order is total and the sort is
  insertion sort up to equal elements. The samples are absolute values.
\<close>

fun sort_insert :: "f64 \<Rightarrow> f64 list \<Rightarrow> f64 list" where
  "sort_insert x [] = [x]"
| "sort_insert x (y # ys) = (if y < x then y # sort_insert x ys else x # y # ys)"

definition sort_samples :: "f64 list \<Rightarrow> f64 list" where
  "sort_samples xs = foldr sort_insert xs []"

definition p85_index :: "nat \<Rightarrow> nat" where
  "p85_index n = f64_to_usize (f64_floor (f64_of_nat n * f64_lit 0.85))"

definition get_adaptive_threshold :: "u64 \<Rightarrow> f64 \<Rightarrow> latency_arb \<Rightarrow> (f64 \<times> latency_arb) option" where
  "get_adaptive_threshold now base_threshold la =
     (if saturating_sub now (la_last_threshold_calc la) < 10000 then Some (la_adaptive_threshold la, la)
      else
        let stamps = la_momentum_timestamps la @
              replicate (length (la_momentum_buffer la) - length (la_momentum_timestamps la)) now;
            la1 = la\<lparr>la_last_threshold_calc := now, la_momentum_timestamps := stamps\<rparr>;
            first_in_window = unwrap_or (position (\<lambda>ts. saturating_sub now ts \<le> la_adaptive_window_ms la) stamps)
              (length (la_momentum_buffer la))
        in if length (la_momentum_buffer la) < first_in_window then None
           else let window = drop first_in_window (la_momentum_buffer la) in
             if length window < 60 then Some (base_threshold, la1\<lparr>la_adaptive_threshold := base_threshold\<rparr>)
             else let sorted_w = sort_samples window; p85_idx = p85_index (length sorted_w) in
               if length sorted_w \<le> p85_idx then None
               else let t = f64_max base_threshold (sorted_w ! p85_idx)
                 in Some (t, la1\<lparr>la_adaptive_threshold := t\<rparr>))"

definition features_are_fresh :: "strategy_context \<Rightarrow> config \<Rightarrow> bool" where
  "features_are_fresh ctx c =
     (if is_some_and (ft_binance_age_ms (ctx_features ctx)) (\<lambda>age. max_signal_feed_age_ms c < age) then False
      else if is_some_and (ft_book_staleness_ms (ctx_features ctx)) (\<lambda>age. max_book_staleness_ms c < age) then False
      else is_none_or (ft_quote_age_ms (ctx_features ctx)) (\<lambda>age. age \<le> max_quote_age_ms c))"

definition external_bias_score :: "strategy_context \<Rightarrow> f64 \<Rightarrow> f64" where
  "external_bias_score ctx threshold =
     (let open_drift = unwrap_or (ft_distance_from_open_bps (ctx_features ctx)) 0 / f64_lit 10000;
          basis_adjustment = (- unwrap_or (ft_chainlink_basis_bps (ctx_features ctx)) 0) / f64_lit 10000;
          normalized_threshold = f64_max threshold (f64_lit 0.000001)
      in (ctx_binance_momentum ctx / normalized_threshold) * f64_lit 0.45
         + (short_return ctx / normalized_threshold) * f64_lit 0.35
         + (open_drift / normalized_threshold) * f64_lit 0.15
         + (basis_adjustment / normalized_threshold) * f64_lit 0.05)"

definition stale_price_edge :: "strategy_context \<Rightarrow> SignalDirection \<Rightarrow> f64 \<Rightarrow> f64 option" where
  "stale_price_edge ctx d threshold =
     (case ctx_window_open_price ctx of None \<Rightarrow> None | Some open_price \<Rightarrow>
      let drift = (ctx_binance_price ctx - open_price) / f64_max open_price 1;
          directional_bias = f64_clamp (drift / f64_max threshold (f64_lit 0.000001)) (f64_lit (- 0.25)) (f64_lit 0.25)
      in (case (book_up (ctx_book_state ctx), book_down (ctx_book_state ctx)) of
            (Some up, Some down) \<Rightarrow> Some (case d of
               Up \<Rightarrow> (f64_lit 0.5 + directional_bias) - tob_best_ask up
             | Down \<Rightarrow> (f64_lit 0.5 - directional_bias) - tob_best_ask down)
          | _ \<Rightarrow> None))"

definition record_momentum_sample :: "f64 \<Rightarrow> u64 \<Rightarrow> latency_arb \<Rightarrow> latency_arb" where
  "record_momentum_sample momentum now la =
     (let buf = la_momentum_buffer la @ [\<bar>momentum\<bar>]; stamps = la_momentum_timestamps la @ [now]
      in if MOMENTUM_BUFFER_SIZE < length buf
         then la\<lparr>la_momentum_buffer := tl buf, la_momentum_timestamps := tl stamps\<rparr>
         else la\<lparr>la_momentum_buffer := buf, la_momentum_timestamps := stamps\<rparr>)"

definition select_direction :: "config \<Rightarrow> f64 \<Rightarrow> price_levels \<Rightarrow> f64 \<Rightarrow> f64 \<Rightarrow> SignalDirection option" where
  "select_direction c external_bias pl up_edge down_edge =
     (if 1 < external_bias \<and> pl_up_ask pl < latency_arb_max_ask c \<and> 0 < up_edge then Some Up
      else if external_bias < f64_lit (- 1) \<and> pl_down_ask pl < latency_arb_max_ask c \<and> 0 < down_edge then Some Down
      else None)"

definition expected_trade_costs ::
  "strategy_context \<Rightarrow> SignalDirection \<Rightarrow> f64 \<Rightarrow> f64 \<Rightarrow> f64 option \<times> f64 option \<times> f64 option" where
  "expected_trade_costs ctx d up_edge down_edge =
     (let fee = (case d of Up \<Rightarrow> ft_expected_up_fee (ctx_features ctx) | Down \<Rightarrow> ft_expected_down_fee (ctx_features ctx));
          slip = (case d of Up \<Rightarrow> ft_expected_up_slippage (ctx_features ctx) | Down \<Rightarrow> ft_expected_down_slippage (ctx_features ctx));
          gross_edge = (case d of Up \<Rightarrow> up_edge | Down \<Rightarrow> down_edge)
      in (fee, slip, Some (gross_edge - unwrap_or fee 0 - unwrap_or slip 0)))"

definition edge_sample :: "strategy_context \<Rightarrow> f64 option \<Rightarrow> f64 option \<Rightarrow> f64 option \<Rightarrow> rejection_sample" where
  "edge_sample ctx external_bias up_edge down_edge = (rejection_sample_from_ctx ctx)
     \<lparr>rs_external_bias := external_bias, rs_up_edge := up_edge, rs_down_edge := down_edge\<rparr>"

record la_decision =
  ld_direction :: SignalDirection
  ld_confidence :: f64
  ld_effective_threshold :: f64
  ld_external_bias :: f64
  ld_up_edge :: f64
  ld_down_edge :: f64
  ld_expected_fee :: "f64 option"
  ld_expected_slippage :: "f64 option"
  ld_expected_edge :: "f64 option"

definition la_price_levels :: "strategy_context \<Rightarrow> config \<Rightarrow> u64 \<Rightarrow> latency_arb \<Rightarrow> StrategyResult + price_levels" where
  "la_price_levels ctx c now la =
     (let no = (\<lambda>reason. Inl (reject ''latency-arb'' reason (rejection_sample_from_ctx ctx))) in
      if ctx_window_time_remaining_ms ctx < min_window_time_ms c then no WindowTooLate
      else (case (book_up (ctx_book_state ctx), book_down (ctx_book_state ctx)) of
        (Some up, Some down) \<Rightarrow>
          if \<not> features_are_fresh ctx c then no FeaturesStale
          else if saturating_sub now (la_last_signal_time la) < latency_arb_cooldown_ms c then no CooldownActive
          else let pl = levels_of up down in
            if pl_up_ask pl \<le> 0 \<or> pl_down_ask pl \<le> 0 then no NonPositiveQuotes else Inr pl
      | _ \<Rightarrow> no BookUnavailable))"

definition la_build_decision ::
  "strategy_context \<Rightarrow> config \<Rightarrow> u64 \<Rightarrow> price_levels \<Rightarrow> latency_arb \<Rightarrow> ((StrategyResult + la_decision) \<times> latency_arb) option" where
  "la_build_decision ctx c now pl la =
     (case get_adaptive_threshold now (latency_arb_momentum_threshold c) la of None \<Rightarrow> None
      | Some (threshold, la1) \<Rightarrow>
        let external_bias = external_bias_score ctx threshold;
            up_edge = unwrap_or (stale_price_edge ctx Up threshold) 0;
            down_edge = unwrap_or (stale_price_edge ctx Down threshold) 0;
            sample = edge_sample ctx (Some external_bias) (Some up_edge) (Some down_edge)
        in Some (case select_direction c external_bias pl up_edge down_edge of
             None \<Rightarrow> Inl (reject ''latency-arb'' DirectionNotSelected sample)
           | Some d \<Rightarrow>
              if level_ask pl d < latency_arb_min_ask c then Inl (reject ''latency-arb'' EntryAskBelowMin sample)
              else (case expected_trade_costs ctx d up_edge down_edge of (fee, slip, edge) \<Rightarrow>
                if unwrap_or edge 0 \<le> 0
                then Inl (reject ''latency-arb'' ExpectedEdgeNonPositive (cost_sample sample fee slip edge))
                else let score_strength = (case d of Up \<Rightarrow> external_bias | Down \<Rightarrow> - external_bias);
                         confidence = f64_clamp (f64_lit 0.35 + f64_lit 0.20 * score_strength + unwrap_or edge 0 * f64_lit 4) 0 1
                  in Inr \<lparr>ld_direction = d, ld_confidence = confidence, ld_effective_threshold = threshold,
                     ld_external_bias = external_bias, ld_up_edge = up_edge, ld_down_edge = down_edge,
                     ld_expected_fee = fee, ld_expected_slippage = slip, ld_expected_edge = edge\<rparr>), la1))"

definition la_build_signal :: "strategy_context \<Rightarrow> u64 \<Rightarrow> price_levels \<Rightarrow> la_decision \<Rightarrow> signal" where
  "la_build_signal ctx now pl ld =
     \<lparr>sig_timestamp = now, sig_strategy = ''latency-arb'', sig_strategy_version = ''v2'',
      sig_feature_mode = feature_mode_as_str (ft_feature_mode (ctx_features ctx)), sig_direction = ld_direction ld,
      sig_confidence = ld_confidence ld, sig_binance_price = ctx_binance_price ctx,
      sig_chainlink_price = unwrap_or (ctx_chainlink_price ctx) 0, sig_up_ask = pl_up_ask pl,
      sig_down_ask = pl_down_ask pl, sig_up_bid = pl_up_bid pl, sig_down_bid = pl_down_bid pl,
      sig_expected_edge = ld_expected_edge ld,
      sig_metadata = [(''momentum'', json_f64 (ctx_binance_momentum ctx)),
        (''threshold'', json_f64 (ld_effective_threshold ld)), (''externalBias'', json_f64 (ld_external_bias ld)),
        (''upEdge'', json_f64 (ld_up_edge ld)), (''downEdge'', json_f64 (ld_down_edge ld)),
        (''expectedFee'', json_opt json_f64 (ld_expected_fee ld)),
        (''expectedSlippage'', json_opt json_f64 (ld_expected_slippage ld)),
        (''expectedEdge'', json_opt json_f64 (ld_expected_edge ld))],
      sig_telemetry = Some (build_telemetry ctx now (ld_expected_fee ld) (ld_expected_slippage ld) (ld_expected_edge ld))\<rparr>"

definition la_evaluate :: "strategy_context \<Rightarrow> config \<Rightarrow> u64 \<Rightarrow> latency_arb \<Rightarrow> (StrategyResult \<times> latency_arb) option" where
  "la_evaluate ctx c now la =
     (let la1 = record_momentum_sample (ctx_binance_momentum ctx) now
                  (la\<lparr>la_adaptive_window_ms := latency_arb_adaptive_window_ms c\<rparr>)
      in case la_price_levels ctx c now la1 of
           Inl r \<Rightarrow> Some (r, la1)
         | Inr pl \<Rightarrow> (case la_build_decision ctx c now pl la1 of None \<Rightarrow> None
             | Some (Inl r, la2) \<Rightarrow> Some (r, la2)
             | Some (Inr ld, la2) \<Rightarrow> Some (Single (la_build_signal ctx now pl ld), la2\<lparr>la_last_signal_time := now\<rparr>)))"

subsection \<open>Spread capture\<close>

record spread_decision =
  sd_raw_edge :: f64
  sd_expected_fee :: f64
  sd_expected_slippage :: f64
  sd_expected_edge :: f64
  sd_confidence :: f64

definition legging_risk_is_acceptable :: "strategy_context \<Rightarrow> config \<Rightarrow> bool" where
  "legging_risk_is_acceptable ctx c \<longleftrightarrow>
     \<bar>short_return ctx\<bar> \<le> latency_arb_momentum_threshold c * f64_lit 2 \<and>
     unwrap_or (ft_polymarket_quote_churn_per_s (ctx_features ctx)) 0 \<le> spread_capture_max_quote_churn_per_s c"

definition sc_snapshot :: "strategy_context \<Rightarrow> config \<Rightarrow> StrategyResult + price_levels" where
  "sc_snapshot ctx c =
     (let no = (\<lambda>reason. Inl (reject ''spread-capture'' reason (rejection_sample_from_ctx ctx))) in
      case (book_up (ctx_book_state ctx), book_down (ctx_book_state ctx)) of
        (Some up, Some down) \<Rightarrow>
          if \<not> quotes_are_fresh ctx c then no FeaturesStale
          else if is_some_and (ft_inter_leg_skew_ms (ctx_features ctx)) (\<lambda>skew. spread_capture_max_leg_skew_ms c < skew)
          then no LegsOutOfSync
          else if \<not> legging_risk_is_acceptable ctx c then no LeggingRiskTooHigh
          else let pl = levels_of up down in
            if pl_up_ask pl \<le> 0 \<or> pl_down_ask pl \<le> 0 then no NonPositiveQuotes
            else if pl_up_ask pl < spread_capture_min_ask c \<or> pl_down_ask pl < spread_capture_min_ask c
            then no EntryAskBelowMin
            else Inr pl
      | _ \<Rightarrow> no BookUnavailable)"

definition sc_build_decision ::
  "(string \<Rightarrow> fee_schedule option) \<Rightarrow> strategy_context \<Rightarrow> config \<Rightarrow> u64 \<Rightarrow> price_levels \<Rightarrow> StrategyResult + spread_decision" where
  "sc_build_decision parse ctx c now pl =
     (let total_ask = pl_up_ask pl + pl_down_ask pl; f = ctx_features ctx in
      if spread_capture_threshold c \<le> total_ask
      then Inl (reject ''spread-capture'' SpreadThresholdNotMet (rejection_sample_from_ctx ctx))
      else
        let raw_edge = unwrap_or (ft_summed_ask_edge f) (1 - total_ask);
            fp = resolve_fee_params parse c None now;
            expected_fee = unwrap_or (ft_expected_up_fee f) 0 + unwrap_or (ft_expected_down_fee f) 0;
            expected_slippage = unwrap_or (ft_expected_up_slippage f) 0 + unwrap_or (ft_expected_down_slippage f) 0;
            expected_edge = spread_net_edge (pl_up_ask pl) (pl_down_ask pl) 1 (fee_rate fp) (exponent fp) - expected_slippage
        in if expected_edge \<le> 0
           then Inl (reject ''spread-capture'' ExpectedEdgeNonPositive
             (cost_sample (rejection_sample_from_ctx ctx) (Some expected_fee) (Some expected_slippage) (Some expected_edge)))
           else let max_edge = f64_max (1 - spread_capture_threshold c) (f64_lit 0.000001);
                    confidence = f64_clamp (f64_lit 0.5 + f64_lit 0.5 * (expected_edge / max_edge)) (f64_lit 0.5) 1
             in Inr \<lparr>sd_raw_edge = raw_edge, sd_expected_fee = expected_fee, sd_expected_slippage = expected_slippage,
                sd_expected_edge = expected_edge, sd_confidence = confidence\<rparr>)"

definition sc_signal :: "strategy_context \<Rightarrow> config \<Rightarrow> u64 \<Rightarrow> price_levels \<Rightarrow> spread_decision \<Rightarrow> SignalDirection \<Rightarrow> signal" where
  "sc_signal ctx c now pl sd d =
     \<lparr>sig_timestamp = now, sig_strategy = ''spread-capture'', sig_strategy_version = ''v2'',
      sig_feature_mode = feature_mode_as_str (ft_feature_mode (ctx_features ctx)), sig_direction = d,
      sig_confidence = sd_confidence sd, sig_binance_price = ctx_binance_price ctx,
      sig_chainlink_price = unwrap_or (ctx_chainlink_price ctx) 0, sig_up_ask = pl_up_ask pl,
      sig_down_ask = pl_down_ask pl, sig_up_bid = pl_up_bid pl, sig_down_bid = pl_down_bid pl,
      sig_expected_edge = Some (sd_expected_edge sd),
      sig_metadata = [(''totalAsk'', json_f64 (pl_up_ask pl + pl_down_ask pl)),
        (''threshold'', json_f64 (spread_capture_threshold c)), (''spreadEdge'', json_f64 (sd_raw_edge sd)),
        (''expectedFee'', json_f64 (sd_expected_fee sd)), (''expectedSlippage'', json_f64 (sd_expected_slippage sd)),
        (''expectedEdge'', json_f64 (sd_expected_edge sd)),
        (''quoteChurnPerS'', json_opt json_f64 (ft_polymarket_quote_churn_per_s (ctx_features ctx))),
        (''micropriceSkew'', json_opt json_f64 (ft_polymarket_microprice_skew (ctx_features ctx)))],
      sig_telemetry = Some (build_telemetry ctx now (Some (sd_expected_fee sd)) (Some (sd_expected_slippage sd))
        (Some (sd_expected_edge sd)))\<rparr>"

definition sc_evaluate ::
  "(string \<Rightarrow> fee_schedule option) \<Rightarrow> strategy_context \<Rightarrow> config \<Rightarrow> u64 \<Rightarrow> StrategyResult" where
  "sc_evaluate parse ctx c now =
     (case sc_snapshot ctx c of Inl r \<Rightarrow> r | Inr pl \<Rightarrow>
      (case sc_build_decision parse ctx c now pl of Inl r \<Rightarrow> r | Inr sd \<Rightarrow>
        Batch [sc_signal ctx c now pl sd Up, sc_signal ctx c now pl sd Down]))"

end
