(* ===== verification/Momentum.thy ===== *)
theory Momentum
  imports Strategies "HOL-Library.Multiset"
begin

section \<open>The latency strategy over its histories\<close>

text \<open>
  Facts on \<^verbatim>\<open>strategies/latency_arb.rs\<close>: the momentum buffer is a bounded buffer with one timestamp per sample, the
  sort of the samples is a sorted permutation, the percentile index is in range, so that no evaluation panics, and
  the signals of a history keep the cooldown.
\<close>

subsection \<open>The momentum buffer\<close>

interpretation momentum_buffer: bounded_buffer "\<lambda>(m, now). record_momentum_sample m now" la_momentum_buffer
  "\<lambda>_. MOMENTUM_BUFFER_SIZE" "\<lambda>(m, now). \<bar>m\<bar>"
  by unfold_locales (auto simp: record_momentum_sample_def push_bounded_def Let_def)

definition la_inv :: "latency_arb \<Rightarrow> bool" where
  "la_inv la \<longleftrightarrow> length (la_momentum_timestamps la) = length (la_momentum_buffer la) \<and>
     length (la_momentum_buffer la) \<le> MOMENTUM_BUFFER_SIZE"

lemma la_new_inv: "la_inv (la_new t)"
  by (simp add: la_inv_def la_new_def)

lemma record_momentum_inv:
  assumes "la_inv la" shows "la_inv (record_momentum_sample m now la)"
  using assms momentum_buffer.length_push[of la "(m, now)"]
  by (auto simp: la_inv_def record_momentum_sample_def Let_def)

subsection \<open>Sorting\<close>

lemma mset_sort_insert: "mset (sort_insert x xs) = add_mset x (mset xs)"
  by (induction xs) auto

lemma mset_sort_samples: "mset (sort_samples xs) = mset xs"
  by (induction xs) (simp_all add: sort_samples_def mset_sort_insert)

lemma set_sort_samples: "set (sort_samples xs) = set xs"
  by (metis mset_sort_samples set_mset_mset)

lemma length_sort_samples: "length (sort_samples xs) = length xs"
  by (metis mset_sort_samples size_mset)

lemma sorted_sort_insert:
  assumes "sorted_wrt (\<le>) xs" "\<not> is_nan x" "\<forall>y \<in> set xs. \<not> is_nan y"
  shows "sorted_wrt (\<le>) (sort_insert x xs)"
  using assms
proof (induction xs)
  case (Cons y ys)
  have set: "set (sort_insert x ys) = insert x (set ys)"
    using mset_sort_insert[of x ys] by (metis set_mset_mset set_mset_add_mset_insert)
  show ?case
  proof (cases "y < x")
    case True
    with Cons set show ?thesis by (auto simp: f64_less_imp_le)
  next
    case False
    with Cons.prems have "x \<le> y" by (simp add: f64_not_less)
    with False Cons.prems show ?thesis by (auto intro: f64_le_trans)
  qed
qed simp

lemma sorted_sort_samples:
  "\<forall>x \<in> set xs. \<not> is_nan x \<Longrightarrow> sorted_wrt (\<le>) (sort_samples xs)"
proof (induction xs)
  case (Cons x xs)
  then show ?case
    using sorted_sort_insert[of "sort_samples xs" x] set_sort_samples[of xs] by (simp add: sort_samples_def)
qed (simp add: sort_samples_def)

text \<open>The element at index \<open>k\<close> of a sorted list has at least \<open>k + 1\<close> elements below or at it and \<open>n - k\<close> at or above.\<close>

lemma sorted_rank:
  assumes s: "sorted_wrt (\<le>) xs" and k: "k < length xs" and n: "\<forall>x \<in> set xs. \<not> is_nan (x :: f64)"
  shows "Suc k \<le> length (filter (\<lambda>x. x \<le> xs ! k) xs)" "length xs - k \<le> length (filter (\<lambda>x. xs ! k \<le> x) xs)"
proof -
  have r: "xs ! k \<le> xs ! k" using n k by simp
  have "\<forall>x \<in> set (take (Suc k) xs). x \<le> xs ! k"
    using s k r by (auto simp: in_set_conv_nth sorted_wrt_iff_nth_less less_Suc_eq)
  then have "filter (\<lambda>x. x \<le> xs ! k) (take (Suc k) xs) = take (Suc k) xs" by (simp add: filter_id_conv)
  moreover have "length (filter (\<lambda>x. x \<le> xs ! k) (take (Suc k) xs)) \<le> length (filter (\<lambda>x. x \<le> xs ! k) xs)"
    by (metis append_take_drop_id filter_append le_add1 length_append)
  ultimately show "Suc k \<le> length (filter (\<lambda>x. x \<le> xs ! k) xs)" using k by simp
  have "\<forall>x \<in> set (drop k xs). xs ! k \<le> x"
  proof
    fix x assume "x \<in> set (drop k xs)"
    then obtain i where "x = xs ! (k + i)" "k + i < length xs" by (auto simp: in_set_conv_nth)
    then show "xs ! k \<le> x" using s r by (cases i) (auto simp: sorted_wrt_iff_nth_less)
  qed
  then have "filter (\<lambda>x. xs ! k \<le> x) (drop k xs) = drop k xs" by (simp add: filter_id_conv)
  moreover have "length (filter (\<lambda>x. xs ! k \<le> x) (drop k xs)) \<le> length (filter (\<lambda>x. xs ! k \<le> x) xs)"
    by (metis append_take_drop_id filter_append le_add2 length_append)
  ultimately show "length xs - k \<le> length (filter (\<lambda>x. xs ! k \<le> x) xs)" by (metis length_drop)
qed

lemma length_filter_mset: "mset xs = mset ys \<Longrightarrow> length (filter p xs) = length (filter p ys)"
  by (metis mset_filter size_mset)

subsection \<open>The percentile index\<close>

lemma p85_value:
  assumes "n \<le> 1800"
  shows "is_finite (f64_of_nat n * f64_lit 0.85)" "0 \<le> fval (f64_of_nat n * f64_lit 0.85)"
    "fval (f64_of_nat n * f64_lit 0.85) \<le> of_nat n * (9 / 10) + 1 / 1000"
proof -
  have n53: "n \<le> 2 ^ 53" using assms by simp
  have l: "is_finite (f64_lit 0.85)" "fval (f64_lit 0.85) = rnd (17 / 20)" using lit_small[of "17 / 20"] by simp_all
  have "17 / 20 - 17 / 20 * ulp_rel - ulp_abs \<le> rnd (17 / 20)" "rnd (17 / 20) \<le> 17 / 20 + 17 / 20 * ulp_rel + ulp_abs"
    using rnd_lower[of "17 / 20"] rnd_upper[of "17 / 20"] by (simp_all add: algebra_simps add_divide_distrib)
  then have r: "0 \<le> rnd (17 / 20)" "rnd (17 / 20) \<le> 43 / 50" using ulp_small by linarith+
  let ?q = "of_nat n * rnd (17 / 20)"
  have n0: "0 \<le> (of_nat n :: rat)" and n1: "(of_nat n :: rat) \<le> 1800" using assms by simp_all
  have q0: "0 \<le> ?q" using r n0 by simp
  have qu: "?q \<le> of_nat n * (43 / 50)" using r n0 by (intro mult_left_mono) simp_all
  have q1: "\<bar>?q\<bar> \<le> of_int (2 ^ 53)" using q0 qu n1 by simp
  show f: "is_finite (f64_of_nat n * f64_lit 0.85)"
    using mul_moderate[of "f64_of_nat n" "f64_lit 0.85"] l q1 f64_of_nat_exact[OF n53] by simp
  have v: "fval (f64_of_nat n * f64_lit 0.85) = rnd ?q" using fval_mul[OF f] l f64_of_nat_exact[OF n53] by simp
  show "0 \<le> fval (f64_of_nat n * f64_lit 0.85)" unfolding v using rnd_mono[OF q0] by simp
  have "rnd ?q \<le> ?q * (1 + ulp_rel) + ulp_abs" by (rule rnd_upper[OF q0])
  also have "\<dots> \<le> ?q * (1 + 1 / 1000) + 1 / 1000"
    using ulp_small by (intro add_mono mult_left_mono q0) simp_all
  also have "\<dots> \<le> of_nat n * (9 / 10) + 1 / 1000" using qu n0 by simp
  finally show "fval (f64_of_nat n * f64_lit 0.85) \<le> of_nat n * (9 / 10) + 1 / 1000" unfolding v .
qed

lemma p85_index_less:
  assumes "60 \<le> n" "n \<le> 1800"
  shows "p85_index n < n"
proof -
  let ?x = "f64_of_nat n * f64_lit 0.85"
  have n0: "60 \<le> (of_nat n :: rat)" using assms by (metis of_nat_le_iff of_nat_numeral)
  have "fval ?x < of_nat n" using p85_value(3)[OF assms(2)] n0 by simp
  then have fl: "\<lfloor>fval ?x\<rfloor> < int n" by (simp add: floor_less_iff)
  have f0: "0 \<le> \<lfloor>fval ?x\<rfloor>" using p85_value(2)[OF assms(2)] by simp
  have "f64_trunc_sat 0 (2 ^ 64 - 1) (f64_floor ?x) = max 0 (min (2 ^ 64 - 1) \<lfloor>fval ?x\<rfloor>)"
    using p85_value(1)[OF assms(2)] f0 by (simp add: f64_trunc_sat_def is_finite_not_nan Let_def)
  then show ?thesis using fl f0 by (simp add: p85_index_def f64_to_usize_def nat_less_iff)
qed

subsection \<open>Evaluations do not panic\<close>

lemma adaptive_threshold_Some:
  assumes "la_inv la"
  obtains t la' where "get_adaptive_threshold now base la = Some (t, la')" "la_inv la'"
    "la_last_signal_time la' = la_last_signal_time la" "la_momentum_buffer la' = la_momentum_buffer la"
proof (cases "saturating_sub now (la_last_threshold_calc la) < 10000")
  case True
  with assms that show ?thesis by (simp add: get_adaptive_threshold_def)
next
  case False
  let ?b = "la_momentum_buffer la" and ?p = "\<lambda>ts. saturating_sub now ts \<le> la_adaptive_window_ms la"
  let ?i = "unwrap_or (position ?p (la_momentum_timestamps la)) (length ?b)"
  have i: "?i \<le> length ?b"
    using assms position_Some[of ?p "la_momentum_timestamps la"]
    by (cases "position ?p (la_momentum_timestamps la)") (auto simp: la_inv_def)
  have l: "length (drop ?i ?b) \<le> 1800" using assms by (auto simp: la_inv_def MOMENTUM_BUFFER_SIZE_def)
  show ?thesis
  proof (cases "length (drop ?i ?b) < 60")
    case True
    then show ?thesis using assms that i False by (simp add: get_adaptive_threshold_def Let_def la_inv_def)
  next
    case big: False
    then have "p85_index (length (drop ?i ?b)) < length (drop ?i ?b)" using p85_index_less l by simp
    with big show ?thesis using assms that i False
      by (simp add: get_adaptive_threshold_def Let_def la_inv_def length_sort_samples not_le[symmetric])
  qed
qed

lemma la_build_decision_Some:
  assumes "la_inv la"
  obtains r la' where "la_build_decision ctx c now pl la = Some (r, la')" "la_inv la'"
    "la_last_signal_time la' = la_last_signal_time la"
  using adaptive_threshold_Some[OF assms, of now "latency_arb_momentum_threshold c"] that
  by (fastforce simp: la_build_decision_def Let_def)

lemma la_evaluate_total:
  assumes "la_inv la"
  obtains r la' where "la_evaluate ctx c now la = Some (r, la')" "la_inv la'"
proof -
  let ?la = "record_momentum_sample (ctx_binance_momentum ctx) now (la\<lparr>la_adaptive_window_ms := latency_arb_adaptive_window_ms c\<rparr>)"
  have inv: "la_inv ?la" by (rule record_momentum_inv) (use assms in \<open>simp add: la_inv_def\<close>)
  show ?thesis
  proof (cases "la_price_levels ctx c now ?la")
    case (Inl r)
    with that inv show ?thesis by (simp add: la_evaluate_def)
  next
    case (Inr pl)
    obtain d la' where "la_build_decision ctx c now pl ?la = Some (d, la')" "la_inv la'"
      using la_build_decision_Some[OF inv] by blast
    with that Inr show ?thesis by (cases d) (auto simp: la_evaluate_def la_inv_def)
  qed
qed

text \<open>A run of the strategy over a sequence of contexts, with the results in order.\<close>

fun la_run :: "config \<Rightarrow> (strategy_context \<times> u64) list \<Rightarrow> latency_arb \<Rightarrow> (StrategyResult list \<times> latency_arb) option" where
  "la_run c [] la = Some ([], la)"
| "la_run c ((ctx, now) # es) la = (case la_evaluate ctx c now la of None \<Rightarrow> None
     | Some (r, la1) \<Rightarrow> map_option (\<lambda>(rs, la2). (r # rs, la2)) (la_run c es la1))"

lemma la_run_total: "la_inv la \<Longrightarrow> \<exists>rs la'. la_run c es la = Some (rs, la') \<and> la_inv la' \<and> length rs = length es"
proof (induction es arbitrary: la)
  case (Cons e es)
  obtain ctx now where e: "e = (ctx, now)" by (cases e)
  obtain r la1 where "la_evaluate ctx c now la = Some (r, la1)" "la_inv la1"
    using la_evaluate_total[OF Cons.prems] by blast
  with Cons.IH[of la1] e show ?case by fastforce
qed simp

subsection \<open>The adaptive threshold\<close>

text \<open>
  A recalculation on enough NaN-free samples returns the larger of the base and a sample of the window that has at
  least \<open>p85 + 1\<close> of the samples at or below it and at least \<open>n - p85\<close> at or above it.
\<close>

lemma adaptive_threshold_rank:
  assumes get: "get_adaptive_threshold now base la = Some (t, la')" and due: "\<not> saturating_sub now (la_last_threshold_calc la) < 10000"
    and inv: "la_inv la" and nan: "\<forall>x \<in> set (la_momentum_buffer la). \<not> is_nan x"
    and all: "\<forall>ts \<in> set (la_momentum_timestamps la). saturating_sub now ts \<le> la_adaptive_window_ms la"
    and many: "60 \<le> length (la_momentum_buffer la)"
  shows "\<exists>x \<in> set (la_momentum_buffer la). t = f64_max base x \<and>
    p85_index (length (la_momentum_buffer la)) < length (filter (\<lambda>y. y \<le> x) (la_momentum_buffer la)) \<and>
    length (la_momentum_buffer la) - p85_index (length (la_momentum_buffer la)) \<le> length (filter (\<lambda>y. x \<le> y) (la_momentum_buffer la))"
proof -
  let ?b = "la_momentum_buffer la" and ?p = "\<lambda>ts. saturating_sub now ts \<le> la_adaptive_window_ms la"
  let ?k = "p85_index (length ?b)" and ?x = "sort_samples ?b ! p85_index (length ?b)"
  have k: "?k < length ?b" using many inv p85_index_less by (simp add: la_inv_def MOMENTUM_BUFFER_SIZE_def)
  have "position ?p (la_momentum_timestamps la) = Some 0"
    using inv many all by (cases "la_momentum_timestamps la") (auto simp: la_inv_def)
  then have t: "t = f64_max base ?x"
    using get due inv many k by (simp add: get_adaptive_threshold_def Let_def la_inv_def length_sort_samples not_less split: if_splits)
  have set: "?x \<in> set ?b" using k set_sort_samples[of ?b] length_sort_samples[of ?b] nth_mem by metis
  note rank = sorted_rank[OF sorted_sort_samples[OF nan], of ?k] length_sort_samples[of ?b]
  have nan': "\<forall>x \<in> set (sort_samples ?b). \<not> is_nan x" using nan by (simp add: set_sort_samples)
  show ?thesis
    using t set rank k nan' length_filter_mset[OF mset_sort_samples, of _ ?b] by (intro bexI[of _ ?x]) (simp_all add: Suc_le_eq)
qed

subsection \<open>Signals\<close>

lemma la_price_levels_Inr:
  assumes "la_price_levels ctx c now la = Inr pl"
  shows "\<not> saturating_sub now (la_last_signal_time la) < latency_arb_cooldown_ms c \<and>
    min_window_time_ms c \<le> ctx_window_time_remaining_ms ctx \<and> features_are_fresh ctx c \<and>
    (\<exists>up down. book_up (ctx_book_state ctx) = Some up \<and> book_down (ctx_book_state ctx) = Some down \<and> pl = levels_of up down) \<and>
    \<not> pl_up_ask pl \<le> 0 \<and> \<not> pl_down_ask pl \<le> 0"
  using assms by (auto simp: la_price_levels_def Let_def not_less split: if_splits option.splits)

lemma la_price_levels_Inl: "la_price_levels ctx c now la = Inl r \<Longrightarrow> \<exists>rej. r = Rejected rej"
  by (auto simp: la_price_levels_def reject_def Let_def split: if_splits option.splits)

lemma select_direction_Some:
  "select_direction c eb pl up_edge down_edge = Some d \<Longrightarrow>
     level_ask pl d < latency_arb_max_ask c \<and> 0 < (case d of Up \<Rightarrow> up_edge | Down \<Rightarrow> down_edge) \<and>
     (case d of Up \<Rightarrow> 1 < eb | Down \<Rightarrow> eb < f64_lit (- 1))"
  by (auto simp: select_direction_def level_ask_def split: if_splits)

lemma la_build_decision_Inr:
  assumes "la_build_decision ctx c now pl la = Some (Inr ld, la')"
  shows "level_ask pl (ld_direction ld) < latency_arb_max_ask c \<and> \<not> level_ask pl (ld_direction ld) < latency_arb_min_ask c \<and>
    (\<exists>edge. ld_expected_edge ld = Some edge \<and> \<not> edge \<le> 0)"
proof -
  obtain t la1 where t: "get_adaptive_threshold now (latency_arb_momentum_threshold c) la = Some (t, la1)"
    using assms by (auto simp: la_build_decision_def split: option.splits)
  let ?u = "unwrap_or (stale_price_edge ctx Up t) 0" and ?d = "unwrap_or (stale_price_edge ctx Down t) 0"
  let ?s = "select_direction c (external_bias_score ctx t) pl ?u ?d"
  obtain d where d: "?s = Some d" using assms t by (cases ?s) (auto simp: la_build_decision_def Let_def)
  then show ?thesis using assms t select_direction_Some[OF d]
    by (auto simp: la_build_decision_def Let_def expected_trade_costs_def split: if_splits)
qed

lemma la_build_decision_Inl: "la_build_decision ctx c now pl la = Some (Inl r, la') \<Longrightarrow> \<exists>rej. r = Rejected rej"
  by (auto simp: la_build_decision_def reject_def Let_def split: if_splits option.splits prod.splits)

text \<open>The result of one evaluation: a rejection that leaves the time of the last signal, or a signal.\<close>

lemma la_evaluate_cases [consumes 2]:
  assumes "la_evaluate ctx c now la = Some (r, la')" "la_inv la"
  obtains (rejected) rej where "r = Rejected rej" "la_last_signal_time la' = la_last_signal_time la"
  | (signal) s where "r = Single s" "la_last_signal_time la' = now" "sig_timestamp s = now"
      "\<not> saturating_sub now (la_last_signal_time la) < latency_arb_cooldown_ms c"
proof -
  let ?la = "record_momentum_sample (ctx_binance_momentum ctx) now (la\<lparr>la_adaptive_window_ms := latency_arb_adaptive_window_ms c\<rparr>)"
  have inv: "la_inv ?la" by (rule record_momentum_inv) (use assms in \<open>simp add: la_inv_def\<close>)
  have last: "la_last_signal_time ?la = la_last_signal_time la" by (simp add: record_momentum_sample_def Let_def)
  show ?thesis
  proof (cases "la_price_levels ctx c now ?la")
    case (Inl e)
    then show ?thesis using assms(1) la_price_levels_Inl[OF Inl] rejected last by (auto simp: la_evaluate_def)
  next
    case (Inr pl)
    obtain d la1 where d: "la_build_decision ctx c now pl ?la = Some (d, la1)"
      "la_last_signal_time la1 = la_last_signal_time ?la" using la_build_decision_Some[OF inv] by blast
    show ?thesis
    proof (cases d)
      case (Inl e)
      then show ?thesis using assms(1) Inr d la_build_decision_Inl[of ctx c now pl ?la e la1] rejected last
        by (auto simp: la_evaluate_def)
    next
      case dr: (Inr ld)
      then show ?thesis using assms(1) Inr d la_price_levels_Inr[OF Inr] last signal[of "la_build_signal ctx now pl ld"]
        by (auto simp: la_evaluate_def la_build_signal_def)
    qed
  qed
qed

text \<open>The times of the signals of a run.\<close>

fun signal_times :: "StrategyResult list \<Rightarrow> u64 list" where
  "signal_times [] = []"
| "signal_times (Single s # rs) = sig_timestamp s # signal_times rs"
| "signal_times (_ # rs) = signal_times rs"

definition spaced :: "u64 \<Rightarrow> u64 list \<Rightarrow> bool" where
  "spaced gap ts = sorted_wrt (\<lambda>a b. unat a + unat gap \<le> unat b) ts"

lemma cooldown_gap:
  assumes "\<not> saturating_sub now prev < gap" "0 < gap"
  shows "unat prev + unat gap \<le> unat now"
  using assms by (simp add: word_less_nat_alt unat_saturating_sub)

lemma la_run_spaced:
  assumes "la_run c es la = Some (rs, la')" "la_inv la" "0 < latency_arb_cooldown_ms c"
  shows "spaced (latency_arb_cooldown_ms c) (la_last_signal_time la # signal_times rs)"
  using assms(1,2)
proof (induction es arbitrary: la rs)
  case (Cons e es)
  obtain ctx now where e: "e = (ctx, now)" by (cases e)
  obtain r la1 where ev: "la_evaluate ctx c now la = Some (r, la1)" and inv: "la_inv la1"
    using la_evaluate_total[OF Cons.prems(2)] by blast
  obtain rs1 where run: "la_run c es la1 = Some (rs1, la')" and rs: "rs = r # rs1"
    using Cons.prems(1) e ev by (auto split: option.splits)
  note IH = Cons.IH[OF run inv]
  show ?case
    using ev Cons.prems(2)
  proof (cases rule: la_evaluate_cases)
    case (rejected rej)
    with IH rs show ?thesis by simp
  next
    case (signal s)
    then have gap: "unat (la_last_signal_time la) + unat (latency_arb_cooldown_ms c) \<le> unat now"
      using cooldown_gap assms(3) by blast
    then have "unat (la_last_signal_time la) + unat (latency_arb_cooldown_ms c) \<le> unat t"
      if "unat now + unat (latency_arb_cooldown_ms c) \<le> unat t" for t :: u64 using that by linarith
    with IH rs signal gap show ?thesis by (auto simp: spaced_def)
  qed
qed (simp add: spaced_def)

end
