(* ===== verification/CalmPersistence.thy ===== *)
theory CalmPersistence
  imports Strategies
begin

section \<open>Calm persistence\<close>

text \<open>
  \<^verbatim>\<open>src/bots/paint/src/strategies/calm_persistence.rs\<close>: the late-window strategy. The evaluation is one sequence of
  guards; each rejection carries the diagnostics known at that point. The bias is clamped to a configured maximum, and
  the clamp panics (\<open>None\<close>) when that maximum is negative or NaN.
\<close>

definition MIN_ALIGNMENT_SIGNALS :: nat where "MIN_ALIGNMENT_SIGNALS = 3"

definition enrich_sample ::
  "f64 option \<Rightarrow> f64 option \<Rightarrow> f64 option \<Rightarrow> u32 option \<Rightarrow> f64 option \<Rightarrow> rejection_sample \<Rightarrow> rejection_sample" where
  "enrich_sample signed_distance_bps realized_vol distance_vol_ratio open_crosses alignment s =
     s\<lparr>rs_distance_from_open_bps := opt_or signed_distance_bps (rs_distance_from_open_bps s),
       rs_realized_vol_15s_bps := opt_or realized_vol (rs_realized_vol_15s_bps s),
       rs_distance_vol_ratio := distance_vol_ratio,
       rs_open_crosses_30s := opt_or open_crosses (rs_open_crosses_30s s),
       rs_alignment_fraction := alignment\<rparr>"

definition signed_distance_from_open_bps :: "strategy_context \<Rightarrow> f64 option" where
  "signed_distance_from_open_bps ctx =
     (case ft_distance_from_open_bps (ctx_features ctx) of Some d \<Rightarrow> Some d
      | None \<Rightarrow> (case ctx_window_open_price ctx of None \<Rightarrow> None | Some open_price \<Rightarrow>
          if open_price \<le> 0 then None
          else Some (((ctx_binance_price ctx - open_price) / open_price) * f64_lit 10000)))"

definition alignment_values :: "strategy_context \<Rightarrow> f64 option list" where
  "alignment_values ctx = (let f = ctx_features ctx in
     [ft_return_250ms f, ft_return_500ms f, ft_return_1000ms f, ft_binance_signed_trade_imbalance f,
      ft_binance_book_imbalance f, ft_polymarket_microprice_skew f])"

definition alignment_fraction :: "strategy_context \<Rightarrow> SignalDirection \<Rightarrow> f64 option" where
  "alignment_fraction ctx d =
     (let sgn = (case d of Up \<Rightarrow> 1 | Down \<Rightarrow> - 1);
          values = map (\<lambda>v. v * sgn) (List.map_filter id (alignment_values ctx));
          aligned = length (filter (\<lambda>v. 0 < v) values);
          total = length values
      in if total < MIN_ALIGNMENT_SIGNALS then None else Some (f64_of_nat aligned / f64_of_nat total))"

definition fair_bias :: "f64 \<Rightarrow> f64 \<Rightarrow> u32 \<Rightarrow> config \<Rightarrow> f64 option" where
  "fair_bias distance_vol_ratio alignment open_crosses c =
     (let distance_term = f64_lit 0.025 * f64_max distance_vol_ratio 0;
          alignment_term = f64_lit 0.12 * f64_max (alignment - f64_lit 0.5) 0;
          cross_term = (if open_crosses = 0 then f64_lit 0.02 else 0)
      in clamp_checked (distance_term + alignment_term + cross_term) 0 (calm_persistence_max_fair_bias c))"

definition calm_confidence :: "f64 \<Rightarrow> f64 \<Rightarrow> f64 \<Rightarrow> f64" where
  "calm_confidence distance_vol_ratio alignment expected_edge =
     f64_clamp (f64_lit 0.30 + f64_lit 0.15 * f64_min distance_vol_ratio (f64_lit 4) / f64_lit 4
       + f64_lit 0.35 * alignment + f64_max expected_edge 0 * f64_lit 4) 0 1"

record calm_inputs =
  ci_direction :: SignalDirection
  ci_signed_distance :: f64
  ci_entry_ask :: f64
  ci_realized_vol :: f64
  ci_quote_churn :: f64
  ci_open_crosses :: u32
  ci_ratio :: f64
  ci_alignment :: f64

text \<open>The guards on the market state, up to the alignment of the order flow.\<close>

definition calm_guards ::
  "strategy_context \<Rightarrow> config \<Rightarrow> top_of_book \<Rightarrow> top_of_book \<Rightarrow> StrategyResult + calm_inputs" where
  "calm_guards ctx c up_book down_book =
     (let f = ctx_features ctx;
          signed_distance_bps = unwrap_or (signed_distance_from_open_bps ctx) 0;
          no = (\<lambda>reason vol ratio crosses align. Inl (reject ''calm-persistence'' reason
            (enrich_sample (Some signed_distance_bps) vol ratio crosses align (rejection_sample_from_ctx ctx))))
      in if \<bar>signed_distance_bps\<bar> < calm_persistence_min_abs_distance_bps c
         then no DistanceBelowThreshold (ft_realized_vol_15s_bps f) None (ft_open_crosses_30s f) None
         else
           let d = (if 0 < signed_distance_bps then Up else Down);
               entry_ask = (case d of Up \<Rightarrow> tob_best_ask up_book | Down \<Rightarrow> tob_best_ask down_book)
           in if entry_ask \<le> 0
              then no NonPositiveQuotes (ft_realized_vol_15s_bps f) None (ft_open_crosses_30s f) None
              else if calm_persistence_max_ask c < entry_ask
              then no EntryAskAboveMax (ft_realized_vol_15s_bps f) None (ft_open_crosses_30s f) None
              else
                let vol = unwrap_or (ft_realized_vol_15s_bps f) f64_infinity;
                    churn = unwrap_or (ft_polymarket_quote_churn_per_s f) 0
                in if calm_persistence_max_realized_vol_15s_bps c < vol \<or> calm_persistence_max_quote_churn_per_s c < churn
                   then no VolatilityTooHigh (Some vol) None (ft_open_crosses_30s f) None
                   else
                     let crosses = unwrap_or (ft_open_crosses_30s f) (- 1)
                     in if calm_persistence_max_open_crosses_30s c < crosses
                        then no OpenCrossesTooHigh (Some vol) None (Some crosses) None
                        else
                          let ratio = \<bar>signed_distance_bps\<bar> / f64_max vol 1
                          in if ratio < calm_persistence_distance_vol_ratio_threshold c
                             then no DistanceBelowThreshold (Some vol) (Some ratio) (Some crosses) None
                             else (case alignment_fraction ctx d of
                                 None \<Rightarrow> no OrderflowNotAligned (Some vol) (Some ratio) (Some crosses) None
                               | Some alignment \<Rightarrow>
                                   if alignment < calm_persistence_min_alignment_fraction c
                                   then no OrderflowNotAligned (Some vol) (Some ratio) (Some crosses) (Some alignment)
                                   else Inr \<lparr>ci_direction = d, ci_signed_distance = signed_distance_bps,
                                     ci_entry_ask = entry_ask, ci_realized_vol = vol, ci_quote_churn = churn,
                                     ci_open_crosses = crosses, ci_ratio = ratio, ci_alignment = alignment\<rparr>))"

definition calm_fee :: "strategy_context \<Rightarrow> SignalDirection \<Rightarrow> f64" where
  "calm_fee ctx d = unwrap_or (case d of Up \<Rightarrow> ft_expected_up_fee (ctx_features ctx)
     | Down \<Rightarrow> ft_expected_down_fee (ctx_features ctx)) 0"

definition calm_slippage :: "strategy_context \<Rightarrow> SignalDirection \<Rightarrow> f64" where
  "calm_slippage ctx d = unwrap_or (case d of Up \<Rightarrow> ft_expected_up_slippage (ctx_features ctx)
     | Down \<Rightarrow> ft_expected_down_slippage (ctx_features ctx)) 0"

definition calm_signal ::
  "strategy_context \<Rightarrow> u64 \<Rightarrow> top_of_book \<Rightarrow> top_of_book \<Rightarrow> calm_inputs \<Rightarrow> f64 \<Rightarrow> f64 \<Rightarrow> signal" where
  "calm_signal ctx now up_book down_book ci bias expected_edge =
     (let d = ci_direction ci; fee = calm_fee ctx d; slip = calm_slippage ctx d in
      \<lparr>sig_timestamp = now, sig_strategy = ''calm-persistence'', sig_strategy_version = ''v1'',
       sig_feature_mode = feature_mode_as_str (ft_feature_mode (ctx_features ctx)), sig_direction = d,
       sig_confidence = calm_confidence (ci_ratio ci) (ci_alignment ci) expected_edge,
       sig_binance_price = ctx_binance_price ctx, sig_chainlink_price = unwrap_or (ctx_chainlink_price ctx) 0,
       sig_up_ask = tob_best_ask up_book, sig_down_ask = tob_best_ask down_book,
       sig_up_bid = tob_best_bid up_book, sig_down_bid = tob_best_bid down_book,
       sig_expected_edge = Some expected_edge,
       sig_metadata = [(''distanceFromOpenBps'', json_f64 (ci_signed_distance ci)),
         (''realizedVol15sBps'', json_f64 (ci_realized_vol ci)), (''distanceVolRatio'', json_f64 (ci_ratio ci)),
         (''openCrosses30s'', json_u32 (ci_open_crosses ci)), (''alignmentFraction'', json_f64 (ci_alignment ci)),
         (''fairBias'', json_f64 bias), (''fairProbability'', json_f64 (f64_lit 0.5 + bias)),
         (''expectedFee'', json_f64 fee), (''expectedSlippage'', json_f64 slip),
         (''expectedEdge'', json_f64 expected_edge), (''quoteChurnPerS'', json_f64 (ci_quote_churn ci))],
       sig_telemetry = Some (build_telemetry ctx now (Some fee) (Some slip) (Some expected_edge))\<rparr>)"

definition calm_evaluate :: "strategy_context \<Rightarrow> config \<Rightarrow> u64 \<Rightarrow> StrategyResult option" where
  "calm_evaluate ctx c now =
     (let no = (\<lambda>reason. Some (reject ''calm-persistence'' reason (rejection_sample_from_ctx ctx))) in
      if ctx_window_time_remaining_ms ctx < calm_persistence_min_window_time_ms c
         \<or> calm_persistence_max_window_time_ms c < ctx_window_time_remaining_ms ctx
      then no CalmWindowInactive
      else (case (book_up (ctx_book_state ctx), book_down (ctx_book_state ctx)) of
        (Some up_book, Some down_book) \<Rightarrow>
          if \<not> quotes_are_fresh ctx c then no FeaturesStale
          else (case calm_guards ctx c up_book down_book of
              Inl r \<Rightarrow> Some r
            | Inr ci \<Rightarrow>
                let fee = calm_fee ctx (ci_direction ci); slip = calm_slippage ctx (ci_direction ci) in
                (case fair_bias (ci_ratio ci) (ci_alignment ci) (ci_open_crosses ci) c of
                   None \<Rightarrow> None
                 | Some bias \<Rightarrow>
                     let expected_edge = f64_lit 0.5 + bias - ci_entry_ask ci - fee - slip;
                         sample = enrich_sample (Some (ci_signed_distance ci)) (Some (ci_realized_vol ci)) (Some (ci_ratio ci))
                           (Some (ci_open_crosses ci)) (Some (ci_alignment ci))
                           (cost_sample (rejection_sample_from_ctx ctx) (Some fee) (Some slip) (Some expected_edge))
                     in if expected_edge \<le> 0
                        then Some (reject ''calm-persistence'' ExpectedEdgeNonPositive sample)
                        else if expected_edge \<le> calm_persistence_min_expected_edge c
                        then Some (reject ''calm-persistence'' ExpectedEdgeBelowMin sample)
                        else Some (Single (calm_signal ctx now up_book down_book ci bias expected_edge))))
      | _ \<Rightarrow> no BookUnavailable))"

subsection \<open>What a signal guarantees\<close>

lemma calm_guards_ok:
  assumes "calm_guards ctx c up_book down_book = Inr ci"
  shows "\<not> ci_entry_ask ci \<le> 0 \<and> \<not> calm_persistence_max_ask c < ci_entry_ask ci \<and>
    \<not> calm_persistence_max_realized_vol_15s_bps c < ci_realized_vol ci \<and>
    ci_open_crosses ci \<le> calm_persistence_max_open_crosses_30s c \<and>
    \<not> ci_ratio ci < calm_persistence_distance_vol_ratio_threshold c \<and>
    alignment_fraction ctx (ci_direction ci) = Some (ci_alignment ci) \<and>
    \<not> ci_alignment ci < calm_persistence_min_alignment_fraction c \<and>
    ci_entry_ask ci = (case ci_direction ci of Up \<Rightarrow> tob_best_ask up_book | Down \<Rightarrow> tob_best_ask down_book) \<and>
    (ci_direction ci = Up \<longleftrightarrow> 0 < ci_signed_distance ci)"
  using assms by (auto simp: calm_guards_def Let_def not_less split: if_splits option.splits)

lemma calm_guards_reject: "calm_guards ctx c up_book down_book = Inl r \<Longrightarrow> \<exists>rej. r = Rejected rej"
  by (auto simp: calm_guards_def reject_def Let_def split: if_splits option.splits)

lemma calm_evaluate_Single:
  assumes "calm_evaluate ctx c now = Some (Single s)"
  obtains up_book down_book ci bias edge where
    "book_up (ctx_book_state ctx) = Some up_book" "book_down (ctx_book_state ctx) = Some down_book"
    "quotes_are_fresh ctx c"
    "calm_persistence_min_window_time_ms c \<le> ctx_window_time_remaining_ms ctx"
    "ctx_window_time_remaining_ms ctx \<le> calm_persistence_max_window_time_ms c"
    "calm_guards ctx c up_book down_book = Inr ci"
    "fair_bias (ci_ratio ci) (ci_alignment ci) (ci_open_crosses ci) c = Some bias"
    "\<not> edge \<le> 0" "\<not> edge \<le> calm_persistence_min_expected_edge c"
    "edge = f64_lit 0.5 + bias - ci_entry_ask ci - calm_fee ctx (ci_direction ci) - calm_slippage ctx (ci_direction ci)"
    "s = calm_signal ctx now up_book down_book ci bias edge"
  using assms
  by (auto simp: calm_evaluate_def Let_def reject_def not_less dest: calm_guards_reject
      split: if_splits option.splits sum.splits prod.splits)

text \<open>The only panic is the clamp of the bias, exactly when the guards pass and the configured maximum is negative or NaN.\<close>

lemma calm_panic_iff:
  "calm_evaluate ctx c now = None \<longleftrightarrow> \<not> 0 \<le> calm_persistence_max_fair_bias c \<and>
     calm_persistence_min_window_time_ms c \<le> ctx_window_time_remaining_ms ctx \<and>
     ctx_window_time_remaining_ms ctx \<le> calm_persistence_max_window_time_ms c \<and> quotes_are_fresh ctx c \<and>
     (\<exists>up down ci. book_up (ctx_book_state ctx) = Some up \<and> book_down (ctx_book_state ctx) = Some down \<and>
        calm_guards ctx c up down = Inr ci)"
  by (auto simp: calm_evaluate_def fair_bias_def clamp_checked_def Let_def not_less split: option.splits sum.splits if_splits)
lemma clamp_checked_bounds:
  assumes "clamp_checked x lo hi = Some y" "\<not> is_nan x"
  shows "lo \<le> y \<and> y \<le> hi"
  using assms f64_clamp_bounds[of lo hi x] by (auto simp: clamp_checked_def split: if_splits)

lemma map_filter_length: "length (List.map_filter f xs) \<le> length xs"
  by (induction xs) (auto simp: List.map_filter_simps split: option.splits)

text \<open>The alignment fraction is a ratio of at most six counts, so it lies in the unit interval.\<close>

lemma alignment_unit:
  assumes "alignment_fraction ctx d = Some a"
  shows "unit_f64 a"
proof -
  define vals where "vals = map (\<lambda>v. v * (case d of Up \<Rightarrow> 1 | Down \<Rightarrow> - 1)) (List.map_filter id (alignment_values ctx))"
  define k where "k = length (filter (\<lambda>v. 0 < v) vals)"
  have a: "a = f64_of_nat k / f64_of_nat (length vals)" and n3: "3 \<le> length vals"
    using assms by (auto simp: alignment_fraction_def Let_def vals_def k_def MIN_ALIGNMENT_SIGNALS_def not_less split: if_splits)
  have k: "k \<le> length vals" by (simp add: k_def)
  have "length vals \<le> 6"
    using map_filter_length[of id "alignment_values ctx"] by (simp add: vals_def alignment_values_def Let_def)
  then have n: "length vals \<le> 2 ^ 53" by simp
  have pos: "0 < (of_nat (length vals) :: rat)" using n3 by (simp only: of_nat_0_less_iff)
  show ?thesis unfolding a
    by (rule f64_div_unit) (simp_all only: f64_of_nat_exact[OF n] f64_of_nat_exact[OF order_trans[OF k n]]
        of_nat_le_iff k pos of_nat_0_le_iff)
qed

end
