(* ===== verification/SignalRules.thy ===== *)
theory SignalRules
  imports Momentum CalmPersistence Evaluation
begin

section \<open>What an emitted signal guarantees\<close>

text \<open>
  The guards of the three strategies read backwards: the price, the expected edge and the confidence of a signal that
  one of them emits. Comparisons with NaN are false in the code, so a guard that rejects on \<open>x \<le> 0\<close> lets NaN pass; the
  statements say where a value has to be a number.
\<close>

definition sig_ask :: "signal \<Rightarrow> f64" where
  "sig_ask s = (case sig_direction s of Up \<Rightarrow> sig_up_ask s | Down \<Rightarrow> sig_down_ask s)"

subsection \<open>Latency arbitrage\<close>

lemma la_confidence_unit:
  assumes "la_build_decision ctx c now pl la = Some (Inr ld, la')" "ld_expected_edge ld = Some edge" "\<not> is_nan edge"
  shows "unit_f64 (ld_confidence ld)"
proof -
  obtain t la1 where t: "get_adaptive_threshold now (latency_arb_momentum_threshold c) la = Some (t, la1)"
    using assms(1) by (auto simp: la_build_decision_def split: option.splits)
  let ?u = "unwrap_or (stale_price_edge ctx Up t) 0" and ?d = "unwrap_or (stale_price_edge ctx Down t) 0"
  let ?b = "external_bias_score ctx t"
  obtain d where d: "select_direction c ?b pl ?u ?d = Some d"
    using assms(1) t by (cases "select_direction c ?b pl ?u ?d") (auto simp: la_build_decision_def Let_def)
  let ?s = "case d of Up \<Rightarrow> ?b | Down \<Rightarrow> - ?b"
  have conf: "ld_confidence ld = f64_clamp (f64_lit 0.35 + f64_lit 0.20 * ?s + edge * f64_lit 4) 0 1" and e: "\<not> edge \<le> 0"
    using assms t d by (auto simp: la_build_decision_def Let_def expected_trade_costs_def split: if_splits)
  have s: "0 < ?s"
  proof (cases d)
    case Up
    then show ?thesis using select_direction_Some[OF d] f64_le_less_trans[of 0 1 ?b] by (simp add: f64_le_finite)
  next
    case Down
    then have "?b < f64_lit (- 1)" using select_direction_Some[OF d] by simp
    then have lt: "?b < 0" by (rule f64_less_le_trans) (use lit_mono[of "- 1" 0] in simp)
    have "0 \<le> - ?b" using f64_neg_antimono[OF f64_less_imp_le[OF lt]] by (simp add: f64_neg_0_le)
    moreover have "\<not> - ?b \<le> 0"
    proof
      assume "- ?b \<le> 0"
      then have "- (0 :: f64) \<le> - (- ?b)" by (rule f64_neg_antimono)
      then show False using f64_less_imp_not_le[OF lt] by (simp add: f64_neg_0_le)
    qed
    ultimately show ?thesis using Down by (simp add: f64_less_le)
  qed
  have "0 < f64_lit 0.20" "0 < f64_lit 4" "0 \<le> f64_lit 0.35" by (simp_all add: lit_pos lit_nonneg)
  then have "0 \<le> f64_lit 0.35 + f64_lit 0.20 * ?s + edge * f64_lit 4"
    using s pos_of_not_le[OF assms(3) e] by (intro f64_add_nonneg mul_pos)
  then show ?thesis unfolding conf by (intro clamp_unit nonneg_not_nan)
qed

lemma la_signal_rules:
  assumes ev: "la_evaluate ctx c now la = Some (Single s, la')"
  shows "0 < sig_ask s" "sig_ask s < latency_arb_max_ask c" "\<not> sig_ask s < latency_arb_min_ask c"
    "min_window_time_ms c \<le> ctx_window_time_remaining_ms ctx" "features_are_fresh ctx c"
    "\<exists>edge. sig_expected_edge s = Some edge \<and> (\<not> is_nan edge \<longrightarrow> 0 < edge \<and> unit_f64 (sig_confidence s))"
proof -
  let ?la = "record_momentum_sample (ctx_binance_momentum ctx) now (la\<lparr>la_adaptive_window_ms := latency_arb_adaptive_window_ms c\<rparr>)"
  obtain pl ld la1 where pl: "la_price_levels ctx c now ?la = Inr pl" and
    ld: "la_build_decision ctx c now pl ?la = Some (Inr ld, la1)" and s: "s = la_build_signal ctx now pl ld"
    using ev by (auto simp: la_evaluate_def Let_def dest: la_price_levels_Inl la_build_decision_Inl split: sum.splits option.splits)
  have ask: "sig_ask s = level_ask pl (ld_direction ld)" by (cases "ld_direction ld") (simp_all add: s la_build_signal_def sig_ask_def level_ask_def)
  note f = la_price_levels_Inr[OF pl] la_build_decision_Inr[OF ld]
  show m: "sig_ask s < latency_arb_max_ask c" "\<not> sig_ask s < latency_arb_min_ask c"
    "min_window_time_ms c \<le> ctx_window_time_remaining_ms ctx" "features_are_fresh ctx c"
    using f ask by simp_all
  have "\<not> sig_ask s \<le> 0" using f(1) ask by (simp add: level_ask_def split: SignalDirection.splits)
  then show "0 < sig_ask s" using f64_less_not_nan[OF m(1)] pos_of_not_le by blast
  obtain edge where edge: "ld_expected_edge ld = Some edge" "\<not> edge \<le> 0" using f(2) by blast
  then show "\<exists>edge. sig_expected_edge s = Some edge \<and> (\<not> is_nan edge \<longrightarrow> 0 < edge \<and> unit_f64 (sig_confidence s))"
    using la_confidence_unit[OF ld] pos_of_not_le by (auto simp: s la_build_signal_def)
qed

subsection \<open>Calm persistence\<close>

lemma calm_confidence_unit:
  assumes "unit_f64 align" "is_nan ratio \<or> 0 \<le> ratio"
  shows "unit_f64 (calm_confidence ratio align edge)"
proof -
  have p: "0 < f64_lit 0.15" "0 < f64_lit 4" "0 < f64_lit 0.35" "0 \<le> f64_lit 0.30" "is_finite (f64_lit 4)"
    using lit_small[of 4] by (simp_all add: lit_pos lit_nonneg)
  have m: "0 \<le> f64_min ratio (f64_lit 4)" using assms(2) f64_less_imp_le[OF p(2)]
    by (auto simp: f64_min_def)
  have pos_mul: "0 \<le> x * y" if "0 < x" "0 \<le> y" "is_finite x" "is_finite y" for x y :: f64
    using f64_mul_nonneg[OF f64_less_imp_le[OF that(1)] that(2)] finite_mul_not_nan[OF that(3,4)] by blast
  have fm: "is_finite (f64_min ratio (f64_lit 4))"
    by (rule f64_between_finite[OF finite_0(1) p(5) m]) (simp add: f64_min_le)
  have "0 \<le> f64_lit 0.15 * f64_min ratio (f64_lit 4)" by (rule pos_mul[OF p(1) m _ fm]) (use lit_small[of "0.15"] in simp)
  then have t1: "0 \<le> f64_lit 0.15 * f64_min ratio (f64_lit 4) / f64_lit 4"
    using f64_div_nonneg[OF _ p(2)] div_not_nan[OF _ p(5,2)] nonneg_not_nan by blast
  have t2: "0 \<le> f64_lit 0.35 * align"
    by (rule pos_mul[OF p(3)]) (use assms(1) lit_small[of "0.35"] in \<open>simp_all add: unit_f64_def[symmetric] unit_f64_finite\<close>,
      simp add: unit_f64_def)
  have t3: "0 \<le> f64_max edge 0 * f64_lit 4"
    by (intro f64_mul_nonneg f64_max_0_nonneg f64_less_imp_le[OF p(2)] mul_pos_not_nan[OF p(2,5)] nonneg_not_nan)
  show ?thesis unfolding calm_confidence_def using p(4) t1 t2 t3
    by (intro clamp_unit nonneg_not_nan f64_add_nonneg)
qed

lemma calm_ratio_nonneg:
  assumes "calm_guards ctx c up_book down_book = Inr ci"
  shows "is_nan (ci_ratio ci) \<or> 0 \<le> ci_ratio ci"
proof -
  have r: "ci_ratio ci = \<bar>ci_signed_distance ci\<bar> / f64_max (ci_realized_vol ci) 1"
    using assms by (auto simp: calm_guards_def Let_def split: if_splits option.splits)
  show ?thesis
  proof (cases "is_nan (ci_signed_distance ci)")
    case True
    then show ?thesis unfolding r by (simp add: nan_div_abs)
  next
    case False
    then show ?thesis unfolding r using abs_div_max_nonneg by blast
  qed
qed

lemma calm_signal_rules:
  assumes ev: "calm_evaluate ctx c now = Some (Single s)"
  shows "unit_f64 (sig_confidence s)" "\<not> is_nan (sig_ask s) \<longrightarrow> 0 < sig_ask s"
    "\<not> calm_persistence_max_ask c < sig_ask s"
    "calm_persistence_min_window_time_ms c \<le> ctx_window_time_remaining_ms ctx"
    "ctx_window_time_remaining_ms ctx \<le> calm_persistence_max_window_time_ms c"
    "\<exists>edge. sig_expected_edge s = Some edge \<and> \<not> edge \<le> 0 \<and> \<not> edge \<le> calm_persistence_min_expected_edge c"
proof -
  obtain up_book down_book ci bias edge where g: "calm_guards ctx c up_book down_book = Inr ci"
    and e: "\<not> edge \<le> 0" "\<not> edge \<le> calm_persistence_min_expected_edge c"
    and s: "s = calm_signal ctx now up_book down_book ci bias edge"
    and w: "calm_persistence_min_window_time_ms c \<le> ctx_window_time_remaining_ms ctx"
      "ctx_window_time_remaining_ms ctx \<le> calm_persistence_max_window_time_ms c"
    using ev by (rule calm_evaluate_Single)
  note f = calm_guards_ok[OF g]
  have ask: "sig_ask s = ci_entry_ask ci" using f by (cases "ci_direction ci") (simp_all add: s calm_signal_def sig_ask_def Let_def)
  have "unit_f64 (ci_alignment ci)" using f alignment_unit by blast
  then show "unit_f64 (sig_confidence s)"
    using calm_confidence_unit calm_ratio_nonneg[OF g] by (simp add: s calm_signal_def Let_def)
  show "\<not> is_nan (sig_ask s) \<longrightarrow> 0 < sig_ask s" "\<not> calm_persistence_max_ask c < sig_ask s"
    unfolding ask using f pos_of_not_le by blast+
  show "\<exists>edge. sig_expected_edge s = Some edge \<and> \<not> edge \<le> 0 \<and> \<not> edge \<le> calm_persistence_min_expected_edge c"
    using e by (simp add: s calm_signal_def Let_def)
qed (use ev in \<open>auto elim: calm_evaluate_Single\<close>)

subsection \<open>Spread capture\<close>

lemma sc_snapshot_Inr:
  assumes "sc_snapshot ctx c = Inr pl"
  shows "quotes_are_fresh ctx c \<and> \<not> pl_up_ask pl \<le> 0 \<and> \<not> pl_down_ask pl \<le> 0 \<and>
    \<not> pl_up_ask pl < spread_capture_min_ask c \<and> \<not> pl_down_ask pl < spread_capture_min_ask c"
  using assms by (auto simp: sc_snapshot_def Let_def split: if_splits option.splits)

lemma sc_snapshot_Inl: "sc_snapshot ctx c = Inl r \<Longrightarrow> \<exists>rej. r = Rejected rej"
  by (auto simp: sc_snapshot_def reject_def Let_def split: if_splits option.splits)

lemma sc_build_decision_Inr:
  assumes "sc_build_decision parse ctx c now pl = Inr sd"
  shows "\<not> spread_capture_threshold c \<le> pl_up_ask pl + pl_down_ask pl" "\<not> sd_expected_edge sd \<le> 0"
    "sd_expected_edge sd = spread_net_edge (pl_up_ask pl) (pl_down_ask pl) 1 (fee_rate (resolve_fee_params parse c None now))
       (exponent (resolve_fee_params parse c None now)) - sd_expected_slippage sd"
  using assms by (auto simp: sc_build_decision_def Let_def split: if_splits)

lemma sc_build_decision_Inl: "sc_build_decision parse ctx c now pl = Inl r \<Longrightarrow> \<exists>rej. r = Rejected rej"
  by (auto simp: sc_build_decision_def reject_def Let_def split: if_splits)

text \<open>The market is not passed to the fee lookup, so the configured fee applies.\<close>

lemma resolve_fee_params_None: "resolve_fee_params parse c None now = configured_fee_params c"
  by (simp add: resolve_fee_params_def)

lemma sc_evaluate_Batch:
  assumes "sc_evaluate parse ctx c now = Batch ss"
  obtains pl sd where "ss = [sc_signal ctx c now pl sd Up, sc_signal ctx c now pl sd Down]"
    "sc_snapshot ctx c = Inr pl" "sc_build_decision parse ctx c now pl = Inr sd"
  using assms by (auto simp: sc_evaluate_def dest: sc_snapshot_Inl sc_build_decision_Inl split: sum.splits)

text \<open>With a fee rate in the unit interval and a slippage that is not negative, both legs together cost less than the payout.\<close>

lemma sc_batch_discount:
  assumes "sc_evaluate parse ctx c now = Batch ss" "unit_f64 (taker_fee_rate c)"
  obtains u d edge slip where "ss = [u, d]" "sig_direction u = Up" "sig_direction d = Down"
    "sig_expected_edge u = Some edge" "sig_expected_edge d = Some edge"
    "\<not> spread_capture_threshold c \<le> sig_ask u + sig_ask d"
    "sig_timestamp u = now" "sig_timestamp d = now"
    "\<not> is_nan (sig_ask u) \<Longrightarrow> \<not> is_nan (sig_ask d) \<Longrightarrow> \<not> is_nan edge \<Longrightarrow> 0 \<le> slip \<Longrightarrow>
       0 < edge \<and> 0 < 1 * (1 - sig_ask u - sig_ask d)"
    "slip = unwrap_or (ft_expected_up_slippage (ctx_features ctx)) 0 + unwrap_or (ft_expected_down_slippage (ctx_features ctx)) 0"
proof -
  obtain pl sd where ss: "ss = [sc_signal ctx c now pl sd Up, sc_signal ctx c now pl sd Down]"
    and b: "sc_build_decision parse ctx c now pl = Inr sd" using assms(1) by (rule sc_evaluate_Batch)
  let ?u = "sc_signal ctx c now pl sd Up" and ?d = "sc_signal ctx c now pl sd Down"
  have asks: "sig_ask ?u = pl_up_ask pl" "sig_ask ?d = pl_down_ask pl" by (simp_all add: sc_signal_def sig_ask_def)
  note r = sc_build_decision_Inr[OF b, unfolded resolve_fee_params_None]
  have slip: "sd_expected_slippage sd = unwrap_or (ft_expected_up_slippage (ctx_features ctx)) 0
      + unwrap_or (ft_expected_down_slippage (ctx_features ctx)) 0"
    using b by (auto simp: sc_build_decision_def Let_def split: if_splits)
  have disc: "0 < sd_expected_edge sd \<and> 0 < 1 * (1 - sig_ask ?u - sig_ask ?d)"
    if "\<not> is_nan (sig_ask ?u)" "\<not> is_nan (sig_ask ?d)" "\<not> is_nan (sd_expected_edge sd)" "0 \<le> sd_expected_slippage sd"
  proof -
    have pos: "0 < sd_expected_edge sd" using pos_of_not_le[OF that(3) r(2)] .
    then have "0 < spread_net_edge (pl_up_ask pl) (pl_down_ask pl) 1 (taker_fee_rate c) (taker_fee_exponent c)"
      using f64_sub_le[OF that(4)] that(3) f64_less_le_trans r(3) by (simp add: configured_fee_params_def)
    with pos show ?thesis using spread_net_edge_pos_gross that(1,2) assms(2) asks by simp
  qed
  show ?thesis
    by (rule that[OF ss]) (use r(1) asks slip disc in \<open>simp_all add: sc_signal_def\<close>)
qed

end
