(* ===== verification/Attribution.thy ===== *)
theory Attribution
  imports Executor
begin

section \<open>Attribution of outcomes to regimes\<close>

text \<open>
  \<^verbatim>\<open>PortfolioAttributionStats\<close> of \<^verbatim>\<open>src/bots/paint/src/portfolio.rs\<close>: counters per regime and family, and the maps
  from a queued signal to the regime and family that produced it.
\<close>

record attribution =
  at_regime_counts :: "PortfolioRegime \<rightharpoonup> u64"
  at_candidate_counts :: "StrategyFamily \<rightharpoonup> u64"
  at_queued_counts :: "PortfolioRegime \<rightharpoonup> u64"
  at_filled_counts :: "PortfolioRegime \<rightharpoonup> u64"
  at_missed_counts :: "PortfolioRegime \<rightharpoonup> u64"
  at_signal_regimes :: "i64 \<rightharpoonup> PortfolioRegime"
  at_signal_families :: "i64 \<rightharpoonup> StrategyFamily"
  at_router_blocked :: u64
  at_capital_blocked :: u64
  at_latency_spread_overlap :: u64
  at_latency_calm_overlap :: u64
  at_spread_calm_overlap :: u64

definition attribution_default :: attribution where
  "attribution_default = \<lparr>at_regime_counts = Map.empty, at_candidate_counts = Map.empty, at_queued_counts = Map.empty,
     at_filled_counts = Map.empty, at_missed_counts = Map.empty, at_signal_regimes = Map.empty,
     at_signal_families = Map.empty, at_router_blocked = 0, at_capital_blocked = 0, at_latency_spread_overlap = 0,
     at_latency_calm_overlap = 0, at_spread_calm_overlap = 0\<rparr>"

definition counter :: "('k \<rightharpoonup> u64) \<Rightarrow> 'k \<Rightarrow> u64" where
  "counter m k = unwrap_or (m k) 0"

definition bump :: "'k \<Rightarrow> u64 \<Rightarrow> ('k \<rightharpoonup> u64) \<Rightarrow> ('k \<rightharpoonup> u64)" where
  "bump k n m = m(k \<mapsto> counter m k + n)"

lemma counter_bump [simp]: "counter (bump k n m) j = (if j = k then counter m k + n else counter m j)"
  by (simp add: counter_def bump_def)

definition record_observed_regime :: "PortfolioRegime \<Rightarrow> attribution \<Rightarrow> attribution" where
  "record_observed_regime r a = a\<lparr>at_regime_counts := bump r 1 (at_regime_counts a)\<rparr>"

definition record_candidates :: "StrategyFamily list \<Rightarrow> attribution \<Rightarrow> attribution" where
  "record_candidates fs a =
     (let has_latency = LatencyArb \<in> set fs; has_spread = SpreadCapture \<in> set fs; has_calm = CalmPersistence \<in> set fs
      in a\<lparr>at_candidate_counts := fold (\<lambda>f. bump f 1) fs (at_candidate_counts a),
           at_latency_spread_overlap := at_latency_spread_overlap a + (if has_latency \<and> has_spread then 1 else 0),
           at_latency_calm_overlap := at_latency_calm_overlap a + (if has_latency \<and> has_calm then 1 else 0),
           at_spread_calm_overlap := at_spread_calm_overlap a + (if has_spread \<and> has_calm then 1 else 0)\<rparr>)"

definition record_router_block :: "attribution \<Rightarrow> attribution" where
  "record_router_block a = a\<lparr>at_router_blocked := at_router_blocked a + 1\<rparr>"

definition record_submission :: "StrategyFamily \<Rightarrow> PortfolioRegime \<Rightarrow> SubmissionOutcome \<Rightarrow> attribution \<Rightarrow> attribution" where
  "record_submission f r outcome a = (case outcome of
     Queued ids orders \<Rightarrow> a\<lparr>at_queued_counts := bump r (of_nat (length ids)) (at_queued_counts a),
       at_signal_regimes := fold (\<lambda>i m. m(i \<mapsto> r)) ids (at_signal_regimes a),
       at_signal_families := fold (\<lambda>i m. m(i \<mapsto> f)) ids (at_signal_families a)\<rparr>
   | SubmissionRejected ids reason \<Rightarrow>
       if reason = ''strategy_sleeve_exhausted'' then a\<lparr>at_capital_blocked := at_capital_blocked a + 1\<rparr> else a)"

definition outcome_regime :: "attribution \<Rightarrow> processed_outcome \<Rightarrow> PortfolioRegime" where
  "outcome_regime a out = unwrap_or (at_signal_regimes a (out_signal_id out)) Dislocation"

definition record_processed_outcome :: "processed_outcome \<Rightarrow> attribution \<Rightarrow> attribution" where
  "record_processed_outcome out a = (case out_disposition out of
     Filled \<Rightarrow> a\<lparr>at_filled_counts := bump (outcome_regime a out) 1 (at_filled_counts a)\<rparr>
   | Missed \<Rightarrow> a\<lparr>at_missed_counts := bump (outcome_regime a out) 1 (at_missed_counts a)\<rparr>)"

definition record_processed_outcomes :: "processed_outcome list \<Rightarrow> attribution \<Rightarrow> attribution" where
  "record_processed_outcomes outs a = fold record_processed_outcome outs a"

definition regime_count :: "PortfolioRegime \<Rightarrow> attribution \<Rightarrow> u64" where
  "regime_count r a = counter (at_regime_counts a) r"

definition candidate_count :: "StrategyFamily \<Rightarrow> attribution \<Rightarrow> u64" where
  "candidate_count f a = counter (at_candidate_counts a) f"

definition queued_count :: "PortfolioRegime \<Rightarrow> attribution \<Rightarrow> u64" where
  "queued_count r a = counter (at_queued_counts a) r"

definition filled_count :: "PortfolioRegime \<Rightarrow> attribution \<Rightarrow> u64" where
  "filled_count r a = counter (at_filled_counts a) r"

definition missed_count :: "PortfolioRegime \<Rightarrow> attribution \<Rightarrow> u64" where
  "missed_count r a = counter (at_missed_counts a) r"

lemmas count_defs = regime_count_def candidate_count_def queued_count_def filled_count_def missed_count_def

subsection \<open>Every outcome is credited once, to the regime that queued it\<close>

lemma record_outcome_regimes [simp]: "at_signal_regimes (record_processed_outcome out a) = at_signal_regimes a"
  by (cases "out_disposition out") (simp_all add: record_processed_outcome_def)

lemma record_outcome_regime [simp]: "outcome_regime (record_processed_outcome out a) = outcome_regime a"
  by (rule ext) (simp add: outcome_regime_def)

lemma record_outcome_counts:
  "filled_count r (record_processed_outcome out a) =
     filled_count r a + (if out_disposition out = Filled \<and> outcome_regime a out = r then 1 else 0)"
  "missed_count r (record_processed_outcome out a) =
     missed_count r a + (if out_disposition out = Missed \<and> outcome_regime a out = r then 1 else 0)"
  by (cases "out_disposition out"; simp add: record_processed_outcome_def count_defs)+

lemma record_outcomes_counts:
  "filled_count r (record_processed_outcomes outs a) =
     filled_count r a + of_nat (length (filter (\<lambda>out. out_disposition out = Filled \<and> outcome_regime a out = r) outs))"
  "missed_count r (record_processed_outcomes outs a) =
     missed_count r a + of_nat (length (filter (\<lambda>out. out_disposition out = Missed \<and> outcome_regime a out = r) outs))"
proof (induction outs arbitrary: a)
  case (Cons out outs)
  { case 1 show ?case using Cons.IH(1)[of "record_processed_outcome out a"]
      by (simp add: record_processed_outcomes_def record_outcome_counts)
  next
    case 2 show ?case using Cons.IH(2)[of "record_processed_outcome out a"]
      by (simp add: record_processed_outcomes_def record_outcome_counts) }
qed (simp_all add: record_processed_outcomes_def)

lemma fold_signal_map: "fold (\<lambda>i m. m(i \<mapsto> v)) ids m j = (if j \<in> set ids then Some v else m j)"
  by (induction ids arbitrary: m) auto

lemma queued_regime:
  "out_signal_id out \<in> set ids \<Longrightarrow> outcome_regime (record_submission f r (Queued ids orders) a) out = r"
  by (simp add: outcome_regime_def record_submission_def fold_signal_map)

lemma submission_keeps_outcome_counts:
  "filled_count r (record_submission f r' out a) = filled_count r a"
  "missed_count r (record_submission f r' out a) = missed_count r a"
  by (cases out; simp add: record_submission_def count_defs)+

text \<open>The outcomes of one queued submission are all credited to its regime.\<close>

lemma submission_credited:
  assumes "\<forall>out \<in> set outs. out_signal_id out \<in> set ids"
  shows "filled_count q (record_processed_outcomes outs (record_submission f r (Queued ids orders) a)) = filled_count q a +
      (if q = r then of_nat (length (filter (\<lambda>out. out_disposition out = Filled) outs)) else 0)"
    "missed_count q (record_processed_outcomes outs (record_submission f r (Queued ids orders) a)) = missed_count q a +
      (if q = r then of_nat (length (filter (\<lambda>out. out_disposition out = Missed) outs)) else 0)"
proof -
  let ?a = "record_submission f r (Queued ids orders) a"
  have "filter (\<lambda>out. P out \<and> outcome_regime ?a out = q) outs = (if q = r then filter P outs else [])" for P
    using assms queued_regime[of _ ids f r orders a] by (auto intro!: filter_cong simp: filter_empty_conv)
  then show "filled_count q (record_processed_outcomes outs ?a) = filled_count q a +
      (if q = r then of_nat (length (filter (\<lambda>out. out_disposition out = Filled) outs)) else 0)"
    "missed_count q (record_processed_outcomes outs ?a) = missed_count q a +
      (if q = r then of_nat (length (filter (\<lambda>out. out_disposition out = Missed) outs)) else 0)"
    by (simp_all add: record_outcomes_counts submission_keeps_outcome_counts)
qed

text \<open>Nothing is lost: over all regimes the fills and misses grow by the number of outcomes.\<close>

definition total_outcomes :: "attribution \<Rightarrow> u64" where
  "total_outcomes a = sum_list (map (\<lambda>r. filled_count r a + missed_count r a) [Dislocation, StructuralPair, Calm])"

lemma total_outcomes_step: "total_outcomes (record_processed_outcome out a) = total_outcomes a + 1"
  by (cases "outcome_regime a out"; cases "out_disposition out")
    (simp_all add: total_outcomes_def record_outcome_counts)

lemma total_outcomes_all:
  "total_outcomes (record_processed_outcomes outs a) = total_outcomes a + of_nat (length outs)"
  unfolding record_processed_outcomes_def
  by (induction outs arbitrary: a) (simp_all add: total_outcomes_step algebra_simps)

lemma candidate_counts:
  "candidate_count f (record_candidates fs a) = candidate_count f a + of_nat (count_list fs f)"
proof -
  have "counter (fold (\<lambda>f. bump f 1) fs m) f = counter m f + of_nat (count_list fs f)" for m
    by (induction fs arbitrary: m) (simp_all add: algebra_simps)
  then show ?thesis by (simp add: record_candidates_def count_defs Let_def)
qed

end
