(* ===== verification/SignalInstances.thy ===== *)
theory SignalInstances
  imports Instances Settlement SignalRules Attribution
begin

section \<open>Concrete positions and signals\<close>

text \<open>
  A desk with an open position and a market snapshot on which each of the three strategies emits a signal. The prices
  are dyadic; the constants of the strategies are not, and the inequalities on them are evaluated by \<open>code_simp\<close>.
\<close>

subsection \<open>A desk with one open position\<close>

definition demo_position :: trade where
  "demo_position = new_position demo_signal demo_window (f64_lit (1 / 2)) ''up'' (f64_lit 64)"

definition demo_desk :: desk where
  "demo_desk = \<lparr>dk_open_count = 1, dk_db = demo_store\<lparr>db_trades := [trade_row_of 1 demo_position], db_trade_seq := 1\<rparr>,
     dk_bank = demo_bank\<rparr>"

lemmas demo_desk_defs = demo_desk_def demo_position_def new_position_def trade_row_of_def trade_columns_def
  demo_world_defs get_open_trades_for_market_def open_rows_for_market_def trade_of_row_def sql_call_def
  direction_from_str_def trade_status_from_str_def sql_real_opt_def

lemma demo_desk_open:
  "get_open_trades_for_market (mw_market_id demo_window) (dk_db demo_desk) =
     (Inr [demo_position\<lparr>tr_id := Some 1\<rparr>], dk_db demo_desk)"
  by (simp add: demo_desk_defs)

lemma demo_desk_facts:
  "db_faults (dk_db demo_desk) = []" "distinct (map row_id (db_trades (dk_db demo_desk)))"
  "db_results (dk_db demo_desk) = []" "dk_bank demo_desk = demo_bank" "dk_open_count demo_desk = 1"
  by (simp_all add: demo_desk_def demo_world_defs trade_row_of_def)

lemma demo_fee: "resolve_fee_params (\<lambda>_. None) demo_free (Some demo_window) t = \<lparr>fee_rate = 0, exponent = taker_fee_exponent demo_free\<rparr>"
  by (simp add: resolve_fee_params_def configured_fee_params_def)

lemma demo_settlement_storable:
  "storable (settlement_result \<lparr>fee_rate = 0, exponent = e\<rparr> Up 1 (demo_position\<lparr>tr_id := Some 1\<rparr>))"
  by (simp add: storable_def settlement_result_def demo_position_def new_position_def demo_signal_def compute_taker_fee_def
      finite_mul_not_nan f64_finite_add_not_nan lit_eval Let_def del: lit_0 lit_1 cong: weak_congs) code_simp

subsection \<open>A snapshot with a latency signal\<close>

definition demo_quotes :: config where
  "demo_quotes = demo\<lparr>latency_arb_momentum_threshold := 1, latency_arb_min_ask := f64_lit (1 / 4), latency_arb_cooldown_ms := 60000,
     spread_capture_threshold := f64_lit 0.875, spread_capture_min_ask := f64_lit 0.125, taker_fee_rate := 0,
     calm_persistence_max_ask := f64_lit (1 / 2), regime_detection_enabled := True\<rparr>"

definition demo_tob :: "f64 \<Rightarrow> top_of_book" where
  "demo_tob ask = \<lparr>tob_best_bid = f64_lit 0.125, tob_best_ask = ask, tob_bid_size = f64_lit 64, tob_ask_size = f64_lit 64,
     tob_timestamp = 90000, tob_observed_at_ms = 90000\<rparr>"

definition demo_ctx :: strategy_context where
  "demo_ctx = \<lparr>ctx_binance_price = f64_lit 8, ctx_binance_momentum = f64_lit 4, ctx_chainlink_price = None,
     ctx_book_state = \<lparr>book_up = Some (demo_tob (f64_lit (3 / 8))), book_down = Some (demo_tob (f64_lit (1 / 4)))\<rparr>,
     ctx_window_open_price = Some (f64_lit 4), ctx_window_time_remaining_ms = 120000, ctx_now_us = None,
     ctx_features = features_default\<rparr>"

definition demo_latency_state :: latency_arb where
  "demo_latency_state = record_momentum_sample (ctx_binance_momentum demo_ctx) 100000
     ((la_new 1)\<lparr>la_adaptive_window_ms := latency_arb_adaptive_window_ms demo_quotes\<rparr>)"

lemma demo_bias: "1 < external_bias_score demo_ctx 1" by code_simp

lemma max_one: "f64_max 1 (f64_lit 0.000001) = 1" by code_simp

lemma demo_edges: "stale_price_edge demo_ctx Up 1 = Some (f64_lit (3 / 8))" "stale_price_edge demo_ctx Down 1 = Some 0"
  by (simp_all only: stale_price_edge_def max_one)
     (simp_all add: demo_ctx_def demo_tob_def lit_eval Let_def del: lit_0 lit_1 cong: weak_congs)

lemmas demo_quote_defs = demo_ctx_def demo_quotes_def demo_def config_default_def features_default_def demo_latency_state_def
  record_momentum_sample_def la_new_def MOMENTUM_BUFFER_SIZE_def demo_tob_def levels_of_def

lemma demo_levels: "la_price_levels demo_ctx demo_quotes 100000 demo_latency_state =
    Inr (levels_of (demo_tob (f64_lit (3 / 8))) (demo_tob (f64_lit (1 / 4))))"
  by (simp add: la_price_levels_def demo_quote_defs features_are_fresh_def lit_eval Let_def del: lit_0 lit_1 cong: weak_congs)

lemma demo_threshold: "\<exists>la. get_adaptive_threshold 100000 1 demo_latency_state = Some (1, la)"
  by (simp add: get_adaptive_threshold_def demo_quote_defs Let_def)

lemma demo_decision:
  "\<exists>ld la. la_build_decision demo_ctx demo_quotes 100000 (levels_of (demo_tob (f64_lit (3 / 8))) (demo_tob (f64_lit (1 / 4))))
     demo_latency_state = Some (Inr ld, la) \<and> ld_direction ld = Up \<and> ld_expected_edge ld = Some (f64_lit (3 / 8))"
proof -
  have "latency_arb_momentum_threshold demo_quotes = 1" "latency_arb_max_ask demo_quotes = f64_lit (1 / 2)"
    "latency_arb_min_ask demo_quotes = f64_lit (1 / 4)" "ctx_features demo_ctx = features_default"
    by (simp_all add: demo_quotes_def demo_ctx_def)
  then show ?thesis
    using demo_threshold demo_bias demo_edges
    by (auto simp: la_build_decision_def select_direction_def expected_trade_costs_def levels_of_def demo_tob_def level_ask_def
        features_default_def lit_eval Let_def simp del: lit_0 lit_1)
qed

lemma demo_latency:
  "\<exists>s la. la_evaluate demo_ctx demo_quotes 100000 (la_new 1) = Some (Single s, la) \<and> sig_direction s = Up \<and>
     sig_expected_edge s = Some (f64_lit (3 / 8))"
  using demo_decision by (auto simp: la_evaluate_def demo_latency_state_def[symmetric] demo_levels la_build_signal_def)

subsection \<open>A calm signal\<close>

definition demo_calm_ctx :: strategy_context where
  "demo_calm_ctx = demo_ctx\<lparr>ctx_window_time_remaining_ms := 60000, ctx_features := features_default\<lparr>
     ft_distance_from_open_bps := Some (f64_lit 16), ft_realized_vol_15s_bps := Some (f64_lit 4), ft_open_crosses_30s := Some 0,
     ft_return_250ms := Some 1, ft_return_500ms := Some 1, ft_return_1000ms := Some 1\<rparr>\<rparr>"

lemma demo_calm_guards:
  "\<exists>ci. calm_guards demo_calm_ctx demo_quotes (demo_tob (f64_lit (3 / 8))) (demo_tob (f64_lit (1 / 4))) = Inr ci \<and>
     ci_direction ci = Up \<and> ci_entry_ask ci = f64_lit (3 / 8) \<and> ci_ratio ci = f64_lit 4 \<and> ci_alignment ci = 1 \<and> ci_open_crosses ci = 0"
  by (simp add: calm_guards_def demo_calm_ctx_def demo_quote_defs signed_distance_from_open_bps_def alignment_fraction_def
      alignment_values_def MIN_ALIGNMENT_SIGNALS_def List.map_filter_def f64_of_nat_def lit_eval Let_def del: lit_0 lit_1 cong: weak_congs)

definition demo_calm_bias :: f64 where
  "demo_calm_bias = f64_clamp (f64_lit 0.025 * f64_max (f64_lit 4) 0 + f64_lit 0.12 * f64_max (1 - f64_lit (1 / 2)) 0 + f64_lit 0.02) 0 (f64_lit (7 / 20))"

lemma demo_calm_edge: "\<not> f64_lit (1 / 2) + demo_calm_bias - f64_lit (3 / 8) - 0 - 0 \<le> 0"
  "\<not> f64_lit (1 / 2) + demo_calm_bias - f64_lit (3 / 8) - 0 - 0 \<le> f64_lit (1 / 20)" "0 \<le> f64_lit (7 / 20)"
  by code_simp+

definition demo_confidence :: f64 where
  "demo_confidence = calm_confidence (f64_lit 4) 1 (f64_lit (1 / 2) + demo_calm_bias - f64_lit (3 / 8) - 0 - 0)"

lemma demo_calm: "\<exists>s. calm_evaluate demo_calm_ctx demo_quotes 100000 = Some (Single s) \<and> sig_direction s = Up \<and>
  sig_confidence s = demo_confidence \<and> sig_strategy s = ''calm-persistence'' \<and> sig_timestamp s = 100000 \<and>
  sig_up_ask s = f64_lit (3 / 8) \<and> sig_down_ask s = f64_lit (1 / 4)"
proof -
  obtain ci where ci: "calm_guards demo_calm_ctx demo_quotes (demo_tob (f64_lit (3 / 8))) (demo_tob (f64_lit (1 / 4))) = Inr ci"
    "ci_direction ci = Up" "ci_entry_ask ci = f64_lit (3 / 8)" "ci_ratio ci = f64_lit 4" "ci_alignment ci = 1" "ci_open_crosses ci = 0"
    using demo_calm_guards by blast
  have c: "calm_persistence_max_fair_bias demo_quotes = f64_lit (7 / 20)" "calm_persistence_min_expected_edge demo_quotes = f64_lit (1 / 20)"
    "calm_persistence_min_window_time_ms demo_quotes = 30000" "calm_persistence_max_window_time_ms demo_quotes = 90000"
    by (simp_all add: demo_quotes_def demo_def config_default_def)
  have x: "ctx_window_time_remaining_ms demo_calm_ctx = 60000" "quotes_are_fresh demo_calm_ctx demo_quotes"
    "book_up (ctx_book_state demo_calm_ctx) = Some (demo_tob (f64_lit (3 / 8)))"
    "book_down (ctx_book_state demo_calm_ctx) = Some (demo_tob (f64_lit (1 / 4)))"
    "calm_fee demo_calm_ctx Up = 0" "calm_slippage demo_calm_ctx Up = 0"
    by (simp_all add: demo_calm_ctx_def demo_ctx_def quotes_are_fresh_def calm_fee_def calm_slippage_def features_default_def)
  have b: "fair_bias (f64_lit 4) 1 0 demo_quotes = Some demo_calm_bias"
    using demo_calm_edge(3) by (simp add: fair_bias_def clamp_checked_def demo_calm_bias_def c)
  have t: "tob_best_ask (demo_tob a) = a" for a by (simp add: demo_tob_def)
  show ?thesis using demo_calm_edge(1,2) by (simp add: calm_evaluate_def calm_signal_def ci x c b t Let_def demo_confidence_def)
qed

subsection \<open>A spread signal\<close>

lemma demo_spread_levels:
  "sc_snapshot demo_calm_ctx demo_quotes = Inr (levels_of (demo_tob (f64_lit (3 / 8))) (demo_tob (f64_lit (1 / 4))))"
  by (simp add: sc_snapshot_def legging_risk_is_acceptable_def short_return_def quotes_are_fresh_def demo_calm_ctx_def
      demo_quote_defs lit_eval Let_def del: lit_0 lit_1 cong: weak_congs)

lemma demo_spread_decision:
  "\<exists>sd. sc_build_decision (\<lambda>_. None) demo_calm_ctx demo_quotes 100000
     (levels_of (demo_tob (f64_lit (3 / 8))) (demo_tob (f64_lit (1 / 4)))) = Inr sd \<and> sd_expected_edge sd = f64_lit (3 / 8)"
  by (simp add: sc_build_decision_def resolve_fee_params_def configured_fee_params_def spread_net_edge_def compute_taker_fee_def
      demo_calm_ctx_def demo_quote_defs lit_eval Let_def del: lit_0 lit_1 cong: weak_congs)

lemma demo_spread_signal:
  "\<exists>u d. sc_evaluate (\<lambda>_. None) demo_calm_ctx demo_quotes 100000 = Batch [u, d] \<and> sig_expected_edge u = Some (f64_lit (3 / 8)) \<and>
     sig_ask u = f64_lit (3 / 8) \<and> sig_ask d = f64_lit (1 / 4)"
  using demo_spread_decision
  by (auto simp: sc_evaluate_def demo_spread_levels sc_signal_def sig_ask_def levels_of_def demo_tob_def)

subsection \<open>An outcome\<close>

definition demo_outcome :: processed_outcome where
  "demo_outcome = \<lparr>out_signal_id = 7, out_market_id = ''m1'', out_strategy = ''calm-persistence'', out_side = Up,
     out_disposition = Filled, out_reason = None, out_best_ask = None, out_ask_size = None, out_freshness_ms = None,
     out_requested_size = 1, out_filled_size = 1, out_effective_arrival_delay_ms = 0, out_partial_fill = False\<rparr>"

end
