(* ===== verification/TrendTracker.thy ===== *)
theory TrendTracker
  imports Portfolio
begin

section \<open>Trend tracker\<close>

text \<open>
  \<^verbatim>\<open>src/bots/paint/src/trend_tracker.rs\<close>: the recent trade outcomes per direction, the bias between the
  two win rates, and the suppression of signals that go against it; and the scoped tracker, which
  keeps one tracker per strategy family. The scoped tracker is shown to be a family of independent
  plain trackers.
\<close>

record outcome =
  o_direction :: SignalDirection
  o_won :: bool
  o_timestamp :: u64

record trend_tracker =
  tt_recent_outcomes :: "outcome list"
  tt_window_size :: nat
  tt_filter_enabled :: bool
  tt_filter_threshold :: f64

definition tt_new :: "nat \<Rightarrow> bool \<Rightarrow> f64 \<Rightarrow> trend_tracker" where
  "tt_new w enabled threshold = \<lparr>tt_recent_outcomes = [], tt_window_size = w,
     tt_filter_enabled = enabled, tt_filter_threshold = threshold\<rparr>"

definition tt_record_outcome :: "SignalDirection \<Rightarrow> bool \<Rightarrow> u64 \<Rightarrow> trend_tracker \<Rightarrow> trend_tracker" where
  "tt_record_outcome d won now t =
     (let os = tt_recent_outcomes t @ [\<lparr>o_direction = d, o_won = won, o_timestamp = now\<rparr>] in
      t\<lparr>tt_recent_outcomes := (if tt_window_size t < length os then tl os else os)\<rparr>)"

text \<open>The four counters of the loop: up wins, up total, down wins, down total.\<close>

definition count_outcome :: "outcome \<Rightarrow> u32 \<times> u32 \<times> u32 \<times> u32 \<Rightarrow> u32 \<times> u32 \<times> u32 \<times> u32" where
  "count_outcome x = (\<lambda>(up_wins, up_total, down_wins, down_total).
     (case o_direction x of
        Up \<Rightarrow> (if o_won x then up_wins + 1 else up_wins, up_total + 1, down_wins, down_total)
      | Down \<Rightarrow> (up_wins, up_total, if o_won x then down_wins + 1 else down_wins, down_total + 1)))"

definition win_rate :: "u32 \<Rightarrow> u32 \<Rightarrow> f64" where
  "win_rate wins total_n = (if 0 < total_n then f64_of_u32 wins / f64_of_u32 total_n else f64_lit 0.5)"

definition get_trend_bias :: "trend_tracker \<Rightarrow> f64" where
  "get_trend_bias t =
     (if length (tt_recent_outcomes t) < 3 then 0
      else (case fold count_outcome (tt_recent_outcomes t) (0, 0, 0, 0) of
        (up_wins, up_total, down_wins, down_total) \<Rightarrow>
          win_rate up_wins up_total - win_rate down_wins down_total))"

definition tt_should_suppress :: "trend_tracker \<Rightarrow> SignalDirection \<Rightarrow> bool" where
  "tt_should_suppress t d =
     (if \<not> tt_filter_enabled t then False
      else let bias = get_trend_bias t in
        (case d of Up \<Rightarrow> bias < - tt_filter_threshold t | Down \<Rightarrow> tt_filter_threshold t < bias))"

subsection \<open>The scoped tracker\<close>

record scoped_trend_tracker =
  st_global :: trend_tracker
  st_per_strategy :: "StrategyFamily \<rightharpoonup> trend_tracker"
  st_scoped :: bool
  st_window_size :: nat
  st_filter_enabled :: bool
  st_filter_threshold :: f64

definition st_new :: "nat \<Rightarrow> bool \<Rightarrow> f64 \<Rightarrow> bool \<Rightarrow> scoped_trend_tracker" where
  "st_new w enabled threshold scoped = \<lparr>st_global = tt_new w enabled threshold,
     st_per_strategy = Map.empty, st_scoped = scoped, st_window_size = w,
     st_filter_enabled = enabled, st_filter_threshold = threshold\<rparr>"

definition st_entry :: "scoped_trend_tracker \<Rightarrow> StrategyFamily \<Rightarrow> trend_tracker" where
  "st_entry s f = unwrap_or (st_per_strategy s f)
     (tt_new (st_window_size s) (st_filter_enabled s) (st_filter_threshold s))"

definition st_record_outcome ::
  "StrategyFamily \<Rightarrow> SignalDirection \<Rightarrow> bool \<Rightarrow> u64 \<Rightarrow> scoped_trend_tracker \<Rightarrow> scoped_trend_tracker" where
  "st_record_outcome f d won now s =
     (if st_scoped s
      then s\<lparr>st_per_strategy := (st_per_strategy s)(f \<mapsto> tt_record_outcome d won now (st_entry s f))\<rparr>
      else s\<lparr>st_global := tt_record_outcome d won now (st_global s)\<rparr>)"

definition st_should_suppress ::
  "StrategyFamily \<Rightarrow> SignalDirection \<Rightarrow> scoped_trend_tracker \<Rightarrow> scoped_trend_tracker \<times> bool" where
  "st_should_suppress f d s =
     (if st_scoped s
      then (s\<lparr>st_per_strategy := (st_per_strategy s)(f \<mapsto> st_entry s f)\<rparr>, tt_should_suppress (st_entry s f) d)
      else (s, tt_should_suppress (st_global s) d))"

subsection \<open>The window\<close>

definition tt_push :: "SignalDirection \<times> bool \<times> u64 \<Rightarrow> trend_tracker \<Rightarrow> trend_tracker" where
  "tt_push = (\<lambda>(d, won, now). tt_record_outcome d won now)"

definition outcome_of :: "SignalDirection \<times> bool \<times> u64 \<Rightarrow> outcome" where
  "outcome_of = (\<lambda>(d, won, now). \<lparr>o_direction = d, o_won = won, o_timestamp = now\<rparr>)"

interpretation tt_window: bounded_buffer tt_push tt_recent_outcomes tt_window_size outcome_of
  by unfold_locales
    (auto simp: tt_push_def outcome_of_def tt_record_outcome_def push_bounded_def Let_def)

subsection \<open>The bias\<close>

definition dir_outcomes :: "SignalDirection \<Rightarrow> outcome list \<Rightarrow> outcome list" where
  "dir_outcomes d os = filter (\<lambda>x. o_direction x = d) os"

lemma count_outcomes:
  "fold count_outcome os (a, b, c, d) =
     (a + of_nat (length (filter o_won (dir_outcomes Up os))), b + of_nat (length (dir_outcomes Up os)),
      c + of_nat (length (filter o_won (dir_outcomes Down os))), d + of_nat (length (dir_outcomes Down os)))"
proof (induction os arbitrary: a b c d)
  case (Cons x os)
  then show ?case
    by (cases "o_direction x") (auto simp: count_outcome_def dir_outcomes_def ac_simps)
qed (simp add: dir_outcomes_def)

lemma f64_of_u32_finite: "is_finite (f64_of_u32 n) \<and> fval (f64_of_u32 n) = of_int (uint n)"
proof -
  have b: "uint n < 2 ^ 32" using uint_lt2p[of n] by simp
  then have "\<bar>uint n\<bar> \<le> 2 ^ 53" by simp
  then have "rnd (of_int (uint n)) = of_int (uint n)" by (rule rnd_int)
  moreover have "\<bar>of_int (uint n) :: rat\<bar> \<le> of_int (2 ^ 53)"
    using b by (simp only: of_int_abs[symmetric] of_int_le_iff) simp
  ultimately show ?thesis using lit_small[of "of_int (uint n)"] by (simp add: f64_of_u32_def)
qed

lemma win_rate_unit:
  assumes "wins \<le> total_n"
  shows "unit_f64 (win_rate wins total_n)"
proof (cases "0 < total_n")
  case True
  then have t: "0 < uint total_n" by (simp add: word_less_def)
  have w: "0 \<le> uint wins" "uint wins \<le> uint total_n" using assms by (simp_all add: word_le_def)
  note fin = f64_of_u32_finite[THEN conjunct1] and val = f64_of_u32_finite[THEN conjunct2]
  have "unit_f64 (f64_of_u32 wins / f64_of_u32 total_n)"
    using w t by (intro f64_div_unit fin; simp only: val of_int_le_iff of_int_0_le_iff of_int_0_less_iff)
  with True show ?thesis by (simp add: win_rate_def)
next
  case False
  then show ?thesis
    using lit_mono[of "0.5" 1] lit_nonneg[of "0.5"] by (simp add: win_rate_def unit_f64_def)
qed

lemma of_nat_u32_mono: "a \<le> b \<Longrightarrow> b < 2 ^ 32 \<Longrightarrow> (of_nat a :: u32) \<le> of_nat b"
  by (simp add: word_le_nat_alt unat_of_nat)

lemma trend_bias_as_rates:
  "get_trend_bias t =
    (let os = tt_recent_outcomes t;
         rate = (\<lambda>d. win_rate (of_nat (length (filter o_won (dir_outcomes d os)))) (of_nat (length (dir_outcomes d os))))
     in if length os < 3 then 0 else rate Up - rate Down)"
  by (simp add: get_trend_bias_def count_outcomes Let_def)

lemma dir_rate_unit:
  assumes "length os < 2 ^ 32"
  shows "unit_f64 (win_rate (of_nat (length (filter o_won (dir_outcomes d os)))) (of_nat (length (dir_outcomes d os))))"
proof (rule win_rate_unit, rule of_nat_u32_mono)
  show "length (dir_outcomes d os) < 2 ^ 32"
    using assms length_filter_le[of _ os] le_less_trans unfolding dir_outcomes_def by blast
qed simp

lemma trend_bias_bounds:
  assumes "length (tt_recent_outcomes t) < 2 ^ 32"
  shows "- 1 \<le> get_trend_bias t" "get_trend_bias t \<le> 1"
  using f64_unit_diff[OF dir_rate_unit[OF assms] dir_rate_unit[OF assms]]
  by (auto simp: trend_bias_as_rates Let_def f64_le_finite)

lemma not_both_suppressed:
  assumes "0 \<le> tt_filter_threshold t"
  shows "\<not> (tt_should_suppress t Up \<and> tt_should_suppress t Down)"
proof
  let ?th = "tt_filter_threshold t" and ?b = "get_trend_bias t"
  assume "tt_should_suppress t Up \<and> tt_should_suppress t Down"
  then have b: "?b < - ?th" "?th < ?b" by (simp_all add: tt_should_suppress_def Let_def split: if_splits)
  have z: "- 0 \<le> (0 :: f64)" by transfer simp
  have "- ?th \<le> - 0" by (rule f64_neg_antimono[OF assms])
  then have "- ?th \<le> ?th" using f64_le_trans[of "- ?th" "- 0" 0] f64_le_trans[of "- ?th" 0 ?th] assms z by simp
  then have "?b < ?th" using b(1) f64_less_le_trans by blast
  then show False using b(2) f64_less_imp_not_le f64_less_imp_le by blast
qed

subsection \<open>Independence of the scoped trackers\<close>

datatype st_event = StRecord StrategyFamily SignalDirection bool u64 | StQuery StrategyFamily SignalDirection

fun st_step :: "st_event \<Rightarrow> scoped_trend_tracker \<Rightarrow> scoped_trend_tracker" where
  "st_step (StRecord f d won now) s = st_record_outcome f d won now s"
| "st_step (StQuery f d) s = fst (st_should_suppress f d s)"

fun st_records :: "StrategyFamily \<Rightarrow> st_event list \<Rightarrow> (SignalDirection \<times> bool \<times> u64) list" where
  "st_records f [] = []"
| "st_records f (StRecord g d won now # es) = (if g = f then [(d, won, now)] else []) @ st_records f es"
| "st_records f (StQuery g d # es) = st_records f es"

lemma st_step_params [simp]:
  "st_scoped (st_step e s) = st_scoped s"
  "st_window_size (st_step e s) = st_window_size s"
  "st_filter_enabled (st_step e s) = st_filter_enabled s"
  "st_filter_threshold (st_step e s) = st_filter_threshold s"
  by (cases e; simp add: st_record_outcome_def st_should_suppress_def)+

lemma st_entry_record:
  "st_scoped s \<Longrightarrow> st_entry (st_record_outcome g d won now s) f =
     (if g = f then tt_record_outcome d won now (st_entry s f) else st_entry s f)"
  by (simp add: st_entry_def st_record_outcome_def)

lemma st_entry_query: "st_scoped s \<Longrightarrow> st_entry (fst (st_should_suppress g d s)) f = st_entry s f"
  by (simp add: st_entry_def st_should_suppress_def)

lemma st_entry_run:
  "st_scoped s \<Longrightarrow> st_entry (fold st_step es s) f = fold tt_push (st_records f es) (st_entry s f)"
proof (induction es arbitrary: s)
  case (Cons e es)
  have "st_entry (fold st_step es (st_step e s)) f = fold tt_push (st_records f es) (st_entry (st_step e s) f)"
    using Cons.prems by (intro Cons.IH) simp
  with Cons.prems show ?case
    by (cases e) (auto simp: st_entry_record st_entry_query tt_push_def)
qed simp

end
