(* ===== verification/RejectionDiagnostics.thy ===== *)
theory RejectionDiagnostics
  imports Types
begin

section \<open>Rejection diagnostics\<close>

text \<open>
  \<^verbatim>\<open>src/bots/paint/src/rejection_diagnostics.rs\<close>: counts and running means of the rejections, per market, strategy and
  reason. The hash map is an association list in insertion order; the code leaves the order of the drained rows
  open, so nothing below depends on it. The details of a summary are kept as the JSON value, before it is printed.
\<close>

record rejection_key =
  rk_market_id :: string
  rk_strategy :: string
  rk_reason :: StrategyRejectionReason

record numeric_aggregate =
  na_sum :: f64
  na_count :: u64

definition na_default :: numeric_aggregate where
  "na_default = \<lparr>na_sum = 0, na_count = 0\<rparr>"

definition na_record :: "f64 option \<Rightarrow> numeric_aggregate \<Rightarrow> numeric_aggregate" where
  "na_record v a = (case v of None \<Rightarrow> a | Some x \<Rightarrow> \<lparr>na_sum = na_sum a + x, na_count = na_count a + 1\<rparr>)"

definition na_mean :: "numeric_aggregate \<Rightarrow> f64 option" where
  "na_mean a = (if na_count a = 0 then None else Some (na_sum a / f64_of_u64 (na_count a)))"

text \<open>\<open>value.round() as u64\<close> and \<open>as u32\<close>: rounding half away from zero, then the saturating cast.\<close>

definition round_to_u64 :: "f64 \<Rightarrow> u64" where
  "round_to_u64 x = f64_to_u64 (f64_round x)"

definition round_to_u32 :: "f64 \<Rightarrow> u32" where
  "round_to_u32 x = f64_to_u32 (f64_round x)"

definition sample_default :: rejection_sample where
  "sample_default = \<lparr>rs_up_ask = None, rs_down_ask = None, rs_total_ask = None, rs_distance_from_open_bps = None, rs_realized_vol_15s_bps = None, rs_distance_vol_ratio = None, rs_open_crosses_30s = None, rs_alignment_fraction = None, rs_external_bias = None, rs_up_edge = None, rs_down_edge = None, rs_expected_fee = None, rs_expected_slippage = None, rs_expected_edge = None, rs_quote_age_ms = None, rs_book_staleness_ms = None, rs_inter_leg_skew_ms = None, rs_available_spread_budget = None, rs_required_pair_notional = None, rs_required_pair_units = None, rs_window_time_remaining_ms = None, rs_quote_churn_per_s = None, rs_move_velocity = None\<rparr>"

record rejection_accumulator =
  ra_count :: u64
  ra_last :: rejection_sample
  ra_up_ask :: numeric_aggregate
  ra_down_ask :: numeric_aggregate
  ra_total_ask :: numeric_aggregate
  ra_distance_from_open_bps :: numeric_aggregate
  ra_realized_vol_15s_bps :: numeric_aggregate
  ra_distance_vol_ratio :: numeric_aggregate
  ra_open_crosses_30s :: numeric_aggregate
  ra_alignment_fraction :: numeric_aggregate
  ra_external_bias :: numeric_aggregate
  ra_up_edge :: numeric_aggregate
  ra_down_edge :: numeric_aggregate
  ra_expected_fee :: numeric_aggregate
  ra_expected_slippage :: numeric_aggregate
  ra_expected_edge :: numeric_aggregate
  ra_quote_age_ms :: numeric_aggregate
  ra_book_staleness_ms :: numeric_aggregate
  ra_window_time_remaining_ms :: numeric_aggregate
  ra_inter_leg_skew_ms :: numeric_aggregate
  ra_available_spread_budget :: numeric_aggregate
  ra_required_pair_notional :: numeric_aggregate
  ra_required_pair_units :: numeric_aggregate
  ra_quote_churn_per_s :: numeric_aggregate
  ra_move_velocity :: numeric_aggregate

definition ra_default :: rejection_accumulator where
  "ra_default = \<lparr>ra_count = 0, ra_last = sample_default,
     ra_up_ask = na_default,
     ra_down_ask = na_default,
     ra_total_ask = na_default,
     ra_distance_from_open_bps = na_default,
     ra_realized_vol_15s_bps = na_default,
     ra_distance_vol_ratio = na_default,
     ra_open_crosses_30s = na_default,
     ra_alignment_fraction = na_default,
     ra_external_bias = na_default,
     ra_up_edge = na_default,
     ra_down_edge = na_default,
     ra_expected_fee = na_default,
     ra_expected_slippage = na_default,
     ra_expected_edge = na_default,
     ra_quote_age_ms = na_default,
     ra_book_staleness_ms = na_default,
     ra_window_time_remaining_ms = na_default,
     ra_inter_leg_skew_ms = na_default,
     ra_available_spread_budget = na_default,
     ra_required_pair_notional = na_default,
     ra_required_pair_units = na_default,
     ra_quote_churn_per_s = na_default,
     ra_move_velocity = na_default\<rparr>"

definition ra_record :: "rejection_sample \<Rightarrow> rejection_accumulator \<Rightarrow> rejection_accumulator" where
  "ra_record s a = \<lparr>ra_count = ra_count a + 1, ra_last = s,
     ra_up_ask = na_record (rs_up_ask s) (ra_up_ask a),
     ra_down_ask = na_record (rs_down_ask s) (ra_down_ask a),
     ra_total_ask = na_record (rs_total_ask s) (ra_total_ask a),
     ra_distance_from_open_bps = na_record (rs_distance_from_open_bps s) (ra_distance_from_open_bps a),
     ra_realized_vol_15s_bps = na_record (rs_realized_vol_15s_bps s) (ra_realized_vol_15s_bps a),
     ra_distance_vol_ratio = na_record (rs_distance_vol_ratio s) (ra_distance_vol_ratio a),
     ra_open_crosses_30s = na_record (map_option f64_of_u32 (rs_open_crosses_30s s)) (ra_open_crosses_30s a),
     ra_alignment_fraction = na_record (rs_alignment_fraction s) (ra_alignment_fraction a),
     ra_external_bias = na_record (rs_external_bias s) (ra_external_bias a),
     ra_up_edge = na_record (rs_up_edge s) (ra_up_edge a),
     ra_down_edge = na_record (rs_down_edge s) (ra_down_edge a),
     ra_expected_fee = na_record (rs_expected_fee s) (ra_expected_fee a),
     ra_expected_slippage = na_record (rs_expected_slippage s) (ra_expected_slippage a),
     ra_expected_edge = na_record (rs_expected_edge s) (ra_expected_edge a),
     ra_quote_age_ms = na_record (map_option f64_of_u64 (rs_quote_age_ms s)) (ra_quote_age_ms a),
     ra_book_staleness_ms = na_record (map_option f64_of_u64 (rs_book_staleness_ms s)) (ra_book_staleness_ms a),
     ra_window_time_remaining_ms = na_record (map_option f64_of_u64 (rs_window_time_remaining_ms s)) (ra_window_time_remaining_ms a),
     ra_inter_leg_skew_ms = na_record (map_option f64_of_u64 (rs_inter_leg_skew_ms s)) (ra_inter_leg_skew_ms a),
     ra_available_spread_budget = na_record (rs_available_spread_budget s) (ra_available_spread_budget a),
     ra_required_pair_notional = na_record (rs_required_pair_notional s) (ra_required_pair_notional a),
     ra_required_pair_units = na_record (rs_required_pair_units s) (ra_required_pair_units a),
     ra_quote_churn_per_s = na_record (rs_quote_churn_per_s s) (ra_quote_churn_per_s a),
     ra_move_velocity = na_record (rs_move_velocity s) (ra_move_velocity a)\<rparr>"

definition mean_sample :: "rejection_accumulator \<Rightarrow> rejection_sample" where
  "mean_sample a = \<lparr>
     rs_up_ask = na_mean (ra_up_ask a),
     rs_down_ask = na_mean (ra_down_ask a),
     rs_total_ask = na_mean (ra_total_ask a),
     rs_distance_from_open_bps = na_mean (ra_distance_from_open_bps a),
     rs_realized_vol_15s_bps = na_mean (ra_realized_vol_15s_bps a),
     rs_distance_vol_ratio = na_mean (ra_distance_vol_ratio a),
     rs_open_crosses_30s = map_option round_to_u32 (na_mean (ra_open_crosses_30s a)),
     rs_alignment_fraction = na_mean (ra_alignment_fraction a),
     rs_external_bias = na_mean (ra_external_bias a),
     rs_up_edge = na_mean (ra_up_edge a),
     rs_down_edge = na_mean (ra_down_edge a),
     rs_expected_fee = na_mean (ra_expected_fee a),
     rs_expected_slippage = na_mean (ra_expected_slippage a),
     rs_expected_edge = na_mean (ra_expected_edge a),
     rs_quote_age_ms = map_option round_to_u64 (na_mean (ra_quote_age_ms a)),
     rs_book_staleness_ms = map_option round_to_u64 (na_mean (ra_book_staleness_ms a)),
     rs_inter_leg_skew_ms = map_option round_to_u64 (na_mean (ra_inter_leg_skew_ms a)),
     rs_available_spread_budget = na_mean (ra_available_spread_budget a),
     rs_required_pair_notional = na_mean (ra_required_pair_notional a),
     rs_required_pair_units = na_mean (ra_required_pair_units a),
     rs_window_time_remaining_ms = map_option round_to_u64 (na_mean (ra_window_time_remaining_ms a)),
     rs_quote_churn_per_s = na_mean (ra_quote_churn_per_s a),
     rs_move_velocity = na_mean (ra_move_velocity a)\<rparr>"

definition build_summary_record :: "u64 \<Rightarrow> rejection_key \<Rightarrow> rejection_accumulator \<Rightarrow> rejection_summary" where
  "build_summary_record timestamp_ms k a = \<lparr>su_timestamp_ms = timestamp_ms, su_market_id = rk_market_id k,
     su_strategy = rk_strategy k, su_reason = rejection_reason_as_str (rk_reason k), su_count = ra_count a,
     su_details = JObj [(''last'', JObj (rejection_sample_to_json (ra_last a))),
       (''mean'', JObj (rejection_sample_to_json (mean_sample a)))]\<rparr>"

type_synonym rejection_tracker = "(rejection_key \<times> rejection_accumulator) list"

definition rt_new :: rejection_tracker where "rt_new = []"

text \<open>\<open>entry(key).or_default().record(sample)\<close>.\<close>

fun rt_update :: "rejection_key \<Rightarrow> rejection_sample \<Rightarrow> rejection_tracker \<Rightarrow> rejection_tracker" where
  "rt_update k s [] = [(k, ra_record s ra_default)]"
| "rt_update k s ((k', a) # rest) = (if k' = k then (k', ra_record s a) # rest else (k', a) # rt_update k s rest)"

definition rt_key :: "string \<Rightarrow> rejection \<Rightarrow> rejection_key" where
  "rt_key market_id r = \<lparr>rk_market_id = market_id, rk_strategy = rej_strategy r, rk_reason = rej_reason r\<rparr>"

definition rt_record :: "string \<Rightarrow> rejection \<Rightarrow> rejection_tracker \<Rightarrow> rejection_tracker" where
  "rt_record market_id r t = rt_update (rt_key market_id r) (rej_sample r) t"

definition rt_snapshot_all :: "u64 \<Rightarrow> rejection_tracker \<Rightarrow> rejection_summary list" where
  "rt_snapshot_all timestamp_ms t = map (\<lambda>(k, a). build_summary_record timestamp_ms k a) t"

definition rt_drain_all :: "u64 \<Rightarrow> rejection_tracker \<Rightarrow> rejection_summary list \<times> rejection_tracker" where
  "rt_drain_all timestamp_ms t = (map (\<lambda>(k, a). build_summary_record timestamp_ms k a) t, rt_new)"

definition rt_drain_market :: "string \<Rightarrow> u64 \<Rightarrow> rejection_tracker \<Rightarrow> rejection_summary list \<times> rejection_tracker" where
  "rt_drain_market market_id timestamp_ms t =
     (map (\<lambda>(k, a). build_summary_record timestamp_ms k a) (filter (\<lambda>(k, a). rk_market_id k = market_id) t),
      filter (\<lambda>(k, a). rk_market_id k \<noteq> market_id) t)"

subsection \<open>Every rejection is counted once\<close>

definition rt_count :: "rejection_key \<Rightarrow> rejection_tracker \<Rightarrow> u64" where
  "rt_count k t = (case map_of t k of None \<Rightarrow> 0 | Some a \<Rightarrow> ra_count a)"

lemma rt_update_map: "map_of (rt_update k s t) j = (if j = k then Some (ra_record s (unwrap_or (map_of t k) ra_default)) else map_of t j)"
  by (induction t) auto

lemma rt_update_keys: "set (map fst (rt_update k s t)) = insert k (set (map fst t))"
proof (induction t)
  case (Cons p t)
  then show ?case by (cases p; cases "fst p = k") (simp_all add: insert_commute)
qed simp

lemma rt_update_distinct: "distinct (map fst t) \<Longrightarrow> distinct (map fst (rt_update k s t))"
proof (induction t)
  case (Cons p t)
  then show ?case using rt_update_keys[of k s t] by (cases p) auto
qed simp

lemma rt_record_count: "rt_count k (rt_record m r t) = rt_count k t + (if rt_key m r = k then 1 else 0)"
  by (auto simp: rt_count_def rt_record_def rt_update_map ra_record_def ra_default_def split: option.splits)

lemma rt_record_counts:
  "rt_count k (fold (\<lambda>(m, r). rt_record m r) rs t) = rt_count k t + of_nat (length (filter (\<lambda>(m, r). rt_key m r = k) rs))"
  by (induction rs arbitrary: t) (auto simp: rt_record_count algebra_simps)

lemma rt_record_distinct: "distinct (map fst t) \<Longrightarrow> distinct (map fst (fold (\<lambda>(m, r). rt_record m r) rs t))"
  by (induction rs arbitrary: t) (auto simp: rt_record_def rt_update_distinct)

lemma map_of_filter_fst: "map_of (filter (\<lambda>(k, a). P k) t) k = (if P k then map_of t k else None)"
  by (induction t) auto

lemma rt_drain_keeps: "rt_count k (snd (rt_drain_market m now t)) = (if rk_market_id k = m then 0 else rt_count k t)"
  using map_of_filter_fst[of "\<lambda>k. rk_market_id k \<noteq> m" t k] by (auto simp: rt_count_def rt_drain_market_def split: if_splits)

lemma rt_drain_rows:
  assumes "distinct (map fst t)"
  shows "filter (\<lambda>r. su_strategy r = s \<and> su_reason r = rejection_reason_as_str q) (fst (rt_drain_market m now t)) =
    (case map_of t \<lparr>rk_market_id = m, rk_strategy = s, rk_reason = q\<rparr> of None \<Rightarrow> []
     | Some a \<Rightarrow> [build_summary_record now \<lparr>rk_market_id = m, rk_strategy = s, rk_reason = q\<rparr> a])"
  using assms
proof (induction t)
  case (Cons p t)
  obtain k a where p: "p = (k, a)" by (cases p)
  let ?k = "\<lparr>rk_market_id = m, rk_strategy = s, rk_reason = q\<rparr>"
  have k: "k = ?k \<longleftrightarrow> rk_market_id k = m \<and> rk_strategy k = s \<and> rk_reason k = q" by auto
  show ?case
  proof (cases "k = ?k")
    case True
    then have "map_of t ?k = None" using Cons.prems p by (simp add: map_of_eq_None_iff)
    then show ?thesis using Cons True p by (simp add: rt_drain_market_def build_summary_record_def)
  next
    case False
    then show ?thesis using Cons p k
      by (auto simp: rt_drain_market_def build_summary_record_def rejection_reason_as_str_inj)
  qed
qed (simp add: rt_drain_market_def)

text \<open>What a market's drain reports: one row per strategy and reason that was rejected, with the number of rejections.\<close>

lemma rt_record_keys:
  "set (map fst (fold (\<lambda>(m, r). rt_record m r) rs t)) = set (map fst t) \<union> set (map (\<lambda>(m, r). rt_key m r) rs)"
proof (induction rs arbitrary: t)
  case (Cons p rs)
  obtain m r where p: "p = (m, r)" by (cases p)
  have "set (map fst (rt_record m r t)) = insert (rt_key m r) (set (map fst t))" by (simp only: rt_record_def rt_update_keys)
  with Cons.IH[of "rt_record m r t"] show ?case by (simp add: p)
qed simp

lemma rt_drained_counts:
  "map su_count (filter (\<lambda>r. su_strategy r = s \<and> su_reason r = rejection_reason_as_str q)
     (fst (rt_drain_market m now (fold (\<lambda>(m, r). rt_record m r) rs rt_new)))) =
   (let n = length (filter (\<lambda>(m', r). rt_key m' r = \<lparr>rk_market_id = m, rk_strategy = s, rk_reason = q\<rparr>) rs)
    in if n = 0 then [] else [of_nat n])"
proof -
  let ?t = "fold (\<lambda>(m, r). rt_record m r) rs rt_new" and ?k = "\<lparr>rk_market_id = m, rk_strategy = s, rk_reason = q\<rparr>"
  have d: "distinct (map fst ?t)" by (rule rt_record_distinct) (simp add: rt_new_def)
  have c: "rt_count ?k ?t = of_nat (length (filter (\<lambda>(m', r). rt_key m' r = ?k) rs))"
    using rt_record_counts[of ?k rs rt_new] by (simp add: rt_count_def rt_new_def)
  have "map_of ?t ?k = None \<longleftrightarrow> ?k \<notin> set (map fst ?t)" by (simp add: map_of_eq_None_iff)
  also have "\<dots> \<longleftrightarrow> filter (\<lambda>(m', r). rt_key m' r = ?k) rs = []" unfolding rt_record_keys by (force simp: rt_new_def filter_empty_conv)
  finally have e: "map_of ?t ?k = None \<longleftrightarrow> filter (\<lambda>(m', r). rt_key m' r = ?k) rs = []" .
  show ?thesis unfolding rt_drain_rows[OF d] using c e
    by (auto simp: Let_def rt_count_def build_summary_record_def split: option.splits)
qed

end
