(* ===== verification/StrategyCycle.thy ===== *)
theory StrategyCycle
  imports EngineMachine CalmPersistence TrendTracker RejectionDiagnostics Attribution
begin

section \<open>The strategy cycle\<close>

text \<open>
  \<^verbatim>\<open>src/bots/paint/src/strategy_cycle.rs\<close>: one evaluation of all strategies on a market snapshot, the choice of the
  router, the trend filter, and the submission of what remains. A boxed strategy is one of the three
  implementations. The state of a cycle is the world of engine, store and bankroll, the trend tracker and the
  rejection tracker. \<open>clk i j\<close> is the \<open>j\<close>-th reading of the clock while the \<open>i\<close>-th candidate is handled. A panic of a
  strategy is \<open>None\<close>; an error of the database ends the cycle and discards its result, but not its effects.
\<close>

datatype strategy_inst = LatencyInst latency_arb | SpreadInst | CalmInst

fun inst_family :: "strategy_inst \<Rightarrow> StrategyFamily" where
  "inst_family (LatencyInst la) = LatencyArb"
| "inst_family SpreadInst = SpreadCapture"
| "inst_family CalmInst = CalmPersistence"

fun inst_evaluate ::
  "(string \<Rightarrow> fee_schedule option) \<Rightarrow> strategy_context \<Rightarrow> config \<Rightarrow> u64 \<Rightarrow> strategy_inst \<Rightarrow>
     (StrategyResult \<times> strategy_inst) option" where
  "inst_evaluate parse ctx c now (LatencyInst la) = map_option (\<lambda>(r, la'). (r, LatencyInst la')) (la_evaluate ctx c now la)"
| "inst_evaluate parse ctx c now SpreadInst = Some (sc_evaluate parse ctx c now, SpreadInst)"
| "inst_evaluate parse ctx c now CalmInst = map_option (\<lambda>r. (r, CalmInst)) (calm_evaluate ctx c now)"

record candidate =
  ca_family :: StrategyFamily
  ca_result :: StrategyResult

fun collect_candidates ::
  "(string \<Rightarrow> fee_schedule option) \<Rightarrow> strategy_context \<Rightarrow> config \<Rightarrow> u64 \<Rightarrow> string \<Rightarrow> strategy_inst list \<Rightarrow> rejection_tracker \<Rightarrow>
     (candidate list \<times> strategy_inst list \<times> rejection_tracker) option" where
  "collect_candidates parse ctx c now m [] rt = Some ([], [], rt)"
| "collect_candidates parse ctx c now m (st # sts) rt =
     (case inst_evaluate parse ctx c now st of None \<Rightarrow> None
      | Some (r, st') \<Rightarrow>
          let rt' = (case r of Rejected rej \<Rightarrow> rt_record m rej rt | _ \<Rightarrow> rt);
              cand = (case r of Single s \<Rightarrow> [\<lparr>ca_family = inst_family st, ca_result = r\<rparr>]
                | Batch ss \<Rightarrow> [\<lparr>ca_family = inst_family st, ca_result = r\<rparr>] | _ \<Rightarrow> [])
          in (case collect_candidates parse ctx c now m sts rt' of None \<Rightarrow> None
              | Some (cands, sts', rt2) \<Rightarrow> Some (cand @ cands, st' # sts', rt2)))"

datatype StrategyCycleEvent =
    Suppressed string SignalDirection PortfolioRegime
  | SingleSubmitted string SignalDirection PortfolioRegime SubmissionOutcome
  | BatchSubmitted string nat PortfolioRegime SubmissionOutcome

record cycle_submission =
  sub_family :: StrategyFamily
  sub_regime :: PortfolioRegime
  sub_outcome :: SubmissionOutcome

record cycle_result =
  cr_observed_regime :: PortfolioRegime
  cr_candidate_families :: "StrategyFamily list"
  cr_router_blocked_count :: u64
  cr_signal_count_delta :: u64
  cr_submissions :: "cycle_submission list"
  cr_events :: "StrategyCycleEvent list"

record cycle =
  cy_world :: world
  cy_trend :: scoped_trend_tracker
  cy_rejections :: rejection_tracker

definition annotate_signal :: "PortfolioRegime \<Rightarrow> StrategyFamily \<Rightarrow> signal \<Rightarrow> signal" where
  "annotate_signal r f s = s\<lparr>sig_metadata := [(''portfolioRegime'', JStr (regime_as_str r)),
     (''strategyFamily'', JStr (family_as_str f)), (''strategyMetadata'', JObj (sig_metadata s))]\<rparr>"

definition submission_signal_count :: "SubmissionOutcome \<Rightarrow> u64" where
  "submission_signal_count out = (case out of Queued ids orders \<Rightarrow> of_nat (length ids)
     | SubmissionRejected ids reason \<Rightarrow> of_nat (length ids))"

definition cycle_record_submission ::
  "StrategyFamily \<Rightarrow> PortfolioRegime \<Rightarrow> SubmissionOutcome \<Rightarrow> cycle_result \<Rightarrow> cycle_result" where
  "cycle_record_submission f r out res =
     res\<lparr>cr_signal_count_delta := cr_signal_count_delta res + submission_signal_count out,
         cr_submissions := cr_submissions res @ [\<lparr>sub_family = f, sub_regime = r, sub_outcome = out\<rparr>]\<rparr>"

definition persist_suppressed_signal :: "signal \<Rightarrow> market_window \<Rightarrow> ReplayFidelity \<Rightarrow> store \<Rightarrow> store" where
  "persist_suppressed_signal s w fid db =
     (case log_signal_with_context s (Some (mw_market_id w)) (Some fid) None None db of
        (Inl err, db1) \<Rightarrow> db1
      | (Inr sid, db1) \<Rightarrow> (case sig_telemetry s of None \<Rightarrow> db1
          | Some tel \<Rightarrow> snd (upsert_signal_telemetry sid tel None None (Some ''suppressed'') (Some ''trend_filter'') db1)))"

fun calm_duplicate_rejection_reason :: "QueueRejectionReason \<Rightarrow> StrategyRejectionReason option" where
  "calm_duplicate_rejection_reason QueueDuplicateOpenPosition = Some DuplicateOpenPosition"
| "calm_duplicate_rejection_reason QueueDuplicatePendingOrder = Some DuplicatePendingOrder"
| "calm_duplicate_rejection_reason MaxOpenPositions = None"

definition calm_duplicate_rejection_sample :: "strategy_context \<Rightarrow> signal \<Rightarrow> rejection_sample" where
  "calm_duplicate_rejection_sample ctx s = (rejection_sample_from_ctx ctx)
     \<lparr>rs_up_ask := Some (sig_up_ask s), rs_down_ask := Some (sig_down_ask s), rs_expected_edge := sig_expected_edge s\<rparr>"

text \<open>The calm precheck: the world after it, and the rejection to record, if any.\<close>

definition calm_precheck ::
  "signal \<Rightarrow> StrategyFamily \<Rightarrow> market_window \<Rightarrow> config \<Rightarrow> u64 \<Rightarrow> world \<Rightarrow> (db_error + StrategyRejectionReason option) \<times> world" where
  "calm_precheck s f w c now x =
     (if f \<noteq> CalmPersistence then (Inr None, x)
      else (case precheck_single_submission s w c now (w_engine x) (w_db x) of
          (Inl err, db1) \<Rightarrow> (Inl err, x\<lparr>w_db := db1\<rparr>)
        | (Inr None, db1) \<Rightarrow> (Inr None, x\<lparr>w_db := db1\<rparr>)
        | (Inr (Some reason), db1) \<Rightarrow> (Inr (calm_duplicate_rejection_reason reason), x\<lparr>w_db := db1\<rparr>)))"

definition handle_single_candidate ::
  "strategy_context \<Rightarrow> signal \<Rightarrow> StrategyFamily \<Rightarrow> PortfolioRegime \<Rightarrow> market_window \<Rightarrow> config \<Rightarrow> (nat \<Rightarrow> u64) \<Rightarrow>
     ReplayFidelity \<Rightarrow> cycle_result \<Rightarrow> cycle \<Rightarrow> (db_error + cycle_result) \<times> cycle" where
  "handle_single_candidate ctx s0 f r w c clk fid res y =
     (let s = annotate_signal r f s0 in
      case st_should_suppress f (sig_direction s) (cy_trend y) of (tr, suppress) \<Rightarrow>
      let y1 = y\<lparr>cy_trend := tr\<rparr> in
      if suppress
      then (Inr (res\<lparr>cr_signal_count_delta := cr_signal_count_delta res + 1,
              cr_events := cr_events res @ [Suppressed (sig_strategy s) (sig_direction s) r]\<rparr>),
            y1\<lparr>cy_world := (cy_world y1)\<lparr>w_db := persist_suppressed_signal s w fid (w_db (cy_world y1))\<rparr>\<rparr>)
      else (case calm_precheck s f w c (clk 0) (cy_world y1) of
          (Inl err, x1) \<Rightarrow> (Inl err, y1\<lparr>cy_world := x1\<rparr>)
        | (Inr (Some reason), x1) \<Rightarrow> (Inr res, y1\<lparr>cy_world := x1, cy_rejections := rt_record (mw_market_id w)
              \<lparr>rej_strategy = sig_strategy s, rej_reason = reason, rej_sample = calm_duplicate_rejection_sample ctx s\<rparr>
              (cy_rejections y1)\<rparr>)
        | (Inr None, x1) \<Rightarrow>
            (case submit_single s w c (clk 1) (clk 2) fid x1 of
               (Inl err, x2) \<Rightarrow> (Inl err, y1\<lparr>cy_world := x2\<rparr>)
             | (Inr out, x2) \<Rightarrow>
                 (let res1 = cycle_record_submission f r out res in
                  (Inr (res1\<lparr>cr_events := cr_events res1 @ [SingleSubmitted (sig_strategy s) (sig_direction s) r out]\<rparr>),
                   y1\<lparr>cy_world := x2\<rparr>)))))"

definition batch_signal_pair :: "signal list \<Rightarrow> (signal \<times> signal) option" where
  "batch_signal_pair ss = (case (find (\<lambda>s. sig_direction s = Up) ss, find (\<lambda>s. sig_direction s = Down) ss) of
     (Some u, Some d) \<Rightarrow> Some (u, d) | _ \<Rightarrow> None)"

definition assess_spread_batch_affordability ::
  "signal list \<Rightarrow> market_window \<Rightarrow> config \<Rightarrow> bankroll \<Rightarrow> affordability_check option" where
  "assess_spread_batch_affordability ss w c b = map_option (\<lambda>(u, d).
     assess_spread_affordability (sig_up_ask u) (sig_down_ask d) (unwrap_or (mw_order_min_size w) 0) c b) (batch_signal_pair ss)"

definition spread_budget_rejection_sample ::
  "strategy_context \<Rightarrow> signal list \<Rightarrow> affordability_check \<Rightarrow> rejection_sample" where
  "spread_budget_rejection_sample ctx ss aff =
     (let s0 = rejection_sample_from_ctx ctx;
          s1 = (case batch_signal_pair ss of None \<Rightarrow> s0 | Some (u, d) \<Rightarrow>
            s0\<lparr>rs_up_ask := Some (sig_up_ask u), rs_down_ask := Some (sig_down_ask d),
               rs_total_ask := Some (sig_up_ask u + sig_down_ask d)\<rparr>)
      in s1\<lparr>rs_available_spread_budget := Some (available_spread_budget aff),
            rs_required_pair_notional := Some (required_pair_notional aff),
            rs_required_pair_units := Some (required_pair_units aff)\<rparr>)"

definition handle_batch_candidate ::
  "(string \<Rightarrow> fee_schedule option) \<Rightarrow> strategy_context \<Rightarrow> signal list \<Rightarrow> StrategyFamily \<Rightarrow> PortfolioRegime \<Rightarrow> market_window \<Rightarrow>
     config \<Rightarrow> (nat \<Rightarrow> u64) \<Rightarrow> ReplayFidelity \<Rightarrow> cycle_result \<Rightarrow> cycle \<Rightarrow> (db_error + cycle_result) \<times> cycle" where
  "handle_batch_candidate parse ctx ss0 f r w c clk fid res y =
     (let ss = map (annotate_signal r f) ss0;
          strategy_name = (case ss of [] \<Rightarrow> ''?'' | s # _ \<Rightarrow> sig_strategy s);
          submit = (case submit_spread parse ss w c (clk 0) (clk 1) (clk 2) fid (cy_world y) of
               (Inl err, x1) \<Rightarrow> (Inl err, y\<lparr>cy_world := x1\<rparr>)
             | (Inr out, x1) \<Rightarrow>
                 (let res1 = cycle_record_submission f r out res in
                  (Inr (res1\<lparr>cr_events := cr_events res1 @ [BatchSubmitted strategy_name (length ss) r out]\<rparr>),
                   y\<lparr>cy_world := x1\<rparr>)))
      in case assess_spread_batch_affordability ss w c (w_bank (cy_world y)) of
           Some aff \<Rightarrow> if queueable aff then submit
             else (Inr res, y\<lparr>cy_rejections := rt_record (mw_market_id w)
               \<lparr>rej_strategy = strategy_name, rej_reason = SpreadBudgetTooSmall,
                rej_sample = spread_budget_rejection_sample ctx ss aff\<rparr> (cy_rejections y)\<rparr>)
         | None \<Rightarrow> submit)"

definition handle_candidate ::
  "(string \<Rightarrow> fee_schedule option) \<Rightarrow> strategy_context \<Rightarrow> StrategyFamily option \<Rightarrow> PortfolioRegime \<Rightarrow> market_window \<Rightarrow> config \<Rightarrow>
     (nat \<Rightarrow> u64) \<Rightarrow> ReplayFidelity \<Rightarrow> candidate \<Rightarrow> cycle_result \<Rightarrow> cycle \<Rightarrow> (db_error + cycle_result) \<times> cycle" where
  "handle_candidate parse ctx sel r w c clk fid cand res y =
     (if regime_detection_enabled c \<and> Some (ca_family cand) \<noteq> sel
      then (Inr (res\<lparr>cr_router_blocked_count := cr_router_blocked_count res + 1\<rparr>),
            y\<lparr>cy_rejections := rt_record (mw_market_id w) \<lparr>rej_strategy = family_as_str (ca_family cand),
              rej_reason = BlockedByRouter, rej_sample = rejection_sample_from_ctx ctx\<rparr> (cy_rejections y)\<rparr>)
      else (case ca_result cand of
          Single s \<Rightarrow> handle_single_candidate ctx s (ca_family cand) r w c clk fid res y
        | Batch ss \<Rightarrow> handle_batch_candidate parse ctx ss (ca_family cand) r w c clk fid res y
        | _ \<Rightarrow> (Inr res, y)))"

fun handle_candidates ::
  "(string \<Rightarrow> fee_schedule option) \<Rightarrow> strategy_context \<Rightarrow> StrategyFamily option \<Rightarrow> PortfolioRegime \<Rightarrow> market_window \<Rightarrow> config \<Rightarrow>
     (nat \<Rightarrow> nat \<Rightarrow> u64) \<Rightarrow> ReplayFidelity \<Rightarrow> nat \<Rightarrow> candidate list \<Rightarrow> cycle_result \<Rightarrow> cycle \<Rightarrow> (db_error + cycle_result) \<times> cycle" where
  "handle_candidates parse ctx sel r w c clk fid i [] res y = (Inr res, y)"
| "handle_candidates parse ctx sel r w c clk fid i (cand # cands) res y =
     (case handle_candidate parse ctx sel r w c (clk i) fid cand res y of
        (Inl err, y1) \<Rightarrow> (Inl err, y1)
      | (Inr res1, y1) \<Rightarrow> handle_candidates parse ctx sel r w c clk fid (Suc i) cands res1 y1)"

definition run_strategy_cycle ::
  "(string \<Rightarrow> fee_schedule option) \<Rightarrow> strategy_context \<Rightarrow> market_window \<Rightarrow> config \<Rightarrow> (nat \<Rightarrow> nat \<Rightarrow> u64) \<Rightarrow> ReplayFidelity \<Rightarrow> u64 \<Rightarrow>
     strategy_inst list \<Rightarrow> cycle \<Rightarrow> ((db_error + cycle_result) \<times> strategy_inst list \<times> cycle) option" where
  "run_strategy_cycle parse ctx w c clk fid now sts y =
     (case collect_candidates parse ctx c now (mw_market_id w) sts (cy_rejections y) of None \<Rightarrow> None
      | Some (cands, sts', rt) \<Rightarrow>
          let r = detect_regime ctx c; fams = map ca_family cands;
              sel = (if regime_detection_enabled c then selected_family (select_family_for_candidates ctx c fams) else None);
              res = \<lparr>cr_observed_regime = r, cr_candidate_families = fams, cr_router_blocked_count = 0,
                cr_signal_count_delta = 0, cr_submissions = [], cr_events = []\<rparr>
          in (case handle_candidates parse ctx sel r w c clk fid 0 cands res (y\<lparr>cy_rejections := rt\<rparr>) of
                (out, y1) \<Rightarrow> Some (out, sts', y1)))"

definition family_for_strategy :: "string \<Rightarrow> StrategyFamily" where
  "family_for_strategy s = unwrap_or (from_strategy_name s) LatencyArb"

end
