(* ===== verification/CycleFacts.thy ===== *)
theory CycleFacts
  imports StrategyCycle SignalRules
begin

section \<open>Facts on the strategy cycle\<close>

text \<open>
  The invariants of the engine hold through a whole cycle, also when a database error ends it early; only the family
  of the observed regime submits; every signal is counted; and a cycle panics only through the clamp of the calm strategy.
\<close>

subsection \<open>Quotes of the candidates\<close>

definition quotes_ok :: "signal \<Rightarrow> bool" where
  "quotes_ok s \<longleftrightarrow> \<not> is_nan (sig_up_ask s) \<and> \<not> is_nan (sig_down_ask s)"

definition books_ok :: "strategy_context \<Rightarrow> bool" where
  "books_ok ctx \<longleftrightarrow> is_none_or (book_up (ctx_book_state ctx)) (\<lambda>b. \<not> is_nan (tob_best_ask b)) \<and>
     is_none_or (book_down (ctx_book_state ctx)) (\<lambda>b. \<not> is_nan (tob_best_ask b))"

fun result_signals :: "StrategyResult \<Rightarrow> signal list" where
  "result_signals (Single s) = [s]"
| "result_signals (Batch ss) = ss"
| "result_signals _ = []"

lemma la_quotes:
  assumes ev: "la_evaluate ctx c now la = Some (r, la')" and b: "books_ok ctx" and s: "s \<in> set (result_signals r)"
  shows "quotes_ok s"
proof -
  let ?la = "record_momentum_sample (ctx_binance_momentum ctx) now (la\<lparr>la_adaptive_window_ms := latency_arb_adaptive_window_ms c\<rparr>)"
  obtain pl ld where pl: "la_price_levels ctx c now ?la = Inr pl" and s': "s = la_build_signal ctx now pl ld"
    using ev s by (auto simp: la_evaluate_def Let_def dest!: la_price_levels_Inl la_build_decision_Inl split: sum.splits option.splits)
  then show ?thesis using la_price_levels_Inr[OF pl] b
    by (auto simp: quotes_ok_def books_ok_def la_build_signal_def levels_of_def)
qed

lemma calm_quotes:
  assumes ev: "calm_evaluate ctx c now = Some r" and b: "books_ok ctx" and s: "s \<in> set (result_signals r)"
  shows "quotes_ok s"
proof -
  have "r = Single s" using ev s
    by (auto simp: calm_evaluate_def reject_def Let_def dest!: calm_guards_reject split: if_splits option.splits sum.splits)
  with ev have "calm_evaluate ctx c now = Some (Single s)" by simp
  then show ?thesis by (rule calm_evaluate_Single) (use b in \<open>auto simp: quotes_ok_def books_ok_def calm_signal_def Let_def\<close>)
qed

lemma sc_quotes:
  assumes b: "books_ok ctx" and s: "s \<in> set (result_signals (sc_evaluate parse ctx c now))"
  shows "quotes_ok s"
proof -
  obtain ss where ss: "sc_evaluate parse ctx c now = Batch ss" "s \<in> set ss"
    using s by (auto simp: sc_evaluate_def dest!: sc_snapshot_Inl sc_build_decision_Inl split: sum.splits)
  obtain pl sd where pl: "ss = [sc_signal ctx c now pl sd Up, sc_signal ctx c now pl sd Down]" "sc_snapshot ctx c = Inr pl"
    using ss(1) by (rule sc_evaluate_Batch)
  then obtain up down where "book_up (ctx_book_state ctx) = Some up" "book_down (ctx_book_state ctx) = Some down" "pl = levels_of up down"
    by (auto simp: sc_snapshot_def Let_def split: if_splits option.splits)
  then show ?thesis using pl ss(2) b by (auto simp: quotes_ok_def books_ok_def sc_signal_def levels_of_def)
qed

fun inst_inv :: "strategy_inst \<Rightarrow> bool" where
  "inst_inv (LatencyInst la) = la_inv la"
| "inst_inv _ = True"

lemma inst_evaluate_total:
  assumes "inst_inv st" "0 \<le> calm_persistence_max_fair_bias c"
  obtains r st' where "inst_evaluate parse ctx c now st = Some (r, st')" "inst_inv st'" "inst_family st' = inst_family st"
proof (cases st)
  case (LatencyInst la)
  then have "la_inv la" using assms by simp
  then obtain r la' where "la_evaluate ctx c now la = Some (r, la')" "la_inv la'" by (rule la_evaluate_total)
  with LatencyInst that show ?thesis by simp
next
  case CalmInst
  have "calm_evaluate ctx c now \<noteq> None" using assms(2) calm_panic_iff by blast
  with CalmInst that show ?thesis by auto
qed (use that in simp)

lemma inst_quotes:
  "inst_evaluate parse ctx c now st = Some (r, st') \<Longrightarrow> inst_inv st \<Longrightarrow> books_ok ctx \<Longrightarrow> s \<in> set (result_signals r) \<Longrightarrow> quotes_ok s"
  by (cases st) (auto dest: la_quotes calm_quotes simp: sc_quotes)

definition candidates_ok :: "candidate list \<Rightarrow> bool" where
  "candidates_ok cands \<longleftrightarrow> (\<forall>cand \<in> set cands. \<forall>s \<in> set (result_signals (ca_result cand)). quotes_ok s)"

lemma collect_total:
  assumes "\<forall>st \<in> set sts. inst_inv st" "0 \<le> calm_persistence_max_fair_bias c"
  shows "\<exists>cands sts' rt'. collect_candidates parse ctx c now m sts rt = Some (cands, sts', rt') \<and> (\<forall>st \<in> set sts'. inst_inv st) \<and>
    map inst_family sts' = map inst_family sts"
  using assms(1)
proof (induction sts arbitrary: rt)
  case (Cons st sts)
  obtain r st' where st: "inst_evaluate parse ctx c now st = Some (r, st')" "inst_inv st'" "inst_family st' = inst_family st"
    using inst_evaluate_total[of st c parse ctx now] Cons.prems assms(2) by auto
  let ?rt = "case r of Rejected rej \<Rightarrow> rt_record m rej rt | _ \<Rightarrow> rt"
  obtain cands sts' rt' where "collect_candidates parse ctx c now m sts ?rt = Some (cands, sts', rt')" "\<forall>st \<in> set sts'. inst_inv st"
    "map inst_family sts' = map inst_family sts" using Cons.IH[of ?rt] Cons.prems by auto
  with st show ?case by (simp add: Let_def)
qed simp

lemma collect_candidates_facts:
  assumes "collect_candidates parse ctx c now m sts rt = Some (cands, sts', rt')"
    and "\<forall>st \<in> set sts. inst_inv st" "books_ok ctx"
  shows "candidates_ok cands \<and> (\<forall>cand \<in> set cands. ca_family cand \<in> inst_family ` set sts) \<and>
    (distinct (map inst_family sts) \<longrightarrow> distinct (map ca_family cands))"
  using assms(1,2)
proof (induction sts arbitrary: rt cands sts')
  case (Cons st sts)
  obtain r st' where st: "inst_evaluate parse ctx c now st = Some (r, st')"
    using Cons.prems(1) by (cases "inst_evaluate parse ctx c now st") auto
  let ?rt = "case r of Rejected rej \<Rightarrow> rt_record m rej rt | _ \<Rightarrow> rt"
  let ?cand = "case r of Single s \<Rightarrow> [\<lparr>ca_family = inst_family st, ca_result = r\<rparr>]
      | Batch ss \<Rightarrow> [\<lparr>ca_family = inst_family st, ca_result = r\<rparr>] | _ \<Rightarrow> []"
  obtain cs sts2 where cs: "collect_candidates parse ctx c now m sts ?rt = Some (cs, sts2, rt')" "cands = ?cand @ cs"
    using Cons.prems(1) st by (auto simp: Let_def split: option.splits)
  have q: "\<forall>s \<in> set (result_signals r). quotes_ok s" using inst_quotes[OF st] Cons.prems(2) assms(3) by simp
  note IH = Cons.IH[OF cs(1)]
  have IH': "candidates_ok cs" "\<forall>cand \<in> set cs. ca_family cand \<in> inst_family ` set sts"
    "distinct (map inst_family sts) \<longrightarrow> distinct (map ca_family cs)" using IH Cons.prems(2) by simp_all
  have head: "\<forall>cand \<in> set ?cand. ca_family cand = inst_family st \<and> ca_result cand = r" "length ?cand \<le> 1"
    by (cases r; simp)+
  have d: "distinct (map ca_family (?cand @ cs))" if "distinct (map inst_family (st # sts))"
    using that IH'(2,3) by (cases r) (force simp: image_iff)+
  show ?case using IH' head(1) q d unfolding cs(2) by (auto simp: candidates_ok_def)
qed (simp add: candidates_ok_def)

subsection \<open>The invariants of the engine\<close>

definition engine_inv :: "world \<Rightarrow> bool" where
  "engine_inv x \<longleftrightarrow> ledger_ok (w_bank x) \<and> queue_distinct x"

definition limits_ok :: "config \<Rightarrow> bool" where
  "limits_ok c \<longleftrightarrow> \<not> is_nan (latency_arb_max_ask c) \<and> \<not> is_nan (calm_persistence_max_ask c)"

lemma annotate_fields [simp]:
  "sig_up_ask (annotate_signal r f s) = sig_up_ask s" "sig_down_ask (annotate_signal r f s) = sig_down_ask s"
  "sig_direction (annotate_signal r f s) = sig_direction s" "sig_strategy (annotate_signal r f s) = sig_strategy s"
  by (simp_all add: annotate_signal_def)

lemma single_op_ok: "quotes_ok s \<Longrightarrow> limits_ok c \<Longrightarrow> en_op_ok (SubmitSingle (annotate_signal r f s) w c n1 n2 fid)"
  by (auto simp: quotes_ok_def limits_ok_def signal_ask_def single_order_limit_price_def
      split: SignalDirection.splits StrategyFamily.splits)

lemma spread_op_ok: "\<forall>s \<in> set ss. quotes_ok s \<Longrightarrow> en_op_ok (SubmitSpread parse (map (annotate_signal r f) ss) w c n0 n1 n2 fid)"
  by (auto simp: quotes_ok_def list_all_iff)

text \<open>An invariant of the world that the store does not influence and that every step of the engine keeps.\<close>

locale world_invariant =
  fixes I :: "world \<Rightarrow> bool"
  assumes I_db [simp]: "I (x\<lparr>w_db := d\<rparr>) = I x" and I_step: "I x \<Longrightarrow> en_op_ok e \<Longrightarrow> I (en_step e x)"
begin

lemma calm_precheck_keeps: "calm_precheck s f w c now x = (r, x') \<Longrightarrow> I x \<Longrightarrow> I x'"
  by (auto simp: calm_precheck_def split: if_splits prod.splits sum.splits option.splits)

lemma handle_single_keeps:
  assumes h: "handle_single_candidate ctx s f r w c clk fid res y = (out, y')"
    and "quotes_ok s" "limits_ok c" "I (cy_world y)"
  shows "I (cy_world y')"
proof -
  let ?s = "annotate_signal r f s"
  obtain tr sup where t: "st_should_suppress f (sig_direction ?s) (cy_trend y) = (tr, sup)" by fastforce
  obtain p x1 where p: "calm_precheck ?s f w c (clk 0) (cy_world y) = (p, x1)" by fastforce
  obtain q x2 where q: "submit_single ?s w c (clk 1) (clk 2) fid x1 = (q, x2)" by fastforce
  have x1: "I x1" by (rule calm_precheck_keeps[OF p assms(4)])
  then have x2: "I x2" using I_step[OF x1 single_op_ok[OF assms(2,3), of r f w "clk 1" "clk 2" fid]] q by simp
  show ?thesis using h t p q x1 x2 assms(4)
    by (auto simp: handle_single_candidate_def Let_def split: if_splits sum.splits option.splits)
qed

lemma handle_batch_keeps:
  assumes h: "handle_batch_candidate parse ctx ss f r w c clk fid res y = (out, y')"
    and "\<forall>s \<in> set ss. quotes_ok s" "I (cy_world y)"
  shows "I (cy_world y')"
proof -
  let ?ss = "map (annotate_signal r f) ss"
  obtain q x1 where q: "submit_spread parse ?ss w c (clk 0) (clk 1) (clk 2) fid (cy_world y) = (q, x1)" by fastforce
  have x1: "I x1"
    using I_step[OF assms(3) spread_op_ok[OF assms(2), of parse r f w c "clk 0" "clk 1" "clk 2" fid]] q by simp
  show ?thesis using h q x1 assms(3)
    by (auto simp: handle_batch_candidate_def Let_def split: if_splits sum.splits option.splits)
qed

lemma handle_candidate_keeps:
  assumes "handle_candidate parse ctx sel r w c clk fid cand res y = (out, y')"
    and "\<forall>s \<in> set (result_signals (ca_result cand)). quotes_ok s" "limits_ok c" "I (cy_world y)"
  shows "I (cy_world y')"
  using assms handle_single_keeps handle_batch_keeps
  by (cases "ca_result cand") (auto simp: handle_candidate_def split: if_splits)

lemma handle_candidates_keeps:
  assumes "handle_candidates parse ctx sel r w c clk fid i cands res y = (out, y')"
    and "candidates_ok cands" "limits_ok c" "I (cy_world y)"
  shows "I (cy_world y')"
  using assms(1,2,4)
proof (induction cands arbitrary: i res y)
  case (Cons cand cands)
  obtain o1 y1 where h: "handle_candidate parse ctx sel r w c (clk i) fid cand res y = (o1, y1)" by fastforce
  have "I (cy_world y1)" using handle_candidate_keeps[OF h _ assms(3)] Cons.prems by (simp add: candidates_ok_def)
  then show ?case using Cons h by (cases o1) (auto simp: candidates_ok_def)
qed simp

lemma cycle_keeps:
  assumes "run_strategy_cycle parse ctx w c clk fid now sts y = Some (out, sts', y')"
    and "\<forall>st \<in> set sts. inst_inv st" "books_ok ctx" "limits_ok c" "I (cy_world y)"
  shows "I (cy_world y')"
proof -
  obtain cands rt where c: "collect_candidates parse ctx c now (mw_market_id w) sts (cy_rejections y) = Some (cands, sts', rt)"
    using assms(1) by (auto simp: run_strategy_cycle_def Let_def split: option.splits prod.splits)
  have ok: "candidates_ok cands" using collect_candidates_facts[OF c assms(2,3)] by blast
  show ?thesis using assms(1) handle_candidates_keeps[OF _ ok assms(4)] assms(5) c
    by (auto simp: run_strategy_cycle_def Let_def split: prod.splits)
qed

end

interpretation engine_world: world_invariant engine_inv
proof
  show "engine_inv (x\<lparr>w_db := d\<rparr>) = engine_inv x" for x d by (simp add: engine_inv_def queue_distinct_def)
  show "engine_inv x \<Longrightarrow> en_op_ok e \<Longrightarrow> engine_inv (en_step e x)" for x e
    using engine_ledger.inv_step queue_machine.inv_step by (simp add: engine_inv_def)
qed

subsection \<open>Routing and accounting\<close>

fun is_suppressed :: "StrategyCycleEvent \<Rightarrow> bool" where
  "is_suppressed (Suppressed s d r) = True"
| "is_suppressed _ = False"

definition counted :: "cycle_result \<Rightarrow> bool" where
  "counted res \<longleftrightarrow> cr_signal_count_delta res = sum_list (map (submission_signal_count \<circ> sub_outcome) (cr_submissions res)) +
     of_nat (length (filter is_suppressed (cr_events res)))"

text \<open>What one handled candidate does to the result.\<close>

definition handled :: "PortfolioRegime \<Rightarrow> StrategyFamily \<Rightarrow> cycle_result \<Rightarrow> cycle_result \<Rightarrow> bool" where
  "handled r f res res' \<longleftrightarrow> cr_router_blocked_count res' = cr_router_blocked_count res \<and>
     cr_observed_regime res' = cr_observed_regime res \<and> cr_candidate_families res' = cr_candidate_families res \<and>
     (counted res \<longrightarrow> counted res') \<and>
     (cr_submissions res' = cr_submissions res \<or>
      (\<exists>out. cr_submissions res' = cr_submissions res @ [\<lparr>sub_family = f, sub_regime = r, sub_outcome = out\<rparr>]))"

lemma handled_refl: "handled r f res res"
  by (simp add: handled_def)

lemma handled_submission:
  "\<not> is_suppressed e \<Longrightarrow> handled r f res (cycle_record_submission f r out res\<lparr>cr_events := cr_events res @ [e]\<rparr>)"
  by (auto simp: handled_def counted_def cycle_record_submission_def)

lemma handled_suppressed:
  "is_suppressed e \<Longrightarrow> handled r f res (res\<lparr>cr_signal_count_delta := cr_signal_count_delta res + 1, cr_events := cr_events res @ [e]\<rparr>)"
  by (auto simp: handled_def counted_def)

lemma cycle_record_events [simp]: "cr_events (cycle_record_submission f r out res) = cr_events res"
  by (simp add: cycle_record_submission_def)

lemma handle_single_result:
  "handle_single_candidate ctx s f r w c clk fid res y = (Inr res', y') \<Longrightarrow> handled r f res res'"
  by (auto simp: handle_single_candidate_def Let_def handled_refl handled_submission handled_suppressed
      split: if_splits prod.splits sum.splits option.splits)

lemma handle_batch_result:
  "handle_batch_candidate parse ctx ss f r w c clk fid res y = (Inr res', y') \<Longrightarrow> handled r f res res'"
  by (auto simp: handle_batch_candidate_def Let_def handled_refl handled_submission
      split: if_splits prod.splits sum.splits option.splits)

definition blocked :: "config \<Rightarrow> StrategyFamily option \<Rightarrow> candidate \<Rightarrow> bool" where
  "blocked c sel cand \<longleftrightarrow> regime_detection_enabled c \<and> Some (ca_family cand) \<noteq> sel"

lemma handle_candidate_result:
  assumes "handle_candidate parse ctx sel r w c clk fid cand res y = (Inr res', y')"
  shows "if blocked c sel cand then res' = res\<lparr>cr_router_blocked_count := cr_router_blocked_count res + 1\<rparr>
    else handled r (ca_family cand) res res'"
  using assms handle_single_result handle_batch_result
  by (cases "ca_result cand") (auto simp: handle_candidate_def blocked_def handled_refl split: if_splits)

lemma handle_candidates_result:
  assumes "handle_candidates parse ctx sel r w c clk fid i cands res y = (Inr res', y')" "counted res"
  shows "counted res' \<and> cr_observed_regime res' = cr_observed_regime res \<and> cr_candidate_families res' = cr_candidate_families res \<and>
    cr_router_blocked_count res' = cr_router_blocked_count res + of_nat (length (filter (blocked c sel) cands)) \<and>
    (\<exists>subs. cr_submissions res' = cr_submissions res @ subs \<and> length subs \<le> length (filter (\<lambda>k. \<not> blocked c sel k) cands) \<and>
       (\<forall>sub \<in> set subs. sub_regime sub = r \<and> (\<exists>k \<in> set cands. \<not> blocked c sel k \<and> sub_family sub = ca_family k)))"
  using assms
proof (induction cands arbitrary: i res y)
  case (Cons k cands)
  obtain res1 y1 where h: "handle_candidate parse ctx sel r w c (clk i) fid k res y = (Inr res1, y1)"
    and rest: "handle_candidates parse ctx sel r w c clk fid (Suc i) cands res1 y1 = (Inr res', y')"
    using Cons.prems(1) by (auto split: prod.splits sum.splits)
  note step = handle_candidate_result[OF h]
  show ?case
  proof (cases "blocked c sel k")
    case True
    then have r1: "res1 = res\<lparr>cr_router_blocked_count := cr_router_blocked_count res + 1\<rparr>" using step by simp
    have "counted res1" using Cons.prems(2) by (simp add: r1 counted_def)
    from Cons.IH[OF rest this] show ?thesis using True by (auto simp: r1)
  next
    case False
    then have hd: "handled r (ca_family k) res res1" using step by simp
    then have "counted res1" using Cons.prems(2) by (simp add: handled_def)
    note IH = Cons.IH[OF rest this]
    then obtain subs where subs: "cr_submissions res' = cr_submissions res1 @ subs"
      "length subs \<le> length (filter (\<lambda>k. \<not> blocked c sel k) cands)"
      "\<forall>sub \<in> set subs. sub_regime sub = r \<and> (\<exists>k \<in> set cands. \<not> blocked c sel k \<and> sub_family sub = ca_family k)" by blast
    obtain new where new: "cr_submissions res1 = cr_submissions res @ new" "length new \<le> 1"
      "\<forall>sub \<in> set new. sub_regime sub = r \<and> sub_family sub = ca_family k"
      using hd that[of "[]"] by (fastforce simp: handled_def)
    show ?thesis using IH hd False subs new
      by (auto simp: handled_def intro!: exI[of _ "new @ subs"])
  qed
qed simp

lemma distinct_filter_family:
  "distinct (map ca_family cands) \<Longrightarrow> length (filter (\<lambda>k. ca_family k = f) cands) \<le> 1"
  by (induction cands) (auto simp: filter_empty_conv image_iff)

text \<open>With routing enabled only the family of the observed regime submits, at most once, and the rest are blocked.\<close>

lemma cycle_routes:
  assumes run: "run_strategy_cycle parse ctx w c clk fid now sts y = Some (Inr res, sts', y')"
    and inv: "\<forall>st \<in> set sts. inst_inv st" and b: "books_ok ctx" and d: "distinct (map inst_family sts)"
    and en: "regime_detection_enabled c"
  shows "length (cr_submissions res) \<le> 1 \<and> counted res \<and>
    (\<forall>sub \<in> set (cr_submissions res). sub_family sub = family_of_regime (cr_observed_regime res)) \<and>
    cr_router_blocked_count res =
      of_nat (length (filter (\<lambda>f. f \<noteq> family_of_regime (cr_observed_regime res)) (cr_candidate_families res)))"
proof -
  let ?r = "detect_regime ctx c" and ?F = "family_of_regime (detect_regime ctx c)"
  obtain cands rt where c: "collect_candidates parse ctx c now (mw_market_id w) sts (cy_rejections y) = Some (cands, sts', rt)"
    using run by (auto simp: run_strategy_cycle_def Let_def split: option.splits prod.splits)
  let ?fams = "map ca_family cands"
  let ?sel = "selected_family (select_family_for_candidates ctx c ?fams)"
  let ?res = "\<lparr>cr_observed_regime = ?r, cr_candidate_families = ?fams, cr_router_blocked_count = 0,
    cr_signal_count_delta = 0, cr_submissions = [], cr_events = []\<rparr>"
  obtain yy where h: "handle_candidates parse ctx ?sel ?r w c clk fid 0 cands ?res (y\<lparr>cy_rejections := rt\<rparr>) = (Inr res, yy)"
    using run c en by (auto simp: run_strategy_cycle_def Let_def split: prod.splits)
  have dist: "distinct ?fams" using collect_candidates_facts[OF c inv b] d by blast
  have bl: "blocked c ?sel k \<longleftrightarrow> ca_family k \<noteq> ?F" if "k \<in> set cands" for k
  proof -
    have "ca_family k \<in> set ?fams" using that by simp
    then show ?thesis using en by (auto simp: blocked_def select_family_eq)
  qed
  have "counted ?res" by (simp add: counted_def)
  note H = handle_candidates_result[OF h this]
  have f1: "filter (\<lambda>k. \<not> blocked c ?sel k) cands = filter (\<lambda>k. ca_family k = ?F) cands"
    and f2: "filter (blocked c ?sel) cands = filter (\<lambda>k. ca_family k \<noteq> ?F) cands" using bl by (auto intro: filter_cong)
  have n: "length (filter (\<lambda>f. f \<noteq> ?F) ?fams) = length (filter (\<lambda>k. ca_family k \<noteq> ?F) cands)"
    by (simp add: filter_map comp_def)
  show ?thesis using H distinct_filter_family[OF dist, of ?F] bl by (auto simp: f1 f2 n filter_map comp_def)
qed

text \<open>Without a negative bound on the calm bias no cycle panics.\<close>

lemma cycle_total:
  assumes "\<forall>st \<in> set sts. inst_inv st" "0 \<le> calm_persistence_max_fair_bias c"
  shows "\<exists>out sts' y'. run_strategy_cycle parse ctx w c clk fid now sts y = Some (out, sts', y') \<and> (\<forall>st \<in> set sts'. inst_inv st) \<and>
    map inst_family sts' = map inst_family sts"
  using collect_total[OF assms, of parse ctx now "mw_market_id w" "cy_rejections y"]
  by (fastforce simp: run_strategy_cycle_def Let_def split: prod.splits)

end
