(* ===== verification/CycleInstances.thy ===== *)
theory CycleInstances
  imports SignalInstances CycleFacts
begin

section \<open>A concrete strategy cycle\<close>

text \<open>
  The snapshot of the calm instance, with the spread and the calm strategy. The router observes a calm market and blocks
  the spread; the trend filter, after three lost bets on a rise, suppresses the calm signal.
\<close>

definition demo_trend :: scoped_trend_tracker where
  "demo_trend = (st_new 8 True (f64_lit (1 / 4)) False)\<lparr>st_global := (tt_new 8 True (f64_lit (1 / 4)))
     \<lparr>tt_recent_outcomes := replicate 3 \<lparr>o_direction = Up, o_won = False, o_timestamp = 1\<rparr>\<rparr>\<rparr>"

definition demo_cycle :: cycle where
  "demo_cycle = \<lparr>cy_world = demo_world, cy_trend = demo_trend, cy_rejections = rt_new\<rparr>"

lemma demo_suppress: "st_should_suppress CalmPersistence Up demo_trend = (demo_trend, True)"
  by (simp add: st_should_suppress_def demo_trend_def st_new_def) code_simp

lemma demo_regime: "detect_regime demo_calm_ctx demo_quotes = Calm"
  by (simp add: detect_regime_def looks_like_structural_pair_def looks_like_calm_regime_def demo_calm_ctx_def
      demo_quote_defs lit_eval Let_def del: lit_0 lit_1 cong: weak_congs)

lemma demo_cycle_runs:
  "\<exists>res y. run_strategy_cycle (\<lambda>_. None) demo_calm_ctx demo_window demo_quotes (\<lambda>i j. 100000) RawEvent 100000 [SpreadInst, CalmInst] demo_cycle =
     Some (Inr res, [SpreadInst, CalmInst], y) \<and> cr_router_blocked_count res = 1 \<and> cr_signal_count_delta res = 1 \<and>
     cr_candidate_families res = [SpreadCapture, CalmPersistence] \<and> cr_observed_regime res = Calm"
proof -
  obtain u d where b: "sc_evaluate (\<lambda>_. None) demo_calm_ctx demo_quotes 100000 = Batch [u, d]"
    using demo_spread_signal by blast
  obtain s where s: "calm_evaluate demo_calm_ctx demo_quotes 100000 = Some (Single s)" "sig_direction s = Up"
    using demo_calm by blast
  have en: "regime_detection_enabled demo_quotes" by (simp add: demo_quotes_def)
  show ?thesis
    by (simp add: run_strategy_cycle_def b s en demo_regime select_family_eq family_of_regime_def handle_candidate_def
        handle_single_candidate_def annotate_signal_def demo_cycle_def demo_suppress Let_def)
qed

lemma demo_cycle_facts: "books_ok demo_calm_ctx" "limits_ok demo_quotes" "ledger_ok (w_bank (cy_world demo_cycle))"
  "queue_distinct (cy_world demo_cycle)"
  using demo_bank_ledger
  by (simp_all add: books_ok_def demo_calm_ctx_def demo_ctx_def demo_tob_def limits_ok_def demo_quotes_def demo_def config_default_def
      demo_cycle_def demo_world_def engine_new_def queue_distinct_def)

lemma demo_max_bias: "0 \<le> calm_persistence_max_fair_bias demo_quotes"
  using demo_calm_edge(3) by (simp add: demo_quotes_def demo_def config_default_def)

end
