(* ===== verification/CircuitBreaker.thy ===== *)
theory CircuitBreaker
  imports Prelude
begin

section \<open>Circuit breaker\<close>

text \<open>
  \<^verbatim>\<open>src/bots/paint/src/circuit_breaker.rs\<close>: trading pauses after a streak of consecutive losses. The
  abstract view of the counter is the number of losses since the last win, modulo the configured
  streak length; the lemmas show that the counter and the pause refine it. The counters are kept at
  their width and \<open>now + pause_ms\<close> wraps.
\<close>

record circuit_breaker =
  cb_consecutive_losses :: u32
  cb_pause_until :: u64
  cb_max_losses :: u32
  cb_pause_ms :: u64
  cb_last_paused_log_ms :: u64

definition cb_new :: "u32 \<Rightarrow> u64 \<Rightarrow> circuit_breaker" where
  "cb_new max_losses pause_ms = \<lparr>cb_consecutive_losses = 0, cb_pause_until = 0,
     cb_max_losses = max_losses, cb_pause_ms = pause_ms, cb_last_paused_log_ms = 0\<rparr>"

definition cb_record_result :: "bool \<Rightarrow> u64 \<Rightarrow> circuit_breaker \<Rightarrow> circuit_breaker" where
  "cb_record_result won now cb =
     (if won then cb\<lparr>cb_consecutive_losses := 0\<rparr>
      else let losses = cb_consecutive_losses cb + 1 in
        if cb_max_losses cb \<le> losses
        then cb\<lparr>cb_pause_until := now + cb_pause_ms cb, cb_consecutive_losses := 0\<rparr>
        else cb\<lparr>cb_consecutive_losses := losses\<rparr>)"

definition cb_can_trade :: "circuit_breaker \<Rightarrow> u64 \<Rightarrow> bool" where
  "cb_can_trade cb now \<longleftrightarrow> cb_pause_until cb \<le> now"

definition cb_is_paused :: "circuit_breaker \<Rightarrow> u64 \<Rightarrow> bool" where
  "cb_is_paused cb now \<longleftrightarrow> now < cb_pause_until cb"

text \<open>The flag of the result says whether a warning was written.\<close>

definition cb_log_if_paused :: "u64 \<Rightarrow> circuit_breaker \<Rightarrow> circuit_breaker \<times> bool" where
  "cb_log_if_paused now cb =
     (if \<not> cb_can_trade cb now \<and>
         (cb_last_paused_log_ms cb = 0 \<or> 60000 \<le> saturating_sub now (cb_last_paused_log_ms cb))
      then (cb\<lparr>cb_last_paused_log_ms := now\<rparr>, True) else (cb, False))"

subsection \<open>Abstract view\<close>

type_synonym cb_history = "(bool \<times> u64) list"

definition trailing_losses :: "cb_history \<Rightarrow> nat" where
  "trailing_losses hs = length (takeWhile (\<lambda>(won, _). \<not> won) (rev hs))"

definition cb_run :: "cb_history \<Rightarrow> circuit_breaker \<Rightarrow> circuit_breaker" where
  "cb_run hs cb = fold (\<lambda>(won, now). cb_record_result won now) hs cb"

lemma trailing_losses_snoc:
  "trailing_losses (hs @ [(won, t)]) = (if won then 0 else Suc (trailing_losses hs))"
  "trailing_losses [] = 0"
  by (simp_all add: trailing_losses_def)

lemma cb_run_snoc [simp]:
  "cb_run (hs @ [(won, t)]) cb = cb_record_result won t (cb_run hs cb)" "cb_run [] cb = cb"
  by (simp_all add: cb_run_def)

lemma cb_params [simp]:
  "cb_max_losses (cb_record_result won t cb) = cb_max_losses cb"
  "cb_pause_ms (cb_record_result won t cb) = cb_pause_ms cb"
  by (simp_all add: cb_record_result_def Let_def)

lemma cb_run_params [simp]:
  "cb_max_losses (cb_run hs cb) = cb_max_losses cb"
  "cb_pause_ms (cb_run hs cb) = cb_pause_ms cb"
  by (induction hs rule: rev_induct) auto

lemma unat_succ_u32: "unat (c :: u32) < unat (m :: u32) \<Longrightarrow> unat (c + 1) = Suc (unat c)"
  using unat_u32_less[of m] by (simp add: unat_word_ariths)

lemma cb_loss_step:
  assumes "unat (cb_consecutive_losses cb) < unat (cb_max_losses cb)"
  shows "cb_record_result False t cb =
    (if Suc (unat (cb_consecutive_losses cb)) = unat (cb_max_losses cb)
     then cb\<lparr>cb_pause_until := t + cb_pause_ms cb, cb_consecutive_losses := 0\<rparr>
     else cb\<lparr>cb_consecutive_losses := cb_consecutive_losses cb + 1\<rparr>)"
  using assms by (auto simp: cb_record_result_def Let_def word_le_nat_alt unat_succ_u32)

lemma cb_counter_refines:
  assumes "0 < m"
  shows "unat (cb_consecutive_losses (cb_run hs (cb_new m p))) = trailing_losses hs mod unat m"
proof (induction hs rule: rev_induct)
  case Nil
  then show ?case by (simp add: cb_new_def trailing_losses_snoc)
next
  case (snoc h hs)
  obtain won t where h: "h = (won, t)" by (cases h)
  let ?cb = "cb_run hs (cb_new m p)"
  have m: "0 < unat m" "cb_max_losses ?cb = m" using assms by (simp_all add: unat_gt_0 word_neq_0_conv cb_new_def)
  have lt: "unat (cb_consecutive_losses ?cb) < unat (cb_max_losses ?cb)" using snoc.IH m by simp
  show ?case
  proof (cases won)
    case True
    then show ?thesis by (simp add: h cb_record_result_def trailing_losses_snoc)
  next
    case False
    then show ?thesis
      using snoc.IH m cb_loss_step[OF lt, of t] mod_Suc[of "trailing_losses hs" "unat m"]
        unat_succ_u32[OF lt]
      by (auto simp: h trailing_losses_snoc)
  qed
qed

text \<open>The events that trip the breaker: the losses that complete a multiple of \<open>m\<close> consecutive losses.\<close>

definition cb_trips :: "u32 \<Rightarrow> cb_history \<Rightarrow> nat list" where
  "cb_trips m hs = filter (\<lambda>i. \<not> fst (hs ! i) \<and> unat m dvd trailing_losses (take (Suc i) hs)) [0..<length hs]"

lemma cb_trips_snoc:
  "cb_trips m (hs @ [(won, t)]) = cb_trips m hs @
     (if \<not> won \<and> unat m dvd Suc (trailing_losses hs) then [length hs] else [])"
proof -
  have "filter (\<lambda>i. \<not> fst ((hs @ [(won, t)]) ! i) \<and> unat m dvd trailing_losses (take (Suc i) (hs @ [(won, t)]))) [0..<length hs]
      = cb_trips m hs"
    unfolding cb_trips_def by (rule filter_cong) (simp_all add: nth_append)
  then show ?thesis by (simp add: cb_trips_def trailing_losses_snoc)
qed

lemma cb_trips_less: "i \<in> set (cb_trips m hs) \<Longrightarrow> i < length hs"
  by (simp add: cb_trips_def)

lemma cb_pause_refines:
  assumes "0 < m"
  shows "cb_pause_until (cb_run hs (cb_new m p)) =
    (if cb_trips m hs = [] then 0 else snd (hs ! last (cb_trips m hs)) + p)"
proof (induction hs rule: rev_induct)
  case Nil
  then show ?case by (simp add: cb_trips_def cb_new_def)
next
  case (snoc h hs)
  obtain won t where h: "h = (won, t)" by (cases h)
  let ?cb = "cb_run hs (cb_new m p)"
  have m: "0 < unat m" "cb_max_losses ?cb = m" "cb_pause_ms ?cb = p"
    using assms by (simp_all add: unat_gt_0 word_neq_0_conv cb_new_def)
  have c: "unat (cb_consecutive_losses ?cb) = trailing_losses hs mod unat m" by (rule cb_counter_refines[OF assms])
  have lt: "unat (cb_consecutive_losses ?cb) < unat (cb_max_losses ?cb)" using c m by simp
  have old: "snd ((hs @ [h]) ! last (cb_trips m hs)) = snd (hs ! last (cb_trips m hs))" if "cb_trips m hs \<noteq> []"
    using cb_trips_less[OF last_in_set[OF that]] by (simp add: nth_append)
  have trip: "unat m dvd Suc (trailing_losses hs) \<longleftrightarrow> Suc (unat (cb_consecutive_losses ?cb)) = unat m"
    using mod_Suc[of "trailing_losses hs" "unat m"] by (simp add: c dvd_eq_mod_eq_0)
  show ?case
  proof (cases won)
    case True
    then show ?thesis using snoc.IH old by (simp add: h cb_trips_snoc cb_record_result_def)
  next
    case False
    then show ?thesis using snoc.IH old cb_loss_step[OF lt, of t] trip m
      by (simp add: h cb_trips_snoc)
  qed
qed

end
