(* ===== verification/History.thy ===== *)
theory History
  imports Prelude
begin

section \<open>Rolling histories\<close>

text \<open>
  Several components keep a queue of timestamped observations: an event appends observations stamped with its time,
  and then drops observations at the front that are older than a cutoff. The contract below is shared by them. On a
  sequence of events in time order the queue holds exactly the observations that no cutoff has passed.
\<close>

lemma dropWhile_sorted_filter:
  "sorted (map stamp xs) \<Longrightarrow> dropWhile (\<lambda>i. stamp i < c) xs = filter (\<lambda>i. c \<le> stamp i) (xs :: 'i list)"
  for c :: "'t :: linorder"
proof (induction xs)
  case (Cons x xs)
  show ?case
  proof (cases "stamp x < c")
    case False
    with Cons.prems have "\<forall>i \<in> set (x # xs). c \<le> stamp i" by auto
    with False show ?thesis by (simp add: filter_id_conv)
  qed (use Cons in auto)
qed simp

lemma sorted_map_filter: "sorted (map f xs) \<Longrightarrow> sorted (map f (filter P xs))"
  by (induction xs) auto

text \<open>All observations a sequence of events appends.\<close>

fun pushed :: "('e \<Rightarrow> 's \<Rightarrow> 'i list) \<Rightarrow> ('e \<Rightarrow> 's \<Rightarrow> 's) \<Rightarrow> 'e list \<Rightarrow> 's \<Rightarrow> 'i list" where
  "pushed fresh push [] s = []"
| "pushed fresh push (e # es) s = fresh e s @ pushed fresh push es (push e s)"

lemma pushed_append: "pushed fresh push (es @ es') s = pushed fresh push es s @ pushed fresh push es' (fold push es s)"
  by (induction es arbitrary: s) simp_all

locale rolling_history =
  fixes push :: "'e \<Rightarrow> 's \<Rightarrow> 's" and items :: "'s \<Rightarrow> 'i list" and stamp :: "'i \<Rightarrow> u64"
    and fresh :: "'e \<Rightarrow> 's \<Rightarrow> 'i list" and cutoff :: "'e \<Rightarrow> 's \<Rightarrow> u64" and time :: "'e \<Rightarrow> u64"
  assumes items_push: "items (push e s) = dropWhile (\<lambda>i. stamp i < cutoff e s) (items s @ fresh e s)"
    and stamp_fresh: "i \<in> set (fresh e s) \<Longrightarrow> stamp i = time e"
    and cutoff_le: "cutoff e s \<le> time e"
    and cutoff_push: "cutoff e (push e' s) = cutoff e s"
begin

lemma cutoff_fold: "cutoff e (fold push es s) = cutoff e s"
  by (induction es arbitrary: s) (simp_all add: cutoff_push)

lemma pushed_stamps: "i \<in> set (pushed fresh push es s) \<Longrightarrow> stamp i \<in> time ` set es"
  by (induction es arbitrary: s) (auto dest: stamp_fresh)

lemma sorted_fresh: "sorted (map stamp (fresh e s))"
proof -
  have "map stamp (fresh e s) = replicate (length (fresh e s)) (time e)" by (rule replicate_eqI) (auto simp: stamp_fresh)
  then show ?thesis by simp
qed

lemma items_run:
  assumes "items s = []" "sorted (map time es)"
  shows "items (fold push es s) = filter (\<lambda>i. \<forall>e \<in> set es. cutoff e s \<le> stamp i) (pushed fresh push es s) \<and>
    sorted (map stamp (items (fold push es s)))"
  using assms(2)
proof (induction es rule: rev_induct)
  case (snoc e es)
  let ?t = "fold push es s" and ?P = "\<lambda>i. \<forall>e \<in> set es. cutoff e s \<le> stamp i"
  have srt: "sorted (map time es)" and le: "\<forall>e' \<in> set es. time e' \<le> time e" using snoc.prems by (auto simp: sorted_append)
  have IH: "items ?t = filter ?P (pushed fresh push es s)" "sorted (map stamp (items ?t))" using snoc.IH[OF srt] by blast+
  have before: "\<forall>i \<in> set (items ?t). stamp i \<le> time e" using le pushed_stamps by (fastforce simp: IH(1))
  have s: "sorted (map stamp (items ?t @ fresh e ?t))"
    using IH(2) before sorted_fresh stamp_fresh by (auto simp: sorted_append)
  have new: "filter ?P (fresh e ?t) = fresh e ?t"
  proof -
    have "cutoff e' s \<le> stamp i" if "e' \<in> set es" "i \<in> set (fresh e ?t)" for e' i
      using cutoff_le[of e' s] le that stamp_fresh order_trans by metis
    then show ?thesis by (simp add: filter_id_conv)
  qed
  have eq: "items (push e ?t) = filter (\<lambda>i. cutoff e s \<le> stamp i) (items ?t @ fresh e ?t)"
    unfolding items_push cutoff_fold by (rule dropWhile_sorted_filter[OF s])
  have "items (push e ?t) = filter (\<lambda>i. cutoff e s \<le> stamp i) (filter ?P (pushed fresh push es s @ fresh e ?t))"
    unfolding eq by (simp add: IH(1) new)
  then have "items (push e ?t) = filter (\<lambda>i. \<forall>e' \<in> set (es @ [e]). cutoff e' s \<le> stamp i) (pushed fresh push (es @ [e]) s)"
    by (simp add: pushed_append conj_commute)
  moreover have "sorted (map stamp (items (push e ?t)))" unfolding eq by (rule sorted_map_filter[OF s])
  ultimately show ?case by simp
qed (simp add: assms(1))

end

end
