(* ===== verification/Sqrt.thy ===== *)
theory Sqrt
  imports Prelude
begin

section \<open>Square roots\<close>

text \<open>
  \<open>f64::sqrt\<close>: the correctly rounded square root. The root of a positive finite value is bracketed by an integer root with
  600 fractional bits; a value that is not a square is replaced by the middle of its bracket, which rounds the same
  way, because a bracket holds no value with 54 significant bits in its interior.
\<close>

fun isqrt :: "nat \<Rightarrow> nat" where
  "isqrt n = (if n = 0 then 0 else let r = 2 * isqrt (n div 4) in if (r + 1)\<^sup>2 \<le> n then r + 1 else r)"

declare isqrt.simps [simp del]

lemma isqrt_bounds: "(isqrt n)\<^sup>2 \<le> n \<and> n < (isqrt n + 1)\<^sup>2"
proof (induction n rule: isqrt.induct)
  case (1 n)
  show ?case
  proof (cases "n = 0")
    case True
    then show ?thesis by (simp add: isqrt.simps)
  next
    case False
    define q where "q = isqrt (n div 4)"
    have IH: "q\<^sup>2 \<le> n div 4" "n div 4 < (q + 1)\<^sup>2" using 1 False by (simp_all add: q_def)
    have "4 * q\<^sup>2 \<le> n" using IH(1) by linarith
    moreover have "n < 4 * (q + 1)\<^sup>2" using IH(2) by linarith
    ultimately have "(2 * q)\<^sup>2 \<le> n" "n < (2 * q + 2)\<^sup>2" by (simp_all add: power2_eq_square algebra_simps)
    moreover have "isqrt n = (if (2 * q + 1)\<^sup>2 \<le> n then 2 * q + 1 else 2 * q)"
      using False by (subst isqrt.simps) (simp add: q_def Let_def)
    ultimately show ?thesis by simp
  qed
qed

definition SQRT_BITS :: nat where "SQRT_BITS = 600"

definition rat_sqrt :: "rat \<Rightarrow> rat" where
  "rat_sqrt q = (let n = nat \<lfloor>q * 4 ^ SQRT_BITS\<rfloor>; r = isqrt n in
     if of_nat (r\<^sup>2) = q * 4 ^ SQRT_BITS then of_nat r / 2 ^ SQRT_BITS
     else of_nat (2 * r + 1) / 2 ^ (SQRT_BITS + 1))"

definition f64_sqrt :: "f64 \<Rightarrow> f64" where
  "f64_sqrt x = (if is_nan x \<or> x < 0 then f64_nan
     else if is_finite x then (if fval x = 0 then x else f64_lit (rat_sqrt (fval x))) else x)"

text \<open>The bracket: the exact root lies between the integer root and its successor, and an exact square is its own root.\<close>

lemma rat_sqrt_bracket:
  assumes "0 \<le> q"
  defines "r \<equiv> of_nat (isqrt (nat \<lfloor>q * 4 ^ SQRT_BITS\<rfloor>)) / (2 :: rat) ^ SQRT_BITS"
  shows "r\<^sup>2 \<le> q" "q < (r + 1 / 2 ^ SQRT_BITS)\<^sup>2" "r \<le> rat_sqrt q" "rat_sqrt q \<le> r + 1 / 2 ^ SQRT_BITS"
proof -
  let ?K = "(2 :: rat) ^ SQRT_BITS" and ?n = "nat \<lfloor>q * 4 ^ SQRT_BITS\<rfloor>"
  let ?i = "of_nat (isqrt ?n) :: rat"
  have K: "0 < ?K" and K2: "(4 :: rat) ^ SQRT_BITS = ?K\<^sup>2" by (simp, simp add: power_mult[symmetric] power2_eq_square power_mult_distrib[symmetric])
  have nn: "0 \<le> q * ?K\<^sup>2" using assms by simp
  have n: "of_nat ?n \<le> q * ?K\<^sup>2" "q * ?K\<^sup>2 < of_nat ?n + 1" using nn unfolding K2 by (simp_all add: of_nat_floor) linarith
  have "(?i)\<^sup>2 \<le> of_nat ?n" using isqrt_bounds[of ?n] by (metis of_nat_le_iff of_nat_power)
  then have lo: "?i\<^sup>2 \<le> q * ?K\<^sup>2" using n by linarith
  have "of_nat ?n + 1 \<le> (?i + 1)\<^sup>2"
    using isqrt_bounds[of ?n] by (metis Suc_eq_plus1 Suc_leI of_nat_1 of_nat_add of_nat_le_iff of_nat_power)
  then have hi: "q * ?K\<^sup>2 < (?i + 1)\<^sup>2" using n by linarith
  show "r\<^sup>2 \<le> q" using lo K by (simp add: r_def power_divide divide_le_eq)
  have "(r + 1 / ?K)\<^sup>2 = (?i + 1)\<^sup>2 / ?K\<^sup>2" by (simp add: r_def add_divide_distrib[symmetric] power_divide)
  then show "q < (r + 1 / ?K)\<^sup>2" using hi K by (simp add: less_divide_eq)
  show "r \<le> rat_sqrt q" "rat_sqrt q \<le> r + 1 / ?K"
    using K by (simp_all add: rat_sqrt_def r_def Let_def field_simps)
qed

lemma rat_sqrt_nonneg: "0 \<le> rat_sqrt q"
  by (simp add: rat_sqrt_def Let_def)

lemma f64_sqrt_nonneg: "0 \<le> x \<Longrightarrow> 0 \<le> f64_sqrt x"
  using f64_le_not_nan[of 0 x] f64_le_imp_not_less[of 0 x] rat_sqrt_nonneg by (simp add: f64_sqrt_def lit_nonneg)

end
