(* ===== verification/SignalFeatures.thy ===== *)
theory SignalFeatures
  imports Fees History Sqrt
begin

section \<open>Signal features\<close>

text \<open>
  \<^verbatim>\<open>src/bots/paint/src/signal_features.rs\<close>: the market state fed by the trade, book, depth, oracle and quote events, and
  the engine that condenses it into a feature snapshot. Queues are lists with the front first.
\<close>

definition TRADE_HISTORY_MS :: u64 where "TRADE_HISTORY_MS = 30000"
definition QUOTE_HISTORY_MS :: u64 where "QUOTE_HISTORY_MS = 1000"
definition RETURN_HORIZONS_MS :: "u64 list" where "RETURN_HORIZONS_MS = [250, 500, 1000]"
definition VOL_HORIZONS_MS :: "u64 list" where "VOL_HORIZONS_MS = [5000, 15000, 30000]"
definition CROSS_HORIZONS_MS :: "u64 list" where "CROSS_HORIZONS_MS = [10000, 30000]"

text \<open>\<open>f64::EPSILON\<close> and \<open>f64::midpoint\<close>, which halves first only when the sum could overflow.\<close>

definition f64_epsilon :: f64 where "f64_epsilon = f64_lit (1 / 2 ^ 52)"

definition f64_half_max :: f64 where "f64_half_max = f64_lit ((2 ^ 53 - 1) * 2 ^ 970)"

definition f64_midpoint :: "f64 \<Rightarrow> f64 \<Rightarrow> f64" where
  "f64_midpoint a b = (if \<bar>a\<bar> \<le> f64_half_max \<and> \<bar>b\<bar> \<le> f64_half_max then (a + b) / f64_lit 2
     else a / f64_lit 2 + b / f64_lit 2)"

subsection \<open>State\<close>

record trade_observation =
  to_price :: f64
  to_quantity :: f64
  to_signed_quantity :: "f64 option"
  to_event_ms :: u64
  to_event_us :: "u64 option"

record quote_observation =
  qo_midpoint :: f64
  qo_event_ms :: u64

record binance_book =
  bb_best_bid :: f64
  bb_best_ask :: f64
  bb_bid_size :: f64
  bb_ask_size :: f64
  bb_timestamp :: u64
  bb_sequence_key :: "string option"

record binance_depth =
  bd_bid_levels :: "order_level list"
  bd_ask_levels :: "order_level list"
  bd_timestamp :: u64
  bd_sequence_key :: "string option"

record signal_state =
  ss_binance_price :: "f64 option"
  ss_binance_last_event_ms :: "u64 option"
  ss_binance_last_event_us :: "u64 option"
  ss_binance_trades :: "trade_observation list"
  ss_binance_book :: "binance_book option"
  ss_binance_depth :: "binance_depth option"
  ss_chainlink_price :: "f64 option"
  ss_chainlink_last_event_ms :: "u64 option"
  ss_chainlink_last_event_us :: "u64 option"
  ss_book_state :: book_state
  ss_clob_last_event_ms :: "u64 option"
  ss_clob_last_event_us :: "u64 option"
  ss_clob_midpoints :: "quote_observation list"

definition signal_state_new :: signal_state where
  "signal_state_new = \<lparr>ss_binance_price = None, ss_binance_last_event_ms = None, ss_binance_last_event_us = None,
     ss_binance_trades = [], ss_binance_book = None, ss_binance_depth = None, ss_chainlink_price = None,
     ss_chainlink_last_event_ms = None, ss_chainlink_last_event_us = None,
     ss_book_state = \<lparr>book_up = None, book_down = None\<rparr>, ss_clob_last_event_ms = None, ss_clob_last_event_us = None,
     ss_clob_midpoints = []\<rparr>"

definition ss_reset :: "signal_state \<Rightarrow> signal_state" where
  "ss_reset st = st\<lparr>ss_binance_price := None, ss_binance_last_event_ms := None, ss_binance_last_event_us := None,
     ss_binance_trades := [], ss_binance_book := None, ss_binance_depth := None, ss_chainlink_price := None,
     ss_chainlink_last_event_ms := None, ss_chainlink_last_event_us := None,
     ss_book_state := \<lparr>book_up = None, book_down = None\<rparr>, ss_clob_last_event_ms := None, ss_clob_last_event_us := None,
     ss_clob_midpoints := []\<rparr>"

definition ss_prune :: "u64 \<Rightarrow> signal_state \<Rightarrow> signal_state" where
  "ss_prune now_ms st =
     (let trade_cutoff = saturating_sub now_ms TRADE_HISTORY_MS; quote_cutoff = saturating_sub now_ms QUOTE_HISTORY_MS
      in st\<lparr>ss_binance_trades := dropWhile (\<lambda>t. to_event_ms t < trade_cutoff) (ss_binance_trades st),
            ss_clob_midpoints := dropWhile (\<lambda>q. qo_event_ms q < quote_cutoff) (ss_clob_midpoints st)\<rparr>)"

definition update_binance_trade :: "f64 \<Rightarrow> f64 \<Rightarrow> f64 option \<Rightarrow> u64 \<Rightarrow> u64 option \<Rightarrow> signal_state \<Rightarrow> signal_state" where
  "update_binance_trade price quantity signed_quantity event_time_ms event_micros st =
     ss_prune event_time_ms (st\<lparr>ss_binance_price := Some price, ss_binance_last_event_ms := Some event_time_ms,
       ss_binance_last_event_us := event_micros,
       ss_binance_trades := ss_binance_trades st @ [\<lparr>to_price = price, to_quantity = quantity,
         to_signed_quantity = signed_quantity, to_event_ms = event_time_ms, to_event_us = event_micros\<rparr>]\<rparr>)"

definition update_binance_book ::
  "f64 \<Rightarrow> f64 \<Rightarrow> f64 \<Rightarrow> f64 \<Rightarrow> u64 \<Rightarrow> string option \<Rightarrow> signal_state \<Rightarrow> signal_state" where
  "update_binance_book best_bid best_ask bid_size ask_size event_ms sequence_key st =
     st\<lparr>ss_binance_last_event_ms := Some event_ms, ss_binance_book := Some \<lparr>bb_best_bid = best_bid, bb_best_ask = best_ask,
       bb_bid_size = bid_size, bb_ask_size = ask_size, bb_timestamp = event_ms, bb_sequence_key = sequence_key\<rparr>\<rparr>"

definition update_binance_depth ::
  "order_level list \<Rightarrow> order_level list \<Rightarrow> u64 \<Rightarrow> string option \<Rightarrow> signal_state \<Rightarrow> signal_state" where
  "update_binance_depth bid_levels ask_levels event_ms sequence_key st =
     st\<lparr>ss_binance_last_event_ms := Some event_ms, ss_binance_depth := Some \<lparr>bd_bid_levels = bid_levels,
       bd_ask_levels = ask_levels, bd_timestamp = event_ms, bd_sequence_key = sequence_key\<rparr>\<rparr>"

definition update_chainlink :: "f64 \<Rightarrow> u64 \<Rightarrow> u64 option \<Rightarrow> signal_state \<Rightarrow> signal_state" where
  "update_chainlink price event_time_ms event_micros st =
     st\<lparr>ss_chainlink_price := Some price, ss_chainlink_last_event_ms := Some event_time_ms,
        ss_chainlink_last_event_us := event_micros\<rparr>"

definition current_summed_midpoint :: "book_state \<Rightarrow> f64 option" where
  "current_summed_midpoint bs = (case (book_up bs, book_down bs) of
     (Some up, Some down) \<Rightarrow> Some (f64_midpoint (tob_best_bid up) (tob_best_ask up)
        + f64_midpoint (tob_best_bid down) (tob_best_ask down))
   | _ \<Rightarrow> None)"

definition normalize_observed_timestamp :: "top_of_book option \<Rightarrow> top_of_book option" where
  "normalize_observed_timestamp b = map_option (\<lambda>book.
     if tob_observed_at_ms book = 0 \<and> 0 < tob_timestamp book
     then book\<lparr>tob_observed_at_ms := tob_timestamp book\<rparr> else book) b"

definition update_clob :: "book_state \<Rightarrow> u64 \<Rightarrow> u64 option \<Rightarrow> signal_state \<Rightarrow> signal_state" where
  "update_clob bs event_time_ms event_micros st =
     (let bs' = \<lparr>book_up = normalize_observed_timestamp (book_up bs), book_down = normalize_observed_timestamp (book_down bs)\<rparr>;
          st1 = st\<lparr>ss_book_state := bs', ss_clob_last_event_ms := Some event_time_ms, ss_clob_last_event_us := event_micros\<rparr>;
          st2 = (case current_summed_midpoint bs' of None \<Rightarrow> st1
            | Some m \<Rightarrow>
                if ss_clob_midpoints st = [] \<or> f64_epsilon < \<bar>qo_midpoint (last (ss_clob_midpoints st)) - m\<bar>
                then st1\<lparr>ss_clob_midpoints := ss_clob_midpoints st @ [\<lparr>qo_midpoint = m, qo_event_ms = event_time_ms\<rparr>]\<rparr>
                else st1)
      in ss_prune event_time_ms st2)"

subsection \<open>Features of the trade history\<close>

definition recent_trades :: "u64 \<Rightarrow> u64 \<Rightarrow> signal_state \<Rightarrow> trade_observation list" where
  "recent_trades now_ms horizon_ms st = filter (\<lambda>t. saturating_sub now_ms horizon_ms \<le> to_event_ms t) (ss_binance_trades st)"

definition return_over_ms :: "u64 \<Rightarrow> u64 \<Rightarrow> signal_state \<Rightarrow> f64 option" where
  "return_over_ms now_ms horizon_ms st =
     (case ss_binance_price st of None \<Rightarrow> None | Some latest \<Rightarrow>
      (case opt_or (find (\<lambda>t. saturating_sub now_ms horizon_ms \<le> to_event_ms t) (ss_binance_trades st))
              (case ss_binance_trades st of [] \<Rightarrow> None | t # _ \<Rightarrow> Some t) of
         None \<Rightarrow> None
       | Some base \<Rightarrow> if to_price base \<le> 0 then None else Some ((latest - to_price base) / to_price base)))"

fun imbalance_sums :: "trade_observation list \<Rightarrow> f64 \<Rightarrow> f64 \<Rightarrow> (f64 \<times> f64) option" where
  "imbalance_sums [] total_abs total_signed = Some (total_abs, total_signed)"
| "imbalance_sums (t # ts) total_abs total_signed = (case to_signed_quantity t of None \<Rightarrow> None
     | Some s \<Rightarrow> imbalance_sums ts (total_abs + \<bar>s\<bar>) (total_signed + s))"

definition trade_imbalance_over_ms :: "u64 \<Rightarrow> u64 \<Rightarrow> signal_state \<Rightarrow> f64 option" where
  "trade_imbalance_over_ms now_ms horizon_ms st =
     (case imbalance_sums (recent_trades now_ms horizon_ms st) 0 0 of None \<Rightarrow> None
      | Some (total_abs, total_signed) \<Rightarrow> if total_abs \<le> 0 then None else Some (total_signed / total_abs))"

definition book_imbalance :: "signal_state \<Rightarrow> f64 option" where
  "book_imbalance st = (case ss_binance_book st of None \<Rightarrow> None | Some book \<Rightarrow>
     let total = bb_bid_size book + bb_ask_size book in
     if total \<le> 0 then None else Some ((bb_bid_size book - bb_ask_size book) / total))"

fun level_sums :: "order_level list \<Rightarrow> f64 \<Rightarrow> f64 \<Rightarrow> f64 \<times> f64" where
  "level_sums [] total_qty total_notional = (total_qty, total_notional)"
| "level_sums (l # ls) total_qty total_notional =
     (if lvl_size l \<le> 0 then level_sums ls total_qty total_notional
      else level_sums ls (total_qty + lvl_size l) (total_notional + lvl_price l * lvl_size l))"

definition weighted_average :: "order_level list \<Rightarrow> f64 option" where
  "weighted_average ls = (case level_sums ls 0 0 of (total_qty, total_notional) \<Rightarrow>
     if total_qty \<le> 0 then None else Some (total_notional / total_qty))"

definition depth_sweep_cost :: "signal_state \<Rightarrow> f64 option" where
  "depth_sweep_cost st = (case (ss_binance_depth st, ss_binance_book st) of
     (Some depth, Some book) \<Rightarrow>
       (case (weighted_average (bd_ask_levels depth), weighted_average (bd_bid_levels depth)) of
          (Some ask_cost, Some bid_cost) \<Rightarrow>
            let mid = f64_midpoint (bb_best_bid book) (bb_best_ask book) in
            if mid \<le> 0 then None else Some ((\<bar>ask_cost - bid_cost\<bar> / f64_lit 2) / mid)
        | _ \<Rightarrow> None)
   | _ \<Rightarrow> None)"

definition clob_quote_churn_per_s :: "u64 \<Rightarrow> u64 \<Rightarrow> signal_state \<Rightarrow> f64 option" where
  "clob_quote_churn_per_s now_ms horizon_ms st =
     (let n = length (filter (\<lambda>q. saturating_sub now_ms horizon_ms \<le> qo_event_ms q) (ss_clob_midpoints st)) in
      if n = 0 \<or> horizon_ms = 0 then None
      else Some (f64_of_nat n / (f64_of_u64 horizon_ms / f64_lit 1000)))"

definition microprice :: "top_of_book \<Rightarrow> f64 option" where
  "microprice book = (let total_size = tob_bid_size book + tob_ask_size book in
     if total_size \<le> 0 then None
     else Some ((tob_best_ask book * tob_bid_size book + tob_best_bid book * tob_ask_size book) / total_size))"

definition clob_microprice_skew :: "signal_state \<Rightarrow> f64 option" where
  "clob_microprice_skew st = (case (book_up (ss_book_state st), book_down (ss_book_state st)) of
     (Some up_book, Some down_book) \<Rightarrow> (case (microprice up_book, microprice down_book) of
        (Some up, Some down) \<Rightarrow> Some ((up + down) - 1) | _ \<Rightarrow> None)
   | _ \<Rightarrow> None)"

fun vol_sums :: "trade_observation list \<Rightarrow> f64 \<Rightarrow> nat \<Rightarrow> f64 \<times> nat" where
  "vol_sums (a # b # ts) sum_sq n =
     (if to_price a \<le> 0 \<or> to_price b \<le> 0 then vol_sums (b # ts) sum_sq n
      else let ret = (to_price b - to_price a) / to_price a in vol_sums (b # ts) (sum_sq + ret * ret) (n + 1))"
| "vol_sums _ sum_sq n = (sum_sq, n)"

definition realized_volatility_bps_over_ms :: "u64 \<Rightarrow> u64 \<Rightarrow> signal_state \<Rightarrow> f64 option" where
  "realized_volatility_bps_over_ms now_ms horizon_ms st =
     (let obs = recent_trades now_ms horizon_ms st in
      if length obs < 2 then None
      else (case vol_sums obs 0 0 of (sum_sq, n) \<Rightarrow>
        if n = 0 then None else Some (f64_sqrt (sum_sq / f64_of_nat n) * f64_lit 10000)))"

definition signed_price_side :: "f64 \<Rightarrow> f64 \<Rightarrow> int option" where
  "signed_price_side price open_price =
     (if price \<le> 0 \<or> open_price \<le> 0 then None
      else let delta = price - open_price in
        if 0 < delta then Some 1 else if delta < 0 then Some (- 1) else None)"

fun cross_count :: "f64 \<Rightarrow> trade_observation list \<Rightarrow> int option \<Rightarrow> u32 \<Rightarrow> u32 option" where
  "cross_count open_price [] last_sign crosses = Some crosses"
| "cross_count open_price (t # ts) last_sign crosses = (case signed_price_side (to_price t) open_price of
     None \<Rightarrow> None
   | Some sign \<Rightarrow> cross_count open_price ts (Some sign)
       (if is_some_and last_sign (\<lambda>prev. sign \<noteq> prev) then crosses + 1 else crosses))"

definition open_cross_count_over_ms :: "u64 \<Rightarrow> u64 \<Rightarrow> f64 \<Rightarrow> signal_state \<Rightarrow> u32 option" where
  "open_cross_count_over_ms now_ms horizon_ms window_open_price st =
     (if window_open_price \<le> 0 then None
      else cross_count window_open_price (recent_trades now_ms horizon_ms st) None 0)"

definition signed_distance_bps :: "f64 \<Rightarrow> trade_observation \<Rightarrow> f64" where
  "signed_distance_bps open_price t = ((to_price t - open_price) / open_price) * f64_lit 10000"

definition signed_distance_range_bps_over_ms :: "u64 \<Rightarrow> u64 \<Rightarrow> f64 \<Rightarrow> signal_state \<Rightarrow> (f64 \<times> f64) option" where
  "signed_distance_range_bps_over_ms now_ms horizon_ms window_open_price st =
     (if window_open_price \<le> 0 then None
      else let ds = map (signed_distance_bps window_open_price) (recent_trades now_ms horizon_ms st) in
        if ds = [] then None
        else Some (fold (\<lambda>d m. f64_min m d) ds f64_infinity, fold (\<lambda>d m. f64_max m d) ds (- f64_infinity)))"

subsection \<open>The feature engine\<close>

definition compute_distance_from_open_bps :: "f64 option \<Rightarrow> f64 option \<Rightarrow> f64 option" where
  "compute_distance_from_open_bps window_open_price latest_price = (case (window_open_price, latest_price) of
     (Some open_price, Some latest) \<Rightarrow>
       if 0 < open_price then Some (((latest - open_price) / open_price) * f64_lit 10000) else None
   | _ \<Rightarrow> None)"

definition compute_short_returns :: "u64 \<Rightarrow> signal_state \<Rightarrow> f64 option \<times> f64 option \<times> f64 option" where
  "compute_short_returns now_ms st = (return_over_ms now_ms (RETURN_HORIZONS_MS ! 0) st,
     return_over_ms now_ms (RETURN_HORIZONS_MS ! 1) st, return_over_ms now_ms (RETURN_HORIZONS_MS ! 2) st)"

definition compute_chainlink_basis_bps :: "f64 option \<Rightarrow> f64 option \<Rightarrow> f64 option" where
  "compute_chainlink_basis_bps binance_price chainlink_price = (case (binance_price, chainlink_price) of
     (Some binance, Some chainlink) \<Rightarrow>
       if 0 < chainlink then Some (((binance - chainlink) / chainlink) * f64_lit 10000) else None
   | _ \<Rightarrow> None)"

definition compute_realized_volatility :: "u64 \<Rightarrow> signal_state \<Rightarrow> f64 option \<times> f64 option \<times> f64 option" where
  "compute_realized_volatility now_ms st = (realized_volatility_bps_over_ms now_ms (VOL_HORIZONS_MS ! 0) st,
     realized_volatility_bps_over_ms now_ms (VOL_HORIZONS_MS ! 1) st,
     realized_volatility_bps_over_ms now_ms (VOL_HORIZONS_MS ! 2) st)"

definition compute_open_cross_counts :: "u64 \<Rightarrow> f64 option \<Rightarrow> signal_state \<Rightarrow> u32 option \<times> u32 option" where
  "compute_open_cross_counts now_ms window_open_price st = (case window_open_price of None \<Rightarrow> (None, None)
   | Some open_price \<Rightarrow> (open_cross_count_over_ms now_ms (CROSS_HORIZONS_MS ! 0) open_price st,
       open_cross_count_over_ms now_ms (CROSS_HORIZONS_MS ! 1) open_price st))"

definition compute_signed_distance_ranges ::
  "u64 \<Rightarrow> f64 option \<Rightarrow> signal_state \<Rightarrow> f64 option \<times> f64 option \<times> f64 option \<times> f64 option" where
  "compute_signed_distance_ranges now_ms window_open_price st = (case window_open_price of None \<Rightarrow> (None, None, None, None)
   | Some open_price \<Rightarrow>
       let r10 = signed_distance_range_bps_over_ms now_ms (CROSS_HORIZONS_MS ! 0) open_price st;
           r30 = signed_distance_range_bps_over_ms now_ms (CROSS_HORIZONS_MS ! 1) open_price st
       in (map_option fst r10, map_option snd r10, map_option fst r30, map_option snd r30))"

definition event_age_ms :: "u64 option \<Rightarrow> u64 \<Rightarrow> u64 option" where
  "event_age_ms last_event_ms now_ms = map_option (\<lambda>t. saturating_sub now_ms t) last_event_ms"

definition compute_event_to_decision_lag_us :: "u64 option \<Rightarrow> signal_state \<Rightarrow> u64 option" where
  "compute_event_to_decision_lag_us decision_time_us st =
     (let events = List.map_filter id [ss_binance_last_event_us st, ss_chainlink_last_event_us st, ss_clob_last_event_us st];
          latest = (if events = [] then None else Some (fold max events 0))
      in case (decision_time_us, latest) of
           (Some decision_us, Some event_us) \<Rightarrow> if event_us \<le> decision_us then Some (decision_us - event_us) else None
         | _ \<Rightarrow> None)"

definition current_summed_ask_edge :: "book_state \<Rightarrow> f64 option" where
  "current_summed_ask_edge bs = (case (book_up bs, book_down bs) of
     (Some up, Some down) \<Rightarrow> Some (1 - tob_best_ask up - tob_best_ask down) | _ \<Rightarrow> None)"

definition current_summed_mid_edge :: "book_state \<Rightarrow> f64 option" where
  "current_summed_mid_edge bs = map_option (\<lambda>m. 1 - m) (current_summed_midpoint bs)"

definition quote_age_ms :: "book_state \<Rightarrow> u64 \<Rightarrow> u64 option" where
  "quote_age_ms bs now_ms = (case (book_up bs, book_down bs) of
     (Some up, Some down) \<Rightarrow>
       Some (saturating_sub now_ms (min (effective_book_timestamp up) (effective_book_timestamp down)))
   | _ \<Rightarrow> None)"

definition estimate_slippage :: "top_of_book \<Rightarrow> u64 \<Rightarrow> u64 option \<Rightarrow> f64" where
  "estimate_slippage book latency_ms age_ms =
     (let half_spread = f64_max ((tob_best_ask book - tob_best_bid book) / f64_lit 2) 0;
          latency_penalty = f64_of_u64 latency_ms / f64_lit 200000;
          age_penalty = f64_of_u64 (unwrap_or age_ms 0) / f64_lit 400000
      in half_spread + latency_penalty + age_penalty)"

record trade_costs =
  tc_up_fee :: "f64 option"
  tc_down_fee :: "f64 option"
  tc_up_slippage :: "f64 option"
  tc_down_slippage :: "f64 option"

definition compute_expected_trade_costs ::
  "(string \<Rightarrow> fee_schedule option) \<Rightarrow> market_window option \<Rightarrow> u64 \<Rightarrow> u64 option \<Rightarrow> config \<Rightarrow> signal_state \<Rightarrow> trade_costs" where
  "compute_expected_trade_costs parse window now_ms age_ms c st =
     (let fp = resolve_fee_params parse c window now_ms; bs = ss_book_state st;
          fee = (\<lambda>book. compute_taker_fee (tob_best_ask book) 1 (fee_rate fp) (exponent fp));
          fees = (case (book_up bs, book_down bs) of
            (Some up, Some down) \<Rightarrow> (Some (fee up), Some (fee down)) | _ \<Rightarrow> (None, None));
          slip = (\<lambda>book. estimate_slippage book (sim_order_latency_ms c) age_ms)
      in \<lparr>tc_up_fee = fst fees, tc_down_fee = snd fees, tc_up_slippage = map_option slip (book_up bs),
          tc_down_slippage = map_option slip (book_down bs)\<rparr>)"

definition opt_pair :: "('a \<Rightarrow> 'b \<Rightarrow> 'c) \<Rightarrow> 'a option \<Rightarrow> 'b option \<Rightarrow> 'c option" where
  "opt_pair f x y = (case (x, y) of (Some a, Some b) \<Rightarrow> Some (f a b) | _ \<Rightarrow> None)"

definition compute_features ::
  "(string \<Rightarrow> fee_schedule option) \<Rightarrow> market_window option \<Rightarrow> f64 option \<Rightarrow> f64 \<Rightarrow> u64 \<Rightarrow> u64 option \<Rightarrow> config \<Rightarrow>
     signal_state \<Rightarrow> features \<times> signal_state" where
  "compute_features parse window window_open_price binance_momentum now_ms decision_time_us c st0 =
     (let st = ss_prune now_ms st0; bs = ss_book_state st;
          (r250, r500, r1000) = compute_short_returns now_ms st;
          (v5, v15, v30) = compute_realized_volatility now_ms st;
          (x10, x30) = compute_open_cross_counts now_ms window_open_price st;
          (mn10, mx10, mn30, mx30) = compute_signed_distance_ranges now_ms window_open_price st;
          up_ask = map_option tob_best_ask (book_up bs); down_ask = map_option tob_best_ask (book_down bs);
          age = quote_age_ms bs now_ms;
          up_ts = map_option effective_book_timestamp (book_up bs); down_ts = map_option effective_book_timestamp (book_down bs);
          imbalance = trade_imbalance_over_ms now_ms 1000 st; book_imb = book_imbalance st; sweep = depth_sweep_cost st;
          churn = clob_quote_churn_per_s now_ms 1000 st; skew = clob_microprice_skew st;
          lag = compute_event_to_decision_lag_us decision_time_us st;
          costs = compute_expected_trade_costs parse window now_ms age c st;
          raw_only_available = (5 \<le> length (filter id [imbalance \<noteq> None, book_imb \<noteq> None, sweep \<noteq> None, churn \<noteq> None,
            skew \<noteq> None, lag \<noteq> None]))
      in (\<lparr>ft_feature_mode = (if raw_only_available then RawEventFull else LegacyCore),
           ft_momentum_30s = binance_momentum,
           ft_distance_from_open_bps = compute_distance_from_open_bps window_open_price (ss_binance_price st),
           ft_return_250ms = r250, ft_return_500ms = r500, ft_return_1000ms = r1000,
           ft_chainlink_basis_bps = compute_chainlink_basis_bps (ss_binance_price st) (ss_chainlink_price st),
           ft_realized_vol_5s_bps = v5, ft_realized_vol_15s_bps = v15, ft_realized_vol_30s_bps = v30,
           ft_open_crosses_10s = x10, ft_open_crosses_30s = x30,
           ft_min_signed_distance_10s_bps = mn10, ft_max_signed_distance_10s_bps = mx10,
           ft_min_signed_distance_30s_bps = mn30, ft_max_signed_distance_30s_bps = mx30,
           ft_summed_ask_edge = current_summed_ask_edge bs, ft_summed_mid_edge = current_summed_mid_edge bs,
           ft_up_ask = up_ask, ft_down_ask = down_ask, ft_total_ask = opt_pair (+) up_ask down_ask,
           ft_binance_age_ms = event_age_ms (ss_binance_last_event_ms st) now_ms,
           ft_chainlink_age_ms = event_age_ms (ss_chainlink_last_event_ms st) now_ms,
           ft_clob_age_ms = event_age_ms (ss_clob_last_event_ms st) now_ms,
           ft_quote_age_ms = age, ft_book_staleness_ms = age,
           ft_up_effective_book_ts_ms = up_ts, ft_down_effective_book_ts_ms = down_ts,
           ft_inter_leg_skew_ms = opt_pair abs_diff up_ts down_ts,
           ft_binance_signed_trade_imbalance = imbalance, ft_binance_book_imbalance = book_imb,
           ft_binance_depth_sweep_cost = sweep, ft_polymarket_quote_churn_per_s = churn,
           ft_polymarket_microprice_skew = skew, ft_event_to_decision_lag_us = lag,
           ft_expected_up_fee = tc_up_fee costs, ft_expected_down_fee = tc_down_fee costs,
           ft_expected_up_slippage = tc_up_slippage costs, ft_expected_down_slippage = tc_down_slippage costs\<rparr>, st))"

end
