(* ===== verification/FeatureBounds.thy ===== *)
theory FeatureBounds
  imports SignalFeatures Rounding
begin

section \<open>Histories and ranges of the features\<close>

text \<open>
  The trade and quote queues of the signal state are rolling histories over the events of the feeds, and the derived
  features stay within their ranges: imbalances in [-1, 1], volatility, fees and slippage at least zero, and at most one
  crossing per pair of neighbouring trades. A feature that is not a number is possible only from infinite or NaN inputs.
\<close>

datatype signal_event =
    EvTrade f64 f64 "f64 option" u64 "u64 option"
  | EvBook f64 f64 f64 f64 u64 "string option"
  | EvDepth "order_level list" "order_level list" u64 "string option"
  | EvChainlink f64 u64 "u64 option"
  | EvClob book_state u64 "u64 option"
  | EvCompute u64

fun ss_step :: "signal_event \<Rightarrow> signal_state \<Rightarrow> signal_state" where
  "ss_step (EvTrade p q sq t us) st = update_binance_trade p q sq t us st"
| "ss_step (EvBook bid ask bs as t k) st = update_binance_book bid ask bs as t k st"
| "ss_step (EvDepth bids asks t k) st = update_binance_depth bids asks t k st"
| "ss_step (EvChainlink p t us) st = update_chainlink p t us st"
| "ss_step (EvClob bs t us) st = update_clob bs t us st"
| "ss_step (EvCompute now) st = ss_prune now st"

fun event_time :: "signal_event \<Rightarrow> u64" where
  "event_time (EvTrade p q sq t us) = t"
| "event_time (EvBook bid ask bs as t k) = t"
| "event_time (EvDepth bids asks t k) = t"
| "event_time (EvChainlink p t us) = t"
| "event_time (EvClob bs t us) = t"
| "event_time (EvCompute now) = now"

text \<open>Trades, quotes and evaluations prune; the other events do not.\<close>

fun event_cutoff :: "u64 \<Rightarrow> signal_event \<Rightarrow> u64" where
  "event_cutoff hz (EvTrade p q sq t us) = saturating_sub t hz"
| "event_cutoff hz (EvClob bs t us) = saturating_sub t hz"
| "event_cutoff hz (EvCompute now) = saturating_sub now hz"
| "event_cutoff hz _ = 0"

fun event_trades :: "signal_event \<Rightarrow> trade_observation list" where
  "event_trades (EvTrade p q sq t us) =
     [\<lparr>to_price = p, to_quantity = q, to_signed_quantity = sq, to_event_ms = t, to_event_us = us\<rparr>]"
| "event_trades _ = []"

definition normalized_book :: "book_state \<Rightarrow> book_state" where
  "normalized_book bs = \<lparr>book_up = normalize_observed_timestamp (book_up bs), book_down = normalize_observed_timestamp (book_down bs)\<rparr>"

fun event_quotes :: "signal_event \<Rightarrow> signal_state \<Rightarrow> quote_observation list" where
  "event_quotes (EvClob bs t us) st = (case current_summed_midpoint (normalized_book bs) of None \<Rightarrow> []
     | Some m \<Rightarrow> if ss_clob_midpoints st = [] \<or> f64_epsilon < \<bar>qo_midpoint (last (ss_clob_midpoints st)) - m\<bar>
         then [\<lparr>qo_midpoint = m, qo_event_ms = t\<rparr>] else [])"
| "event_quotes _ st = []"

lemma dropWhile_none: "\<forall>x \<in> set xs. \<not> P x \<Longrightarrow> dropWhile P xs = xs"
  by (cases xs) auto

lemma event_cutoff_le: "event_cutoff hz e \<le> event_time e"
  by (cases e) (simp_all add: saturating_sub_le)

lemma step_trades:
  "ss_binance_trades (ss_step e st) =
     dropWhile (\<lambda>t. to_event_ms t < event_cutoff TRADE_HISTORY_MS e) (ss_binance_trades st @ event_trades e)"
  by (cases e) (simp_all add: update_binance_trade_def update_binance_book_def update_binance_depth_def update_chainlink_def
      update_clob_def ss_prune_def Let_def dropWhile_none split: option.splits)

lemma step_quotes:
  "ss_clob_midpoints (ss_step e st) =
     dropWhile (\<lambda>q. qo_event_ms q < event_cutoff QUOTE_HISTORY_MS e) (ss_clob_midpoints st @ event_quotes e st)"
  by (cases e) (simp_all add: update_binance_trade_def update_binance_book_def update_binance_depth_def update_chainlink_def
      update_clob_def ss_prune_def Let_def normalized_book_def dropWhile_none split: option.splits)

interpretation trade_history: rolling_history ss_step ss_binance_trades to_event_ms "\<lambda>e st. event_trades e"
  "\<lambda>e st. event_cutoff TRADE_HISTORY_MS e" event_time
proof
  show "to_event_ms i = event_time e" if "i \<in> set (event_trades e)" for i e st using that by (cases e) auto
qed (simp_all add: step_trades event_cutoff_le)

interpretation quote_history: rolling_history ss_step ss_clob_midpoints qo_event_ms event_quotes
  "\<lambda>e st. event_cutoff QUOTE_HISTORY_MS e" event_time
proof
  show "qo_event_ms i = event_time e" if "i \<in> set (event_quotes e st)" for i e st
    using that by (cases e) (auto split: option.splits if_splits)
qed (simp_all add: step_quotes event_cutoff_le)

lemma pushed_trades: "pushed (\<lambda>e st. event_trades e) ss_step es st = concat (map event_trades es)"
  by (induction es arbitrary: st) simp_all

lemma signal_state_new_trades: "ss_binance_trades signal_state_new = []"
  by (simp add: signal_state_new_def)

lemma ss_reset_new: "ss_reset st = signal_state_new"
  by (simp add: ss_reset_def signal_state_new_def)

subsection \<open>Imbalances\<close>

lemma f64_le_abs: "\<not> is_nan x \<Longrightarrow> x \<le> \<bar>x\<bar> \<and> - \<bar>x\<bar> \<le> (x :: f64)"
proof transfer
  fix x assume "x \<noteq> RNaN"
  then show "raw_le x (raw_abs x) \<and> raw_le (raw_neg (raw_abs x)) x" by (cases x) auto
qed

lemma raw_neg_mk_le: "- q \<le> r \<Longrightarrow> raw_le (raw_neg (raw_mk s q)) (raw_mk t r)"
  using rnd_mono[of "- q" r] by (auto simp: raw_mk_def Let_def rnd_minus)

text \<open>The relation between a running signed sum and the running sum of the absolute values.\<close>

definition within_abs :: "f64 \<Rightarrow> f64 \<Rightarrow> bool" where
  "within_abs s a \<longleftrightarrow> is_nan a \<or> 0 \<le> a \<and> (is_nan s \<or> - a \<le> s \<and> s \<le> a)"

lemma within_abs_add: "within_abs s a \<Longrightarrow> within_abs (s + v) (a + \<bar>v\<bar>)"
  unfolding within_abs_def
proof transfer
  fix s a v
  assume "a = RNaN \<or> raw_le (RFin False 0) a \<and> (s = RNaN \<or> raw_le (raw_neg a) s \<and> raw_le s a)"
  then show "raw_add a (raw_abs v) = RNaN \<or> raw_le (RFin False 0) (raw_add a (raw_abs v)) \<and>
      (raw_add s v = RNaN \<or> raw_le (raw_neg (raw_add a (raw_abs v))) (raw_add s v) \<and> raw_le (raw_add s v) (raw_add a (raw_abs v)))"
    by (cases s; cases a; cases v) (auto intro!: raw_mk_mono raw_neg_mk_le raw_mk_nonneg)
qed

lemma within_abs_diff: "0 \<le> b \<Longrightarrow> 0 \<le> a \<Longrightarrow> within_abs (b - a) (b + a)"
  unfolding within_abs_def
proof transfer
  fix a b
  assume "raw_le (RFin False 0) b" "raw_le (RFin False 0) a"
  then show "raw_add b a = RNaN \<or> raw_le (RFin False 0) (raw_add b a) \<and>
      (raw_add b (raw_neg a) = RNaN \<or> raw_le (raw_neg (raw_add b a)) (raw_add b (raw_neg a)) \<and> raw_le (raw_add b (raw_neg a)) (raw_add b a))"
    by (cases a; cases b) (auto intro!: raw_mk_mono raw_neg_mk_le raw_mk_nonneg)
qed

lemma within_abs_div:
  assumes "within_abs s a" "\<not> a \<le> 0"
  shows "is_nan (s / a) \<or> - 1 \<le> s / a \<and> s / a \<le> 1"
  using assms unfolding within_abs_def
proof transfer
  fix s a
  assume h: "a = RNaN \<or> raw_le (RFin False 0) a \<and> (s = RNaN \<or> raw_le (raw_neg a) s \<and> raw_le s a)" "\<not> raw_le a (RFin False 0)"
  have one: "raw_mk False 1 = RFin False 1" using rnd_int[of 1] by (simp add: raw_mk_def fmax_bound_def)
  have fin: "raw_le (raw_neg (RFin False 1)) (raw_mk t (p / q)) \<and> raw_le (raw_mk t (p / q)) (RFin False 1)"
    if "- q \<le> p" "p \<le> q" "0 < q" for t p q
  proof -
    have "p / q \<le> 1" "- 1 \<le> p / q" using that by (simp_all add: divide_le_eq le_divide_eq)
    then show ?thesis using raw_mk_mono[of "p / q" 1 t False] raw_neg_mk_le[of 1 "p / q" False t] by (simp add: one)
  qed
  show "raw_div s a = RNaN \<or> raw_le (raw_neg (RFin False 1)) (raw_div s a) \<and> raw_le (raw_div s a) (RFin False 1)"
    using h fin by (cases s; cases a) (auto simp: not_le)
qed

lemma imbalance_sums_within:
  "imbalance_sums ts a s = Some (a', s') \<Longrightarrow> within_abs s a \<Longrightarrow> within_abs s' a'"
  by (induction ts arbitrary: a s) (auto simp: within_abs_add split: option.splits)

lemma trade_imbalance_range:
  assumes "trade_imbalance_over_ms now hz st = Some x"
  shows "is_nan x \<or> - 1 \<le> x \<and> x \<le> 1"
proof -
  obtain a s where as: "imbalance_sums (recent_trades now hz st) 0 0 = Some (a, s)" "\<not> a \<le> 0" "x = s / a"
    using assms by (auto simp: trade_imbalance_over_ms_def split: option.splits if_splits)
  have "within_abs 0 0" by (simp add: within_abs_def f64_neg_0_le)
  from within_abs_div[OF imbalance_sums_within[OF as(1) this] as(2)] show ?thesis by (simp add: as(3))
qed

lemma book_imbalance_range:
  assumes "book_imbalance st = Some x" "ss_binance_book st = Some b" "0 \<le> bb_bid_size b" "0 \<le> bb_ask_size b"
  shows "is_nan x \<or> - 1 \<le> x \<and> x \<le> 1"
proof -
  have x: "x = (bb_bid_size b - bb_ask_size b) / (bb_bid_size b + bb_ask_size b)" "\<not> bb_bid_size b + bb_ask_size b \<le> 0"
    using assms(1,2) by (auto simp: book_imbalance_def Let_def split: if_splits)
  from within_abs_div[OF within_abs_diff[OF assms(3,4)] x(2)] show ?thesis by (simp add: x(1))
qed

subsection \<open>Volatility, crossings, distances and costs\<close>

lemma square_nonneg: "is_nan (x * x) \<or> 0 \<le> x * (x :: f64)"
proof transfer
  fix x show "raw_mul x x = RNaN \<or> raw_le (RFin False 0) (raw_mul x x)"
    by (cases x) (auto intro: raw_mk_nonneg)
qed

lemma add_nan_or_nonneg: "is_nan x \<or> 0 \<le> x \<Longrightarrow> is_nan y \<or> 0 \<le> y \<Longrightarrow> is_nan (x + y) \<or> 0 \<le> x + (y :: f64)"
proof transfer
  fix x y
  assume "x = RNaN \<or> raw_le (RFin False 0) x" "y = RNaN \<or> raw_le (RFin False 0) y"
  then show "raw_add x y = RNaN \<or> raw_le (RFin False 0) (raw_add x y)"
    by (cases x; cases y) (auto intro: raw_mk_nonneg)
qed

lemma vol_sums_nonneg: "vol_sums ts sum_sq n = (sum_sq', n') \<Longrightarrow> is_nan sum_sq \<or> 0 \<le> sum_sq \<Longrightarrow> is_nan sum_sq' \<or> 0 \<le> sum_sq'"
proof (induction ts sum_sq n rule: vol_sums.induct)
  case (1 a b ts sum_sq n)
  show ?case
  proof (cases "to_price a \<le> 0 \<or> to_price b \<le> 0")
    case False
    then show ?thesis using 1(2)[OF False refl] 1(3,4) add_nan_or_nonneg[OF 1(4) square_nonneg] by (simp add: Let_def)
  qed (use 1 in auto)
qed auto

lemma nan_div: "is_nan x \<Longrightarrow> is_nan (x / y)"
  by transfer simp

lemma nan_sqrt: "is_nan x \<Longrightarrow> is_nan (f64_sqrt x)"
  by (simp add: f64_sqrt_def)

lemma realized_volatility_nonneg:
  assumes "realized_volatility_bps_over_ms now hz st = Some v"
  shows "is_nan v \<or> 0 \<le> v"
proof -
  obtain q n where q: "vol_sums (recent_trades now hz st) 0 0 = (q, n)" "n \<noteq> 0" "v = f64_sqrt (q / f64_of_nat n) * f64_lit 10000"
    using assms by (auto simp: realized_volatility_bps_over_ms_def Let_def split: if_splits prod.splits)
  have qn: "is_nan q \<or> 0 \<le> q" using vol_sums_nonneg[OF q(1)] by simp
  have pos: "0 < f64_of_nat n" unfolding f64_of_nat_def by (rule lit_pos) (use q(2) in \<open>cases n; simp\<close>)
  have d: "is_nan (q / f64_of_nat n) \<or> 0 \<le> q / f64_of_nat n"
    using qn f64_div_nonneg[OF _ pos, of q] nan_div[of q "f64_of_nat n"] by fast
  have r: "is_nan (f64_sqrt (q / f64_of_nat n)) \<or> 0 \<le> f64_sqrt (q / f64_of_nat n)"
    using d nan_sqrt[of "q / f64_of_nat n"] f64_sqrt_nonneg[of "q / f64_of_nat n"] by fast
  have "0 \<le> f64_lit 10000" by (rule lit_nonneg) simp
  then show ?thesis
    unfolding q(3) using r f64_mul_nonneg[of "f64_sqrt (q / f64_of_nat n)" "f64_lit 10000"]
      nan_mul(1)[of "f64_sqrt (q / f64_of_nat n)" "f64_lit 10000"] by fast
qed

text \<open>Each crossing needs a pair of neighbouring trades.\<close>

lemma cross_count_bound:
  "cross_count p ts prev_sign n = Some m \<Longrightarrow> unat n + length ts < 2 ^ 32 \<Longrightarrow> unat m \<le> unat n + length ts - (if prev_sign = None \<and> ts \<noteq> [] then 1 else 0)"
proof (induction ts arbitrary: prev_sign n)
  case (Cons t ts)
  obtain sg where sg: "signed_price_side (to_price t) p = Some sg" using Cons.prems by (cases "signed_price_side (to_price t) p") auto
  let ?n = "if is_some_and prev_sign (\<lambda>prev. sg \<noteq> prev) then n + 1 else n"
  have rec: "cross_count p ts (Some sg) ?n = Some m" using Cons.prems(1) sg by simp
  have n1: "unat ?n \<le> unat n + (if prev_sign = None then 0 else 1)"
    using Cons.prems(2) by (cases prev_sign) (auto simp: unat_word_ariths)
  have "unat m \<le> unat ?n + length ts" using Cons.IH[OF rec] n1 Cons.prems(2) by (auto split: if_splits)
  then show ?case using n1 by (auto split: if_splits)
qed simp

lemma open_cross_bound:
  assumes "open_cross_count_over_ms now hz p st = Some m" "length (ss_binance_trades st) < 2 ^ 32"
  shows "unat m \<le> length (ss_binance_trades st) - 1"
proof -
  let ?r = "recent_trades now hz st"
  have len: "length ?r \<le> length (ss_binance_trades st)" by (simp add: recent_trades_def)
  have "cross_count p ?r None 0 = Some m" using assms(1) by (simp add: open_cross_count_over_ms_def split: if_splits)
  from cross_count_bound[OF this] show ?thesis using len assms(2) by (cases ?r) auto
qed

lemma fold_min_le:
  "\<forall>d \<in> set ds. \<not> is_nan d \<Longrightarrow> \<not> is_nan m \<Longrightarrow>
     \<not> is_nan (fold (\<lambda>d m. f64_min m d) ds m) \<and> fold (\<lambda>d m. f64_min m d) ds m \<le> m \<and> (\<forall>d \<in> set ds. fold (\<lambda>d m. f64_min m d) ds m \<le> d)"
proof (induction ds arbitrary: m)
  case (Cons d ds)
  then have "\<not> is_nan (f64_min m d)" "f64_min m d \<le> m" "f64_min m d \<le> d" by (simp_all add: f64_min_nan f64_min_le)
  with Cons show ?case by (auto intro: f64_le_trans)
qed simp

lemma fold_max_ge:
  "\<forall>d \<in> set ds. \<not> is_nan d \<Longrightarrow> \<not> is_nan m \<Longrightarrow>
     \<not> is_nan (fold (\<lambda>d m. f64_max m d) ds m) \<and> m \<le> fold (\<lambda>d m. f64_max m d) ds m \<and> (\<forall>d \<in> set ds. d \<le> fold (\<lambda>d m. f64_max m d) ds m)"
proof (induction ds arbitrary: m)
  case (Cons d ds)
  then have "\<not> is_nan (f64_max m d)" "m \<le> f64_max m d" "d \<le> f64_max m d" by (simp_all add: f64_max_nan f64_max_ge)
  with Cons show ?case by (auto intro: f64_le_trans)
qed simp

lemma distance_range_covers:
  assumes "signed_distance_range_bps_over_ms now hz p st = Some (lo, hi)" "t \<in> set (recent_trades now hz st)"
    and "\<forall>t \<in> set (recent_trades now hz st). \<not> is_nan (signed_distance_bps p t)"
  shows "lo \<le> signed_distance_bps p t \<and> signed_distance_bps p t \<le> hi"
  using assms fold_min_le[of "map (signed_distance_bps p) (recent_trades now hz st)" f64_infinity]
    fold_max_ge[of "map (signed_distance_bps p) (recent_trades now hz st)" "- f64_infinity"]
  by (auto simp: signed_distance_range_bps_over_ms_def Let_def split: if_splits)

lemma penalty_nonneg: "1 / 100 \<le> q \<Longrightarrow> 0 \<le> f64_of_u64 n / f64_lit q" if "q \<le> 1000000"
proof -
  assume q: "1 / 100 \<le> q"
  have "is_finite (f64_lit q)" using lit_small[of q] q that by simp
  then show ?thesis
    using f64_div_nonneg[OF f64_of_u64_nonneg lit_pos[OF q]] div_not_nan[OF nonneg_not_nan[OF f64_of_u64_nonneg] _ lit_pos[OF q]] by blast
qed

lemma estimate_slippage_nonneg: "0 \<le> estimate_slippage book latency age"
  unfolding estimate_slippage_def Let_def by (intro f64_add_nonneg f64_max_0_nonneg penalty_nonneg) simp_all

lemma expected_costs_nonneg:
  assumes "tc = compute_expected_trade_costs parse w now age c st"
  shows "is_none_or (tc_up_slippage tc) (\<lambda>x. 0 \<le> x)" "is_none_or (tc_down_slippage tc) (\<lambda>x. 0 \<le> x)"
  using estimate_slippage_nonneg unfolding assms
  by (cases "book_up (ss_book_state st)"; simp add: compute_expected_trade_costs_def Let_def)
    (cases "book_down (ss_book_state st)"; simp add: compute_expected_trade_costs_def Let_def estimate_slippage_nonneg)

subsection \<open>The computed features\<close>

definition unit_range :: "f64 option \<Rightarrow> bool" where
  "unit_range v \<longleftrightarrow> is_none_or v (\<lambda>x. is_nan x \<or> - 1 \<le> x \<and> x \<le> 1)"

definition not_below_zero :: "f64 option \<Rightarrow> bool" where
  "not_below_zero v \<longleftrightarrow> is_none_or v (\<lambda>x. is_nan x \<or> 0 \<le> x)"

lemma is_none_orI: "(\<And>x. v = Some x \<Longrightarrow> P x) \<Longrightarrow> is_none_or v P"
  by (cases v) simp_all

lemma prune_book [simp]: "ss_binance_book (ss_prune now st) = ss_binance_book st"
  by (simp add: ss_prune_def)

lemma prune_trades_length: "length (ss_binance_trades (ss_prune now st)) \<le> length (ss_binance_trades st)"
  by (simp add: ss_prune_def length_dropWhile_le)

lemma features_in_range:
  assumes "is_none_or (ss_binance_book st) (\<lambda>b. 0 \<le> bb_bid_size b \<and> 0 \<le> bb_ask_size b)"
    and "length (ss_binance_trades st) < 2 ^ 32"
    and "compute_features parse window open_price momentum now us c st = (ft, st')"
  shows "unit_range (ft_binance_signed_trade_imbalance ft)" "unit_range (ft_binance_book_imbalance ft)"
    "\<forall>v \<in> {ft_realized_vol_5s_bps ft, ft_realized_vol_15s_bps ft, ft_realized_vol_30s_bps ft}. not_below_zero v"
    "is_none_or (ft_expected_up_slippage ft) (\<lambda>x. 0 \<le> x)" "is_none_or (ft_expected_down_slippage ft) (\<lambda>x. 0 \<le> x)"
    "\<forall>n \<in> {ft_open_crosses_10s ft, ft_open_crosses_30s ft}. is_none_or n (\<lambda>n. unat n \<le> length (ss_binance_trades st) - 1)"
proof -
  let ?st = "ss_prune now st"
  have len: "length (ss_binance_trades ?st) \<le> length (ss_binance_trades st)" by (rule prune_trades_length)
  note ft = assms(3)[unfolded compute_features_def Let_def, symmetric]
  have vol: "not_below_zero (realized_volatility_bps_over_ms now hz ?st)" for hz
    unfolding not_below_zero_def by (rule is_none_orI) (rule realized_volatility_nonneg)
  have cross: "is_none_or (open_cross_count_over_ms now hz p ?st) (\<lambda>n. unat n \<le> length (ss_binance_trades st) - 1)" for hz p
    using open_cross_bound[of now hz p ?st] assms(2) len by (fastforce intro: is_none_orI)
  show "unit_range (ft_binance_signed_trade_imbalance ft)"
    using trade_imbalance_range[of now 1000 ?st] ft by (auto simp: unit_range_def split: prod.splits intro: is_none_orI)
  show "unit_range (ft_binance_book_imbalance ft)"
    using book_imbalance_range[of ?st] ft assms(1)
    by (cases "ss_binance_book st") (auto simp: unit_range_def book_imbalance_def split: prod.splits intro: is_none_orI)
  show "\<forall>v \<in> {ft_realized_vol_5s_bps ft, ft_realized_vol_15s_bps ft, ft_realized_vol_30s_bps ft}. not_below_zero v"
    using ft vol by (auto simp: compute_realized_volatility_def split: prod.splits)
  show "is_none_or (ft_expected_up_slippage ft) (\<lambda>x. 0 \<le> x)" "is_none_or (ft_expected_down_slippage ft) (\<lambda>x. 0 \<le> x)"
    using ft expected_costs_nonneg[OF refl] by (auto split: prod.splits)
  show "\<forall>n \<in> {ft_open_crosses_10s ft, ft_open_crosses_30s ft}. is_none_or n (\<lambda>n. unat n \<le> length (ss_binance_trades st) - 1)"
    using ft cross by (auto simp: compute_open_cross_counts_def split: prod.splits option.splits)
qed

end
