(* ===== verification/RollingMomentum.thy ===== *)
theory RollingMomentum
  imports History
begin

section \<open>Momentum calculator\<close>

text \<open>
  \<^verbatim>\<open>src/bots/paint/src/backtest/momentum.rs\<close>: the rolling window of prices and the relative change from its oldest to
  its newest price. The window is a rolling history with one observation per push.
\<close>

record price_point =
  pp_price :: f64
  pp_timestamp :: u64

record momentum_calculator =
  mc_window :: "price_point list"
  mc_window_ms :: u64

definition mc_new :: "u64 \<Rightarrow> momentum_calculator" where
  "mc_new window_ms = \<lparr>mc_window = [], mc_window_ms = window_ms\<rparr>"

definition mc_push :: "f64 \<Rightarrow> u64 \<Rightarrow> momentum_calculator \<Rightarrow> momentum_calculator" where
  "mc_push price timestamp m =
     m\<lparr>mc_window := dropWhile (\<lambda>p. pp_timestamp p < saturating_sub timestamp (mc_window_ms m))
         (mc_window m @ [\<lparr>pp_price = price, pp_timestamp = timestamp\<rparr>])\<rparr>"

definition mc_get :: "momentum_calculator \<Rightarrow> f64" where
  "mc_get m = (if length (mc_window m) < 2 then 0
     else let oldest = mc_window m ! 0 in
       if pp_price oldest \<le> 0 then 0
       else let latest = mc_window m ! (length (mc_window m) - 1) in
         (pp_price latest - pp_price oldest) / pp_price oldest)"

definition mc_reset :: "momentum_calculator \<Rightarrow> momentum_calculator" where
  "mc_reset m = m\<lparr>mc_window := []\<rparr>"

text \<open>The pushes of a sequence of prices with their times.\<close>

definition mc_feed :: "f64 \<times> u64 \<Rightarrow> momentum_calculator \<Rightarrow> momentum_calculator" where
  "mc_feed e = mc_push (fst e) (snd e)"

definition point :: "f64 \<times> u64 \<Rightarrow> price_point" where
  "point e = \<lparr>pp_price = fst e, pp_timestamp = snd e\<rparr>"

interpretation momentum_window: rolling_history mc_feed mc_window pp_timestamp "\<lambda>e m. [point e]"
  "\<lambda>e m. saturating_sub (snd e) (mc_window_ms m)" snd
  by unfold_locales (auto simp: mc_push_def mc_feed_def point_def saturating_sub_le)

lemma pushed_points: "pushed (\<lambda>e m. [point e]) mc_feed es m = map point es"
  by (induction es arbitrary: m) auto

text \<open>On prices in time order the window holds exactly the prices at most the window length older than the last one.\<close>

lemma momentum_window_exact:
  assumes "sorted (map snd (es @ [e]))"
  shows "mc_window (fold mc_feed (es @ [e]) (mc_new w)) = map point (filter (\<lambda>x. saturating_sub (snd e) w \<le> snd x) (es @ [e]))"
proof -
  let ?es = "es @ [e]"
  have le: "\<forall>x \<in> set ?es. snd x \<le> snd e" using assms by (auto simp: sorted_append)
  have "saturating_sub (snd x) w \<le> saturating_sub (snd e) w" if "x \<in> set ?es" for x
  proof -
    have "unat (snd x) \<le> unat (snd e)" using le that by (auto simp: word_le_nat_alt)
    then show ?thesis by (simp add: word_le_nat_alt unat_saturating_sub)
  qed
  then have cut: "(\<forall>x \<in> set ?es. saturating_sub (snd x) w \<le> t) \<longleftrightarrow> saturating_sub (snd e) w \<le> t" for t
    by (auto intro: order_trans)
  have init: "mc_window (mc_new w) = []" "mc_window_ms (mc_new w) = w" by (simp_all add: mc_new_def)
  have "mc_window (fold mc_feed ?es (mc_new w)) =
      filter (\<lambda>i. \<forall>x \<in> set ?es. saturating_sub (snd x) w \<le> pp_timestamp i) (map point ?es)"
    using momentum_window.items_run[OF init(1) assms] unfolding pushed_points init(2) by blast
  then show ?thesis unfolding cut filter_map by (simp add: comp_def point_def)
qed

lemma mc_get_points:
  assumes "mc_window m = map point kept" "kept \<noteq> []"
  shows "mc_get m = (if length kept < 2 \<or> fst (hd kept) \<le> 0 then 0 else (fst (last kept) - fst (hd kept)) / fst (hd kept))"
  using assms by (simp add: mc_get_def hd_conv_nth last_conv_nth point_def)

lemma momentum_value:
  assumes "sorted (map snd (es @ [e]))"
  shows "mc_get (fold mc_feed (es @ [e]) (mc_new w)) =
    (let kept = filter (\<lambda>x. saturating_sub (snd e) w \<le> snd x) (es @ [e])
     in if length kept < 2 \<or> fst (hd kept) \<le> 0 then 0 else (fst e - fst (hd kept)) / fst (hd kept))"
proof -
  let ?kept = "filter (\<lambda>x. saturating_sub (snd e) w \<le> snd x) (es @ [e])"
  have kept: "?kept \<noteq> []" "last ?kept = e" by (simp_all add: saturating_sub_le)
  show ?thesis using mc_get_points[OF momentum_window_exact[OF assms, of w] kept(1)] unfolding kept(2) Let_def .
qed

end
