(* ===== verification/FloatBits.thy ===== *)
theory FloatBits
  imports Prelude
begin

section \<open>Bytes and bit patterns\<close>

text \<open>
  The conversions of the standard library that a binary format uses: integers to little-endian bytes
  (\<^verbatim>\<open>to_le_bytes\<close>) and back, and binary64 to its bit pattern (\<^verbatim>\<open>f64::to_bits\<close>) and back. The pattern of a NaN is the
  canonical quiet one, since the model keeps one NaN; every other value has the pattern of the standard.
\<close>

type_synonym u8 = "8 word"

subsection \<open>Little-endian bytes\<close>

fun le_bytes :: "nat \<Rightarrow> nat \<Rightarrow> u8 list" where
  "le_bytes 0 n = []"
| "le_bytes (Suc k) n = of_nat (n mod 256) # le_bytes k (n div 256)"

lemma unat_u8_less: "unat (b :: u8) < 256"
  by (rule order_less_le_trans[OF unsigned_less]) simp

fun of_le_bytes :: "u8 list \<Rightarrow> nat" where
  "of_le_bytes [] = 0"
| "of_le_bytes (b # bs) = unat b + 256 * of_le_bytes bs"

lemma length_le_bytes [simp]: "length (le_bytes k n) = k"
  by (induction k arbitrary: n) simp_all

lemma of_le_bytes_le_bytes: "of_le_bytes (le_bytes k n) = n mod 256 ^ k"
proof (induction k arbitrary: n)
  case (Suc k)
  have "n mod (256 * 256 ^ k) = 256 * (n div 256 mod 256 ^ k) + n mod 256" by (rule mod_mult2_eq)
  with Suc show ?case by (simp add: unat_of_nat)
qed simp

lemma of_le_bytes_less: "of_le_bytes bs < 256 ^ length bs"
proof (induction bs)
  case (Cons b bs)
  have "unat b < 256" by (rule unat_u8_less)
  with Cons show ?case by simp
qed simp

lemma le_bytes_of_le_bytes: "le_bytes (length bs) (of_le_bytes bs) = bs"
proof (induction bs)
  case (Cons b bs)
  have "unat b < 256" by (rule unat_u8_less)
  with Cons show ?case by simp
qed simp

definition u32_to_le :: "u32 \<Rightarrow> u8 list" where "u32_to_le n = le_bytes 4 (unat n)"
definition u64_to_le :: "u64 \<Rightarrow> u8 list" where "u64_to_le n = le_bytes 8 (unat n)"
definition u32_of_le :: "u8 list \<Rightarrow> u32" where "u32_of_le bs = of_nat (of_le_bytes bs)"
definition u64_of_le :: "u8 list \<Rightarrow> u64" where "u64_of_le bs = of_nat (of_le_bytes bs)"

lemma le_word_lengths [simp]: "length (u32_to_le n) = 4" "length (u64_to_le m) = 8"
  by (simp_all add: u32_to_le_def u64_to_le_def)

lemma u32_of_to_le [simp]: "u32_of_le (u32_to_le n) = n"
  using unat_u32_less[of n] by (simp add: u32_of_le_def u32_to_le_def of_le_bytes_le_bytes)

lemma u64_of_to_le [simp]: "u64_of_le (u64_to_le n) = n"
  using unat_u64_less[of n] by (simp add: u64_of_le_def u64_to_le_def of_le_bytes_le_bytes)

subsection \<open>The bit pattern of binary64\<close>

text \<open>
  A finite value is \<open>m * 2 ^ u\<close> with \<open>u = uexp\<close> its unit in the last place. The biased exponent and the fraction are
  the two parts of \<open>(u + 1074) * 2 ^ 52 + m\<close>: a normal value carries its leading bit into the exponent field.
\<close>

definition mag_bits :: "rat \<Rightarrow> nat" where
  "mag_bits q = (if q = 0 then 0 else nat ((uexp q + 1074) * 2 ^ 52 + \<lfloor>\<bar>q\<bar> / pow2 (uexp q)\<rfloor>))"

fun raw_bits :: "fraw \<Rightarrow> nat" where
  "raw_bits RNaN = 0x7FF8000000000000"
| "raw_bits (RInf s) = (if s then 2 ^ 63 else 0) + 0x7FF0000000000000"
| "raw_bits (RFin s q) = (if s then 2 ^ 63 else 0) + mag_bits q"

definition bits_value :: "nat \<Rightarrow> nat \<Rightarrow> rat" where
  "bits_value e f = (if e = 0 then of_nat f * pow2 (- 1074) else of_nat (2 ^ 52 + f) * pow2 (int e - 1075))"

definition raw_of_bits :: "nat \<Rightarrow> fraw" where
  "raw_of_bits n =
     (let s = (n div 2 ^ 63 = 1); e = n mod 2 ^ 63 div 2 ^ 52; f = n mod 2 ^ 52
      in if e = 2047 then (if f = 0 then RInf s else RNaN)
         else raw_mk s (if s then - bits_value e f else bits_value e f))"

lemma wf_raw_of_bits: "wf_raw (raw_of_bits n)"
  by (simp add: raw_of_bits_def Let_def)

lift_definition bit_pattern :: "f64 \<Rightarrow> nat" is raw_bits .
lift_definition of_bit_pattern :: "nat \<Rightarrow> f64" is raw_of_bits by (rule wf_raw_of_bits)

definition f64_to_bits :: "f64 \<Rightarrow> u64" where "f64_to_bits x = of_nat (bit_pattern x)"
definition f64_from_bits :: "u64 \<Rightarrow> f64" where "f64_from_bits n = of_bit_pattern (unat n)"

lemma uexp_mantissa:
  assumes q: "q \<noteq> 0" "rnd q = q" "\<bar>q\<bar> < fmax_bound"
  obtains k :: nat where "\<bar>q\<bar> = of_nat k * pow2 (uexp q)" "k < 2 ^ 53" "uexp q = - 1074 \<or> 2 ^ 52 \<le> k" "0 < k" "uexp q \<le> 971"
proof -
  let ?u = "uexp q"
  have eq: "of_int (rne (q / pow2 ?u)) * pow2 ?u = q" using q(1,2) by (simp add: rnd_def Let_def)
  define k where "k = nat \<bar>rne (q / pow2 ?u)\<bar>"
  have k: "\<bar>q\<bar> = of_nat k * pow2 ?u"
    using arg_cong[OF eq, of abs] by (simp add: abs_mult k_def)
  have a: "0 < \<bar>q\<bar>" using q(1) by simp
  note b = ilog2_bounds[OF a]
  have up: "\<bar>q\<bar> < pow2 (?u + 53)"
    using b(2) uexp_ge(2)[of q] pow2_le_iff[of "ilog2 \<bar>q\<bar> + 1" "?u + 53"] by linarith
  have p53: "pow2 (?u + 53) = of_nat (2 ^ 53) * pow2 ?u" using pow2_add[of 53 ?u] pow2_int[of 53] by (simp add: add.commute)
  have "of_nat k * pow2 ?u < of_nat (2 ^ 53) * pow2 ?u" using up k p53 by simp
  then have "(of_nat k :: rat) < of_nat (2 ^ 53)" by (simp only: mult_less_cancel_right_pos pow2_pos)
  then have k53: "k < 2 ^ 53" by (simp only: of_nat_less_iff)
  have lo: "2 ^ 52 \<le> k" if "?u \<noteq> - 1074"
  proof -
    have "?u = ilog2 \<bar>q\<bar> - 52" using that by (simp add: uexp_def max_def split: if_splits)
    then have "pow2 (?u + 52) \<le> \<bar>q\<bar>" using b(1) by simp
    moreover have "pow2 (?u + 52) = of_nat (2 ^ 52) * pow2 ?u" using pow2_add[of 52 ?u] pow2_int[of 52] by (simp add: add.commute)
    ultimately have "of_nat (2 ^ 52) * pow2 ?u \<le> of_nat k * pow2 ?u" using k by simp
    then have "(of_nat (2 ^ 52) :: rat) \<le> of_nat k" by (simp only: mult_le_cancel_right_pos pow2_pos)
    then show ?thesis by (simp only: of_nat_le_iff)
  qed
  have "?u \<le> 971"
  proof -
    have "pow2 (ilog2 \<bar>q\<bar>) < pow2 1024" using b(1) q(3) pow2_int[of 1024] by (simp add: fmax_bound_def)
    then have "ilog2 \<bar>q\<bar> < 1024" by (simp only: pow2_less_iff)
    then show ?thesis by (simp add: uexp_def)
  qed
  moreover have "0 < k" using k a by (cases "k = 0") simp_all
  ultimately show thesis using that k k53 lo by blast
qed

lemma mag_bits_fields:
  assumes "rnd q = q" "\<bar>q\<bar> < fmax_bound"
  shows "mag_bits q < 2047 * 2 ^ 52" "bits_value (mag_bits q div 2 ^ 52) (mag_bits q mod 2 ^ 52) = \<bar>q\<bar>"
proof -
  have "mag_bits q < 2047 * 2 ^ 52 \<and> bits_value (mag_bits q div 2 ^ 52) (mag_bits q mod 2 ^ 52) = \<bar>q\<bar>"
  proof (cases "q = 0")
    case False
    then obtain k :: nat where k: "\<bar>q\<bar> = of_nat k * pow2 (uexp q)" "k < 2 ^ 53" "uexp q = - 1074 \<or> 2 ^ 52 \<le> k" "uexp q \<le> 971"
      using uexp_mantissa[OF False assms] by blast
    obtain u where u: "uexp q = int u - 1074" using uexp_ge(1)[of q] by (metis add_diff_cancel_right' diff_ge_0_iff_ge diff_minus_eq_add zero_le_imp_eq_int)
    have u2: "u \<le> 2045" using k(4) u by simp
    have "\<lfloor>\<bar>q\<bar> / pow2 (uexp q)\<rfloor> = int k" using k(1) by simp
    then have m: "mag_bits q = u * 2 ^ 52 + k" using False u by (simp add: mag_bits_def nat_add_distrib nat_mult_distrib)
    show ?thesis
    proof (cases "k < 2 ^ 52")
      case True
      then have "u = 0" using k(3) u by simp
      then show ?thesis using True m k(1) u by (simp add: bits_value_def)
    next
      case nk: False
      then obtain f where f: "k = 2 ^ 52 + f" using le_Suc_ex[of "2 ^ 52" k] by (auto simp: not_less)
      then have f2: "f < 2 ^ 52" using k(2) by simp
      have m': "mag_bits q = (u + 1) * 2 ^ 52 + f" using m f(1) by simp
      have "mag_bits q div 2 ^ 52 = u + 1" "mag_bits q mod 2 ^ 52 = f" unfolding m' using f2 by (simp_all only: mod_mult_self3 mod_less) simp
      moreover have "mag_bits q < 2047 * 2 ^ 52" using m' f2 u2 by simp
      ultimately show ?thesis using k(1) u f by (simp add: bits_value_def)
    qed
  qed (simp add: mag_bits_def bits_value_def)
  then show "mag_bits q < 2047 * 2 ^ 52" "bits_value (mag_bits q div 2 ^ 52) (mag_bits q mod 2 ^ 52) = \<bar>q\<bar>" by blast+
qed

lemma sign_split:
  fixes m :: nat
  assumes "m < 2 ^ 63"
  shows "((if s then 2 ^ 63 else 0) + m) div 2 ^ 63 = (if s then 1 else 0)" "((if s then 2 ^ 63 else 0) + m) mod 2 ^ 63 = m"
    "((if s then 2 ^ 63 else 0) + m) mod 2 ^ 52 = m mod 2 ^ 52" "(if s then 2 ^ 63 else 0) + m < 2 ^ 64"
proof -
  show "((if s then 2 ^ 63 else 0) + m) mod 2 ^ 52 = m mod 2 ^ 52"
    using mod_mult_self4[of "2 ^ 52" "2 ^ 11" m] by simp
qed (use assms in auto)

lemma raw_of_bits_raw_bits:
  assumes "wf_raw x"
  shows "raw_bits x < 2 ^ 64 \<and> raw_of_bits (raw_bits x) = x"
proof (cases x)
  case (RInf s)
  then show ?thesis by (cases s) (simp_all add: raw_of_bits_def)
next
  case (RFin s q)
  then have q: "rnd q = q" "\<bar>q\<bar> < fmax_bound" "q \<noteq> 0 \<longrightarrow> s = (q < 0)" using assms by simp_all
  note f = mag_bits_fields[OF q(1,2)]
  have m: "mag_bits q < 2 ^ 63" "mag_bits q div 2 ^ 52 < 2047" using f(1) by (simp_all add: less_mult_imp_div_less)
  have v: "(if s then - \<bar>q\<bar> else \<bar>q\<bar>) = q" using q(3) by (cases "q = 0") (auto simp: abs_if)
  have mk: "raw_mk s q = RFin s q" using q by (auto simp: raw_mk_def)
  show ?thesis using sign_split[OF m(1), of s] m(2) f(2) v mk by (cases s) (simp_all add: RFin raw_of_bits_def Let_def)
qed (simp add: raw_of_bits_def)

lemma bit_pattern: "bit_pattern x < 2 ^ 64 \<and> of_bit_pattern (bit_pattern x) = x"
  by transfer (rule raw_of_bits_raw_bits)

lemma f64_from_to_bits [simp]: "f64_from_bits (f64_to_bits x) = x"
  using bit_pattern[of x] by (simp add: f64_to_bits_def f64_from_bits_def unat_of_nat)

definition f64_to_le :: "f64 \<Rightarrow> u8 list" where "f64_to_le x = u64_to_le (f64_to_bits x)"
definition f64_of_le :: "u8 list \<Rightarrow> f64" where "f64_of_le bs = f64_from_bits (u64_of_le bs)"

lemma length_f64_to_le [simp]: "length (f64_to_le x) = 8"
  by (simp add: f64_to_le_def)

lemma f64_of_to_le [simp]: "f64_of_le (f64_to_le x) = x"
  by (simp add: f64_to_le_def f64_of_le_def)

end
