(* ===== verification/ByteReader.thy ===== *)
theory ByteReader
  imports FloatBits
begin

section \<open>Byte readers\<close>

text \<open>
  \<^verbatim>\<open>PayloadReader\<close> of \<^verbatim>\<open>src/bots/paint/src/db/clob_replay_blocks.rs\<close>: a cursor over a byte slice. A reader is a function
  of the cursor that returns an error or a value and the moved cursor. Two laws carry the proofs about the format:
  what a reader returns on the bytes a writer produced (\<open>reads\<close>), and that a success does not depend on bytes
  behind the cursor (\<open>stable\<close>).
\<close>

datatype block_error =
    EmptyBlock | LengthOverflow | UnsupportedSource string | UnsupportedEventType string | MissingField string
  | NotCollected string | CompressFailed | DecompressFailed | ChecksumMismatch string string | BadMagic
  | UnsupportedSchema u32 | OffsetOverflow | Truncated | BadUtf8 | DictionaryCode u32 | BadSideCode u8
  | BadEventTypeCode u8 | BadFidelityCode u8 | BadPresenceFlag u8 | TrailingBytes

record payload_reader =
  rd_bytes :: "u8 list"
  rd_offset :: nat

type_synonym 'a parser = "payload_reader \<Rightarrow> block_error + 'a \<times> payload_reader"

definition reader_new :: "u8 list \<Rightarrow> payload_reader" where
  "reader_new bytes = \<lparr>rd_bytes = bytes, rd_offset = 0\<rparr>"

text \<open>The \<open>?\<close> operator on readers and on results.\<close>

definition rd_pure :: "'a \<Rightarrow> 'a parser" where
  "rd_pure x r = Inr (x, r)"

definition rd_bind :: "'a parser \<Rightarrow> ('a \<Rightarrow> 'b parser) \<Rightarrow> 'b parser" where
  "rd_bind p f r = (case p r of Inl e \<Rightarrow> Inl e | Inr (x, r') \<Rightarrow> f x r')"

definition rd_lift :: "block_error + 'a \<Rightarrow> 'a parser" where
  "rd_lift res r = (case res of Inl e \<Rightarrow> Inl e | Inr x \<Rightarrow> Inr (x, r))"

definition res_bind :: "'e + 'a \<Rightarrow> ('a \<Rightarrow> 'e + 'b) \<Rightarrow> 'e + 'b" where
  "res_bind res f = (case res of Inl e \<Rightarrow> Inl e | Inr x \<Rightarrow> f x)"

lemma res_bind_simps [simp]: "res_bind (Inl e) f = Inl e" "res_bind (Inr x) f = f x"
  by (simp_all add: res_bind_def)

lemma res_bind_Inr: "res_bind res f = Inr y \<longleftrightarrow> (\<exists>x. res = Inr x \<and> f x = Inr y)"
  by (cases res) simp_all

definition read_bytes :: "nat \<Rightarrow> u8 list parser" where
  "read_bytes count r =
     (let stop = rd_offset r + count
      in if 2 ^ 64 \<le> stop then Inl OffsetOverflow
         else if length (rd_bytes r) < stop then Inl Truncated
         else Inr (take count (drop (rd_offset r) (rd_bytes r)), r\<lparr>rd_offset := stop\<rparr>))"

definition read_array :: "nat \<Rightarrow> u8 list parser" where
  "read_array n = read_bytes n"

definition read_u8 :: "u8 parser" where
  "read_u8 = rd_bind (read_bytes 1) (\<lambda>bs. rd_pure (bs ! 0))"

definition read_u32 :: "u32 parser" where
  "read_u32 = rd_bind (read_array 4) (\<lambda>bs. rd_pure (u32_of_le bs))"

definition read_u64 :: "u64 parser" where
  "read_u64 = rd_bind (read_array 8) (\<lambda>bs. rd_pure (u64_of_le bs))"

definition NONE_U32 :: u32 where "NONE_U32 = - 1"
definition NONE_U64 :: u64 where "NONE_U64 = - 1"

definition read_optional_u64 :: "u64 option parser" where
  "read_optional_u64 = rd_bind read_u64 (\<lambda>v. rd_pure (if v \<noteq> NONE_U64 then Some v else None))"

definition read_f64 :: "f64 parser" where
  "read_f64 = rd_bind (read_array 8) (\<lambda>bs. rd_pure (f64_of_le bs))"

definition read_optional_f64 :: "f64 option parser" where
  "read_optional_f64 = rd_bind read_u8 (\<lambda>flag.
     if flag = 0 then rd_pure None
     else if flag = 1 then rd_bind read_f64 (\<lambda>v. rd_pure (Some v))
     else rd_lift (Inl (BadPresenceFlag flag)))"

definition expect_magic :: "u8 list \<Rightarrow> unit parser" where
  "expect_magic expected = rd_bind (read_bytes (length expected)) (\<lambda>bs.
     if bs \<noteq> expected then rd_lift (Inl BadMagic) else rd_pure ())"

definition reader_finish :: "payload_reader \<Rightarrow> block_error + unit" where
  "reader_finish r = (if rd_offset r = length (rd_bytes r) then Inr () else Inl TrailingBytes)"

text \<open>The loop that fills a vector with a number of values.\<close>

fun read_times :: "nat \<Rightarrow> 'a parser \<Rightarrow> 'a list parser" where
  "read_times 0 p = rd_pure []"
| "read_times (Suc n) p = rd_bind p (\<lambda>x. rd_bind (read_times n p) (\<lambda>xs. rd_pure (x # xs)))"

subsection \<open>Reading what was written\<close>

definition reads :: "'a parser \<Rightarrow> u8 list \<Rightarrow> 'a \<Rightarrow> bool" where
  "reads p bs v \<longleftrightarrow> (\<forall>pre rest. length (pre @ bs @ rest) < 2 ^ 64 \<longrightarrow>
     p \<lparr>rd_bytes = pre @ bs @ rest, rd_offset = length pre\<rparr> =
       Inr (v, \<lparr>rd_bytes = pre @ bs @ rest, rd_offset = length pre + length bs\<rparr>))"

lemma reads_pure: "reads (rd_pure v) [] v"
  by (simp add: reads_def rd_pure_def)

lemma reads_bind:
  assumes "reads p bs v" "reads (f v) bs' w"
  shows "reads (rd_bind p f) (bs @ bs') w"
proof -
  have "rd_bind p f \<lparr>rd_bytes = pre @ (bs @ bs') @ rest, rd_offset = length pre\<rparr> =
      Inr (w, \<lparr>rd_bytes = pre @ (bs @ bs') @ rest, rd_offset = length pre + length (bs @ bs')\<rparr>)"
    if "length (pre @ (bs @ bs') @ rest) < 2 ^ 64" for pre rest
    using assms(1)[unfolded reads_def, rule_format, of pre "bs' @ rest"]
      assms(2)[unfolded reads_def, rule_format, of "pre @ bs" rest] that
    by (simp add: rd_bind_def add.assoc)
  then show ?thesis unfolding reads_def by blast
qed

lemma reads_last: "reads p bs v \<Longrightarrow> reads (rd_bind p (\<lambda>x. rd_pure (g x))) bs (g v)"
  using reads_bind[OF _ reads_pure] by fastforce

lemma reads_bind_end: "reads p bs v \<Longrightarrow> reads (f v) [] w \<Longrightarrow> reads (rd_bind p f) bs w"
  using reads_bind[of p bs v f "[]" w] by simp

lemma reads_lift: "res = Inr v \<Longrightarrow> reads (rd_lift res) [] v"
  by (simp add: reads_def rd_lift_def)

lemma reads_lift_bind: "res = Inr v \<Longrightarrow> reads (f v) bs w \<Longrightarrow> reads (rd_bind (rd_lift res) f) bs w"
  using reads_bind[OF reads_lift, of res v f bs w] by simp

lemma reads_bytes: "n = length bs \<Longrightarrow> reads (read_bytes n) bs bs"
  by (simp add: reads_def read_bytes_def)

lemma reads_u8: "reads read_u8 [b] b"
  unfolding read_u8_def using reads_last[OF reads_bytes, of 1 "[b]" "\<lambda>bs. bs ! 0"] by simp

lemma reads_u32: "reads read_u32 (u32_to_le n) n"
  unfolding read_u32_def read_array_def
  using reads_last[OF reads_bytes, of 4 "u32_to_le n" u32_of_le] by simp

lemma reads_u64: "reads read_u64 (u64_to_le n) n"
  unfolding read_u64_def read_array_def
  using reads_last[OF reads_bytes, of 8 "u64_to_le n" u64_of_le] by simp

lemma reads_f64: "reads read_f64 (f64_to_le x) x"
  unfolding read_f64_def read_array_def
  using reads_last[OF reads_bytes, of 8 "f64_to_le x" f64_of_le] by simp

lemma reads_magic: "reads (expect_magic m) m ()"
  unfolding expect_magic_def
  using reads_bind[OF reads_bytes[OF refl, of m], of "\<lambda>bs. if bs \<noteq> m then rd_lift (Inl BadMagic) else rd_pure ()" "[]" "()"]
  by (simp add: reads_pure)

lemma reads_run:
  assumes "reads p bs v" "length bs < 2 ^ 64"
  shows "p (reader_new bs) = Inr (v, \<lparr>rd_bytes = bs, rd_offset = length bs\<rparr>)"
  using assms(1)[unfolded reads_def, rule_format, of "[]" "[]"] assms(2) by (simp add: reader_new_def)

text \<open>
  The contract of a type that is stored in a block: a writer, its reader, the value that comes back, and the values that
  can be written. Then a sequence of such values comes back too.
\<close>

locale byte_codec =
  fixes enc :: "'a \<Rightarrow> u8 list" and dec :: "'b parser" and view :: "'a \<Rightarrow> 'b" and ok :: "'a \<Rightarrow> bool"
  assumes reads_enc: "ok x \<Longrightarrow> reads dec (enc x) (view x)"
begin

lemma reads_times: "list_all ok xs \<Longrightarrow> reads (read_times (length xs) dec) (concat (map enc xs)) (map view xs)"
proof (induction xs)
  case (Cons x xs)
  then have "reads dec (enc x) (view x)" "reads (read_times (length xs) dec) (concat (map enc xs)) (map view xs)"
    by (simp_all add: reads_enc)
  from reads_bind[where f = "\<lambda>x. rd_bind (read_times (length xs) dec) (\<lambda>xs. rd_pure (x # xs))", OF this(1) reads_last[OF this(2)]]
  show ?case by simp
qed (simp add: reads_pure)

end

subsection \<open>Successes do not look ahead\<close>

named_theorems reader_stable \<open>readers whose success does not depend on the bytes behind the cursor\<close>

definition stable :: "'a parser \<Rightarrow> bool" where
  "stable p \<longleftrightarrow> (\<forall>r v r' extra. p r = Inr (v, r') \<longrightarrow> rd_bytes r' = rd_bytes r \<and>
     p (r\<lparr>rd_bytes := rd_bytes r @ extra\<rparr>) = Inr (v, r'\<lparr>rd_bytes := rd_bytes r @ extra\<rparr>))"

lemma stableD:
  "stable p \<Longrightarrow> p r = Inr (v, r') \<Longrightarrow> rd_bytes r' = rd_bytes r \<and>
     p (r\<lparr>rd_bytes := rd_bytes r @ extra\<rparr>) = Inr (v, r'\<lparr>rd_bytes := rd_bytes r @ extra\<rparr>)"
  unfolding stable_def by blast

lemma stable_pure [reader_stable]: "stable (rd_pure v)"
  by (simp add: stable_def rd_pure_def)

lemma stable_lift [reader_stable]: "stable (rd_lift res)"
  by (simp add: stable_def rd_lift_def split: sum.splits)

lemma stable_bind [reader_stable]:
  assumes "stable p" "\<And>v. stable (f v)"
  shows "stable (rd_bind p f)"
proof -
  have "rd_bytes r' = rd_bytes r \<and> rd_bind p f (r\<lparr>rd_bytes := rd_bytes r @ extra\<rparr>) = Inr (w, r'\<lparr>rd_bytes := rd_bytes r @ extra\<rparr>)"
    if run: "rd_bind p f r = Inr (w, r')" for r w r' extra
  proof -
    obtain v r1 where 1: "p r = Inr (v, r1)" "f v r1 = Inr (w, r')"
      using run by (auto simp: rd_bind_def split: sum.splits)
    from stableD[OF assms(1) 1(1), of extra] stableD[OF assms(2) 1(2), of extra] show ?thesis by (simp add: rd_bind_def)
  qed
  then show ?thesis unfolding stable_def by blast
qed

lemma stable_if [reader_stable]: "stable p \<Longrightarrow> stable q \<Longrightarrow> stable (if c then p else q)"
  by simp

lemma stable_bytes [reader_stable]: "stable (read_bytes n)"
  by (auto simp: stable_def read_bytes_def Let_def split: if_splits)

lemma stable_times [reader_stable]: "stable p \<Longrightarrow> stable (read_times n p)"
  by (induction n) (auto intro!: reader_stable)

lemma stable_basic [reader_stable]:
  "stable read_u8" "stable read_u32" "stable read_u64" "stable read_optional_u64" "stable read_f64" "stable read_optional_f64"
  "stable (expect_magic m)"
  unfolding read_u8_def read_u32_def read_u64_def read_optional_u64_def read_f64_def read_optional_f64_def read_array_def
    expect_magic_def
  by (intro reader_stable)+

text \<open>A stable reader accepts no input that extends an accepted one, so the accepted inputs are prefix-free.\<close>

definition accepts :: "'a parser \<Rightarrow> u8 list \<Rightarrow> bool" where
  "accepts p bs \<longleftrightarrow> (\<exists>v r. p (reader_new bs) = Inr (v, r) \<and> reader_finish r = Inr ())"

lemma accepts_no_extension:
  assumes "stable p" "p (reader_new bs) = Inr (v, r)" "reader_finish r = Inr ()" "extra \<noteq> []"
  shows "\<exists>r'. p (reader_new (bs @ extra)) = Inr (v, r') \<and> reader_finish r' = Inl TrailingBytes"
  using stableD[OF assms(1,2), of extra] assms(3,4)
  by (auto simp: reader_new_def reader_finish_def split: if_splits)

lemma accepts_prefix_free: "stable p \<Longrightarrow> accepts p bs \<Longrightarrow> accepts p (bs @ extra) \<Longrightarrow> extra = []"
  using accepts_no_extension[of p bs _ _ extra] by (fastforce simp: accepts_def)

end
