(* ===== verification/ReplayBlocks.thy ===== *)
theory ReplayBlocks
  imports ByteReader Types "HOL-Library.List_Lexorder" "HOL-Library.Char_ord"
begin

section \<open>Replay blocks\<close>

text \<open>
  \<^verbatim>\<open>src/bots/paint/src/db/clob_replay_blocks.rs\<close>: the binary block format of order-book events. A block is the magic, a
  version, five dictionaries of strings and the rows; its checksum is taken before compression. A \<open>string\<close> stands for the
  UTF-8 bytes of a Rust string, so \<open>rust_string\<close> is the invariant of the type. The writers return the bytes they
  append. The compressor \<open>compress\<close>, \<open>decompress\<close> (crate \<^verbatim>\<open>zstd\<close>) and the checksum \<open>crc\<close> (crate \<^verbatim>\<open>crc32fast\<close>) are parameters.
\<close>

subsection \<open>Events\<close>

record feed_event =
  fe_id :: "int option"
  fe_received_at_ms :: u64
  fe_event_at_ms :: u64
  fe_received_at_us :: "u64 option"
  fe_event_at_us :: "u64 option"
  fe_source :: string
  fe_event_type :: string
  fe_source_topic :: "string option"
  fe_source_symbol :: "string option"
  fe_connection_id :: "string option"
  fe_sequence_key :: "string option"
  fe_market_id :: "string option"
  fe_asset_id :: "string option"
  fe_price :: "f64 option"
  fe_trade_size :: "f64 option"
  fe_signed_quantity :: "f64 option"
  fe_best_bid :: "f64 option"
  fe_best_ask :: "f64 option"
  fe_bid_size :: "f64 option"
  fe_ask_size :: "f64 option"
  fe_depth_bid_notional :: "f64 option"
  fe_depth_ask_notional :: "f64 option"
  fe_depth_imbalance :: "f64 option"
  fe_microprice :: "f64 option"
  fe_payload_json :: "string option"
  fe_details_json :: "string option"
  fe_fidelity :: ReplayFidelity

record decoded_event =
  de_received_at_ms :: u64
  de_event_at_ms :: u64
  de_received_at_us :: "u64 option"
  de_event_at_us :: "u64 option"
  de_source :: string
  de_event_type :: string
  de_source_topic :: "string option"
  de_connection_id :: "string option"
  de_sequence_key :: "string option"
  de_market_id :: "string option"
  de_asset_id :: "string option"
  de_best_bid :: f64
  de_best_ask :: f64
  de_bid_size :: f64
  de_ask_size :: f64
  de_microprice :: "f64 option"
  de_fidelity :: ReplayFidelity

record encoded_block =
  eb_min_received_at_ms :: u64
  eb_max_received_at_ms :: u64
  eb_min_received_at_us :: "u64 option"
  eb_max_received_at_us :: "u64 option"
  eb_row_count :: u32
  eb_up_rows :: u32
  eb_down_rows :: u32
  eb_schema_version :: u32
  eb_compressed_bytes :: u64
  eb_uncompressed_bytes :: u64
  eb_checksum :: string
  eb_payload :: "u8 list"

definition CLOB_REPLAY_BLOCK_SCHEMA_VERSION :: u32 where "CLOB_REPLAY_BLOCK_SCHEMA_VERSION = 1"

definition bytes_of :: "string \<Rightarrow> u8 list" where
  "bytes_of s = map (\<lambda>c. of_nat (of_char c)) s"

definition MAGIC :: "u8 list" where "MAGIC = bytes_of ''BCRB0001''"

definition is_blockable_clob_event :: "feed_event \<Rightarrow> bool" where
  "is_blockable_clob_event e \<longleftrightarrow> fe_source e \<in> {''clob_up'', ''clob_down''} \<and>
     fe_event_type e \<in> {''book'', ''price_change'', ''best_bid_ask''} \<and>
     fe_best_bid e \<noteq> None \<and> fe_best_ask e \<noteq> None \<and> fe_bid_size e \<noteq> None \<and> fe_ask_size e \<noteq> None"

subsection \<open>Strings\<close>

text \<open>Well-formed UTF-8, by the table of well-formed byte sequences of the Unicode standard.\<close>

definition utf8_tail :: "nat \<Rightarrow> bool" where
  "utf8_tail b \<longleftrightarrow> 0x80 \<le> b \<and> b \<le> 0xBF"

definition utf8_second :: "nat \<Rightarrow> nat \<Rightarrow> bool" where
  "utf8_second a b \<longleftrightarrow> (if a = 0xE0 then 0xA0 \<le> b \<and> b \<le> 0xBF else if a = 0xED then 0x80 \<le> b \<and> b \<le> 0x9F
     else if a = 0xF0 then 0x90 \<le> b \<and> b \<le> 0xBF else if a = 0xF4 then 0x80 \<le> b \<and> b \<le> 0x8F else utf8_tail b)"

fun utf8_valid :: "nat list \<Rightarrow> bool" where
  "utf8_valid [] = True"
| "utf8_valid (a # bs) =
     (if a < 0x80 then utf8_valid bs
      else if 0xC2 \<le> a \<and> a \<le> 0xDF then (case bs of b # bs' \<Rightarrow> utf8_tail b \<and> utf8_valid bs' | _ \<Rightarrow> False)
      else if 0xE0 \<le> a \<and> a \<le> 0xEF then
        (case bs of b # c # bs' \<Rightarrow> utf8_second a b \<and> utf8_tail c \<and> utf8_valid bs' | _ \<Rightarrow> False)
      else if 0xF0 \<le> a \<and> a \<le> 0xF4 then
        (case bs of b # c # d # bs' \<Rightarrow> utf8_second a b \<and> utf8_tail c \<and> utf8_tail d \<and> utf8_valid bs' | _ \<Rightarrow> False)
      else False)"

definition from_utf8 :: "u8 list \<Rightarrow> block_error + string" where
  "from_utf8 bs = (if utf8_valid (map unat bs) then Inr (map (\<lambda>b. char_of (unat b)) bs) else Inl BadUtf8)"

definition rust_string :: "string \<Rightarrow> bool" where
  "rust_string s \<longleftrightarrow> utf8_valid (map of_char s)"

text \<open>\<^verbatim>\<open>format!("{:08x}")\<close>.\<close>

definition hex_digit :: "nat \<Rightarrow> char" where
  "hex_digit n = char_of (if n < 10 then 48 + n else 87 + n)"

definition hex8 :: "u32 \<Rightarrow> string" where
  "hex8 n = map (\<lambda>i. hex_digit (unat n div 16 ^ i mod 16)) (rev [0..<8])"

subsection \<open>Codes\<close>

definition required_f64 :: "f64 option \<Rightarrow> string \<Rightarrow> block_error + f64" where
  "required_f64 v field = (case v of Some x \<Rightarrow> Inr x | None \<Rightarrow> Inl (MissingField field))"

definition side_code :: "string \<Rightarrow> block_error + u8" where
  "side_code s = (if s = ''clob_up'' then Inr 1 else if s = ''clob_down'' then Inr 2 else Inl (UnsupportedSource s))"

definition source_from_side_code :: "u8 \<Rightarrow> block_error + string" where
  "source_from_side_code n = (if n = 1 then Inr ''clob_up'' else if n = 2 then Inr ''clob_down'' else Inl (BadSideCode n))"

definition event_type_code :: "string \<Rightarrow> block_error + u8" where
  "event_type_code s = (if s = ''book'' then Inr 1 else if s = ''price_change'' then Inr 2
     else if s = ''best_bid_ask'' then Inr 3 else Inl (UnsupportedEventType s))"

definition event_type_from_code :: "u8 \<Rightarrow> block_error + string" where
  "event_type_from_code n = (if n = 1 then Inr ''book'' else if n = 2 then Inr ''price_change''
     else if n = 3 then Inr ''best_bid_ask'' else Inl (BadEventTypeCode n))"

fun fidelity_code :: "ReplayFidelity \<Rightarrow> u8" where
  "fidelity_code RawEvent = 1"
| "fidelity_code LegacySnapshot = 2"

definition fidelity_from_code :: "u8 \<Rightarrow> block_error + ReplayFidelity" where
  "fidelity_from_code n = (if n = 1 then Inr RawEvent else if n = 2 then Inr LegacySnapshot else Inl (BadFidelityCode n))"

definition u32_len :: "nat \<Rightarrow> block_error + u32" where
  "u32_len n = (if n < 2 ^ 32 then Inr (of_nat n) else Inl LengthOverflow)"

fun min_option :: "u64 option \<Rightarrow> u64 option \<Rightarrow> u64 option" where
  "min_option (Some a) (Some b) = Some (min a b)"
| "min_option (Some a) None = Some a"
| "min_option None y = y"

fun max_option :: "u64 option \<Rightarrow> u64 option \<Rightarrow> u64 option" where
  "max_option (Some a) (Some b) = Some (max a b)"
| "max_option (Some a) None = Some a"
| "max_option None y = y"

subsection \<open>Dictionaries\<close>

record dictionaries =
  di_source_topics :: "string list"
  di_connection_ids :: "string list"
  di_sequence_keys :: "string list"
  di_market_ids :: "string list"
  di_asset_ids :: "string list"

text \<open>A \<^verbatim>\<open>BTreeSet\<close> of strings, listed: the order of strings is the lexicographic order of their bytes.\<close>

definition collect_dictionary :: "string list \<Rightarrow> string list" where
  "collect_dictionary values = sort (remdups values)"

definition dictionaries_from_events :: "feed_event list \<Rightarrow> dictionaries" where
  "dictionaries_from_events es = \<lparr>
     di_source_topics = collect_dictionary (List.map_filter fe_source_topic es),
     di_connection_ids = collect_dictionary (List.map_filter fe_connection_id es),
     di_sequence_keys = collect_dictionary (List.map_filter fe_sequence_key es),
     di_market_ids = collect_dictionary (List.map_filter fe_market_id es),
     di_asset_ids = collect_dictionary (List.map_filter fe_asset_id es)\<rparr>"

text \<open>The lookup map: an index that does not fit in \<open>u32\<close> has no code, and of equal strings the last one counts.\<close>

definition dictionary_lookup :: "string list \<Rightarrow> string \<rightharpoonup> u32" where
  "dictionary_lookup dict = map_of (rev (map (\<lambda>i. (dict ! i, of_nat i)) (filter (\<lambda>i. i < 2 ^ 32) [0..<length dict])))"

definition write_dictionary_code :: "string list \<Rightarrow> string option \<Rightarrow> block_error + u8 list" where
  "write_dictionary_code dict v = (case v of None \<Rightarrow> Inr (u32_to_le NONE_U32)
     | Some s \<Rightarrow> (case dictionary_lookup dict s of None \<Rightarrow> Inl (NotCollected s) | Some code \<Rightarrow> Inr (u32_to_le code)))"

fun write_strings :: "string list \<Rightarrow> block_error + u8 list" where
  "write_strings [] = Inr []"
| "write_strings (v # vs) = res_bind (u32_len (length (bytes_of v))) (\<lambda>n.
     res_bind (write_strings vs) (\<lambda>bs. Inr (u32_to_le n @ bytes_of v @ bs)))"

definition write_dictionary :: "string list \<Rightarrow> block_error + u8 list" where
  "write_dictionary vs = res_bind (u32_len (length vs)) (\<lambda>n. res_bind (write_strings vs) (\<lambda>bs. Inr (u32_to_le n @ bs)))"

definition write_dictionaries :: "dictionaries \<Rightarrow> block_error + u8 list" where
  "write_dictionaries d =
     res_bind (write_dictionary (di_source_topics d)) (\<lambda>b1. res_bind (write_dictionary (di_connection_ids d)) (\<lambda>b2.
     res_bind (write_dictionary (di_sequence_keys d)) (\<lambda>b3. res_bind (write_dictionary (di_market_ids d)) (\<lambda>b4.
     res_bind (write_dictionary (di_asset_ids d)) (\<lambda>b5. Inr (b1 @ b2 @ b3 @ b4 @ b5))))))"

definition read_string :: "string parser" where
  "read_string = rd_bind read_u32 (\<lambda>n. rd_bind (read_bytes (unat n)) (\<lambda>bs. rd_lift (from_utf8 bs)))"

definition read_dictionary :: "string list parser" where
  "read_dictionary = rd_bind read_u32 (\<lambda>count. read_times (unat count) read_string)"

definition dictionaries_read_from :: "dictionaries parser" where
  "dictionaries_read_from = rd_bind read_dictionary (\<lambda>t. rd_bind read_dictionary (\<lambda>c. rd_bind read_dictionary (\<lambda>s.
     rd_bind read_dictionary (\<lambda>m. rd_bind read_dictionary (\<lambda>a. rd_pure \<lparr>di_source_topics = t, di_connection_ids = c,
       di_sequence_keys = s, di_market_ids = m, di_asset_ids = a\<rparr>)))))"

definition read_dictionary_value :: "string list \<Rightarrow> string option parser" where
  "read_dictionary_value dict = rd_bind read_u32 (\<lambda>code.
     if code = NONE_U32 then rd_pure None
     else if unat code < length dict then rd_pure (Some (dict ! unat code))
     else rd_lift (Inl (DictionaryCode code)))"

subsection \<open>Rows\<close>

definition write_optional_u64 :: "u64 option \<Rightarrow> u8 list" where
  "write_optional_u64 v = u64_to_le (unwrap_or v NONE_U64)"

definition write_optional_f64 :: "f64 option \<Rightarrow> u8 list" where
  "write_optional_f64 v = (case v of Some x \<Rightarrow> 1 # f64_to_le x | None \<Rightarrow> [0])"

definition write_event :: "feed_event \<Rightarrow> dictionaries \<Rightarrow> u8 \<Rightarrow> block_error + u8 list" where
  "write_event e d side =
     res_bind (required_f64 (fe_best_bid e) ''best_bid'') (\<lambda>best_bid.
     res_bind (required_f64 (fe_best_ask e) ''best_ask'') (\<lambda>best_ask.
     res_bind (required_f64 (fe_bid_size e) ''bid_size'') (\<lambda>bid_size.
     res_bind (required_f64 (fe_ask_size e) ''ask_size'') (\<lambda>ask_size.
     res_bind (event_type_code (fe_event_type e)) (\<lambda>type_code.
     res_bind (write_dictionary_code (di_source_topics d) (fe_source_topic e)) (\<lambda>b1.
     res_bind (write_dictionary_code (di_connection_ids d) (fe_connection_id e)) (\<lambda>b2.
     res_bind (write_dictionary_code (di_sequence_keys d) (fe_sequence_key e)) (\<lambda>b3.
     res_bind (write_dictionary_code (di_market_ids d) (fe_market_id e)) (\<lambda>b4.
     res_bind (write_dictionary_code (di_asset_ids d) (fe_asset_id e)) (\<lambda>b5.
     Inr (u64_to_le (fe_received_at_ms e) @ u64_to_le (fe_event_at_ms e) @
       write_optional_u64 (fe_received_at_us e) @ write_optional_u64 (fe_event_at_us e) @ [side] @ [type_code] @
       b1 @ b2 @ b3 @ b4 @ b5 @ f64_to_le best_bid @ f64_to_le best_ask @ f64_to_le bid_size @ f64_to_le ask_size @
       write_optional_f64 (fe_microprice e) @ [fidelity_code (fe_fidelity e)])))))))))))"

definition read_event :: "dictionaries \<Rightarrow> decoded_event parser" where
  "read_event d =
     rd_bind read_u64 (\<lambda>receive_ms. rd_bind read_u64 (\<lambda>event_ms.
     rd_bind read_optional_u64 (\<lambda>receive_us. rd_bind read_optional_u64 (\<lambda>event_us.
     rd_bind read_u8 (\<lambda>side. rd_bind (rd_lift (source_from_side_code side)) (\<lambda>source.
     rd_bind read_u8 (\<lambda>type_code. rd_bind (rd_lift (event_type_from_code type_code)) (\<lambda>event_type.
     rd_bind (read_dictionary_value (di_source_topics d)) (\<lambda>source_topic.
     rd_bind (read_dictionary_value (di_connection_ids d)) (\<lambda>connection_id.
     rd_bind (read_dictionary_value (di_sequence_keys d)) (\<lambda>sequence_key.
     rd_bind (read_dictionary_value (di_market_ids d)) (\<lambda>market_id.
     rd_bind (read_dictionary_value (di_asset_ids d)) (\<lambda>asset_id.
     rd_bind read_f64 (\<lambda>best_bid. rd_bind read_f64 (\<lambda>best_ask. rd_bind read_f64 (\<lambda>bid_size. rd_bind read_f64 (\<lambda>ask_size.
     rd_bind read_optional_f64 (\<lambda>microprice.
     rd_bind read_u8 (\<lambda>fid. rd_bind (rd_lift (fidelity_from_code fid)) (\<lambda>fidelity.
     rd_pure \<lparr>de_received_at_ms = receive_ms, de_event_at_ms = event_ms, de_received_at_us = receive_us,
       de_event_at_us = event_us, de_source = source, de_event_type = event_type, de_source_topic = source_topic,
       de_connection_id = connection_id, de_sequence_key = sequence_key, de_market_id = market_id, de_asset_id = asset_id,
       de_best_bid = best_bid, de_best_ask = best_ask, de_bid_size = bid_size, de_ask_size = ask_size,
       de_microprice = microprice, de_fidelity = fidelity\<rparr>))))))))))))))))))))"

subsection \<open>Blocks\<close>

text \<open>The state of the encoder's loop: the counters, the extremes and the bytes of the rows.\<close>

record block_summary =
  bs_up_rows :: u32
  bs_down_rows :: u32
  bs_millis_floor :: u64
  bs_millis_ceiling :: u64
  bs_micro_floor :: "u64 option"
  bs_micro_ceiling :: "u64 option"
  bs_rows :: "u8 list"

definition summary_start :: block_summary where
  "summary_start = \<lparr>bs_up_rows = 0, bs_down_rows = 0, bs_millis_floor = - 1, bs_millis_ceiling = 0, bs_micro_floor = None,
     bs_micro_ceiling = None, bs_rows = []\<rparr>"

definition saturating_inc :: "u32 \<Rightarrow> u32" where
  "saturating_inc n = (if n = - 1 then n else n + 1)"

definition encode_row :: "dictionaries \<Rightarrow> feed_event \<Rightarrow> block_summary \<Rightarrow> block_error + block_summary" where
  "encode_row d e b =
     res_bind (side_code (fe_source e)) (\<lambda>side.
       let b1 = (if side = 1 then b\<lparr>bs_up_rows := saturating_inc (bs_up_rows b)\<rparr>
                 else b\<lparr>bs_down_rows := saturating_inc (bs_down_rows b)\<rparr>);
           b2 = b1\<lparr>bs_millis_floor := min (bs_millis_floor b) (fe_received_at_ms e),
                   bs_millis_ceiling := max (bs_millis_ceiling b) (fe_received_at_ms e),
                   bs_micro_floor := min_option (bs_micro_floor b) (fe_received_at_us e),
                   bs_micro_ceiling := max_option (bs_micro_ceiling b) (fe_received_at_us e)\<rparr>
       in res_bind (write_event e d side) (\<lambda>bs. Inr (b2\<lparr>bs_rows := bs_rows b @ bs\<rparr>)))"

fun encode_rows :: "dictionaries \<Rightarrow> feed_event list \<Rightarrow> block_summary \<Rightarrow> block_error + block_summary" where
  "encode_rows d [] b = Inr b"
| "encode_rows d (e # es) b = res_bind (encode_row d e b) (encode_rows d es)"

definition encode_events ::
  "(int \<Rightarrow> u8 list \<Rightarrow> u8 list option) \<Rightarrow> (u8 list \<Rightarrow> u32) \<Rightarrow> feed_event list \<Rightarrow> int \<Rightarrow> block_error + encoded_block" where
  "encode_events compress crc es zstd_level =
     (if es = [] then Inl EmptyBlock
      else let d = dictionaries_from_events es
        in res_bind (write_dictionaries d) (\<lambda>dict_bytes.
           res_bind (u32_len (length es)) (\<lambda>rows.
           res_bind (encode_rows d es summary_start) (\<lambda>b.
             let payload = MAGIC @ u32_to_le CLOB_REPLAY_BLOCK_SCHEMA_VERSION @ dict_bytes @ u32_to_le rows @ bs_rows b
             in case compress zstd_level payload of None \<Rightarrow> Inl CompressFailed
                | Some compressed \<Rightarrow> Inr \<lparr>eb_min_received_at_ms = bs_millis_floor b, eb_max_received_at_ms = bs_millis_ceiling b,
                    eb_min_received_at_us = bs_micro_floor b, eb_max_received_at_us = bs_micro_ceiling b, eb_row_count = rows,
                    eb_up_rows = bs_up_rows b, eb_down_rows = bs_down_rows b,
                    eb_schema_version = CLOB_REPLAY_BLOCK_SCHEMA_VERSION, eb_compressed_bytes = of_nat (length compressed),
                    eb_uncompressed_bytes = of_nat (length payload), eb_checksum = hex8 (crc payload),
                    eb_payload = compressed\<rparr>))))"

definition read_payload :: "decoded_event list parser" where
  "read_payload = rd_bind (expect_magic MAGIC) (\<lambda>_. rd_bind read_u32 (\<lambda>version.
     if version \<noteq> CLOB_REPLAY_BLOCK_SCHEMA_VERSION then rd_lift (Inl (UnsupportedSchema version))
     else rd_bind dictionaries_read_from (\<lambda>d. rd_bind read_u32 (\<lambda>row_count. read_times (unat row_count) (read_event d)))))"

definition decode_bytes :: "u8 list \<Rightarrow> block_error + decoded_event list" where
  "decode_bytes payload = res_bind (read_payload (reader_new payload)) (\<lambda>(rows, r). res_bind (reader_finish r) (\<lambda>_. Inr rows))"

definition decode_payload ::
  "(u8 list \<Rightarrow> u8 list option) \<Rightarrow> (u8 list \<Rightarrow> u32) \<Rightarrow> u8 list \<Rightarrow> string \<Rightarrow> block_error + decoded_event list" where
  "decode_payload decompress crc compressed_payload expected_checksum =
     (case decompress compressed_payload of None \<Rightarrow> Inl DecompressFailed
      | Some payload \<Rightarrow>
          let actual_checksum = hex8 (crc payload)
          in if actual_checksum \<noteq> expected_checksum then Inl (ChecksumMismatch expected_checksum actual_checksum)
             else decode_bytes payload)"

end
