(* ===== verification/FeedStore.thy ===== *)
theory FeedStore
  imports ReplayBlocks
begin

section \<open>Storing feed events\<close>

text \<open>
  The tables a run records its feeds in, and what writes them: \<^verbatim>\<open>log_feed_event\<close> and the batch writers of
  \<^verbatim>\<open>src/bots/paint/src/db/database.rs\<close>, and the copies of \<^verbatim>\<open>db/backtest_prepare.rs\<close> that derive an indexed database for
  backtests. A table is the list of its rows in row-id order and \<open>None\<close> when it does not exist. The statements are taken
  to run; an insert fails for a value SQLite cannot bind or a NULL in a required column, and a failed transaction leaves
  all tables as they were. A NaN is bound as NULL.
\<close>

record feed_row =
  fr_id :: i64
  fr_received_at_ms :: i64
  fr_event_at_ms :: i64
  fr_received_at_us :: "i64 option"
  fr_event_at_us :: "i64 option"
  fr_source :: string
  fr_event_type :: string
  fr_source_topic :: "string option"
  fr_source_symbol :: "string option"
  fr_connection_id :: "string option"
  fr_sequence_key :: "string option"
  fr_market_id :: "string option"
  fr_asset_id :: "string option"
  fr_price :: "f64 option"
  fr_trade_size :: "f64 option"
  fr_signed_quantity :: "f64 option"
  fr_best_bid :: "f64 option"
  fr_best_ask :: "f64 option"
  fr_bid_size :: "f64 option"
  fr_ask_size :: "f64 option"
  fr_depth_bid_notional :: "f64 option"
  fr_depth_ask_notional :: "f64 option"
  fr_depth_imbalance :: "f64 option"
  fr_microprice :: "f64 option"
  fr_payload_json :: "string option"
  fr_details_json :: "string option"
  fr_fidelity :: string

record clob_row =
  cw_id :: i64
  cw_received_at_ms :: i64
  cw_event_at_ms :: i64
  cw_received_at_us :: "i64 option"
  cw_event_at_us :: "i64 option"
  cw_side :: string
  cw_source :: string
  cw_event_type :: string
  cw_source_topic :: "string option"
  cw_connection_id :: "string option"
  cw_sequence_key :: "string option"
  cw_market_id :: "string option"
  cw_asset_id :: "string option"
  cw_best_bid :: f64
  cw_best_ask :: f64
  cw_bid_size :: f64
  cw_ask_size :: f64
  cw_microprice :: "f64 option"
  cw_fidelity :: string

record block_row =
  br_id :: i64
  br_min_received_at_ms :: i64
  br_max_received_at_ms :: i64
  br_min_received_at_us :: "i64 option"
  br_max_received_at_us :: "i64 option"
  br_row_count :: i64
  br_up_rows :: i64
  br_down_rows :: i64
  br_codec :: string
  br_schema_version :: i64
  br_compressed_bytes :: i64
  br_uncompressed_bytes :: i64
  br_checksum :: string
  br_payload :: "u8 list"

record legacy_row =
  lr_timestamp :: i64
  lr_source :: string
  lr_price :: "f64 option"
  lr_bid :: "f64 option"
  lr_ask :: "f64 option"
  lr_bid_size :: "f64 option"
  lr_ask_size :: "f64 option"

record data_db =
  dd_feed_events :: "feed_row list option"
  dd_clob_events :: "clob_row list option"
  dd_clob_blocks :: "block_row list option"
  dd_tick_data :: "legacy_row list option"

datatype store_error = BindOverflow u64 | RequiredNull string | MissingTable string | EncodeFailed block_error

definition rows_of :: "'a list option \<Rightarrow> 'a list" where
  "rows_of t = (case t of Some rows \<Rightarrow> rows | None \<Rightarrow> [])"

lemma rows_of_simps [simp]: "rows_of (Some rows) = rows" "rows_of None = []"
  by (simp_all add: rows_of_def)

text \<open>A fallible map: the first error ends the loop.\<close>

fun res_map :: "('a \<Rightarrow> 'e + 'b) \<Rightarrow> 'a list \<Rightarrow> 'e + 'b list" where
  "res_map f [] = Inr []"
| "res_map f (x # xs) = res_bind (f x) (\<lambda>y. res_bind (res_map f xs) (\<lambda>ys. Inr (y # ys)))"

lemma res_map_Inr: "res_map f xs = Inr ys \<longleftrightarrow> map f xs = map Inr ys"
  by (induction xs arbitrary: ys) (auto simp: res_bind_Inr map_eq_Cons_conv)

lemma res_map_total: "(\<And>x. x \<in> set xs \<Longrightarrow> f x = Inr (g x)) \<Longrightarrow> res_map f xs = Inr (map g xs)"
  by (induction xs) simp_all

subsection \<open>Binding\<close>

definition bind_u64 :: "u64 \<Rightarrow> store_error + i64" where
  "bind_u64 n = (if unat n < 2 ^ 63 then Inr (uint n) else Inl (BindOverflow n))"

definition bind_opt_u64 :: "u64 option \<Rightarrow> store_error + i64 option" where
  "bind_opt_u64 v = (case v of None \<Rightarrow> Inr None | Some n \<Rightarrow> res_bind (bind_u64 n) (\<lambda>i. Inr (Some i)))"

definition bind_real :: "f64 option \<Rightarrow> f64 option" where
  "bind_real v = (case v of Some x \<Rightarrow> if is_nan x then None else Some x | None \<Rightarrow> None)"

definition bind_required :: "string \<Rightarrow> f64 option \<Rightarrow> store_error + f64" where
  "bind_required column v = (case bind_real v of Some x \<Rightarrow> Inr x | None \<Rightarrow> Inl (RequiredNull column))"

text \<open>The next value of an AUTOINCREMENT key of a table without deletions.\<close>

definition next_id :: "i64 list \<Rightarrow> i64" where
  "next_id ids = Max (insert 0 (set ids)) + 1"

subsection \<open>Inserting rows\<close>

definition feed_event_row :: "i64 \<Rightarrow> feed_event \<Rightarrow> store_error + feed_row" where
  "feed_event_row i e =
     res_bind (bind_u64 (fe_received_at_ms e)) (\<lambda>received_ms. res_bind (bind_u64 (fe_event_at_ms e)) (\<lambda>event_ms.
     res_bind (bind_opt_u64 (fe_received_at_us e)) (\<lambda>received_us. res_bind (bind_opt_u64 (fe_event_at_us e)) (\<lambda>event_us.
     Inr \<lparr>fr_id = i, fr_received_at_ms = received_ms, fr_event_at_ms = event_ms, fr_received_at_us = received_us,
       fr_event_at_us = event_us, fr_source = fe_source e, fr_event_type = fe_event_type e,
       fr_source_topic = fe_source_topic e, fr_source_symbol = fe_source_symbol e, fr_connection_id = fe_connection_id e,
       fr_sequence_key = fe_sequence_key e, fr_market_id = fe_market_id e, fr_asset_id = fe_asset_id e,
       fr_price = bind_real (fe_price e), fr_trade_size = bind_real (fe_trade_size e),
       fr_signed_quantity = bind_real (fe_signed_quantity e), fr_best_bid = bind_real (fe_best_bid e),
       fr_best_ask = bind_real (fe_best_ask e), fr_bid_size = bind_real (fe_bid_size e),
       fr_ask_size = bind_real (fe_ask_size e), fr_depth_bid_notional = bind_real (fe_depth_bid_notional e),
       fr_depth_ask_notional = bind_real (fe_depth_ask_notional e),
       fr_depth_imbalance = bind_real (fe_depth_imbalance e), fr_microprice = bind_real (fe_microprice e),
       fr_payload_json = fe_payload_json e, fr_details_json = fe_details_json e,
       fr_fidelity = fidelity_to_string (fe_fidelity e)\<rparr>))))"

definition clob_side :: "string \<Rightarrow> string" where
  "clob_side source = (if source = ''clob_up'' then ''up'' else ''down'')"

definition clob_event_row :: "i64 \<Rightarrow> feed_event \<Rightarrow> store_error + clob_row" where
  "clob_event_row i e =
     res_bind (bind_u64 (fe_received_at_ms e)) (\<lambda>received_ms. res_bind (bind_u64 (fe_event_at_ms e)) (\<lambda>event_ms.
     res_bind (bind_opt_u64 (fe_received_at_us e)) (\<lambda>received_us. res_bind (bind_opt_u64 (fe_event_at_us e)) (\<lambda>event_us.
     res_bind (bind_required ''best_bid'' (fe_best_bid e)) (\<lambda>best_bid.
     res_bind (bind_required ''best_ask'' (fe_best_ask e)) (\<lambda>best_ask.
     res_bind (bind_required ''bid_size'' (fe_bid_size e)) (\<lambda>bid_size.
     res_bind (bind_required ''ask_size'' (fe_ask_size e)) (\<lambda>ask_size.
     Inr \<lparr>cw_id = i, cw_received_at_ms = received_ms, cw_event_at_ms = event_ms, cw_received_at_us = received_us,
       cw_event_at_us = event_us, cw_side = clob_side (fe_source e), cw_source = fe_source e,
       cw_event_type = fe_event_type e, cw_source_topic = fe_source_topic e, cw_connection_id = fe_connection_id e,
       cw_sequence_key = fe_sequence_key e, cw_market_id = fe_market_id e, cw_asset_id = fe_asset_id e,
       cw_best_bid = best_bid, cw_best_ask = best_ask, cw_bid_size = bid_size, cw_ask_size = ask_size,
       cw_microprice = bind_real (fe_microprice e), cw_fidelity = fidelity_to_string (fe_fidelity e)\<rparr>))))))))"

definition insert_feed_event :: "feed_event \<Rightarrow> data_db \<Rightarrow> store_error + i64 \<times> data_db" where
  "insert_feed_event e db = (case dd_feed_events db of None \<Rightarrow> Inl (MissingTable ''feed_events'')
     | Some rows \<Rightarrow> (let i = next_id (map fr_id rows) in
         res_bind (feed_event_row i e) (\<lambda>row. Inr (i, db\<lparr>dd_feed_events := Some (rows @ [row])\<rparr>))))"

definition insert_clob_event :: "feed_event \<Rightarrow> data_db \<Rightarrow> store_error + i64 \<times> data_db" where
  "insert_clob_event e db = (case dd_clob_events db of None \<Rightarrow> Inl (MissingTable ''clob_replay_events'')
     | Some rows \<Rightarrow> (let i = next_id (map cw_id rows) in
         res_bind (clob_event_row i e) (\<lambda>row. Inr (i, db\<lparr>dd_clob_events := Some (rows @ [row])\<rparr>))))"

definition log_feed_event :: "feed_event \<Rightarrow> data_db \<Rightarrow> store_error + i64 \<times> data_db" where
  "log_feed_event e db = insert_feed_event e db"

definition is_clob_top_of_book_event :: "feed_event \<Rightarrow> bool" where
  "is_clob_top_of_book_event e = is_blockable_clob_event e"

subsection \<open>Batches\<close>

text \<open>The loop of a transaction; an error discards what it has written.\<close>

fun insert_events :: "bool \<Rightarrow> feed_event list \<Rightarrow> data_db \<Rightarrow> store_error + data_db" where
  "insert_events compact_clob [] db = Inr db"
| "insert_events compact_clob (e # es) db =
     res_bind (if compact_clob \<and> is_clob_top_of_book_event e then insert_clob_event e db else insert_feed_event e db)
       (\<lambda>(_, db1). insert_events compact_clob es db1)"

definition log_feed_events_batch_with_compact_clob ::
  "feed_event list \<Rightarrow> bool \<Rightarrow> data_db \<Rightarrow> store_error + u64 \<times> data_db" where
  "log_feed_events_batch_with_compact_clob es compact_clob db =
     (if es = [] then Inr (0, db)
      else if dd_feed_events db = None then Inl (MissingTable ''feed_events'')
      else if dd_clob_events db = None then Inl (MissingTable ''clob_replay_events'')
      else res_bind (insert_events compact_clob es db) (\<lambda>db1. Inr (of_nat (length es), db1)))"

definition log_feed_events_batch :: "feed_event list \<Rightarrow> data_db \<Rightarrow> store_error + u64 \<times> data_db" where
  "log_feed_events_batch es db = log_feed_events_batch_with_compact_clob es False db"

definition insert_clob_replay_block :: "encoded_block \<Rightarrow> data_db \<Rightarrow> store_error + data_db" where
  "insert_clob_replay_block b db = (case dd_clob_blocks db of None \<Rightarrow> Inl (MissingTable ''clob_replay_blocks'')
     | Some rows \<Rightarrow>
         res_bind (bind_u64 (eb_min_received_at_ms b)) (\<lambda>min_ms. res_bind (bind_u64 (eb_max_received_at_ms b)) (\<lambda>max_ms.
         res_bind (bind_opt_u64 (eb_min_received_at_us b)) (\<lambda>min_us.
         res_bind (bind_opt_u64 (eb_max_received_at_us b)) (\<lambda>max_us.
         res_bind (bind_u64 (eb_compressed_bytes b)) (\<lambda>compressed. res_bind (bind_u64 (eb_uncompressed_bytes b)) (\<lambda>plain.
         Inr (db\<lparr>dd_clob_blocks := Some (rows @ [\<lparr>br_id = next_id (map br_id rows), br_min_received_at_ms = min_ms,
           br_max_received_at_ms = max_ms, br_min_received_at_us = min_us, br_max_received_at_us = max_us,
           br_row_count = uint (eb_row_count b), br_up_rows = uint (eb_up_rows b), br_down_rows = uint (eb_down_rows b),
           br_codec = ''zstd'', br_schema_version = uint (eb_schema_version b), br_compressed_bytes = compressed,
           br_uncompressed_bytes = plain, br_checksum = eb_checksum b, br_payload = eb_payload b\<rparr>])\<rparr>))))))))"

definition log_feed_events_and_clob_block ::
  "(int \<Rightarrow> u8 list \<Rightarrow> u8 list option) \<Rightarrow> (u8 list \<Rightarrow> u32) \<Rightarrow> feed_event list \<Rightarrow> feed_event list \<Rightarrow> int \<Rightarrow> data_db \<Rightarrow>
     store_error + u64 \<times> data_db" where
  "log_feed_events_and_clob_block compress crc generic clob level db =
     (if generic = [] \<and> clob = [] then Inr (0, db)
      else res_bind (if clob = [] then Inr None
          else (case encode_events compress crc clob level of Inl err \<Rightarrow> Inl (EncodeFailed err) | Inr b \<Rightarrow> Inr (Some b)))
        (\<lambda>block.
          if dd_feed_events db = None then Inl (MissingTable ''feed_events'')
          else res_bind (insert_events False generic db) (\<lambda>db1.
               res_bind (case block of None \<Rightarrow> Inr db1 | Some b \<Rightarrow> insert_clob_replay_block b db1) (\<lambda>db2.
               Inr (of_nat (length generic) + of_nat (length clob), db2)))))"

subsection \<open>Preparing a backtest database\<close>

definition top_of_book_row :: "feed_row \<Rightarrow> bool" where
  "top_of_book_row r \<longleftrightarrow> fr_source r \<in> {''clob_up'', ''clob_down''} \<and>
     fr_event_type r \<in> {''book'', ''price_change'', ''best_bid_ask''} \<and>
     fr_best_bid r \<noteq> None \<and> fr_best_ask r \<noteq> None \<and> fr_bid_size r \<noteq> None \<and> fr_ask_size r \<noteq> None"

definition row_between :: "i64 \<Rightarrow> i64 \<Rightarrow> i64 \<Rightarrow> bool" where
  "row_between start_ms end_ms t \<longleftrightarrow> start_ms \<le> t \<and> t \<le> end_ms"

text \<open>The target database is fresh, with all tables.\<close>

definition fresh_data_db :: data_db where
  "fresh_data_db = \<lparr>dd_feed_events = Some [], dd_clob_events = Some [], dd_clob_blocks = Some [], dd_tick_data = Some []\<rparr>"

definition copy_generic_feed_events :: "data_db \<Rightarrow> i64 \<Rightarrow> i64 \<Rightarrow> data_db \<Rightarrow> data_db" where
  "copy_generic_feed_events src start_ms end_ms out = (case dd_feed_events src of None \<Rightarrow> out
     | Some rows \<Rightarrow> out\<lparr>dd_feed_events := Some (rows_of (dd_feed_events out) @
         filter (\<lambda>r. row_between start_ms end_ms (fr_received_at_ms r) \<and> \<not> top_of_book_row r) rows)\<rparr>)"

definition compact_row :: "feed_row \<Rightarrow> i64 \<Rightarrow> clob_row" where
  "compact_row r i = \<lparr>cw_id = i, cw_received_at_ms = fr_received_at_ms r, cw_event_at_ms = fr_event_at_ms r,
     cw_received_at_us = fr_received_at_us r, cw_event_at_us = fr_event_at_us r, cw_side = clob_side (fr_source r),
     cw_source = fr_source r, cw_event_type = fr_event_type r, cw_source_topic = fr_source_topic r,
     cw_connection_id = fr_connection_id r, cw_sequence_key = fr_sequence_key r, cw_market_id = fr_market_id r,
     cw_asset_id = fr_asset_id r, cw_best_bid = the (fr_best_bid r), cw_best_ask = the (fr_best_ask r),
     cw_bid_size = the (fr_bid_size r), cw_ask_size = the (fr_ask_size r), cw_microprice = fr_microprice r,
     cw_fidelity = fr_fidelity r\<rparr>"

text \<open>Appending rows to a table that numbers them.\<close>

definition append_numbered :: "('r \<Rightarrow> i64) \<Rightarrow> (i64 \<Rightarrow> 'r) list \<Rightarrow> 'r list \<Rightarrow> 'r list" where
  "append_numbered row_key makers rows = fold (\<lambda>make rs. rs @ [make (next_id (map row_key rs))]) makers rows"

definition copy_legacy_clob_rows_as_compact :: "data_db \<Rightarrow> i64 \<Rightarrow> i64 \<Rightarrow> data_db \<Rightarrow> data_db" where
  "copy_legacy_clob_rows_as_compact src start_ms end_ms out = (case dd_feed_events src of None \<Rightarrow> out
     | Some rows \<Rightarrow> out\<lparr>dd_clob_events := Some (append_numbered cw_id (map compact_row
         (filter (\<lambda>r. row_between start_ms end_ms (fr_received_at_ms r) \<and> top_of_book_row r) rows))
         (rows_of (dd_clob_events out)))\<rparr>)"

definition copy_compact_clob_rows :: "data_db \<Rightarrow> i64 \<Rightarrow> i64 \<Rightarrow> data_db \<Rightarrow> data_db" where
  "copy_compact_clob_rows src start_ms end_ms out = (case dd_clob_events src of None \<Rightarrow> out
     | Some rows \<Rightarrow> out\<lparr>dd_clob_events := Some (append_numbered cw_id (map (\<lambda>r i. r\<lparr>cw_id := i\<rparr>)
         (filter (\<lambda>r. row_between start_ms end_ms (cw_received_at_ms r)) rows)) (rows_of (dd_clob_events out)))\<rparr>)"

definition copy_clob_replay_blocks :: "data_db \<Rightarrow> i64 \<Rightarrow> i64 \<Rightarrow> data_db \<Rightarrow> data_db" where
  "copy_clob_replay_blocks src start_ms end_ms out = (case dd_clob_blocks src of None \<Rightarrow> out
     | Some rows \<Rightarrow> out\<lparr>dd_clob_blocks := Some (append_numbered br_id (map (\<lambda>r i. r\<lparr>br_id := i\<rparr>)
         (filter (\<lambda>r. start_ms \<le> br_max_received_at_ms r \<and> br_min_received_at_ms r \<le> end_ms) rows))
         (rows_of (dd_clob_blocks out)))\<rparr>)"

text \<open>The replay tables of a prepared database.\<close>

definition prepare_replay_tables :: "data_db \<Rightarrow> i64 \<Rightarrow> i64 \<Rightarrow> data_db" where
  "prepare_replay_tables src start_ms end_ms =
     copy_clob_replay_blocks src start_ms end_ms (copy_compact_clob_rows src start_ms end_ms
       (copy_legacy_clob_rows_as_compact src start_ms end_ms (copy_generic_feed_events src start_ms end_ms fresh_data_db)))"

end
