(* ===== verification/WindowManager.thy ===== *)
theory WindowManager
  imports Types FeedStore
begin

section \<open>Market windows of a backtest\<close>

text \<open>
  \<^verbatim>\<open>src/bots/paint/src/backtest/window_manager.rs\<close>: the settled market windows of the data database in order of their start,
  and the cursor that follows the replay time. The rows of \<^verbatim>\<open>markets\<close> and the two sources of native Binance prices are
  lists of rows in id order; a missing price table is \<open>None\<close>, and a missing optional column reads as NULL.
\<close>

record settlement =
  se_market_id :: string
  se_question :: string
  se_up_token_id :: string
  se_down_token_id :: string
  se_condition_id :: string
  se_slug :: string
  se_start_time :: u64
  se_end_time :: u64
  se_open_price :: f64
  se_close_price :: f64
  se_outcome :: SignalDirection
  se_resolution_source :: "string option"
  se_fee_profile :: "string option"
  se_order_min_size :: "f64 option"
  se_order_price_min_tick_size :: "f64 option"
  se_maker_base_fee :: "f64 option"
  se_taker_base_fee :: "f64 option"
  se_rewards_min_size :: "f64 option"
  se_rewards_max_spread :: "f64 option"
  se_fees_enabled :: "bool option"
  se_fee_schedule_json :: "string option"
  se_token_fee_rates_json :: "string option"
  se_accepting_orders :: "bool option"
  se_accepting_orders_timestamp :: "string option"
  se_clear_book_on_start :: "bool option"

record window_events =
  we_opened :: "settlement option"
  we_closed :: "settlement option"

record window_manager =
  wm_windows :: "settlement list"
  wm_cursor :: nat
  wm_current :: "settlement option"

definition from_settlements :: "settlement list \<Rightarrow> window_manager" where
  "from_settlements ws = \<lparr>wm_windows = ws, wm_cursor = 0, wm_current = None\<rparr>"

definition total_windows :: "window_manager \<Rightarrow> nat" where
  "total_windows m = length (wm_windows m)"

definition wm_reset :: "window_manager \<Rightarrow> window_manager" where
  "wm_reset m = m\<lparr>wm_cursor := 0, wm_current := None\<rparr>"

definition to_market_window :: "settlement \<Rightarrow> market_window" where
  "to_market_window s = \<lparr>
     mw_market_id = se_market_id s,
     mw_question = se_question s,
     mw_up_token_id = se_up_token_id s,
     mw_down_token_id = se_down_token_id s,
     mw_condition_id = se_condition_id s,
     mw_start_time = se_start_time s,
     mw_end_time = se_end_time s,
     mw_slug = se_slug s,
     mw_outcome = Some (direction_to_string (se_outcome s)),
     mw_resolution_source = se_resolution_source s,
     mw_fee_profile = se_fee_profile s,
     mw_order_min_size = se_order_min_size s,
     mw_order_price_min_tick_size = se_order_price_min_tick_size s,
     mw_maker_base_fee = se_maker_base_fee s,
     mw_taker_base_fee = se_taker_base_fee s,
     mw_rewards_min_size = se_rewards_min_size s,
     mw_rewards_max_spread = se_rewards_max_spread s,
     mw_fees_enabled = se_fees_enabled s,
     mw_fee_schedule_json = se_fee_schedule_json s,
     mw_token_fee_rates_json = se_token_fee_rates_json s,
     mw_accepting_orders = se_accepting_orders s,
     mw_accepting_orders_timestamp = se_accepting_orders_timestamp s,
     mw_clear_book_on_start = se_clear_book_on_start s\<rparr>"

subsection \<open>Advancing\<close>

definition close_current :: "u64 \<Rightarrow> window_manager \<Rightarrow> settlement option \<times> window_manager" where
  "close_current ts m = (case wm_current m of
     Some w \<Rightarrow> if se_end_time w \<le> ts then (Some w, m\<lparr>wm_current := None\<rparr>) else (None, m)
   | None \<Rightarrow> (None, m))"

text \<open>The loop skips windows that have ended and stops at the first that has not.\<close>

function open_next :: "u64 \<Rightarrow> window_manager \<Rightarrow> settlement option \<times> window_manager" where
  "open_next ts m =
     (if wm_current m = None \<and> wm_cursor m < length (wm_windows m) then
        (let w = wm_windows m ! wm_cursor m in
         if se_end_time w \<le> ts then open_next ts (m\<lparr>wm_cursor := wm_cursor m + 1\<rparr>)
         else if se_start_time w \<le> ts then (Some w, m\<lparr>wm_cursor := wm_cursor m + 1, wm_current := Some w\<rparr>)
         else (None, m))
      else (None, m))"
  by pat_completeness auto
termination
  by (relation "measure (\<lambda>(_, m). length (wm_windows m) - wm_cursor m)") auto

declare open_next.simps [simp del]

definition wm_advance :: "u64 \<Rightarrow> window_manager \<Rightarrow> window_events \<times> window_manager" where
  "wm_advance ts m = (case close_current ts m of (ended, m1) \<Rightarrow>
     (case open_next ts m1 of (opened, m2) \<Rightarrow> (\<lparr>we_opened = opened, we_closed = ended\<rparr>, m2)))"

subsection \<open>Loading\<close>

record settlement_row =
  sw_settlement :: settlement
  sw_start_time :: i64
  sw_end_time :: i64
  sw_open_price :: "f64 option"
  sw_close_price :: "f64 option"
  sw_outcome :: "string option"

record price_row =
  pr_id :: i64
  pr_source :: string
  pr_event_type :: string
  pr_time_ms :: i64
  pr_time_us :: "i64 option"
  pr_price :: "f64 option"

record window_db =
  wd_markets :: "settlement_row list"
  wd_tick_data :: "price_row list option"
  wd_feed_events :: "price_row list option"

datatype window_error = WindowTimestamp string | BadOutcome string string

definition window_param :: "u64 \<Rightarrow> string \<Rightarrow> window_error + i64" where
  "window_param ts label = (if unat ts < 2 ^ 63 then Inr (uint ts) else Inl (WindowTimestamp label))"

definition parse_market_outcome :: "string \<Rightarrow> string \<Rightarrow> window_error + SignalDirection" where
  "parse_market_outcome market_id outcome = (case direction_from_str outcome of
     Inl e \<Rightarrow> Inl (BadOutcome market_id e) | Inr d \<Rightarrow> Inr d)"

definition read_market_settlement_row :: "settlement_row \<Rightarrow> string \<Rightarrow> window_error + settlement" where
  "read_market_settlement_row r outcome =
     res_bind (parse_market_outcome (se_market_id (sw_settlement r)) outcome) (\<lambda>d.
     Inr ((sw_settlement r)\<lparr>se_start_time := of_int (sw_start_time r), se_end_time := of_int (sw_end_time r),
       se_open_price := unwrap_or (sw_open_price r) 0, se_close_price := unwrap_or (sw_close_price r) 0, se_outcome := d\<rparr>))"

text \<open>The rows of a price query, first and last by its order: time, microseconds, id. The tick table has no microseconds.\<close>

definition price_rows :: "(price_row \<Rightarrow> bool) \<Rightarrow> i64 \<Rightarrow> i64 \<Rightarrow> price_row list option \<Rightarrow> price_row list" where
  "price_rows want start_ms end_ms table = filter (\<lambda>r. pr_source r = ''binance'' \<and> want r \<and> start_ms \<le> pr_time_ms r \<and>
     pr_time_ms r < end_ms \<and> pr_price r \<noteq> None) (rows_of table)"

definition feed_price_micros :: "price_row \<Rightarrow> i64" where
  "feed_price_micros r = unwrap_or (pr_time_us r) (pr_time_ms r * 1000)"

fun best_row :: "('r \<Rightarrow> 'r \<Rightarrow> bool) \<Rightarrow> 'r list \<Rightarrow> 'r option" where
  "best_row better [] = None"
| "best_row better (r # rs) = (case best_row better rs of None \<Rightarrow> Some r | Some q \<Rightarrow> Some (if better q r then q else r))"

definition tick_before :: "price_row \<Rightarrow> price_row \<Rightarrow> bool" where
  "tick_before a b \<longleftrightarrow> pr_time_ms a < pr_time_ms b \<or> pr_time_ms a = pr_time_ms b \<and> pr_id a < pr_id b"

definition feed_before :: "price_row \<Rightarrow> price_row \<Rightarrow> bool" where
  "feed_before a b \<longleftrightarrow> pr_time_ms a < pr_time_ms b \<or> pr_time_ms a = pr_time_ms b \<and>
     (feed_price_micros a < feed_price_micros b \<or> feed_price_micros a = feed_price_micros b \<and> pr_id a < pr_id b)"

definition price_query ::
  "(price_row \<Rightarrow> bool) \<Rightarrow> (price_row \<Rightarrow> price_row \<Rightarrow> bool) \<Rightarrow> price_row list option \<Rightarrow> u64 \<Rightarrow> u64 \<Rightarrow> window_error + f64 option" where
  "price_query want better table start_time end_time = (case table of None \<Rightarrow> Inr None
     | Some _ \<Rightarrow> res_bind (window_param start_time ''start_time'') (\<lambda>a. res_bind (window_param end_time ''end_time'') (\<lambda>b.
         Inr (Option.bind (best_row better (price_rows want a b table)) pr_price))))"

definition earliest_tick_data_binance_price :: "window_db \<Rightarrow> u64 \<Rightarrow> u64 \<Rightarrow> window_error + f64 option" where
  "earliest_tick_data_binance_price db = price_query (\<lambda>_. True) tick_before (wd_tick_data db)"

definition latest_tick_data_binance_price :: "window_db \<Rightarrow> u64 \<Rightarrow> u64 \<Rightarrow> window_error + f64 option" where
  "latest_tick_data_binance_price db = price_query (\<lambda>_. True) (\<lambda>a b. tick_before b a) (wd_tick_data db)"

definition earliest_feed_event_binance_price :: "window_db \<Rightarrow> u64 \<Rightarrow> u64 \<Rightarrow> window_error + f64 option" where
  "earliest_feed_event_binance_price db = price_query (\<lambda>r. pr_event_type r = ''aggTrade'') feed_before (wd_feed_events db)"

definition latest_feed_event_binance_price :: "window_db \<Rightarrow> u64 \<Rightarrow> u64 \<Rightarrow> window_error + f64 option" where
  "latest_feed_event_binance_price db = price_query (\<lambda>r. pr_event_type r = ''aggTrade'') (\<lambda>a b. feed_before b a) (wd_feed_events db)"

definition replay_native_open_price :: "window_db \<Rightarrow> u64 \<Rightarrow> u64 \<Rightarrow> window_error + f64 option" where
  "replay_native_open_price db a b = res_bind (earliest_tick_data_binance_price db a b) (\<lambda>p. case p of
     Some x \<Rightarrow> Inr (Some x) | None \<Rightarrow> earliest_feed_event_binance_price db a b)"

definition replay_native_close_price :: "window_db \<Rightarrow> u64 \<Rightarrow> u64 \<Rightarrow> window_error + f64 option" where
  "replay_native_close_price db a b = res_bind (latest_tick_data_binance_price db a b) (\<lambda>p. case p of
     Some x \<Rightarrow> Inr (Some x) | None \<Rightarrow> latest_feed_event_binance_price db a b)"

definition apply_replay_price :: "window_db \<Rightarrow> settlement \<Rightarrow> window_error + settlement" where
  "apply_replay_price db w =
     res_bind (replay_native_open_price db (se_start_time w) (se_end_time w)) (\<lambda>open_price.
       let w1 = (case open_price of Some p \<Rightarrow> w\<lparr>se_open_price := p\<rparr> | None \<Rightarrow> w) in
       if se_close_price w1 \<le> 0
       then res_bind (replay_native_close_price db (se_start_time w1) (se_end_time w1)) (\<lambda>close_price.
            Inr (case close_price of Some p \<Rightarrow> w1\<lparr>se_close_price := p\<rparr> | None \<Rightarrow> w1))
       else Inr w1)"

definition apply_replay_prices :: "window_db \<Rightarrow> settlement list \<Rightarrow> window_error + settlement list" where
  "apply_replay_prices db = res_map (apply_replay_price db)"

definition load_settlements :: "window_db \<Rightarrow> u64 \<Rightarrow> u64 \<Rightarrow> window_error + settlement list" where
  "load_settlements db start_time end_time =
     res_bind (window_param start_time ''start_time'') (\<lambda>a. res_bind (window_param end_time ''end_time'') (\<lambda>b.
     res_bind (res_map (\<lambda>(r, outcome). read_market_settlement_row r outcome)
       (map (\<lambda>r. (r, the (sw_outcome r))) (sort_key sw_start_time
         (filter (\<lambda>r. a \<le> sw_end_time r \<and> sw_start_time r \<le> b \<and> sw_outcome r \<noteq> None) (wd_markets db)))))
       (apply_replay_prices db)))"

definition wm_new :: "window_db \<Rightarrow> u64 \<Rightarrow> u64 \<Rightarrow> window_error + window_manager" where
  "wm_new db start_time end_time = res_bind (load_settlements db start_time end_time) (\<lambda>ws. Inr (from_settlements ws))"

subsection \<open>The current window follows the time\<close>

definition covers :: "u64 \<Rightarrow> settlement \<Rightarrow> bool" where
  "covers ts w \<longleftrightarrow> se_start_time w \<le> ts \<and> ts < se_end_time w"

text \<open>The window a time falls into, as a specification.\<close>

definition window_at :: "settlement list \<Rightarrow> u64 \<Rightarrow> settlement option" where
  "window_at ws ts = find (covers ts) ws"

text \<open>Windows in time order, each with a positive length, that do not overlap.\<close>

definition in_sequence :: "settlement list \<Rightarrow> bool" where
  "in_sequence ws \<longleftrightarrow> (\<forall>w \<in> set ws. se_start_time w < se_end_time w) \<and>
     sorted_wrt (\<lambda>v w. se_end_time v \<le> se_start_time w) ws"

text \<open>Before the cursor every window has ended or is the current one, and the current one has started.\<close>

definition behind :: "u64 \<Rightarrow> window_manager \<Rightarrow> bool" where
  "behind ts m \<longleftrightarrow> wm_cursor m \<le> length (wm_windows m) \<and>
     (\<forall>i < wm_cursor m. se_end_time (wm_windows m ! i) \<le> ts \<or> wm_current m = Some (wm_windows m ! i)) \<and>
     (\<forall>w. wm_current m = Some w \<longrightarrow> w \<in> set (wm_windows m) \<and> se_start_time w \<le> ts)"

lemma behind_start: "behind ts (from_settlements ws)"
  by (simp add: behind_def from_settlements_def)

lemma behind_later: "behind ts m \<Longrightarrow> ts \<le> ts' \<Longrightarrow> behind ts' m"
  by (force simp: behind_def)

lemma in_sequence_nth: "in_sequence ws \<Longrightarrow> i < j \<Longrightarrow> j < length ws \<Longrightarrow> se_end_time (ws ! i) \<le> se_start_time (ws ! j)"
  by (simp add: in_sequence_def sorted_wrt_iff_nth_less)

lemma covers_apart: "in_sequence ws \<Longrightarrow> covers ts (ws ! i) \<Longrightarrow> covers ts (ws ! j) \<Longrightarrow> i < j \<Longrightarrow> j < length ws \<Longrightarrow> False"
  using in_sequence_nth[of ws i j] by (auto simp: covers_def)

lemma covers_unique:
  assumes "in_sequence ws" "v \<in> set ws" "w \<in> set ws" "covers ts v" "covers ts w"
  shows "v = w"
proof -
  obtain i j where ij: "i < length ws" "j < length ws" "v = ws ! i" "w = ws ! j" using assms(2,3) by (auto simp: in_set_conv_nth)
  then show ?thesis using covers_apart[OF assms(1), of ts i j] covers_apart[OF assms(1), of ts j i] assms(4,5)
    by (cases i j rule: linorder_cases) auto
qed

lemma window_at_eq:
  assumes "in_sequence ws" "w \<in> set ws" "covers ts w"
  shows "window_at ws ts = Some w"
proof (cases "window_at ws ts")
  case None
  then show ?thesis using assms(2,3) by (simp add: window_at_def find_None_iff)
next
  case (Some v)
  then have "v \<in> set ws" "covers ts v" by (auto simp: window_at_def find_Some_iff)
  then show ?thesis using covers_unique[OF assms(1) _ assms(2) _ assms(3)] Some by blast
qed

text \<open>What the loop leaves: all windows it passed have ended, and it stops at one that has not started, or opens it.\<close>

lemma open_next_effect:
  assumes "open_next ts m = (opened, m')" "wm_current m = None" "wm_cursor m \<le> length (wm_windows m)"
  shows "wm_windows m' = wm_windows m \<and> wm_cursor m \<le> wm_cursor m' \<and> wm_cursor m' \<le> length (wm_windows m) \<and>
    wm_current m' = opened \<and>
    (\<forall>i. wm_cursor m \<le> i \<longrightarrow> i < wm_cursor m' \<longrightarrow> se_end_time (wm_windows m ! i) \<le> ts \<or> opened = Some (wm_windows m ! i)) \<and>
    (case opened of Some w \<Rightarrow> w \<in> set (wm_windows m) \<and> covers ts w
     | None \<Rightarrow> wm_cursor m' < length (wm_windows m) \<longrightarrow> ts < se_start_time (wm_windows m ! wm_cursor m'))"
  using assms
proof (induction ts m rule: open_next.induct)
  case (1 ts m)
  let ?w = "wm_windows m ! wm_cursor m"
  consider (ended) "wm_cursor m < length (wm_windows m)" "se_end_time ?w \<le> ts"
    | (started) "wm_cursor m < length (wm_windows m)" "\<not> se_end_time ?w \<le> ts" "se_start_time ?w \<le> ts"
    | (waiting) "wm_cursor m < length (wm_windows m)" "\<not> se_end_time ?w \<le> ts" "\<not> se_start_time ?w \<le> ts"
    | (out) "wm_cursor m = length (wm_windows m)" using 1(4) by fastforce
  then show ?case
  proof cases
    case ended
    have r: "open_next ts (m\<lparr>wm_cursor := wm_cursor m + 1\<rparr>) = (opened, m')"
      using 1(2,3) ended by (simp add: open_next.simps[of ts m])
    have ih: "wm_windows m' = wm_windows m" "Suc (wm_cursor m) \<le> wm_cursor m'" "wm_cursor m' \<le> length (wm_windows m)"
      "wm_current m' = opened"
      "\<forall>i. Suc (wm_cursor m) \<le> i \<longrightarrow> i < wm_cursor m' \<longrightarrow> se_end_time (wm_windows m ! i) \<le> ts \<or> opened = Some (wm_windows m ! i)"
      "case opened of Some w \<Rightarrow> w \<in> set (wm_windows m) \<and> covers ts w
       | None \<Rightarrow> wm_cursor m' < length (wm_windows m) \<longrightarrow> ts < se_start_time (wm_windows m ! wm_cursor m')"
      using 1(1)[OF _ refl ended(2) r] 1(3) ended by (simp_all split: option.splits)
    have "se_end_time (wm_windows m ! i) \<le> ts \<or> opened = Some (wm_windows m ! i)"
      if "wm_cursor m \<le> i" "i < wm_cursor m'" for i
      using ih(5) ended(2) that by (cases "i = wm_cursor m") auto
    then show ?thesis using ih by simp
  next
    case started
    then show ?thesis using 1(2,3) by (auto simp: open_next.simps[of ts m] covers_def Let_def less_Suc_eq split: if_splits)
  next
    case waiting
    then show ?thesis using 1(2,3) by (auto simp: open_next.simps[of ts m] Let_def split: if_splits)
  next
    case out
    then show ?thesis using 1(2,3) by (auto simp: open_next.simps[of ts m])
  qed
qed

lemma close_current_effect:
  "close_current ts m = (ended, m1) \<Longrightarrow>
     ended = (case wm_current m of Some w \<Rightarrow> if se_end_time w \<le> ts then Some w else None | None \<Rightarrow> None) \<and>
     wm_windows m1 = wm_windows m \<and> wm_cursor m1 = wm_cursor m \<and>
     wm_current m1 = (if ended = None then wm_current m else None)"
  by (cases "wm_current m") (auto simp: close_current_def split: if_splits dest: sym)

text \<open>One step of the manager: what was current and has ended is closed, and what opens becomes current.\<close>

lemma advance_effect:
  assumes adv: "wm_advance ts m = (ev, m')" and b: "behind ts m" and seq: "in_sequence (wm_windows m)"
  shows "behind ts m' \<and> wm_windows m' = wm_windows m \<and> wm_current m' = window_at (wm_windows m) ts \<and>
    we_closed ev = (case wm_current m of Some w \<Rightarrow> if se_end_time w \<le> ts then Some w else None | None \<Rightarrow> None) \<and>
    we_opened ev = (if wm_current m = None \<or> we_closed ev \<noteq> None then wm_current m' else None)"
proof -
  let ?ws = "wm_windows m"
  obtain ended m1 where c: "close_current ts m = (ended, m1)" by fastforce
  obtain opened where o: "open_next ts m1 = (opened, m')" and ev: "ev = \<lparr>we_opened = opened, we_closed = ended\<rparr>"
    using adv c by (auto simp: wm_advance_def split: prod.splits)
  note ce = close_current_effect[OF c]
  have le: "wm_cursor m1 \<le> length (wm_windows m1)" using b ce by (simp add: behind_def)
  show ?thesis
  proof (cases "wm_current m1")
    case None
    note e = open_next_effect[OF o None le]
    have past: "se_end_time (?ws ! i) \<le> ts" if "i < wm_cursor m" for i
      using b ce None that by (auto simp: behind_def split: option.splits if_splits)
    have cur: "wm_current m' = window_at ?ws ts"
    proof (cases opened)
      case (Some w)
      then show ?thesis using e ce window_at_eq[OF seq, of w ts] by simp
    next
      case N: None
      have "\<not> covers ts (?ws ! i)" if i: "i < length ?ws" for i
      proof (cases "i < wm_cursor m'")
        case True
        then show ?thesis using past[of i] e ce N by (cases "i < wm_cursor m") (auto simp: covers_def not_less)
      next
        case False
        then have l: "wm_cursor m' < length ?ws" "wm_cursor m' \<le> i" using i by simp_all
        have "se_start_time (?ws ! wm_cursor m') < se_end_time (?ws ! wm_cursor m')"
          using seq l(1) by (simp add: in_sequence_def)
        then have "se_start_time (?ws ! wm_cursor m') \<le> se_start_time (?ws ! i)"
          using in_sequence_nth[OF seq, of "wm_cursor m'" i] i l(2) by (cases "wm_cursor m' = i") auto
        then show ?thesis using e ce N l by (auto simp: covers_def)
      qed
      then have "window_at ?ws ts = None" by (auto simp: window_at_def find_None_iff in_set_conv_nth)
      then show ?thesis using e N by simp
    qed
    have "behind ts m'" unfolding behind_def
      using e ce past by (auto simp: covers_def split: option.splits) (metis not_less)+
    then show ?thesis using cur e ce ev None by auto
  next
    case (Some w)
    then have m': "opened = None" "m' = m1" using o by (simp_all add: open_next.simps[of ts m1])
    have w: "w \<in> set ?ws" "covers ts w" "wm_current m = Some w" "ended = None"
      using Some ce b by (auto simp: behind_def covers_def not_le split: if_splits option.splits)
    then show ?thesis using m' b ce ev window_at_eq[OF seq w(1,2)] by (auto simp: behind_def covers_def)
  qed
qed

definition wm_follow :: "u64 list \<Rightarrow> window_manager \<Rightarrow> window_manager" where
  "wm_follow xs m = fold (\<lambda>t m. snd (wm_advance t m)) xs m"

lemma follow_effect:
  assumes "in_sequence (wm_windows m)" "sorted (xs @ [t])" "\<forall>x \<in> set (xs @ [t]). behind x m"
  shows "behind t (wm_follow xs m) \<and> wm_windows (wm_follow xs m) = wm_windows m"
  using assms
proof (induction xs arbitrary: m)
  case (Cons x xs)
  obtain ev m' where a: "wm_advance x m = (ev, m')" by fastforce
  have e: "behind x m'" "wm_windows m' = wm_windows m" using advance_effect[OF a _ Cons.prems(1)] Cons.prems(3) by simp_all
  have "\<forall>y \<in> set (xs @ [t]). behind y m'" using behind_later[OF e(1)] Cons.prems(2) by (auto simp: sorted_append)
  then show ?case using Cons.IH[of m'] Cons.prems e a by (simp add: wm_follow_def)
qed (simp add: wm_follow_def)

theorem window_follows_time:
  assumes "in_sequence ws" "sorted (xs @ [t])"
  shows "wm_current (wm_follow (xs @ [t]) (from_settlements ws)) = window_at ws t"
proof -
  let ?m = "wm_follow xs (from_settlements ws)"
  have e: "behind t ?m" "wm_windows ?m = ws"
    using follow_effect[of "from_settlements ws" xs t] assms behind_start by (simp_all add: from_settlements_def)
  obtain ev m' where a: "wm_advance t ?m = (ev, m')" by fastforce
  then show ?thesis using advance_effect[OF a e(1)] e(2) assms(1) by (simp add: wm_follow_def)
qed

end
