(* ===== verification/TickStore.thy ===== *)
theory TickStore
  imports FeedStore "HOL-Library.Product_Lexorder"
begin

section \<open>Loading replay ticks\<close>

text \<open>
  The loading part of \<^verbatim>\<open>src/bots/paint/src/backtest/tick_replay.rs\<close>: ticks come from up to four tables of a data
  database opened read-only: generic feed events, compact order-book rows, compressed order-book blocks, or the legacy
  \<^verbatim>\<open>tick_data\<close> table. A table is the list of its rows and \<open>None\<close> when it does not exist; a column an older schema lacks
  reads as NULL; an INTEGER column is an integer of SQLite. Reads of the tables are taken to succeed; what the code
  rejects in the values is an error.
\<close>

subsection \<open>Rows\<close>

record raw_tick =
  tk_timestamp :: u64
  tk_timestamp_us :: "u64 option"
  tk_source :: string
  tk_event_type :: string
  tk_sequence_key :: "string option"
  tk_market_id :: "string option"
  tk_asset_id :: "string option"
  tk_price :: "f64 option"
  tk_trade_size :: "f64 option"
  tk_signed_quantity :: "f64 option"
  tk_bid :: "f64 option"
  tk_ask :: "f64 option"
  tk_bid_size :: "f64 option"
  tk_ask_size :: "f64 option"
  tk_depth_bid_notional :: "f64 option"
  tk_depth_ask_notional :: "f64 option"
  tk_depth_imbalance :: "f64 option"
  tk_microprice :: "f64 option"
  tk_fidelity :: ReplayFidelity

record replay_row =
  rw_sort_us :: u64
  rw_storage_order :: u8
  rw_row_id :: u64
  rw_tick :: raw_tick

text \<open>The columns of the replay query, in the types of the table.\<close>

record replay_columns =
  rc_received_at_ms :: i64
  rc_source :: string
  rc_event_type :: string
  rc_market_id :: "string option"
  rc_asset_id :: "string option"
  rc_price :: "f64 option"
  rc_best_bid :: "f64 option"
  rc_best_ask :: "f64 option"
  rc_bid_size :: "f64 option"
  rc_ask_size :: "f64 option"
  rc_fidelity :: string
  rc_received_at_us :: "i64 option"
  rc_sequence_key :: "string option"
  rc_trade_size :: "f64 option"
  rc_signed_quantity :: "f64 option"
  rc_depth_bid_notional :: "f64 option"
  rc_depth_ask_notional :: "f64 option"
  rc_depth_imbalance :: "f64 option"
  rc_microprice :: "f64 option"
  rc_row_id :: i64
  rc_storage_order :: i64

datatype replay_error =
    TimestampTooLarge string | NoTickData | BadMicros i64 | BadFidelity string | BlockError block_error | BlockTimestamp u64

definition timestamp_param :: "u64 \<Rightarrow> string \<Rightarrow> replay_error + i64" where
  "timestamp_param ts label = (if unat ts < 2 ^ 63 then Inr (uint ts) else Inl (TimestampTooLarge label))"

definition map_error :: "('e \<Rightarrow> 'd) \<Rightarrow> 'e + 'a \<Rightarrow> 'd + 'a" where
  "map_error g r = (case r of Inl e \<Rightarrow> Inl (g e) | Inr x \<Rightarrow> Inr x)"

text \<open>\<^verbatim>\<open>u64::try_from(i).unwrap_or_default()\<close> and the same for \<^verbatim>\<open>u8\<close> with its maximum.\<close>

definition u64_or_zero :: "i64 \<Rightarrow> u64" where
  "u64_or_zero i = (if 0 \<le> i \<and> i < 2 ^ 64 then of_int i else 0)"

definition u8_or_max :: "i64 \<Rightarrow> u8" where
  "u8_or_max i = (if 0 \<le> i \<and> i < 2 ^ 8 then of_int i else - 1)"

subsection \<open>Row decoding\<close>

text \<open>The sort key in microseconds, of a tick and of a row of a query.\<close>

definition sort_micros :: "u64 \<Rightarrow> u64 option \<Rightarrow> u64" where
  "sort_micros ts us = unwrap_or us (saturating_mul ts 1000)"

definition column_micros :: "i64 option \<Rightarrow> replay_error + u64 option" where
  "column_micros v = (case v of None \<Rightarrow> Inr None
     | Some i \<Rightarrow> if 0 \<le> i then Inr (Some (of_int i)) else Inl (BadMicros i))"

definition decode_replay_row :: "replay_columns \<Rightarrow> replay_error + replay_row" where
  "decode_replay_row c =
     (let timestamp = of_int (rc_received_at_ms c) in
      res_bind (column_micros (rc_received_at_us c)) (\<lambda>us.
      res_bind (map_error BadFidelity (fidelity_from_str (rc_fidelity c))) (\<lambda>fidelity.
      Inr \<lparr>rw_sort_us = sort_micros timestamp us, rw_storage_order = u8_or_max (rc_storage_order c),
        rw_row_id = u64_or_zero (rc_row_id c),
        rw_tick = \<lparr>tk_timestamp = timestamp, tk_timestamp_us = us, tk_source = rc_source c, tk_event_type = rc_event_type c,
          tk_sequence_key = rc_sequence_key c, tk_market_id = rc_market_id c, tk_asset_id = rc_asset_id c,
          tk_price = rc_price c, tk_trade_size = rc_trade_size c, tk_signed_quantity = rc_signed_quantity c,
          tk_bid = rc_best_bid c, tk_ask = rc_best_ask c, tk_bid_size = rc_bid_size c, tk_ask_size = rc_ask_size c,
          tk_depth_bid_notional = rc_depth_bid_notional c, tk_depth_ask_notional = rc_depth_ask_notional c,
          tk_depth_imbalance = rc_depth_imbalance c, tk_microprice = rc_microprice c, tk_fidelity = fidelity\<rparr>\<rparr>)))"

text \<open>The two branches of the query. The compact branch selects NULL for the columns it has not.\<close>

definition feed_columns :: "feed_row \<Rightarrow> replay_columns" where
  "feed_columns r = \<lparr>rc_received_at_ms = fr_received_at_ms r, rc_source = fr_source r, rc_event_type = fr_event_type r,
     rc_market_id = fr_market_id r, rc_asset_id = fr_asset_id r, rc_price = fr_price r, rc_best_bid = fr_best_bid r,
     rc_best_ask = fr_best_ask r, rc_bid_size = fr_bid_size r, rc_ask_size = fr_ask_size r, rc_fidelity = fr_fidelity r,
     rc_received_at_us = fr_received_at_us r, rc_sequence_key = fr_sequence_key r, rc_trade_size = fr_trade_size r,
     rc_signed_quantity = fr_signed_quantity r, rc_depth_bid_notional = fr_depth_bid_notional r,
     rc_depth_ask_notional = fr_depth_ask_notional r, rc_depth_imbalance = fr_depth_imbalance r,
     rc_microprice = fr_microprice r, rc_row_id = fr_id r, rc_storage_order = 0\<rparr>"

definition clob_columns :: "clob_row \<Rightarrow> replay_columns" where
  "clob_columns r = \<lparr>rc_received_at_ms = cw_received_at_ms r, rc_source = cw_source r, rc_event_type = cw_event_type r,
     rc_market_id = cw_market_id r, rc_asset_id = cw_asset_id r, rc_price = None, rc_best_bid = Some (cw_best_bid r),
     rc_best_ask = Some (cw_best_ask r), rc_bid_size = Some (cw_bid_size r), rc_ask_size = Some (cw_ask_size r),
     rc_fidelity = cw_fidelity r, rc_received_at_us = cw_received_at_us r, rc_sequence_key = cw_sequence_key r,
     rc_trade_size = None, rc_signed_quantity = None, rc_depth_bid_notional = None, rc_depth_ask_notional = None,
     rc_depth_imbalance = None, rc_microprice = cw_microprice r, rc_row_id = cw_id r, rc_storage_order = 1\<rparr>"

definition in_range :: "i64 \<Rightarrow> i64 \<Rightarrow> replay_columns \<Rightarrow> bool" where
  "in_range start_ms end_ms c \<longleftrightarrow> start_ms \<le> rc_received_at_ms c \<and> rc_received_at_ms c \<le> end_ms"

definition feed_branch :: "i64 \<Rightarrow> i64 \<Rightarrow> data_db \<Rightarrow> replay_columns list" where
  "feed_branch start_ms end_ms db = filter (in_range start_ms end_ms) (map feed_columns (rows_of (dd_feed_events db)))"

definition clob_branch :: "i64 \<Rightarrow> i64 \<Rightarrow> data_db \<Rightarrow> replay_columns list" where
  "clob_branch start_ms end_ms db = filter (in_range start_ms end_ms) (map clob_columns (rows_of (dd_clob_events db)))"

definition query_key :: "replay_columns \<Rightarrow> i64 \<times> i64 \<times> i64" where
  "query_key c = (unwrap_or (rc_received_at_us c) (rc_received_at_ms c * 1000), rc_storage_order c, rc_row_id c)"

definition replay_query :: "i64 \<Rightarrow> i64 \<Rightarrow> data_db \<Rightarrow> replay_columns list" where
  "replay_query start_ms end_ms db = sort_key query_key (feed_branch start_ms end_ms db @ clob_branch start_ms end_ms db)"

subsection \<open>Block rows\<close>

definition block_tick :: "decoded_event \<Rightarrow> raw_tick" where
  "block_tick e = \<lparr>tk_timestamp = de_received_at_ms e, tk_timestamp_us = de_received_at_us e, tk_source = de_source e,
     tk_event_type = de_event_type e, tk_sequence_key = de_sequence_key e, tk_market_id = de_market_id e,
     tk_asset_id = de_asset_id e, tk_price = None, tk_trade_size = None, tk_signed_quantity = None,
     tk_bid = Some (de_best_bid e), tk_ask = Some (de_best_ask e), tk_bid_size = Some (de_bid_size e),
     tk_ask_size = Some (de_ask_size e), tk_depth_bid_notional = None, tk_depth_ask_notional = None,
     tk_depth_imbalance = None, tk_microprice = de_microprice e, tk_fidelity = de_fidelity e\<rparr>"

definition block_event_row :: "i64 \<Rightarrow> i64 \<Rightarrow> i64 \<Rightarrow> nat \<times> decoded_event \<Rightarrow> replay_error + replay_row list" where
  "block_event_row start_ms end_ms block_id = (\<lambda>(index, e).
     let received = de_received_at_ms e in
     if 2 ^ 63 \<le> unat received then Inl (BlockTimestamp received)
     else if uint received < start_ms \<or> end_ms < uint received then Inr []
     else Inr [\<lparr>rw_sort_us = sort_micros received (de_received_at_us e), rw_storage_order = 2,
       rw_row_id = saturating_add (saturating_mul (u64_or_zero block_id) 10000000) (of_nat index),
       rw_tick = block_tick e\<rparr>])"

definition overlapping_blocks :: "i64 \<Rightarrow> i64 \<Rightarrow> data_db \<Rightarrow> block_row list" where
  "overlapping_blocks start_ms end_ms db =
     sort_key (\<lambda>b. (br_min_received_at_ms b, br_id b))
       (filter (\<lambda>b. start_ms \<le> br_max_received_at_ms b \<and> br_min_received_at_ms b \<le> end_ms) (rows_of (dd_clob_blocks db)))"

type_synonym block_decoder = "u8 list \<Rightarrow> string \<Rightarrow> block_error + decoded_event list"

definition block_rows :: "block_decoder \<Rightarrow> i64 \<Rightarrow> i64 \<Rightarrow> block_row \<Rightarrow> replay_error + replay_row list" where
  "block_rows decode start_ms end_ms b =
     res_bind (map_error BlockError (decode (br_payload b) (br_checksum b))) (\<lambda>decoded.
     res_bind (res_map (block_event_row start_ms end_ms (br_id b)) (enumerate 0 decoded)) (\<lambda>rows. Inr (concat rows)))"

definition load_clob_block_rows ::
  "block_decoder \<Rightarrow> i64 \<Rightarrow> i64 \<Rightarrow> data_db \<Rightarrow> replay_row list \<Rightarrow> replay_error + replay_row list" where
  "load_clob_block_rows decode start_ms end_ms db ticks =
     res_bind (res_map (block_rows decode start_ms end_ms) (overlapping_blocks start_ms end_ms db)) (\<lambda>rows.
     Inr (ticks @ concat rows))"

subsection \<open>The loader\<close>

definition legacy_tick :: "legacy_row \<Rightarrow> raw_tick" where
  "legacy_tick r = (let ts = of_int (lr_timestamp r) in
     \<lparr>tk_timestamp = ts, tk_timestamp_us = Some (saturating_mul ts 1000), tk_source = lr_source r,
      tk_event_type = ''legacy_snapshot'', tk_sequence_key = None, tk_market_id = None, tk_asset_id = None,
      tk_price = lr_price r, tk_trade_size = None, tk_signed_quantity = None, tk_bid = lr_bid r, tk_ask = lr_ask r,
      tk_bid_size = lr_bid_size r, tk_ask_size = lr_ask_size r, tk_depth_bid_notional = None,
      tk_depth_ask_notional = None, tk_depth_imbalance = None, tk_microprice = None, tk_fidelity = LegacySnapshot\<rparr>)"

definition legacy_ticks :: "i64 \<Rightarrow> i64 \<Rightarrow> data_db \<Rightarrow> replay_error + raw_tick list" where
  "legacy_ticks start_ms end_ms db = (case dd_tick_data db of None \<Rightarrow> Inl NoTickData
     | Some rows \<Rightarrow> Inr (map legacy_tick (sort_key lr_timestamp
         (filter (\<lambda>r. start_ms \<le> lr_timestamp r \<and> lr_timestamp r \<le> end_ms) rows))))"

text \<open>What the counting queries add up: rows of the row tables, and the row counts of whole overlapping blocks.\<close>

definition stored_count :: "i64 \<Rightarrow> i64 \<Rightarrow> data_db \<Rightarrow> int" where
  "stored_count start_ms end_ms db =
     int (length (feed_branch start_ms end_ms db)) + int (length (clob_branch start_ms end_ms db)) +
     sum_list (map br_row_count (overlapping_blocks start_ms end_ms db))"

definition row_key :: "replay_row \<Rightarrow> u64 \<times> u8 \<times> u64" where
  "row_key r = (rw_sort_us r, rw_storage_order r, rw_row_id r)"

definition load_ticks :: "block_decoder \<Rightarrow> data_db \<Rightarrow> u64 \<Rightarrow> u64 \<Rightarrow> replay_error + raw_tick list" where
  "load_ticks decode db start_time end_time =
     res_bind (timestamp_param start_time ''start_time'') (\<lambda>start_ms.
     res_bind (timestamp_param end_time ''end_time'') (\<lambda>end_ms.
       if (dd_feed_events db \<noteq> None \<or> dd_clob_events db \<noteq> None \<or> dd_clob_blocks db \<noteq> None) \<and>
          0 < stored_count start_ms end_ms db
       then res_bind (res_map decode_replay_row (replay_query start_ms end_ms db)) (\<lambda>rows.
            res_bind (load_clob_block_rows decode start_ms end_ms db rows) (\<lambda>ticks.
            Inr (map rw_tick (sort_key row_key ticks))))
       else legacy_ticks start_ms end_ms db))"

subsection \<open>The first timestamp\<close>

definition min_stamp :: "i64 list \<Rightarrow> i64 option" where
  "min_stamp xs = (if xs = [] then None else Some (Min (set xs)))"

definition block_timestamps :: "block_decoder \<Rightarrow> i64 \<Rightarrow> i64 \<Rightarrow> block_row \<Rightarrow> replay_error + i64 list" where
  "block_timestamps decode start_ms end_ms b =
     res_bind (map_error BlockError (decode (br_payload b) (br_checksum b))) (\<lambda>decoded.
     res_bind (res_map (\<lambda>e. if 2 ^ 63 \<le> unat (de_received_at_ms e) then Inl (BlockTimestamp (de_received_at_ms e))
         else Inr (uint (de_received_at_ms e))) decoded) (\<lambda>stamps.
     Inr (filter (\<lambda>t. start_ms \<le> t \<and> t \<le> end_ms) stamps)))"

definition first_clob_block_timestamp :: "block_decoder \<Rightarrow> i64 \<Rightarrow> i64 \<Rightarrow> data_db \<Rightarrow> replay_error + i64 option" where
  "first_clob_block_timestamp decode start_ms end_ms db =
     res_bind (res_map (block_timestamps decode start_ms end_ms) (overlapping_blocks start_ms end_ms db)) (\<lambda>stamps.
     Inr (min_stamp (concat stamps)))"

definition first_tick_timestamp :: "block_decoder \<Rightarrow> data_db \<Rightarrow> u64 \<Rightarrow> u64 \<Rightarrow> replay_error + u64 option" where
  "first_tick_timestamp decode db start_time end_time =
     res_bind (timestamp_param start_time ''start_time'') (\<lambda>start_ms.
     res_bind (timestamp_param end_time ''end_time'') (\<lambda>end_ms.
       let first_feed = min_stamp (map rc_received_at_ms (feed_branch start_ms end_ms db));
           first_clob = min_stamp (map rc_received_at_ms (clob_branch start_ms end_ms db))
       in res_bind (first_clob_block_timestamp decode start_ms end_ms db) (\<lambda>first_block.
          if first_feed \<noteq> None \<or> first_clob \<noteq> None \<or> first_block \<noteq> None
          then Inr (map_option of_int (min_stamp (map the (filter (\<lambda>x. x \<noteq> None) [first_feed, first_clob, first_block]))))
          else (case dd_tick_data db of None \<Rightarrow> Inr None
            | Some rows \<Rightarrow> Inr (map_option of_int (min_stamp (map lr_timestamp
                (filter (\<lambda>r. start_ms \<le> lr_timestamp r \<and> lr_timestamp r \<le> end_ms) rows))))))))"

end
