(* ===== verification/TickReplay.thy ===== *)
theory TickReplay
  imports TickStore
begin

section \<open>Replaying ticks in groups\<close>

text \<open>
  \<^verbatim>\<open>TickReplay\<close> of \<^verbatim>\<open>src/bots/paint/src/backtest/tick_replay.rs\<close>: a cursor over the loaded ticks that yields groups. The
  loop of \<^verbatim>\<open>next_group\<close> is a recursion on the cursor; the specification cuts the tick list with \<^const>\<open>takeWhile\<close>.
\<close>

record tick_sample =
  ts_event_type :: string
  ts_sequence_key :: "string option"
  ts_price :: "f64 option"
  ts_trade_size :: "f64 option"
  ts_signed_quantity :: "f64 option"
  ts_bid :: "f64 option"
  ts_ask :: "f64 option"
  ts_bid_size :: "f64 option"
  ts_ask_size :: "f64 option"
  ts_depth_bid_notional :: "f64 option"
  ts_depth_ask_notional :: "f64 option"
  ts_depth_imbalance :: "f64 option"
  ts_microprice :: "f64 option"

record tick_group =
  tg_timestamp :: u64
  tg_timestamp_us :: "u64 option"
  tg_binance :: "tick_sample option"
  tg_chainlink :: "tick_sample option"
  tg_clob_up :: "tick_sample option"
  tg_clob_down :: "tick_sample option"
  tg_fidelity :: ReplayFidelity

record tick_replay =
  rp_ticks :: "raw_tick list"
  rp_cursor :: nat

definition from_cached :: "raw_tick list \<Rightarrow> tick_replay" where
  "from_cached ticks = \<lparr>rp_ticks = ticks, rp_cursor = 0\<rparr>"

definition from_db :: "block_decoder \<Rightarrow> data_db \<Rightarrow> u64 \<Rightarrow> u64 \<Rightarrow> replay_error + tick_replay" where
  "from_db decode db start_time end_time =
     res_bind (load_ticks decode db start_time end_time) (\<lambda>ticks. Inr (from_cached ticks))"

definition total_ticks :: "tick_replay \<Rightarrow> nat" where
  "total_ticks r = length (rp_ticks r)"

definition rp_reset :: "tick_replay \<Rightarrow> tick_replay" where
  "rp_reset r = r\<lparr>rp_cursor := 0\<rparr>"

definition sample_of :: "raw_tick \<Rightarrow> tick_sample" where
  "sample_of t = \<lparr>ts_event_type = tk_event_type t, ts_sequence_key = tk_sequence_key t, ts_price = tk_price t,
     ts_trade_size = tk_trade_size t, ts_signed_quantity = tk_signed_quantity t, ts_bid = tk_bid t, ts_ask = tk_ask t,
     ts_bid_size = tk_bid_size t, ts_ask_size = tk_ask_size t, ts_depth_bid_notional = tk_depth_bid_notional t,
     ts_depth_ask_notional = tk_depth_ask_notional t, ts_depth_imbalance = tk_depth_imbalance t,
     ts_microprice = tk_microprice t\<rparr>"

definition add_to_group :: "raw_tick \<Rightarrow> tick_group \<Rightarrow> tick_group" where
  "add_to_group t g =
     (let s = sample_of t in
      if tk_source t = ''binance'' then g\<lparr>tg_binance := Some s\<rparr>
      else if tk_source t = ''chainlink'' then g\<lparr>tg_chainlink := Some s\<rparr>
      else if tk_source t = ''clob_up'' then g\<lparr>tg_clob_up := Some s\<rparr>
      else if tk_source t = ''clob_down'' then g\<lparr>tg_clob_down := Some s\<rparr> else g)"

definition empty_group :: "raw_tick \<Rightarrow> tick_group" where
  "empty_group t = \<lparr>tg_timestamp = tk_timestamp t, tg_timestamp_us = Some (sort_micros (tk_timestamp t) (tk_timestamp_us t)),
     tg_binance = None, tg_chainlink = None, tg_clob_up = None, tg_clob_down = None, tg_fidelity = tk_fidelity t\<rparr>"

fun group_window_ms :: "ReplayFidelity \<Rightarrow> u64" where
  "group_window_ms RawEvent = 0"
| "group_window_ms LegacySnapshot = 10"

text \<open>The condition of the loop for the tick at the cursor; \<open>first\<close> says that it is the first of the group.\<close>

definition within_window :: "bool \<Rightarrow> u64 \<Rightarrow> u64 \<Rightarrow> raw_tick \<Rightarrow> bool" where
  "within_window first ts window_ms t = (case tk_fidelity t of
     RawEvent \<Rightarrow> first | LegacySnapshot \<Rightarrow> saturating_sub (tk_timestamp t) ts \<le> window_ms)"

function group_loop :: "nat \<Rightarrow> u64 \<Rightarrow> u64 \<Rightarrow> tick_replay \<Rightarrow> tick_group \<Rightarrow> tick_group \<times> tick_replay" where
  "group_loop start ts window_ms r g =
     (if rp_cursor r < length (rp_ticks r) \<and>
         within_window (rp_cursor r = start) ts window_ms (rp_ticks r ! rp_cursor r)
      then group_loop start ts window_ms (r\<lparr>rp_cursor := rp_cursor r + 1\<rparr>) (add_to_group (rp_ticks r ! rp_cursor r) g)
      else (g, r))"
  by pat_completeness auto
termination
  by (relation "measure (\<lambda>(_, _, _, r, _). length (rp_ticks r) - rp_cursor r)") auto

declare group_loop.simps [simp del]

definition next_group :: "tick_replay \<Rightarrow> (tick_group \<times> tick_replay) option" where
  "next_group r =
     (if length (rp_ticks r) \<le> rp_cursor r then None
      else let t = rp_ticks r ! rp_cursor r
        in Some (group_loop (rp_cursor r) (tk_timestamp t) (group_window_ms (tk_fidelity t)) r (empty_group t)))"

subsection \<open>The groups of a tick list\<close>

text \<open>A later tick joins the group of \<open>t\<close> when it is a snapshot within the window of \<open>t\<close>.\<close>

definition joins :: "raw_tick \<Rightarrow> raw_tick \<Rightarrow> bool" where
  "joins t = within_window False (tk_timestamp t) (group_window_ms (tk_fidelity t))"

definition summary_of :: "raw_tick list \<Rightarrow> tick_group" where
  "summary_of ts = fold add_to_group ts (empty_group (hd ts))"

function chunks :: "raw_tick list \<Rightarrow> raw_tick list list" where
  "chunks [] = []"
| "chunks (t # ts) = (t # takeWhile (joins t) ts) # chunks (dropWhile (joins t) ts)"
  by pat_completeness auto
termination
  by (relation "measure length") (auto simp: less_Suc_eq_le length_dropWhile_le)

lemma concat_chunks: "concat (chunks ts) = ts"
  by (induction ts rule: chunks.induct) simp_all

lemma chunks_nonempty: "c \<in> set (chunks ts) \<Longrightarrow> c \<noteq> []"
  by (induction ts rule: chunks.induct) auto

lemma within_first: "within_window True (tk_timestamp t) (group_window_ms (tk_fidelity t)) t"
  by (cases "tk_fidelity t") (simp_all add: within_window_def)

text \<open>Behind the first tick the loop takes the longest run of joining ticks.\<close>

lemma group_loop_rest:
  assumes "start < rp_cursor r"
  shows "group_loop start ts win r g =
    (let taken = takeWhile (within_window False ts win) (drop (rp_cursor r) (rp_ticks r))
     in (fold add_to_group taken g, r\<lparr>rp_cursor := rp_cursor r + length taken\<rparr>))"
  using assms
proof (induction start ts win r g rule: group_loop.induct)
  case (1 start ts win r g)
  show ?case
  proof (cases "rp_cursor r < length (rp_ticks r) \<and> within_window False ts win (rp_ticks r ! rp_cursor r)")
    case True
    then have "drop (rp_cursor r) (rp_ticks r) = rp_ticks r ! rp_cursor r # drop (Suc (rp_cursor r)) (rp_ticks r)"
      by (simp add: Cons_nth_drop_Suc)
    with True 1 show ?thesis by (subst group_loop.simps) (simp add: Let_def)
  next
    case False
    then have "takeWhile (within_window False ts win) (drop (rp_cursor r) (rp_ticks r)) = []"
      by (cases "rp_cursor r < length (rp_ticks r)") (simp_all add: Cons_nth_drop_Suc[symmetric])
    with False 1(2) show ?thesis by (subst group_loop.simps) auto
  qed
qed

lemma next_group_cut:
  assumes "drop (rp_cursor r) (rp_ticks r) = t # rest"
  shows "next_group r = Some (summary_of (t # takeWhile (joins t) rest),
    r\<lparr>rp_cursor := rp_cursor r + Suc (length (takeWhile (joins t) rest))\<rparr>)"
proof -
  have c: "rp_cursor r < length (rp_ticks r)" using assms by (metis drop_eq_Nil list.distinct(1) not_le)
  have nth: "rp_ticks r ! rp_cursor r = t" "drop (Suc (rp_cursor r)) (rp_ticks r) = rest"
    using assms c by (simp_all add: Cons_nth_drop_Suc[symmetric])
  show ?thesis
    using c nth by (simp add: next_group_def Let_def group_loop.simps[of "rp_cursor r" _ _ r] within_first group_loop_rest
        joins_def summary_of_def)
qed

lemma next_group_None: "next_group r = None \<longleftrightarrow> drop (rp_cursor r) (rp_ticks r) = []"
  by (simp add: next_group_def Let_def)

lemma next_group_progress:
  assumes "next_group r = Some (g, r')"
  shows "rp_ticks r' = rp_ticks r \<and> rp_cursor r < rp_cursor r' \<and> rp_cursor r' \<le> length (rp_ticks r)"
proof -
  obtain t rest where d: "drop (rp_cursor r) (rp_ticks r) = t # rest"
    using assms next_group_None[of r] by (cases "drop (rp_cursor r) (rp_ticks r)") auto
  have "length (rp_ticks r) = rp_cursor r + Suc (length rest)"
    using arg_cong[OF d, of length] by simp
  then show ?thesis using assms length_takeWhile_le[of "joins t" rest] by (simp add: next_group_cut[OF d]) auto
qed

text \<open>Calling \<open>next_group\<close> until it returns nothing.\<close>

function replay_groups :: "tick_replay \<Rightarrow> tick_group list" where
  "replay_groups r = (case next_group r of None \<Rightarrow> [] | Some (g, r') \<Rightarrow> g # replay_groups r')"
  by pat_completeness auto
termination
  by (relation "measure (\<lambda>r. length (rp_ticks r) - rp_cursor r)") (auto dest!: next_group_progress)

declare replay_groups.simps [simp del]

lemma replay_groups_chunks: "replay_groups r = map summary_of (chunks (drop (rp_cursor r) (rp_ticks r)))"
proof (induction r rule: replay_groups.induct)
  case (1 r)
  show ?case
  proof (cases "drop (rp_cursor r) (rp_ticks r)")
    case Nil
    then show ?thesis by (subst replay_groups.simps) (simp add: next_group_None[THEN iffD2])
  next
    case (Cons t rest)
    let ?n = "Suc (length (takeWhile (joins t) rest))"
    have "drop (rp_cursor r + ?n) (rp_ticks r) = drop ?n (drop (rp_cursor r) (rp_ticks r))" by (simp add: add.commute)
    also have "\<dots> = dropWhile (joins t) rest" by (simp add: Cons dropWhile_eq_drop)
    finally show ?thesis
      using 1[OF next_group_cut[OF Cons] refl] by (subst replay_groups.simps) (simp add: next_group_cut[OF Cons] Cons)
  qed
qed

subsection \<open>What a group holds\<close>

text \<open>The sample of a source is its last tick in the group.\<close>

definition last_of :: "string \<Rightarrow> raw_tick list \<Rightarrow> tick_sample option" where
  "last_of src ts = (let own = filter (\<lambda>t. tk_source t = src) ts in if own = [] then None else Some (sample_of (last own)))"

lemma fold_add_to_group:
  "tg_binance (fold add_to_group ts g) = opt_or (last_of ''binance'' ts) (tg_binance g)"
  "tg_chainlink (fold add_to_group ts g) = opt_or (last_of ''chainlink'' ts) (tg_chainlink g)"
  "tg_clob_up (fold add_to_group ts g) = opt_or (last_of ''clob_up'' ts) (tg_clob_up g)"
  "tg_clob_down (fold add_to_group ts g) = opt_or (last_of ''clob_down'' ts) (tg_clob_down g)"
  "tg_timestamp (fold add_to_group ts g) = tg_timestamp g" "tg_timestamp_us (fold add_to_group ts g) = tg_timestamp_us g"
  "tg_fidelity (fold add_to_group ts g) = tg_fidelity g"
  by (induction ts arbitrary: g) (auto simp: last_of_def add_to_group_def Let_def opt_or_def split: option.splits)

lemma summary_of_fields:
  assumes "ts \<noteq> []"
  shows "tg_timestamp (summary_of ts) = tk_timestamp (hd ts)" "tg_fidelity (summary_of ts) = tk_fidelity (hd ts)"
    "tg_binance (summary_of ts) = last_of ''binance'' ts" "tg_chainlink (summary_of ts) = last_of ''chainlink'' ts"
    "tg_clob_up (summary_of ts) = last_of ''clob_up'' ts" "tg_clob_down (summary_of ts) = last_of ''clob_down'' ts"
  by (simp_all add: summary_of_def fold_add_to_group empty_group_def opt_or_def split: option.splits)

text \<open>Raw events are never merged with each other.\<close>

lemma raw_chunks: "\<forall>t \<in> set ts. tk_fidelity t = RawEvent \<Longrightarrow> chunks ts = map (\<lambda>t. [t]) ts"
proof (induction ts)
  case (Cons t ts)
  have none: "takeWhile (joins t) ts = []" "dropWhile (joins t) ts = ts"
    using Cons.prems by (cases ts; simp add: joins_def within_window_def)+
  show ?case using Cons by (simp add: none)
qed simp

text \<open>A group spans at most its window, and the groups of ordered ticks are ordered.\<close>

lemma chunk_window:
  assumes "c \<in> set (chunks ts)" "t \<in> set (tl c)"
  shows "tk_fidelity t = LegacySnapshot \<and> saturating_sub (tk_timestamp t) (tk_timestamp (hd c)) \<le> group_window_ms (tk_fidelity (hd c))"
  using assms
  by (induction ts rule: chunks.induct)
    (auto simp: joins_def within_window_def dest!: set_takeWhileD split: ReplayFidelity.splits)

lemma hd_chunks_sorted: "sorted (map tk_timestamp ts) \<Longrightarrow> sorted (map (\<lambda>c. tk_timestamp (hd c)) (chunks ts))"
proof (induction ts rule: chunks.induct)
  case (2 t ts)
  have s: "sorted (map tk_timestamp (dropWhile (joins t) ts))"
    using 2(2) by (metis dropWhile_eq_drop drop_map sorted_wrt_drop list.simps(9) sorted_simps(2))
  have "tk_timestamp t \<le> tk_timestamp (hd c)" if "c \<in> set (chunks (dropWhile (joins t) ts))" for c
  proof -
    have "hd c \<in> set (concat (chunks (dropWhile (joins t) ts)))"
      using that chunks_nonempty[OF that] by (metis UN_I hd_in_set set_concat)
    then have "hd c \<in> set ts" by (simp only: concat_chunks) (rule set_dropWhileD)
    then show ?thesis using 2(2) by simp
  qed
  with 2(1)[OF s] show ?case by simp
qed simp

end
