(* ===== verification/FeedState.thy ===== *)
theory FeedState
  imports TickReplay SignalFeatures
begin

section \<open>Feed state of a backtest\<close>

text \<open>
  \<^verbatim>\<open>src/bots/paint/src/backtest/feed_state.rs\<close>: the prices and books a replay has seen so far, and the updates one tick
  group makes to the signal state.
\<close>

record feed_state =
  fs_binance_price :: "f64 option"
  fs_chainlink_price :: "f64 option"
  fs_book_state :: book_state
  fs_signal_state :: signal_state
  fs_book_from_ticker :: bool

definition empty_books :: book_state where
  "empty_books = \<lparr>book_up = None, book_down = None\<rparr>"

definition fs_new :: feed_state where
  "fs_new = \<lparr>fs_binance_price = None, fs_chainlink_price = None, fs_book_state = empty_books,
     fs_signal_state = signal_state_new, fs_book_from_ticker = False\<rparr>"

definition fs_reset :: "feed_state \<Rightarrow> feed_state" where
  "fs_reset f = \<lparr>fs_binance_price = None, fs_chainlink_price = None, fs_book_state = empty_books,
     fs_signal_state = ss_reset (fs_signal_state f), fs_book_from_ticker = False\<rparr>"

definition replay_depth_size :: "f64 option \<Rightarrow> f64 option \<Rightarrow> f64 \<Rightarrow> f64" where
  "replay_depth_size sz notional price =
     (if is_some_and sz (\<lambda>x. 0 < x) then unwrap_or sz 0
      else if 0 < price then f64_max (case notional of Some v \<Rightarrow> v / price | None \<Rightarrow> 0) 0
      else 0)"

definition replay_binance_book :: "tick_sample \<Rightarrow> u64 \<Rightarrow> signal_state \<Rightarrow> signal_state" where
  "replay_binance_book s ts st = (case (ts_bid s, ts_ask s) of
     (Some bid, Some ask) \<Rightarrow> update_binance_book bid ask (unwrap_or (ts_bid_size s) 0) (unwrap_or (ts_ask_size s) 0) ts (ts_sequence_key s) st
   | _ \<Rightarrow> st)"

definition replay_binance_depth :: "tick_sample \<Rightarrow> u64 \<Rightarrow> signal_state \<Rightarrow> signal_state" where
  "replay_binance_depth s ts st = (case (ts_bid s, ts_ask s) of
     (Some bid, Some ask) \<Rightarrow> update_binance_depth
        [\<lparr>lvl_price = bid, lvl_size = replay_depth_size (ts_bid_size s) (ts_depth_bid_notional s) bid\<rparr>]
        [\<lparr>lvl_price = ask, lvl_size = replay_depth_size (ts_ask_size s) (ts_depth_ask_notional s) ask\<rparr>]
        ts (ts_sequence_key s) st
   | _ \<Rightarrow> st)"

definition replay_trade :: "tick_sample \<Rightarrow> tick_group \<Rightarrow> feed_state \<Rightarrow> feed_state" where
  "replay_trade s g f = (case ts_price s of None \<Rightarrow> f
     | Some price \<Rightarrow> f\<lparr>fs_binance_price := Some price,
         fs_signal_state := update_binance_trade price (unwrap_or (ts_trade_size s) 0) (ts_signed_quantity s)
           (tg_timestamp g) (tg_timestamp_us g) (fs_signal_state f)\<rparr>)"

definition update_binance :: "tick_group \<Rightarrow> feed_state \<Rightarrow> feed_state" where
  "update_binance g f = (case tg_binance g of None \<Rightarrow> f
     | Some s \<Rightarrow>
         if ts_event_type s = ''aggTrade'' then replay_trade s g f
         else if ts_event_type s = ''bookTicker''
         then f\<lparr>fs_signal_state := replay_binance_book s (tg_timestamp g) (fs_signal_state f), fs_book_from_ticker := True\<rparr>
         else if ts_event_type s = ''depth''
         then (let st1 = (if fs_book_from_ticker f then fs_signal_state f
                          else replay_binance_book s (tg_timestamp g) (fs_signal_state f))
               in f\<lparr>fs_signal_state := replay_binance_depth s (tg_timestamp g) st1\<rparr>)
         else (let f1 = replay_trade s g f
               in f1\<lparr>fs_signal_state := replay_binance_book s (tg_timestamp g) (fs_signal_state f1)\<rparr>))"

definition update_oracle :: "tick_group \<Rightarrow> feed_state \<Rightarrow> feed_state" where
  "update_oracle g f = (case tg_chainlink g of None \<Rightarrow> f
     | Some s \<Rightarrow> (case ts_price s of None \<Rightarrow> f
         | Some price \<Rightarrow> f\<lparr>fs_chainlink_price := Some price,
             fs_signal_state := update_chainlink price (tg_timestamp g) (tg_timestamp_us g) (fs_signal_state f)\<rparr>))"

definition replay_book :: "u64 \<Rightarrow> tick_sample option \<Rightarrow> top_of_book option \<Rightarrow> top_of_book option" where
  "replay_book ts sample old = (case sample of None \<Rightarrow> old
     | Some s \<Rightarrow> (case (ts_bid s, ts_ask s) of
         (Some bid, Some ask) \<Rightarrow> Some \<lparr>tob_best_bid = bid, tob_best_ask = ask, tob_bid_size = unwrap_or (ts_bid_size s) 0,
           tob_ask_size = unwrap_or (ts_ask_size s) 0, tob_timestamp = ts, tob_observed_at_ms = ts\<rparr>
       | _ \<Rightarrow> old))"

definition update_books :: "tick_group \<Rightarrow> feed_state \<Rightarrow> feed_state" where
  "update_books g f =
     (if tg_clob_up g \<noteq> None \<or> tg_clob_down g \<noteq> None
      then (let bs = \<lparr>book_up = replay_book (tg_timestamp g) (tg_clob_up g) (book_up (fs_book_state f)),
                      book_down = replay_book (tg_timestamp g) (tg_clob_down g) (book_down (fs_book_state f))\<rparr>
            in f\<lparr>fs_book_state := bs,
                 fs_signal_state := update_clob bs (tg_timestamp g) (tg_timestamp_us g) (fs_signal_state f)\<rparr>)
      else f)"

definition fs_update :: "tick_group \<Rightarrow> feed_state \<Rightarrow> feed_state" where
  "fs_update g f = update_books g (update_oracle g (update_binance g f))"

subsection \<open>The two copies of the books\<close>

text \<open>
  The feed state keeps the books twice: its own copy, from which each update starts, and the one in the signal state, which
  the strategies read. An update makes the second a normalised copy of the first.
\<close>

lemma replay_updates_books [simp]:
  "ss_book_state (replay_binance_book s ts st) = ss_book_state st"
  "ss_book_state (replay_binance_depth s ts st) = ss_book_state st"
  "ss_book_state (update_chainlink p ts us st) = ss_book_state st"
  "ss_book_state (update_binance_trade p q sq ts us st) = ss_book_state st"
  by (auto simp: replay_binance_book_def replay_binance_depth_def update_chainlink_def update_binance_trade_def
      update_binance_book_def update_binance_depth_def ss_prune_def Let_def split: option.splits)

lemma update_binance_books [simp]:
  "fs_book_state (update_binance g f) = fs_book_state f"
  "ss_book_state (fs_signal_state (update_binance g f)) = ss_book_state (fs_signal_state f)"
  by (auto simp: update_binance_def replay_trade_def Let_def split: option.splits)

lemma update_oracle_books [simp]:
  "fs_book_state (update_oracle g f) = fs_book_state f"
  "ss_book_state (fs_signal_state (update_oracle g f)) = ss_book_state (fs_signal_state f)"
  by (auto simp: update_oracle_def split: option.splits)

lemma update_clob_books:
  "ss_book_state (update_clob bs ts us st) =
    \<lparr>book_up = normalize_observed_timestamp (book_up bs), book_down = normalize_observed_timestamp (book_down bs)\<rparr>"
  by (auto simp: update_clob_def ss_prune_def Let_def split: option.splits)

lemma replay_book_normal: "normalize_observed_timestamp (replay_book ts sample None) = replay_book ts sample None"
  by (auto simp: replay_book_def normalize_observed_timestamp_def split: option.splits)

text \<open>
  A side without a sample keeps the book of the feed state's own copy, whatever the signal state holds. So clearing only the
  books of the signal state, as the runner does when a window opens, lasts until the next update of either side.
\<close>

lemma books_after_update:
  assumes "tg_clob_up g \<noteq> None \<or> tg_clob_down g \<noteq> None"
  shows "ss_book_state (fs_signal_state (fs_update g f)) =
    \<lparr>book_up = normalize_observed_timestamp (replay_book (tg_timestamp g) (tg_clob_up g) (book_up (fs_book_state f))),
     book_down = normalize_observed_timestamp (replay_book (tg_timestamp g) (tg_clob_down g) (book_down (fs_book_state f)))\<rparr>"
  using assms by (simp add: fs_update_def update_books_def update_clob_books Let_def)

definition clear_signal_books :: "feed_state \<Rightarrow> feed_state" where
  "clear_signal_books f = f\<lparr>fs_signal_state := (fs_signal_state f)\<lparr>ss_book_state := empty_books\<rparr>\<rparr>"

theorem stale_book_returns:
  assumes "tg_clob_up g \<noteq> None" "tg_clob_down g = None"
  shows "book_down (ss_book_state (fs_signal_state (fs_update g (clear_signal_books f)))) =
    normalize_observed_timestamp (book_down (fs_book_state f))"
  using assms by (simp add: books_after_update clear_signal_books_def replay_book_def)

text \<open>No book the signal state holds has a NaN ask when no tick has one.\<close>

definition clean_book :: "top_of_book option \<Rightarrow> bool" where
  "clean_book b \<longleftrightarrow> is_none_or b (\<lambda>x. \<not> is_nan (tob_best_ask x))"

definition clean_sample :: "tick_sample option \<Rightarrow> bool" where
  "clean_sample s \<longleftrightarrow> is_none_or s (\<lambda>x. is_none_or (ts_ask x) (\<lambda>a. \<not> is_nan a))"

definition clean_group :: "tick_group \<Rightarrow> bool" where
  "clean_group g \<longleftrightarrow> clean_sample (tg_clob_up g) \<and> clean_sample (tg_clob_down g)"

definition clean_feed :: "feed_state \<Rightarrow> bool" where
  "clean_feed f \<longleftrightarrow> clean_book (book_up (fs_book_state f)) \<and> clean_book (book_down (fs_book_state f)) \<and>
     clean_book (book_up (ss_book_state (fs_signal_state f))) \<and> clean_book (book_down (ss_book_state (fs_signal_state f)))"

lemma clean_replay_book: "clean_sample s \<Longrightarrow> clean_book b \<Longrightarrow> clean_book (replay_book ts s b)"
  by (auto simp: clean_sample_def clean_book_def replay_book_def split: option.splits)

lemma clean_normalize [simp]: "clean_book (normalize_observed_timestamp b) = clean_book b"
  by (cases b) (simp_all add: clean_book_def normalize_observed_timestamp_def)

lemma clean_feed_new: "clean_feed fs_new"
  by (simp add: clean_feed_def fs_new_def empty_books_def clean_book_def signal_state_new_def)

lemma clean_feed_update: "clean_group g \<Longrightarrow> clean_feed f \<Longrightarrow> clean_feed (fs_update g f)"
  by (auto simp: fs_update_def update_books_def clean_feed_def clean_group_def clean_replay_book update_clob_books Let_def)

lemma clean_feed_clear: "clean_feed f \<Longrightarrow> clean_feed (clear_signal_books f)"
  by (simp add: clean_feed_def clear_signal_books_def empty_books_def clean_book_def)

end
