(* ===== verification/Backtest.thy ===== *)
theory Backtest
  imports WindowManager FeedState RollingMomentum StrategyCycle PositionManager CircuitBreaker
begin

section \<open>The backtest runner\<close>

text \<open>
  \<^verbatim>\<open>src/bots/paint/src/backtest/runner.rs\<close>: one replay of recorded ticks through the whole trading core. The state of the
  run is one record; the engine, the results database and the bankroll are the \<open>world\<close> of its strategy cycle. Every reading
  of the backtest clock returns the last value set. The results rows are stamped with the system clock, whose readings
  \<open>be_wall i k\<close> (the \<open>k\<close>-th during the \<open>i\<close>-th settlement) are a parameter. A panic is \<open>None\<close>; an error ends the run.
  Printing, logging, file removal and opening the databases are left out.
\<close>

record pending_settlement =
  ps_window :: market_window
  ps_outcome :: SignalDirection

record resolution_schedule =
  os_market_resolution_at_ms :: "string \<rightharpoonup> u64"
  os_default_delay_ms :: u64

record backtest_env =
  be_config :: config
  be_parse :: "string \<Rightarrow> fee_schedule option"
  be_wall :: "nat \<Rightarrow> nat \<Rightarrow> u64"
  be_schedule :: "resolution_schedule option"

type_synonym settlement_queue = "(u64 \<times> pending_settlement list) list"

record backtest =
  bt_cycle :: cycle
  bt_open_count :: u64
  bt_breaker :: circuit_breaker
  bt_strategies :: "strategy_inst list"
  bt_pending :: settlement_queue
  bt_feed :: feed_state
  bt_momentum :: momentum_calculator
  bt_windows :: window_manager
  bt_signals :: u64
  bt_stats :: attribution
  bt_clock :: u64
  bt_settled :: nat

definition build_strategies :: "config \<Rightarrow> strategy_inst list" where
  "build_strategies c =
     (if latency_arb_enabled c then [LatencyInst (la_new (latency_arb_momentum_threshold c))] else []) @
     (if spread_capture_enabled c then [SpreadInst] else []) @
     (if calm_persistence_enabled c then [CalmInst] else [])"

subsection \<open>Observed resolution times\<close>

text \<open>The query: per market with results, the earliest resolution of one of its trades.\<close>

definition resolution_times :: "store \<Rightarrow> market_row \<Rightarrow> u64 list" where
  "resolution_times s m = [rr_resolved_at r. t \<leftarrow> db_trades s, r \<leftarrow> db_results s,
     tr_market_id (row_trade t) = mw_market_id (mk_window m) \<and> rr_trade_id r = row_id t]"

definition observed_rows :: "store \<Rightarrow> (string \<times> u64 \<times> u64) list" where
  "observed_rows s = [(mw_market_id (mk_window m), mw_end_time (mk_window m), Min (set (resolution_times s m))).
     m \<leftarrow> db_markets s, resolution_times s m \<noteq> []]"

definition load_observed_resolution_schedule :: "store \<Rightarrow> config \<Rightarrow> resolution_schedule" where
  "load_observed_resolution_schedule s c =
     (let rows = observed_rows s;
          delays = sort (map (\<lambda>(_, end_time, resolved_at). saturating_sub resolved_at end_time) rows)
      in \<lparr>os_market_resolution_at_ms = fold (\<lambda>(m, _, resolved_at) f. f(m \<mapsto> resolved_at)) rows Map.empty,
          os_default_delay_ms = (if length delays div 2 < length delays then delays ! (length delays div 2)
            else resolution_initial_delay_ms c)\<rparr>)"

subsection \<open>Settlement\<close>

definition bt_world :: "backtest \<Rightarrow> world" where
  "bt_world y = cy_world (bt_cycle y)"

definition set_world :: "world \<Rightarrow> backtest \<Rightarrow> backtest" where
  "set_world x y = y\<lparr>bt_cycle := (bt_cycle y)\<lparr>cy_world := x\<rparr>\<rparr>"

definition bt_desk :: "backtest \<Rightarrow> desk" where
  "bt_desk y = \<lparr>dk_open_count = bt_open_count y, dk_db = w_db (bt_world y), dk_bank = w_bank (bt_world y)\<rparr>"

definition set_desk :: "desk \<Rightarrow> backtest \<Rightarrow> backtest" where
  "set_desk d y = (set_world ((bt_world y)\<lparr>w_db := dk_db d, w_bank := dk_bank d\<rparr>) y)\<lparr>bt_open_count := dk_open_count d\<rparr>"

fun transition_trades :: "trade list \<Rightarrow> bankroll \<Rightarrow> bankroll" where
  "transition_trades [] b = b"
| "transition_trades (t # ts) b =
     transition_trades ts (transition_trade_to_pending_settlement (tr_entry_price t * tr_size t) (tr_strategy t) b)"

definition close_market_and_reclassify_reserve :: "market_window \<Rightarrow> world \<Rightarrow> (db_error + unit) \<times> world" where
  "close_market_and_reclassify_reserve w x =
     (case resolve_market (mw_market_id w) ''closed'' (w_db x) of
        (Inl err, s1) \<Rightarrow> (Inl err, x\<lparr>w_db := s1\<rparr>)
      | (Inr _, s1) \<Rightarrow> (case get_open_trades_for_market (mw_market_id w) s1 of
          (Inl err, s2) \<Rightarrow> (Inl err, x\<lparr>w_db := s2\<rparr>)
        | (Inr trades, s2) \<Rightarrow> (Inr (), x\<lparr>w_db := s2, w_bank := transition_trades trades (w_bank x)\<rparr>)))"

fun log_summaries :: "rejection_summary list \<Rightarrow> store \<Rightarrow> (db_error + unit) \<times> store" where
  "log_summaries [] s = (Inr (), s)"
| "log_summaries (r # rs) s = (case log_strategy_rejection_summary r s of
     (Inl err, s1) \<Rightarrow> (Inl err, s1) | (Inr _, s1) \<Rightarrow> log_summaries rs s1)"

definition persist_rejection_summaries :: "string option \<Rightarrow> u64 \<Rightarrow> cycle \<Rightarrow> (db_error + unit) \<times> cycle" where
  "persist_rejection_summaries market_id now y =
     (case (case market_id of Some m \<Rightarrow> rt_drain_market m now (cy_rejections y) | None \<Rightarrow> rt_drain_all now (cy_rejections y)) of
        (rows, rt) \<Rightarrow> (case log_summaries rows (w_db (cy_world y)) of
          (r, s1) \<Rightarrow> (r, y\<lparr>cy_rejections := rt, cy_world := (cy_world y)\<lparr>w_db := s1\<rparr>\<rparr>)))"

text \<open>A \<^verbatim>\<open>BTreeMap\<close> of due times is the list of its entries in key order.\<close>

fun schedule_pending :: "u64 \<Rightarrow> pending_settlement \<Rightarrow> settlement_queue \<Rightarrow> settlement_queue" where
  "schedule_pending t0 p [] = [(t0, [p])]"
| "schedule_pending t0 p ((t, qs) # rest) =
     (if t0 < t then (t0, [p]) # (t, qs) # rest
      else if t0 = t then (t, qs @ [p]) # rest
      else (t, qs) # schedule_pending t0 p rest)"

definition schedule_pending_market_settlement ::
  "u64 \<Rightarrow> market_window \<Rightarrow> SignalDirection \<Rightarrow> settlement_queue \<Rightarrow> settlement_queue" where
  "schedule_pending_market_settlement settle_at w outcome q = schedule_pending settle_at \<lparr>ps_window = w, ps_outcome = outcome\<rparr> q"

text \<open>The trades of a settled market are counted by the trend tracker and the breaker.\<close>

definition count_result :: "u64 \<Rightarrow> trade \<times> trade_result \<Rightarrow> backtest \<Rightarrow> backtest" where
  "count_result now = (\<lambda>(t, r) y. let won = 0 < res_pnl_net r in
     y\<lparr>bt_cycle := (bt_cycle y)\<lparr>cy_trend := st_record_outcome (family_for_strategy (tr_strategy t)) (tr_side t) won now (cy_trend (bt_cycle y))\<rparr>,
       bt_breaker := cb_record_result won now (bt_breaker y)\<rparr>)"

definition settle_market :: "backtest_env \<Rightarrow> pending_settlement \<Rightarrow> u64 \<Rightarrow> backtest \<Rightarrow> backtest" where
  "settle_market en p now y =
     (case resolve_window_with_outcome (be_parse en) (ps_window p) (ps_outcome p) (be_config en) (\<lambda>_. bt_clock y)
             (be_wall en (bt_settled y)) (bt_desk y) of
        (resolved, d) \<Rightarrow> fold (count_result now) resolved ((set_desk d y)\<lparr>bt_settled := bt_settled y + 1\<rparr>))"

text \<open>The due entries are a prefix of the queue; each is removed before its markets are settled at its own time.\<close>

fun settle_entries :: "backtest_env \<Rightarrow> settlement_queue \<Rightarrow> backtest \<Rightarrow> backtest" where
  "settle_entries en [] y = y"
| "settle_entries en ((t0, ps) # entries) y =
     settle_entries en entries (fold (\<lambda>p. settle_market en p t0) ps
       (y\<lparr>bt_clock := t0, bt_pending := filter (\<lambda>(t, _). t \<noteq> t0) (bt_pending y)\<rparr>))"

definition process_due_market_settlements :: "backtest_env \<Rightarrow> u64 \<Rightarrow> backtest \<Rightarrow> backtest" where
  "process_due_market_settlements en now y = settle_entries en (takeWhile (\<lambda>(t, _). t \<le> now) (bt_pending y)) y"

subsection \<open>One tick group\<close>

type_synonym step_result = "(db_error + unit) \<times> backtest"

definition step_feeds :: "backtest_env \<Rightarrow> tick_group \<Rightarrow> backtest \<Rightarrow> backtest" where
  "step_feeds en g y =
     (let now = tg_timestamp g;
          y1 = (process_due_market_settlements en now (y\<lparr>bt_clock := now\<rparr>))\<lparr>bt_clock := now\<rparr>;
          y2 = set_world ((bt_world y1)\<lparr>w_engine := note_replay_fidelity (tg_fidelity g) (w_engine (bt_world y1))\<rparr>) y1
      in y2\<lparr>bt_feed := fs_update g (bt_feed y2)\<rparr>)"

definition step_orders :: "backtest_env \<Rightarrow> tick_group \<Rightarrow> backtest \<Rightarrow> step_result" where
  "step_orders en g y =
     (let dc = \<lparr>dc_now = tg_timestamp g, dc_now_us = None, dc_window = map_option to_market_window (wm_current (bt_windows y)),
          dc_book = ss_book_state (fs_signal_state (bt_feed y)), dc_config = be_config en\<rparr>
      in case process_due_orders dc (bt_world y) of
          (Inl err, x1) \<Rightarrow> (Inl err, set_world x1 y)
        | (Inr _, x1) \<Rightarrow> (case take_recent_outcomes (w_engine x1) of (outs, e1) \<Rightarrow>
            (Inr (), (set_world (x1\<lparr>w_engine := e1\<rparr>) y)\<lparr>bt_stats := record_processed_outcomes outs (bt_stats y)\<rparr>)))"

definition step_momentum :: "tick_group \<Rightarrow> backtest \<Rightarrow> backtest" where
  "step_momentum g y = (case Option.bind (tg_binance g) ts_price of
     Some price \<Rightarrow> y\<lparr>bt_momentum := mc_push price (tg_timestamp g) (bt_momentum y)\<rparr> | None \<Rightarrow> y)"

definition settle_at_ms :: "backtest_env \<Rightarrow> market_window \<Rightarrow> u64 \<Rightarrow> u64" where
  "settle_at_ms en w now =
     (let initial = resolution_initial_delay_ms (be_config en)
      in max (case be_schedule en of
          Some sch \<Rightarrow> (case os_market_resolution_at_ms sch (mw_market_id w) of
              Some resolved \<Rightarrow> resolved
            | None \<Rightarrow> saturating_add (mw_end_time w) (max (os_default_delay_ms sch) initial))
        | None \<Rightarrow> saturating_add (mw_end_time w) initial) now)"

definition step_closed :: "backtest_env \<Rightarrow> u64 \<Rightarrow> settlement \<Rightarrow> backtest \<Rightarrow> step_result" where
  "step_closed en now w y =
     (let mw = to_market_window w;
          y1 = set_world ((bt_world y)\<lparr>w_db := snd (upsert_market mw (w_db (bt_world y)))\<rparr>) y
      in case close_market_and_reclassify_reserve mw (bt_world y1) of
          (Inl err, x2) \<Rightarrow> (Inl err, set_world x2 y1)
        | (Inr _, x2) \<Rightarrow>
          (case persist_rejection_summaries (Some (mw_market_id mw)) now (bt_cycle (set_world x2 y1)) of
             (Inl err, cy) \<Rightarrow> (Inl err, y1\<lparr>bt_cycle := cy\<rparr>)
           | (Inr _, cy) \<Rightarrow>
               (let y3 = y1\<lparr>bt_cycle := cy\<rparr> in
                case backtest_settlement_mode (be_config en) of
                  Immediate \<Rightarrow> (Inr (), settle_market en \<lparr>ps_window = mw, ps_outcome = se_outcome w\<rparr> now y3)
                | ObservedMarketResolution \<Rightarrow>
                    (Inr (), y3\<lparr>bt_pending := schedule_pending_market_settlement (settle_at_ms en mw now) mw (se_outcome w)
                      (bt_pending y3)\<rparr>))))"

definition step_opened :: "settlement \<Rightarrow> backtest \<Rightarrow> backtest" where
  "step_opened w y = (set_world ((bt_world y)\<lparr>w_db := snd (upsert_market (to_market_window w) (w_db (bt_world y)))\<rparr>) y)
     \<lparr>bt_feed := clear_signal_books (bt_feed y)\<rparr>"

definition step_windows :: "backtest_env \<Rightarrow> tick_group \<Rightarrow> backtest \<Rightarrow> step_result" where
  "step_windows en g y =
     (case wm_advance (tg_timestamp g) (bt_windows y) of (ev, wm) \<Rightarrow>
       (case (case we_closed ev of Some w \<Rightarrow> step_closed en (tg_timestamp g) w (y\<lparr>bt_windows := wm\<rparr>)
                                 | None \<Rightarrow> (Inr (), y\<lparr>bt_windows := wm\<rparr>)) of
          (Inl err, y1) \<Rightarrow> (Inl err, y1)
        | (Inr _, y1) \<Rightarrow> (Inr (), case we_opened ev of Some w \<Rightarrow> step_opened w y1 | None \<Rightarrow> y1)))"

definition replay_context :: "tick_group \<Rightarrow> settlement \<Rightarrow> f64 \<Rightarrow> f64 \<Rightarrow> signal_state \<Rightarrow> features \<Rightarrow> strategy_context" where
  "replay_context g w price momentum st ft = \<lparr>ctx_binance_price = price, ctx_binance_momentum = momentum,
     ctx_chainlink_price = ss_chainlink_price st, ctx_book_state = ss_book_state st,
     ctx_window_open_price = Some (se_open_price w),
     ctx_window_time_remaining_ms = saturating_sub (se_end_time w) (tg_timestamp g), ctx_now_us = tg_timestamp_us g,
     ctx_features = ft\<rparr>"

fun repeat_router_block :: "nat \<Rightarrow> attribution \<Rightarrow> attribution" where
  "repeat_router_block 0 a = a"
| "repeat_router_block (Suc n) a = repeat_router_block n (record_router_block a)"

definition record_cycle :: "cycle_result \<Rightarrow> attribution \<Rightarrow> attribution" where
  "record_cycle res a =
     fold (\<lambda>sub. record_submission (sub_family sub) (sub_regime sub) (sub_outcome sub)) (cr_submissions res)
       (repeat_router_block (unat (cr_router_blocked_count res))
         (record_candidates (cr_candidate_families res) (record_observed_regime (cr_observed_regime res) a)))"

definition step_strategies :: "backtest_env \<Rightarrow> tick_group \<Rightarrow> backtest \<Rightarrow> step_result option" where
  "step_strategies en g y =
     (case wm_current (bt_windows y) of None \<Rightarrow> Some (Inr (), y)
      | Some w \<Rightarrow> (case ss_binance_price (fs_signal_state (bt_feed y)) of None \<Rightarrow> Some (Inr (), y)
        | Some price \<Rightarrow>
          (let now = tg_timestamp g; mw = to_market_window w; momentum = mc_get (bt_momentum y)
           in case compute_features (be_parse en) (Some mw) (Some (se_open_price w)) momentum now (tg_timestamp_us g)
                     (be_config en) (fs_signal_state (bt_feed y)) of
                (ft, st) \<Rightarrow>
                 (let y1 = y\<lparr>bt_feed := (bt_feed y)\<lparr>fs_signal_state := st\<rparr>\<rparr>
                  in if \<not> cb_can_trade (bt_breaker y) now then Some (Inr (), y1)
                     else (case run_strategy_cycle (be_parse en) (replay_context g w price momentum st ft) mw (be_config en)
                             (\<lambda>_ _. bt_clock y) (tg_fidelity g) now (bt_strategies y) (bt_cycle y) of
                         None \<Rightarrow> None
                       | Some (Inl err, sts, cy) \<Rightarrow> Some (Inl err, y1\<lparr>bt_strategies := sts, bt_cycle := cy\<rparr>)
                       | Some (Inr res, sts, cy) \<Rightarrow>
                           Some (Inr (), y1\<lparr>bt_strategies := sts, bt_cycle := cy,
                             bt_stats := record_cycle res (bt_stats y),
                             bt_signals := bt_signals y + cr_signal_count_delta res\<rparr>))))))"

definition backtest_step :: "backtest_env \<Rightarrow> tick_group \<Rightarrow> backtest \<Rightarrow> step_result option" where
  "backtest_step en g y =
     (case step_orders en g (step_feeds en g y) of
        (Inl err, y1) \<Rightarrow> Some (Inl err, y1)
      | (Inr _, y1) \<Rightarrow> (case step_windows en g (step_momentum g y1) of
          (Inl err, y2) \<Rightarrow> Some (Inl err, y2)
        | (Inr _, y2) \<Rightarrow> step_strategies en g y2))"

subsection \<open>The loop\<close>

function backtest_loop :: "backtest_env \<Rightarrow> tick_replay \<Rightarrow> backtest \<Rightarrow> step_result option" where
  "backtest_loop en r y =
     (case next_group r of None \<Rightarrow> Some (Inr (), y)
      | Some (g, r') \<Rightarrow> (case backtest_step en g y of
          None \<Rightarrow> None
        | Some (Inl err, y1) \<Rightarrow> Some (Inl err, y1)
        | Some (Inr _, y1) \<Rightarrow> backtest_loop en r' y1))"
  by pat_completeness auto
termination
  by (relation "measure (\<lambda>(_, r, _). length (rp_ticks r) - rp_cursor r)") (auto dest!: next_group_progress)

declare backtest_loop.simps [simp del]

text \<open>What is left over is settled at its own times; then the remaining rejections are written.\<close>

definition finish_settlements :: "backtest_env \<Rightarrow> backtest \<Rightarrow> backtest" where
  "finish_settlements en y = fold (process_due_market_settlements en) (map fst (bt_pending y)) y"

definition finish_run :: "backtest_env \<Rightarrow> backtest \<Rightarrow> step_result" where
  "finish_run en y =
     (let y1 = finish_settlements en y
      in case persist_rejection_summaries None (bt_clock y1) (bt_cycle y1) of (r, cy) \<Rightarrow> (r, y1\<lparr>bt_cycle := cy\<rparr>))"

end
