(* ===== verification/BacktestRun.thy ===== *)
theory BacktestRun
  imports Backtest
begin

section \<open>A whole backtest\<close>

text \<open>
  \<^verbatim>\<open>run_backtest\<close> of \<^verbatim>\<open>src/bots/paint/src/backtest/runner.rs\<close>: the set-up, the loop of \<open>Backtest\<close>, the settlements left over,
  and the summary. The data database is given as the tables the run reads: the tick tables, the markets with their prices,
  and the store of the recorded run for the observed resolution times. The results database is new.
\<close>

datatype tick_source = FromDb data_db | Cached "raw_tick list"

record backtest_options =
  op_tick_source :: tick_source
  op_windows_db :: window_db
  op_recorded_run :: store
  op_start_time :: u64
  op_end_time :: u64
  op_starting_balance :: f64
  op_config :: config

datatype backtest_error =
    ConfigFailed config_error | ReplayFailed replay_error | WindowsFailed window_error | NoStrategies | DbFailed db_error

record backtest_result =
  bo_start_time :: u64
  bo_end_time :: u64
  bo_duration_hours :: f64
  bo_elapsed_seconds :: f64
  bo_total_ticks :: nat
  bo_total_windows :: nat
  bo_signals :: u64
  bo_trades :: u64
  bo_wins :: u64
  bo_losses :: u64
  bo_win_rate :: f64
  bo_final_balance :: f64
  bo_total_pnl :: f64
  bo_gross_pnl :: f64
  bo_max_drawdown_pct :: f64
  bo_high_water_mark :: f64
  bo_total_fees :: f64
  bo_pnl_net :: f64
  bo_fill_rate :: f64
  bo_partial_fill_rate :: f64
  bo_no_fill_count :: u64
  bo_spread_legging_count :: u64
  bo_residual_position_count :: u64
  bo_avg_fill_latency_ms :: f64
  bo_avg_slippage :: f64
  bo_raw_event_batches :: u64
  bo_legacy_snapshot_batches :: u64
  bo_dislocation_regime_count :: u64
  bo_structural_pair_regime_count :: u64
  bo_calm_regime_count :: u64
  bo_dislocation_queued :: u64
  bo_structural_pair_queued :: u64
  bo_calm_queued :: u64
  bo_dislocation_filled :: u64
  bo_structural_pair_filled :: u64
  bo_calm_filled :: u64
  bo_dislocation_missed :: u64
  bo_structural_pair_missed :: u64
  bo_calm_missed :: u64
  bo_latency_arb_candidates :: u64
  bo_spread_capture_candidates :: u64
  bo_calm_persistence_candidates :: u64
  bo_router_blocked_count :: u64
  bo_capital_blocked_count :: u64
  bo_latency_spread_overlap_count :: u64
  bo_latency_calm_overlap_count :: u64
  bo_spread_calm_overlap_count :: u64

definition summarize_run :: "backtest_options \<Rightarrow> f64 \<Rightarrow> nat \<Rightarrow> nat \<Rightarrow> backtest \<Rightarrow> backtest_result" where
  "summarize_run op elapsed ticks windows y =
     (let st = get_stats (w_bank (bt_world y)); es = en_stats (w_engine (bt_world y)); a = bt_stats y
      in \<lparr>bo_start_time = op_start_time op,
        bo_end_time = op_end_time op,
        bo_duration_hours = f64_of_u64 (op_end_time op - op_start_time op) / f64_lit 3600000,
        bo_elapsed_seconds = elapsed,
        bo_total_ticks = ticks,
        bo_total_windows = windows,
        bo_signals = bt_signals y,
        bo_trades = bs_total_trades st,
        bo_wins = bs_wins st,
        bo_losses = bs_losses st,
        bo_win_rate = bs_win_rate st,
        bo_final_balance = bs_current_balance st,
        bo_total_pnl = bs_total_pnl st,
        bo_gross_pnl = bs_total_pnl st + bs_total_fees st,
        bo_max_drawdown_pct = bs_max_drawdown_pct st,
        bo_high_water_mark = bs_high_water_mark st,
        bo_total_fees = bs_total_fees st,
        bo_pnl_net = bs_total_pnl st,
        bo_fill_rate = fill_rate es,
        bo_partial_fill_rate = (if st_filled_orders es = 0 then 0 else f64_of_u64 (st_partial_fills es) / f64_of_u64 (st_filled_orders es)),
        bo_no_fill_count = st_no_fills es,
        bo_spread_legging_count = st_spread_legging_failures es,
        bo_residual_position_count = st_residual_positions es,
        bo_avg_fill_latency_ms = unwrap_or (avg_fill_latency_ms es) 0,
        bo_avg_slippage = unwrap_or (avg_slippage es) 0,
        bo_raw_event_batches = st_raw_event_batches es,
        bo_legacy_snapshot_batches = st_legacy_snapshot_batches es,
        bo_dislocation_regime_count = regime_count Dislocation a,
        bo_structural_pair_regime_count = regime_count StructuralPair a,
        bo_calm_regime_count = regime_count Calm a,
        bo_dislocation_queued = queued_count Dislocation a,
        bo_structural_pair_queued = queued_count StructuralPair a,
        bo_calm_queued = queued_count Calm a,
        bo_dislocation_filled = filled_count Dislocation a,
        bo_structural_pair_filled = filled_count StructuralPair a,
        bo_calm_filled = filled_count Calm a,
        bo_dislocation_missed = missed_count Dislocation a,
        bo_structural_pair_missed = missed_count StructuralPair a,
        bo_calm_missed = missed_count Calm a,
        bo_latency_arb_candidates = candidate_count LatencyArb a,
        bo_spread_capture_candidates = candidate_count SpreadCapture a,
        bo_calm_persistence_candidates = candidate_count CalmPersistence a,
        bo_router_blocked_count = at_router_blocked a,
        bo_capital_blocked_count = at_capital_blocked a,
        bo_latency_spread_overlap_count = at_latency_spread_overlap a,
        bo_latency_calm_overlap_count = at_latency_calm_overlap a,
        bo_spread_calm_overlap_count = at_spread_calm_overlap a\<rparr>)"

definition load_replay :: "block_decoder \<Rightarrow> backtest_options \<Rightarrow> replay_error + tick_replay" where
  "load_replay decode op = (case op_tick_source op of
     FromDb db \<Rightarrow> from_db decode db (op_start_time op) (op_end_time op) | Cached ticks \<Rightarrow> Inr (from_cached ticks))"

definition initial_backtest :: "backtest_options \<Rightarrow> window_manager \<Rightarrow> store \<Rightarrow> backtest" where
  "initial_backtest op wm results =
     (let c = op_config op in case bankroll_new (op_starting_balance op) c 0 0 results of (bank, s) \<Rightarrow>
      \<lparr>bt_cycle = \<lparr>cy_world = \<lparr>w_engine = engine_new, w_db = s, w_bank = bank\<rparr>,
         cy_trend = st_new (unat (trend_filter_window c)) (trend_filter_enabled c) (trend_filter_threshold c) (trend_filter_per_strategy c),
         cy_rejections = rt_new\<rparr>,
       bt_open_count = 0, bt_breaker = cb_new (ucast (circuit_breaker_losses c)) (circuit_breaker_pause_ms c),
       bt_strategies = build_strategies c, bt_pending = [], bt_feed = fs_new, bt_momentum = mc_new (momentum_window_ms c),
       bt_windows = wm, bt_signals = 0, bt_stats = attribution_default, bt_clock = 0, bt_settled = 0\<rparr>)"

definition backtest_env_of :: "(string \<Rightarrow> fee_schedule option) \<Rightarrow> (nat \<Rightarrow> nat \<Rightarrow> u64) \<Rightarrow> backtest_options \<Rightarrow> backtest_env" where
  "backtest_env_of parse wall op = \<lparr>be_config = op_config op, be_parse = parse, be_wall = wall,
     be_schedule = (case backtest_settlement_mode (op_config op) of Immediate \<Rightarrow> None
       | ObservedMarketResolution \<Rightarrow> Some (load_observed_resolution_schedule (op_recorded_run op) (op_config op)))\<rparr>"

text \<open>The loop and what follows it. The result carries the final state, for the statements about it.\<close>

definition run_loop ::
  "backtest_env \<Rightarrow> backtest_options \<Rightarrow> f64 \<Rightarrow> tick_replay \<Rightarrow> backtest \<Rightarrow> ((backtest_error + backtest_result) \<times> backtest) option" where
  "run_loop en op elapsed r y =
     (case backtest_loop en r y of None \<Rightarrow> None
      | Some (Inl err, y1) \<Rightarrow> Some (Inl (DbFailed err), y1)
      | Some (Inr _, y1) \<Rightarrow> (case finish_run en y1 of
          (Inl err, y2) \<Rightarrow> Some (Inl (DbFailed err), y2)
        | (Inr _, y2) \<Rightarrow> Some (Inr (summarize_run op elapsed (total_ticks r) (total_windows (bt_windows y)) y2), y2)))"

definition run_backtest ::
  "(string \<Rightarrow> bool) \<Rightarrow> (string \<Rightarrow> bool) \<Rightarrow> (string \<Rightarrow> fee_schedule option) \<Rightarrow> block_decoder \<Rightarrow> (nat \<Rightarrow> nat \<Rightarrow> u64) \<Rightarrow> f64 \<Rightarrow> store \<Rightarrow>
     backtest_options \<Rightarrow> ((backtest_error + backtest_result) \<times> backtest option) option" where
  "run_backtest url_ok ip_ok parse decode wall elapsed results op =
     (case validate_config url_ok ip_ok (op_config op) of Inl err \<Rightarrow> Some (Inl (ConfigFailed err), None)
      | Inr _ \<Rightarrow> (case load_replay decode op of Inl err \<Rightarrow> Some (Inl (ReplayFailed err), None)
      | Inr replay \<Rightarrow>
        if build_strategies (op_config op) = []
        then Some (Inl NoStrategies, Some (initial_backtest op (from_settlements []) results))
        else (case wm_new (op_windows_db op) (op_start_time op) (op_end_time op) of
          Inl err \<Rightarrow> Some (Inl (WindowsFailed err), Some (initial_backtest op (from_settlements []) results))
        | Inr wm \<Rightarrow> map_option (\<lambda>(out, y). (out, Some y))
            (run_loop (backtest_env_of parse wall op) op elapsed replay (initial_backtest op wm results)))))"

end
