(* ===== verification/BankTrace.thy ===== *)
theory BankTrace
  imports CycleFacts Settlement
begin

section \<open>The bankroll moves only by its own operations\<close>

text \<open>
  Whatever the engine, the strategy cycle or the settlement of a window does to the bankroll is a sequence of the bankroll's
  public operations. Every law of the bankroll's machine therefore holds for them, without a proof of its own.
\<close>

definition bank_moves :: "bankroll \<Rightarrow> bankroll \<Rightarrow> bool" where
  "bank_moves b b' \<longleftrightarrow> (\<exists>es. list_all bk_op_counted es \<and> b' = fold bk_step es b)"

lemma bank_moves_refl [simp, intro]: "bank_moves b b"
  unfolding bank_moves_def by (rule exI[of _ "[]"]) simp

lemma bank_moves_trans: "bank_moves a b \<Longrightarrow> bank_moves b d \<Longrightarrow> bank_moves a d"
  unfolding bank_moves_def by (metis fold_append comp_apply list_all_append)

lemma bank_moves_step: "bank_moves a b \<Longrightarrow> bk_op_counted e \<Longrightarrow> bank_moves a (bk_step e b)"
  by (rule bank_moves_trans) (auto simp: bank_moves_def intro!: exI[of _ "[e]"])

lemma bank_moves_laws:
  assumes "bank_moves b b'"
  shows "ledger_ok b \<Longrightarrow> ledger_ok b'" "counts_ok b \<Longrightarrow> counts_ok b'"
    "\<not> is_nan (bk_high_water_mark b) \<Longrightarrow> bk_high_water_mark b \<le> bk_high_water_mark b'"
proof -
  obtain es where es: "list_all bk_op_counted es" "b' = fold bk_step es b" using assms by (auto simp: bank_moves_def)
  have "bk_op_ok e" if "bk_op_counted e" for e using that by (cases e) auto
  then have ok: "list_all bk_op_ok es" using es(1) by (simp add: list_all_iff)
  show "ledger_ok b \<Longrightarrow> ledger_ok b'" using ledger_machine.inv_run ok es(2) by blast
  show "counts_ok b \<Longrightarrow> counts_ok b'" using counts_machine.inv_run es by blast
  show "\<not> is_nan (bk_high_water_mark b) \<Longrightarrow> bk_high_water_mark b \<le> bk_high_water_mark b'"
    using hwm_machine.leq_run[of b es] ok es(2) by (simp add: hwm_number_def hwm_le_def)
qed

text \<open>The operations as moves.\<close>

lemma moves_release: "bank_moves a b \<Longrightarrow> bank_moves a (release_reserved_for_strategy x st b)"
  using bank_moves_step[of a b "OpReleaseStrategy x st"] by simp

lemma moves_transition: "bank_moves a b \<Longrightarrow> bank_moves a (transition_trade_to_pending_settlement x st b)"
  using bank_moves_step[of a b "OpTransition x st"] by simp

lemma moves_reserve:
  "bank_moves a b \<Longrightarrow> \<not> is_nan ep \<Longrightarrow> \<not> is_nan rp \<Longrightarrow>
     reserve_capital_with_reserve_price ep rp conf st f c now b = (t, b') \<Longrightarrow> bank_moves a b'"
  using bank_moves_step[of a b "OpReserve ep rp conf st f c now"] by simp

lemma moves_spread:
  "bank_moves a b \<Longrightarrow> \<not> is_nan up \<Longrightarrow> \<not> is_nan dn \<Longrightarrow> reserve_spread_capital up dn conf c now b = (t, b') \<Longrightarrow> bank_moves a b'"
  using bank_moves_step[of a b "OpReserveSpread up dn conf SpreadCapture c now"] by (simp add: reserve_spread_capital_def)

lemma moves_settle: "bank_moves a b \<Longrightarrow> bank_moves a (fold (settle_bank fp outcome) ts b)"
proof (induction ts arbitrary: b)
  case (Cons t ts)
  have "bank_moves a (settle_bank fp outcome t b)"
    using bank_moves_step[OF Cons.prems, of "OpResult (tr_entry_price t) (tr_size t) (if tr_side t = outcome then 1 else 0)
        (compute_taker_fee (tr_entry_price t) (tr_size t) (fee_rate fp) (exponent fp)) (tr_strategy t)"]
    by (simp add: settle_bank_def)
  then show ?case using Cons.IH by simp
qed simp

lemma single_moves:
  assumes "bank_moves a (w_bank x)" "\<not> is_nan (signal_ask sig)" "\<not> is_nan (single_order_limit_price sig c)"
    and r: "submit_single sig w c now1 now2 fid x = (r, x')"
  shows "bank_moves a (w_bank x')"
  using r by (cases rule: submit_single_cases) (use assms(1) moves_reserve[OF assms(1-3)] moves_release in auto)

lemma spread_moves:
  assumes "bank_moves a (w_bank x)" "\<forall>sig \<in> set sigs. \<not> is_nan (sig_up_ask sig) \<and> \<not> is_nan (sig_down_ask sig)"
    and r: "submit_spread parse sigs w c now0 now1 now2 fid x = (r, x')"
  shows "bank_moves a (w_bank x')"
  using r
proof (cases rule: submit_spread_cases)
  case (unsized sids reason u d t1 t2)
  then show ?thesis using moves_spread[OF assms(1)] assms(2) by blast
next
  case (undersized sids reason u d t1 t2 b1)
  then show ?thesis using moves_spread[OF assms(1)] moves_release assms(2) by metis
next
  case (queued sids orders s1 s2 u d i j t1 t2)
  then show ?thesis using spread_signal_pair_Some(1,2)[OF queued(4)] assms(2) moves_spread[OF assms(1)] by blast
qed (use assms(1) in simp_all)

lemma due_order_moves: "bank_moves a (w_bank x) \<Longrightarrow> process_due_order dc po x = (q, x') \<Longrightarrow> bank_moves a (w_bank x')"
  by (rule process_due_order_cases[of dc po x])
    (auto simp: reject_order_def fill_due_order_def Let_def moves_release split: prod.splits sum.splits if_splits)

lemma due_moves: "bank_moves a (w_bank x) \<Longrightarrow> process_due_orders dc x = (r, x') \<Longrightarrow> bank_moves a (w_bank x')"
proof -
  have "bank_moves a (w_bank x) \<Longrightarrow> due_loop dc rest kept opened gs x = (r, x') \<Longrightarrow> bank_moves a (w_bank x')" for rest kept opened gs
  proof (induction rest arbitrary: kept opened gs x)
    case (Cons po rest)
    obtain q x1 where p: "process_due_order dc po x = (q, x1)" by fastforce
    have ok: "bank_moves a (w_bank x1)" by (rule due_order_moves[OF Cons.prems(1) p])
    have ih: "bank_moves a (w_bank (x1\<lparr>w_engine := e\<rparr>))" for e using ok by simp
    show ?case using Cons.prems(2) Cons.IH[OF ok] Cons.IH[OF ih] ok by (auto simp: p split: sum.splits OrderDisposition.splits)
  qed auto
  then show "bank_moves a (w_bank x) \<Longrightarrow> process_due_orders dc x = (r, x') \<Longrightarrow> ?thesis" by (simp add: process_due_orders_def)
qed

interpretation moved_world: world_invariant "\<lambda>x. bank_moves b0 (w_bank x)" for b0
proof
  fix x :: world and e assume m: "bank_moves b0 (w_bank x)" and ok: "en_op_ok e"
  show "bank_moves b0 (w_bank (en_step e x))"
  proof (cases e)
    case (SubmitSingle sig w c now1 now2 fid)
    then show ?thesis using single_moves[OF m, of sig c w now1 now2 fid] ok by (metis en_op_ok.simps(1) en_step.simps(1) surjective_pairing)
  next
    case (SubmitSpread parse sigs w c now0 now1 now2 fid)
    then show ?thesis using spread_moves[OF m, of sigs parse w c now0 now1 now2 fid] ok
      by (metis en_op_ok.simps(2) en_step.simps(2) list_all_iff surjective_pairing)
  next
    case (ProcessDue dc)
    then show ?thesis using due_moves[OF m, of dc] by (metis en_step.simps(3) surjective_pairing)
  qed (use m in simp_all)
qed simp

lemma resolve_moves:
  assumes "resolve_window_with_outcome parse w outcome c now wall x = (rs, x')" "bank_moves a (dk_bank x)"
  shows "bank_moves a (dk_bank x')"
proof -
  obtain g s1 where g: "get_open_trades_for_market (mw_market_id w) (dk_db x) = (g, s1)" by fastforce
  show ?thesis
  proof (cases g)
    case (Inl e)
    then show ?thesis using resolve_error_effect[OF assms(1)] g assms(2) by simp
  next
    case (Inr ts)
    then show ?thesis using resolve_effect[OF assms(1) _ refl] g moves_settle[OF assms(2)] by simp
  qed
qed

end
