(* ===== verification/BacktestFacts.thy ===== *)
theory BacktestFacts
  imports BacktestRun BankTrace
begin

section \<open>A backtest keeps the invariants of the trading core\<close>

text \<open>
  The loop is proved once for any invariant of the world that the engine's steps, the settlement of a window and the
  reclassification of reserves keep; it is interpreted for the invariants of engine and ledger, and for the bankroll's moves.
\<close>

subsection \<open>What the steps leave alone\<close>

definition same_inputs :: "backtest \<Rightarrow> backtest \<Rightarrow> bool" where
  "same_inputs y y' \<longleftrightarrow> bt_strategies y' = bt_strategies y \<and> bt_feed y' = bt_feed y \<and> bt_windows y' = bt_windows y"

lemma same_inputs_refl [simp]: "same_inputs y y"
  by (simp add: same_inputs_def)

lemma same_inputs_trans: "same_inputs x y \<Longrightarrow> same_inputs y z \<Longrightarrow> same_inputs x z"
  by (simp add: same_inputs_def)

lemma set_world_simps [simp]:
  "bt_world (set_world x y) = x" "same_inputs y (set_world x y)" "bt_strategies (set_world x y) = bt_strategies y"
  "bt_feed (set_world x y) = bt_feed y" "bt_windows (set_world x y) = bt_windows y" "bt_clock (set_world x y) = bt_clock y"
  by (simp_all add: bt_world_def set_world_def same_inputs_def)

lemma set_desk_simps [simp]:
  "bt_world (set_desk d y) = (bt_world y)\<lparr>w_db := dk_db d, w_bank := dk_bank d\<rparr>" "same_inputs y (set_desk d y)"
  by (simp_all add: set_desk_def same_inputs_def set_world_def bt_world_def)

lemma bt_world_updates [simp]:
  "bt_world (y\<lparr>bt_clock := t\<rparr>) = bt_world y" "bt_world (y\<lparr>bt_pending := q\<rparr>) = bt_world y"
  "bt_world (y\<lparr>bt_settled := n\<rparr>) = bt_world y" "bt_world (y\<lparr>bt_feed := f\<rparr>) = bt_world y"
  "bt_world (y\<lparr>bt_stats := a\<rparr>) = bt_world y" "bt_world (y\<lparr>bt_momentum := m\<rparr>) = bt_world y"
  "bt_world (y\<lparr>bt_windows := w\<rparr>) = bt_world y" "bt_world (y\<lparr>bt_signals := k\<rparr>) = bt_world y"
  "bt_world (y\<lparr>bt_strategies := sts\<rparr>) = bt_world y" "bt_world (y\<lparr>bt_open_count := oc\<rparr>) = bt_world y"
  "bt_world (y\<lparr>bt_cycle := cy\<rparr>) = cy_world cy"
  by (simp_all add: bt_world_def)

lemma count_result_frame [simp]:
  "bt_world (fold (count_result now) rs y) = bt_world y" "same_inputs y (fold (count_result now) rs y)"
proof -
  have "bt_world (fold (count_result now) rs y) = bt_world y \<and> same_inputs y (fold (count_result now) rs y)"
    by (induction rs arbitrary: y) (auto simp: count_result_def Let_def bt_world_def same_inputs_def split: prod.splits)
  then show "bt_world (fold (count_result now) rs y) = bt_world y" "same_inputs y (fold (count_result now) rs y)" by blast+
qed

lemma settle_market_inputs [simp]: "same_inputs y (settle_market en p now y)"
proof -
  obtain rs d where r: "resolve_window_with_outcome (be_parse en) (ps_window p) (ps_outcome p) (be_config en) (\<lambda>_. bt_clock y)
     (be_wall en (bt_settled y)) (bt_desk y) = (rs, d)" by fastforce
  have "same_inputs y ((set_desk d y)\<lparr>bt_settled := bt_settled y + 1\<rparr>)"
    by (simp add: same_inputs_def set_desk_def set_world_def)
  then show ?thesis by (simp add: settle_market_def r) (metis count_result_frame(2) same_inputs_trans)
qed

lemma fold_settle_inputs [simp]: "same_inputs y (fold (\<lambda>p. settle_market en p now) ps y)"
  by (induction ps arbitrary: y) (auto intro: same_inputs_trans[OF settle_market_inputs])

lemma settle_entries_inputs [simp]: "same_inputs y (settle_entries en es y)"
proof (induction en es y rule: settle_entries.induct)
  case (2 en t0 ps entries y)
  let ?y1 = "y\<lparr>bt_clock := t0, bt_pending := filter (\<lambda>(t, _). t \<noteq> t0) (bt_pending y)\<rparr>"
  have y1: "same_inputs y ?y1" by (simp add: same_inputs_def)
  have y2: "same_inputs y (fold (\<lambda>p. settle_market en p t0) ps ?y1)"
    by (rule same_inputs_trans[OF y1 fold_settle_inputs])
  show ?case unfolding settle_entries.simps by (rule same_inputs_trans[OF y2 2])
qed simp

lemma process_due_inputs [simp]: "same_inputs y (process_due_market_settlements en now y)"
  by (simp add: process_due_market_settlements_def)

subsection \<open>Invariants of the world\<close>

locale run_invariant = world_invariant I for I :: "world \<Rightarrow> bool" +
  assumes I_settle: "I x \<Longrightarrow> resolve_window_with_outcome parse w outcome c now wall
        \<lparr>dk_open_count = n, dk_db = w_db x, dk_bank = w_bank x\<rparr> = (rs, d) \<Longrightarrow> I (x\<lparr>w_db := dk_db d, w_bank := dk_bank d\<rparr>)"
    and I_transition: "I x \<Longrightarrow> I (x\<lparr>w_bank := transition_trades ts (w_bank x)\<rparr>)"
begin

lemma settle_market_keeps: "I (bt_world y) \<Longrightarrow> I (bt_world (settle_market en p now y))"
  by (auto simp: settle_market_def bt_desk_def intro: I_settle split: prod.splits)

lemma fold_settle_keeps: "I (bt_world y) \<Longrightarrow> I (bt_world (fold (\<lambda>p. settle_market en p now) ps y))"
  by (induction ps arbitrary: y) (simp_all add: settle_market_keeps)

lemma settle_entries_keeps: "I (bt_world y) \<Longrightarrow> I (bt_world (settle_entries en es y))"
  by (induction en es y rule: settle_entries.induct) (simp_all add: fold_settle_keeps)

lemma process_due_keeps: "I (bt_world y) \<Longrightarrow> I (bt_world (process_due_market_settlements en now y))"
  by (simp add: process_due_market_settlements_def settle_entries_keeps)

lemma step_feeds_keeps: "I (bt_world y) \<Longrightarrow> I (bt_world (step_feeds en g y))"
  using I_step[of _ "NoteFidelity (tg_fidelity g)"] process_due_keeps[of "y\<lparr>bt_clock := tg_timestamp g\<rparr>" en "tg_timestamp g"]
  by (simp add: step_feeds_def Let_def)

lemma step_orders_keeps: "I (bt_world y) \<Longrightarrow> step_orders en g y = (r, y') \<Longrightarrow> I (bt_world y')"
proof -
  assume i: "I (bt_world y)" and s: "step_orders en g y = (r, y')"
  let ?dc = "\<lparr>dc_now = tg_timestamp g, dc_now_us = None, dc_window = map_option to_market_window (wm_current (bt_windows y)),
    dc_book = ss_book_state (fs_signal_state (bt_feed y)), dc_config = be_config en\<rparr>"
  obtain q x1 where q: "process_due_orders ?dc (bt_world y) = (q, x1)" by fastforce
  have x1: "I x1" using I_step[OF i, of "ProcessDue ?dc"] q by simp
  have "I (x1\<lparr>w_engine := snd (take_recent_outcomes (w_engine x1))\<rparr>)" using I_step[OF x1, of TakeOutcomes] by simp
  then show ?thesis using s q x1 by (auto simp: step_orders_def Let_def split: sum.splits prod.splits)
qed

lemma close_market_keeps: "I x \<Longrightarrow> close_market_and_reclassify_reserve w x = (r, x') \<Longrightarrow> I x'"
proof -
  assume "I x" "close_market_and_reclassify_reserve w x = (r, x')"
  moreover have "I (x\<lparr>w_db := s, w_bank := transition_trades ts (w_bank x)\<rparr>)" if "I x" for s ts
    using I_transition[of "x\<lparr>w_db := s\<rparr>" ts] that by simp
  ultimately show ?thesis by (auto simp: close_market_and_reclassify_reserve_def split: sum.splits prod.splits)
qed

lemma persist_keeps: "I (cy_world y) \<Longrightarrow> persist_rejection_summaries m now y = (r, y') \<Longrightarrow> I (cy_world y')"
  by (auto simp: persist_rejection_summaries_def split: prod.splits)

lemma step_closed_keeps:
  assumes "I (bt_world y)" "step_closed en now w y = (r, y')"
  shows "I (bt_world y')"
proof -
  let ?mw = "to_market_window w"
  let ?y1 = "set_world ((bt_world y)\<lparr>w_db := snd (upsert_market ?mw (w_db (bt_world y)))\<rparr>) y"
  obtain q x2 where c: "close_market_and_reclassify_reserve ?mw (bt_world ?y1) = (q, x2)" by fastforce
  obtain p cy where p: "persist_rejection_summaries (Some (mw_market_id ?mw)) now (bt_cycle (set_world x2 ?y1)) = (p, cy)" by fastforce
  have x2: "I x2" using close_market_keeps[OF _ c] assms(1) by simp
  then have cy: "I (cy_world cy)" using persist_keeps[OF _ p] by (simp add: set_world_def)
  show ?thesis using assms(2) c p x2 cy settle_market_keeps[of "?y1\<lparr>bt_cycle := cy\<rparr>"]
    by (auto simp: step_closed_def Let_def split: sum.splits BacktestSettlementMode.splits)
qed

lemma step_windows_keeps:
  assumes "I (bt_world y)" "step_windows en g y = (r, y')"
  shows "I (bt_world y')"
proof -
  obtain ev wm where a: "wm_advance (tg_timestamp g) (bt_windows y) = (ev, wm)" by fastforce
  have opened: "I (bt_world (step_opened w y1))" if "I (bt_world y1)" for w y1 using that by (simp add: step_opened_def)
  show ?thesis
  proof (cases "we_closed ev")
    case None
    then show ?thesis using assms a opened by (auto simp: step_windows_def split: option.splits)
  next
    case (Some w)
    obtain q y1 where c: "step_closed en (tg_timestamp g) w (y\<lparr>bt_windows := wm\<rparr>) = (q, y1)" by fastforce
    have "I (bt_world y1)" using step_closed_keeps[OF _ c] assms(1) by simp
    then show ?thesis using assms(2) a Some c opened by (auto simp: step_windows_def split: option.splits sum.splits)
  qed
qed

lemma step_strategies_keeps:
  assumes "I (bt_world y)" "step_strategies en g y = Some (r, y')"
    and inst: "\<forall>st \<in> set (bt_strategies y). inst_inv st" and clean: "clean_feed (bt_feed y)" and lim: "limits_ok (be_config en)"
  shows "I (bt_world y')"
proof (cases "wm_current (bt_windows y) = None \<or> ss_binance_price (fs_signal_state (bt_feed y)) = None")
  case True
  then show ?thesis using assms(1,2) by (auto simp: step_strategies_def split: option.splits)
next
  case False
  then obtain w price where w: "wm_current (bt_windows y) = Some w" "ss_binance_price (fs_signal_state (bt_feed y)) = Some price" by auto
  obtain ft st where f: "compute_features (be_parse en) (Some (to_market_window w)) (Some (se_open_price w)) (mc_get (bt_momentum y))
      (tg_timestamp g) (tg_timestamp_us g) (be_config en) (fs_signal_state (bt_feed y)) = (ft, st)" by fastforce
  have "st = ss_prune (tg_timestamp g) (fs_signal_state (bt_feed y))"
    using f by (simp add: compute_features_def Let_def split: prod.splits)
  then have bs: "ss_book_state st = ss_book_state (fs_signal_state (bt_feed y))" by (simp add: ss_prune_def Let_def)
  have b: "books_ok (replay_context g w price (mc_get (bt_momentum y)) st ft)"
    using clean by (simp add: books_ok_def replay_context_def bs clean_feed_def clean_book_def)
  have cyc: "I (cy_world cy)" if "run_strategy_cycle (be_parse en) (replay_context g w price (mc_get (bt_momentum y)) st ft)
      (to_market_window w) (be_config en) (\<lambda>_ _. bt_clock y) (tg_fidelity g) (tg_timestamp g) (bt_strategies y) (bt_cycle y) =
      Some (out, sts, cy)" for out sts cy
    using cycle_keeps[OF that inst b lim] assms(1) by (simp add: bt_world_def)
  show ?thesis using assms(1,2) w f
    by (auto simp: step_strategies_def Let_def split: if_splits option.splits sum.splits prod.splits dest: cyc)
qed

end

subsection \<open>The inputs of the strategies\<close>

text \<open>
  The strategies' own state is well formed, which a cycle needs to run; with \<open>b\<close> no quote is NaN either, which it needs to
  keep the invariants.
\<close>

definition ready :: "bool \<Rightarrow> backtest \<Rightarrow> bool" where
  "ready b y \<longleftrightarrow> (\<forall>st \<in> set (bt_strategies y). inst_inv st) \<and> (b \<longrightarrow> clean_feed (bt_feed y))"

lemma ready_same: "ready b y \<Longrightarrow> same_inputs y y' \<Longrightarrow> ready b y'"
  by (simp add: ready_def same_inputs_def)

lemma step_feeds_ready: "ready b y \<Longrightarrow> (b \<Longrightarrow> clean_group g) \<Longrightarrow> ready b (step_feeds en g y)"
proof -
  assume r: "ready b y" and c: "b \<Longrightarrow> clean_group g"
  let ?y1 = "process_due_market_settlements en (tg_timestamp g) (y\<lparr>bt_clock := tg_timestamp g\<rparr>)"
  have "same_inputs (y\<lparr>bt_clock := tg_timestamp g\<rparr>) ?y1" by simp
  then have "bt_strategies ?y1 = bt_strategies y" "bt_feed ?y1 = bt_feed y" by (simp_all add: same_inputs_def)
  then show ?thesis using r c by (simp add: step_feeds_def Let_def ready_def set_world_def clean_feed_update)
qed

lemma step_orders_inputs: "step_orders en g y = (r, y') \<Longrightarrow> same_inputs y y'"
  by (auto simp: step_orders_def Let_def same_inputs_def set_world_def split: prod.splits sum.splits)

lemma step_momentum_ready [simp]: "ready b (step_momentum g y) = ready b y" "bt_world (step_momentum g y) = bt_world y"
  "bt_windows (step_momentum g y) = bt_windows y" "bt_clock (step_momentum g y) = bt_clock y"
  by (auto simp: step_momentum_def ready_def split: option.splits)

lemma step_closed_inputs: "step_closed en now w y = (r, y') \<Longrightarrow> same_inputs y y'"
proof -
  assume s: "step_closed en now w y = (r, y')"
  have u: "set_world x y\<lparr>bt_cycle := cy\<rparr> = y\<lparr>bt_cycle := cy\<rparr>" for x cy by (simp add: set_world_def)
  have c: "same_inputs y (y\<lparr>bt_cycle := cy\<rparr>)" "same_inputs y (y\<lparr>bt_cycle := cy, bt_pending := q\<rparr>)" for cy q
    by (simp_all add: same_inputs_def)
  have m: "same_inputs y (settle_market en p now (y\<lparr>bt_cycle := cy\<rparr>))" for p cy
    by (rule same_inputs_trans[OF c(1) settle_market_inputs])
  have v: "set_world x (set_world x1 y) = set_world x y" for x x1 by (simp add: set_world_def)
  show ?thesis using s m c
    by (auto simp: step_closed_def Let_def u v split: prod.splits sum.splits BacktestSettlementMode.splits)
qed

lemma step_windows_ready: "ready b y \<Longrightarrow> step_windows en g y = (r, y') \<Longrightarrow> ready b y'"
proof -
  assume r: "ready b y" and s: "step_windows en g y = (r, y')"
  obtain ev wm where a: "wm_advance (tg_timestamp g) (bt_windows y) = (ev, wm)" by fastforce
  have o: "ready b (step_opened w y1)" if "ready b y1" for w y1
    using that by (simp add: step_opened_def ready_def set_world_def clean_feed_clear)
  have w: "ready b (y\<lparr>bt_windows := wm\<rparr>)" using r by (simp add: ready_def)
  then have c: "ready b y1" if "step_closed en (tg_timestamp g) w (y\<lparr>bt_windows := wm\<rparr>) = (q, y1)" for w q y1
    using step_closed_inputs[OF that] ready_same by blast
  show ?thesis using s a w c o by (auto simp: step_windows_def split: option.splits sum.splits prod.splits)
qed

lemma features_books:
  "compute_features parse w p m now us c st0 = (ft, st) \<Longrightarrow> ss_book_state st = ss_book_state st0"
  by (simp add: compute_features_def Let_def ss_prune_def split: prod.splits) auto

lemma step_strategies_total:
  assumes r: "ready b y" and bias: "0 \<le> calm_persistence_max_fair_bias (be_config en)"
  shows "\<exists>r y'. step_strategies en g y = Some (r, y') \<and> ready b y'"
proof (cases "wm_current (bt_windows y) = None \<or> ss_binance_price (fs_signal_state (bt_feed y)) = None")
  case True
  then show ?thesis using r by (auto simp: step_strategies_def split: option.splits)
next
  case False
  then obtain w price where w: "wm_current (bt_windows y) = Some w" "ss_binance_price (fs_signal_state (bt_feed y)) = Some price" by auto
  obtain ft st where f: "compute_features (be_parse en) (Some (to_market_window w)) (Some (se_open_price w)) (mc_get (bt_momentum y))
      (tg_timestamp g) (tg_timestamp_us g) (be_config en) (fs_signal_state (bt_feed y)) = (ft, st)" by fastforce
  have clean: "b \<longrightarrow> clean_feed ((bt_feed y)\<lparr>fs_signal_state := st\<rparr>)" using r features_books[OF f] by (simp add: ready_def clean_feed_def)
  let ?ctx = "replay_context g w price (mc_get (bt_momentum y)) st ft"
  obtain out sts cy where c: "run_strategy_cycle (be_parse en) ?ctx (to_market_window w) (be_config en) (\<lambda>_ _. bt_clock y)
      (tg_fidelity g) (tg_timestamp g) (bt_strategies y) (bt_cycle y) = Some (out, sts, cy)" "\<forall>st \<in> set sts. inst_inv st"
    using cycle_total[OF _ bias, of "bt_strategies y" "be_parse en" ?ctx "to_market_window w" "\<lambda>_ _. bt_clock y" "tg_fidelity g"
        "tg_timestamp g" "bt_cycle y"] r by (auto simp: ready_def)
  show ?thesis using r w f c clean by (cases out) (auto simp: step_strategies_def Let_def ready_def)
qed

subsection \<open>One step and the whole loop\<close>

lemma backtest_step_total:
  assumes r: "ready b y" and c: "b \<Longrightarrow> clean_group g" and bias: "0 \<le> calm_persistence_max_fair_bias (be_config en)"
  shows "\<exists>r y'. backtest_step en g y = Some (r, y') \<and> (\<forall>u. r = Inr u \<longrightarrow> ready b y')"
proof -
  obtain q1 y1 where o: "step_orders en g (step_feeds en g y) = (q1, y1)" by fastforce
  have r1: "ready b y1" using ready_same[OF step_feeds_ready[OF r c] step_orders_inputs[OF o]] .
  obtain q2 y2 where w: "step_windows en g (step_momentum g y1) = (q2, y2)" by fastforce
  have r2: "ready b y2" using step_windows_ready[OF _ w] r1 by simp
  show ?thesis using step_strategies_total[OF r2 bias, of g]
    by (auto simp: backtest_step_def o w split: sum.splits)
qed

context run_invariant
begin

lemma backtest_step_keeps:
  assumes "I (bt_world y)" "ready True y" "clean_group g" "limits_ok (be_config en)" and s: "backtest_step en g y = Some (r, y')"
  shows "I (bt_world y')"
proof -
  obtain q1 y1 where o: "step_orders en g (step_feeds en g y) = (q1, y1)" by fastforce
  have r1: "ready True y1" using ready_same[OF step_feeds_ready[OF assms(2) assms(3)] step_orders_inputs[OF o]] .
  have i1: "I (bt_world y1)" using step_orders_keeps[OF step_feeds_keeps[OF assms(1)] o] .
  obtain q2 y2 where w: "step_windows en g (step_momentum g y1) = (q2, y2)" by fastforce
  have r2: "ready True y2" using step_windows_ready[OF _ w] r1 by simp
  have i2: "I (bt_world y2)" using step_windows_keeps[OF _ w] i1 by simp
  show ?thesis using s i1 i2 step_strategies_keeps[OF i2 _ _ _ assms(4), of g] r2
    by (auto simp: backtest_step_def o w ready_def split: sum.splits)
qed

end

text \<open>The loop is a recursion over the groups of the replay.\<close>

fun run_groups :: "backtest_env \<Rightarrow> tick_group list \<Rightarrow> backtest \<Rightarrow> step_result option" where
  "run_groups en [] y = Some (Inr (), y)"
| "run_groups en (g # gs) y = (case backtest_step en g y of
     None \<Rightarrow> None | Some (Inl err, y1) \<Rightarrow> Some (Inl err, y1) | Some (Inr _, y1) \<Rightarrow> run_groups en gs y1)"

lemma loop_groups: "backtest_loop en r y = run_groups en (replay_groups r) y"
proof (induction en r y rule: backtest_loop.induct)
  case (1 en r y)
  then show ?case
    by (cases "next_group r") (auto simp: backtest_loop.simps[of en r] replay_groups.simps[of r] split: option.splits sum.splits prod.splits)
qed

lemma run_groups_total:
  "ready b y \<Longrightarrow> (b \<Longrightarrow> list_all clean_group gs) \<Longrightarrow> 0 \<le> calm_persistence_max_fair_bias (be_config en) \<Longrightarrow>
     \<exists>r y'. run_groups en gs y = Some (r, y')"
proof (induction gs arbitrary: y)
  case (Cons g gs)
  obtain q y1 where s: "backtest_step en g y = Some (q, y1)" "\<forall>u. q = Inr u \<longrightarrow> ready b y1"
    using backtest_step_total[OF Cons.prems(1) _ Cons.prems(3), of g] Cons.prems(2) by auto
  show ?case using s Cons.IH[of y1] Cons.prems(2,3) by (cases q) auto
qed simp

context run_invariant
begin

lemma run_groups_keeps:
  "I (bt_world y) \<Longrightarrow> ready True y \<Longrightarrow> list_all clean_group gs \<Longrightarrow> limits_ok (be_config en) \<Longrightarrow>
     0 \<le> calm_persistence_max_fair_bias (be_config en) \<Longrightarrow> run_groups en gs y = Some (r, y') \<Longrightarrow> I (bt_world y')"
proof (induction gs arbitrary: y)
  case (Cons g gs)
  obtain q y1 where s: "backtest_step en g y = Some (q, y1)" "\<forall>u. q = Inr u \<longrightarrow> ready True y1"
    using backtest_step_total[OF Cons.prems(2) _ Cons.prems(5), of g] Cons.prems(3) by auto
  have "I (bt_world y1)" using backtest_step_keeps[OF Cons.prems(1,2) _ Cons.prems(4) s(1)] Cons.prems(3) by simp
  then show ?case using s Cons.IH[of y1] Cons.prems(3-6) by (cases q) auto
qed simp

lemma fold_process_due_keeps: "I (bt_world y) \<Longrightarrow> I (bt_world (fold (process_due_market_settlements en) ts y))"
  by (induction ts arbitrary: y) (simp_all add: process_due_keeps)

lemma finish_keeps: "I (bt_world y) \<Longrightarrow> finish_run en y = (r, y') \<Longrightarrow> I (bt_world y')"
proof -
  assume i: "I (bt_world y)" and f: "finish_run en y = (r, y')"
  let ?y1 = "finish_settlements en y"
  have "I (bt_world ?y1)" using fold_process_due_keeps[OF i] by (simp add: finish_settlements_def)
  then show ?thesis using f persist_keeps by (auto simp: finish_run_def Let_def bt_world_def split: prod.splits)
qed

end

interpretation engine_run: run_invariant engine_inv
proof
  fix x :: world and parse w outcome c now wall n rs d
  assume i: "engine_inv x" and r: "resolve_window_with_outcome parse w outcome c now wall
        \<lparr>dk_open_count = n, dk_db = w_db x, dk_bank = w_bank x\<rparr> = (rs, d)"
  show "engine_inv (x\<lparr>w_db := dk_db d, w_bank := dk_bank d\<rparr>)"
    using i resolve_count_ledger[OF r] by (simp add: engine_inv_def queue_distinct_def)
next
  fix x :: world and ts assume i: "engine_inv x"
  have "ledger_ok b \<Longrightarrow> ledger_ok (transition_trades ts b)" for b
    by (induction ts b rule: transition_trades.induct) (simp_all add: transition_trade_to_pending_settlement_def transition_ledger)
  then show "engine_inv (x\<lparr>w_bank := transition_trades ts (w_bank x)\<rparr>)" using i by (simp add: engine_inv_def queue_distinct_def)
qed

interpretation moved_run: run_invariant "\<lambda>x. bank_moves b0 (w_bank x)" for b0
proof
  fix x :: world and parse w outcome c now wall n rs d
  assume i: "bank_moves b0 (w_bank x)" and r: "resolve_window_with_outcome parse w outcome c now wall
        \<lparr>dk_open_count = n, dk_db = w_db x, dk_bank = w_bank x\<rparr> = (rs, d)"
  show "bank_moves b0 (w_bank (x\<lparr>w_db := dk_db d, w_bank := dk_bank d\<rparr>))" using resolve_moves[OF r] i by simp
next
  fix x :: world and ts assume i: "bank_moves b0 (w_bank x)"
  have "bank_moves b0 b \<Longrightarrow> bank_moves b0 (transition_trades ts b)" for b
    by (induction ts b rule: transition_trades.induct) (simp_all add: moves_transition)
  then show "bank_moves b0 (w_bank (x\<lparr>w_bank := transition_trades ts (w_bank x)\<rparr>))" using i by simp
qed

end
