(* ===== verification/BacktestLaws.thy ===== *)
theory BacktestLaws
  imports BacktestFacts
begin

section \<open>Laws of a whole backtest\<close>

text \<open>
  The initial state of \<^verbatim>\<open>run_backtest\<close> satisfies the invariants of \<open>BacktestFacts\<close>, so its final state does. The windows of the
  run follow the times of the groups, and no settlement is left in the queue at the end.
\<close>

subsection \<open>The initial state\<close>

lemma bankroll_new_empty: "fst (bankroll_new start c now1 now2 (db_empty faults)) = new_in_memory start start c"
proof -
  have b: "fst (get_latest_balance s) \<in> {Inl SqliteError, Inr None} \<and> db_trades (snd (get_latest_balance s)) = []"
    if "db_balance_log s = []" "db_trades s = []" for s
    using that by (auto simp: get_latest_balance_def sql_call_def split: list.splits)
  have u: "(\<exists>e. fst (unresolved_trade_exposures s) = Inl e) \<or> fst (unresolved_trade_exposures s) = Inr []" if "db_trades s = []" for s
    using that by (auto simp: unresolved_trade_exposures_def unresolved_rows_def open_rows_def sql_call_def split: list.splits)
  have h: "fst (hydrate_unresolved_reserves now2 s bk) = bk" if "db_trades s = []" for s bk
    using u[OF that] by (auto simp: hydrate_unresolved_reserves_def split: prod.splits sum.splits)
  have l: "db_trades (snd (log_balance_event now1 e t a bal s)) = db_trades s" for e t a bal s
    by (simp add: log_balance_event_def sql_call_def split: list.splits)
  let ?s = "db_empty faults"
  obtain r s1 where g: "get_latest_balance ?s = (r, s1)" by fastforce
  obtain q s2 where q: "log_balance_event now1 ''init'' None 0 start s1 = (q, s2)" by fastforce
  have s1: "r \<in> {Inl SqliteError, Inr None}" "db_trades s1 = []" using b[of ?s] g by (simp_all add: db_empty_def)
  have s2: "db_trades s2 = []" using l[of "''init''" None 0 start s1] q s1 by simp
  show ?thesis using g q s1(1) h[OF s2] by (auto simp: bankroll_new_def)
qed

lemma initial_bank: "w_bank (bt_world (initial_backtest op wm (db_empty faults))) =
    new_in_memory (op_starting_balance op) (op_starting_balance op) (op_config op)"
  using bankroll_new_empty[of "op_starting_balance op" "op_config op" 0 0 faults]
  by (auto simp: initial_backtest_def Let_def bt_world_def split: prod.splits)

lemma initial_fields [simp]:
  "bt_windows (initial_backtest op wm s) = wm" "bt_pending (initial_backtest op wm s) = []"
  "bt_strategies (initial_backtest op wm s) = build_strategies (op_config op)" "bt_feed (initial_backtest op wm s) = fs_new"
  "w_engine (bt_world (initial_backtest op wm s)) = engine_new"
  by (simp_all add: initial_backtest_def Let_def bt_world_def split: prod.splits)

lemma initial_engine_inv: "engine_inv (bt_world (initial_backtest op wm (db_empty faults)))"
  by (simp add: engine_inv_def queue_distinct_def engine_new_def initial_bank new_in_memory_ledger)

lemma initial_ready: "ready b (initial_backtest op wm s)"
  by (auto simp: ready_def clean_feed_new build_strategies_def la_new_inv)

text \<open>Ticks without a NaN ask give groups without one.\<close>

definition clean_ticks :: "raw_tick list \<Rightarrow> bool" where
  "clean_ticks ts \<longleftrightarrow> (\<forall>t \<in> set ts. is_none_or (tk_ask t) (\<lambda>a. \<not> is_nan a))"

lemma clean_last: "clean_ticks ts \<Longrightarrow> clean_sample (last_of src ts)"
proof -
  assume c: "clean_ticks ts"
  let ?own = "filter (\<lambda>t. tk_source t = src) ts"
  show ?thesis
  proof (cases "?own = []")
    case False
    then have "last ?own \<in> set ts" using last_in_set[OF False] by simp
    then show ?thesis using c False by (simp add: last_of_def Let_def clean_sample_def clean_ticks_def sample_of_def)
  qed (simp add: last_of_def clean_sample_def)
qed

lemma clean_groups: "clean_ticks ts \<Longrightarrow> list_all clean_group (map summary_of (chunks ts))"
proof -
  assume c: "clean_ticks ts"
  have "clean_group (summary_of k)" if k: "k \<in> set (chunks ts)" for k
  proof -
    have "set k \<subseteq> set (concat (chunks ts))" using k by auto
    then have "clean_ticks k" using c by (auto simp: concat_chunks clean_ticks_def)
    then show ?thesis using chunks_nonempty[OF k] by (simp add: clean_group_def summary_of_fields clean_last)
  qed
  then show ?thesis by (simp add: list_all_iff)
qed

lemma groups_of_cached: "replay_groups (from_cached ts) = map summary_of (chunks ts)"
  by (simp add: replay_groups_chunks from_cached_def)

subsection \<open>Reading off a run\<close>

text \<open>The replay starts at its first tick.\<close>

lemma load_replay_cached: "load_replay decode op = Inr r \<Longrightarrow> \<exists>ticks. r = from_cached ticks"
  by (auto simp: load_replay_def from_db_def res_bind_Inr split: tick_source.splits)

text \<open>Only the replay of the source matters.\<close>

lemma run_backtest_source:
  assumes "load_replay decode (op\<lparr>op_tick_source := a\<rparr>) = load_replay decode (op\<lparr>op_tick_source := b\<rparr>)"
  shows "run_backtest url_ok ip_ok parse decode wall elapsed results (op\<lparr>op_tick_source := a\<rparr>) =
    run_backtest url_ok ip_ok parse decode wall elapsed results (op\<lparr>op_tick_source := b\<rparr>)"
proof -
  have i: "initial_backtest (op\<lparr>op_tick_source := s\<rparr>) = initial_backtest op" for s by (intro ext) (simp add: initial_backtest_def)
  have e: "backtest_env_of parse wall (op\<lparr>op_tick_source := s\<rparr>) = backtest_env_of parse wall op" for s by (simp add: backtest_env_of_def split: BacktestSettlementMode.splits)
  have m: "summarize_run (op\<lparr>op_tick_source := s\<rparr>) = summarize_run op" for s by (intro ext) (simp add: summarize_run_def Let_def)
  have l: "run_loop en (op\<lparr>op_tick_source := s\<rparr>) = run_loop en op" for en s
    by (intro ext) (simp add: run_loop_def m split: option.splits sum.splits prod.splits)
  show ?thesis by (simp add: run_backtest_def assms i e l split: sum.splits)
qed

lemma run_loop_total:
  assumes "ready False y" "0 \<le> calm_persistence_max_fair_bias (be_config en)"
  shows "run_loop en op elapsed (from_cached ts) y \<noteq> None"
proof -
  obtain q y1 where "run_groups en (map summary_of (chunks ts)) y = Some (q, y1)"
    using run_groups_total[OF assms(1) _ assms(2)] by blast
  then show ?thesis by (auto simp: run_loop_def loop_groups groups_of_cached split: sum.splits prod.splits)
qed

lemma run_loop_result:
  assumes "run_loop en op elapsed r y = Some (Inr res, y')"
  obtains y1 where "run_groups en (replay_groups r) y = Some (Inr (), y1)" "finish_run en y1 = (Inr (), y')"
    "res = summarize_run op elapsed (total_ticks r) (total_windows (bt_windows y)) y'"
  using assms by (auto simp: run_loop_def loop_groups split: option.splits sum.splits prod.splits)

lemma summarize_counts:
  "bo_wins (summarize_run op e n m y) = bk_total_wins (w_bank (bt_world y))"
  "bo_losses (summarize_run op e n m y) = bk_total_losses (w_bank (bt_world y))"
  "bo_trades (summarize_run op e n m y) = bk_total_trades (w_bank (bt_world y))"
  by (simp_all add: summarize_run_def Let_def get_stats_def)

context run_invariant
begin

lemma run_loop_keeps:
  assumes "I (bt_world y)" "ready True y" "clean_ticks ts" "limits_ok (be_config en)" "0 \<le> calm_persistence_max_fair_bias (be_config en)"
    and "run_loop en op elapsed (from_cached ts) y = Some (out, y')"
  shows "I (bt_world y')"
proof -
  obtain q y1 where g: "run_groups en (map summary_of (chunks ts)) y = Some (q, y1)"
    using assms(6) by (auto simp: run_loop_def loop_groups groups_of_cached split: option.splits)
  have "I (bt_world y1)" by (rule run_groups_keeps[OF assms(1,2) clean_groups[OF assms(3)] assms(4,5) g])
  moreover obtain q2 y2 where "finish_run en y1 = (q2, y2)" by fastforce
  ultimately show ?thesis using assms(6) g finish_keeps
    by (cases q; cases q2) (auto simp: run_loop_def loop_groups groups_of_cached)
qed

end


subsection \<open>The windows of a run\<close>

lemma wm_follow_simps [simp]: "wm_follow [] m = m" "wm_follow (t # ts) m = wm_follow ts (snd (wm_advance t m))"
  by (simp_all add: wm_follow_def)

text \<open>The windows the manager closes at the given times.\<close>

fun wm_closings :: "u64 list \<Rightarrow> window_manager \<Rightarrow> settlement list" where
  "wm_closings [] m = []"
| "wm_closings (t # ts) m = (case we_closed (fst (wm_advance t m)) of Some w \<Rightarrow> [w] | None \<Rightarrow> []) @
     wm_closings ts (snd (wm_advance t m))"

text \<open>The same without the manager: the windows that hold one time and have ended by the next.\<close>

fun left_windows :: "settlement list \<Rightarrow> u64 list \<Rightarrow> settlement list" where
  "left_windows ws (x # y # xs) = (case window_at ws x of
     Some w \<Rightarrow> if se_end_time w \<le> y then [w] else [] | None \<Rightarrow> []) @ left_windows ws (y # xs)"
| "left_windows ws xs = []"

lemma closings_left:
  assumes "in_sequence (wm_windows m)" "sorted (x # xs)" "behind x m" "wm_current m = window_at (wm_windows m) x"
  shows "wm_closings xs m = left_windows (wm_windows m) (x # xs)"
  using assms
proof (induction xs arbitrary: x m)
  case (Cons y xs)
  obtain ev m' where a: "wm_advance y m = (ev, m')" by fastforce
  have b: "behind y m" using behind_later[OF Cons.prems(3)] Cons.prems(2) by simp
  note e = advance_effect[OF a b Cons.prems(1)]
  have "wm_closings xs m' = left_windows (wm_windows m') (y # xs)"
    by (rule Cons.IH) (use e Cons.prems(1,2) in auto)
  then show ?case using a e Cons.prems(4) by (simp split: option.splits)
qed simp

lemma closings_start:
  assumes "in_sequence ws" "sorted xs"
  shows "wm_closings xs (from_settlements ws) = left_windows ws xs"
proof (cases xs)
  case (Cons x rest)
  obtain ev m' where a: "wm_advance x (from_settlements ws) = (ev, m')" by fastforce
  have w: "wm_windows (from_settlements ws) = ws" "wm_current (from_settlements ws) = None" by (simp_all add: from_settlements_def)
  note e = advance_effect[OF a behind_start, unfolded w, OF assms(1)]
  show ?thesis using closings_left[of m' x rest] e assms a Cons by simp
qed simp

subsection \<open>The settlement queue\<close>

definition queue_ok :: "settlement_queue \<Rightarrow> bool" where
  "queue_ok q \<longleftrightarrow> sorted_wrt (<) (map fst q)"

definition pending_size :: "settlement_queue \<Rightarrow> nat" where
  "pending_size q = sum_list (map (length \<circ> snd) q)"

text \<open>Windows settled or waiting to be settled.\<close>

definition accounted :: "backtest \<Rightarrow> nat" where
  "accounted y = bt_settled y + pending_size (bt_pending y)"

lemma schedule_pending_keys: "set (map fst (schedule_pending t p q)) = insert t (set (map fst q))"
  by (induction t p q rule: schedule_pending.induct) auto

lemma schedule_pending_queue:
  "queue_ok q \<Longrightarrow> queue_ok (schedule_pending t p q)" "pending_size (schedule_pending t p q) = Suc (pending_size q)"
proof -
  show "queue_ok q \<Longrightarrow> queue_ok (schedule_pending t p q)"
  proof (induction t p q rule: schedule_pending.induct)
    case (2 t0 p t qs rest)
    then show ?case using schedule_pending_keys[of t0 p rest] by (auto simp: queue_ok_def)
  qed (simp add: queue_ok_def)
  show "pending_size (schedule_pending t p q) = Suc (pending_size q)"
    by (induction t p q rule: schedule_pending.induct) (simp_all add: pending_size_def)
qed

lemma count_results_queue [simp]:
  "bt_pending (fold (count_result now) rs y) = bt_pending y" "bt_settled (fold (count_result now) rs y) = bt_settled y"
  by (induction rs arbitrary: y) (simp_all add: count_result_def Let_def split: prod.splits)

lemma set_world_queue [simp]: "bt_pending (set_world x y) = bt_pending y" "bt_settled (set_world x y) = bt_settled y"
  by (simp_all add: set_world_def)

lemma settle_market_queue [simp]:
  "bt_pending (settle_market en p now y) = bt_pending y" "bt_settled (settle_market en p now y) = bt_settled y + 1"
  by (simp_all add: settle_market_def set_desk_def split: prod.splits)

lemma fold_settle_queue [simp]:
  "bt_pending (fold (\<lambda>p. settle_market en p now) ps y) = bt_pending y"
  "bt_settled (fold (\<lambda>p. settle_market en p now) ps y) = bt_settled y + length ps"
  by (induction ps arbitrary: y) simp_all

lemma settle_entries_effect:
  "queue_ok (bt_pending y) \<Longrightarrow> bt_pending y = es @ rest \<Longrightarrow>
     bt_pending (settle_entries en es y) = rest \<and> bt_settled (settle_entries en es y) = bt_settled y + pending_size es"
proof (induction en es y rule: settle_entries.induct)
  case (2 en t0 ps es y)
  have q: "queue_ok ((t0, ps) # es @ rest)" using 2 by simp
  have "\<forall>x \<in> set (es @ rest). t0 < fst x" using q by (auto simp: queue_ok_def)
  then have "\<forall>x \<in> set (es @ rest). case x of (t, _) \<Rightarrow> t \<noteq> t0" by (simp add: case_prod_unfold Ball_def) blast
  then have "filter (\<lambda>(t, _). t \<noteq> t0) (es @ rest) = es @ rest" by (simp only: filter_id_conv)
  then have f: "filter (\<lambda>(t, _). t \<noteq> t0) (bt_pending y) = es @ rest" using 2(3) by simp
  have "queue_ok (es @ rest)" using q by (simp add: queue_ok_def)
  then show ?case using 2(1) f by (simp add: pending_size_def)
qed (simp add: pending_size_def)

lemma dropWhile_due: "queue_ok q \<Longrightarrow> dropWhile (\<lambda>(t, _). t \<le> now) q = filter (\<lambda>(t, _). now < t) q"
proof (induction q)
  case (Cons e q)
  show ?case
  proof (cases "fst e \<le> now")
    case False
    then have "\<forall>x \<in> set (e # q). now < fst x" using Cons.prems by (fastforce simp: queue_ok_def)
    then have "filter (\<lambda>(t, _). now < t) (e # q) = e # q" by (auto simp: filter_id_conv)
    then show ?thesis using False by (simp add: case_prod_unfold)
  qed (use Cons in \<open>auto simp: queue_ok_def case_prod_unfold\<close>)
qed simp

lemma process_due_queue:
  assumes "queue_ok (bt_pending y)"
  shows "bt_pending (process_due_market_settlements en now y) = filter (\<lambda>(t, _). now < t) (bt_pending y)"
    "accounted (process_due_market_settlements en now y) = accounted y"
    "queue_ok (bt_pending (process_due_market_settlements en now y))"
proof -
  let ?P = "\<lambda>(t, _). t \<le> now"
  note e = settle_entries_effect[OF assms takeWhile_dropWhile_id[of ?P, symmetric], of en]
  show p: "bt_pending (process_due_market_settlements en now y) = filter (\<lambda>(t, _). now < t) (bt_pending y)"
    using e by (simp add: process_due_market_settlements_def dropWhile_due[OF assms])
  have "pending_size (bt_pending y) = pending_size (takeWhile ?P (bt_pending y)) + pending_size (dropWhile ?P (bt_pending y))"
    by (metis (no_types, lifting) pending_size_def map_append sum_list_append takeWhile_dropWhile_id)
  then show "accounted (process_due_market_settlements en now y) = accounted y"
    using e by (simp add: process_due_market_settlements_def accounted_def)
  show "queue_ok (bt_pending (process_due_market_settlements en now y))"
    using assms by (simp add: p queue_ok_def sorted_wrt_map sorted_wrt_filter)
qed

text \<open>What is left at the end is settled.\<close>

lemma fold_due_queue:
  "queue_ok (bt_pending y) \<Longrightarrow>
     bt_pending (fold (process_due_market_settlements en) ts y) = filter (\<lambda>(t, _). \<forall>s \<in> set ts. s < t) (bt_pending y) \<and>
     accounted (fold (process_due_market_settlements en) ts y) = accounted y"
proof (induction ts arbitrary: y)
  case (Cons s ts)
  show ?case using Cons.IH[OF process_due_queue(3)[OF Cons.prems, of en s]] process_due_queue[OF Cons.prems, of en s]
    by (auto simp: case_prod_unfold intro!: filter_cong)
qed simp

lemma finish_settlements_queue:
  assumes "queue_ok (bt_pending y)"
  shows "bt_pending (finish_settlements en y) = []" "bt_settled (finish_settlements en y) = accounted y"
proof -
  note e = fold_due_queue[OF assms, of en "map fst (bt_pending y)"]
  show p: "bt_pending (finish_settlements en y) = []"
    using e by (auto simp: finish_settlements_def filter_empty_conv)
  have "accounted (finish_settlements en y) = accounted y" using e by (simp add: finish_settlements_def)
  then show "bt_settled (finish_settlements en y) = accounted y" by (simp add: accounted_def p pending_size_def)
qed


subsection \<open>Every window that is left is settled once\<close>

lemma step_feeds_queue:
  assumes "queue_ok (bt_pending y)"
  shows "accounted (step_feeds en g y) = accounted y" "queue_ok (bt_pending (step_feeds en g y))"
    "bt_windows (step_feeds en g y) = bt_windows y"
proof -
  let ?y0 = "y\<lparr>bt_clock := tg_timestamp g\<rparr>"
  have q: "queue_ok (bt_pending ?y0)" "accounted ?y0 = accounted y" using assms by (simp_all add: accounted_def)
  note p = process_due_queue[OF q(1), of en "tg_timestamp g"]
  show "accounted (step_feeds en g y) = accounted y" "queue_ok (bt_pending (step_feeds en g y))"
    using p(2,3) q(2) by (simp_all add: step_feeds_def Let_def accounted_def)
  show "bt_windows (step_feeds en g y) = bt_windows y"
    using process_due_inputs[of ?y0 en "tg_timestamp g"] by (simp add: step_feeds_def Let_def same_inputs_def)
qed

text \<open>The parts of a step that leave windows and settlements alone.\<close>

definition same_queue :: "backtest \<Rightarrow> backtest \<Rightarrow> bool" where
  "same_queue y y' \<longleftrightarrow> bt_pending y' = bt_pending y \<and> bt_settled y' = bt_settled y \<and> bt_windows y' = bt_windows y"

lemma step_orders_queue: "step_orders en g y = (r, y') \<Longrightarrow> same_queue y y'"
  by (auto simp: step_orders_def Let_def same_queue_def split: prod.splits sum.splits)

lemma step_momentum_queue: "same_queue y (step_momentum g y)"
  by (simp add: step_momentum_def same_queue_def split: option.splits)

lemma step_strategies_queue: "step_strategies en g y = Some (r, y') \<Longrightarrow> same_queue y y'"
  by (auto simp: step_strategies_def Let_def same_queue_def split: option.splits prod.splits sum.splits if_splits)

lemma step_closed_queue:
  assumes "step_closed en now w y = (Inr u, y')" "queue_ok (bt_pending y)"
  shows "accounted y' = Suc (accounted y) \<and> queue_ok (bt_pending y') \<and> bt_windows y' = bt_windows y"
proof -
  have w: "bt_windows y' = bt_windows y" using step_closed_inputs[OF assms(1)] by (simp add: same_inputs_def)
  show ?thesis using assms w
    by (auto simp: step_closed_def Let_def accounted_def schedule_pending_market_settlement_def schedule_pending_queue
        split: prod.splits sum.splits BacktestSettlementMode.splits)
qed

lemma step_windows_queue:
  assumes "step_windows en g y = (Inr u, y')" "queue_ok (bt_pending y)"
  shows "bt_windows y' = snd (wm_advance (tg_timestamp g) (bt_windows y)) \<and> queue_ok (bt_pending y') \<and>
    accounted y' = accounted y + (if we_closed (fst (wm_advance (tg_timestamp g) (bt_windows y))) = None then 0 else 1)"
proof -
  obtain ev wm where a: "wm_advance (tg_timestamp g) (bt_windows y) = (ev, wm)" by fastforce
  have o: "same_queue y1 (step_opened w y1)" for w y1 by (simp add: step_opened_def same_queue_def)
  let ?y0 = "y\<lparr>bt_windows := wm\<rparr>"
  have y0: "queue_ok (bt_pending ?y0)" "accounted ?y0 = accounted y" using assms(2) by (simp_all add: accounted_def)
  show ?thesis
  proof (cases "we_closed ev")
    case None
    then show ?thesis using assms a o[of ?y0] by (auto simp: step_windows_def same_queue_def accounted_def split: option.splits)
  next
    case (Some w)
    obtain q y1 where c: "step_closed en (tg_timestamp g) w ?y0 = (q, y1)" by fastforce
    obtain v where q: "q = Inr v" using assms(1) a Some c by (cases q) (auto simp: step_windows_def)
    then show ?thesis using assms(1) a Some c step_closed_queue[OF c[unfolded q] y0(1)] y0(2) o[of y1]
      by (auto simp: step_windows_def same_queue_def accounted_def split: option.splits)
  qed
qed

lemma backtest_step_queue:
  assumes "backtest_step en g y = Some (Inr u, y')" "queue_ok (bt_pending y)"
  shows "bt_windows y' = snd (wm_advance (tg_timestamp g) (bt_windows y)) \<and> queue_ok (bt_pending y') \<and>
    accounted y' = accounted y + (if we_closed (fst (wm_advance (tg_timestamp g) (bt_windows y))) = None then 0 else 1)"
proof -
  obtain q1 y1 where o: "step_orders en g (step_feeds en g y) = (q1, y1)" by fastforce
  obtain q2 y2 where w: "step_windows en g (step_momentum g y1) = (q2, y2)" by fastforce
  obtain u1 u2 where q: "q1 = Inr u1" "q2 = Inr u2" "step_strategies en g y2 = Some (Inr u, y')"
    using assms(1) o w by (auto simp: backtest_step_def split: sum.splits)
  note f = step_feeds_queue[OF assms(2), of en g]
  have y1: "bt_windows (step_momentum g y1) = bt_windows y" "queue_ok (bt_pending (step_momentum g y1))"
    "accounted (step_momentum g y1) = accounted y"
    using f step_orders_queue[OF o] step_momentum_queue[of y1 g] by (simp_all add: same_queue_def accounted_def)
  show ?thesis using step_windows_queue[OF w[unfolded q] y1(2)] y1 step_strategies_queue[OF q(3)]
    by (simp add: same_queue_def accounted_def)
qed

lemma run_groups_queue:
  "run_groups en gs y = Some (Inr u, y') \<Longrightarrow> queue_ok (bt_pending y) \<Longrightarrow>
     bt_windows y' = wm_follow (map tg_timestamp gs) (bt_windows y) \<and> queue_ok (bt_pending y') \<and>
     accounted y' = accounted y + length (wm_closings (map tg_timestamp gs) (bt_windows y))"
proof (induction gs arbitrary: y)
  case (Cons g gs)
  obtain v y1 where s: "backtest_step en g y = Some (Inr v, y1)" "run_groups en gs y1 = Some (Inr u, y')"
    using Cons.prems(1) by (auto split: option.splits sum.splits)
  note b = backtest_step_queue[OF s(1) Cons.prems(2)]
  show ?case using Cons.IH[OF s(2)] b by (auto split: option.splits)
qed simp

text \<open>The times of the groups, straight from the ticks.\<close>

definition group_times :: "raw_tick list \<Rightarrow> u64 list" where
  "group_times ts = map (\<lambda>k. tk_timestamp (hd k)) (chunks ts)"

lemma group_times_eq: "map tg_timestamp (map summary_of (chunks ts)) = group_times ts"
  by (auto simp: group_times_def summary_of_fields chunks_nonempty)

lemma finish_run_settled:
  assumes "finish_run en y = (r, y')" "queue_ok (bt_pending y)"
  shows "bt_pending y' = [] \<and> bt_settled y' = accounted y \<and> bt_windows y' = bt_windows y"
proof -
  have "same_inputs x (fold (process_due_market_settlements en) ts x)" for ts x
    by (induction ts arbitrary: x) (auto intro: same_inputs_trans[OF process_due_inputs])
  then have "bt_windows (finish_settlements en y) = bt_windows y" by (simp add: finish_settlements_def same_inputs_def)
  then show ?thesis using assms finish_settlements_queue[OF assms(2), of en] by (auto simp: finish_run_def Let_def split: prod.splits)
qed

lemma run_loop_settled:
  assumes "run_loop en op elapsed (from_cached ts) y = Some (Inr res, y')" "bt_pending y = []" "bt_settled y = 0"
    "bt_windows y = from_settlements ws" "in_sequence ws" "sorted (group_times ts)"
  shows "bt_pending y' = [] \<and> bt_settled y' = length (left_windows ws (group_times ts))"
proof -
  obtain y1 where r: "run_groups en (map summary_of (chunks ts)) y = Some (Inr (), y1)" "finish_run en y1 = (Inr (), y')"
    using run_loop_result[OF assms(1)] by (auto simp: groups_of_cached)
  have q: "queue_ok (bt_pending y)" "accounted y = 0" using assms(2,3) by (simp_all add: queue_ok_def accounted_def pending_size_def)
  note g = run_groups_queue[OF r(1) q(1), unfolded group_times_eq]
  show ?thesis using finish_run_settled[OF r(2)] g q(2) closings_start[OF assms(5,6)] assms(4) by simp
qed

end
