(* ===== verification/BacktestInstances.thy ===== *)
theory BacktestInstances
  imports BacktestLaws Instances
begin

section \<open>A concrete backtest\<close>

text \<open>
  One market window and two cached ticks: the first, a quote of the up side, opens the window, and the second, an oracle price
  half a second after its end, closes it. Nothing is traded, for there is no Binance price; the window is settled at the end of the run.
\<close>

definition blank_tick :: "u64 \<Rightarrow> string \<Rightarrow> raw_tick" where
  "blank_tick ts source = \<lparr>tk_timestamp = ts, tk_timestamp_us = None, tk_source = source, tk_event_type = ''best_bid_ask'',
     tk_sequence_key = None, tk_market_id = None, tk_asset_id = None, tk_price = None, tk_trade_size = None,
     tk_signed_quantity = None, tk_bid = None, tk_ask = None, tk_bid_size = None, tk_ask_size = None,
     tk_depth_bid_notional = None, tk_depth_ask_notional = None, tk_depth_imbalance = None, tk_microprice = None,
     tk_fidelity = RawEvent\<rparr>"

definition demo_ticks :: "raw_tick list" where
  "demo_ticks = [(blank_tick 1500 ''clob_up'')\<lparr>tk_bid := Some 0, tk_ask := Some 1\<rparr>,
     (blank_tick 2500 ''chainlink'')\<lparr>tk_price := Some 1\<rparr>]"

definition demo_settlement :: settlement where
  "demo_settlement = \<lparr>se_market_id = ''m1'', se_question = ''q'', se_up_token_id = ''up'', se_down_token_id = ''down'',
     se_condition_id = ''c'', se_slug = ''s'', se_start_time = 1000, se_end_time = 2000, se_open_price = 1, se_close_price = 1,
     se_outcome = Up, se_resolution_source = None, se_fee_profile = None, se_order_min_size = None,
     se_order_price_min_tick_size = None, se_maker_base_fee = None, se_taker_base_fee = None, se_rewards_min_size = None,
     se_rewards_max_spread = None, se_fees_enabled = None, se_fee_schedule_json = None, se_token_fee_rates_json = None,
     se_accepting_orders = None, se_accepting_orders_timestamp = None, se_clear_book_on_start = None\<rparr>"

definition demo_windows :: window_db where
  "demo_windows = \<lparr>wd_markets = [\<lparr>sw_settlement = demo_settlement, sw_start_time = 1000, sw_end_time = 2000,
     sw_open_price = Some 1, sw_close_price = Some 1, sw_outcome = Some ''UP''\<rparr>], wd_tick_data = None, wd_feed_events = None\<rparr>"

definition demo_options :: backtest_options where
  "demo_options = \<lparr>op_tick_source = Cached demo_ticks, op_windows_db = demo_windows, op_recorded_run = db_empty [],
     op_start_time = 1000, op_end_time = 3000, op_starting_balance = f64_lit 1024, op_config = demo\<rparr>"

lemma demo_clean: "clean_ticks demo_ticks" "sorted (map tk_timestamp demo_ticks)"
  by (simp_all add: clean_ticks_def demo_ticks_def blank_tick_def)

lemma demo_limits: "limits_ok demo" "0 \<le> calm_persistence_max_fair_bias demo"
  by (simp_all add: limits_ok_def demo_def config_default_def) code_simp

lemma demo_wm: "wm_new demo_windows 1000 3000 = Inr (from_settlements [demo_settlement])"
proof -
  have r: "read_market_settlement_row \<lparr>sw_settlement = demo_settlement, sw_start_time = 1000, sw_end_time = 2000,
      sw_open_price = Some 1, sw_close_price = Some 1, sw_outcome = Some ''UP''\<rparr> ''UP'' = Inr demo_settlement"
    by (simp add: read_market_settlement_row_def parse_market_outcome_def direction_from_str_def demo_settlement_def)
  have p: "apply_replay_price (demo_windows\<lparr>wd_markets := ms\<rparr>) demo_settlement = Inr demo_settlement" for ms
    by (simp add: apply_replay_price_def replay_native_open_price_def replay_native_close_price_def demo_windows_def
        earliest_tick_data_binance_price_def earliest_feed_event_binance_price_def latest_tick_data_binance_price_def
        latest_feed_event_binance_price_def price_query_def)
  have q: "apply_replay_price demo_windows demo_settlement = Inr demo_settlement"
    using p[of "wd_markets demo_windows"] by simp
  show ?thesis unfolding wm_new_def load_settlements_def window_param_def apply_replay_prices_def
    by (simp add: q, simp add: demo_windows_def r q[unfolded demo_windows_def])
qed

definition demo_start :: backtest where
  "demo_start = initial_backtest demo_options (from_settlements [demo_settlement]) (db_empty [])"

definition demo_env :: backtest_env where
  "demo_env = backtest_env_of (\<lambda>_. None) (\<lambda>_ _. 0) demo_options"

lemma demo_groups: "map summary_of (chunks demo_ticks) = [summary_of [demo_ticks ! 0], summary_of [demo_ticks ! 1]]"
  by (simp add: demo_ticks_def blank_tick_def joins_def within_window_def)

subsection \<open>A run without Binance prices does not fail\<close>

text \<open>
  Without a Binance tick the feed has no Binance price and the strategies do not run; with no fault of the database and no
  trade in it, every statement of the run succeeds.
\<close>

definition quiet_db :: "store \<Rightarrow> bool" where
  "quiet_db s \<longleftrightarrow> db_faults s = [] \<and> db_trades s = []"

definition idle :: "backtest \<Rightarrow> bool" where
  "idle y \<longleftrightarrow> quiet_db (w_db (bt_world y)) \<and> en_pending_orders (w_engine (bt_world y)) = [] \<and>
     cy_rejections (bt_cycle y) = [] \<and> ss_binance_price (fs_signal_state (bt_feed y)) = None"

lemma quiet_calls:
  "quiet_db s \<Longrightarrow> quiet_db (snd (upsert_market w s))"
  "quiet_db s \<Longrightarrow> \<exists>s'. resolve_market m st s = (Inr (), s') \<and> quiet_db s'"
  "quiet_db s \<Longrightarrow> \<exists>s'. resolve_market_with_outcome m st oc s = (Inr (), s') \<and> quiet_db s'"
  "quiet_db s \<Longrightarrow> get_open_trades_for_market m s = (Inr [], s)"
  by (auto simp: quiet_db_def upsert_market_def resolve_market_def resolve_market_with_outcome_def get_open_trades_for_market_def
      sql_call_def open_rows_for_market_def)

lemma quiet_resolve:
  assumes "quiet_db (dk_db x)"
  shows "\<exists>x'. resolve_window_with_outcome parse w oc c now wall x = ([], x') \<and> quiet_db (dk_db x')"
proof -
  obtain s' where "resolve_market_with_outcome (mw_market_id w) ''resolved'' (outcome_label oc) (dk_db x) = (Inr (), s')" "quiet_db s'"
    using quiet_calls(3)[OF assms] by blast
  then show ?thesis by (simp add: resolve_window_with_outcome_def quiet_calls(4)[OF assms] mark_resolved_def)
qed

lemma idle_settle: "idle y \<Longrightarrow> idle (settle_market en p now y)"
proof -
  assume i: "idle y"
  then have "quiet_db (dk_db (bt_desk y))" by (simp add: idle_def bt_desk_def)
  then obtain x' where r: "resolve_window_with_outcome (be_parse en) (ps_window p) (ps_outcome p) (be_config en) (\<lambda>_. bt_clock y)
      (be_wall en (bt_settled y)) (bt_desk y) = ([], x')" "quiet_db (dk_db x')" using quiet_resolve by blast
  then show ?thesis using i by (simp add: settle_market_def idle_def set_desk_def set_world_def bt_world_def)
qed

lemma idle_due: "idle y \<Longrightarrow> idle (process_due_market_settlements en now y)"
proof -
  have f: "idle y \<Longrightarrow> idle (fold (\<lambda>p. settle_market en p t) ps y)" for en t ps y by (induction ps arbitrary: y) (simp_all add: idle_settle)
  have c: "idle y \<Longrightarrow> idle (y\<lparr>bt_clock := t, bt_pending := q\<rparr>)" for t q y by (simp add: idle_def bt_world_def)
  have "idle y \<Longrightarrow> idle (settle_entries en es y)" for es y
  proof (induction en es y rule: settle_entries.induct)
    case (2 en t0 ps es y)
    show ?case unfolding settle_entries.simps by (rule 2(1)) (intro f c 2(2))
  qed simp
  then show "idle y \<Longrightarrow> ?thesis" by (simp add: process_due_market_settlements_def)
qed

lemma price_update:
  "tg_binance g = None \<Longrightarrow> ss_binance_price (fs_signal_state f) = None \<Longrightarrow> ss_binance_price (fs_signal_state (fs_update g f)) = None"
  by (auto simp: fs_update_def update_books_def update_oracle_def update_binance_def update_clob_def update_chainlink_def
      ss_prune_def Let_def split: option.splits)

lemma idle_feeds: "idle y \<Longrightarrow> tg_binance g = None \<Longrightarrow> idle (step_feeds en g y)"
proof -
  assume i: "idle y" and g: "tg_binance g = None"
  have "idle (y\<lparr>bt_clock := tg_timestamp g\<rparr>)" using i by (simp add: idle_def bt_world_def)
  then have "idle (process_due_market_settlements en (tg_timestamp g) (y\<lparr>bt_clock := tg_timestamp g\<rparr>))" by (rule idle_due)
  then show ?thesis using g
    by (auto simp: step_feeds_def Let_def idle_def set_world_def bt_world_def price_update note_replay_fidelity_def split: ReplayFidelity.splits)
qed

lemma idle_orders: "idle y \<Longrightarrow> \<exists>y'. step_orders en g y = (Inr (), y') \<and> idle y' \<and> bt_windows y' = bt_windows y"
  by (simp add: step_orders_def process_due_orders_def take_recent_outcomes_def set_world_def bt_world_def Let_def idle_def)

lemma idle_strategies: "idle y \<Longrightarrow> step_strategies en g y = Some (Inr (), y)"
  by (simp add: step_strategies_def idle_def split: option.splits)

lemma idle_persist: "cy_rejections cy = [] \<Longrightarrow> persist_rejection_summaries m now cy = (Inr (), cy)"
  by (cases m) (simp_all add: persist_rejection_summaries_def rt_drain_market_def rt_drain_all_def rt_new_def)

lemma idle_closed:
  assumes "idle y"
  shows "\<exists>y'. step_closed en now w y = (Inr (), y') \<and> idle y'"
proof -
  let ?mw = "to_market_window w"
  let ?y1 = "set_world ((bt_world y)\<lparr>w_db := snd (upsert_market ?mw (w_db (bt_world y)))\<rparr>) y"
  have q: "quiet_db (w_db (bt_world y))" using assms by (simp add: idle_def)
  have q1: "quiet_db (w_db (bt_world ?y1))" using quiet_calls(1)[OF q] by simp
  obtain s1 where s1: "resolve_market (mw_market_id ?mw) ''closed'' (w_db (bt_world ?y1)) = (Inr (), s1)" "quiet_db s1"
    using quiet_calls(2)[OF q1] by blast
  have cl: "close_market_and_reclassify_reserve ?mw (bt_world ?y1) = (Inr (), (bt_world ?y1)\<lparr>w_db := s1\<rparr>)"
    using s1(1) quiet_calls(4)[OF s1(2)] by (simp add: close_market_and_reclassify_reserve_def)
  let ?cy = "bt_cycle (set_world ((bt_world ?y1)\<lparr>w_db := s1\<rparr>) ?y1)"
  have p: "persist_rejection_summaries (Some (mw_market_id ?mw)) now ?cy = (Inr (), ?cy)"
    using assms by (intro idle_persist) (simp add: idle_def set_world_def)
  have i: "idle (?y1\<lparr>bt_cycle := ?cy\<rparr>)" "idle (?y1\<lparr>bt_cycle := ?cy, bt_pending := k\<rparr>)" for k
    using assms s1(2) by (simp_all add: idle_def set_world_def bt_world_def)
  show ?thesis using cl p i idle_settle[OF i(1)]
    by (auto simp: step_closed_def Let_def split: BacktestSettlementMode.splits)
qed

lemma idle_windows: "idle y \<Longrightarrow> \<exists>y'. step_windows en g y = (Inr (), y') \<and> idle y'"
proof -
  assume i: "idle y"
  obtain ev wm where a: "wm_advance (tg_timestamp g) (bt_windows y) = (ev, wm)" by fastforce
  have o: "idle (step_opened w y1)" if "idle y1" for w y1
  proof -
    have "quiet_db (snd (upsert_market (to_market_window w) (w_db (bt_world y1))))"
      using quiet_calls(1) that by (simp add: idle_def)
    then show ?thesis using that by (simp add: idle_def step_opened_def set_world_def bt_world_def clear_signal_books_def)
  qed
  have i0: "idle (y\<lparr>bt_windows := wm\<rparr>)" using i by (simp add: idle_def bt_world_def)
  show ?thesis
  proof (cases "we_closed ev")
    case None
    then show ?thesis using a i0 o by (simp add: step_windows_def split: option.splits)
  next
    case (Some w)
    obtain y1 where "step_closed en (tg_timestamp g) w (y\<lparr>bt_windows := wm\<rparr>) = (Inr (), y1)" "idle y1" using idle_closed[OF i0] by blast
    then show ?thesis using a Some o by (simp add: step_windows_def split: option.splits)
  qed
qed

lemma idle_groups: "idle y \<Longrightarrow> list_all (\<lambda>g. tg_binance g = None) gs \<Longrightarrow> \<exists>y'. run_groups en gs y = Some (Inr (), y') \<and> idle y'"
proof (induction gs arbitrary: y)
  case (Cons g gs)
  obtain y1 where y1: "step_orders en g (step_feeds en g y) = (Inr (), y1)" "idle y1"
    using idle_orders[OF idle_feeds[OF Cons.prems(1), of g en], of en g] Cons.prems(2) by auto
  have m: "step_momentum g y1 = y1" using Cons.prems(2) by (simp add: step_momentum_def)
  obtain y2 where y2: "step_windows en g y1 = (Inr (), y2)" "idle y2" using idle_windows[OF y1(2)] by blast
  show ?case using Cons.IH[OF y2(2)] Cons.prems(2) y1 y2 m idle_strategies[OF y2(2)] by (simp add: backtest_step_def)
qed simp

lemma idle_finish: "idle y \<Longrightarrow> \<exists>y'. finish_run en y = (Inr (), y')"
proof -
  have "idle y \<Longrightarrow> idle (fold (process_due_market_settlements en) ts y)" for ts y by (induction ts arbitrary: y) (simp_all add: idle_due)
  then have "idle y \<Longrightarrow> idle (finish_settlements en y)" by (simp add: finish_settlements_def)
  then show "idle y \<Longrightarrow> ?thesis" by (simp add: finish_run_def Let_def idle_persist idle_def)
qed

lemma idle_initial: "idle (initial_backtest op wm (db_empty []))"
proof -
  let ?n = "bankroll_new (op_starting_balance op) (op_config op) 0 0 (db_empty [])"
  have "quiet_db (snd ?n)"
    by (simp add: bankroll_new_def get_latest_balance_def log_balance_event_def hydrate_unresolved_reserves_def
        unresolved_trade_exposures_def unresolved_rows_def open_rows_def sql_call_def db_empty_def quiet_db_def)
  then show ?thesis
    by (auto simp: initial_backtest_def Let_def idle_def bt_world_def engine_new_def rt_new_def fs_new_def signal_state_new_def
        split: prod.splits)
qed

subsection \<open>The demonstration runs\<close>

lemma demo_run: "\<exists>res y. run_backtest (\<lambda>_. True) (\<lambda>_. True) (\<lambda>_. None) decode (\<lambda>_ _. 0) 1 (db_empty []) demo_options = Some (Inr res, Some y)"
proof -
  let ?y0 = "initial_backtest demo_options (from_settlements [demo_settlement]) (db_empty [])"
  let ?en = "backtest_env_of (\<lambda>_. None) (\<lambda>_ _. 0) demo_options"
  have g: "list_all (\<lambda>g. tg_binance g = None) (map summary_of (chunks demo_ticks))"
    by (simp add: demo_groups summary_of_fields last_of_def) (simp add: demo_ticks_def blank_tick_def)
  have i: "idle ?y0" by (rule idle_initial)
  obtain y1 where y1: "run_groups ?en (map summary_of (chunks demo_ticks)) ?y0 = Some (Inr (), y1)" "idle y1"
    using idle_groups[OF i g] by blast
  obtain y2 where y2: "finish_run ?en y1 = (Inr (), y2)" using idle_finish[OF y1(2)] by blast
  have b: "build_strategies demo \<noteq> []" by (simp add: build_strategies_def demo_def config_default_def)
  have o: "op_tick_source demo_options = Cached demo_ticks" "op_windows_db demo_options = demo_windows" "op_config demo_options = demo"
    "op_start_time demo_options = 1000" "op_end_time demo_options = 3000" by (simp_all add: demo_options_def)
  show ?thesis using y1 y2 b by (simp add: run_backtest_def o demo_valid load_replay_def demo_wm run_loop_def loop_groups groups_of_cached)
qed

end
