(* ===== verification/ReplayBlockFacts.thy ===== *)
theory ReplayBlockFacts
  imports ReplayBlocks
begin

section \<open>Round trip of replay blocks\<close>

text \<open>
  What the encoder writes the decoder reads back. The value that comes back is \<open>decoded_of\<close> the event: the fields of a
  block row. An optional time that is the largest \<open>u64\<close> is read back as absent, since that number marks absence.
\<close>

subsection \<open>Strings and dictionaries\<close>

lemma length_bytes_of [simp]: "length (bytes_of s) = length s"
  by (simp add: bytes_of_def)

lemma unat_char_byte: "unat (of_nat (of_char c) :: u8) = of_char c"
  by (simp add: unat_of_nat)

lemma from_utf8_bytes_of: "rust_string s \<Longrightarrow> from_utf8 (bytes_of s) = Inr s"
  by (simp add: from_utf8_def rust_string_def bytes_of_def comp_def unat_char_byte)

lemma unat_of_small: "n < 2 ^ 32 \<Longrightarrow> unat (of_nat n :: u32) = n"
  by (simp add: unat_of_nat)

definition string_bytes :: "string \<Rightarrow> u8 list" where
  "string_bytes s = u32_to_le (of_nat (length s)) @ bytes_of s"

interpretation string_codec: byte_codec string_bytes read_string "\<lambda>s. s" "\<lambda>s. rust_string s \<and> length s < 2 ^ 32"
proof
  show "reads read_string (string_bytes s) s" if s: "rust_string s \<and> length s < 2 ^ 32" for s
  proof -
    let ?n = "of_nat (length s) :: u32"
    have "reads (rd_bind (read_bytes (unat ?n)) (\<lambda>bs. rd_lift (from_utf8 bs))) (bytes_of s @ []) s"
      by (rule reads_bind[OF reads_bytes reads_lift]) (use s in \<open>simp_all add: unat_of_small from_utf8_bytes_of\<close>)
    from reads_bind[where f = "\<lambda>n. rd_bind (read_bytes (unat n)) (\<lambda>bs. rd_lift (from_utf8 bs))", OF reads_u32 this]
    show ?thesis by (simp add: read_string_def string_bytes_def)
  qed
qed

lemma u32_len_Inr: "u32_len n = Inr m \<longleftrightarrow> n < 2 ^ 32 \<and> m = of_nat n"
  by (auto simp: u32_len_def)

lemma write_strings_Inr:
  "write_strings vs = Inr bs \<Longrightarrow> bs = concat (map string_bytes vs) \<and> (\<forall>v \<in> set vs. length v < 2 ^ 32)"
  by (induction vs arbitrary: bs) (auto simp: res_bind_Inr u32_len_Inr string_bytes_def)

lemma write_dictionary_reads:
  assumes "write_dictionary vs = Inr bs" "\<forall>v \<in> set vs. rust_string v"
  shows "reads read_dictionary bs vs \<and> length vs < 2 ^ 32"
proof -
  obtain sb where sb: "length vs < 2 ^ 32" "write_strings vs = Inr sb" "bs = u32_to_le (of_nat (length vs)) @ sb"
    using assms(1) by (auto simp: write_dictionary_def res_bind_Inr u32_len_Inr)
  have "list_all (\<lambda>s. rust_string s \<and> length s < 2 ^ 32) vs"
    using write_strings_Inr[OF sb(2)] assms(2) by (simp add: list_all_iff)
  from string_codec.reads_times[OF this] have "reads (read_times (length vs) read_string) sb vs"
    using write_strings_Inr[OF sb(2)] by simp
  then have "reads (read_times (unat (of_nat (length vs) :: u32)) read_string) sb vs" using sb(1) by (simp add: unat_of_small)
  from reads_bind[where f = "\<lambda>count. read_times (unat count) read_string", OF reads_u32 this]
  show ?thesis using sb(1) by (simp add: read_dictionary_def sb(3))
qed

definition dict_strings :: "dictionaries \<Rightarrow> string list" where
  "dict_strings d = di_source_topics d @ di_connection_ids d @ di_sequence_keys d @ di_market_ids d @ di_asset_ids d"

definition dict_ok :: "string list \<Rightarrow> bool" where
  "dict_ok dict \<longleftrightarrow> distinct dict \<and> length dict < 2 ^ 32"

lemma write_dictionaries_reads:
  assumes "write_dictionaries d = Inr bs" "\<forall>v \<in> set (dict_strings d). rust_string v"
  shows "reads dictionaries_read_from bs d \<and> (\<forall>dict \<in> {di_source_topics d, di_connection_ids d, di_sequence_keys d,
    di_market_ids d, di_asset_ids d}. length dict < 2 ^ 32)"
proof -
  obtain b1 b2 b3 b4 b5 where b: "write_dictionary (di_source_topics d) = Inr b1" "write_dictionary (di_connection_ids d) = Inr b2"
    "write_dictionary (di_sequence_keys d) = Inr b3" "write_dictionary (di_market_ids d) = Inr b4"
    "write_dictionary (di_asset_ids d) = Inr b5" "bs = b1 @ b2 @ b3 @ b4 @ b5"
    using assms(1) by (auto simp: write_dictionaries_def res_bind_Inr)
  have r: "reads read_dictionary b1 (di_source_topics d) \<and> length (di_source_topics d) < 2 ^ 32"
    "reads read_dictionary b2 (di_connection_ids d) \<and> length (di_connection_ids d) < 2 ^ 32"
    "reads read_dictionary b3 (di_sequence_keys d) \<and> length (di_sequence_keys d) < 2 ^ 32"
    "reads read_dictionary b4 (di_market_ids d) \<and> length (di_market_ids d) < 2 ^ 32"
    "reads read_dictionary b5 (di_asset_ids d) \<and> length (di_asset_ids d) < 2 ^ 32"
    using assms(2) unfolding dict_strings_def
    by (intro write_dictionary_reads[OF b(1)] write_dictionary_reads[OF b(2)] write_dictionary_reads[OF b(3)]
        write_dictionary_reads[OF b(4)] write_dictionary_reads[OF b(5)]; simp)+
  have "reads dictionaries_read_from (b1 @ b2 @ b3 @ b4 @ b5) d"
    unfolding dictionaries_read_from_def
    apply (rule reads_bind, rule conjunct1[OF r(1)])
    apply (rule reads_bind, rule conjunct1[OF r(2)])
    apply (rule reads_bind, rule conjunct1[OF r(3)])
    apply (rule reads_bind, rule conjunct1[OF r(4)])
    apply (rule reads_bind_end, rule conjunct1[OF r(5)])
    by (cases d) (simp add: reads_pure)
  then show ?thesis using r b(6) by simp
qed

text \<open>The code of a string in a dictionary is its index.\<close>

lemma lookup_Some:
  assumes "dictionary_lookup dict s = Some code"
  shows "\<exists>i < length dict. i < 2 ^ 32 \<and> code = of_nat i \<and> dict ! i = s"
  using map_of_SomeD[OF assms[unfolded dictionary_lookup_def]] by auto

lemma lookup_member:
  assumes "s \<in> set dict" "length dict < 2 ^ 32"
  shows "\<exists>code. dictionary_lookup dict s = Some code"
proof (cases "dictionary_lookup dict s")
  case None
  then have "s \<notin> fst ` set (map (\<lambda>i. (dict ! i, of_nat i :: u32)) (filter (\<lambda>i. i < 2 ^ 32) [0..<length dict]))"
    by (simp only: dictionary_lookup_def map_of_eq_None_iff set_rev not_False_eq_True)
  moreover obtain i where "i < length dict" "dict ! i = s" using assms(1) by (auto simp: in_set_conv_nth)
  ultimately show ?thesis using assms(2) by force
qed simp

lemma dictionary_code_reads:
  assumes "write_dictionary_code dict v = Inr bs" "length dict < 2 ^ 32"
  shows "reads (read_dictionary_value dict) bs v"
proof (cases v)
  case None
  then have "bs = u32_to_le NONE_U32 @ []" using assms(1) by (simp add: write_dictionary_code_def)
  then show ?thesis unfolding read_dictionary_value_def using None
    by (simp only:) (rule reads_bind[OF reads_u32], simp add: reads_pure)
next
  case (Some s)
  then obtain code where code: "dictionary_lookup dict s = Some code" "bs = u32_to_le code @ []"
    using assms(1) by (auto simp: write_dictionary_code_def split: option.splits)
  obtain i where i: "i < length dict" "code = of_nat i" "dict ! i = s" using lookup_Some[OF code(1)] by blast
  have u: "unat code = i" using i assms(2) by (simp add: unat_of_small)
  have "unat NONE_U32 = 2 ^ 32 - 1" by (simp add: NONE_U32_def unsigned_minus_1_eq_mask mask_eq_exp_minus_1)
  then have "code \<noteq> NONE_U32" using u i(1) assms(2) by auto
  then show ?thesis unfolding read_dictionary_value_def code(2)
    by (intro reads_bind[OF reads_u32]) (use u i Some in \<open>simp add: reads_pure\<close>)
qed

subsection \<open>Rows\<close>

definition decoded_of :: "feed_event \<Rightarrow> decoded_event" where
  "decoded_of e = \<lparr>de_received_at_ms = fe_received_at_ms e, de_event_at_ms = fe_event_at_ms e,
     de_received_at_us = fe_received_at_us e, de_event_at_us = fe_event_at_us e, de_source = fe_source e,
     de_event_type = fe_event_type e, de_source_topic = fe_source_topic e, de_connection_id = fe_connection_id e,
     de_sequence_key = fe_sequence_key e, de_market_id = fe_market_id e, de_asset_id = fe_asset_id e,
     de_best_bid = the (fe_best_bid e), de_best_ask = the (fe_best_ask e), de_bid_size = the (fe_bid_size e),
     de_ask_size = the (fe_ask_size e), de_microprice = fe_microprice e, de_fidelity = fe_fidelity e\<rparr>"

definition times_distinct :: "feed_event \<Rightarrow> bool" where
  "times_distinct e \<longleftrightarrow> fe_received_at_us e \<noteq> Some NONE_U64 \<and> fe_event_at_us e \<noteq> Some NONE_U64"

lemma optional_u64_reads: "v \<noteq> Some NONE_U64 \<Longrightarrow> reads read_optional_u64 (write_optional_u64 v) v"
  unfolding read_optional_u64_def write_optional_u64_def
  using reads_last[OF reads_u64, of "\<lambda>v. if v \<noteq> NONE_U64 then Some v else None" "unwrap_or v NONE_U64"] by (cases v) auto

lemma optional_f64_reads: "reads read_optional_f64 (write_optional_f64 v) v"
proof (cases v)
  case None
  have "reads read_optional_f64 ([0] @ []) None" unfolding read_optional_f64_def
    by (rule reads_bind[OF reads_u8]) (simp add: reads_pure)
  with None show ?thesis by (simp add: write_optional_f64_def)
next
  case (Some x)
  have "reads read_optional_f64 ([1] @ f64_to_le x) (Some x)" unfolding read_optional_f64_def
    by (rule reads_bind[OF reads_u8]) (simp add: reads_last[OF reads_f64])
  with Some show ?thesis by (simp add: write_optional_f64_def)
qed

lemma code_round_trips:
  "side_code s = Inr n \<Longrightarrow> source_from_side_code n = Inr s"
  "event_type_code t = Inr n \<Longrightarrow> event_type_from_code n = Inr t"
  "fidelity_from_code (fidelity_code f) = Inr f"
  by (cases f; auto simp: side_code_def source_from_side_code_def event_type_code_def event_type_from_code_def
      fidelity_from_code_def split: if_splits)+

definition small_dictionaries :: "dictionaries \<Rightarrow> bool" where
  "small_dictionaries d \<longleftrightarrow> (\<forall>dict \<in> {di_source_topics d, di_connection_ids d, di_sequence_keys d, di_market_ids d, di_asset_ids d}.
     length dict < 2 ^ 32)"

lemma write_event_reads:
  assumes "write_event e d side = Inr bs" "side_code (fe_source e) = Inr side" "times_distinct e" "small_dictionaries d"
  shows "reads (read_event d) bs (decoded_of e)"
proof -
  obtain bid ask bsz asz tc b1 b2 b3 b4 b5 where w: "fe_best_bid e = Some bid" "fe_best_ask e = Some ask" "fe_bid_size e = Some bsz"
      "fe_ask_size e = Some asz" "event_type_code (fe_event_type e) = Inr tc"
      "write_dictionary_code (di_source_topics d) (fe_source_topic e) = Inr b1"
      "write_dictionary_code (di_connection_ids d) (fe_connection_id e) = Inr b2"
      "write_dictionary_code (di_sequence_keys d) (fe_sequence_key e) = Inr b3"
      "write_dictionary_code (di_market_ids d) (fe_market_id e) = Inr b4"
      "write_dictionary_code (di_asset_ids d) (fe_asset_id e) = Inr b5"
    and bs: "bs = u64_to_le (fe_received_at_ms e) @ u64_to_le (fe_event_at_ms e) @
       write_optional_u64 (fe_received_at_us e) @ write_optional_u64 (fe_event_at_us e) @ [side] @ [tc] @
       b1 @ b2 @ b3 @ b4 @ b5 @ f64_to_le bid @ f64_to_le ask @ f64_to_le bsz @ f64_to_le asz @
       write_optional_f64 (fe_microprice e) @ [fidelity_code (fe_fidelity e)]"
    using assms(1) by (auto simp: write_event_def res_bind_Inr required_f64_def split: option.splits)
  have dict: "reads (read_dictionary_value (di_source_topics d)) b1 (fe_source_topic e)"
    "reads (read_dictionary_value (di_connection_ids d)) b2 (fe_connection_id e)"
    "reads (read_dictionary_value (di_sequence_keys d)) b3 (fe_sequence_key e)"
    "reads (read_dictionary_value (di_market_ids d)) b4 (fe_market_id e)"
    "reads (read_dictionary_value (di_asset_ids d)) b5 (fe_asset_id e)"
    using dictionary_code_reads w assms(4) by (simp_all add: small_dictionaries_def)
  have us: "fe_received_at_us e \<noteq> Some NONE_U64" "fe_event_at_us e \<noteq> Some NONE_U64"
    using assms(3) by (simp_all add: times_distinct_def)
  have v: "decoded_of e = \<lparr>de_received_at_ms = fe_received_at_ms e, de_event_at_ms = fe_event_at_ms e,
     de_received_at_us = fe_received_at_us e, de_event_at_us = fe_event_at_us e, de_source = fe_source e,
     de_event_type = fe_event_type e, de_source_topic = fe_source_topic e, de_connection_id = fe_connection_id e,
     de_sequence_key = fe_sequence_key e, de_market_id = fe_market_id e, de_asset_id = fe_asset_id e,
     de_best_bid = bid, de_best_ask = ask, de_bid_size = bsz,
     de_ask_size = asz, de_microprice = fe_microprice e, de_fidelity = fe_fidelity e\<rparr>"
    by (simp add: decoded_of_def w)
  note rows = reads_u64 optional_u64_reads[OF us(1)] optional_u64_reads[OF us(2)] reads_u8 reads_f64 optional_f64_reads dict
  note codes = code_round_trips(1)[OF assms(2)] code_round_trips(2)[OF w(5)] code_round_trips(3)
  show ?thesis unfolding read_event_def bs v
    apply ((rule reads_bind, rule rows | rule reads_lift_bind, rule codes)+)
    apply (rule reads_bind_end, rule reads_u8, rule reads_lift_bind, rule codes, rule reads_pure)
    done
qed

text \<open>The bytes of one row, and the rows a given set of dictionaries can encode.\<close>

definition row_bytes :: "dictionaries \<Rightarrow> feed_event \<Rightarrow> u8 list" where
  "row_bytes d e = (case res_bind (side_code (fe_source e)) (write_event e d) of Inr bs \<Rightarrow> bs | Inl _ \<Rightarrow> [])"

definition row_ok :: "dictionaries \<Rightarrow> feed_event \<Rightarrow> bool" where
  "row_ok d e \<longleftrightarrow> small_dictionaries d \<and> times_distinct e \<and> (\<exists>bs. res_bind (side_code (fe_source e)) (write_event e d) = Inr bs)"

interpretation row_codec: byte_codec "row_bytes d" "read_event d" decoded_of "row_ok d" for d
  by unfold_locales (auto simp: row_ok_def row_bytes_def res_bind_Inr intro: write_event_reads)

lemma encode_row_Inr:
  "encode_row d e b = Inr b' \<Longrightarrow> (\<exists>bs. res_bind (side_code (fe_source e)) (write_event e d) = Inr bs) \<and>
     bs_rows b' = bs_rows b @ row_bytes d e \<and> bs_millis_floor b' = min (bs_millis_floor b) (fe_received_at_ms e) \<and>
     bs_millis_ceiling b' = max (bs_millis_ceiling b) (fe_received_at_ms e) \<and>
     bs_up_rows b' = (if fe_source e = ''clob_up'' then saturating_inc (bs_up_rows b) else bs_up_rows b) \<and>
     bs_down_rows b' = (if fe_source e = ''clob_up'' then bs_down_rows b else saturating_inc (bs_down_rows b))"
  by (auto simp: encode_row_def res_bind_Inr row_bytes_def Let_def side_code_def split: if_splits)

lemma encode_rows_Inr:
  "encode_rows d es b = Inr b' \<Longrightarrow> small_dictionaries d \<Longrightarrow> list_all times_distinct es \<Longrightarrow>
     list_all (row_ok d) es \<and> bs_rows b' = bs_rows b @ concat (map (row_bytes d) es)"
proof (induction es arbitrary: b)
  case (Cons e es)
  obtain b1 where b1: "encode_row d e b = Inr b1" "encode_rows d es b1 = Inr b'" using Cons.prems(1) by (auto simp: res_bind_Inr)
  show ?case using encode_row_Inr[OF b1(1)] Cons.IH[OF b1(2)] Cons.prems(2,3) by (auto simp: row_ok_def)
qed simp

subsection \<open>Blocks\<close>

definition event_strings :: "feed_event \<Rightarrow> string list" where
  "event_strings e = concat (map (\<lambda>v. case v of Some s \<Rightarrow> [s] | None \<Rightarrow> []) [fe_source_topic e, fe_connection_id e, fe_sequence_key e,
     fe_market_id e, fe_asset_id e])"

lemma set_collect_dictionary [simp]: "set (collect_dictionary vs) = set vs"
  by (simp add: collect_dictionary_def)

lemma distinct_collect_dictionary: "distinct (collect_dictionary vs)"
  by (simp add: collect_dictionary_def)

lemma set_map_filter: "set (List.map_filter f xs) = {y. \<exists>x \<in> set xs. f x = Some y}"
  by (force simp: List.map_filter_def image_iff)

lemma dict_strings_from_events:
  assumes "v \<in> set (dict_strings (dictionaries_from_events es))"
  shows "\<exists>e \<in> set es. v \<in> set (event_strings e)"
  using assms by (auto simp: dict_strings_def dictionaries_from_events_def set_map_filter event_strings_def) force+

definition codable :: "feed_event \<Rightarrow> bool" where
  "codable e \<longleftrightarrow> times_distinct e \<and> (\<forall>s \<in> set (event_strings e). rust_string s)"

lemma write_dictionaries_small: "write_dictionaries d = Inr bs \<Longrightarrow> small_dictionaries d"
  by (auto simp: write_dictionaries_def write_dictionary_def res_bind_Inr u32_len_Inr small_dictionaries_def)

lemma stable_string: "stable read_string"
  unfolding read_string_def by (intro reader_stable)

lemma stable_dictionary: "stable read_dictionary"
  unfolding read_dictionary_def by (intro reader_stable stable_string)

lemma stable_payload: "stable read_payload"
  unfolding read_payload_def dictionaries_read_from_def read_event_def read_dictionary_value_def
  by (intro reader_stable stable_dictionary)

lemma reads_payload:
  assumes "write_dictionaries d = Inr db" "\<forall>v \<in> set (dict_strings d). rust_string v" "list_all (row_ok d) es" "length es < 2 ^ 32"
  shows "reads read_payload (MAGIC @ u32_to_le CLOB_REPLAY_BLOCK_SCHEMA_VERSION @ db @ u32_to_le (of_nat (length es)) @
    concat (map (row_bytes d) es)) (map decoded_of es)"
proof -
  have rows: "reads (read_times (unat (of_nat (length es) :: u32)) (read_event d)) (concat (map (row_bytes d) es)) (map decoded_of es)"
    using row_codec.reads_times[OF assms(3)] assms(4) by (simp add: unat_of_small)
  have counted: "reads (rd_bind read_u32 (\<lambda>row_count. read_times (unat row_count) (read_event d)))
      (u32_to_le (of_nat (length es)) @ concat (map (row_bytes d) es)) (map decoded_of es)"
    by (rule reads_bind, rule reads_u32, rule rows)
  have body: "reads (rd_bind dictionaries_read_from (\<lambda>d. rd_bind read_u32 (\<lambda>row_count. read_times (unat row_count) (read_event d))))
      (db @ u32_to_le (of_nat (length es)) @ concat (map (row_bytes d) es)) (map decoded_of es)"
    by (rule reads_bind, rule conjunct1[OF write_dictionaries_reads[OF assms(1,2)]], rule counted)
  show ?thesis unfolding read_payload_def
    by (rule reads_bind, rule reads_magic, rule reads_bind, rule reads_u32) (simp add: body)
qed

definition block_bytes :: "feed_event list \<Rightarrow> u8 list" where
  "block_bytes es = (let d = dictionaries_from_events es in MAGIC @ u32_to_le CLOB_REPLAY_BLOCK_SCHEMA_VERSION @
     (case write_dictionaries d of Inr bs \<Rightarrow> bs | Inl _ \<Rightarrow> []) @ u32_to_le (of_nat (length es)) @ concat (map (row_bytes d) es))"

lemma encode_events_Inr:
  assumes "encode_events compress crc es level = Inr blk" "list_all codable es"
  shows "compress level (block_bytes es) = Some (eb_payload blk) \<and> eb_checksum blk = hex8 (crc (block_bytes es)) \<and>
    reads read_payload (block_bytes es) (map decoded_of es)"
proof -
  let ?d = "dictionaries_from_events es"
  obtain db b where db: "write_dictionaries ?d = Inr db" "length es < 2 ^ 32" and b: "encode_rows ?d es summary_start = Inr b"
    and rest: "compress level (MAGIC @ u32_to_le CLOB_REPLAY_BLOCK_SCHEMA_VERSION @ db @ u32_to_le (of_nat (length es)) @ bs_rows b) = Some (eb_payload blk)"
      "eb_checksum blk = hex8 (crc (MAGIC @ u32_to_le CLOB_REPLAY_BLOCK_SCHEMA_VERSION @ db @ u32_to_le (of_nat (length es)) @ bs_rows b))"
    using assms(1) by (auto simp: encode_events_def Let_def res_bind_Inr u32_len_Inr split: if_splits option.splits)
  have td: "list_all times_distinct es" using assms(2) by (simp add: list_all_iff codable_def)
  have rows: "list_all (row_ok ?d) es" "bs_rows b = concat (map (row_bytes ?d) es)"
    using encode_rows_Inr[OF b write_dictionaries_small[OF db(1)] td] by (simp_all add: summary_start_def)
  have strs: "\<forall>v \<in> set (dict_strings ?d). rust_string v"
    using dict_strings_from_events assms(2) by (fastforce simp: list_all_iff codable_def)
  have bb: "block_bytes es = MAGIC @ u32_to_le CLOB_REPLAY_BLOCK_SCHEMA_VERSION @ db @ u32_to_le (of_nat (length es)) @ bs_rows b"
    by (simp add: block_bytes_def db(1) rows(2))
  show ?thesis using rest reads_payload[OF db(1) strs rows(1) db(2)] unfolding bb rows(2) by blast
qed

theorem block_round_trip:
  assumes enc: "encode_events compress crc es level = Inr blk" and c: "list_all codable es"
    and len: "length (block_bytes es) < 2 ^ 64"
    and zstd: "\<forall>p lv bs. compress lv p = Some bs \<longrightarrow> decompress bs = Some p"
  shows "decode_payload decompress crc (eb_payload blk) (eb_checksum blk) = Inr (map decoded_of es)"
proof -
  note e = encode_events_Inr[OF enc c]
  have "decompress (eb_payload blk) = Some (block_bytes es)" using e zstd by blast
  then show ?thesis using e reads_run[OF _ len, of read_payload "map decoded_of es"]
    by (simp add: decode_payload_def decode_bytes_def reader_finish_def)
qed

text \<open>The bytes the decoder accepts are prefix-free: bytes behind a block, and any proper prefix of one, are errors.\<close>

lemma decode_bytes_Inr: "decode_bytes p = Inr rows \<longleftrightarrow> (\<exists>r. read_payload (reader_new p) = Inr (rows, r) \<and> reader_finish r = Inr ())"
  by (auto simp: decode_bytes_def res_bind_Inr)

lemma decode_bytes_extended:
  assumes "decode_bytes p = Inr rows" "extra \<noteq> []"
  shows "decode_bytes (p @ extra) = Inl TrailingBytes"
  using assms accepts_no_extension[OF stable_payload _ _ assms(2), of p rows]
  by (auto simp: decode_bytes_Inr) (auto simp: decode_bytes_def)

lemma decode_bytes_truncated:
  assumes "decode_bytes p = Inr rows" "n < length p"
  shows "\<exists>err. decode_bytes (take n p) = Inl err"
proof (cases "decode_bytes (take n p)")
  case (Inr rows')
  have "drop n p \<noteq> []" using assms(2) by simp
  from decode_bytes_extended[OF Inr this] show ?thesis using assms(1) by simp
qed simp

subsection \<open>The summary of a block\<close>

lemma encode_rows_extremes:
  "encode_rows d es b = Inr b' \<Longrightarrow>
     bs_millis_floor b' = Min (insert (bs_millis_floor b) (fe_received_at_ms ` set es)) \<and>
     bs_millis_ceiling b' = Max (insert (bs_millis_ceiling b) (fe_received_at_ms ` set es))"
proof (induction es arbitrary: b)
  case (Cons e es)
  obtain b1 where b1: "encode_row d e b = Inr b1" "encode_rows d es b1 = Inr b'" using Cons.prems(1) by (auto simp: res_bind_Inr)
  show ?case using encode_row_Inr[OF b1(1)] Cons.IH[OF b1(2)]
    by (cases "es = []") (simp_all add: min.assoc max.assoc)
qed simp

lemma unat_saturating_inc: "unat n < 2 ^ 32 - 1 \<Longrightarrow> unat (saturating_inc n) = unat n + 1"
  by (auto simp: saturating_inc_def unat_word_ariths unsigned_minus_1_eq_mask mask_eq_exp_minus_1)

lemma encode_rows_counts:
  "encode_rows d es b = Inr b' \<Longrightarrow> unat (bs_up_rows b) + unat (bs_down_rows b) + length es < 2 ^ 32 \<Longrightarrow>
     unat (bs_up_rows b') = unat (bs_up_rows b) + length (filter (\<lambda>e. fe_source e = ''clob_up'') es) \<and>
     unat (bs_down_rows b') = unat (bs_down_rows b) + length (filter (\<lambda>e. fe_source e \<noteq> ''clob_up'') es)"
proof (induction es arbitrary: b)
  case (Cons e es)
  obtain b1 where b1: "encode_row d e b = Inr b1" "encode_rows d es b1 = Inr b'" using Cons.prems(1) by (auto simp: res_bind_Inr)
  have u: "unat (bs_up_rows b) < 2 ^ 32 - 1" "unat (bs_down_rows b) < 2 ^ 32 - 1" using Cons.prems(2) by simp_all
  note inc = unat_saturating_inc[OF u(1)] unat_saturating_inc[OF u(2)]
  show ?case using encode_row_Inr[OF b1(1)] Cons.IH[OF b1(2)] Cons.prems(2) inc by (auto split: if_splits)
qed simp

lemma block_summary:
  assumes "encode_events compress crc es level = Inr blk"
  shows "eb_min_received_at_ms blk = Min (fe_received_at_ms ` set es)" "eb_max_received_at_ms blk = Max (fe_received_at_ms ` set es)"
    "unat (eb_row_count blk) = length es" "unat (eb_up_rows blk) = length (filter (\<lambda>e. fe_source e = ''clob_up'') es)"
    "unat (eb_up_rows blk) + unat (eb_down_rows blk) = length es"
proof -
  let ?d = "dictionaries_from_events es"
  obtain b where ne: "es \<noteq> []" and len: "length es < 2 ^ 32" and b: "encode_rows ?d es summary_start = Inr b"
    and f: "eb_min_received_at_ms blk = bs_millis_floor b" "eb_max_received_at_ms blk = bs_millis_ceiling b"
      "eb_row_count blk = of_nat (length es)" "eb_up_rows blk = bs_up_rows b" "eb_down_rows blk = bs_down_rows b"
    using assms by (auto simp: encode_events_def Let_def res_bind_Inr u32_len_Inr split: if_splits option.splits)
  have top: "min (- 1) x = x" "max 0 x = x" for x :: u64
    by (simp_all add: min_absorb2 max_absorb2)
  show "eb_min_received_at_ms blk = Min (fe_received_at_ms ` set es)" "eb_max_received_at_ms blk = Max (fe_received_at_ms ` set es)"
    using encode_rows_extremes[OF b] ne top by (simp_all add: f summary_start_def)
  show "unat (eb_row_count blk) = length es" using len by (simp add: f unat_of_small)
  have c: "unat (bs_up_rows b) = length (filter (\<lambda>e. fe_source e = ''clob_up'') es) \<and>
     unat (bs_down_rows b) = length (filter (\<lambda>e. fe_source e \<noteq> ''clob_up'') es)"
    using encode_rows_counts[OF b] len by (simp add: summary_start_def)
  then show "unat (eb_up_rows blk) = length (filter (\<lambda>e. fe_source e = ''clob_up'') es)"
    "unat (eb_up_rows blk) + unat (eb_down_rows blk) = length es"
    using sum_length_filter_compl[of "\<lambda>e. fe_source e = ''clob_up''" es] by (simp_all add: f)
qed

subsection \<open>Blockable events\<close>

text \<open>The predicate that selects events for a block is exactly what the encoder of a row requires.\<close>

lemma write_code_member:
  "length dict < 2 ^ 32 \<Longrightarrow> (case v of Some s \<Rightarrow> s \<in> set dict | None \<Rightarrow> True) \<Longrightarrow> \<exists>bs. write_dictionary_code dict v = Inr bs"
  using lookup_member by (fastforce simp: write_dictionary_code_def split: option.splits)

lemma blockable_row:
  assumes "small_dictionaries (dictionaries_from_events es)" "e \<in> set es"
  shows "(\<exists>bs. res_bind (side_code (fe_source e)) (write_event e (dictionaries_from_events es)) = Inr bs) \<longleftrightarrow> is_blockable_clob_event e"
proof -
  let ?d = "dictionaries_from_events es"
  have "\<exists>b. write_dictionary_code (di_source_topics ?d) (fe_source_topic e) = Inr b"
    "\<exists>b. write_dictionary_code (di_connection_ids ?d) (fe_connection_id e) = Inr b"
    "\<exists>b. write_dictionary_code (di_sequence_keys ?d) (fe_sequence_key e) = Inr b"
    "\<exists>b. write_dictionary_code (di_market_ids ?d) (fe_market_id e) = Inr b"
    "\<exists>b. write_dictionary_code (di_asset_ids ?d) (fe_asset_id e) = Inr b"
    using assms by (auto simp: small_dictionaries_def dictionaries_from_events_def set_map_filter intro!: write_code_member
        split: option.splits)
  then show ?thesis
    by (auto simp: res_bind_Inr write_event_def required_f64_def side_code_def event_type_code_def is_blockable_clob_event_def
        split: option.splits if_splits)
qed

lemma encode_rows_total:
  "\<forall>e \<in> set es. \<exists>bs. res_bind (side_code (fe_source e)) (write_event e d) = Inr bs \<Longrightarrow> \<exists>b'. encode_rows d es b = Inr b'"
proof (induction es arbitrary: b)
  case (Cons e es)
  obtain side bs where "side_code (fe_source e) = Inr side" "write_event e d side = Inr bs"
    using Cons.prems by (auto simp: res_bind_Inr)
  then obtain b1 where "encode_row d e b = Inr b1" by (simp add: encode_row_def Let_def)
  then show ?case using Cons.IH[of b1] Cons.prems by simp
qed simp

lemma write_strings_total: "\<forall>v \<in> set vs. length v < 2 ^ 32 \<Longrightarrow> \<exists>bs. write_strings vs = Inr bs"
  by (induction vs) (auto simp: u32_len_def)

lemma length_collect: "length (collect_dictionary (List.map_filter f es)) \<le> length es"
proof -
  have "length (remdups (List.map_filter f es)) \<le> length (List.map_filter f es)" by (rule length_remdups_leq)
  also have "\<dots> \<le> length es" by (simp add: List.map_filter_def)
  finally show ?thesis by (simp add: collect_dictionary_def)
qed

lemma write_dictionary_total:
  "length vs < 2 ^ 32 \<Longrightarrow> \<forall>v \<in> set vs. length v < 2 ^ 32 \<Longrightarrow> \<exists>bs. write_dictionary vs = Inr bs"
  using write_strings_total[of vs] by (auto simp: write_dictionary_def u32_len_def)

lemma blockable_encodes:
  assumes "es \<noteq> []" "list_all is_blockable_clob_event es" "length es < 2 ^ 32"
    and "\<forall>e \<in> set es. \<forall>s \<in> set (event_strings e). length s < 2 ^ 32" "\<forall>p. compress level p \<noteq> None"
  shows "\<exists>blk. encode_events compress crc es level = Inr blk"
proof -
  let ?d = "dictionaries_from_events es"
  have small: "small_dictionaries ?d"
    using assms(3) order_le_less_trans[OF length_collect] by (auto simp: small_dictionaries_def dictionaries_from_events_def)
  have strs: "\<forall>v \<in> set (dict_strings ?d). length v < 2 ^ 32" using dict_strings_from_events assms(4) by fastforce
  have dw: "\<exists>bs. write_dictionary dict = Inr bs"
    if "dict \<in> {di_source_topics ?d, di_connection_ids ?d, di_sequence_keys ?d, di_market_ids ?d, di_asset_ids ?d}" for dict
    by (rule write_dictionary_total) (use that small strs in \<open>auto simp: small_dictionaries_def dict_strings_def\<close>)
  obtain b1 b2 b3 b4 b5 where "write_dictionary (di_source_topics ?d) = Inr b1" "write_dictionary (di_connection_ids ?d) = Inr b2"
    "write_dictionary (di_sequence_keys ?d) = Inr b3" "write_dictionary (di_market_ids ?d) = Inr b4"
    "write_dictionary (di_asset_ids ?d) = Inr b5"
    using dw[of "di_source_topics ?d"] dw[of "di_connection_ids ?d"] dw[of "di_sequence_keys ?d"] dw[of "di_market_ids ?d"]
      dw[of "di_asset_ids ?d"] by auto
  then obtain db where db: "write_dictionaries ?d = Inr db" by (simp add: write_dictionaries_def)
  have "\<forall>e \<in> set es. \<exists>bs. res_bind (side_code (fe_source e)) (write_event e ?d) = Inr bs"
    using blockable_row[OF small] assms(2) by (simp add: list_all_iff)
  from encode_rows_total[OF this] obtain b where b: "encode_rows ?d es summary_start = Inr b" by blast
  show ?thesis using assms(1,3,5) db b by (auto simp: encode_events_def Let_def u32_len_def split: option.splits)
qed

end
