(* ===== verification/StorageFacts.thy ===== *)
theory StorageFacts
  imports TickReplay ReplayBlockFacts
begin

section \<open>Replay does not depend on the storage\<close>

text \<open>
  Order-book events stored as compact rows or as one compressed block replay as the same ticks in the same order. The
  argument reduces every sort of the loader to the stable sort of the events by their receive time.
\<close>

subsection \<open>Sorting\<close>

lemma sort_key_map: "sort_key k (map h xs) = map h (sort_key (k \<circ> h) xs)"
proof -
  have ins: "insort_key k (h x) (map h ys) = map h (insort_key (k \<circ> h) x ys)" for x ys by (induction ys) simp_all
  show ?thesis by (induction xs) (simp_all add: ins comp_def)
qed

lemma insort_key_agree: "\<forall>y \<in> set ys. (K x \<le> K y) = (f x \<le> f y) \<Longrightarrow> insort_key K x ys = insort_key f x ys"
  by (induction ys) simp_all

text \<open>A key that breaks the ties of \<open>f\<close> by the position sorts as the stable sort by \<open>f\<close>.\<close>

lemma sort_key_agree: "sorted_wrt (\<lambda>x y. (K x \<le> K y) = (f x \<le> f y)) xs \<Longrightarrow> sort_key K xs = sort_key f xs"
  by (induction xs) (simp_all add: insort_key_agree)

lemma sort_key_twice: "sort_key k (sort_key k xs) = sort_key k xs"
  by (rule sort_key_id_if_sorted) simp

lemma enumerate_increasing: "sorted_wrt (\<lambda>p q. fst p < fst q) (enumerate n xs)"
  by (induction xs arbitrary: n) (auto simp: in_set_enumerate_eq)

lemma sort_enumerated:
  assumes "\<And>p q. p \<in> set ps \<Longrightarrow> q \<in> set ps \<Longrightarrow> fst p < fst q \<Longrightarrow> (K p \<le> K q) = (f (snd p) \<le> f (snd q))"
    and "ps = filter (P \<circ> snd) (enumerate n xs)"
  shows "sort_key K ps = sort_key (f \<circ> snd) ps" "map snd (sort_key K ps) = sort_key f (filter P xs)"
proof -
  have "sorted_wrt (\<lambda>p q. fst p < fst q) ps" 
    unfolding assms(2) by (rule sorted_wrt_filter) (rule enumerate_increasing)
  then have "sorted_wrt (\<lambda>p q. (K p \<le> K q) = ((f \<circ> snd) p \<le> (f \<circ> snd) q)) ps"
    by (rule sorted_wrt_mono_rel[rotated]) (simp add: assms(1))
  then show s: "sort_key K ps = sort_key (f \<circ> snd) ps" by (rule sort_key_agree)
  have "map snd (filter (P \<circ> snd) (enumerate n xs)) = filter P (map snd (enumerate n xs))" by (rule filter_map[symmetric])
  then have "map snd ps = filter P xs" by (simp add: assms(2))
  then show "map snd (sort_key K ps) = sort_key f (filter P xs)" by (simp only: s sort_key_map[symmetric])
qed

subsection \<open>Events both stores accept\<close>

definition storable_event :: "feed_event \<Rightarrow> bool" where
  "storable_event e \<longleftrightarrow> is_blockable_clob_event e \<and> codable e \<and>
     list_all (\<lambda>v. is_none_or v (\<lambda>x. \<not> is_nan x)) [fe_best_bid e, fe_best_ask e, fe_bid_size e, fe_ask_size e, fe_microprice e] \<and>
     unat (fe_received_at_ms e) * 1000 < 2 ^ 63 \<and> unat (fe_event_at_ms e) < 2 ^ 63 \<and>
     list_all (\<lambda>v. is_none_or v (\<lambda>n. unat n < 2 ^ 63)) [fe_received_at_us e, fe_event_at_us e]"

definition event_tick :: "feed_event \<Rightarrow> raw_tick" where
  "event_tick e = block_tick (decoded_of e)"

definition event_micros :: "feed_event \<Rightarrow> u64" where
  "event_micros e = sort_micros (fe_received_at_ms e) (fe_received_at_us e)"

definition event_between :: "i64 \<Rightarrow> i64 \<Rightarrow> feed_event \<Rightarrow> bool" where
  "event_between a b e \<longleftrightarrow> a \<le> uint (fe_received_at_ms e) \<and> uint (fe_received_at_ms e) \<le> b"

definition replayed :: "i64 \<Rightarrow> i64 \<Rightarrow> feed_event list \<Rightarrow> raw_tick list" where
  "replayed a b es = map event_tick (sort_key event_micros (filter (event_between a b) es))"

lemma storable_event_numbers:
  assumes "storable_event e"
  obtains bid ask bs as where "fe_best_bid e = Some bid" "fe_best_ask e = Some ask" "fe_bid_size e = Some bs" "fe_ask_size e = Some as"
    "\<not> is_nan bid" "\<not> is_nan ask" "\<not> is_nan bs" "\<not> is_nan as"
  using assms by (auto simp: storable_event_def is_blockable_clob_event_def)

definition stored_clob_row :: "i64 \<Rightarrow> feed_event \<Rightarrow> clob_row" where
  "stored_clob_row i e = \<lparr>cw_id = i, cw_received_at_ms = uint (fe_received_at_ms e), cw_event_at_ms = uint (fe_event_at_ms e),
     cw_received_at_us = map_option uint (fe_received_at_us e), cw_event_at_us = map_option uint (fe_event_at_us e),
     cw_side = clob_side (fe_source e), cw_source = fe_source e, cw_event_type = fe_event_type e,
     cw_source_topic = fe_source_topic e, cw_connection_id = fe_connection_id e, cw_sequence_key = fe_sequence_key e,
     cw_market_id = fe_market_id e, cw_asset_id = fe_asset_id e, cw_best_bid = the (fe_best_bid e),
     cw_best_ask = the (fe_best_ask e), cw_bid_size = the (fe_bid_size e), cw_ask_size = the (fe_ask_size e),
     cw_microprice = fe_microprice e, cw_fidelity = fidelity_to_string (fe_fidelity e)\<rparr>"

lemma bind_opt_u64_Inr: "is_none_or v (\<lambda>n. unat n < 2 ^ 63) \<Longrightarrow> bind_opt_u64 v = Inr (map_option uint v)"
  by (cases v) (simp_all add: bind_opt_u64_def bind_u64_def)

lemma bind_real_id: "is_none_or v (\<lambda>x. \<not> is_nan x) \<Longrightarrow> bind_real v = v"
  by (cases v) (simp_all add: bind_real_def)

lemma clob_event_row_stored:
  assumes "storable_event e"
  shows "clob_event_row i e = Inr (stored_clob_row i e)"
proof -
  obtain bid ask bs as where n: "fe_best_bid e = Some bid" "fe_best_ask e = Some ask" "fe_bid_size e = Some bs"
    "fe_ask_size e = Some as" "\<not> is_nan bid" "\<not> is_nan ask" "\<not> is_nan bs" "\<not> is_nan as" using assms by (rule storable_event_numbers)
  have t: "bind_u64 (fe_received_at_ms e) = Inr (uint (fe_received_at_ms e))" "bind_u64 (fe_event_at_ms e) = Inr (uint (fe_event_at_ms e))"
    "bind_opt_u64 (fe_received_at_us e) = Inr (map_option uint (fe_received_at_us e))"
    "bind_opt_u64 (fe_event_at_us e) = Inr (map_option uint (fe_event_at_us e))"
    "bind_real (fe_microprice e) = fe_microprice e"
    using assms by (simp_all add: storable_event_def bind_u64_def bind_opt_u64_Inr bind_real_id)
  have r: "bind_required c (Some x) = Inr x" if "\<not> is_nan x" for c x using that by (simp add: bind_required_def bind_real_def)
  show ?thesis using n by (simp add: clob_event_row_def t r stored_clob_row_def)
qed

lemma next_id_upt: "next_id (map int [1..<Suc k]) = int k + 1"
proof -
  have "Max (insert 0 (int ` {1..<Suc k})) = int k"
    by (rule Max_eqI) (auto simp: image_iff intro: exI[of _ k])
  then show ?thesis by (simp add: next_id_def del: upt_Suc)
qed

lemma insert_clob_events:
  assumes "list_all storable_event es" "dd_clob_events db = Some rows" "map cw_id rows = map int [1..<Suc (length rows)]"
  shows "insert_events True es db =
    Inr (db\<lparr>dd_clob_events := Some (rows @ map (\<lambda>(i, e). stored_clob_row (int i) e) (enumerate (Suc (length rows)) es))\<rparr>)"
  using assms
proof (induction es arbitrary: db rows)
  case (Cons e es)
  have e: "storable_event e" "is_clob_top_of_book_event e" using Cons.prems(1) by (simp_all add: storable_event_def is_clob_top_of_book_event_def)
  let ?row = "stored_clob_row (int (length rows) + 1) e"
  have ins: "insert_clob_event e db = Inr (int (length rows) + 1, db\<lparr>dd_clob_events := Some (rows @ [?row])\<rparr>)"
    using e Cons.prems(2,3) next_id_upt[of "length rows"] by (simp add: insert_clob_event_def clob_event_row_stored Let_def)
  have "map cw_id (rows @ [?row]) = map int [1..<Suc (length (rows @ [?row]))]"
    using Cons.prems(3) by (simp add: stored_clob_row_def)
  from Cons.IH[OF _ _ this, of "db\<lparr>dd_clob_events := Some (rows @ [?row])\<rparr>"] show ?case
    using Cons.prems(1) e(2) by (simp add: ins add.commute)
qed simp

subsection \<open>Loading the rows\<close>

definition tick_row :: "u8 \<Rightarrow> u64 \<Rightarrow> feed_event \<Rightarrow> replay_row" where
  "tick_row order i e = \<lparr>rw_sort_us = event_micros e, rw_storage_order = order, rw_row_id = i, rw_tick = event_tick e\<rparr>"

lemma u63: "unat (n :: u64) < 2 ^ 63 \<Longrightarrow> of_int (uint n) = n" "(0 :: int) \<le> uint (n :: u64)"
  by simp_all

lemma decode_clob_columns:
  assumes "storable_event e"
  shows "decode_replay_row (clob_columns (stored_clob_row (int i) e)) = Inr (tick_row 1 (u64_or_zero (int i)) e)"
proof -
  have "column_micros (map_option uint (fe_received_at_us e)) = Inr (fe_received_at_us e)"
    by (cases "fe_received_at_us e") (simp_all add: column_micros_def)
  moreover have "fidelity_from_str (fidelity_to_string (fe_fidelity e)) = Inr (fe_fidelity e)"
    by (cases "fe_fidelity e") (simp_all add: fidelity_from_str_def)
  ultimately show ?thesis
    by (simp add: decode_replay_row_def clob_columns_def stored_clob_row_def tick_row_def event_micros_def event_tick_def
        block_tick_def decoded_of_def map_error_def u8_or_max_def Let_def)
qed

lemma micros_column:
  assumes "storable_event e"
  shows "unwrap_or (map_option uint (fe_received_at_us e)) (uint (fe_received_at_ms e) * 1000) = uint (event_micros e)"
proof (cases "fe_received_at_us e")
  case None
  let ?n = "fe_received_at_ms e"
  have n: "unat ?n * 1000 < 2 ^ 63" using assms by (simp add: storable_event_def)
  have "unat ?n * unat (1000 :: u64) < 2 ^ 64" using n by simp
  then have "saturating_mul ?n 1000 = ?n * 1000" by (simp add: saturating_mul_def)
  moreover have "unat (?n * 1000) = unat ?n * 1000" using n by (simp add: unat_word_ariths)
  ultimately show ?thesis using None
    by (simp only: event_micros_def sort_micros_def uint_nat option.map unwrap_or_def option.case)
qed (simp add: event_micros_def sort_micros_def)

lemma u64_or_zero_less: "int j < 2 ^ 64 \<Longrightarrow> i < j \<Longrightarrow> u64_or_zero (int i) < u64_or_zero (int j)"
  by (simp add: u64_or_zero_def word_less_nat_alt unat_of_nat)

lemma in_enumerated:
  "p \<in> set (filter (P \<circ> snd) (enumerate n xs)) \<Longrightarrow> snd p \<in> set xs \<and> n \<le> fst p \<and> fst p < n + length xs"
  by (cases p) (auto simp: in_set_enumerate_eq)

text \<open>Rows numbered in the order of the events sort as the events do.\<close>

lemma rows_replayed:
  fixes a b n es
  defines "ps \<equiv> filter (event_between a b \<circ> snd) (enumerate n es)"
  defines "ss \<equiv> sort_key (event_micros \<circ> snd) ps"
  assumes mono: "\<And>i j. i < j \<Longrightarrow> j < n + length es \<Longrightarrow> idf i < idf j" and g: "g = (\<lambda>(i, e). tick_row order (idf i) e)"
  shows "sort_key row_key (map g ss) = map g ss" "map rw_tick (map g ss) = replayed a b es"
    "map rw_tick (sort_key row_key (map g ps)) = replayed a b es"
proof -
  have k: "((row_key \<circ> g) p \<le> (row_key \<circ> g) q) = (event_micros (snd p) \<le> event_micros (snd q))"
    if "p \<in> set ps" "q \<in> set ps" "fst p < fst q" for p q
    using mono[OF that(3)] in_enumerated[of q] that(2)
    by (auto simp: ps_def g row_key_def tick_row_def split_def less_eq_prod_def)
  note se = sort_enumerated[where K = "row_key \<circ> g" and f = event_micros and P = "event_between a b" and n = n and xs = es and ps = ps, OF k]
  have s: "sort_key (row_key \<circ> g) ps = ss" unfolding ss_def by (rule se(1)) (simp_all add: ps_def)
  show t: "map rw_tick (map g ss) = replayed a b es"
  proof -
    have "map snd ss = sort_key event_micros (filter (event_between a b) es)" using se(2) s by (simp add: ps_def)
    moreover have "map rw_tick (map g ss) = map event_tick (map snd ss)" by (simp add: g tick_row_def split_def)
    ultimately show ?thesis by (simp add: replayed_def)
  qed
  show "sort_key row_key (map g ss) = map g ss" by (simp only: sort_key_map) (simp only: s[symmetric] sort_key_twice)
  show "map rw_tick (sort_key row_key (map g ps)) = replayed a b es" by (simp only: sort_key_map s t)
qed

lemma clob_path:
  assumes es: "list_all storable_event es" "length es < 2 ^ 32"
    and rows: "dd_feed_events db = Some []" "dd_clob_blocks db = Some []" "dd_tick_data db = Some []"
      "dd_clob_events db = Some (map (\<lambda>(i, e). stored_clob_row (int i) e) (enumerate 1 es))"
    and r: "timestamp_param start_time ''start_time'' = Inr a" "timestamp_param end_time ''end_time'' = Inr b"
  shows "load_ticks decode db start_time end_time = Inr (replayed a b es)"
proof -
  let ?ps = "filter (event_between a b \<circ> snd) (enumerate 1 es)"
  let ?h = "\<lambda>(i, e). clob_columns (stored_clob_row (int i) e)"
  let ?g = "\<lambda>(i, e). tick_row 1 (u64_or_zero (int i)) e"
  let ?ss = "sort_key (event_micros \<circ> snd) ?ps"
  have st: "storable_event (snd p)" if "p \<in> set ?ps" for p
    using in_enumerated[OF that] es(1) by (simp add: list_all_iff)
  have br: "clob_branch a b db = map ?h ?ps"
    by (auto simp: clob_branch_def rows filter_map comp_def split_def in_range_def event_between_def clob_columns_def
        stored_clob_row_def intro!: filter_cong)
  have feed: "feed_branch a b db = []" by (simp add: feed_branch_def rows)
  then have q: "replay_query a b db = map ?h (sort_key (query_key \<circ> ?h) ?ps)"
    by (simp add: replay_query_def br sort_key_map)
  have blocks: "overlapping_blocks a b db = []" by (simp add: overlapping_blocks_def rows)
  have k: "((query_key \<circ> ?h) p \<le> (query_key \<circ> ?h) q) = (event_micros (snd p) \<le> event_micros (snd q))"
    if "p \<in> set ?ps" "q \<in> set ?ps" "fst p < fst q" for p q
    using that micros_column[OF st[OF that(1)]] micros_column[OF st[OF that(2)]]
    by (auto simp: query_key_def clob_columns_def stored_clob_row_def word_le_def less_eq_prod_def split_def)
  have s: "sort_key (query_key \<circ> ?h) ?ps = ?ss" 
    by (rule sort_enumerated(1)[where K = "query_key \<circ> ?h" and f = event_micros and P = "event_between a b" and n = 1 and xs = es])
      (use k in simp_all)
  have dec: "res_map decode_replay_row (map ?h ?ss) = Inr (map ?g ?ss)"
    by (auto simp: res_map_Inr decode_clob_columns st split_def)
  then have qs: "res_map decode_replay_row (replay_query a b db) = Inr (map ?g ?ss)" by (simp only: q s)
  have mono: "u64_or_zero (int i) < u64_or_zero (int j)" if "i < j" "j < 1 + length es" for i j
    by (rule u64_or_zero_less) (use that es(2) in simp_all)
  note main = rows_replayed[where n = 1 and es = es and idf = "\<lambda>i. u64_or_zero (int i)" and a = a and b = b, OF mono refl]
  show ?thesis
  proof (cases "0 < stored_count a b db")
    case True
    then show ?thesis using main(1,2)[of 1] by (simp add: load_ticks_def r rows qs load_clob_block_rows_def blocks)
  next
    case False
    then have "?ps = []" by (simp add: stored_count_def feed br blocks)
    then have "replayed a b es = []" using main(2) by simp
    then show ?thesis using False by (simp add: load_ticks_def r legacy_ticks_def rows)
  qed
qed

subsection \<open>Loading a block\<close>

definition stored_block :: "encoded_block \<Rightarrow> block_row" where
  "stored_block b = \<lparr>br_id = 1, br_min_received_at_ms = uint (eb_min_received_at_ms b),
     br_max_received_at_ms = uint (eb_max_received_at_ms b), br_min_received_at_us = map_option uint (eb_min_received_at_us b),
     br_max_received_at_us = map_option uint (eb_max_received_at_us b), br_row_count = uint (eb_row_count b),
     br_up_rows = uint (eb_up_rows b), br_down_rows = uint (eb_down_rows b), br_codec = ''zstd'',
     br_schema_version = uint (eb_schema_version b), br_compressed_bytes = uint (eb_compressed_bytes b),
     br_uncompressed_bytes = uint (eb_uncompressed_bytes b), br_checksum = eb_checksum b, br_payload = eb_payload b\<rparr>"

lemma block_path:
  assumes es: "list_all storable_event es" "length es < 2 ^ 32"
    and dec: "decode (eb_payload blk) (eb_checksum blk) = Inr (map decoded_of es)"
    and sum: "eb_min_received_at_ms blk = Min (fe_received_at_ms ` set es)" "eb_max_received_at_ms blk = Max (fe_received_at_ms ` set es)"
      "unat (eb_row_count blk) = length es" "es \<noteq> []"
    and rows: "dd_feed_events db = Some []" "dd_clob_events db = Some []" "dd_tick_data db = Some []"
      "dd_clob_blocks db = Some [stored_block blk]"
    and r: "timestamp_param start_time ''start_time'' = Inr a" "timestamp_param end_time ''end_time'' = Inr b"
  shows "load_ticks decode db start_time end_time = Inr (replayed a b es)"
proof -
  let ?idf = "\<lambda>i. saturating_add (saturating_mul (u64_or_zero 1) 10000000) (of_nat i)"
  let ?g = "\<lambda>(i, e). tick_row 2 (?idf i) e"
  let ?ps = "filter (event_between a b \<circ> snd) (enumerate 0 es)"
  have small: "unat (fe_received_at_ms e) < 2 ^ 63" if "e \<in> set es" for e
    using es(1) that by (fastforce simp: list_all_iff storable_event_def)
  have lo: "eb_min_received_at_ms blk \<le> fe_received_at_ms e" "fe_received_at_ms e \<le> eb_max_received_at_ms blk" if "e \<in> set es" for e
    using that by (simp_all add: sum(1,2))
  have ev: "block_event_row a b 1 (i, decoded_of e) = Inr (if event_between a b e then [?g (i, e)] else [])" if "e \<in> set es" for i e
    using small[OF that] by (simp add: block_event_row_def Let_def decoded_of_def event_between_def tick_row_def event_micros_def
        event_tick_def not_le)
  have en: "enumerate 0 (map decoded_of es) = map (\<lambda>(i, e). (i, decoded_of e)) (enumerate 0 es)"
    by (simp add: enumerate_eq_zip zip_map2)
  have "res_map (block_event_row a b 1) (enumerate 0 (map decoded_of es)) =
      Inr (map (\<lambda>(i, e). if event_between a b e then [?g (i, e)] else []) (enumerate 0 es))"
    by (auto simp: res_map_Inr en in_set_enumerate_eq ev)
  moreover have "concat (map (\<lambda>(i, e). if event_between a b e then [?g (i, e)] else []) xs) = map ?g (filter (event_between a b \<circ> snd) xs)" for xs
    by (induction xs) auto
  ultimately have br: "block_rows decode a b (stored_block blk) = Inr (map ?g ?ps)"
    by (simp add: block_rows_def stored_block_def dec map_error_def)
  have mono: "?idf i < ?idf j" if "i < j" "j < 0 + length es" for i j
  proof -
    have "u64_or_zero 1 = 1" by (simp add: u64_or_zero_def)
    then show ?thesis using that es(2)
      by (simp add: word_less_nat_alt unat_saturating_add saturating_mul_def unat_of_nat)
  qed
  note main = rows_replayed[where n = 0 and es = es and idf = ?idf and a = a and b = b, OF mono refl, of 2]
  show ?thesis
  proof (cases "a \<le> uint (eb_max_received_at_ms blk) \<and> uint (eb_min_received_at_ms blk) \<le> b")
    case True
    then have "overlapping_blocks a b db = [stored_block blk]" by (simp add: overlapping_blocks_def rows stored_block_def)
    moreover have "0 < uint (eb_row_count blk)" using sum(3,4) by (simp add: uint_nat)
    ultimately have "0 < stored_count a b db"
      by (simp add: stored_count_def feed_branch_def clob_branch_def rows stored_block_def)
    then show ?thesis using \<open>overlapping_blocks a b db = [stored_block blk]\<close> main(3)
      by (simp add: load_ticks_def r rows replay_query_def feed_branch_def clob_branch_def load_clob_block_rows_def br)
  next
    case False
    have none: "\<not> event_between a b e" if "e \<in> set es" for e
      using False lo[OF that] by (auto simp: event_between_def word_le_def)
    have "overlapping_blocks a b db = []" using False by (simp add: overlapping_blocks_def rows stored_block_def)
    moreover have "replayed a b es = []" using none by (simp add: replayed_def filter_False)
    ultimately show ?thesis
      by (simp add: load_ticks_def r stored_count_def feed_branch_def clob_branch_def rows legacy_ticks_def)
  qed
qed

subsection \<open>Both storages\<close>

lemma min_max_option_none_or:
  "is_none_or x P \<Longrightarrow> is_none_or y P \<Longrightarrow> is_none_or (min_option x y) P \<and> is_none_or (max_option x y) P"
  by (cases x; cases y) (auto simp: min_def max_def)

lemma encode_rows_micros:
  "encode_rows d es b = Inr b' \<Longrightarrow> \<forall>e \<in> set es. is_none_or (fe_received_at_us e) P \<Longrightarrow> is_none_or (bs_micro_floor b) P \<Longrightarrow>
     is_none_or (bs_micro_ceiling b) P \<Longrightarrow> is_none_or (bs_micro_floor b') P \<and> is_none_or (bs_micro_ceiling b') P"
proof (induction es arbitrary: b)
  case (Cons e es)
  obtain b1 where b1: "encode_row d e b = Inr b1" "encode_rows d es b1 = Inr b'" using Cons.prems(1) by (auto simp: res_bind_Inr)
  have "is_none_or (bs_micro_floor b1) P \<and> is_none_or (bs_micro_ceiling b1) P"
    using b1(1) Cons.prems(2-4) min_max_option_none_or[of _ P]
    by (auto simp: encode_row_def Let_def res_bind_Inr split: if_splits)
  then show ?case using Cons.IH[OF b1(2)] Cons.prems(2) by simp
qed simp

lemma block_micros:
  assumes "list_all storable_event es" "encode_events compress crc es level = Inr blk"
  shows "is_none_or (eb_min_received_at_us blk) (\<lambda>n. unat n < 2 ^ 63) \<and> is_none_or (eb_max_received_at_us blk) (\<lambda>n. unat n < 2 ^ 63)"
proof -
  obtain b where "encode_rows (dictionaries_from_events es) es summary_start = Inr b"
    "eb_min_received_at_us blk = bs_micro_floor b" "eb_max_received_at_us blk = bs_micro_ceiling b"
    using assms(2) by (auto simp: encode_events_def Let_def res_bind_Inr split: if_splits option.splits)
  moreover have "\<forall>e \<in> set es. is_none_or (fe_received_at_us e) (\<lambda>n. unat n < 2 ^ 63)"
    using assms(1) by (simp add: list_all_iff storable_event_def)
  ultimately show ?thesis using encode_rows_micros[of _ es summary_start b] by (simp add: summary_start_def)
qed

lemma insert_block_fresh:
  assumes "list_all storable_event es" "encode_events compress crc es level = Inr blk"
    and "unat (eb_compressed_bytes blk) < 2 ^ 63" "unat (eb_uncompressed_bytes blk) < 2 ^ 63"
  shows "insert_clob_replay_block blk fresh_data_db = Inr (fresh_data_db\<lparr>dd_clob_blocks := Some [stored_block blk]\<rparr>)"
proof -
  have ne: "es \<noteq> []" using assms(2) by (auto simp: encode_events_def)
  then have "Min (fe_received_at_ms ` set es) \<in> fe_received_at_ms ` set es" "Max (fe_received_at_ms ` set es) \<in> fe_received_at_ms ` set es"
    by simp_all
  moreover have "unat n < 2 ^ 63" if "n \<in> fe_received_at_ms ` set es" for n
    using assms(1) that by (fastforce simp: list_all_iff storable_event_def)
  ultimately have "unat (eb_min_received_at_ms blk) < 2 ^ 63" "unat (eb_max_received_at_ms blk) < 2 ^ 63"
    by (simp_all only: block_summary[OF assms(2)])
  moreover note us = block_micros[OF assms(1,2), THEN conjunct1, THEN bind_opt_u64_Inr]
    block_micros[OF assms(1,2), THEN conjunct2, THEN bind_opt_u64_Inr]
  ultimately show ?thesis using assms(3,4)
    by (simp add: insert_clob_replay_block_def fresh_data_db_def bind_u64_def block_micros[OF assms(1,2)] bind_opt_u64_Inr
        stored_block_def next_id_def)
qed

text \<open>The two ways a run can store the same order-book events, each followed by the loader.\<close>

theorem storage_irrelevant:
  assumes st: "list_all storable_event es" and enc: "encode_events compress crc es level = Inr blk"
    and size: "length (block_bytes es) < 2 ^ 64" "unat (eb_compressed_bytes blk) < 2 ^ 63" "unat (eb_uncompressed_bytes blk) < 2 ^ 63"
    and zstd: "\<forall>p lv bs. compress lv p = Some bs \<longrightarrow> decompress bs = Some p"
  shows "\<exists>rows blocks. log_feed_events_batch_with_compact_clob es True fresh_data_db = Inr (of_nat (length es), rows) \<and>
    log_feed_events_and_clob_block compress crc [] es level fresh_data_db = Inr (of_nat (length es), blocks) \<and>
    (\<forall>t1 t2 a b. timestamp_param t1 ''start_time'' = Inr a \<longrightarrow> timestamp_param t2 ''end_time'' = Inr b \<longrightarrow>
       load_ticks (decode_payload decompress crc) rows t1 t2 = Inr (replayed a b es) \<and>
       load_ticks (decode_payload decompress crc) blocks t1 t2 = Inr (replayed a b es))"
proof -
  let ?rows = "fresh_data_db\<lparr>dd_clob_events := Some (map (\<lambda>(i, e). stored_clob_row (int i) e) (enumerate 1 es))\<rparr>"
  let ?blocks = "fresh_data_db\<lparr>dd_clob_blocks := Some [stored_block blk]\<rparr>"
  have ne: "es \<noteq> []" using enc by (auto simp: encode_events_def)
  note sum = block_summary[OF enc]
  have len: "length es < 2 ^ 32" using sum(3) unat_u32_less[of "eb_row_count blk"] by simp
  have cod: "list_all codable es" using st by (simp add: list_all_iff storable_event_def)
  have "insert_events True es fresh_data_db = Inr ?rows"
    using insert_clob_events[OF st, of fresh_data_db "[]"] by (simp add: fresh_data_db_def)
  then have 1: "log_feed_events_batch_with_compact_clob es True fresh_data_db = Inr (of_nat (length es), ?rows)"
    using ne by (simp add: log_feed_events_batch_with_compact_clob_def fresh_data_db_def)
  have 2: "log_feed_events_and_clob_block compress crc [] es level fresh_data_db = Inr (of_nat (length es), ?blocks)"
    using ne enc insert_block_fresh[OF st enc size(2,3)] by (simp add: log_feed_events_and_clob_block_def fresh_data_db_def)
  have 3: "load_ticks dec ?rows t1 t2 = Inr (replayed a b es)"
    if "timestamp_param t1 ''start_time'' = Inr a" "timestamp_param t2 ''end_time'' = Inr b" for t1 t2 a b dec
    by (rule clob_path[where db = ?rows, OF st len _ _ _ _ that]) (simp_all add: fresh_data_db_def)
  have 4: "load_ticks (decode_payload decompress crc) ?blocks t1 t2 = Inr (replayed a b es)"
    if "timestamp_param t1 ''start_time'' = Inr a" "timestamp_param t2 ''end_time'' = Inr b" for t1 t2 a b
    using block_path[of es "decode_payload decompress crc" blk ?blocks t1 a t2 b] st len block_round_trip[OF enc cod size(1) zstd]
      sum(1,2,3) ne that by (simp add: fresh_data_db_def)
  show ?thesis using 1 2 3 4 by blast
qed

end
