(* ===== verification/BlockTypes.thy ===== *)
theory BlockTypes
  imports ReplayBlockFacts
begin

section \<open>What a block can decode to\<close>

text \<open>
  The decoder reads bytes that anyone may have written. Whatever it accepts is the decoded form of events the encoder takes:
  the sides, the event types and the fidelity are known, all strings are well-formed UTF-8, and no time is the mark of absence.
\<close>

definition yields :: "'a parser \<Rightarrow> ('a \<Rightarrow> bool) \<Rightarrow> bool" where
  "yields p P \<longleftrightarrow> (\<forall>r v r'. p r = Inr (v, r') \<longrightarrow> P v)"

lemma yields_any: "yields p (\<lambda>_. True)"
  by (simp add: yields_def)

lemma yields_pure: "P v \<Longrightarrow> yields (rd_pure v) P"
  by (simp add: yields_def rd_pure_def)

lemma yields_lift: "(\<And>x. res = Inr x \<Longrightarrow> P x) \<Longrightarrow> yields (rd_lift res) P"
  by (auto simp: yields_def rd_lift_def split: sum.splits)

lemma yields_bind: "yields p Q \<Longrightarrow> (\<And>v. Q v \<Longrightarrow> yields (f v) P) \<Longrightarrow> yields (rd_bind p f) P"
  by (fastforce simp: yields_def rd_bind_def split: sum.splits)

lemma yields_times: "yields p P \<Longrightarrow> yields (read_times n p) (list_all P)"
proof (induction n)
  case (Suc n)
  then show ?case by (simp, intro yields_bind[OF Suc.prems] yields_bind[OF Suc.IH] yields_pure) simp_all
qed (simp add: yields_pure)

lemma yields_string: "yields read_string rust_string"
proof -
  have u: "unat b mod 256 = unat b" for b :: u8
  proof -
    have "unat b < 2 ^ 8" by (rule order_less_le_trans[OF unsigned_less]) simp
    then show ?thesis by simp
  qed
  have "rust_string s" if "from_utf8 bs = Inr s" for bs s
    using that by (auto simp: from_utf8_def rust_string_def comp_def u split: if_splits)
  then show ?thesis unfolding read_string_def
    by (intro yields_bind[OF yields_any] yields_lift)
qed

lemma yields_dictionary: "yields read_dictionary (list_all rust_string)"
  unfolding read_dictionary_def by (intro yields_bind[OF yields_any] yields_times yields_string)

definition rust_dictionaries :: "dictionaries \<Rightarrow> bool" where
  "rust_dictionaries d \<longleftrightarrow> list_all rust_string (di_source_topics d) \<and> list_all rust_string (di_connection_ids d) \<and>
     list_all rust_string (di_sequence_keys d) \<and> list_all rust_string (di_market_ids d) \<and> list_all rust_string (di_asset_ids d)"

lemma yields_dictionaries: "yields dictionaries_read_from rust_dictionaries"
  unfolding dictionaries_read_from_def
  by (intro yields_bind[OF yields_dictionary] yields_pure) (simp add: rust_dictionaries_def)

abbreviation rust_option :: "string option \<Rightarrow> bool" where
  "rust_option v \<equiv> is_none_or v rust_string"

lemma yields_value: "list_all rust_string dict \<Longrightarrow> yields (read_dictionary_value dict) rust_option"
  unfolding read_dictionary_value_def
  by (rule yields_bind[OF yields_any]) (auto simp: list_all_length intro: yields_pure yields_lift)

lemma yields_time: "yields read_optional_u64 (\<lambda>v. v \<noteq> Some NONE_U64)"
  unfolding read_optional_u64_def by (intro yields_bind[OF yields_any] yields_pure) simp

definition typed_row :: "decoded_event \<Rightarrow> bool" where
  "typed_row r \<longleftrightarrow> de_source r \<in> {''clob_up'', ''clob_down''} \<and> de_event_type r \<in> {''book'', ''price_change'', ''best_bid_ask''} \<and>
     de_received_at_us r \<noteq> Some NONE_U64 \<and> de_event_at_us r \<noteq> Some NONE_U64 \<and> rust_option (de_source_topic r) \<and>
     rust_option (de_connection_id r) \<and> rust_option (de_sequence_key r) \<and> rust_option (de_market_id r) \<and> rust_option (de_asset_id r)"

lemma yields_event: "rust_dictionaries d \<Longrightarrow> yields (read_event d) typed_row"
proof -
  assume d: "rust_dictionaries d"
  then have v: "yields (read_dictionary_value (di_source_topics d)) rust_option" "yields (read_dictionary_value (di_connection_ids d)) rust_option"
    "yields (read_dictionary_value (di_sequence_keys d)) rust_option" "yields (read_dictionary_value (di_market_ids d)) rust_option"
    "yields (read_dictionary_value (di_asset_ids d)) rust_option"
    by (simp_all add: rust_dictionaries_def yields_value)
  have s: "yields (rd_lift (source_from_side_code n)) (\<lambda>s. s \<in> {''clob_up'', ''clob_down''})"
    "yields (rd_lift (event_type_from_code n)) (\<lambda>s. s \<in> {''book'', ''price_change'', ''best_bid_ask''})" for n
    by (rule yields_lift, auto simp: source_from_side_code_def event_type_from_code_def split: if_splits)+
  show ?thesis unfolding read_event_def
    apply (rule yields_bind, rule yields_time s v yields_any)+
    apply (rule yields_pure, simp add: typed_row_def)
    done
qed

text \<open>A typed row is what some event of the encoder decodes to.\<close>

definition event_of_row :: "decoded_event \<Rightarrow> feed_event" where
  "event_of_row r = \<lparr>fe_id = None, fe_received_at_ms = de_received_at_ms r, fe_event_at_ms = de_event_at_ms r,
     fe_received_at_us = de_received_at_us r, fe_event_at_us = de_event_at_us r, fe_source = de_source r,
     fe_event_type = de_event_type r, fe_source_topic = de_source_topic r, fe_source_symbol = None,
     fe_connection_id = de_connection_id r, fe_sequence_key = de_sequence_key r, fe_market_id = de_market_id r,
     fe_asset_id = de_asset_id r, fe_price = None, fe_trade_size = None, fe_signed_quantity = None,
     fe_best_bid = Some (de_best_bid r), fe_best_ask = Some (de_best_ask r), fe_bid_size = Some (de_bid_size r),
     fe_ask_size = Some (de_ask_size r), fe_depth_bid_notional = None, fe_depth_ask_notional = None,
     fe_depth_imbalance = None, fe_microprice = de_microprice r, fe_payload_json = None, fe_details_json = None,
     fe_fidelity = de_fidelity r\<rparr>"

lemma typed_row_event:
  "decoded_of (event_of_row r) = r" "typed_row r \<Longrightarrow> is_blockable_clob_event (event_of_row r) \<and> codable (event_of_row r)"
proof -
  show "decoded_of (event_of_row r) = r" by (simp add: decoded_of_def event_of_row_def)
  assume t: "typed_row r"
  then have "codable (event_of_row r)"
    by (auto simp: codable_def times_distinct_def event_strings_def event_of_row_def typed_row_def dest: sym split: option.splits)
  with t show "is_blockable_clob_event (event_of_row r) \<and> codable (event_of_row r)"
    by (simp add: typed_row_def is_blockable_clob_event_def event_of_row_def)
qed

lemma decode_typed:
  assumes "decode_payload decompress crc p c = Inr rows"
  shows "list_all typed_row rows"
proof -
  have "yields (read_times n (read_event d)) (list_all typed_row)" if "rust_dictionaries d" for n d
    using that by (intro yields_times yields_event)
  then have "yields (rd_bind dictionaries_read_from (\<lambda>d. rd_bind read_u32 (\<lambda>n. read_times (unat n) (read_event d)))) (list_all typed_row)"
    by (intro yields_bind[OF yields_dictionaries] yields_bind[OF yields_any])
  then have "yields read_payload (list_all typed_row)" unfolding read_payload_def
    by (intro yields_bind[OF yields_any]) (auto intro: yields_lift)
  then show ?thesis using assms
    by (auto simp: decode_payload_def decode_bytes_Inr yields_def Let_def split: option.splits if_splits)
qed

end
