(* ===== verification/BlockInstances.thy ===== *)
theory BlockInstances
  imports StorageFacts BlockTypes
begin

section \<open>A concrete block\<close>

text \<open>One order-book event, a codec that stores the bytes as they are, and a constant checksum.\<close>

definition demo_event :: feed_event where
  "demo_event = \<lparr>fe_id = None, fe_received_at_ms = 1500, fe_event_at_ms = 1490, fe_received_at_us = Some 1500000,
     fe_event_at_us = None, fe_source = ''clob_up'', fe_event_type = ''best_bid_ask'', fe_source_topic = None,
     fe_source_symbol = None, fe_connection_id = None, fe_sequence_key = None, fe_market_id = Some ''m1'',
     fe_asset_id = None, fe_price = None, fe_trade_size = None, fe_signed_quantity = None, fe_best_bid = Some 0,
     fe_best_ask = Some 1, fe_bid_size = Some 1, fe_ask_size = Some 1, fe_depth_bid_notional = None,
     fe_depth_ask_notional = None, fe_depth_imbalance = None, fe_microprice = None, fe_payload_json = None,
     fe_details_json = None, fe_fidelity = RawEvent\<rparr>"

abbreviation demo_compress :: "int \<Rightarrow> u8 list \<Rightarrow> u8 list option" where
  "demo_compress \<equiv> \<lambda>_ bs. Some bs"

lemma demo_event_storable: "storable_event demo_event"
  by (simp add: storable_event_def demo_event_def is_blockable_clob_event_def codable_def times_distinct_def event_strings_def
      rust_string_def NONE_U64_def)

lemma demo_block:
  "\<exists>blk. encode_events demo_compress (\<lambda>_. 0) [demo_event] 3 = Inr blk \<and> length (block_bytes [demo_event]) < 2 ^ 64 \<and>
     unat (eb_compressed_bytes blk) < 2 ^ 63 \<and> unat (eb_uncompressed_bytes blk) < 2 ^ 63"
proof -
  have "\<exists>blk. encode_events demo_compress (\<lambda>_. 0) [demo_event] 3 = Inr blk"
    by (rule blockable_encodes) (simp_all add: demo_event_def is_blockable_clob_event_def event_strings_def)
  then obtain blk where blk: "encode_events demo_compress (\<lambda>_. 0) [demo_event] 3 = Inr blk" by blast
  have c: "list_all codable [demo_event]" using demo_event_storable by (simp add: storable_event_def)
  have p: "eb_payload blk = block_bytes [demo_event]" using encode_events_Inr[OF blk c] by simp
  have "eb_compressed_bytes blk = of_nat (length (eb_payload blk)) \<and> eb_uncompressed_bytes blk = of_nat (length (eb_payload blk))"
    using blk by (auto simp: encode_events_def Let_def res_bind_Inr split: if_splits)
  moreover have "length (block_bytes [demo_event]) < 1000"
    by (simp add: block_bytes_def Let_def dictionaries_from_events_def demo_event_def row_bytes_def write_event_def MAGIC_def bytes_of_def
        write_dictionaries_def write_dictionary_def collect_dictionary_def u32_len_def side_code_def event_type_code_def required_f64_def
        write_dictionary_code_def dictionary_lookup_def write_optional_u64_def write_optional_f64_def)
  ultimately show ?thesis using blk by (simp add: p unat_of_nat take_bit_nat_eq_self)
qed

end
