(* ===== verification/LiveDecision.thy ===== *)
theory LiveDecision
  imports BankTrace CircuitBreaker
begin

section \<open>The live decision engine\<close>

text \<open>
  \<^verbatim>\<open>src/bots/paint/src/live_decision.rs\<close>: the engine the paper, readonly and live runtimes drive. It keeps the pending
  orders, the open trades, the bankroll, the breaker, the trend tracker and the rejection tracker in memory, reads no
  storage and sends nothing: a pass returns the evidence to persist, the orders to submit and the events to log. The
  \<open>&mut Vec\<close> arguments of the handlers travel with the engine in the record \<open>decision_pass\<close>. Signals and trades get
  negative identifiers, counted down. \<open>parse\<close> reads a fee schedule and \<open>render\<close> prints a JSON value, both of
  \<^verbatim>\<open>serde_json\<close>; a panic of a strategy is \<open>None\<close>. The pure helpers the source repeats from \<^verbatim>\<open>executor.rs\<close> and
  \<^verbatim>\<open>strategy_cycle.rs\<close> are repeated here; \<open>LiveDecisionFacts\<close> shows that the copies agree.
\<close>

subsection \<open>Evidence for the persistence writer\<close>

text \<open>\<^verbatim>\<open>src/bots/paint/src/live_persistence_writer.rs\<close>, the events the engine hands over.\<close>

record feed_health_event =
  fh_id :: "i64 option"
  fh_timestamp_ms :: u64
  fh_timestamp_us :: "u64 option"
  fh_source :: string
  fh_event_type :: string
  fh_connection_id :: "string option"
  fh_market_id :: "string option"
  fh_details_json :: "string option"

record balance_event =
  be_timestamp_ms :: u64
  be_event :: string
  be_trade_id :: "i64 option"
  be_amount :: f64
  be_balance :: f64

datatype live_event =
    EvSignal i64 signal string ReplayFidelity "u64 option" "u64 option" string "string option"
  | EvSignalOutcome i64 u64 "u64 option" u64 string "string option"
  | EvMarketUpsert market_window
  | EvOpenTrade trade
  | EvCloseTrade i64 trade_result balance_event
  | EvMarketClosed string
  | EvMarketResolved string string
  | EvRejectionSummaries "rejection_summary list"
  | EvFeedHealth feed_health_event
  | EvRunMetadata "(string \<times> string \<times> u64) list"

definition balance_event_for_trade :: "i64 \<Rightarrow> u64 \<Rightarrow> f64 \<Rightarrow> f64 \<Rightarrow> balance_event" where
  "balance_event_for_trade trade_id timestamp_ms pnl balance = \<lparr>be_timestamp_ms = timestamp_ms,
     be_event = ''trade_close'', be_trade_id = Some trade_id, be_amount = pnl, be_balance = balance\<rparr>"

definition market_closed_event :: "market_window \<Rightarrow> live_event" where
  "market_closed_event w = EvMarketClosed (mw_market_id w)"

subsection \<open>State\<close>

record open_trade_snapshot =
  sn_trade :: trade
  sn_market_end_time :: u64

record decision_seed =
  sd_starting_balance :: f64
  sd_current_balance :: f64
  sd_unresolved_exposures :: "exposure list"
  sd_open_trades :: "open_trade_snapshot list"
  sd_now_ms :: u64

record decision_request =
  rq_decision_sequence :: u64
  rq_ctx :: strategy_context
  rq_window :: market_window
  rq_book_state :: book_state
  rq_now_ms :: u64
  rq_now_us :: "u64 option"
  rq_live_trading_can_submit :: bool

datatype decision_log =
    LogSuppressed string SignalDirection PortfolioRegime
  | LogSingleSubmitted string SignalDirection PortfolioRegime SubmissionOutcome
  | LogBatchSubmitted string nat PortfolioRegime SubmissionOutcome

record decision_output =
  dx_decision_sequence :: u64
  dx_decision_input_at_ms :: u64
  dx_persistence_events :: "live_event list"
  dx_live_orders :: "queued_intent list"
  dx_processed_outcomes :: "processed_outcome list"
  dx_log_events :: "decision_log list"
  dx_submission_window :: "market_window option"
  dx_now_ms :: u64

record fill_feedback =
  ff_signal_id :: i64
  ff_fill_price :: f64
  ff_filled_size :: f64

record runtime_order =
  ro_signal_id :: i64
  ro_signal_timestamp :: u64
  ro_market_id :: string
  ro_market_end_time :: u64
  ro_strategy :: string
  ro_side :: SignalDirection
  ro_token_id :: string
  ro_arrival_ts :: u64
  ro_requested_price :: f64
  ro_limit_price :: f64
  ro_requested_size :: f64
  ro_reserved_cost :: f64
  ro_execution_group_id :: "string option"
  ro_execution_fidelity :: ReplayFidelity

record open_runtime_trade =
  ot_trade :: trade
  ot_market_end_time :: u64
  ot_pending_settlement :: bool

text \<open>\<open>InMemoryExposureState\<close> has one field, the vector of the open trades.\<close>

type_synonym exposure_state = "open_runtime_trade list"

record runtime_engine =
  rd_config :: config
  rd_strategies :: "strategy_inst list"
  rd_pending :: "runtime_order list"
  rd_exposure :: exposure_state
  rd_bankroll :: bankroll
  rd_breaker :: circuit_breaker
  rd_trend :: scoped_trend_tracker
  rd_rejections :: rejection_tracker
  rd_stats :: execution_stats
  rd_next_signal_id :: i64
  rd_next_trade_id :: i64
  rd_next_group_id :: u64

record decision_evidence =
  de_bankroll :: json
  de_exposure :: json
  de_pending_order_count :: nat
  de_config_fingerprint :: string

record decision_pass =
  dp_engine :: runtime_engine
  dp_events :: "live_event list"
  dp_orders :: "queued_intent list"
  dp_logs :: "decision_log list"

text \<open>\<open>saturating_sub(1)\<close> on \<open>i64\<close>.\<close>

definition i64_pred :: "i64 \<Rightarrow> i64" where
  "i64_pred i = max (- (2 ^ 63)) (i - 1)"

subsection \<open>Exposure\<close>

definition exposure_from_snapshots :: "open_trade_snapshot list \<Rightarrow> u64 \<Rightarrow> exposure_state" where
  "exposure_from_snapshots sns now_ms = map (\<lambda>sn. \<lparr>ot_trade = sn_trade sn, ot_market_end_time = sn_market_end_time sn,
     ot_pending_settlement = (sn_market_end_time sn \<le> now_ms)\<rparr>) sns"

definition add_open_trade :: "trade \<Rightarrow> u64 \<Rightarrow> exposure_state \<Rightarrow> exposure_state" where
  "add_open_trade t end_time xs =
     xs @ [\<lparr>ot_trade = t, ot_market_end_time = end_time, ot_pending_settlement = False\<rparr>]"

definition queue_relevant_count :: "config \<Rightarrow> u64 \<Rightarrow> exposure_state \<Rightarrow> u64" where
  "queue_relevant_count c now_ms xs =
     (if counts_as_open_position (pending_settlement_policy_unchecked c) then of_nat (length xs)
      else of_nat (length (filter (\<lambda>e. \<not> ot_pending_settlement e \<and> now_ms < ot_market_end_time e) xs)))"

definition exposure_evidence_json :: "market_window \<Rightarrow> config \<Rightarrow> u64 \<Rightarrow> exposure_state \<Rightarrow> json" where
  "exposure_evidence_json w c now_ms xs = JObj [
     (''queue_relevant_open_count'', json_u64 (queue_relevant_count c now_ms xs)),
     (''market_open_count'', JInt (int (length (filter (\<lambda>e. tr_market_id (ot_trade e) = mw_market_id w) xs)))),
     (''pending_settlement_count'', JInt (int (length (filter ot_pending_settlement xs)))),
     (''total_open_count'', JInt (int (length xs)))]"

definition live_duplicate_open :: "string \<Rightarrow> string \<Rightarrow> SignalDirection \<Rightarrow> bool \<Rightarrow> exposure_state \<Rightarrow> bool" where
  "live_duplicate_open market_id strategy side is_batch xs = list_ex (\<lambda>e. tr_market_id (ot_trade e) = market_id \<and>
     tr_strategy (ot_trade e) = strategy \<and> (\<not> is_batch \<or> tr_side (ot_trade e) = side)) xs"

definition mark_pending_for_market :: "string \<Rightarrow> exposure_state \<Rightarrow> trade list \<times> exposure_state" where
  "mark_pending_for_market market_id xs =
     (map ot_trade (filter (\<lambda>e. tr_market_id (ot_trade e) = market_id \<and> \<not> ot_pending_settlement e) xs),
      map (\<lambda>e. if tr_market_id (ot_trade e) = market_id \<and> \<not> ot_pending_settlement e
               then e\<lparr>ot_pending_settlement := True\<rparr> else e) xs)"

definition remove_market :: "string \<Rightarrow> exposure_state \<Rightarrow> trade list \<times> exposure_state" where
  "remove_market market_id xs =
     (map ot_trade (filter (\<lambda>e. tr_market_id (ot_trade e) = market_id) xs),
      filter (\<lambda>e. tr_market_id (ot_trade e) \<noteq> market_id) xs)"

subsection \<open>Helpers\<close>

definition live_family_for_strategy :: "string \<Rightarrow> StrategyFamily" where
  "live_family_for_strategy strategy = unwrap_or (from_strategy_name strategy) LatencyArb"

definition signal_entry_ask :: "signal \<Rightarrow> f64" where
  "signal_entry_ask sig = (case sig_direction sig of Up \<Rightarrow> sig_up_ask sig | Down \<Rightarrow> sig_down_ask sig)"

definition live_single_order_limit_price :: "signal \<Rightarrow> config \<Rightarrow> f64" where
  "live_single_order_limit_price sig c = (case live_family_for_strategy (sig_strategy sig) of
     CalmPersistence \<Rightarrow> calm_persistence_max_ask c
   | LatencyArb \<Rightarrow> latency_arb_max_ask c
   | SpreadCapture \<Rightarrow> latency_arb_max_ask c)"

definition token_id_for_signal :: "signal \<Rightarrow> market_window \<Rightarrow> string" where
  "token_id_for_signal sig w = (case sig_direction sig of Up \<Rightarrow> mw_up_token_id w | Down \<Rightarrow> mw_down_token_id w)"

definition live_rejected :: "i64 list \<Rightarrow> string \<Rightarrow> SubmissionOutcome" where
  "live_rejected ids reason = SubmissionRejected ids reason"

definition submission_label :: "SubmissionOutcome \<Rightarrow> string \<times> SignalDirection" where
  "submission_label out = (case out of
     Queued ids orders \<Rightarrow> (case orders of [] \<Rightarrow> (''?'', Up) | qi # _ \<Rightarrow> (qi_strategy qi, qi_side qi))
   | SubmissionRejected ids reason \<Rightarrow> (''?'', Up))"

fun live_calm_duplicate_reason :: "QueueRejectionReason \<Rightarrow> StrategyRejectionReason option" where
  "live_calm_duplicate_reason QueueDuplicateOpenPosition = Some DuplicateOpenPosition"
| "live_calm_duplicate_reason QueueDuplicatePendingOrder = Some DuplicatePendingOrder"
| "live_calm_duplicate_reason MaxOpenPositions = None"

definition live_calm_duplicate_sample :: "strategy_context \<Rightarrow> signal \<Rightarrow> rejection_sample" where
  "live_calm_duplicate_sample ctx sig = (rejection_sample_from_ctx ctx)\<lparr>rs_up_ask := Some (sig_up_ask sig),
     rs_down_ask := Some (sig_down_ask sig), rs_expected_edge := sig_expected_edge sig\<rparr>"

definition live_spread_signal_pair :: "signal list \<Rightarrow> i64 list \<Rightarrow> (signal \<times> signal \<times> i64 \<times> i64) option" where
  "live_spread_signal_pair sigs sids =
     (case position (\<lambda>sig. sig_direction sig = Up) sigs of None \<Rightarrow> None
      | Some i \<Rightarrow> (case position (\<lambda>sig. sig_direction sig = Down) sigs of None \<Rightarrow> None
        | Some j \<Rightarrow> if i < length sids \<and> j < length sids then Some (sigs ! i, sigs ! j, sids ! i, sids ! j) else None))"

definition live_spread_arrival_ts :: "signal list \<Rightarrow> config \<Rightarrow> u64 \<Rightarrow> u64" where
  "live_spread_arrival_ts sigs c now_ms =
     (case map (\<lambda>sig. saturating_add (sig_timestamp sig) (sim_order_latency_ms c)) sigs of
        [] \<Rightarrow> saturating_add now_ms (sim_order_latency_ms c)
      | t # ts \<Rightarrow> fold max ts t)"

definition live_spread_order ::
  "signal \<Rightarrow> i64 \<Rightarrow> market_window \<Rightarrow> u64 \<Rightarrow> f64 \<Rightarrow> string option \<Rightarrow> runtime_order" where
  "live_spread_order sig sid w arrival_ts requested_size group_id = \<lparr>ro_signal_id = sid,
     ro_signal_timestamp = sig_timestamp sig, ro_market_id = mw_market_id w, ro_market_end_time = mw_end_time w,
     ro_strategy = sig_strategy sig, ro_side = sig_direction sig, ro_token_id = token_id_for_signal sig w,
     ro_arrival_ts = arrival_ts, ro_requested_price = signal_entry_ask sig, ro_limit_price = signal_entry_ask sig,
     ro_requested_size = requested_size, ro_reserved_cost = requested_size * signal_entry_ask sig,
     ro_execution_group_id = group_id, ro_execution_fidelity = RawEvent\<rparr>"

definition live_order_intent :: "runtime_order \<Rightarrow> queued_intent" where
  "live_order_intent ro = \<lparr>qi_signal_id = ro_signal_id ro, qi_signal_timestamp = ro_signal_timestamp ro,
     qi_market_id = ro_market_id ro, qi_strategy = ro_strategy ro, qi_side = ro_side ro, qi_token_id = ro_token_id ro,
     qi_arrival_ts = ro_arrival_ts ro, qi_requested_price = ro_requested_price ro, qi_limit_price = ro_limit_price ro,
     qi_requested_size = ro_requested_size ro, qi_reserved_cost = ro_reserved_cost ro,
     qi_execution_group_id = ro_execution_group_id ro, qi_execution_fidelity = ro_execution_fidelity ro\<rparr>"

definition live_submission_size_rejection :: "f64 \<Rightarrow> f64 \<Rightarrow> f64 \<Rightarrow> f64 \<Rightarrow> string option" where
  "live_submission_size_rejection requested_size requested_price market_min_size min_bet =
     (if 0 < market_min_size \<and> requested_size < market_min_size then Some ''below_market_min_size_on_submit''
      else if requested_size * requested_price < min_bet then Some ''below_min_bet_on_submit'' else None)"

definition live_spread_submission_rejection :: "f64 \<Rightarrow> f64 \<Rightarrow> f64 \<Rightarrow> f64 \<Rightarrow> f64 \<Rightarrow> f64 \<Rightarrow> string option" where
  "live_spread_submission_rejection up_size down_size up_price down_price market_min_size min_bet =
     opt_or (live_submission_size_rejection up_size up_price market_min_size min_bet)
       (live_submission_size_rejection down_size down_price market_min_size min_bet)"

definition live_side_book :: "book_state \<Rightarrow> SignalDirection \<Rightarrow> top_of_book option" where
  "live_side_book b side = (case side of Up \<Rightarrow> book_up b | Down \<Rightarrow> book_down b)"

definition live_book_fill_rejection :: "top_of_book \<Rightarrow> u64 \<Rightarrow> f64 \<Rightarrow> u64 \<Rightarrow> string option" where
  "live_book_fill_rejection book now_ms limit_price max_staleness_ms =
     (if max_staleness_ms < saturating_sub now_ms (effective_book_timestamp book) then Some ''book_stale_on_arrival''
      else if tob_best_ask book \<le> 0 then Some ''book_unavailable_on_arrival''
      else if limit_price < tob_best_ask book then Some ''limit_price_not_crossed_on_arrival''
      else if tob_ask_size book \<le> 0 then Some ''zero_liquidity_on_arrival'' else None)"

definition live_fill_size_rejected :: "f64 \<Rightarrow> f64 \<Rightarrow> f64 \<Rightarrow> f64 \<Rightarrow> bool" where
  "live_fill_size_rejected filled_size fill_price market_min_size min_bet \<longleftrightarrow>
     filled_size \<le> 0 \<or> (0 < market_min_size \<and> filled_size < market_min_size) \<or> filled_size * fill_price < min_bet"

definition live_price_is_tick_aligned :: "f64 \<Rightarrow> f64 \<Rightarrow> bool" where
  "live_price_is_tick_aligned price tick_size =
     (if tick_size \<le> 0 then True
      else let units = price / tick_size in \<bar>units - f64_round units\<bar> < f64_lit 0.000000001)"

definition live_build_trade :: "runtime_order \<Rightarrow> i64 \<Rightarrow> f64 \<Rightarrow> f64 \<Rightarrow> u64 \<Rightarrow> string \<Rightarrow> trade" where
  "live_build_trade ro trade_id fill_price filled_size now_ms mode = \<lparr>tr_id = Some trade_id, tr_timestamp = now_ms,
     tr_market_id = ro_market_id ro, tr_strategy = ro_strategy ro, tr_side = ro_side ro, tr_token_id = ro_token_id ro,
     tr_entry_price = fill_price, tr_size = filled_size, tr_status = Open, tr_signal_id = Some (ro_signal_id ro),
     tr_requested_price = Some (ro_limit_price ro), tr_requested_size = Some (ro_requested_size ro),
     tr_filled_size = Some filled_size, tr_avg_fill_price = Some fill_price,
     tr_fill_status = Some (if filled_size < ro_requested_size ro then ''partial'' else ''filled''),
     tr_fill_reason = Some ''book_fill'',
     tr_fill_latency_ms = Some (saturating_sub now_ms (ro_signal_timestamp ro)),
     tr_execution_group_id = ro_execution_group_id ro,
     tr_execution_fidelity = Some (fidelity_to_string (ro_execution_fidelity ro)), tr_execution_mode = Some mode,
     tr_order_id = Some (''paper-'' @ int_to_string (ro_signal_id ro)), tr_fill_price = Some fill_price\<rparr>"

definition live_record_group_outcome :: "string option \<Rightarrow> bool \<Rightarrow> group_outcomes \<Rightarrow> group_outcomes" where
  "live_record_group_outcome gid filled gs = (case gid of None \<Rightarrow> gs
     | Some g \<Rightarrow> let entry = (case map_of gs g of Some v \<Rightarrow> v | None \<Rightarrow> (0, 0)) in
         AList.update g (if filled then fst entry + 1 else fst entry, snd entry + 1) gs)"

subsection \<open>Decision evidence\<close>

definition json_bool :: "bool \<Rightarrow> json" where
  "json_bool b = JBool b"

definition top_of_book_json :: "top_of_book \<Rightarrow> json" where
  "top_of_book_json book = JObj [
     (''best_bid'', json_f64 (tob_best_bid book)),
     (''best_ask'', json_f64 (tob_best_ask book)),
     (''bid_size'', json_f64 (tob_bid_size book)),
     (''ask_size'', json_f64 (tob_ask_size book)),
     (''timestamp'', json_u64 (tob_timestamp book)),
     (''observed_at_ms'', json_u64 (tob_observed_at_ms book))]"

definition market_decision_evidence_json :: "market_window \<Rightarrow> json" where
  "market_decision_evidence_json w = JObj [
     (''condition_id'', JStr (mw_condition_id w)),
     (''up_token_id'', JStr (mw_up_token_id w)),
     (''down_token_id'', JStr (mw_down_token_id w)),
     (''order_min_size'', json_opt json_f64 (mw_order_min_size w)),
     (''order_price_min_tick_size'', json_opt json_f64 (mw_order_price_min_tick_size w)),
     (''fee_profile'', json_opt JStr (mw_fee_profile w)),
     (''fee_schedule_json'', json_opt JStr (mw_fee_schedule_json w)),
     (''token_fee_rates_json'', json_opt JStr (mw_token_fee_rates_json w)),
     (''accepting_orders'', json_opt json_bool (mw_accepting_orders w)),
     (''accepting_orders_timestamp'', json_opt JStr (mw_accepting_orders_timestamp w))]"

definition decision_config_fingerprint :: "(json \<Rightarrow> string) \<Rightarrow> config \<Rightarrow> market_window \<Rightarrow> string" where
  "decision_config_fingerprint render c w = render (JObj [
     (''execution_mode'', JStr (execution_mode_as_str (execution_mode c))),
     (''enabled_strategies'', JArr (map JStr (enabled_strategy_names c))),
     (''latency_arb_max_ask'', json_f64 (latency_arb_max_ask c)),
     (''latency_arb_min_ask'', json_f64 (latency_arb_min_ask c)),
     (''latency_arb_momentum_threshold'', json_f64 (latency_arb_momentum_threshold c)),
     (''max_position_fraction'', json_f64 (max_position_fraction c)),
     (''max_open_positions'', json_u64 (max_open_positions c)),
     (''market_id'', JStr (mw_market_id w)),
     (''order_min_size'', json_opt json_f64 (mw_order_min_size w)),
     (''order_price_min_tick_size'', json_opt json_f64 (mw_order_price_min_tick_size w)),
     (''fee_profile'', json_opt JStr (mw_fee_profile w)),
     (''fee_schedule_json'', json_opt JStr (mw_fee_schedule_json w))])"

definition decision_state_evidence ::
  "(json \<Rightarrow> string) \<Rightarrow> market_window \<Rightarrow> u64 \<Rightarrow> runtime_engine \<Rightarrow> decision_evidence" where
  "decision_state_evidence render w now_ms e =
     (let stats = get_stats (rd_bankroll e) in
      \<lparr>de_bankroll = JObj [
         (''starting_balance'', json_f64 (bs_starting_balance stats)),
         (''current_balance'', json_f64 (bs_current_balance stats)),
         (''high_water_mark'', json_f64 (bs_high_water_mark stats)),
         (''max_drawdown_pct'', json_f64 (bs_max_drawdown_pct stats)),
         (''total_trades'', json_u64 (bs_total_trades stats))],
       de_exposure = exposure_evidence_json w (rd_config e) now_ms (rd_exposure e),
       de_pending_order_count = length (rd_pending e),
       de_config_fingerprint = decision_config_fingerprint render (rd_config e) w\<rparr>)"

definition decision_evidence_json ::
  "signal \<Rightarrow> decision_request \<Rightarrow> decision_evidence \<Rightarrow> string \<Rightarrow> string option \<Rightarrow> json" where
  "decision_evidence_json sig req st status reason = JObj [
     (''strategy'', JStr (sig_strategy sig)),
     (''side'', JStr (direction_to_string (sig_direction sig))),
     (''market_id'', JStr (mw_market_id (rq_window req))),
     (''decision_sequence'', json_u64 (rq_decision_sequence req)),
     (''decision_at_ms'', json_u64 (rq_now_ms req)),
     (''decision_input_at_ms'', json_u64 (rq_now_ms req)),
     (''decision_input_at_us'', json_opt json_u64 (rq_now_us req)),
     (''config_fingerprint'', JStr (de_config_fingerprint st)),
     (''market'', market_decision_evidence_json (rq_window req)),
     (''token_id'', JStr (token_id_for_signal sig (rq_window req))),
     (''features'', JObj (features_to_json (ctx_features (rq_ctx req)))),
     (''book_state'', JObj [
        (''up'', json_opt top_of_book_json (book_up (ctx_book_state (rq_ctx req)))),
        (''down'', json_opt top_of_book_json (book_down (ctx_book_state (rq_ctx req))))]),
     (''bankroll'', de_bankroll st),
     (''exposure'', de_exposure st),
     (''pending_order_count'', JInt (int (de_pending_order_count st))),
     (''status'', JStr status),
     (''reason'', json_opt JStr reason)]"

text \<open>The metadata of a signal is an object in this model, so the evidence is inserted as a member of it.\<close>

definition signal_with_decision_evidence ::
  "signal \<Rightarrow> decision_request \<Rightarrow> decision_evidence \<Rightarrow> string \<Rightarrow> string option \<Rightarrow> signal" where
  "signal_with_decision_evidence sig req st status reason = sig\<lparr>sig_metadata :=
     AList.update ''decisionEvidence'' (decision_evidence_json sig req st status reason) (sig_metadata sig)\<rparr>"

definition live_signal_event ::
  "i64 \<Rightarrow> signal \<Rightarrow> string \<Rightarrow> ReplayFidelity \<Rightarrow> u64 option \<Rightarrow> u64 option \<Rightarrow> string \<Rightarrow> string option \<Rightarrow> live_event" where
  "live_signal_event sid sig market_id fid submitted_at arrival_at status reason =
     EvSignal sid sig market_id fid submitted_at arrival_at status reason"

definition decision_signal_event ::
  "i64 \<Rightarrow> signal \<Rightarrow> decision_request \<Rightarrow> decision_evidence \<Rightarrow> ReplayFidelity \<Rightarrow> u64 option \<Rightarrow> u64 option \<Rightarrow>
     string \<Rightarrow> string option \<Rightarrow> live_event" where
  "decision_signal_event sid sig req st fid submitted_at arrival_at status reason =
     live_signal_event sid (signal_with_decision_evidence sig req st status reason) (mw_market_id (rq_window req))
       fid submitted_at arrival_at status reason"

subsection \<open>Counters and identifiers\<close>

definition live_record_submitted :: "runtime_order \<Rightarrow> runtime_engine \<Rightarrow> runtime_engine" where
  "live_record_submitted ro e = (let s = rd_stats e in
     e\<lparr>rd_stats := s\<lparr>st_submitted_orders := st_submitted_orders s + 1,
        st_total_requested_size := st_total_requested_size s + ro_requested_size ro\<rparr>\<rparr>)"

definition live_record_fill :: "runtime_order \<Rightarrow> f64 \<Rightarrow> f64 \<Rightarrow> u64 \<Rightarrow> runtime_engine \<Rightarrow> runtime_engine" where
  "live_record_fill ro fill_price filled_size now_ms e = (let s = rd_stats e in
     e\<lparr>rd_stats := s\<lparr>
        st_partial_fills := (if filled_size < ro_requested_size ro then st_partial_fills s + 1 else st_partial_fills s),
        st_filled_orders := st_filled_orders s + 1,
        st_total_filled_size := st_total_filled_size s + filled_size,
        st_total_slippage := st_total_slippage s + f64_max (fill_price - ro_requested_price ro) 0 * filled_size,
        st_total_fill_latency_ms := st_total_fill_latency_ms s + saturating_sub now_ms (ro_signal_timestamp ro)\<rparr>\<rparr>)"

definition remove_pending_order :: "i64 \<Rightarrow> runtime_engine \<Rightarrow> runtime_order option \<times> runtime_engine" where
  "remove_pending_order sid e = (case position (\<lambda>ro. ro_signal_id ro = sid) (rd_pending e) of
     None \<Rightarrow> (None, e)
   | Some i \<Rightarrow> (Some (rd_pending e ! i), e\<lparr>rd_pending := take i (rd_pending e) @ drop (Suc i) (rd_pending e)\<rparr>))"

definition allocate_signal_id :: "runtime_engine \<Rightarrow> i64 \<times> runtime_engine" where
  "allocate_signal_id e = (rd_next_signal_id e, e\<lparr>rd_next_signal_id := i64_pred (rd_next_signal_id e)\<rparr>)"

definition allocate_trade_id :: "runtime_engine \<Rightarrow> i64 \<times> runtime_engine" where
  "allocate_trade_id e = (rd_next_trade_id e, e\<lparr>rd_next_trade_id := i64_pred (rd_next_trade_id e)\<rparr>)"

fun allocate_signal_ids :: "nat \<Rightarrow> runtime_engine \<Rightarrow> i64 list \<times> runtime_engine" where
  "allocate_signal_ids 0 e = ([], e)"
| "allocate_signal_ids (Suc n) e = (case allocate_signal_id e of (i, e1) \<Rightarrow>
     (case allocate_signal_ids n e1 of (is, e2) \<Rightarrow> (i # is, e2)))"

definition make_output ::
  "live_event list \<Rightarrow> queued_intent list \<Rightarrow> processed_outcome list \<Rightarrow> decision_log list \<Rightarrow> market_window option \<Rightarrow>
     u64 \<Rightarrow> u64 \<Rightarrow> decision_output" where
  "make_output events orders outcomes logs w now_ms decision_seq = \<lparr>dx_decision_sequence = decision_seq,
     dx_decision_input_at_ms = now_ms, dx_persistence_events = events, dx_live_orders = orders,
     dx_processed_outcomes = outcomes, dx_log_events = logs, dx_submission_window = w, dx_now_ms = now_ms\<rparr>"

subsection \<open>Queue checks\<close>

definition live_can_queue_single ::
  "signal \<Rightarrow> market_window \<Rightarrow> bool \<Rightarrow> u64 \<Rightarrow> u64 \<Rightarrow> runtime_engine \<Rightarrow> QueueRejectionReason option" where
  "live_can_queue_single sig w is_batch required_slots now_ms e =
     (let open_count = queue_relevant_count (rd_config e) now_ms (rd_exposure e);
          pending_count = of_nat (length (rd_pending e))
      in if max_open_positions (rd_config e) < open_count + pending_count + required_slots then Some MaxOpenPositions
      else if live_duplicate_open (mw_market_id w) (sig_strategy sig) (sig_direction sig) is_batch (rd_exposure e)
      then Some QueueDuplicateOpenPosition
      else if (if is_batch
               then list_ex (\<lambda>ro. ro_market_id ro = mw_market_id w \<and> ro_strategy ro = sig_strategy sig \<and>
                 ro_side ro = sig_direction sig) (rd_pending e)
               else list_ex (\<lambda>ro. ro_market_id ro = mw_market_id w \<and> ro_strategy ro = sig_strategy sig) (rd_pending e))
      then Some QueueDuplicatePendingOrder else None)"

definition live_can_queue_spread ::
  "signal list \<Rightarrow> market_window \<Rightarrow> u64 \<Rightarrow> runtime_engine \<Rightarrow> QueueRejectionReason option" where
  "live_can_queue_spread sigs w now_ms e =
     (let open_count = queue_relevant_count (rd_config e) now_ms (rd_exposure e);
          pending_count = of_nat (length (rd_pending e))
      in if max_open_positions (rd_config e) < open_count + pending_count + 2 then Some MaxOpenPositions
      else if list_ex (\<lambda>sig. live_duplicate_open (mw_market_id w) (sig_strategy sig) (sig_direction sig) True
                (rd_exposure e)) sigs
      then Some QueueDuplicateOpenPosition
      else if list_ex (\<lambda>sig. list_ex (\<lambda>ro. ro_market_id ro = mw_market_id w \<and> ro_strategy ro = sig_strategy sig \<and>
                ro_side ro = sig_direction sig) (rd_pending e)) sigs
      then Some QueueDuplicatePendingOrder else None)"

subsection \<open>Submissions\<close>

definition push_single_decision_event ::
  "(json \<Rightarrow> string) \<Rightarrow> i64 \<Rightarrow> signal \<Rightarrow> decision_request \<Rightarrow> u64 option \<Rightarrow> u64 option \<Rightarrow> string \<Rightarrow> string option \<Rightarrow>
     decision_pass \<Rightarrow> decision_pass" where
  "push_single_decision_event render sid sig req submitted_at arrival_at status reason p =
     p\<lparr>dp_events := dp_events p @ [decision_signal_event sid sig req
        (decision_state_evidence render (rq_window req) (rq_now_ms req) (dp_engine p)) RawEvent submitted_at arrival_at
        status reason]\<rparr>"

definition persist_spread_signals ::
  "(json \<Rightarrow> string) \<Rightarrow> decision_request \<Rightarrow> signal list \<Rightarrow> i64 list \<Rightarrow> u64 option \<Rightarrow> u64 option \<Rightarrow> string \<Rightarrow>
     string option \<Rightarrow> decision_pass \<Rightarrow> decision_pass" where
  "persist_spread_signals render req sigs sids submitted_at arrival_at status reason p =
     (let st = decision_state_evidence render (rq_window req) (rq_now_ms req) (dp_engine p) in
      p\<lparr>dp_events := dp_events p @ map (\<lambda>(sig, sid). decision_signal_event sid sig req st RawEvent submitted_at arrival_at
        status reason) (zip sigs sids)\<rparr>)"

definition live_single_order ::
  "signal \<Rightarrow> i64 \<Rightarrow> market_window \<Rightarrow> u64 \<Rightarrow> f64 \<Rightarrow> f64 \<Rightarrow> f64 \<Rightarrow> runtime_order" where
  "live_single_order sig sid w arrival_ts requested_price limit_price requested_size = \<lparr>ro_signal_id = sid,
     ro_signal_timestamp = sig_timestamp sig, ro_market_id = mw_market_id w, ro_market_end_time = mw_end_time w,
     ro_strategy = sig_strategy sig, ro_side = sig_direction sig, ro_token_id = token_id_for_signal sig w,
     ro_arrival_ts = arrival_ts, ro_requested_price = requested_price, ro_limit_price = limit_price,
     ro_requested_size = requested_size, ro_reserved_cost = requested_size * limit_price,
     ro_execution_group_id = None, ro_execution_fidelity = RawEvent\<rparr>"

definition live_submit_single ::
  "(json \<Rightarrow> string) \<Rightarrow> decision_request \<Rightarrow> signal \<Rightarrow> i64 \<Rightarrow> StrategyFamily \<Rightarrow> decision_pass \<Rightarrow>
     SubmissionOutcome \<times> decision_pass" where
  "live_submit_single render req sig sid f p =
     (let e = dp_engine p; c = rd_config e; w = rq_window req;
          reject = (\<lambda>reason q. (live_rejected [sid] reason,
            push_single_decision_event render sid sig req None None ''rejected'' (Some reason) q))
      in case live_can_queue_single sig w False 1 (rq_now_ms req) e of
        Some reason \<Rightarrow> reject (queue_rejection_as_str reason) p
      | None \<Rightarrow>
        let requested_price = signal_entry_ask sig; limit_price = live_single_order_limit_price sig c in
        (case reserve_capital_with_reserve_price requested_price limit_price (sig_confidence sig) (sig_strategy sig) f c
                (rq_now_ms req) (rd_bankroll e) of
          (requested_size, b1) \<Rightarrow>
            let e1 = e\<lparr>rd_bankroll := b1\<rparr> in
            if requested_size \<le> 0 then reject ''strategy_sleeve_exhausted'' (p\<lparr>dp_engine := e1\<rparr>)
            else (case live_submission_size_rejection requested_size requested_price
                    (unwrap_or (mw_order_min_size w) 0) (min_bet_usd c) of
                Some reason \<Rightarrow> reject reason (p\<lparr>dp_engine := e1\<lparr>rd_bankroll :=
                  release_reserved_for_strategy (requested_size * limit_price) (sig_strategy sig) b1\<rparr>\<rparr>)
              | None \<Rightarrow>
                let arrival_ts = saturating_add (sig_timestamp sig) (sim_order_latency_ms c);
                    ro = live_single_order sig sid w arrival_ts requested_price limit_price requested_size;
                    e2 = live_record_submitted ro e1
                in (Queued [sid] [live_order_intent ro],
                    push_single_decision_event render sid sig req (Some (rq_now_ms req)) (Some arrival_ts)
                      ''submitted'' None (p\<lparr>dp_engine := e2\<lparr>rd_pending := rd_pending e2 @ [ro]\<rparr>\<rparr>)))))"

definition live_submit_spread ::
  "(string \<Rightarrow> fee_schedule option) \<Rightarrow> (json \<Rightarrow> string) \<Rightarrow> decision_request \<Rightarrow> signal list \<Rightarrow> i64 list \<Rightarrow> decision_pass \<Rightarrow>
     SubmissionOutcome \<times> decision_pass" where
  "live_submit_spread parse render req sigs sids p =
     (case live_spread_signal_pair sigs sids of None \<Rightarrow> (Queued sids [], p)
      | Some (up_sig, down_sig, up_id, down_id) \<Rightarrow>
        let e = dp_engine p; c = rd_config e; w = rq_window req;
            reject = (\<lambda>reason q. (live_rejected sids reason,
              persist_spread_signals render req sigs sids None None ''rejected'' (Some reason) q))
        in case live_can_queue_spread sigs w (rq_now_ms req) e of
          Some reason \<Rightarrow> reject (queue_rejection_as_str reason) p
        | None \<Rightarrow>
          let fp = resolve_fee_params parse c (Some w) (mw_end_time w) in
          if spread_net_edge (sig_up_ask up_sig) (sig_down_ask down_sig) 1 (fee_rate fp) (exponent fp) \<le> 0
          then reject ''net_edge'' p
          else (case reserve_spread_capital (sig_up_ask up_sig) (sig_down_ask down_sig)
                  (f64_max (sig_confidence up_sig) (sig_confidence down_sig)) c (rq_now_ms req) (rd_bankroll e) of
            ((up_tokens, down_tokens), b1) \<Rightarrow>
              let e1 = e\<lparr>rd_bankroll := b1\<rparr> in
              if up_tokens \<le> 0 \<or> down_tokens \<le> 0 then reject ''strategy_sleeve_exhausted'' (p\<lparr>dp_engine := e1\<rparr>)
              else (case live_spread_submission_rejection up_tokens down_tokens (sig_up_ask up_sig)
                      (sig_down_ask down_sig) (unwrap_or (mw_order_min_size w) 0) (min_bet_usd c) of
                  Some reason \<Rightarrow> reject reason (p\<lparr>dp_engine := e1\<lparr>rd_bankroll := release_reserved_for_strategy
                    (up_tokens * sig_up_ask up_sig + down_tokens * sig_down_ask down_sig) (sig_strategy up_sig) b1\<rparr>\<rparr>)
                | None \<Rightarrow>
                  let arrival_ts = live_spread_arrival_ts sigs c (rq_now_ms req);
                      group_id = ''spread-'' @ nat_to_string (unat (rd_next_group_id e1));
                      up_order = live_spread_order up_sig up_id w arrival_ts up_tokens (Some group_id);
                      down_order = live_spread_order down_sig down_id w arrival_ts down_tokens (Some group_id);
                      e2 = live_record_submitted down_order (live_record_submitted up_order
                        (e1\<lparr>rd_next_group_id := saturating_add (rd_next_group_id e1) 1\<rparr>))
                  in (Queued sids [live_order_intent up_order, live_order_intent down_order],
                      persist_spread_signals render req sigs sids (Some (rq_now_ms req)) (Some arrival_ts) ''submitted''
                        None (p\<lparr>dp_engine := e2\<lparr>rd_pending := rd_pending e2 @ [up_order, down_order]\<rparr>\<rparr>)))))"

subsection \<open>Candidates\<close>

definition live_collect_candidates ::
  "(string \<Rightarrow> fee_schedule option) \<Rightarrow> decision_request \<Rightarrow> runtime_engine \<Rightarrow> (candidate list \<times> runtime_engine) option" where
  "live_collect_candidates parse req e =
     (case collect_candidates parse (rq_ctx req) (rd_config e) (rq_now_ms req) (mw_market_id (rq_window req))
        (rd_strategies e) (rd_rejections e) of None \<Rightarrow> None
      | Some (cands, sts, rt) \<Rightarrow> Some (cands, e\<lparr>rd_strategies := sts, rd_rejections := rt\<rparr>))"

definition record_router_block :: "decision_request \<Rightarrow> StrategyFamily \<Rightarrow> runtime_engine \<Rightarrow> runtime_engine" where
  "record_router_block req f e = e\<lparr>rd_rejections := rt_record (mw_market_id (rq_window req))
     \<lparr>rej_strategy = family_as_str f, rej_reason = BlockedByRouter,
      rej_sample = rejection_sample_from_ctx (rq_ctx req)\<rparr> (rd_rejections e)\<rparr>"

text \<open>The orders of a queued submission, handed to the venue in live trading only.\<close>

definition extend_live_orders :: "SubmissionOutcome \<Rightarrow> decision_pass \<Rightarrow> decision_pass" where
  "extend_live_orders out p = (case out of
     Queued ids orders \<Rightarrow> if execution_mode (rd_config (dp_engine p)) = LiveTrading
       then p\<lparr>dp_orders := dp_orders p @ orders\<rparr> else p
   | SubmissionRejected ids reason \<Rightarrow> p)"

definition live_handle_single ::
  "(json \<Rightarrow> string) \<Rightarrow> decision_request \<Rightarrow> signal \<Rightarrow> StrategyFamily \<Rightarrow> PortfolioRegime \<Rightarrow> decision_pass \<Rightarrow> decision_pass" where
  "live_handle_single render req sig0 f r p0 =
     (let sig = annotate_signal r f sig0 in
      case allocate_signal_id (dp_engine p0) of (sid, e1) \<Rightarrow>
      case st_should_suppress f (sig_direction sig) (rd_trend e1) of (tr, suppress) \<Rightarrow>
      let p = p0\<lparr>dp_engine := e1\<lparr>rd_trend := tr\<rparr>\<rparr>;
          submit = (case live_submit_single render req sig sid f p of (out, p1) \<Rightarrow>
            let p2 = extend_live_orders out p1; (strategy, direction) = submission_label out
            in p2\<lparr>dp_logs := dp_logs p2 @ [LogSingleSubmitted strategy direction r out]\<rparr>)
      in if suppress
      then (let p1 = push_single_decision_event render sid sig req None None ''suppressed'' (Some ''trend_filter'') p
            in p1\<lparr>dp_logs := dp_logs p1 @ [LogSuppressed (sig_strategy sig) (sig_direction sig) r]\<rparr>)
      else if f = CalmPersistence
      then (case live_can_queue_single sig (rq_window req) False 1 (rq_now_ms req) (dp_engine p) of
          None \<Rightarrow> submit
        | Some reason \<Rightarrow> (case live_calm_duplicate_reason reason of
            None \<Rightarrow> submit
          | Some rejection_reason \<Rightarrow>
              let e2 = dp_engine p;
                  e3 = e2\<lparr>rd_rejections := rt_record (mw_market_id (rq_window req)) \<lparr>rej_strategy = sig_strategy sig,
                    rej_reason = rejection_reason, rej_sample = live_calm_duplicate_sample (rq_ctx req) sig\<rparr> (rd_rejections e2)\<rparr>
              in push_single_decision_event render sid sig req None None ''rejected''
                   (Some (queue_rejection_as_str reason)) (p\<lparr>dp_engine := e3\<rparr>)))
      else submit)"

definition live_handle_batch ::
  "(string \<Rightarrow> fee_schedule option) \<Rightarrow> (json \<Rightarrow> string) \<Rightarrow> decision_request \<Rightarrow> signal list \<Rightarrow> StrategyFamily \<Rightarrow>
     PortfolioRegime \<Rightarrow> decision_pass \<Rightarrow> decision_pass" where
  "live_handle_batch parse render req sigs0 f r p =
     (let sigs = map (annotate_signal r f) sigs0; e = dp_engine p;
          strategy_name = (case sigs of [] \<Rightarrow> ''?'' | sig # _ \<Rightarrow> sig_strategy sig);
          submit = (case allocate_signal_ids (length sigs) e of (sids, e1) \<Rightarrow>
            (case live_submit_spread parse render req sigs sids (p\<lparr>dp_engine := e1\<rparr>) of (out, p1) \<Rightarrow>
              let p2 = extend_live_orders out p1
              in p2\<lparr>dp_logs := dp_logs p2 @ [LogBatchSubmitted strategy_name (length sigs) r out]\<rparr>))
      in case assess_spread_batch_affordability sigs (rq_window req) (rd_config e) (rd_bankroll e) of
           Some aff \<Rightarrow> if queueable aff then submit
             else p\<lparr>dp_engine := e\<lparr>rd_rejections := rt_record (mw_market_id (rq_window req))
               \<lparr>rej_strategy = strategy_name, rej_reason = SpreadBudgetTooSmall,
                rej_sample = spread_budget_rejection_sample (rq_ctx req) sigs aff\<rparr> (rd_rejections e)\<rparr>\<rparr>
         | None \<Rightarrow> submit)"

definition live_handle_candidate ::
  "(string \<Rightarrow> fee_schedule option) \<Rightarrow> (json \<Rightarrow> string) \<Rightarrow> decision_request \<Rightarrow> StrategyFamily option \<Rightarrow> PortfolioRegime \<Rightarrow>
     candidate \<Rightarrow> decision_pass \<Rightarrow> decision_pass" where
  "live_handle_candidate parse render req sel r cand p =
     (if regime_detection_enabled (rd_config (dp_engine p)) \<and> Some (ca_family cand) \<noteq> sel
      then p\<lparr>dp_engine := record_router_block req (ca_family cand) (dp_engine p)\<rparr>
      else (case ca_result cand of
          Single sig \<Rightarrow> live_handle_single render req sig (ca_family cand) r p
        | Batch sigs \<Rightarrow> live_handle_batch parse render req sigs (ca_family cand) r p
        | _ \<Rightarrow> p))"

subsection \<open>Due orders\<close>

datatype live_disposition =
    LiveDeferred runtime_order
  | LiveMissed "string option" processed_outcome live_event
  | LiveFilled trade "string option" processed_outcome live_event live_event

definition live_reject_order ::
  "decision_request \<Rightarrow> runtime_order \<Rightarrow> miss_context \<Rightarrow> runtime_engine \<Rightarrow> live_disposition \<times> runtime_engine" where
  "live_reject_order req ro miss e =
     (let b1 = release_reserved_for_strategy (ro_reserved_cost ro) (ro_strategy ro) (rd_bankroll e);
          e1 = e\<lparr>rd_bankroll := b1, rd_stats := (rd_stats e)\<lparr>st_no_fills := st_no_fills (rd_stats e) + 1\<rparr>\<rparr>;
          delay = saturating_sub (rq_now_ms req) (ro_signal_timestamp ro)
      in (LiveMissed (if ms_track_group miss then ro_execution_group_id ro else None)
            \<lparr>out_signal_id = ro_signal_id ro, out_market_id = ro_market_id ro, out_strategy = ro_strategy ro,
             out_side = ro_side ro, out_disposition = Missed, out_reason = Some (ms_reason miss),
             out_best_ask = ms_best_ask miss, out_ask_size = ms_ask_size miss, out_freshness_ms = ms_freshness_ms miss,
             out_requested_size = ro_requested_size ro, out_filled_size = 0,
             out_effective_arrival_delay_ms = delay, out_partial_fill = False\<rparr>
            (EvSignalOutcome (ro_signal_id ro) (rq_now_ms req) (rq_now_us req) delay ''missed'' (Some (ms_reason miss))),
          e1))"

definition live_fill_order ::
  "decision_request \<Rightarrow> runtime_order \<Rightarrow> top_of_book \<Rightarrow> u64 option \<Rightarrow> f64 \<Rightarrow> runtime_engine \<Rightarrow>
     live_disposition \<times> runtime_engine" where
  "live_fill_order req ro book freshness filled_size e =
     (let fill_cost = filled_size * tob_best_ask book;
          e1 = (if fill_cost < ro_reserved_cost ro
                then e\<lparr>rd_bankroll := release_reserved_for_strategy (ro_reserved_cost ro - fill_cost) (ro_strategy ro)
                  (rd_bankroll e)\<rparr> else e);
          e2 = live_record_fill ro (tob_best_ask book) filled_size (rq_now_ms req) e1
      in case allocate_trade_id e2 of (trade_id, e3) \<Rightarrow>
         let t = live_build_trade ro trade_id (tob_best_ask book) filled_size (rq_now_ms req)
                   (execution_mode_as_str (execution_mode (rd_config e)));
             delay = saturating_sub (rq_now_ms req) (ro_signal_timestamp ro)
         in (LiveFilled t (ro_execution_group_id ro)
               \<lparr>out_signal_id = ro_signal_id ro, out_market_id = ro_market_id ro, out_strategy = ro_strategy ro,
                out_side = ro_side ro, out_disposition = Filled, out_reason = None,
                out_best_ask = Some (tob_best_ask book), out_ask_size = Some (tob_ask_size book),
                out_freshness_ms = freshness, out_requested_size = ro_requested_size ro,
                out_filled_size = filled_size, out_effective_arrival_delay_ms = delay,
                out_partial_fill = (filled_size < ro_requested_size ro)\<rparr>
               (EvSignalOutcome (ro_signal_id ro) (rq_now_ms req) (rq_now_us req) delay ''filled'' None)
               (EvOpenTrade t), e3))"

definition live_process_due_order ::
  "decision_request \<Rightarrow> runtime_order \<Rightarrow> runtime_engine \<Rightarrow> live_disposition \<times> runtime_engine" where
  "live_process_due_order req ro e =
     (if rq_now_ms req < ro_arrival_ts ro then (LiveDeferred ro, e)
      else if mw_market_id (rq_window req) \<noteq> ro_market_id ro
      then live_reject_order req ro \<lparr>ms_track_group = False, ms_reason = ''window_missing_on_arrival'',
          ms_best_ask = None, ms_ask_size = None, ms_freshness_ms = None\<rparr> e
      else (case live_side_book (rq_book_state req) (ro_side ro) of
        None \<Rightarrow> live_reject_order req ro \<lparr>ms_track_group = True, ms_reason = ''book_unavailable_on_arrival'',
          ms_best_ask = None, ms_ask_size = None, ms_freshness_ms = None\<rparr> e
      | Some book \<Rightarrow>
        let freshness = Some (saturating_sub (rq_now_ms req) (effective_book_timestamp book));
            miss = (\<lambda>reason. \<lparr>ms_track_group = True, ms_reason = reason, ms_best_ask = Some (tob_best_ask book),
              ms_ask_size = Some (tob_ask_size book), ms_freshness_ms = freshness\<rparr>)
        in (case live_book_fill_rejection book (rq_now_ms req) (ro_limit_price ro) (max_book_staleness_ms (rd_config e)) of
          Some reason \<Rightarrow> live_reject_order req ro (miss reason) e
        | None \<Rightarrow>
          let tick_size = unwrap_or (mw_order_price_min_tick_size (rq_window req)) 0 in
          if 0 < tick_size \<and> (\<not> live_price_is_tick_aligned (ro_limit_price ro) tick_size
               \<or> \<not> live_price_is_tick_aligned (tob_best_ask book) tick_size)
          then live_reject_order req ro (miss ''tick_misaligned_on_arrival'') e
          else let filled_size = f64_min (ro_requested_size ro) (tob_ask_size book) in
            if live_fill_size_rejected filled_size (tob_best_ask book)
                 (unwrap_or (mw_order_min_size (rq_window req)) 0) (min_bet_usd (rd_config e))
            then live_reject_order req ro (miss ''fill_below_min_on_arrival'') e
            else live_fill_order req ro book freshness filled_size e)))"

text \<open>
  The loop takes the orders from the front of the queue; nothing it calls reads the queue, which is replaced by the
  deferred orders at the end. \<open>evs\<close> and \<open>outs\<close> are the events and outcomes collected so far.
\<close>

fun live_due_loop ::
  "decision_request \<Rightarrow> runtime_order list \<Rightarrow> runtime_order list \<Rightarrow> live_event list \<Rightarrow> processed_outcome list \<Rightarrow>
     group_outcomes \<Rightarrow> runtime_engine \<Rightarrow> processed_outcome list \<times> live_event list \<times> runtime_engine" where
  "live_due_loop req [] remaining evs outs gs e =
     (outs, evs, e\<lparr>rd_pending := remaining, rd_stats := count_legging gs (rd_stats e)\<rparr>)"
| "live_due_loop req (ro # rest) remaining evs outs gs e =
     (case live_process_due_order req ro e of
        (LiveDeferred ro', e1) \<Rightarrow> live_due_loop req rest (remaining @ [ro']) evs outs gs e1
      | (LiveMissed gid out ev, e1) \<Rightarrow>
          live_due_loop req rest remaining (evs @ [ev]) (outs @ [out]) (live_record_group_outcome gid False gs) e1
      | (LiveFilled t gid out sev tev, e1) \<Rightarrow>
          live_due_loop req rest remaining (evs @ [sev, tev]) (outs @ [out]) (live_record_group_outcome gid True gs)
            (e1\<lparr>rd_exposure := add_open_trade t (mw_end_time (rq_window req)) (rd_exposure e1)\<rparr>))"

definition live_process_due_orders ::
  "decision_request \<Rightarrow> runtime_engine \<Rightarrow> processed_outcome list \<times> live_event list \<times> runtime_engine" where
  "live_process_due_orders req e = live_due_loop req (rd_pending e) [] [] [] [] e"

subsection \<open>Operations\<close>

definition decision_engine_new :: "config \<Rightarrow> strategy_inst list \<Rightarrow> decision_seed \<Rightarrow> runtime_engine" where
  "decision_engine_new c sts sd = \<lparr>rd_config = c, rd_strategies = sts, rd_pending = [],
     rd_exposure = exposure_from_snapshots (sd_open_trades sd) (sd_now_ms sd),
     rd_bankroll = hydrate_unresolved_exposure_rows (sd_unresolved_exposures sd) (sd_now_ms sd)
       (new_in_memory (sd_starting_balance sd) (sd_current_balance sd) c),
     rd_breaker = cb_new (ucast (circuit_breaker_losses c)) (circuit_breaker_pause_ms c),
     rd_trend = st_new (unat (trend_filter_window c)) (trend_filter_enabled c) (trend_filter_threshold c)
       (trend_filter_per_strategy c),
     rd_rejections = rt_new, rd_stats = stats_default, rd_next_signal_id = - 1, rd_next_trade_id = - 1,
     rd_next_group_id = 1\<rparr>"

definition live_evaluate ::
  "(string \<Rightarrow> fee_schedule option) \<Rightarrow> (json \<Rightarrow> string) \<Rightarrow> decision_request \<Rightarrow> runtime_engine \<Rightarrow>
     (decision_output \<times> runtime_engine) option" where
  "live_evaluate parse render req e0 =
     (case (if execution_mode (rd_config e0) = LiveTrading then ([], [], e0) else live_process_due_orders req e0) of
        (outs, evs, e) \<Rightarrow>
          let out = (\<lambda>evs orders logs. make_output evs orders outs logs (Some (rq_window req)) (rq_now_ms req)
                (rq_decision_sequence req))
          in if \<not> cb_can_trade (rd_breaker e) (rq_now_ms req)
          then Some (out evs [] [], e\<lparr>rd_breaker := fst (cb_log_if_paused (rq_now_ms req) (rd_breaker e))\<rparr>)
          else if execution_mode (rd_config e) = LiveTrading \<and> \<not> rq_live_trading_can_submit req
          then Some (out evs [] [], e)
          else (case live_collect_candidates parse req e of None \<Rightarrow> None
            | Some (cands, e1) \<Rightarrow>
                let r = detect_regime (rq_ctx req) (rd_config e);
                    sel = (if regime_detection_enabled (rd_config e)
                      then selected_family (select_family_for_candidates (rq_ctx req) (rd_config e) (map ca_family cands))
                      else None);
                    p = fold (live_handle_candidate parse render req sel r) cands
                      \<lparr>dp_engine = e1, dp_events = evs, dp_orders = [], dp_logs = []\<rparr>
                in Some (out (dp_events p) (dp_orders p) (dp_logs p), dp_engine p)))"

definition live_window_closed :: "market_window \<Rightarrow> u64 \<Rightarrow> runtime_engine \<Rightarrow> decision_output \<times> runtime_engine" where
  "live_window_closed w now_ms e =
     (case mark_pending_for_market (mw_market_id w) (rd_exposure e) of (trades, xs) \<Rightarrow>
      let b1 = fold (\<lambda>t. transition_trade_to_pending_settlement (tr_entry_price t * tr_size t) (tr_strategy t)) trades
            (rd_bankroll e)
      in case rt_drain_market (mw_market_id w) now_ms (rd_rejections e) of (summaries, rt) \<Rightarrow>
         (make_output (market_closed_event w # (if summaries = [] then [] else [EvRejectionSummaries summaries]))
            [] [] [] None now_ms 0,
          e\<lparr>rd_exposure := xs, rd_bankroll := b1, rd_rejections := rt\<rparr>))"

definition live_settlement_result :: "i64 \<Rightarrow> f64 \<Rightarrow> f64 \<Rightarrow> f64 \<Rightarrow> trade \<Rightarrow> trade_result" where
  "live_settlement_result trade_id settlement_price fee pnl t = \<lparr>res_trade_id = trade_id,
     res_exit_price = settlement_price, res_settlement_price = settlement_price,
     res_pnl_0pct = settlement_price * tr_size t - tr_entry_price t * tr_size t, res_pnl_1pct = 0, res_pnl_2pct = 0,
     res_pnl_3pct = 0, res_fee_amount = fee, res_pnl_net = pnl, res_settlement_status = ''confirmed'',
     res_provisional_pnl = None\<rparr>"

definition live_settle_trade ::
  "fee_params \<Rightarrow> SignalDirection \<Rightarrow> u64 \<Rightarrow> trade \<Rightarrow> live_event list \<times> runtime_engine \<Rightarrow> live_event list \<times> runtime_engine" where
  "live_settle_trade fp outcome now_ms t = (\<lambda>(evs, e). case tr_id t of None \<Rightarrow> (evs, e)
     | Some trade_id \<Rightarrow>
       let settlement_price = (if tr_side t = outcome then 1 else 0);
           fee = compute_taker_fee (tr_entry_price t) (tr_size t) (fee_rate fp) (exponent fp)
       in (case apply_trade_result_in_memory (tr_entry_price t) (tr_size t) settlement_price fee (tr_strategy t)
                  (rd_bankroll e) of
         (pnl, b1) \<Rightarrow>
           let won = (0 < pnl);
               e1 = e\<lparr>rd_bankroll := b1,
                 rd_trend := st_record_outcome (live_family_for_strategy (tr_strategy t)) (tr_side t) won now_ms (rd_trend e),
                 rd_breaker := cb_record_result won now_ms (rd_breaker e)\<rparr>
           in (evs @ [EvCloseTrade trade_id (live_settlement_result trade_id settlement_price fee pnl t)
                 (balance_event_for_trade trade_id now_ms pnl (bs_current_balance (get_stats b1)))], e1)))"

definition live_resolution ::
  "(string \<Rightarrow> fee_schedule option) \<Rightarrow> market_window \<Rightarrow> SignalDirection \<Rightarrow> u64 \<Rightarrow> runtime_engine \<Rightarrow>
     decision_output \<times> runtime_engine" where
  "live_resolution parse w outcome now_ms e =
     (case remove_market (mw_market_id w) (rd_exposure e) of (trades, xs) \<Rightarrow>
      let fp = resolve_fee_params parse (rd_config e) (Some w) now_ms
      in case fold (live_settle_trade fp outcome now_ms) trades
               ([EvMarketResolved (mw_market_id w) (direction_to_string outcome)], e\<lparr>rd_exposure := xs\<rparr>) of
           (evs, e1) \<Rightarrow> (make_output evs [] [] [] None now_ms 0, e1))"

definition release_reservations :: "(string \<times> f64) list \<Rightarrow> runtime_engine \<Rightarrow> runtime_engine" where
  "release_reservations releases e = e\<lparr>rd_bankroll :=
     fold (\<lambda>(strategy, amount). release_reserved_for_strategy amount strategy) releases (rd_bankroll e)\<rparr>"

definition apply_fill :: "u64 \<Rightarrow> fill_feedback \<Rightarrow> runtime_engine \<Rightarrow> runtime_engine" where
  "apply_fill now_ms ff e =
     (case remove_pending_order (ff_signal_id ff) e of (None, e1) \<Rightarrow> e1
      | (Some ro, e1) \<Rightarrow>
        if ff_filled_size ff \<le> 0 \<or> ff_fill_price ff \<le> 0 then e1
        else let fill_cost = ff_filled_size ff * ff_fill_price ff;
                 e2 = (if fill_cost < ro_reserved_cost ro
                       then e1\<lparr>rd_bankroll := release_reserved_for_strategy (ro_reserved_cost ro - fill_cost)
                         (ro_strategy ro) (rd_bankroll e1)\<rparr> else e1)
             in case allocate_trade_id e2 of (trade_id, e3) \<Rightarrow>
                let t = live_build_trade ro trade_id (ff_fill_price ff) (ff_filled_size ff) now_ms ''live'';
                    e4 = live_record_fill ro (ff_fill_price ff) (ff_filled_size ff) now_ms e3
                in e4\<lparr>rd_exposure := add_open_trade t (ro_market_end_time ro) (rd_exposure e4)\<rparr>)"

definition apply_live_submission_feedback :: "fill_feedback list \<Rightarrow> i64 list \<Rightarrow> u64 \<Rightarrow> runtime_engine \<Rightarrow> runtime_engine" where
  "apply_live_submission_feedback fills rejected_ids now_ms e =
     fold (apply_fill now_ms) fills (fold (\<lambda>sid e. snd (remove_pending_order sid e)) rejected_ids e)"

definition live_flush_all :: "u64 \<Rightarrow> runtime_engine \<Rightarrow> decision_output \<times> runtime_engine" where
  "live_flush_all now_ms e = (case rt_drain_all now_ms (rd_rejections e) of (summaries, rt) \<Rightarrow>
     (make_output (if summaries = [] then [] else [EvRejectionSummaries summaries]) [] [] [] None now_ms 0,
      e\<lparr>rd_rejections := rt\<rparr>))"

definition live_stats :: "runtime_engine \<Rightarrow> bankroll_stats" where
  "live_stats e = get_stats (rd_bankroll e)"

subsection \<open>The worker around the engine\<close>

text \<open>
  \<^verbatim>\<open>src/bots/paint/src/live.rs\<close>: the thread that owns the engine handles one message or one evaluation request at a
  time and forwards the output without blocking. An output the channel does not take is dropped, and the orders in it are
  taken back. \<open>clk\<close> is the reading of the clock and \<open>sent\<close> says whether the channel took the output. After a shutdown
  message the worker flushes and stops.
\<close>

datatype worker_message =
    WindowClosedMsg market_window u64
  | AuthoritativeResolutionMsg market_window SignalDirection
  | ReleaseReservationsMsg "(string \<times> f64) list"
  | LiveSubmissionFeedbackMsg "fill_feedback list" "i64 list" u64
  | FlushAllMsg u64
  | ShutdownMsg

datatype worker_input = WorkerMessage worker_message u64 bool | WorkerRequest decision_request bool

definition rollback_undelivered :: "decision_output \<Rightarrow> runtime_engine \<Rightarrow> runtime_engine" where
  "rollback_undelivered out e =
     (if dx_live_orders out = [] then e
      else release_reservations (map (\<lambda>qi. (qi_strategy qi, qi_reserved_cost qi)) (dx_live_orders out))
        (apply_live_submission_feedback [] (map qi_signal_id (dx_live_orders out)) (dx_now_ms out) e))"

definition forward_strategy_output :: "bool \<Rightarrow> decision_output \<times> runtime_engine \<Rightarrow> runtime_engine" where
  "forward_strategy_output sent oe = (if sent then snd oe else rollback_undelivered (fst oe) (snd oe))"

fun handle_worker_message :: "(string \<Rightarrow> fee_schedule option) \<Rightarrow> u64 \<Rightarrow> bool \<Rightarrow> worker_message \<Rightarrow> runtime_engine \<Rightarrow> runtime_engine" where
  "handle_worker_message parse clk sent (WindowClosedMsg w now_ms) e = forward_strategy_output sent (live_window_closed w now_ms e)"
| "handle_worker_message parse clk sent (AuthoritativeResolutionMsg w outcome) e =
     forward_strategy_output sent (live_resolution parse w outcome clk e)"
| "handle_worker_message parse clk sent (ReleaseReservationsMsg releases) e = release_reservations releases e"
| "handle_worker_message parse clk sent (LiveSubmissionFeedbackMsg fills ids now_ms) e =
     apply_live_submission_feedback fills ids now_ms e"
| "handle_worker_message parse clk sent (FlushAllMsg now_ms) e = forward_strategy_output sent (live_flush_all now_ms e)"
| "handle_worker_message parse clk sent ShutdownMsg e = forward_strategy_output sent (live_flush_all clk e)"

text \<open>The loop of the worker over the inputs it receives; \<open>None\<close> is a panic of a strategy.\<close>

fun run_strategy_worker ::
  "(string \<Rightarrow> fee_schedule option) \<Rightarrow> (json \<Rightarrow> string) \<Rightarrow> worker_input list \<Rightarrow> runtime_engine \<Rightarrow> runtime_engine option" where
  "run_strategy_worker parse render [] e = Some e"
| "run_strategy_worker parse render (WorkerMessage msg clk sent # ins) e =
     (if msg = ShutdownMsg then Some (handle_worker_message parse clk sent msg e)
      else run_strategy_worker parse render ins (handle_worker_message parse clk sent msg e))"
| "run_strategy_worker parse render (WorkerRequest req sent # ins) e =
     (case live_evaluate parse render req e of None \<Rightarrow> None
      | Some oe \<Rightarrow> run_strategy_worker parse render ins (forward_strategy_output sent oe))"

end
