(* ===== verification/LiveDecisionFacts.thy ===== *)
theory LiveDecisionFacts
  imports LiveDecision "HOL-Library.Multiset"
begin

section \<open>Facts about the live decision engine\<close>

text \<open>
  The engine against the simulator of \<^verbatim>\<open>executor.rs\<close>: the repeated helpers are the same functions, and a pass over the
  due orders does to the bankroll, the counters, the queue and the outcomes what the simulator does, with the trades in
  memory instead of the database. Then what every operation keeps: the ledger of the bankroll, the identifiers of the
  pending orders, one position per market, strategy and side, and the position limit.
\<close>

subsection \<open>The repeated helpers\<close>

definition order_of :: "runtime_order \<Rightarrow> pending_order" where
  "order_of ro = \<lparr>po_signal_id = ro_signal_id ro, po_signal_timestamp = ro_signal_timestamp ro,
     po_market_id = ro_market_id ro, po_strategy = ro_strategy ro, po_side = ro_side ro, po_token_id = ro_token_id ro,
     po_arrival_ts = ro_arrival_ts ro, po_requested_price = ro_requested_price ro, po_limit_price = ro_limit_price ro,
     po_requested_size = ro_requested_size ro, po_reserved_cost = ro_reserved_cost ro,
     po_execution_group_id = ro_execution_group_id ro, po_execution_fidelity = ro_execution_fidelity ro\<rparr>"

lemma order_of_fields [simp]:
  "po_signal_id (order_of ro) = ro_signal_id ro" "po_signal_timestamp (order_of ro) = ro_signal_timestamp ro"
  "po_market_id (order_of ro) = ro_market_id ro" "po_strategy (order_of ro) = ro_strategy ro"
  "po_side (order_of ro) = ro_side ro" "po_token_id (order_of ro) = ro_token_id ro"
  "po_arrival_ts (order_of ro) = ro_arrival_ts ro" "po_requested_price (order_of ro) = ro_requested_price ro"
  "po_limit_price (order_of ro) = ro_limit_price ro" "po_requested_size (order_of ro) = ro_requested_size ro"
  "po_reserved_cost (order_of ro) = ro_reserved_cost ro" "po_execution_group_id (order_of ro) = ro_execution_group_id ro"
  "po_execution_fidelity (order_of ro) = ro_execution_fidelity ro"
  by (simp_all add: order_of_def)

lemma live_helpers:
  "live_family_for_strategy = family_for_strategy"
  "signal_entry_ask = signal_ask"
  "live_single_order_limit_price = single_order_limit_price"
  "token_id_for_signal sig w = window_token w (sig_direction sig)"
  "live_order_intent ro = queued_order_intent (order_of ro)"
  "live_submission_size_rejection = submission_size_rejection_reason"
  "live_spread_submission_rejection = spread_submission_rejection_reason"
  "live_side_book = side_book"
  "live_book_fill_rejection = book_fill_rejection_reason"
  "live_fill_size_rejected = fill_size_rejected"
  "live_price_is_tick_aligned = price_is_tick_aligned"
  "live_record_group_outcome = record_group_outcome"
  "live_spread_signal_pair = spread_signal_pair"
  "live_spread_arrival_ts = spread_arrival_ts"
  by (auto simp: fun_eq_iff live_family_for_strategy_def family_for_strategy_def signal_entry_ask_def signal_ask_def
      live_single_order_limit_price_def single_order_limit_price_def family_for_signal_def token_id_for_signal_def
      window_token_def live_order_intent_def queued_order_intent_def live_submission_size_rejection_def
      submission_size_rejection_reason_def live_spread_submission_rejection_def spread_submission_rejection_reason_def
      live_side_book_def side_book_def live_book_fill_rejection_def book_fill_rejection_reason_def
      live_fill_size_rejected_def fill_size_rejected_def live_price_is_tick_aligned_def price_is_tick_aligned_def
      live_record_group_outcome_def record_group_outcome_def live_spread_signal_pair_def spread_signal_pair_def
      live_spread_arrival_ts_def spread_arrival_ts_def arrival_of_def split: option.splits list.splits)

lemma live_build_trade_agrees:
  "live_build_trade ro i price q now mode = (build_trade (order_of ro) price q now mode)\<lparr>tr_id := Some i\<rparr>"
  by (simp add: live_build_trade_def build_trade_def)

subsection \<open>Due orders as the simulator processes them\<close>

definition live_sim :: "runtime_engine \<Rightarrow> world \<Rightarrow> bool" where
  "live_sim e x \<longleftrightarrow> rd_bankroll e = w_bank x \<and> rd_stats e = en_stats (w_engine x)"

definition due_context_of :: "decision_request \<Rightarrow> config \<Rightarrow> due_context" where
  "due_context_of req c = \<lparr>dc_now = rq_now_ms req, dc_now_us = rq_now_us req, dc_window = Some (rq_window req),
     dc_book = rq_book_state req, dc_config = c\<rparr>"

definition same_trade :: "trade \<Rightarrow> trade \<Rightarrow> bool" where
  "same_trade t t' \<longleftrightarrow> t\<lparr>tr_id := None\<rparr> = t'\<lparr>tr_id := None\<rparr>"

fun disposition_matches :: "OrderDisposition \<Rightarrow> live_disposition \<Rightarrow> bool" where
  "disposition_matches (Deferred po) (LiveDeferred ro) \<longleftrightarrow> po = order_of ro"
| "disposition_matches (DispMissed g out) (LiveMissed g' out' ev) \<longleftrightarrow> g = g' \<and> out = out'"
| "disposition_matches (DispFilled t g out) (LiveFilled t' g' out' sev tev) \<longleftrightarrow> same_trade t t' \<and> g = g' \<and> out = out'"
| "disposition_matches _ _ \<longleftrightarrow> False"

lemma reject_sim:
  assumes "reject_order (due_context_of req c) (order_of ro) m x = (Inr d, x')" "live_sim e x"
    and "live_reject_order req ro m e = (d', e')"
  shows "disposition_matches d d' \<and> live_sim e' x'"
  using assms by (auto simp: reject_order_def live_reject_order_def due_context_of_def live_sim_def Let_def
      split: prod.splits sum.splits)

lemma fill_sim:
  assumes "fill_due_order (due_context_of req c) (order_of ro) book fr q x = (Inr d, x')" "live_sim e x" "rd_config e = c"
    and "live_fill_order req ro book fr q e = (d', e')"
  shows "disposition_matches d d' \<and> live_sim e' x'"
  using assms
  by (auto simp: fill_due_order_def live_fill_order_def due_context_of_def live_sim_def Let_def live_build_trade_agrees
      same_trade_def record_fill_def live_record_fill_def allocate_trade_id_def build_trade_def
      split: prod.splits sum.splits)

lemma due_order_sim:
  assumes p: "process_due_order (due_context_of req c) (order_of ro) x = (Inr d, x')" and s: "live_sim e x" "rd_config e = c"
    and l: "live_process_due_order req ro e = (d', e')"
  shows "disposition_matches d d' \<and> live_sim e' x'"
proof (cases "rq_now_ms req < ro_arrival_ts ro")
  case True
  then show ?thesis using p s l by (auto simp: process_due_order_def live_process_due_order_def due_context_of_def)
next
  case False
  have dc: "dc_now (due_context_of req c) = rq_now_ms req" "dc_window (due_context_of req c) = Some (rq_window req)"
    "dc_book (due_context_of req c) = rq_book_state req" "dc_config (due_context_of req c) = c"
    by (simp_all add: due_context_of_def)
  have miss: "miss_on_book r book fr = \<lparr>ms_track_group = True, ms_reason = r, ms_best_ask = Some (tob_best_ask book),
    ms_ask_size = Some (tob_ask_size book), ms_freshness_ms = fr\<rparr>" for r book fr by (simp add: miss_on_book_def)
  note rs = reject_sim[OF _ s(1)] and fs = fill_sim[OF _ s]
  show ?thesis using p l False
    unfolding process_due_order_def live_process_due_order_def dc live_helpers Let_def s(2) option.case
    by (auto simp: miss rs fs split: if_splits option.splits)
qed

lemma live_order_frame:
  assumes "live_process_due_order req ro e = (d, e')"
  shows "rd_config e' = rd_config e" "rd_exposure e' = rd_exposure e" "rd_pending e' = rd_pending e"
    "rd_next_signal_id e' = rd_next_signal_id e"
  using assms by (auto simp: live_process_due_order_def live_reject_order_def live_fill_order_def live_record_fill_def
      allocate_trade_id_def Let_def split: if_splits option.splits prod.splits)

definition open_trades :: "runtime_engine \<Rightarrow> trade list" where
  "open_trades e = map ot_trade (rd_exposure e)"

lemma due_loop_sim:
  assumes "due_loop (due_context_of req c) (map order_of rest) (map order_of kept) opened gs x = (Inr ts, x')"
    and "live_due_loop req rest kept evs outs gs e = (outs', evs', e')"
    and "live_sim e x" "rd_config e = c" "en_recent_outcomes (w_engine x) = outs"
    and "open_trades e = base @ ts0" "list_all2 same_trade opened ts0"
  shows "live_sim e' x' \<and> en_pending_orders (w_engine x') = map order_of (rd_pending e') \<and>
    en_recent_outcomes (w_engine x') = outs' \<and>
    (\<exists>ts'. open_trades e' = base @ ts' \<and> list_all2 same_trade ts ts')"
  using assms
proof (induction rest arbitrary: kept opened gs x evs outs e ts0)
  case Nil
  then show ?case by (auto simp: live_sim_def open_trades_def)
next
  case (Cons ro rest)
  obtain q x1 where p: "process_due_order (due_context_of req c) (order_of ro) x = (q, x1)" by fastforce
  obtain d where d: "q = Inr d" using Cons.prems(1) p by (cases q) auto
  obtain d' e1 where l: "live_process_due_order req ro e = (d', e1)" by fastforce
  note m = due_order_sim[OF p[unfolded d] Cons.prems(3,4) l]
  note fr = live_order_frame[OF l] and rec = process_due_order_frame(2)[OF p]
  have sim: "live_sim e1 x1" using m ..
  have o1: "open_trades e1 = base @ ts0" using fr Cons.prems(6) by (simp add: open_trades_def)
  have c1: "rd_config e1 = c" using fr Cons.prems(4) by simp
  from m have dm: "disposition_matches d d'" ..
  show ?case
  proof (cases d)
    case (Deferred po)
    then obtain ro' where d': "d' = LiveDeferred ro'" "po = order_of ro'" using dm by (cases d') auto
    show ?thesis
      by (rule Cons.IH[where kept = "kept @ [ro']", OF _ _ sim c1 _ o1 Cons.prems(7)])
        (use Cons.prems(1,2,5) p d Deferred d' l rec in simp_all)
  next
    case (DispMissed g out)
    then obtain ev where d': "d' = LiveMissed g out ev" using dm by (cases d') auto
    show ?thesis
      by (rule Cons.IH[OF Cons.prems(1)[simplified due_loop.simps list.map p d DispMissed, simplified]
            Cons.prems(2)[simplified live_due_loop.simps l d', simplified, unfolded live_helpers] _ c1 _ o1 Cons.prems(7)])
        (use sim Cons.prems(5) rec in \<open>simp_all add: live_sim_def\<close>)
  next
    case (DispFilled t g out)
    then obtain t' sev tev where d': "d' = LiveFilled t' g out sev tev" "same_trade t t'" using dm by (cases d') auto
    show ?thesis
      by (rule Cons.IH[where ?ts0.0 = "ts0 @ [t']", OF Cons.prems(1)[simplified due_loop.simps list.map p d DispFilled, simplified]
            Cons.prems(2)[simplified live_due_loop.simps l d'(1), simplified, unfolded live_helpers]])
        (use sim c1 Cons.prems(5,7) rec o1 d'(2) in \<open>simp_all add: live_sim_def open_trades_def add_open_trade_def list_all2_appendI\<close>)
  qed
qed

subsection \<open>The engine as a state machine\<close>

text \<open>
  What an operation may do, one change at a time: move the bankroll by its own operations with the book of orders and
  trades untouched; queue orders that passed the checks, under fresh identifiers; drop an order; turn an order into an
  open trade; mark or remove the trades of a market.
\<close>

type_synonym position_key = "string \<times> string \<times> SignalDirection"

definition live_order_key :: "runtime_order \<Rightarrow> position_key" where
  "live_order_key ro = (ro_market_id ro, ro_strategy ro, ro_side ro)"

definition live_trade_key :: "trade \<Rightarrow> position_key" where
  "live_trade_key t = (tr_market_id t, tr_strategy t, tr_side t)"

definition position_keys :: "runtime_engine \<Rightarrow> position_key list" where
  "position_keys e = map live_trade_key (open_trades e) @ map live_order_key (rd_pending e)"

definition same_book :: "runtime_engine \<Rightarrow> runtime_engine \<Rightarrow> bool" where
  "same_book e e' \<longleftrightarrow> rd_config e' = rd_config e \<and> rd_pending e' = rd_pending e \<and> rd_exposure e' = rd_exposure e \<and>
     rd_next_signal_id e' = rd_next_signal_id e"

definition strategies_ok :: "runtime_engine \<Rightarrow> bool" where
  "strategies_ok e \<longleftrightarrow> (\<forall>st \<in> set (rd_strategies e). inst_inv st)"

text \<open>The counted open trades, the pending orders and the new ones, in the \<open>u64\<close> arithmetic of the check.\<close>

definition slots_free :: "u64 \<Rightarrow> runtime_engine \<Rightarrow> nat \<Rightarrow> bool" where
  "slots_free now e n \<longleftrightarrow> queue_relevant_count (rd_config e) now (rd_exposure e) + of_nat (length (rd_pending e)) + of_nat n
     \<le> max_open_positions (rd_config e)"

definition fresh_ids :: "i64 \<Rightarrow> i64 \<Rightarrow> i64 list \<Rightarrow> bool" where
  "fresh_ids from to is \<longleftrightarrow> to \<le> max from (- (2 ^ 63)) \<and> (- (2 ^ 63) < to \<longrightarrow> distinct is \<and> (\<forall>i \<in> set is. to < i \<and> i \<le> from))"

definition without :: "nat \<Rightarrow> 'a list \<Rightarrow> 'a list" where
  "without i xs = take i xs @ drop (Suc i) xs"

inductive engine_step :: "u64 \<Rightarrow> runtime_engine \<Rightarrow> runtime_engine \<Rightarrow> bool" for now where
  other: "same_book e e' \<Longrightarrow> bank_moves (rd_bankroll e) (rd_bankroll e') \<Longrightarrow> (strategies_ok e \<Longrightarrow> strategies_ok e') \<Longrightarrow>
    engine_step now e e'"
| queue: "fresh_ids (rd_next_signal_id e) next_id (map ro_signal_id ros) \<Longrightarrow>
    distinct (map live_order_key ros) \<Longrightarrow> set (map live_order_key ros) \<inter> set (position_keys e) = {} \<Longrightarrow>
    ros = [] \<or> length ros \<le> 2 \<and> slots_free now e (length ros) \<Longrightarrow>
    engine_step now e (e\<lparr>rd_next_signal_id := next_id, rd_pending := rd_pending e @ ros\<rparr>)"
| drop_order: "i < length (rd_pending e) \<Longrightarrow> engine_step now e (e\<lparr>rd_pending := without i (rd_pending e)\<rparr>)"
| fill: "i < length (rd_pending e) \<Longrightarrow> live_trade_key t = live_order_key (rd_pending e ! i) \<Longrightarrow>
    engine_step now e (e\<lparr>rd_pending := without i (rd_pending e), rd_exposure := add_open_trade t end_time (rd_exposure e)\<rparr>)"
| mark: "engine_step now e (e\<lparr>rd_exposure := snd (mark_pending_for_market m (rd_exposure e))\<rparr>)"
| close: "engine_step now e (e\<lparr>rd_exposure := snd (remove_market m (rd_exposure e))\<rparr>)"

abbreviation engine_steps :: "u64 \<Rightarrow> runtime_engine \<Rightarrow> runtime_engine \<Rightarrow> bool" where
  "engine_steps now \<equiv> (engine_step now)\<^sup>*\<^sup>*"

subsection \<open>What every step keeps\<close>

definition ids_ok :: "runtime_engine \<Rightarrow> bool" where
  "ids_ok e \<longleftrightarrow> rd_next_signal_id e \<le> - 1 \<and> (- (2 ^ 63) < rd_next_signal_id e \<longrightarrow>
     distinct (map ro_signal_id (rd_pending e)) \<and> (\<forall>ro \<in> set (rd_pending e). rd_next_signal_id e < ro_signal_id ro \<and> ro_signal_id ro < 0))"

lemma set_without: "set (without i xs) \<subseteq> set xs"
  unfolding without_def using set_take_subset set_drop_subset by (metis le_sup_iff set_append)

lemma map_without: "map f (without i xs) = without i (map f xs)"
  by (simp add: without_def take_map drop_map)

lemma distinct_without: "distinct xs \<Longrightarrow> distinct (without i xs)"
  unfolding without_def distinct_append
  by (metis Suc_n_not_le_n disjoint_iff distinct_drop distinct_take in_set_dropD nle_le set_drop_subset_set_drop set_take_disj_set_drop_if_distinct subsetD)

lemma mset_without: "i < length xs \<Longrightarrow> mset xs = add_mset (xs ! i) (mset (without i xs))"
  unfolding without_def by (metis id_take_nth_drop mset.simps(2) mset_append union_mset_add_mset_right)

lemma length_without: "i < length xs \<Longrightarrow> length xs = Suc (length (without i xs))"
  by (simp add: without_def)

lemma distinct_mset: "mset xs \<subseteq># mset ys \<Longrightarrow> distinct ys \<Longrightarrow> distinct xs"
  by (metis distinct_append ex_mset mset_append mset_eq_imp_distinct_iff mset_subset_eq_exists_conv)

lemma step_ids: "engine_step now e e' \<Longrightarrow> ids_ok e \<Longrightarrow> ids_ok e'"
proof (induction rule: engine_step.induct)
  case (queue e next_id ros)
  show ?case
  proof (cases "- (2 ^ 63) < next_id")
    case True
    have f: "next_id \<le> rd_next_signal_id e" "distinct (map ro_signal_id ros)"
      "\<forall>ro \<in> set ros. next_id < ro_signal_id ro \<and> ro_signal_id ro \<le> rd_next_signal_id e"
      using queue(1) True by (auto simp: fresh_ids_def)
    have p: "rd_next_signal_id e \<le> - 1" "distinct (map ro_signal_id (rd_pending e))"
      "\<forall>ro \<in> set (rd_pending e). rd_next_signal_id e < ro_signal_id ro \<and> ro_signal_id ro < 0"
      using queue(5) f(1) True by (auto simp: ids_ok_def)
    have "ro_signal_id a \<noteq> ro_signal_id b" if "a \<in> set ros" "b \<in> set (rd_pending e)" for a b
      using f(3) p(3) that by fastforce
    then show ?thesis using f p by (fastforce simp: ids_ok_def)
  next
    case False
    then show ?thesis using queue(1,5) by (auto simp: ids_ok_def fresh_ids_def)
  qed
qed (auto simp: ids_ok_def same_book_def map_without distinct_without dest: set_without[THEN subsetD])

lemma keys_mark: "map live_trade_key (map ot_trade (snd (mark_pending_for_market m xs))) = map live_trade_key (map ot_trade xs)"
  by (simp add: mark_pending_for_market_def)

lemma step_keys: "engine_step now e e' \<Longrightarrow> distinct (position_keys e) \<Longrightarrow> distinct (position_keys e')"
proof (induction rule: engine_step.induct)
  case (drop_order i e)
  have "mset (without i (map live_order_key (rd_pending e))) \<subseteq># mset (map live_order_key (rd_pending e))"
    using drop_order(1) mset_without[of i "map live_order_key (rd_pending e)"] by simp
  then show ?case using drop_order(2)
    by (intro distinct_mset[OF _ drop_order(2)]) (simp add: position_keys_def open_trades_def map_without)
next
  case (fill i e t end_time)
  have "mset (map live_order_key (rd_pending e)) = add_mset (live_trade_key t) (mset (without i (map live_order_key (rd_pending e))))"
    using fill(1,2) mset_without[of i "map live_order_key (rd_pending e)"] by simp
  then show ?case
    by (intro distinct_mset[OF _ fill(3)]) (simp add: position_keys_def open_trades_def map_without add_open_trade_def)
next
  case (mark e m)
  then show ?case using keys_mark[of m "rd_exposure e"] by (simp add: position_keys_def open_trades_def del: map_map)
next
  case (close e m)
  have "mset (map (\<lambda>x. live_trade_key (ot_trade x)) (filter P (rd_exposure e))) \<subseteq># mset (map (\<lambda>x. live_trade_key (ot_trade x)) (rd_exposure e))"
    for P by (simp add: image_mset_subseteq_mono multiset_filter_subset)
  then show ?case
    by (intro distinct_mset[OF _ close]) (simp add: position_keys_def open_trades_def remove_market_def comp_def)
qed (auto simp: position_keys_def open_trades_def same_book_def)

lemma step_bank: "engine_step now e e' \<Longrightarrow> bank_moves (rd_bankroll e) (rd_bankroll e')"
  by (induction rule: engine_step.induct) simp_all

lemma step_config: "engine_step now e e' \<Longrightarrow> rd_config e' = rd_config e"
  by (induction rule: engine_step.induct) (simp_all add: same_book_def)

lemma step_strategies: "engine_step now e e' \<Longrightarrow> strategies_ok e \<Longrightarrow> strategies_ok e'"
  by (induction rule: engine_step.induct) (simp_all add: strategies_ok_def)

text \<open>The open trades the limit counts, and with them the pending orders.\<close>

definition relevant_count :: "config \<Rightarrow> u64 \<Rightarrow> exposure_state \<Rightarrow> nat" where
  "relevant_count c now xs = (if counts_as_open_position (pending_settlement_policy_unchecked c) then length xs
     else length (filter (\<lambda>e. \<not> ot_pending_settlement e \<and> now < ot_market_end_time e) xs))"

definition live_load :: "u64 \<Rightarrow> runtime_engine \<Rightarrow> nat" where
  "live_load now e = relevant_count (rd_config e) now (rd_exposure e) + length (rd_pending e)"

lemma queue_relevant_nat: "queue_relevant_count c now xs = of_nat (relevant_count c now xs)"
  by (simp add: queue_relevant_count_def relevant_count_def)

lemma length_filter_imp: "(\<And>x. P x \<Longrightarrow> Q x) \<Longrightarrow> length (filter P xs) \<le> length (filter Q xs)"
  by (induction xs) (auto simp: le_SucI)

lemma live_load_later: "now \<le> now' \<Longrightarrow> live_load now' e \<le> live_load now e"
  by (auto simp: live_load_def relevant_count_def intro!: length_filter_imp)

lemma relevant_count_ops:
  "relevant_count c now (add_open_trade t end_time xs) \<le> Suc (relevant_count c now xs)"
  "relevant_count c now (snd (mark_pending_for_market m xs)) \<le> relevant_count c now xs"
  "relevant_count c now (snd (remove_market m xs)) \<le> relevant_count c now xs"
proof -
  show "relevant_count c now (add_open_trade t end_time xs) \<le> Suc (relevant_count c now xs)"
    by (simp add: relevant_count_def add_open_trade_def)
  show "relevant_count c now (snd (mark_pending_for_market m xs)) \<le> relevant_count c now xs"
    by (auto simp: relevant_count_def mark_pending_for_market_def filter_map comp_def intro!: length_filter_imp split: if_splits)
  have "length (filter P (filter Q xs)) \<le> length (filter P xs)" for P Q :: "open_runtime_trade \<Rightarrow> bool"
    unfolding filter_filter by (rule length_filter_imp) simp
  then show "relevant_count c now (snd (remove_market m xs)) \<le> relevant_count c now xs"
    by (simp add: relevant_count_def remove_market_def length_filter_le)
qed

lemma slots_free_load:
  assumes "slots_free now e n" "live_load now e + n < 2 ^ 64"
  shows "live_load now e + n \<le> unat (max_open_positions (rd_config e))"
proof -
  have "queue_relevant_count (rd_config e) now (rd_exposure e) + of_nat (length (rd_pending e)) + of_nat n = (of_nat (live_load now e + n) :: u64)"
    by (simp add: queue_relevant_nat live_load_def)
  moreover have "unat (of_nat (live_load now e + n) :: u64) = live_load now e + n"
    using assms(2) by (simp add: unat_of_nat del: of_nat_add)
  ultimately show ?thesis using assms(1) by (simp add: slots_free_def word_le_nat_alt)
qed

lemma step_load:
  assumes "engine_step now e e'" "unat (max_open_positions (rd_config e)) \<le> M" "M + 2 < 2 ^ 64" "live_load now e \<le> M"
  shows "live_load now e' \<le> M"
  using assms
proof (induction rule: engine_step.induct)
  case (queue e next_id ros)
  show ?case
  proof (cases "ros = []")
    case True
    then show ?thesis using queue(7) by (simp add: live_load_def)
  next
    case False
    then have "slots_free now e (length ros)" "length ros \<le> 2" using queue(4) by simp_all
    then have "live_load now e + length ros \<le> unat (max_open_positions (rd_config e))"
      using slots_free_load[of now e "length ros"] queue(6,7) by simp
    then show ?thesis using queue(5) by (simp add: live_load_def)
  qed
next
  case (drop_order i e)
  then show ?case using length_without[OF drop_order(1)] by (simp add: live_load_def)
next
  case (fill i e t end_time)
  then show ?case using length_without[OF fill(1)] relevant_count_ops(1)[of "rd_config e" now t end_time "rd_exposure e"]
    by (simp add: live_load_def)
next
  case (mark e m)
  then show ?case using relevant_count_ops(2)[of "rd_config e" now m "rd_exposure e"] by (simp add: live_load_def)
next
  case (close e m)
  then show ?case using relevant_count_ops(3)[of "rd_config e" now m "rd_exposure e"] by (simp add: live_load_def)
qed (simp add: live_load_def same_book_def)

text \<open>The laws of a step carry over to runs of steps.\<close>

lemma steps_laws:
  assumes "engine_steps now e e'"
  shows "rd_config e' = rd_config e" "bank_moves (rd_bankroll e) (rd_bankroll e')"
    "strategies_ok e \<Longrightarrow> strategies_ok e'" "ids_ok e \<Longrightarrow> ids_ok e'"
    "distinct (position_keys e) \<Longrightarrow> distinct (position_keys e')"
    "unat (max_open_positions (rd_config e)) \<le> M \<Longrightarrow> M + 2 < 2 ^ 64 \<Longrightarrow> live_load now e \<le> M \<Longrightarrow> live_load now e' \<le> M"
proof -
  have c: "rd_config e' = rd_config e \<and> bank_moves (rd_bankroll e) (rd_bankroll e') \<and> (strategies_ok e \<longrightarrow> strategies_ok e') \<and>
      (ids_ok e \<longrightarrow> ids_ok e') \<and> (distinct (position_keys e) \<longrightarrow> distinct (position_keys e')) \<and>
      (unat (max_open_positions (rd_config e)) \<le> M \<and> M + 2 < 2 ^ 64 \<and> live_load now e \<le> M \<longrightarrow> live_load now e' \<le> M)"
    using assms
  proof (induction rule: rtranclp_induct)
    case (step y z)
    note l = step_config[OF step(2)] step_bank[OF step(2)] step_strategies[OF step(2)] step_ids[OF step(2)] step_keys[OF step(2)]
    show ?case using step(3) l step_load[OF step(2), of M] bank_moves_trans by auto
  qed simp
  then show "rd_config e' = rd_config e" "bank_moves (rd_bankroll e) (rd_bankroll e')"
    "strategies_ok e \<Longrightarrow> strategies_ok e'" "ids_ok e \<Longrightarrow> ids_ok e'"
    "distinct (position_keys e) \<Longrightarrow> distinct (position_keys e')"
    "unat (max_open_positions (rd_config e)) \<le> M \<Longrightarrow> M + 2 < 2 ^ 64 \<Longrightarrow> live_load now e \<le> M \<Longrightarrow> live_load now e' \<le> M"
    by blast+
qed

subsection \<open>The operations are runs of steps\<close>

lemma steps_other:
  "same_book e e' \<Longrightarrow> bank_moves (rd_bankroll e) (rd_bankroll e') \<Longrightarrow> rd_strategies e' = rd_strategies e \<Longrightarrow> engine_steps now e e'"
  by (rule r_into_rtranclp, rule engine_step.other) (simp_all add: strategies_ok_def)

lemma steps_queue:
  assumes same: "rd_config e' = rd_config e" "rd_exposure e' = rd_exposure e" "rd_strategies e' = rd_strategies e"
      "rd_pending e' = rd_pending e @ ros" and b: "bank_moves (rd_bankroll e) (rd_bankroll e')"
    and q: "fresh_ids (rd_next_signal_id e) (rd_next_signal_id e') (map ro_signal_id ros)" "distinct (map live_order_key ros)"
      "set (map live_order_key ros) \<inter> set (position_keys e) = {}"
      "ros = [] \<or> length ros \<le> 2 \<and> slots_free now e (length ros)"
  shows "engine_steps now e e'"
proof -
  let ?m = "e'\<lparr>rd_next_signal_id := rd_next_signal_id e, rd_pending := rd_pending e\<rparr>"
  have "engine_steps now e ?m" by (rule steps_other) (use same b in \<open>simp_all add: same_book_def\<close>)
  moreover have "engine_step now ?m (?m\<lparr>rd_next_signal_id := rd_next_signal_id e', rd_pending := rd_pending ?m @ ros\<rparr>)"
    by (rule engine_step.queue) (use q same in \<open>auto simp: position_keys_def open_trades_def slots_free_def\<close>)
  moreover have "?m\<lparr>rd_next_signal_id := rd_next_signal_id e', rd_pending := rd_pending ?m @ ros\<rparr> = e'"
    using same(4) by simp
  ultimately show ?thesis by (metis rtranclp.rtrancl_into_rtrancl)
qed

lemma steps_drop:
  assumes "i < length (rd_pending e)" "same_book (e\<lparr>rd_pending := without i (rd_pending e)\<rparr>) e'"
    "bank_moves (rd_bankroll e) (rd_bankroll e')" "rd_strategies e' = rd_strategies e"
  shows "engine_steps now e e'"
proof -
  have "engine_steps now (e\<lparr>rd_pending := without i (rd_pending e)\<rparr>) e'" by (rule steps_other) (use assms in simp_all)
  then show ?thesis using engine_step.drop_order[OF assms(1), of now] by (rule converse_rtranclp_into_rtranclp[rotated])
qed

lemma steps_fill:
  assumes "i < length (rd_pending e)" "live_trade_key t = live_order_key (rd_pending e ! i)"
    "same_book (e\<lparr>rd_pending := without i (rd_pending e), rd_exposure := add_open_trade t end_time (rd_exposure e)\<rparr>) e'"
    "bank_moves (rd_bankroll e) (rd_bankroll e')" "rd_strategies e' = rd_strategies e"
  shows "engine_steps now e e'"
proof -
  have "engine_steps now (e\<lparr>rd_pending := without i (rd_pending e), rd_exposure := add_open_trade t end_time (rd_exposure e)\<rparr>) e'"
    by (rule steps_other) (use assms in simp_all)
  then show ?thesis using engine_step.fill[OF assms(1,2), of now end_time] by (rule converse_rtranclp_into_rtranclp[rotated])
qed

subsubsection \<open>Due orders\<close>

lemma live_trade_key_build [simp]: "live_trade_key (live_build_trade ro i price q now mode) = live_order_key ro"
  by (simp add: live_trade_key_def live_order_key_def live_build_trade_def)

lemma live_order_result:
  assumes "live_process_due_order req ro e = (d, e')"
  shows "same_book e e'" "bank_moves (rd_bankroll e) (rd_bankroll e')" "rd_strategies e' = rd_strategies e"
    "(case d of LiveDeferred ro' \<Rightarrow> ro' = ro \<and> e' = e | LiveFilled t g out sev tev \<Rightarrow> live_trade_key t = live_order_key ro | _ \<Rightarrow> True)"
  using assms by (auto simp: live_process_due_order_def live_reject_order_def live_fill_order_def live_record_fill_def
      allocate_trade_id_def same_book_def moves_release Let_def split: if_splits option.splits prod.splits)

lemma without_middle: "without (length kept) (kept @ ro # rest) = kept @ rest"
  by (simp add: without_def)

lemma due_loop_steps:
  "live_due_loop req rest kept evs outs gs e = (outs', evs', e') \<Longrightarrow> engine_steps now (e\<lparr>rd_pending := kept @ rest\<rparr>) e'"
proof (induction rest arbitrary: kept evs outs gs e)
  case Nil
  then show ?case by (auto intro!: steps_other simp: same_book_def)
next
  case (Cons ro rest)
  let ?e = "e\<lparr>rd_pending := kept @ ro # rest\<rparr>"
  obtain d e1 where l: "live_process_due_order req ro e = (d, e1)" by fastforce
  note r = live_order_result[OF l]
  have i: "length kept < length (rd_pending ?e)" "rd_pending ?e ! length kept = ro" by simp_all
  show ?case
  proof (cases d)
    case (LiveDeferred ro')
    then show ?thesis using Cons.IH[of "kept @ [ro]" evs outs gs e1] Cons.prems l r(4) by simp
  next
    case (LiveMissed g out ev)
    have "engine_steps now ?e (e1\<lparr>rd_pending := kept @ rest\<rparr>)"
      by (rule steps_drop[OF i(1)]) (use r in \<open>simp_all add: same_book_def without_middle\<close>)
    then show ?thesis using Cons.IH Cons.prems l LiveMissed by (auto elim: rtranclp_trans)
  next
    case (LiveFilled t g out sev tev)
    have k: "live_trade_key t = live_order_key (rd_pending ?e ! length kept)" using r(4) LiveFilled by simp
    let ?f = "e1\<lparr>rd_exposure := add_open_trade t (mw_end_time (rq_window req)) (rd_exposure e1)\<rparr>"
    have "engine_steps now ?e (?f\<lparr>rd_pending := kept @ rest\<rparr>)"
      by (rule steps_fill[OF i(1) k, where end_time = "mw_end_time (rq_window req)"]) (use r in \<open>simp_all add: same_book_def without_middle\<close>)
    moreover have "engine_steps now (?f\<lparr>rd_pending := kept @ rest\<rparr>) e'"
      by (rule Cons.IH) (use Cons.prems l LiveFilled in simp)
    ultimately show ?thesis by (rule rtranclp_trans)
  qed
qed

lemma due_orders_steps: "live_process_due_orders req e = (outs, evs, e') \<Longrightarrow> engine_steps now e e'"
  using due_loop_steps[of req "rd_pending e" "[]" "[]" "[]" "[]" e outs evs e' now] by (simp add: live_process_due_orders_def)

subsubsection \<open>Feedback of the venue\<close>

lemma remove_pending_cases:
  assumes "remove_pending_order sid e = (found, e')"
  obtains "found = None" "e' = e" "\<forall>ro \<in> set (rd_pending e). ro_signal_id ro \<noteq> sid"
  | i where "found = Some (rd_pending e ! i)" "i < length (rd_pending e)" "e' = e\<lparr>rd_pending := without i (rd_pending e)\<rparr>"
      "ro_signal_id (rd_pending e ! i) = sid"
proof (cases "position (\<lambda>ro. ro_signal_id ro = sid) (rd_pending e)")
  case None
  then have "\<forall>ro \<in> set (rd_pending e). ro_signal_id ro \<noteq> sid" by (simp only: position_None)
  then show thesis using that(1) assms None by (simp add: remove_pending_order_def)
next
  case (Some i)
  have "i < length (rd_pending e)" "ro_signal_id (rd_pending e ! i) = sid" using position_Some[OF Some] by simp_all
  then show thesis using that(2)[of i] assms Some by (auto simp: remove_pending_order_def without_def)
qed

lemma remove_pending_steps: "remove_pending_order sid e = (found, e') \<Longrightarrow> engine_steps now e e'"
  by (erule remove_pending_cases) (auto intro: engine_step.drop_order)

lemma apply_fill_steps: "engine_steps now (e :: runtime_engine) (apply_fill now_ms ff e)"
proof -
  obtain found e1 where r: "remove_pending_order (ff_signal_id ff) e = (found, e1)" by fastforce
  from r show ?thesis
  proof (cases rule: remove_pending_cases)
    case 1
    then show ?thesis using r by (simp add: apply_fill_def)
  next
    case (2 i)
    let ?ro = "rd_pending e ! i"
    show ?thesis
    proof (cases "ff_filled_size ff \<le> 0 \<or> ff_fill_price ff \<le> 0")
      case True
      then show ?thesis using r 2 remove_pending_steps[OF r, of now] by (simp add: apply_fill_def)
    next
      case False
      have k: "live_trade_key (live_build_trade ?ro (rd_next_trade_id e) (ff_fill_price ff) (ff_filled_size ff) now_ms ''live'') = live_order_key ?ro"
        by simp
      show ?thesis
        by (rule steps_fill[OF 2(2) k, where end_time = "ro_market_end_time ?ro"])
          (use r 2 False in \<open>auto simp: apply_fill_def same_book_def Let_def allocate_trade_id_def live_record_fill_def moves_release\<close>)
    qed
  qed
qed

lemma steps_fold: "(\<And>x e. engine_steps now e (f x e)) \<Longrightarrow> engine_steps now e (fold f xs e)"
  by (induction xs arbitrary: e) (auto intro: rtranclp_trans)

lemma feedback_steps: "engine_steps now e (apply_live_submission_feedback fills ids now_ms e)"
proof -
  have "engine_steps now e (snd (remove_pending_order sid e))" for sid e
    by (rule remove_pending_steps[of sid e "fst (remove_pending_order sid e)"]) simp
  then show ?thesis unfolding apply_live_submission_feedback_def
    by (rule rtranclp_trans[OF steps_fold steps_fold[OF apply_fill_steps]])
qed

lemma release_moves: "bank_moves b (fold (\<lambda>(strategy, amount). release_reserved_for_strategy amount strategy) rs b)"
proof (induction rs arbitrary: b)
  case (Cons r rs)
  show ?case using bank_moves_trans[OF moves_release[OF bank_moves_refl] Cons.IH] by (simp add: case_prod_beta)
qed simp

lemma release_steps: "engine_steps now e (release_reservations rs e)"
  by (rule steps_other) (simp_all add: release_reservations_def same_book_def release_moves)

lemma rollback_steps: "engine_steps now e (rollback_undelivered out e)"
  using rtranclp_trans[OF feedback_steps release_steps] by (simp add: rollback_undelivered_def)

subsubsection \<open>Submissions\<close>

text \<open>The part of the engine a handler leaves alone unless it queues an order.\<close>

definition pass_frame :: "decision_pass \<Rightarrow> decision_pass \<Rightarrow> bool" where
  "pass_frame p p' \<longleftrightarrow> rd_config (dp_engine p') = rd_config (dp_engine p) \<and>
     rd_exposure (dp_engine p') = rd_exposure (dp_engine p) \<and> rd_strategies (dp_engine p') = rd_strategies (dp_engine p) \<and>
     bank_moves (rd_bankroll (dp_engine p)) (rd_bankroll (dp_engine p'))"

definition engine_grows :: "decision_pass \<Rightarrow> decision_pass \<Rightarrow> runtime_order list \<Rightarrow> bool" where
  "engine_grows p p' ros \<longleftrightarrow> pass_frame p p' \<and> rd_pending (dp_engine p') = rd_pending (dp_engine p) @ ros \<and>
     rd_next_signal_id (dp_engine p') = rd_next_signal_id (dp_engine p) \<and> dp_orders p' = dp_orders p"

lemma push_event_fields [simp]:
  "dp_engine (push_single_decision_event render sid sig req a b st rs p) = dp_engine p"
  "dp_orders (push_single_decision_event render sid sig req a b st rs p) = dp_orders p"
  "dp_engine (persist_spread_signals render req sigs sids a b st rs p) = dp_engine p"
  "dp_orders (persist_spread_signals render req sigs sids a b st rs p) = dp_orders p"
  by (simp_all add: push_single_decision_event_def persist_spread_signals_def Let_def)

lemma record_submitted_fields [simp]:
  "rd_config (live_record_submitted ro e) = rd_config e" "rd_exposure (live_record_submitted ro e) = rd_exposure e"
  "rd_pending (live_record_submitted ro e) = rd_pending e" "rd_strategies (live_record_submitted ro e) = rd_strategies e"
  "rd_bankroll (live_record_submitted ro e) = rd_bankroll e" "rd_next_signal_id (live_record_submitted ro e) = rd_next_signal_id e"
  by (simp_all add: live_record_submitted_def Let_def)

lemma submit_single_result:
  assumes s: "live_submit_single render req sig sid f p = (out, p')"
    and nn: "\<not> is_nan (signal_ask sig)" "\<not> is_nan (single_order_limit_price sig (rd_config (dp_engine p)))"
  obtains (rejected) reason where "out = SubmissionRejected [sid] reason" "engine_grows p p' []"
  | (queued) ro where "out = Queued [sid] [live_order_intent ro]" "engine_grows p p' [ro]" "ro_signal_id ro = sid"
      "live_order_key ro = (mw_market_id (rq_window req), sig_strategy sig, sig_direction sig)"
      "live_can_queue_single sig (rq_window req) False 1 (rq_now_ms req) (dp_engine p) = None"
proof -
  let ?e = "dp_engine p" and ?w = "rq_window req"
  let ?lim = "single_order_limit_price sig (rd_config ?e)"
  obtain q b1 where r: "reserve_capital_with_reserve_price (signal_ask sig) ?lim (sig_confidence sig) (sig_strategy sig) f
      (rd_config ?e) (rq_now_ms req) (rd_bankroll ?e) = (q, b1)" by fastforce
  have m: "bank_moves (rd_bankroll ?e) b1" by (rule moves_reserve[OF bank_moves_refl nn r])
  note unf = live_submit_single_def Let_def live_helpers r live_rejected_def
  consider reason where "live_can_queue_single sig ?w False 1 (rq_now_ms req) ?e = Some reason"
    | "live_can_queue_single sig ?w False 1 (rq_now_ms req) ?e = None" "q \<le> 0"
    | reason where "live_can_queue_single sig ?w False 1 (rq_now_ms req) ?e = None" "\<not> q \<le> 0"
        "submission_size_rejection_reason q (signal_ask sig) (unwrap_or (mw_order_min_size ?w) 0) (min_bet_usd (rd_config ?e)) = Some reason"
    | "live_can_queue_single sig ?w False 1 (rq_now_ms req) ?e = None" "\<not> q \<le> 0"
        "submission_size_rejection_reason q (signal_ask sig) (unwrap_or (mw_order_min_size ?w) 0) (min_bet_usd (rd_config ?e)) = None"
    by blast
  then show thesis
  proof cases
    case (1 reason)
    then show thesis using s by (intro rejected) (auto simp: unf engine_grows_def pass_frame_def)
  next
    case 2
    then show thesis using s m by (intro rejected) (auto simp: unf engine_grows_def pass_frame_def)
  next
    case (3 reason)
    then show thesis using s m moves_release by (intro rejected) (auto simp: unf engine_grows_def pass_frame_def)
  next
    case 4
    let ?ro = "live_single_order sig sid ?w (saturating_add (sig_timestamp sig) (sim_order_latency_ms (rd_config ?e)))
      (signal_ask sig) ?lim q"
    have eq: "out = Queued [sid] [live_order_intent ?ro] \<and> p' = push_single_decision_event render sid sig req (Some (rq_now_ms req))
        (Some (saturating_add (sig_timestamp sig) (sim_order_latency_ms (rd_config ?e)))) ''submitted'' None
        (p\<lparr>dp_engine := (live_record_submitted ?ro (?e\<lparr>rd_bankroll := b1\<rparr>))\<lparr>rd_pending := rd_pending ?e @ [?ro]\<rparr>\<rparr>)"
      using s by (simp add: unf 4)
    show thesis
    proof (rule queued)
      show "out = Queued [sid] [live_order_intent ?ro]" using eq ..
      show "engine_grows p p' [?ro]" using m by (simp add: eq engine_grows_def pass_frame_def)
    qed (simp_all add: live_single_order_def live_order_key_def 4)
  qed
qed

lemma submit_spread_result:
  assumes s: "live_submit_spread parse render req sigs sids p = (out, p')"
    and nn: "\<forall>sig \<in> set sigs. quotes_ok sig"
  obtains (rejected) reason where "out = SubmissionRejected sids reason" "engine_grows p p' []"
  | (empty) "out = Queued sids []" "p' = p" "live_spread_signal_pair sigs sids = None"
  | (queued) u d ui di up down where "out = Queued sids [live_order_intent up, live_order_intent down]" "engine_grows p p' [up, down]"
      "live_spread_signal_pair sigs sids = Some (u, d, ui, di)"
      "ro_signal_id up = ui" "ro_signal_id down = di"
      "live_order_key up = (mw_market_id (rq_window req), sig_strategy u, sig_direction u)"
      "live_order_key down = (mw_market_id (rq_window req), sig_strategy d, sig_direction d)"
      "live_can_queue_spread sigs (rq_window req) (rq_now_ms req) (dp_engine p) = None"
proof (cases "live_spread_signal_pair sigs sids")
  case None
  then show thesis using s by (intro empty) (auto simp: live_submit_spread_def)
next
  case (Some a)
  then obtain u d ui di where pr: "live_spread_signal_pair sigs sids = Some (u, d, ui, di)" by (metis surj_pair)
  let ?e = "dp_engine p" and ?w = "rq_window req" and ?c = "rd_config (dp_engine p)"
  obtain t1 t2 b1 where r: "reserve_spread_capital (sig_up_ask u) (sig_down_ask d)
      (f64_max (sig_confidence u) (sig_confidence d)) ?c (rq_now_ms req) (rd_bankroll ?e) = ((t1, t2), b1)"
    by (metis surj_pair)
  have q: "\<not> is_nan (sig_up_ask u)" "\<not> is_nan (sig_down_ask d)"
    using spread_signal_pair_Some(1,2)[OF pr[unfolded live_helpers]] nn by (auto simp: quotes_ok_def)
  have m: "bank_moves (rd_bankroll ?e) b1" by (rule moves_spread[OF bank_moves_refl q r])
  note unf = live_submit_spread_def Let_def pr r live_rejected_def
  show thesis
  proof (cases "live_can_queue_spread sigs ?w (rq_now_ms req) ?e")
    case (Some reason)
    then show thesis using s by (intro rejected) (auto simp: unf engine_grows_def pass_frame_def)
  next
    case None
    let ?fp = "resolve_fee_params parse ?c (Some ?w) (mw_end_time ?w)"
    let ?edge = "spread_net_edge (sig_up_ask u) (sig_down_ask d) 1 (fee_rate ?fp) (exponent ?fp) \<le> 0"
    let ?rej = "live_spread_submission_rejection t1 t2 (sig_up_ask u) (sig_down_ask d) (unwrap_or (mw_order_min_size ?w) 0) (min_bet_usd ?c)"
    consider ?edge | "\<not> ?edge" "t1 \<le> 0 \<or> t2 \<le> 0" | reason where "\<not> ?edge" "\<not> (t1 \<le> 0 \<or> t2 \<le> 0)" "?rej = Some reason"
      | "\<not> ?edge" "\<not> (t1 \<le> 0 \<or> t2 \<le> 0)" "?rej = None" by blast
    then show thesis
    proof cases
      case 1
      then show thesis using s None by (intro rejected) (auto simp: unf engine_grows_def pass_frame_def)
    next
      case 2
      then show thesis using s m None by (intro rejected) (simp_all add: unf engine_grows_def pass_frame_def, auto)
    next
      case (3 reason)
      then show thesis using s m None moves_release by (intro rejected) (auto simp: unf engine_grows_def pass_frame_def)
    next
      case 4
      let ?arr = "live_spread_arrival_ts sigs ?c (rq_now_ms req)"
      let ?g = "Some (''spread-'' @ nat_to_string (unat (rd_next_group_id ?e)))"
      let ?up = "live_spread_order u ui ?w ?arr t1 ?g" and ?down = "live_spread_order d di ?w ?arr t2 ?g"
      have eq: "out = Queued sids [live_order_intent ?up, live_order_intent ?down] \<and>
          p' = persist_spread_signals render req sigs sids (Some (rq_now_ms req)) (Some ?arr) ''submitted'' None
            (p\<lparr>dp_engine := (live_record_submitted ?down (live_record_submitted ?up (?e\<lparr>rd_bankroll := b1,
               rd_next_group_id := saturating_add (rd_next_group_id ?e) 1\<rparr>)))\<lparr>rd_pending := rd_pending ?e @ [?up, ?down]\<rparr>\<rparr>)"
        using s by (simp add: unf None 4)
      show thesis
      proof (rule queued)
        show "out = Queued sids [live_order_intent ?up, live_order_intent ?down]" using eq ..
        show "engine_grows p p' [?up, ?down]" using m by (simp add: eq engine_grows_def pass_frame_def)
      qed (simp_all add: live_spread_order_def live_order_key_def None pr)
    qed
  qed
qed

subsubsection \<open>Fresh identifiers\<close>

lemma fresh_pred: "fresh_ids i (i64_pred i) [i]" "fresh_ids i (i64_pred i) []"
  by (auto simp: fresh_ids_def i64_pred_def)

lemma fresh_same: "fresh_ids i i []"
  by (simp add: fresh_ids_def)

lemma fresh_subset: "fresh_ids from to is \<Longrightarrow> set is' \<subseteq> set is \<Longrightarrow> (distinct is \<Longrightarrow> distinct is') \<Longrightarrow> fresh_ids from to is'"
  by (auto simp: fresh_ids_def)

lemma allocate_signal_ids_result:
  "allocate_signal_ids n e = (is, e') \<Longrightarrow> length is = n \<and> fresh_ids (rd_next_signal_id e) (rd_next_signal_id e') is \<and>
    e' = e\<lparr>rd_next_signal_id := rd_next_signal_id e'\<rparr>"
proof (induction n arbitrary: e e' "is")
  case (Suc n)
  let ?e1 = "e\<lparr>rd_next_signal_id := i64_pred (rd_next_signal_id e)\<rparr>"
  obtain js e2 where a: "allocate_signal_ids n ?e1 = (js, e2)" by fastforce
  then have eq: "is = rd_next_signal_id e # js" "e' = e2" using Suc.prems by (auto simp: allocate_signal_id_def)
  have IH: "length js = n" "fresh_ids (i64_pred (rd_next_signal_id e)) (rd_next_signal_id e2) js"
    "e2 = ?e1\<lparr>rd_next_signal_id := rd_next_signal_id e2\<rparr>" using Suc.IH[OF a] by simp_all
  have "fresh_ids (rd_next_signal_id e) (rd_next_signal_id e2) (rd_next_signal_id e # js)"
    using IH(2) by (fastforce simp: fresh_ids_def i64_pred_def max_def split: if_splits)
  then show ?case using IH(1,3) eq by simp
qed (auto simp: fresh_same)

subsubsection \<open>Candidates\<close>

lemma queue_single_free:
  assumes "live_can_queue_single sig w False 1 now e = None"
  shows "slots_free now e 1" "(mw_market_id w, sig_strategy sig, d) \<notin> set (position_keys e)"
  using assms by (auto simp: live_can_queue_single_def slots_free_def Let_def position_keys_def open_trades_def live_trade_key_def
      live_order_key_def live_duplicate_open_def list_ex_iff split: if_splits)

lemma position_keys_iff:
  "(m, st, d) \<in> set (position_keys e) \<longleftrightarrow> live_duplicate_open m st d True (rd_exposure e) \<or>
     list_ex (\<lambda>ro. ro_market_id ro = m \<and> ro_strategy ro = st \<and> ro_side ro = d) (rd_pending e)"
  by (auto simp: position_keys_def open_trades_def live_trade_key_def live_order_key_def live_duplicate_open_def list_ex_iff image_iff)

lemma queue_spread_free:
  assumes "live_can_queue_spread sigs w now e = None"
  shows "slots_free now e 2" "sig \<in> set sigs \<Longrightarrow> (mw_market_id w, sig_strategy sig, sig_direction sig) \<notin> set (position_keys e)"
proof -
  show "slots_free now e 2" using assms by (simp add: live_can_queue_spread_def slots_free_def Let_def split: if_splits)
  show "(mw_market_id w, sig_strategy sig, sig_direction sig) \<notin> set (position_keys e)" if "sig \<in> set sigs"
    using assms that unfolding live_can_queue_spread_def Let_def position_keys_iff by (simp add: list_ex_iff split: if_splits)
qed

definition same_start :: "runtime_engine \<Rightarrow> runtime_engine \<Rightarrow> bool" where
  "same_start e e' \<longleftrightarrow> rd_config e' = rd_config e \<and> rd_exposure e' = rd_exposure e \<and> rd_strategies e' = rd_strategies e \<and>
     rd_pending e' = rd_pending e \<and> rd_bankroll e' = rd_bankroll e"

lemma grows_steps:
  assumes "same_start e (dp_engine p)" "engine_grows p p' ros"
    and "fresh_ids (rd_next_signal_id e) (rd_next_signal_id (dp_engine p)) (map ro_signal_id ros)"
    and "distinct (map live_order_key ros)" "set (map live_order_key ros) \<inter> set (position_keys e) = {}"
    and "ros = [] \<or> length ros \<le> 2 \<and> slots_free now e (length ros)"
  shows "engine_steps now e (dp_engine p')"
  by (rule steps_queue) (use assms in \<open>auto simp: same_start_def engine_grows_def pass_frame_def\<close>)

lemma same_start_keys: "same_start e e' \<Longrightarrow> position_keys e' = position_keys e" "same_start e e' \<Longrightarrow> slots_free now e' n = slots_free now e n"
  by (auto simp: same_start_def position_keys_def open_trades_def slots_free_def)

lemma grows_nothing:
  "same_start e e1 \<Longrightarrow> fresh_ids (rd_next_signal_id e) (rd_next_signal_id e1) [] \<Longrightarrow> same_start e1 e' \<Longrightarrow>
     rd_next_signal_id e' = rd_next_signal_id e1 \<Longrightarrow> engine_steps now e e'"
  by (rule steps_queue[where ros = "[]"]) (auto simp: same_start_def)

lemma extend_live_engine [simp]: "dp_engine (extend_live_orders out p) = dp_engine p"
  by (simp add: extend_live_orders_def split: SubmissionOutcome.splits)

lemma submit_single_steps:
  assumes s: "live_submit_single render req sig sid f p = (out, p')" and ok: "quotes_ok sig" "limits_ok (rd_config e)"
    and st: "same_start e (dp_engine p)" and fr: "fresh_ids (rd_next_signal_id e) (rd_next_signal_id (dp_engine p)) [sid]"
  shows "engine_steps (rq_now_ms req) e (dp_engine p')"
proof -
  have c: "rd_config (dp_engine p) = rd_config e" using st by (simp add: same_start_def)
  have nn: "\<not> is_nan (signal_ask sig)" "\<not> is_nan (single_order_limit_price sig (rd_config (dp_engine p)))"
    using ok by (auto simp: c quotes_ok_def limits_ok_def signal_ask_def single_order_limit_price_def
        split: SignalDirection.splits StrategyFamily.splits)
  from s nn show ?thesis
  proof (cases rule: submit_single_result)
    case (rejected reason)
    show ?thesis by (rule grows_steps[OF st rejected(2)]) (use fresh_subset[OF fr, of "[]"] in simp_all)
  next
    case (queued ro)
    note q = queue_single_free[OF queued(5), unfolded same_start_keys[OF st]]
    show ?thesis by (rule grows_steps[OF st queued(2)]) (use queued(3,4) fr q in simp_all)
  qed
qed

lemma handle_single_steps:
  assumes "quotes_ok sig" "limits_ok (rd_config (dp_engine p))"
  shows "engine_steps (rq_now_ms req) (dp_engine p) (dp_engine (live_handle_single render req sig f r p))"
proof -
  let ?e = "dp_engine p" and ?sig = "annotate_signal r f sig"
  let ?e1 = "?e\<lparr>rd_next_signal_id := i64_pred (rd_next_signal_id ?e)\<rparr>"
  obtain tr sup where t: "st_should_suppress f (sig_direction ?sig) (rd_trend ?e1) = (tr, sup)" by fastforce
  let ?p = "p\<lparr>dp_engine := ?e1\<lparr>rd_trend := tr\<rparr>\<rparr>"
  have st: "same_start ?e (dp_engine ?p)" by (simp add: same_start_def)
  have fr: "fresh_ids (rd_next_signal_id ?e) (rd_next_signal_id (dp_engine ?p)) [rd_next_signal_id ?e]" by (simp add: fresh_pred)
  have sub: "engine_steps (rq_now_ms req) ?e (dp_engine (snd (live_submit_single render req ?sig (rd_next_signal_id ?e) f ?p)))"
    by (rule submit_single_steps[OF surjective_pairing _ assms(2) st fr]) (use assms(1) in \<open>simp add: quotes_ok_def\<close>)
  have none: "engine_steps (rq_now_ms req) ?e e'" if "same_start (dp_engine ?p) e'"
    "rd_next_signal_id e' = rd_next_signal_id (dp_engine ?p)" for e'
    by (rule grows_nothing[OF st _ that]) (simp add: fresh_pred)
  show ?thesis
  proof (cases sup)
    case True
    then show ?thesis using t none[of "dp_engine ?p"]
      by (simp add: live_handle_single_def Let_def allocate_signal_id_def same_start_def)
  next
    case False
    have "engine_steps (rq_now_ms req) ?e ((dp_engine ?p)\<lparr>rd_rejections := rt\<rparr>)" for rt
      by (rule none) (simp_all add: same_start_def)
    then show ?thesis using t sub False
      by (auto simp: live_handle_single_def Let_def allocate_signal_id_def case_prod_beta split: option.splits)
  qed
qed

lemma handle_batch_steps:
  assumes "\<forall>sig \<in> set sigs. quotes_ok sig"
  shows "engine_steps (rq_now_ms req) (dp_engine p) (dp_engine (live_handle_batch parse render req sigs f r p))"
proof -
  let ?e = "dp_engine p" and ?sigs = "map (annotate_signal r f) sigs" and ?now = "rq_now_ms req"
  obtain sids e1 where a: "allocate_signal_ids (length ?sigs) ?e = (sids, e1)" by fastforce
  note al = allocate_signal_ids_result[OF a]
  let ?p = "p\<lparr>dp_engine := e1\<rparr>"
  obtain n where n: "e1 = ?e\<lparr>rd_next_signal_id := n\<rparr>" using al by metis
  have st: "same_start ?e (dp_engine ?p)" by (simp add: n same_start_def)
  have fr: "fresh_ids (rd_next_signal_id ?e) (rd_next_signal_id (dp_engine ?p)) sids" using al by simp
  obtain out q where s: "live_submit_spread parse render req ?sigs sids ?p = (out, q)" by fastforce
  have nn: "\<forall>sig \<in> set ?sigs. quotes_ok sig" using assms by (simp add: quotes_ok_def)
  have "engine_steps ?now ?e (dp_engine q)"
    using s nn
  proof (cases rule: submit_spread_result)
    case (rejected reason)
    show ?thesis by (rule grows_steps[OF st rejected(2)]) (use fresh_subset[OF fr, of "[]"] in simp_all)
  next
    case empty
    show ?thesis by (rule grows_nothing[OF st]) (use fresh_subset[OF fr, of "[]"] empty in \<open>simp_all add: same_start_def\<close>)
  next
    case (queued u d ui di up down)
    note pr = queued(3)[unfolded live_helpers]
    note pair = spread_signal_pair_Some[OF pr]
    obtain i j where ij: "ui = sids ! i" "di = sids ! j" "i < length sids" "j < length sids" "u = ?sigs ! i" "d = ?sigs ! j"
      using pr by (auto simp: spread_signal_pair_def split: option.splits if_splits)
    have dir: "sig_direction u = Up" "sig_direction d = Down" using pair by simp_all
    then have ne: "i \<noteq> j" using ij(5,6) by auto
    have f2: "fresh_ids (rd_next_signal_id ?e) (rd_next_signal_id (dp_engine ?p)) [ui, di]"
      by (rule fresh_subset[OF fr]) (use ij ne in \<open>auto simp: nth_eq_iff_index_eq\<close>)
    have free: "(mw_market_id (rq_window req), sig_strategy x, sig_direction x) \<notin> set (position_keys ?e)" if "x \<in> {u, d}" for x
      using queue_spread_free(2)[OF queued(8), of x] that pair same_start_keys(1)[OF st] by auto
    have sl: "slots_free ?now ?e 2" using queue_spread_free(1)[OF queued(8)] same_start_keys(2)[OF st] by simp
    show ?thesis by (rule grows_steps[OF st queued(2)])
      (use f2 queued(4-7) free[of u] free[of d] dir sl in \<open>simp_all add: numeral_2_eq_2[symmetric]\<close>)
  qed
  then show ?thesis using a s
    by (auto simp: live_handle_batch_def Let_def case_prod_beta steps_other same_book_def split: option.splits)
qed

lemma handle_candidate_steps:
  assumes "\<forall>sig \<in> set (result_signals (ca_result cand)). quotes_ok sig" "limits_ok (rd_config (dp_engine p))"
  shows "engine_steps (rq_now_ms req) (dp_engine p) (dp_engine (live_handle_candidate parse render req sel r cand p))"
proof -
  have "engine_steps (rq_now_ms req) e (record_router_block req f e)" for e f
    by (rule steps_other) (simp_all add: record_router_block_def same_book_def)
  then show ?thesis using assms handle_single_steps handle_batch_steps
    by (cases "ca_result cand") (simp_all add: live_handle_candidate_def)
qed

lemma handle_candidates_steps:
  assumes "candidates_ok cands" "limits_ok (rd_config (dp_engine p))"
  shows "engine_steps (rq_now_ms req) (dp_engine p) (dp_engine (fold (live_handle_candidate parse render req sel r) cands p))"
  using assms
proof (induction cands arbitrary: p)
  case (Cons cand cands)
  let ?q = "live_handle_candidate parse render req sel r cand p"
  have 1: "engine_steps (rq_now_ms req) (dp_engine p) (dp_engine ?q)"
    by (rule handle_candidate_steps) (use Cons.prems in \<open>simp_all add: candidates_ok_def\<close>)
  have 2: "engine_steps (rq_now_ms req) (dp_engine ?q) (dp_engine (fold (live_handle_candidate parse render req sel r) cands ?q))"
    by (rule Cons.IH) (use Cons.prems steps_laws(1)[OF 1] in \<open>simp_all add: candidates_ok_def\<close>)
  show ?case using rtranclp_trans[OF 1 2] by simp
qed simp

lemma inst_evaluate_inv: "inst_evaluate parse ctx c now st = Some (r, st') \<Longrightarrow> inst_inv st \<Longrightarrow> inst_inv st'"
proof (cases st)
  case (LatencyInst la)
  assume a: "inst_evaluate parse ctx c now st = Some (r, st')" "inst_inv st"
  then obtain q la' where "la_evaluate ctx c now la = Some (q, la')" "la_inv la'"
    using la_evaluate_total[of la ctx c now] LatencyInst by auto
  then show ?thesis using a LatencyInst by auto
qed auto

lemma collect_inv:
  "collect_candidates parse ctx c now m sts rt = Some (cands, sts', rt') \<Longrightarrow> \<forall>st \<in> set sts. inst_inv st \<Longrightarrow> \<forall>st \<in> set sts'. inst_inv st"
proof (induction sts arbitrary: rt cands sts')
  case (Cons st sts)
  then obtain r st' where st: "inst_evaluate parse ctx c now st = Some (r, st')"
    by (cases "inst_evaluate parse ctx c now st") auto
  then show ?case using Cons inst_evaluate_inv[OF st] by (auto simp: Let_def split: option.splits)
qed simp

text \<open>What an evaluation needs of its inputs: the books quote numbers, the price limits are numbers, the strategies are well formed.\<close>

definition request_ok :: "decision_request \<Rightarrow> runtime_engine \<Rightarrow> bool" where
  "request_ok req e \<longleftrightarrow> books_ok (rq_ctx req) \<and> limits_ok (rd_config e) \<and> strategies_ok e"

lemma evaluate_steps:
  assumes ev: "live_evaluate parse render req e0 = Some (out, e')" and ok: "request_ok req e0"
  shows "engine_steps (rq_now_ms req) e0 e'"
proof -
  obtain outs evs e where d: "(if execution_mode (rd_config e0) = LiveTrading then ([], [], e0) else live_process_due_orders req e0) = (outs, evs, e)"
    by (metis surj_pair)
  have 1: "engine_steps (rq_now_ms req) e0 e" using d due_orders_steps by (auto split: if_splits)
  have ok1: "limits_ok (rd_config e)" "strategies_ok e" using steps_laws(1,3)[OF 1] ok by (simp_all add: request_ok_def)
  note ev' = ev[unfolded live_evaluate_def d Let_def, simplified]
  show ?thesis
  proof (cases "\<not> cb_can_trade (rd_breaker e) (rq_now_ms req) \<or>
      execution_mode (rd_config e) = LiveTrading \<and> \<not> rq_live_trading_can_submit req")
    case True
    then have "engine_steps (rq_now_ms req) e e'"
      using ev' by (intro steps_other) (auto simp: same_book_def split: if_splits)
    then show ?thesis using 1 by (rule rtranclp_trans[rotated])
  next
    case False
    obtain cands e1 where c: "live_collect_candidates parse req e = Some (cands, e1)"
      using ev' False by (auto split: option.splits if_splits)
    obtain sts rt where cc: "collect_candidates parse (rq_ctx req) (rd_config e) (rq_now_ms req) (mw_market_id (rq_window req))
        (rd_strategies e) (rd_rejections e) = Some (cands, sts, rt)" "e1 = e\<lparr>rd_strategies := sts, rd_rejections := rt\<rparr>"
      using c by (auto simp: live_collect_candidates_def split: option.splits)
    have 2: "engine_step (rq_now_ms req) e e1"
      by (rule engine_step.other) (use collect_inv[OF cc(1)] in \<open>simp_all add: cc(2) same_book_def strategies_ok_def\<close>)
    have cok: "candidates_ok cands"
      using collect_candidates_facts[OF cc(1)] ok ok1 by (simp add: request_ok_def strategies_ok_def)
    have 3: "engine_steps (rq_now_ms req) e1 e'"
      using ev' False c handle_candidates_steps[OF cok, of "\<lparr>dp_engine = e1, dp_events = evs, dp_orders = [], dp_logs = []\<rparr>" req parse render] ok1(1) cc(2)
      by auto
    show ?thesis using 1 2 3 by (meson rtranclp.rtrancl_into_rtrancl rtranclp_trans)
  qed
qed

subsubsection \<open>Windows\<close>

lemma transition_moves:
  "bank_moves b (fold (\<lambda>t. transition_trade_to_pending_settlement (tr_entry_price t * tr_size t) (tr_strategy t)) ts b)"
proof (induction ts arbitrary: b)
  case (Cons t ts)
  show ?case using bank_moves_trans[OF moves_transition[OF bank_moves_refl] Cons.IH] by simp
qed simp

lemma closed_steps: "live_window_closed w now_ms e = (out, e') \<Longrightarrow> engine_steps now e e'"
proof -
  assume "live_window_closed w now_ms e = (out, e')"
  then obtain rt where e': "e' = (e\<lparr>rd_exposure := snd (mark_pending_for_market (mw_market_id w) (rd_exposure e))\<rparr>)
     \<lparr>rd_bankroll := fold (\<lambda>t. transition_trade_to_pending_settlement (tr_entry_price t * tr_size t) (tr_strategy t))
        (fst (mark_pending_for_market (mw_market_id w) (rd_exposure e))) (rd_bankroll e), rd_rejections := rt\<rparr>"
    by (auto simp: live_window_closed_def Let_def case_prod_beta)
  have "engine_steps now (e\<lparr>rd_exposure := snd (mark_pending_for_market (mw_market_id w) (rd_exposure e))\<rparr>) e'"
    by (rule steps_other) (simp_all add: e' same_book_def transition_moves)
  with engine_step.mark[of now e "mw_market_id w"] show ?thesis by (rule converse_rtranclp_into_rtranclp)
qed

text \<open>A settled trade: what it does to the engine, and the event it leaves.\<close>

definition close_event :: "fee_params \<Rightarrow> SignalDirection \<Rightarrow> u64 \<Rightarrow> bankroll \<Rightarrow> trade \<Rightarrow> live_event" where
  "close_event fp outcome now_ms b t =
     (let settlement_price = (if tr_side t = outcome then 1 else 0);
          fee = compute_taker_fee (tr_entry_price t) (tr_size t) (fee_rate fp) (exponent fp);
          r = apply_trade_result_in_memory (tr_entry_price t) (tr_size t) settlement_price fee (tr_strategy t) b
      in EvCloseTrade (the (tr_id t)) (live_settlement_result (the (tr_id t)) settlement_price fee (fst r) t)
           (balance_event_for_trade (the (tr_id t)) now_ms (fst r) (bk_current_balance (snd r))))"

fun close_events :: "fee_params \<Rightarrow> SignalDirection \<Rightarrow> u64 \<Rightarrow> bankroll \<Rightarrow> trade list \<Rightarrow> live_event list" where
  "close_events fp outcome now_ms b [] = []"
| "close_events fp outcome now_ms b (t # ts) =
     close_event fp outcome now_ms b t # close_events fp outcome now_ms (settle_bank fp outcome t b) ts"

lemma settle_trade_effect:
  assumes "live_settle_trade fp outcome now_ms t (evs, e) = (evs', e')"
  shows "same_book e e'" "rd_strategies e' = rd_strategies e"
    "rd_bankroll e' = (if tr_id t = None then rd_bankroll e else settle_bank fp outcome t (rd_bankroll e))"
    "evs' = (if tr_id t = None then evs else evs @ [close_event fp outcome now_ms (rd_bankroll e) t])"
  using assms by (auto simp: live_settle_trade_def same_book_def settle_bank_def close_event_def get_stats_def Let_def case_prod_beta
      split: option.splits)

lemma settle_trades_effect:
  assumes "fold (live_settle_trade fp outcome now_ms) ts (evs, e) = (evs', e')"
  shows "same_book e e' \<and> rd_strategies e' = rd_strategies e \<and>
    rd_bankroll e' = fold (settle_bank fp outcome) (filter (\<lambda>t. tr_id t \<noteq> None) ts) (rd_bankroll e) \<and>
    evs' = evs @ close_events fp outcome now_ms (rd_bankroll e) (filter (\<lambda>t. tr_id t \<noteq> None) ts)"
  using assms
proof (induction ts arbitrary: evs e)
  case (Cons t ts)
  obtain evs1 e1 where 1: "live_settle_trade fp outcome now_ms t (evs, e) = (evs1, e1)" by fastforce
  have 2: "fold (live_settle_trade fp outcome now_ms) ts (evs1, e1) = (evs', e')" using Cons.prems 1 by simp
  note s = settle_trade_effect[OF 1]
  show ?case using Cons.IH[OF 2] s by (cases "tr_id t") (auto simp: same_book_def)
qed (simp add: same_book_def)

lemma resolution_effect:
  assumes "live_resolution parse w outcome now_ms e = (out, e')"
    and "fp = resolve_fee_params parse (rd_config e) (Some w) now_ms"
    and "ts = filter (\<lambda>t. tr_id t \<noteq> None) (map ot_trade (filter (\<lambda>x. tr_market_id (ot_trade x) = mw_market_id w) (rd_exposure e)))"
  shows "same_book (e\<lparr>rd_exposure := snd (remove_market (mw_market_id w) (rd_exposure e))\<rparr>) e'" "rd_strategies e' = rd_strategies e"
    "rd_bankroll e' = fold (settle_bank fp outcome) ts (rd_bankroll e)"
    "dx_persistence_events out = EvMarketResolved (mw_market_id w) (direction_to_string outcome) #
       close_events fp outcome now_ms (rd_bankroll e) ts"
proof -
  let ?e1 = "e\<lparr>rd_exposure := snd (remove_market (mw_market_id w) (rd_exposure e))\<rparr>"
  let ?ts = "fst (remove_market (mw_market_id w) (rd_exposure e))"
  obtain evs e2 where f: "fold (live_settle_trade fp outcome now_ms) ?ts
      ([EvMarketResolved (mw_market_id w) (direction_to_string outcome)], ?e1) = (evs, e2)" by fastforce
  have o: "out = make_output evs [] [] [] None now_ms 0" "e' = e2"
    using assms(1) f by (auto simp: live_resolution_def assms(2)[symmetric] case_prod_beta Let_def)
  have ts: "ts = filter (\<lambda>t. tr_id t \<noteq> None) ?ts" by (simp add: assms(3) remove_market_def)
  note r = settle_trades_effect[OF f, folded ts]
  show "same_book ?e1 e'" "rd_strategies e' = rd_strategies e"
    "rd_bankroll e' = fold (settle_bank fp outcome) ts (rd_bankroll e)"
    "dx_persistence_events out = EvMarketResolved (mw_market_id w) (direction_to_string outcome) #
       close_events fp outcome now_ms (rd_bankroll e) ts"
    using r by (simp_all add: o make_output_def)
qed

lemma resolution_again:
  assumes "live_resolution parse w outcome now_ms e = (out, e')"
  shows "live_resolution parse w outcome2 now2 e' =
    (make_output [EvMarketResolved (mw_market_id w) (direction_to_string outcome2)] [] [] [] None now2 0, e')"
proof -
  have "rd_exposure e' = snd (remove_market (mw_market_id w) (rd_exposure e))"
    using resolution_effect(1)[OF assms refl refl] by (simp add: same_book_def)
  then have x: "remove_market (mw_market_id w) (rd_exposure e') = ([], rd_exposure e')" by (simp add: remove_market_def)
  then show ?thesis by (simp add: live_resolution_def Let_def)
qed

text \<open>What a close event reports, for the comparison with the position manager.\<close>

definition closed_terms :: "live_event \<Rightarrow> (f64 \<times> f64) option" where
  "closed_terms ev = (case ev of EvCloseTrade i r b \<Rightarrow> Some (res_settlement_price r, res_fee_amount r) | _ \<Rightarrow> None)"

definition settlement_terms :: "fee_params \<Rightarrow> SignalDirection \<Rightarrow> trade \<Rightarrow> (f64 \<times> f64) option" where
  "settlement_terms fp outcome t = Some (if tr_side t = outcome then 1 else 0,
     compute_taker_fee (tr_entry_price t) (tr_size t) (fee_rate fp) (exponent fp))"

lemma same_trade_fields:
  assumes "same_trade t t'"
  shows "tr_entry_price t = tr_entry_price t'" "tr_size t = tr_size t'" "tr_side t = tr_side t'" "tr_strategy t = tr_strategy t'"
  using assms[unfolded same_trade_def, THEN arg_cong, of tr_entry_price] assms[unfolded same_trade_def, THEN arg_cong, of tr_size]
    assms[unfolded same_trade_def, THEN arg_cong, of tr_side] assms[unfolded same_trade_def, THEN arg_cong, of tr_strategy] by simp_all

lemma settle_same_trades: "list_all2 same_trade ts ts' \<Longrightarrow> fold (settle_bank fp outcome) ts b = fold (settle_bank fp outcome) ts' b"
proof (induction arbitrary: b rule: list_all2_induct)
  case (Cons t ts t' ts')
  then show ?case using same_trade_fields[OF Cons.hyps(1)] by (simp add: settle_bank_def)
qed simp

lemma closed_events_terms: "map closed_terms (close_events fp outcome now_ms b ts) = map (settlement_terms fp outcome) ts"
  by (induction ts arbitrary: b)
    (simp_all add: close_event_def closed_terms_def settlement_terms_def live_settlement_result_def Let_def)

lemma terms_same_trades: "list_all2 same_trade ts ts' \<Longrightarrow> map (settlement_terms fp outcome) ts = map (settlement_terms fp outcome) ts'"
proof (induction rule: list_all2_induct)
  case (Cons t ts t' ts')
  then show ?case using same_trade_fields[OF Cons.hyps(1)] by (simp add: settlement_terms_def)
qed simp

lemma settled_terms:
  "list_all (\<lambda>(t, r). r = settlement_result fp outcome (the (tr_id t)) t) rs \<Longrightarrow>
     map (\<lambda>(t, r). Some (res_settlement_price r, res_fee_amount r)) rs = map (settlement_terms fp outcome) (map fst rs)"
  by (induction rs) (auto simp: settlement_terms_def settlement_result_def Let_def)

lemma resolution_steps:
  assumes "live_resolution parse w outcome now_ms e = (out, e')"
  shows "engine_steps now e e'"
proof -
  note r = resolution_effect[OF assms refl refl]
  have "engine_steps now (e\<lparr>rd_exposure := snd (remove_market (mw_market_id w) (rd_exposure e))\<rparr>) e'"
    by (rule steps_other[OF r(1)]) (simp_all add: r(2,3) moves_settle)
  with engine_step.close[of now e "mw_market_id w"] show ?thesis by (rule converse_rtranclp_into_rtranclp)
qed

lemma flush_steps: "live_flush_all now_ms e = (out, e') \<Longrightarrow> engine_steps now e e'"
  by (rule steps_other) (auto simp: live_flush_all_def rt_drain_all_def same_book_def)

subsection \<open>Runs of the worker\<close>

lemma forward_steps: "engine_steps now e (snd oe) \<Longrightarrow> engine_steps now e (forward_strategy_output sent oe)"
  using rtranclp_trans[OF _ rollback_steps] by (simp add: forward_strategy_output_def)

lemma message_steps: "engine_steps now e (handle_worker_message parse clk sent msg e)"
proof (cases msg)
  case (WindowClosedMsg w t)
  then show ?thesis using closed_steps[OF surjective_pairing] forward_steps by simp
next
  case (AuthoritativeResolutionMsg w d)
  then show ?thesis using resolution_steps[OF surjective_pairing] forward_steps by simp
next
  case (FlushAllMsg t)
  then show ?thesis using flush_steps[OF surjective_pairing] forward_steps by simp
next
  case ShutdownMsg
  then show ?thesis using flush_steps[OF surjective_pairing] forward_steps by simp
qed (simp_all add: release_steps feedback_steps)

fun input_ok :: "config \<Rightarrow> worker_input \<Rightarrow> bool" where
  "input_ok c (WorkerRequest req sent) \<longleftrightarrow> books_ok (rq_ctx req)"
| "input_ok c (WorkerMessage msg clk sent) \<longleftrightarrow> True"

text \<open>The clock of the requests does not run backwards from \<open>t\<close>, and ends at most at \<open>t'\<close>.\<close>

fun times_ok :: "u64 \<Rightarrow> u64 \<Rightarrow> worker_input list \<Rightarrow> bool" where
  "times_ok t t' [] \<longleftrightarrow> t \<le> t'"
| "times_ok t t' (WorkerRequest req sent # ins) \<longleftrightarrow> t \<le> rq_now_ms req \<and> times_ok (rq_now_ms req) t' ins"
| "times_ok t t' (WorkerMessage msg clk sent # ins) \<longleftrightarrow> times_ok t t' ins"

lemma times_ok_le: "times_ok t t' ins \<Longrightarrow> t \<le> t'"
  by (induction t t' ins rule: times_ok.induct) auto

lemma evaluate_total:
  assumes "strategies_ok e" "0 \<le> calm_persistence_max_fair_bias (rd_config e)"
  shows "live_evaluate parse render req e \<noteq> None"
proof -
  obtain outs evs e1 where d: "(if execution_mode (rd_config e) = LiveTrading then ([], [], e) else live_process_due_orders req e) = (outs, evs, e1)"
    by (metis surj_pair)
  have 1: "engine_steps (rq_now_ms req) e e1" using d due_orders_steps by (auto split: if_splits)
  have "strategies_ok e1" "0 \<le> calm_persistence_max_fair_bias (rd_config e1)" using steps_laws(1,3)[OF 1] assms by simp_all
  then have "live_collect_candidates parse req e1 \<noteq> None"
    using collect_total[of "rd_strategies e1" "rd_config e1" parse "rq_ctx req" "rq_now_ms req" "mw_market_id (rq_window req)" "rd_rejections e1"]
    by (auto simp: live_collect_candidates_def strategies_ok_def)
  then show ?thesis by (auto simp: live_evaluate_def d Let_def split: option.splits)
qed

text \<open>The books of the engine at a time, against a bound on the open and pending positions.\<close>

definition live_books_ok :: "nat \<Rightarrow> u64 \<Rightarrow> runtime_engine \<Rightarrow> bool" where
  "live_books_ok M now e \<longleftrightarrow> ledger_ok (rd_bankroll e) \<and> ids_ok e \<and> distinct (position_keys e) \<and> strategies_ok e \<and>
     live_load now e \<le> M"

lemma steps_books:
  assumes "engine_steps now e e'" "live_books_ok M now e" "unat (max_open_positions (rd_config e)) \<le> M" "M + 2 < 2 ^ 64"
  shows "live_books_ok M now e'"
  using assms(2) steps_laws[OF assms(1)] bank_moves_laws(1)[OF steps_laws(2)[OF assms(1)]] assms(3,4)
  by (auto simp: live_books_ok_def)

lemma live_books_later: "live_books_ok M now e \<Longrightarrow> now \<le> now' \<Longrightarrow> live_books_ok M now' e"
  using live_load_later[of now now' e] by (auto simp: live_books_ok_def)

lemma hydrate_rows_ledger:
  "ledger_ok b \<Longrightarrow> \<forall>x \<in> set xs. 0 \<le> ex_entry_price x * ex_size x \<Longrightarrow> ledger_ok (hydrate_unresolved_exposure_rows xs now b)"
  unfolding hydrate_unresolved_exposure_rows_def by (induction xs arbitrary: b) (simp_all add: hydrate_ledger)

lemma new_engine_books:
  assumes "\<forall>st \<in> set sts. inst_inv st" "\<forall>x \<in> set (sd_unresolved_exposures sd). 0 \<le> ex_entry_price x * ex_size x"
    and "distinct (map (live_trade_key \<circ> sn_trade) (sd_open_trades sd))" "length (sd_open_trades sd) \<le> M"
  shows "live_books_ok M t (decision_engine_new c sts sd)"
proof -
  have "relevant_count c t (exposure_from_snapshots (sd_open_trades sd) n) \<le> length (sd_open_trades sd)" for n
    using length_filter_le order_trans by (fastforce simp: relevant_count_def exposure_from_snapshots_def)
  then show ?thesis
    using assms hydrate_rows_ledger[OF new_in_memory_ledger]
    by (auto simp: live_books_ok_def decision_engine_new_def ids_ok_def position_keys_def open_trades_def strategies_ok_def live_load_def
        exposure_from_snapshots_def o_def intro: order_trans)
qed

lemma worker_books:
  assumes "run_strategy_worker parse render ins e = Some e'" "list_all (input_ok (rd_config e)) ins" "times_ok t t' ins"
    and "limits_ok (rd_config e)" "live_books_ok M t e" "unat (max_open_positions (rd_config e)) \<le> M" "M + 2 < 2 ^ 64"
  shows "live_books_ok M t' e' \<and> rd_config e' = rd_config e"
  using assms
proof (induction parse render ins e arbitrary: t rule: run_strategy_worker.induct)
  case (1 parse render e)
  then show ?case using live_books_later by simp
next
  case (2 parse render msg clk sent ins e)
  let ?e1 = "handle_worker_message parse clk sent msg e"
  have s: "engine_steps t e ?e1" by (rule message_steps)
  have b: "live_books_ok M t ?e1" by (rule steps_books[OF s 2(6-8)])
  have c: "rd_config ?e1 = rd_config e" by (rule steps_laws(1)[OF s])
  show ?case
  proof (cases "msg = ShutdownMsg")
    case True
    then show ?thesis using 2(2,4) b c live_books_later[OF b] times_ok_le by auto
  next
    case False
    then show ?thesis using 2(1)[OF False, of t] 2(2-8) b c by simp
  qed
next
  case (3 parse render req sent ins e)
  obtain oe where ev: "live_evaluate parse render req e = Some oe" using 3(2) by (cases "live_evaluate parse render req e") auto
  let ?e1 = "forward_strategy_output sent oe" and ?now = "rq_now_ms req"
  have b0: "live_books_ok M ?now e" using 3(4,6) live_books_later by simp
  have "request_ok req e" using 3(3,5) b0 by (simp add: request_ok_def live_books_ok_def)
  then have s: "engine_steps ?now e ?e1" using evaluate_steps[of parse render req e "fst oe" "snd oe"] ev forward_steps by simp
  have b: "live_books_ok M ?now ?e1" by (rule steps_books[OF s b0 3(7,8)])
  have c: "rd_config ?e1 = rd_config e" by (rule steps_laws(1)[OF s])
  show ?case using 3(1)[OF ev, of ?now] 3(2-8) ev b c by simp
qed

lemma worker_total:
  assumes "strategies_ok e" "0 \<le> calm_persistence_max_fair_bias (rd_config e)" "list_all (input_ok (rd_config e)) ins" "limits_ok (rd_config e)"
  shows "run_strategy_worker parse render ins e \<noteq> None"
  using assms
proof (induction parse render ins e rule: run_strategy_worker.induct)
  case (2 parse render msg clk sent ins e)
  note l = steps_laws(1,3)[OF message_steps[of undefined e parse clk sent msg]]
  then show ?case using 2 by auto
next
  case (3 parse render req sent ins e)
  obtain oe where ev: "live_evaluate parse render req e = Some oe" using evaluate_total[OF 3(2,3)] by blast
  have "engine_steps (rq_now_ms req) e (forward_strategy_output sent oe)"
    by (rule forward_steps, rule evaluate_steps[of parse render req e "fst oe"]) (use ev 3 in \<open>auto simp: request_ok_def\<close>)
  then show ?case using 3 ev steps_laws(1,3) by fastforce
qed simp

subsection \<open>The orders of an output\<close>

text \<open>In live trading the orders handed out by a pass are those it queued, in order; otherwise it hands out none.\<close>

definition orders_grow :: "decision_pass \<Rightarrow> decision_pass \<Rightarrow> bool" where
  "orders_grow p p' \<longleftrightarrow> rd_config (dp_engine p') = rd_config (dp_engine p) \<and>
     (execution_mode (rd_config (dp_engine p)) = LiveTrading \<longrightarrow>
       (\<exists>ros. rd_pending (dp_engine p') = rd_pending (dp_engine p) @ ros \<and> dp_orders p' = dp_orders p @ map live_order_intent ros)) \<and>
     (execution_mode (rd_config (dp_engine p)) \<noteq> LiveTrading \<longrightarrow> dp_orders p' = dp_orders p)"

lemma orders_grow_trans:
  assumes "orders_grow p q" "orders_grow q r"
  shows "orders_grow p r"
proof (cases "execution_mode (rd_config (dp_engine p)) = LiveTrading")
  case True
  then show ?thesis using assms unfolding orders_grow_def by (metis append.assoc map_append)
next
  case False
  then show ?thesis using assms by (simp add: orders_grow_def)
qed

lemma orders_same:
  "rd_config (dp_engine p') = rd_config (dp_engine p) \<Longrightarrow> rd_pending (dp_engine p') = rd_pending (dp_engine p) \<Longrightarrow>
     dp_orders p' = dp_orders p \<Longrightarrow> orders_grow p p'"
  by (simp add: orders_grow_def)

lemma orders_queued:
  "engine_grows p p' ros \<Longrightarrow> orders_grow p (extend_live_orders (Queued ids (map live_order_intent ros)) p')"
  by (auto simp: orders_grow_def engine_grows_def pass_frame_def extend_live_orders_def)

lemma orders_refused: "engine_grows p p' [] \<Longrightarrow> orders_grow p (extend_live_orders (SubmissionRejected ids reason) p')"
  by (simp add: orders_grow_def engine_grows_def pass_frame_def extend_live_orders_def)

lemma orders_grow_logs [simp]: "orders_grow p (p'\<lparr>dp_logs := l\<rparr>) = orders_grow p p'"
  by (simp add: orders_grow_def)

lemma submit_single_orders:
  assumes "live_submit_single render req sig sid f p = (out, p')" "quotes_ok sig" "limits_ok (rd_config (dp_engine p))"
  shows "orders_grow p (extend_live_orders out p')"
proof -
  have "\<not> is_nan (signal_ask sig)" "\<not> is_nan (single_order_limit_price sig (rd_config (dp_engine p)))"
    using assms(2,3) by (auto simp: quotes_ok_def limits_ok_def signal_ask_def single_order_limit_price_def
        split: SignalDirection.splits StrategyFamily.splits)
  with assms(1) show ?thesis
    by (cases rule: submit_single_result) (use orders_queued[of p p' "[_]"] orders_refused in auto)
qed

lemma submit_spread_orders:
  assumes "live_submit_spread parse render req sigs sids p = (out, p')" "\<forall>sig \<in> set sigs. quotes_ok sig"
  shows "orders_grow p (extend_live_orders out p')"
  using assms
proof (cases rule: submit_spread_result)
  case empty
  then show ?thesis by (simp add: orders_same extend_live_orders_def)
qed (use orders_queued[of p p' "[_, _]"] orders_refused in auto)

lemma handle_single_orders:
  assumes "quotes_ok sig" "limits_ok (rd_config (dp_engine p))"
  shows "orders_grow p (live_handle_single render req sig f r p)"
proof -
  let ?sig = "annotate_signal r f sig" and ?e1 = "(dp_engine p)\<lparr>rd_next_signal_id := i64_pred (rd_next_signal_id (dp_engine p))\<rparr>"
  obtain tr sup where t: "st_should_suppress f (sig_direction ?sig) (rd_trend ?e1) = (tr, sup)" by fastforce
  let ?p = "p\<lparr>dp_engine := ?e1\<lparr>rd_trend := tr\<rparr>\<rparr>"
  obtain out q where s: "live_submit_single render req ?sig (rd_next_signal_id (dp_engine p)) f ?p = (out, q)" by fastforce
  have a: "orders_grow p ?p" by (rule orders_same) simp_all
  have b: "orders_grow ?p (extend_live_orders out q)"
    by (rule submit_single_orders[OF s]) (use assms in \<open>simp_all add: quotes_ok_def\<close>)
  note c = orders_grow_trans[OF a b]
  show ?thesis
  proof (cases "sup")
    case True
    then show ?thesis using t by (auto simp: live_handle_single_def Let_def allocate_signal_id_def intro: orders_same)
  next
    case False
    then show ?thesis using t s c
      by (auto simp: live_handle_single_def Let_def allocate_signal_id_def case_prod_beta intro: orders_same split: option.splits)
  qed
qed

lemma handle_batch_orders:
  assumes "\<forall>sig \<in> set sigs. quotes_ok sig"
  shows "orders_grow p (live_handle_batch parse render req sigs f r p)"
proof -
  let ?sigs = "map (annotate_signal r f) sigs"
  obtain sids e1 where al: "allocate_signal_ids (length ?sigs) (dp_engine p) = (sids, e1)" by fastforce
  obtain n where n: "e1 = (dp_engine p)\<lparr>rd_next_signal_id := n\<rparr>" using allocate_signal_ids_result[OF al] by metis
  obtain out q where s: "live_submit_spread parse render req ?sigs sids (p\<lparr>dp_engine := e1\<rparr>) = (out, q)" by fastforce
  have a: "orders_grow p (p\<lparr>dp_engine := e1\<rparr>)" by (rule orders_same) (simp_all add: n)
  have b: "orders_grow (p\<lparr>dp_engine := e1\<rparr>) (extend_live_orders out q)"
    by (rule submit_spread_orders[OF s]) (use assms in \<open>simp add: quotes_ok_def\<close>)
  note c = orders_grow_trans[OF a b]
  have d: "orders_grow p (p\<lparr>dp_engine := (dp_engine p)\<lparr>rd_rejections := rt\<rparr>\<rparr>)" for rt by (rule orders_same) simp_all
  show ?thesis using al s c d by (auto simp: live_handle_batch_def Let_def case_prod_beta split: option.splits)
qed

lemma handle_candidates_orders:
  assumes "candidates_ok cands" "limits_ok (rd_config (dp_engine p))"
  shows "orders_grow p (fold (live_handle_candidate parse render req sel r) cands p)"
  using assms
proof (induction cands arbitrary: p)
  case (Cons cand cands)
  let ?q = "live_handle_candidate parse render req sel r cand p"
  have "orders_grow p (p\<lparr>dp_engine := record_router_block req (ca_family cand) (dp_engine p)\<rparr>)"
    by (rule orders_same) (simp_all add: record_router_block_def)
  then have 1: "orders_grow p ?q"
    using handle_single_orders handle_batch_orders Cons.prems orders_same[of p p]
    by (cases "ca_result cand") (auto simp: live_handle_candidate_def candidates_ok_def)
  have 2: "orders_grow ?q (fold (live_handle_candidate parse render req sel r) cands ?q)"
    by (rule Cons.IH) (use Cons.prems 1 in \<open>simp_all add: candidates_ok_def orders_grow_def\<close>)
  show ?case using orders_grow_trans[OF 1 2] by simp
qed (simp add: orders_same)

lemma evaluate_orders:
  assumes ev: "live_evaluate parse render req e = Some (out, e')" and ok: "request_ok req e"
    and live: "execution_mode (rd_config e) = LiveTrading"
  obtains ros where "rd_pending e' = rd_pending e @ ros" "dx_live_orders out = map live_order_intent ros" "dx_now_ms out = rq_now_ms req"
proof (cases "\<not> cb_can_trade (rd_breaker e) (rq_now_ms req) \<or> \<not> rq_live_trading_can_submit req")
  case True
  then show thesis using ev live that[of "[]"] by (auto simp: live_evaluate_def Let_def make_output_def split: if_splits)
next
  case False
  obtain cands e1 where c: "live_collect_candidates parse req e = Some (cands, e1)"
    using ev live False by (auto simp: live_evaluate_def Let_def split: option.splits)
  then obtain sts rt where cc: "collect_candidates parse (rq_ctx req) (rd_config e) (rq_now_ms req) (mw_market_id (rq_window req))
      (rd_strategies e) (rd_rejections e) = Some (cands, sts, rt)" "e1 = e\<lparr>rd_strategies := sts, rd_rejections := rt\<rparr>"
    by (auto simp: live_collect_candidates_def split: option.splits)
  have cok: "candidates_ok cands" using collect_candidates_facts[OF cc(1)] ok by (simp add: request_ok_def strategies_ok_def)
  let ?p = "\<lparr>dp_engine = e1, dp_events = [], dp_orders = [], dp_logs = []\<rparr>"
  let ?sel = "if regime_detection_enabled (rd_config e)
    then selected_family (select_family_for_candidates (rq_ctx req) (rd_config e) (map ca_family cands)) else None"
  let ?q = "fold (live_handle_candidate parse render req ?sel (detect_regime (rq_ctx req) (rd_config e))) cands ?p"
  have g: "orders_grow ?p ?q" by (rule handle_candidates_orders[OF cok]) (use ok cc(2) in \<open>simp add: request_ok_def\<close>)
  have o: "e' = dp_engine ?q" "dx_live_orders out = dp_orders ?q" "dx_now_ms out = rq_now_ms req"
    using ev live False c by (auto simp: live_evaluate_def Let_def make_output_def)
  obtain ros where r: "rd_pending (dp_engine ?q) = rd_pending e1 @ ros" "dp_orders ?q = map live_order_intent ros"
    using g live cc(2) by (auto simp: orders_grow_def)
  show thesis by (rule that[of ros]) (use o r cc(2) in simp_all)
qed

lemma evaluate_no_orders:
  assumes ev: "live_evaluate parse render req e = Some (out, e')" and ok: "request_ok req e"
    and mode: "execution_mode (rd_config e) \<noteq> LiveTrading"
  shows "dx_live_orders out = []"
proof -
  obtain outs evs e0 where d: "live_process_due_orders req e = (outs, evs, e0)" by (metis surj_pair)
  note l = steps_laws(1,3)[OF due_orders_steps[OF d]]
  have ok0: "limits_ok (rd_config e0)" "strategies_ok e0" "execution_mode (rd_config e0) \<noteq> LiveTrading"
    using l ok mode by (simp_all add: request_ok_def)
  show ?thesis
  proof (cases "cb_can_trade (rd_breaker e0) (rq_now_ms req)")
    case False
    then show ?thesis using ev mode by (auto simp: live_evaluate_def d Let_def make_output_def)
  next
    case True
    obtain cands e1 where c: "live_collect_candidates parse req e0 = Some (cands, e1)"
      using ev mode True ok0 by (auto simp: live_evaluate_def d Let_def split: option.splits)
    then obtain sts rt where cc: "collect_candidates parse (rq_ctx req) (rd_config e0) (rq_now_ms req) (mw_market_id (rq_window req))
        (rd_strategies e0) (rd_rejections e0) = Some (cands, sts, rt)" "e1 = e0\<lparr>rd_strategies := sts, rd_rejections := rt\<rparr>"
      by (auto simp: live_collect_candidates_def split: option.splits)
    have cok: "candidates_ok cands"
      using collect_candidates_facts[OF cc(1)] ok ok0 by (simp add: request_ok_def strategies_ok_def)
    have "orders_grow p (fold (live_handle_candidate parse render req sel r) cands p)" if "dp_engine p = e1" for p sel r
      by (rule handle_candidates_orders[OF cok]) (use that ok0 cc(2) in simp)
    then have "dp_orders (fold (live_handle_candidate parse render req sel r) cands p) = dp_orders p" if "dp_engine p = e1" for p sel r
      using that ok0(3) cc(2) by (simp add: orders_grow_def)
    then show ?thesis using ev mode True c ok0(3) by (auto simp: live_evaluate_def d Let_def make_output_def)
  qed
qed

lemma evaluate_disarmed:
  assumes "live_evaluate parse render req e = Some (out, e')" "execution_mode (rd_config e) = LiveTrading"
    and "\<not> cb_can_trade (rd_breaker e) (rq_now_ms req) \<or> \<not> rq_live_trading_can_submit req"
  shows "dx_live_orders out = []" "dx_persistence_events out = []" "rd_bankroll e' = rd_bankroll e" "same_book e e'"
  using assms by (auto simp: live_evaluate_def Let_def make_output_def same_book_def split: if_splits)

lemma remove_pending_at:
  assumes "rd_pending e = old @ ro # rest" "ro_signal_id ro \<notin> set (map ro_signal_id old)"
  shows "snd (remove_pending_order (ro_signal_id ro) e) = e\<lparr>rd_pending := old @ rest\<rparr>"
proof -
  have "position (\<lambda>x. ro_signal_id x = ro_signal_id ro) (old @ ro # rest) = Some (length old)"
    using assms(2) by (induction old) auto
  then show ?thesis by (simp add: remove_pending_order_def assms(1))
qed

lemma remove_new_orders:
  assumes "rd_pending e = old @ ros" "distinct (map ro_signal_id (old @ ros))"
  shows "fold (\<lambda>sid e. snd (remove_pending_order sid e)) (map ro_signal_id ros) e = e\<lparr>rd_pending := old\<rparr>"
  using assms
proof (induction ros arbitrary: e)
  case (Cons ro ros)
  have "snd (remove_pending_order (ro_signal_id ro) e) = e\<lparr>rd_pending := old @ ros\<rparr>"
    by (rule remove_pending_at[OF Cons.prems(1)]) (use Cons.prems(2) in auto)
  then show ?case using Cons.IH[of "e\<lparr>rd_pending := old @ ros\<rparr>"] Cons.prems(2) by auto
qed simp

lemma rollback_effect:
  assumes "rd_pending e' = old @ ros" "distinct (map ro_signal_id (old @ ros))" "dx_live_orders out = map live_order_intent ros"
  shows "rollback_undelivered out e' = e'\<lparr>rd_pending := old,
    rd_bankroll := fold (\<lambda>ro. release_reserved_for_strategy (ro_reserved_cost ro) (ro_strategy ro)) ros (rd_bankroll e')\<rparr>"
proof (cases "ros = []")
  case True
  then show ?thesis using assms by (simp add: rollback_undelivered_def)
next
  case False
  have i: "map qi_signal_id (map live_order_intent ros) = map ro_signal_id ros" by (simp add: live_order_intent_def)
  have b: "fold (\<lambda>(strategy, amount). release_reserved_for_strategy amount strategy)
      (map (\<lambda>qi. (qi_strategy qi, qi_reserved_cost qi)) (map live_order_intent ros)) k =
      fold (\<lambda>ro. release_reserved_for_strategy (ro_reserved_cost ro) (ro_strategy ro)) ros k" for k
    by (induction ros arbitrary: k) (simp_all add: live_order_intent_def)
  show ?thesis using False remove_new_orders[OF assms(1,2)]
    unfolding rollback_undelivered_def assms(3) i apply_live_submission_feedback_def release_reservations_def b by simp
qed

subsection \<open>Fills reported by the venue\<close>

lemma apply_fill_effect:
  assumes "rd_pending e = old @ ro # rest" "ro_signal_id ro \<notin> set (map ro_signal_id old)" "ff_signal_id ff = ro_signal_id ro"
    and "\<not> ff_filled_size ff \<le> 0" "\<not> ff_fill_price ff \<le> 0"
  shows "rd_pending (apply_fill now ff e) = old @ rest"
    "rd_exposure (apply_fill now ff e) = add_open_trade (live_build_trade ro (rd_next_trade_id e) (ff_fill_price ff) (ff_filled_size ff) now ''live'')
       (ro_market_end_time ro) (rd_exposure e)"
    "rd_bankroll (apply_fill now ff e) = (if ff_filled_size ff * ff_fill_price ff < ro_reserved_cost ro
       then release_reserved_for_strategy (ro_reserved_cost ro - ff_filled_size ff * ff_fill_price ff) (ro_strategy ro) (rd_bankroll e)
       else rd_bankroll e)"
proof -
  have "position (\<lambda>x. ro_signal_id x = ro_signal_id ro) (old @ ro # rest) = Some (length old)"
    using assms(2) by (induction old) auto
  then have "remove_pending_order (ff_signal_id ff) e = (Some ro, e\<lparr>rd_pending := old @ rest\<rparr>)"
    by (simp add: remove_pending_order_def assms(1,3))
  then show "rd_pending (apply_fill now ff e) = old @ rest"
    "rd_exposure (apply_fill now ff e) = add_open_trade (live_build_trade ro (rd_next_trade_id e) (ff_fill_price ff) (ff_filled_size ff) now ''live'')
       (ro_market_end_time ro) (rd_exposure e)"
    "rd_bankroll (apply_fill now ff e) = (if ff_filled_size ff * ff_fill_price ff < ro_reserved_cost ro
       then release_reserved_for_strategy (ro_reserved_cost ro - ff_filled_size ff * ff_fill_price ff) (ro_strategy ro) (rd_bankroll e)
       else rd_bankroll e)"
    using assms(4,5) by (auto simp: apply_fill_def Let_def allocate_trade_id_def live_record_fill_def)
qed

end
