(* ===== verification/LiveInstances.thy ===== *)
theory LiveInstances
  imports CycleInstances LiveDecisionFacts
begin

section \<open>A concrete live engine\<close>

text \<open>The orders, the position and the calm snapshot of the other instances, in the memory of the decision engine.\<close>

definition demo_runtime_order :: runtime_order where
  "demo_runtime_order = live_single_order demo_signal 1 demo_window 1250 (f64_lit 0.5) (f64_lit 0.5) (f64_lit 128)"

definition demo_late_runtime_order :: runtime_order where
  "demo_late_runtime_order = demo_runtime_order\<lparr>ro_signal_id := 2, ro_side := Down, ro_arrival_ts := 9000\<rparr>"

lemma demo_orders_match: "[demo_order, demo_late_order] = map order_of [demo_runtime_order, demo_late_runtime_order]"
  by (simp add: demo_order_def demo_late_order_def demo_runtime_order_def demo_late_runtime_order_def single_order_def
      live_single_order_def order_of_def arrival_of_def token_id_for_signal_def window_token_def demo_signal_def demo_window_def
      saturating_add_def)

definition demo_seed :: decision_seed where
  "demo_seed = \<lparr>sd_starting_balance = f64_lit 1024, sd_current_balance = f64_lit 1024, sd_unresolved_exposures = [],
     sd_open_trades = [], sd_now_ms = 0\<rparr>"

definition demo_live :: "config \<Rightarrow> runtime_engine" where
  "demo_live c = decision_engine_new c [LatencyInst (la_new 1), SpreadInst, CalmInst] demo_seed"

definition demo_live_queue :: runtime_engine where
  "demo_live_queue = (demo_live demo)\<lparr>rd_pending := [demo_runtime_order, demo_late_runtime_order], rd_bankroll := demo_bank\<rparr>"

definition demo_live_position :: runtime_engine where
  "demo_live_position = (demo_live demo_free)\<lparr>rd_exposure := add_open_trade (demo_position\<lparr>tr_id := Some (- 1)\<rparr>) 300000 [],
     rd_bankroll := demo_bank\<rparr>"

definition demo_request :: decision_request where
  "demo_request = \<lparr>rq_decision_sequence = 1, rq_ctx = demo_calm_ctx, rq_window = demo_window, rq_book_state = dc_book demo_due,
     rq_now_ms = 1300, rq_now_us = None, rq_live_trading_can_submit = True\<rparr>"

lemma demo_live_fields [simp]:
  "rd_config (demo_live c) = c" "rd_pending (demo_live c) = []" "rd_exposure (demo_live c) = []"
  "rd_next_signal_id (demo_live c) = - 1" "rd_next_trade_id (demo_live c) = - 1" "rd_stats (demo_live c) = stats_default"
  "rd_strategies (demo_live c) = [LatencyInst (la_new 1), SpreadInst, CalmInst]"
  by (simp_all add: demo_live_def decision_engine_new_def demo_seed_def exposure_from_snapshots_def)

lemma demo_due_request: "due_context_of demo_request demo = demo_due"
  by (simp add: due_context_of_def demo_request_def demo_due_def)

lemma demo_live_strategies: "\<forall>st \<in> set (rd_strategies (demo_live c)). inst_inv st"
  by (simp add: la_new_inv)

lemma demo_request_ok: "books_ok (rq_ctx demo_request)"
  using demo_cycle_facts(1) by (simp add: demo_request_def)

definition demo_live_quotes :: config where
  "demo_live_quotes = demo_quotes\<lparr>execution_mode := LiveTrading\<rparr>"

lemma demo_live_quotes: "limits_ok demo_live_quotes" "0 \<le> calm_persistence_max_fair_bias demo_live_quotes"
  "execution_mode demo_live_quotes = LiveTrading" "unat (max_open_positions demo_live_quotes) = 5"
  using demo_cycle_facts(2) demo_max_bias
  by (simp_all add: demo_live_quotes_def limits_ok_def) (simp add: demo_quotes_def)

definition demo_inputs :: "worker_input list" where
  "demo_inputs = [WorkerRequest demo_request False, WorkerMessage (WindowClosedMsg demo_window 300000) 300000 True,
     WorkerRequest demo_request True, WorkerMessage (AuthoritativeResolutionMsg demo_window Up) 301000 True,
     WorkerMessage ShutdownMsg 302000 True]"

lemma positive_lits: "\<not> f64_lit 64 \<le> 0" "\<not> f64_lit (1 / 2) \<le> 0"
  by (simp_all add: lit_eval del: lit_0 lit_1)

lemma demo_inputs_ok: "list_all (input_ok c) demo_inputs" "times_ok 0 1300 demo_inputs"
  using demo_request_ok by (simp_all add: demo_inputs_def, simp add: demo_request_def)

subsection \<open>A calm order for the venue\<close>

definition demo_calm_quotes :: config where
  "demo_calm_quotes = demo_live_quotes\<lparr>calm_persistence_max_position_fraction := None\<rparr>"

definition demo_calm_live :: runtime_engine where
  "demo_calm_live = (decision_engine_new demo_calm_quotes [CalmInst] demo_seed)\<lparr>rd_bankroll := demo_bank,
     rd_trend := st_new 8 False 0 False\<rparr>"

definition demo_calm_request :: decision_request where
  "demo_calm_request = demo_request\<lparr>rq_now_ms := 100000\<rparr>"

lemma demo_calm_fraction: "f64_min (1 * f64_max (mul_add (demo_confidence - f64_lit 0.5) (f64_lit 2.5) 0) 0) 1 = 1"
  by code_simp

lemma demo_calm_thresholds:
  "calm_persistence_distance_vol_ratio_threshold demo_calm_quotes = calm_persistence_distance_vol_ratio_threshold demo_quotes"
  "calm_persistence_max_ask demo_calm_quotes = calm_persistence_max_ask demo_quotes"
  "calm_persistence_max_fair_bias demo_calm_quotes = calm_persistence_max_fair_bias demo_quotes"
  "calm_persistence_max_open_crosses_30s demo_calm_quotes = calm_persistence_max_open_crosses_30s demo_quotes"
  "calm_persistence_max_quote_churn_per_s demo_calm_quotes = calm_persistence_max_quote_churn_per_s demo_quotes"
  "calm_persistence_max_realized_vol_15s_bps demo_calm_quotes = calm_persistence_max_realized_vol_15s_bps demo_quotes"
  "calm_persistence_max_window_time_ms demo_calm_quotes = calm_persistence_max_window_time_ms demo_quotes"
  "calm_persistence_min_abs_distance_bps demo_calm_quotes = calm_persistence_min_abs_distance_bps demo_quotes"
  "calm_persistence_min_alignment_fraction demo_calm_quotes = calm_persistence_min_alignment_fraction demo_quotes"
  "calm_persistence_min_expected_edge demo_calm_quotes = calm_persistence_min_expected_edge demo_quotes"
  "calm_persistence_min_window_time_ms demo_calm_quotes = calm_persistence_min_window_time_ms demo_quotes"
  "spread_capture_max_leg_skew_ms demo_calm_quotes = spread_capture_max_leg_skew_ms demo_quotes"
  "spread_capture_max_quote_churn_per_s demo_calm_quotes = spread_capture_max_quote_churn_per_s demo_quotes"
  "spread_capture_min_ask demo_calm_quotes = spread_capture_min_ask demo_quotes"
  "spread_capture_threshold demo_calm_quotes = spread_capture_threshold demo_quotes"
  "max_book_staleness_ms demo_calm_quotes = max_book_staleness_ms demo_quotes"
  "max_quote_age_ms demo_calm_quotes = max_quote_age_ms demo_quotes"
  by (simp_all add: demo_calm_quotes_def demo_live_quotes_def)

lemma demo_calm_config:
  "calm_evaluate ctx demo_calm_quotes now = calm_evaluate ctx demo_quotes now"
  "detect_regime ctx demo_calm_quotes = detect_regime ctx demo_quotes"
  unfolding calm_evaluate_def calm_guards_def fair_bias_def quotes_are_fresh_def detect_regime_def looks_like_structural_pair_def
    looks_like_calm_regime_def demo_calm_thresholds by (rule refl)+

lemma demo_calm_fields:
  "regime_detection_enabled demo_calm_quotes" "execution_mode demo_calm_quotes = LiveTrading" "limits_ok demo_calm_quotes"
  "calm_persistence_max_ask demo_calm_quotes = f64_lit (1 / 2)" "sim_order_latency_ms demo_calm_quotes = 250"
  "max_open_positions demo_calm_quotes = 5" "min_bet_usd demo_calm_quotes = 1"
  "0 \<le> calm_persistence_max_fair_bias demo_calm_quotes"
  using demo_live_quotes by (simp_all add: demo_calm_quotes_def limits_ok_def, simp_all add: demo_live_quotes_def demo_quotes_def)

lemma demo_calm_reserve:
  "fst (reserve_capital_with_reserve_price (f64_lit (3 / 8)) (f64_lit (1 / 2)) demo_confidence ''calm-persistence'' CalmPersistence
     demo_calm_quotes 100000 demo_bank) = f64_lit 128"
  using demo_calm_fraction
  by (simp add: reserve_capital_with_reserve_price_def demo_calm_quotes_def demo_live_quotes_def demo_quotes_def demo_bankroll_defs lit_eval Let_def
      del: lit_0 lit_1 cong: weak_congs)

lemma demo_calm_engine [simp]:
  "rd_config demo_calm_live = demo_calm_quotes" "rd_pending demo_calm_live = []" "rd_exposure demo_calm_live = []"
  "rd_next_signal_id demo_calm_live = - 1" "rd_strategies demo_calm_live = [CalmInst]" "rd_bankroll demo_calm_live = demo_bank"
  by (simp_all add: demo_calm_live_def decision_engine_new_def demo_seed_def exposure_from_snapshots_def)

lemma demo_calm_ok: "request_ok demo_calm_request demo_calm_live" "ids_ok demo_calm_live"
  using demo_cycle_facts(1) demo_calm_fields(3)
  by (simp_all add: request_ok_def strategies_ok_def ids_ok_def demo_calm_request_def demo_request_def)

lemma demo_calm_free:
  "live_can_queue_single sig w b 1 now (demo_calm_live\<lparr>rd_next_signal_id := i, rd_trend := t, rd_strategies := s, rd_rejections := r\<rparr>) = None"
  by (simp add: live_can_queue_single_def demo_calm_fields queue_relevant_count_def live_duplicate_open_def Let_def)

lemma demo_calm_unsuppressed: "rd_trend demo_calm_live = st_new 8 False 0 False"
  "st_should_suppress f d (st_new 8 False 0 False) = (st_new 8 False 0 False, False)"
  by (simp_all add: demo_calm_live_def st_should_suppress_def st_new_def tt_new_def tt_should_suppress_def)

lemma demo_live_order:
  "\<exists>out e'. live_evaluate (\<lambda>_. None) render demo_calm_request demo_calm_live = Some (out, e') \<and>
     dx_live_orders out \<noteq> [] \<and> rd_pending e' \<noteq> [] \<and> rd_next_signal_id e' = - 2"
proof -
  obtain s where s: "calm_evaluate demo_calm_ctx demo_quotes 100000 = Some (Single s)" "sig_direction s = Up"
    "sig_confidence s = demo_confidence" "sig_strategy s = ''calm-persistence''" "sig_timestamp s = 100000" "sig_up_ask s = f64_lit (3 / 8)"
    using demo_calm by blast
  let ?s = "annotate_signal Calm CalmPersistence s"
  have a: "sig_confidence ?s = demo_confidence" "sig_timestamp ?s = 100000" using s by (simp_all add: annotate_signal_def)
  have q: "rq_ctx demo_calm_request = demo_calm_ctx" "rq_now_ms demo_calm_request = 100000" "rq_window demo_calm_request = demo_window"
    "rq_live_trading_can_submit demo_calm_request"
    by (simp_all add: demo_calm_request_def demo_request_def)
  have cb: "cb_can_trade (rd_breaker demo_calm_live) 100000"
    by (simp add: demo_calm_live_def decision_engine_new_def cb_can_trade_def cb_new_def)
  have c: "live_collect_candidates (\<lambda>_. None) demo_calm_request demo_calm_live =
      Some ([\<lparr>ca_family = CalmPersistence, ca_result = Single s\<rparr>], demo_calm_live)"
    by (simp add: live_collect_candidates_def q demo_calm_config s(1))
  let ?e = "demo_calm_live\<lparr>rd_next_signal_id := - 2\<rparr>"
  have e: "(demo_calm_live\<lparr>rd_next_signal_id := - 2, rd_trend := st_new 8 False 0 False\<rparr>) = ?e"
    by (simp add: demo_calm_live_def)
  have f: "live_can_queue_single ?s demo_window False 1 100000 ?e = None"
    by (simp add: live_can_queue_single_def demo_calm_fields queue_relevant_count_def live_duplicate_open_def Let_def)
  have l: "live_single_order_limit_price ?s demo_calm_quotes = f64_lit (1 / 2)" "signal_entry_ask ?s = f64_lit (3 / 8)"
    using s demo_calm_fields(4) by (simp_all add: live_single_order_limit_price_def live_family_for_strategy_def from_strategy_name_def signal_entry_ask_def)
  obtain b1 where r: "reserve_capital_with_reserve_price (f64_lit (3 / 8)) (f64_lit (1 / 2)) demo_confidence ''calm-persistence'' CalmPersistence
      demo_calm_quotes 100000 demo_bank = (f64_lit 128, b1)"
    using demo_calm_reserve by (metis prod.collapse)
  have z: "\<not> f64_lit 128 \<le> 0" "live_submission_size_rejection (f64_lit 128) (f64_lit (3 / 8)) 0 1 = None" "mw_order_min_size demo_window = None"
    by (simp_all add: live_submission_size_rejection_def lit_eval demo_window_def del: lit_0 lit_1)
  let ?p = "\<lparr>dp_engine = ?e, dp_events = [], dp_orders = [], dp_logs = []\<rparr>"
  let ?ro = "live_single_order ?s (- 1) demo_window 100250 (f64_lit (3 / 8)) (f64_lit (1 / 2)) (f64_lit 128)"
  have "\<exists>p'. live_submit_single render demo_calm_request ?s (- 1) CalmPersistence ?p = (Queued [- 1] [live_order_intent ?ro], p') \<and>
      rd_pending (dp_engine p') = [?ro] \<and> rd_next_signal_id (dp_engine p') = - 2 \<and> rd_config (dp_engine p') = demo_calm_quotes"
    using z s(4) a by (simp add: live_submit_single_def Let_def q f l demo_calm_fields saturating_add_def r)
  then obtain p' where sub: "live_submit_single render demo_calm_request ?s (- 1) CalmPersistence ?p = (Queued [- 1] [live_order_intent ?ro], p')"
      "rd_pending (dp_engine p') = [?ro]" "rd_next_signal_id (dp_engine p') = - 2" "rd_config (dp_engine p') = demo_calm_quotes" by blast
  have h: "live_handle_candidate (\<lambda>_. None) render demo_calm_request (Some CalmPersistence) Calm \<lparr>ca_family = CalmPersistence, ca_result = Single s\<rparr>
      \<lparr>dp_engine = demo_calm_live, dp_events = [], dp_orders = [], dp_logs = []\<rparr> =
      (extend_live_orders (Queued [- 1] [live_order_intent ?ro]) p')\<lparr>dp_logs := dp_logs p' @
        [LogSingleSubmitted ''calm-persistence'' Up Calm (Queued [- 1] [live_order_intent ?ro])]\<rparr>"
    using s(2,4) sub(1,4) f
    by (simp add: live_handle_candidate_def live_handle_single_def allocate_signal_id_def i64_pred_def demo_calm_unsuppressed e q
        demo_calm_fields Let_def extend_live_orders_def submission_label_def live_order_intent_def live_single_order_def)
  show ?thesis
    using h sub(2-4) c cb q
    by (simp add: live_evaluate_def demo_calm_fields demo_calm_config demo_regime select_family_eq family_of_regime_def make_output_def Let_def
        extend_live_orders_def)
qed

end
