(* ===== verification/LiveStore.thy ===== *)
theory LiveStore
  imports LiveDecision
begin

section \<open>The tables of a live session\<close>

text \<open>
  The live part of \<^verbatim>\<open>src/bots/paint/src/db/database.rs\<close> with its tables in \<^verbatim>\<open>db/schema.rs\<close> and the operator
  controls of \<^verbatim>\<open>live_control.rs\<close>: sessions, order intents, venue orders, fills, reconciliation events, control states
  and commands, the audit log. The store of the trading core is a part of the state; its fault list and its switch for
  foreign keys serve these statements too. A table is the list of its rows in insertion order, a row the inserted struct
  with its id and the columns that only updates write. As everywhere, a NaN is stored as NULL and a failed statement or
  transaction changes no table. \<open>SUM\<close> over reals adds in an order and with a compensation of SQLite's choice, and is a
  parameter. The unique index on the intents of the orders may be missing in an old database.
\<close>

subsection \<open>Rows\<close>

record live_session =
  lse_started_at_ms :: u64
  lse_ended_at_ms :: "u64 option"
  lse_status :: string
  lse_execution_mode :: string
  lse_wallet_address :: "string option"
  lse_proxy_wallet :: "string option"
  lse_enabled_strategies_json :: string
  lse_config_fingerprint :: string
  lse_cash_cap_usd :: f64
  lse_details_json :: "string option"

record live_intent =
  loi_session_id :: i64
  loi_signal_id :: "i64 option"
  loi_market_id :: string
  loi_strategy :: string
  loi_side :: string
  loi_order_type :: string
  loi_status :: string
  loi_created_at_ms :: u64
  loi_requested_price :: "f64 option"
  loi_requested_size :: "f64 option"
  loi_limit_price :: "f64 option"
  loi_fee_schedule_json :: "string option"
  loi_token_fee_rates_json :: "string option"
  loi_execution_group_id :: "string option"
  loi_details_json :: "string option"

record live_order =
  lor_session_id :: i64
  lor_intent_id :: i64
  lor_venue_order_id :: "string option"
  lor_client_order_id :: "string option"
  lor_market_id :: string
  lor_token_id :: "string option"
  lor_side :: string
  lor_order_type :: string
  lor_status :: string
  lor_status_reason :: "string option"
  lor_created_at_ms :: u64
  lor_acknowledged_at_ms :: "u64 option"
  lor_updated_at_ms :: u64
  lor_requested_price :: "f64 option"
  lor_limit_price :: "f64 option"
  lor_requested_size :: "f64 option"
  lor_accepted_size :: "f64 option"
  lor_details_json :: "string option"

record live_fill =
  lfi_session_id :: i64
  lfi_intent_id :: "i64 option"
  lfi_live_order_id :: "i64 option"
  lfi_venue_trade_id :: "string option"
  lfi_filled_at_ms :: u64
  lfi_price :: f64
  lfi_size :: f64
  lfi_fee_amount :: "f64 option"
  lfi_fee_rate :: "f64 option"
  lfi_liquidity_side :: "string option"
  lfi_tx_hash :: "string option"
  lfi_status :: string
  lfi_details_json :: "string option"

record reconciliation_event =
  lre_session_id :: i64
  lre_timestamp_ms :: u64
  lre_severity :: string
  lre_event_type :: string
  lre_local_value :: "f64 option"
  lre_remote_value :: "f64 option"
  lre_details_json :: "string option"

record audit_entry =
  cau_timestamp_ms :: u64
  cau_actor :: string
  cau_action :: string
  cau_target :: "string option"
  cau_details_json :: "string option"

record control_state =
  lcs_session_id :: i64
  lcs_state :: string
  lcs_updated_at_ms :: u64
  lcs_actor :: string
  lcs_reason :: string
  lcs_details_json :: "string option"

record control_command =
  lcc_session_id :: i64
  lcc_action :: string
  lcc_actor :: string
  lcc_reason :: string
  lcc_requested_at_ms :: u64
  lcc_applied_at_ms :: "u64 option"
  lcc_status :: string
  lcc_details_json :: "string option"

text \<open>The columns \<open>venue_attempted_at_ms\<close> and \<open>onchain_reconcile_status\<close> are written by updates alone.\<close>

record intent_row =
  it_id :: i64
  it_intent :: live_intent
  it_attempted_at_ms :: "u64 option"

record order_row =
  od_id :: i64
  od_order :: live_order
  od_reconcile_status :: "string option"

record live_db =
  lv_store :: store
  lv_sessions :: "(i64 \<times> live_session) list"
  lv_session_seq :: i64
  lv_intents :: "intent_row list"
  lv_intent_seq :: i64
  lv_orders :: "order_row list"
  lv_order_seq :: i64
  lv_orders_unique :: bool
  lv_fills :: "(i64 \<times> live_fill) list"
  lv_fill_seq :: i64
  lv_reconciliation :: "(i64 \<times> reconciliation_event) list"
  lv_reconciliation_seq :: i64
  lv_audit :: "(i64 \<times> audit_entry) list"
  lv_audit_seq :: i64
  lv_states :: "(i64 \<times> control_state) list"
  lv_state_seq :: i64
  lv_commands :: "(i64 \<times> control_command) list"
  lv_command_seq :: i64

definition live_db_empty :: "bool list \<Rightarrow> live_db" where
  "live_db_empty faults = \<lparr>lv_store = db_empty faults, lv_sessions = [], lv_session_seq = 0, lv_intents = [], lv_intent_seq = 0,
     lv_orders = [], lv_order_seq = 0, lv_orders_unique = True, lv_fills = [], lv_fill_seq = 0, lv_reconciliation = [],
     lv_reconciliation_seq = 0, lv_audit = [], lv_audit_seq = 0, lv_states = [], lv_state_seq = 0, lv_commands = [],
     lv_command_seq = 0\<rparr>"

subsection \<open>Statements\<close>

text \<open>The errors of these functions: a database error, or a message of \<open>bail!\<close>.\<close>

datatype live_error = LiveDb db_error | LiveMessage string

type_synonym 'a live_result = "(live_error + 'a) \<times> live_db"

definition on_store :: "(store \<Rightarrow> (db_error + 'a) \<times> store) \<Rightarrow> live_db \<Rightarrow> 'a live_result" where
  "on_store f d = (case f (lv_store d) of
     (Inl err, s) \<Rightarrow> (Inl (LiveDb err), d\<lparr>lv_store := s\<rparr>)
   | (Inr x, s) \<Rightarrow> (Inr x, d\<lparr>lv_store := s\<rparr>))"

definition live_call :: "u64 list \<Rightarrow> (live_db \<Rightarrow> (live_error + 'a) \<times> live_db) \<Rightarrow> live_db \<Rightarrow> 'a live_result" where
  "live_call params body d = (case on_store (sql_call params (\<lambda>s. (Inr (), s))) d of
     (Inl err, d1) \<Rightarrow> (Inl err, d1)
   | (Inr u, d1) \<Rightarrow> body d1)"

text \<open>\<open>Database::open_runtime\<close> can fail and changes no table.\<close>

definition open_runtime :: "live_db \<Rightarrow> unit live_result" where
  "open_runtime = live_call [] (\<lambda>d. (Inr (), d))"

text \<open>A transaction: after an error the tables are those it began with; the statements executed stay counted.\<close>

definition live_transaction :: "(live_db \<Rightarrow> 'a live_result) \<Rightarrow> live_db \<Rightarrow> 'a live_result" where
  "live_transaction body d = (case body d of
     (Inl err, d1) \<Rightarrow> (Inl err, d\<lparr>lv_store := (lv_store d)\<lparr>db_faults := db_faults (lv_store d1)\<rparr>\<rparr>)
   | (Inr x, d1) \<Rightarrow> (Inr x, d1))"

definition session_known :: "live_db \<Rightarrow> i64 \<Rightarrow> bool" where
  "session_known d sid \<longleftrightarrow> \<not> db_foreign_keys (lv_store d) \<or> sid \<in> fst ` set (lv_sessions d)"

definition intent_known :: "live_db \<Rightarrow> i64 \<Rightarrow> bool" where
  "intent_known d iid \<longleftrightarrow> \<not> db_foreign_keys (lv_store d) \<or> iid \<in> it_id ` set (lv_intents d)"

text \<open>A row count is an \<open>i64\<close> of SQLite, cast to \<open>u64\<close>.\<close>

definition sql_count :: "nat \<Rightarrow> u64" where
  "sql_count n = of_nat (min n (2 ^ 63 - 1))"

subsection \<open>Sessions\<close>

definition insert_live_session :: "live_session \<Rightarrow> live_db \<Rightarrow> i64 live_result" where
  "insert_live_session ls = live_call (lse_started_at_ms ls # opt_params [lse_ended_at_ms ls]) (\<lambda>d.
     if is_nan (lse_cash_cap_usd ls) then (Inl (LiveDb NotNullViolation), d)
     else let new_id = lv_session_seq d + 1
       in (Inr new_id, d\<lparr>lv_sessions := lv_sessions d @ [(new_id, ls)], lv_session_seq := new_id\<rparr>))"

definition update_sessions :: "i64 \<Rightarrow> (live_session \<Rightarrow> live_session) \<Rightarrow> live_db \<Rightarrow> live_db" where
  "update_sessions sid f d = d\<lparr>lv_sessions := map (\<lambda>(i, ls). (i, if i = sid then f ls else ls)) (lv_sessions d)\<rparr>"

definition finish_live_session :: "i64 \<Rightarrow> u64 \<Rightarrow> string \<Rightarrow> string option \<Rightarrow> live_db \<Rightarrow> unit live_result" where
  "finish_live_session sid ended_at_ms status details = live_call [ended_at_ms] (\<lambda>d. (Inr (), update_sessions sid
     (\<lambda>ls. ls\<lparr>lse_ended_at_ms := Some ended_at_ms, lse_status := status,
        lse_details_json := opt_or details (lse_details_json ls)\<rparr>) d))"

definition update_live_session_metadata ::
  "i64 \<Rightarrow> string \<Rightarrow> string option \<Rightarrow> string option \<Rightarrow> string option \<Rightarrow> live_db \<Rightarrow> unit live_result" where
  "update_live_session_metadata sid status wallet proxy details = live_call [] (\<lambda>d. (Inr (), update_sessions sid
     (\<lambda>ls. ls\<lparr>lse_status := status, lse_wallet_address := opt_or wallet (lse_wallet_address ls),
        lse_proxy_wallet := opt_or proxy (lse_proxy_wallet ls), lse_details_json := details\<rparr>) d))"

text \<open>\<open>ORDER BY started_at_ms DESC, id DESC LIMIT 1\<close>; a \<open>u64\<close> in the table is below \<open>2 ^ 63\<close>.\<close>

definition latest_session :: "(i64 \<times> live_session) list \<Rightarrow> (i64 \<times> live_session) option" where
  "latest_session xs = (case sort_key (\<lambda>(i, ls). - uint (lse_started_at_ms ls)) (sort_key (\<lambda>(i, ls). - i) xs) of
     [] \<Rightarrow> None | x # _ \<Rightarrow> Some x)"

definition latest_active_live_session :: "live_db \<Rightarrow> (i64 \<times> live_session) option live_result" where
  "latest_active_live_session = live_call [] (\<lambda>d.
     (Inr (latest_session (filter (\<lambda>(i, ls). lse_ended_at_ms ls = None) (lv_sessions d))), d))"

definition latest_live_trading_session :: "live_db \<Rightarrow> (i64 \<times> live_session) option live_result" where
  "latest_live_trading_session = live_call [] (\<lambda>d.
     (Inr (latest_session (filter (\<lambda>(i, ls). lse_execution_mode ls = ''live_trading'') (lv_sessions d))), d))"

text \<open>A halted or unknown-order session, by its status or by one of its recorded states.\<close>

definition terminal_live_trading_halt_exists :: "live_db \<Rightarrow> bool live_result" where
  "terminal_live_trading_halt_exists = live_call [] (\<lambda>d. (Inr (list_ex (\<lambda>(i, ls).
     lse_execution_mode ls = ''live_trading'' \<and> (lse_status ls \<in> {''halted'', ''unknown_order''} \<or>
       list_ex (\<lambda>(j, st). lcs_session_id st = i \<and> lcs_state st \<in> {''halted'', ''unknown_order''}) (lv_states d)))
     (lv_sessions d)), d))"

subsection \<open>Intents\<close>

record live_evidence =
  lev_signal_id :: i64
  lev_signal :: signal
  lev_market_id :: string
  lev_execution_fidelity :: ReplayFidelity
  lev_order_submitted_at_ms :: "u64 option"
  lev_expected_arrival_at_ms :: "u64 option"
  lev_decision_status :: string
  lev_rejection_reason :: "string option"

text \<open>\<open>INSERT OR REPLACE\<close> under the given id; the sequence of the table follows ids above it.\<close>

definition insert_live_decision_signal_on_tx :: "live_evidence \<Rightarrow> store \<Rightarrow> (db_error + unit) \<times> store" where
  "insert_live_decision_signal_on_tx ev = (let sig = lev_signal ev in
     sql_call (sig_timestamp sig # opt_params [lev_order_submitted_at_ms ev, lev_expected_arrival_at_ms ev]) (\<lambda>s.
       let row = \<lparr>sr_id = lev_signal_id ev, sr_timestamp = sig_timestamp sig, sr_strategy = sig_strategy sig,
             sr_direction = direction_to_string (sig_direction sig),
             sr_binance_price = sql_real (sig_binance_price sig), sr_chainlink_price = sql_real (sig_chainlink_price sig),
             sr_up_ask = sql_real (sig_up_ask sig), sr_down_ask = sql_real (sig_down_ask sig),
             sr_up_bid = sql_real (sig_up_bid sig), sr_down_bid = sql_real (sig_down_bid sig),
             sr_metadata = sig_metadata sig, sr_market_id = Some (lev_market_id ev),
             sr_execution_fidelity = Some (fidelity_to_string (lev_execution_fidelity ev)),
             sr_strategy_version = sig_strategy_version sig, sr_feature_mode = sig_feature_mode sig,
             sr_order_submitted_at_ms = lev_order_submitted_at_ms ev, sr_order_arrival_at_ms = lev_expected_arrival_at_ms ev\<rparr>
       in (Inr (), s\<lparr>db_signals := filter (\<lambda>r. sr_id r \<noteq> lev_signal_id ev) (db_signals s) @ [row],
            db_signal_seq := max (db_signal_seq s) (lev_signal_id ev)\<rparr>)))"

definition signal_metric_record_from_evidence :: "live_evidence \<Rightarrow> signal_metric option" where
  "signal_metric_record_from_evidence ev = map_option (\<lambda>t.
     let submitted_ms = opt_or (lev_order_submitted_at_ms ev) (tel_order_submitted_at_ms t);
         arrival_ms = opt_or (lev_expected_arrival_at_ms ev) (tel_expected_arrival_at_ms t)
     in \<lparr>sm_signal_id = lev_signal_id ev, sm_generated_at_ms = tel_generated_at_ms t, sm_generated_at_us = tel_generated_at_us t,
       sm_order_submitted_at_ms = submitted_ms,
       sm_order_submitted_at_us = resolve_related_us (tel_generated_at_ms t) (tel_generated_at_us t) submitted_ms
         (tel_order_submitted_at_us t),
       sm_expected_arrival_at_ms = arrival_ms,
       sm_expected_arrival_at_us = resolve_related_us (tel_generated_at_ms t) (tel_generated_at_us t) arrival_ms
         (tel_expected_arrival_at_us t),
       sm_order_processed_at_ms = tel_order_processed_at_ms t, sm_order_processed_at_us = tel_order_processed_at_us t,
       sm_effective_arrival_delay_ms = tel_effective_arrival_delay_ms t, sm_binance_age_ms = tel_binance_age_ms t,
       sm_chainlink_age_ms = tel_chainlink_age_ms t, sm_clob_age_ms = tel_clob_age_ms t,
       sm_quote_age_ms = tel_quote_age_ms t, sm_book_staleness_ms = tel_book_staleness_ms t,
       sm_expected_fee = tel_expected_fee t, sm_expected_slippage = tel_expected_slippage t,
       sm_expected_edge = tel_expected_edge t, sm_available_feature_count = tel_available_feature_count t,
       sm_decision_status = lev_decision_status ev,
       sm_rejection_reason = opt_or (lev_rejection_reason ev) (tel_rejection_reason t),
       sm_features_json = tel_features_json t\<rparr>) (sig_telemetry (lev_signal ev))"

text \<open>The same statement as outside a transaction.\<close>

definition upsert_signal_metrics_on_tx :: "signal_metric \<Rightarrow> store \<Rightarrow> (db_error + unit) \<times> store" where
  "upsert_signal_metrics_on_tx r = upsert_signal_metrics r"

definition log_live_order_intent :: "live_intent \<Rightarrow> live_db \<Rightarrow> i64 live_result" where
  "log_live_order_intent li = live_call [loi_created_at_ms li] (\<lambda>d.
     if \<not> session_known d (loi_session_id li) \<or>
        (db_foreign_keys (lv_store d) \<and> is_some_and (loi_signal_id li) (\<lambda>i. i \<notin> sr_id ` set (db_signals (lv_store d))))
     then (Inl (LiveDb ForeignKeyViolation), d)
     else let new_id = lv_intent_seq d + 1;
              row = li\<lparr>loi_requested_price := sql_real_opt (loi_requested_price li),
                loi_requested_size := sql_real_opt (loi_requested_size li), loi_limit_price := sql_real_opt (loi_limit_price li)\<rparr>
       in (Inr new_id, d\<lparr>lv_intents := lv_intents d @ [\<lparr>it_id = new_id, it_intent = row, it_attempted_at_ms = None\<rparr>],
            lv_intent_seq := new_id\<rparr>))"

definition insert_live_order_intent_on_tx :: "live_intent \<Rightarrow> live_db \<Rightarrow> i64 live_result" where
  "insert_live_order_intent_on_tx li = log_live_order_intent li"

definition log_live_order_intent_with_decision_evidence :: "live_evidence \<Rightarrow> live_intent \<Rightarrow> live_db \<Rightarrow> i64 live_result" where
  "log_live_order_intent_with_decision_evidence ev li = live_transaction (\<lambda>d.
     case on_store (insert_live_decision_signal_on_tx ev) d of
       (Inl err, d1) \<Rightarrow> (Inl err, d1)
     | (Inr u, d1) \<Rightarrow>
         (case (case signal_metric_record_from_evidence ev of None \<Rightarrow> (Inr (), d1)
                | Some r \<Rightarrow> on_store (upsert_signal_metrics_on_tx r) d1) of
            (Inl err, d2) \<Rightarrow> (Inl err, d2)
          | (Inr u, d2) \<Rightarrow> insert_live_order_intent_on_tx li d2))"

definition update_intents :: "(intent_row \<Rightarrow> bool) \<Rightarrow> (intent_row \<Rightarrow> intent_row) \<Rightarrow> live_db \<Rightarrow> nat \<times> live_db" where
  "update_intents P f d = (length (filter P (lv_intents d)),
     d\<lparr>lv_intents := map (\<lambda>r. if P r then f r else r) (lv_intents d)\<rparr>)"

definition mark_intent_venue_attempted :: "i64 \<Rightarrow> u64 \<Rightarrow> live_db \<Rightarrow> bool live_result" where
  "mark_intent_venue_attempted iid now_ms = live_call [now_ms] (\<lambda>d.
     case update_intents (\<lambda>r. it_id r = iid \<and> it_attempted_at_ms r = None) (\<lambda>r. r\<lparr>it_attempted_at_ms := Some now_ms\<rparr>) d of
       (n, d1) \<Rightarrow> (Inr (n = 1), d1))"

datatype venue_attempt = Reserved | AlreadyAttempted | CapReached

definition attempted_in_session :: "i64 \<Rightarrow> live_db \<Rightarrow> intent_row list" where
  "attempted_in_session sid d = filter (\<lambda>r. loi_session_id (it_intent r) = sid \<and> it_attempted_at_ms r \<noteq> None) (lv_intents d)"

definition filled_row :: "order_row \<Rightarrow> bool" where
  "filled_row r = is_some_and (lor_accepted_size (od_order r)) (\<lambda>x. 0 < x)"

definition fills_in_session :: "i64 \<Rightarrow> live_db \<Rightarrow> order_row list" where
  "fills_in_session sid d = filter (\<lambda>r. lor_session_id (od_order r) = sid \<and> filled_row r) (lv_orders d)"

definition try_reserve_venue_attempt :: "i64 \<Rightarrow> u64 \<Rightarrow> i64 \<Rightarrow> u32 \<Rightarrow> u32 \<Rightarrow> live_db \<Rightarrow> venue_attempt live_result" where
  "try_reserve_venue_attempt iid now_ms sid max_orders max_fills d0 =
     (case live_call [now_ms] (\<lambda>d. case update_intents (\<lambda>r. it_id r = iid \<and> loi_session_id (it_intent r) = sid \<and>
            it_attempted_at_ms r = None \<and>
            (max_orders = 0 \<or> length (attempted_in_session sid d) < unat max_orders) \<and>
            (max_fills = 0 \<or> length (fills_in_session sid d) < unat max_fills)) (\<lambda>r. r\<lparr>it_attempted_at_ms := Some now_ms\<rparr>) d of
          (n, d1) \<Rightarrow> (Inr n, d1)) d0 of
       (Inl err, d1) \<Rightarrow> (Inl err, d1)
     | (Inr n, d1) \<Rightarrow>
         if n = 1 then (Inr Reserved, d1)
         else live_call [] (\<lambda>d. (Inr (if list_ex (\<lambda>r. it_id r = iid \<and> it_attempted_at_ms r \<noteq> None) (lv_intents d)
           then AlreadyAttempted else CapReached), d)) d1)"

definition session_venue_attempted_count :: "i64 \<Rightarrow> live_db \<Rightarrow> u64 live_result" where
  "session_venue_attempted_count sid = live_call [] (\<lambda>d. (Inr (sql_count (length (attempted_in_session sid d))), d))"

definition mark_intent_status :: "string \<Rightarrow> string \<Rightarrow> i64 \<Rightarrow> live_db \<Rightarrow> unit live_result" where
  "mark_intent_status status label iid = live_call [] (\<lambda>d.
     case update_intents (\<lambda>r. it_id r = iid) (\<lambda>r. r\<lparr>it_intent := (it_intent r)\<lparr>loi_status := status\<rparr>\<rparr>) d of
       (n, d1) \<Rightarrow> (if n = 1 then Inr () else Inl (LiveMessage (''expected to mark exactly one intent '' @ label @ '', updated '' @
         nat_to_string n @ '' for id '' @ int_to_string iid)), d1))"

definition mark_live_order_intent_dry_run :: "i64 \<Rightarrow> live_db \<Rightarrow> unit live_result" where
  "mark_live_order_intent_dry_run = mark_intent_status ''dry_run'' ''dry-run''"

definition mark_live_order_intent_submitting :: "i64 \<Rightarrow> live_db \<Rightarrow> unit live_result" where
  "mark_live_order_intent_submitting = mark_intent_status ''submitting'' ''submitting''"

definition orphaned_venue_attempt_count :: "live_db \<Rightarrow> u64 live_result" where
  "orphaned_venue_attempt_count = live_call [] (\<lambda>d. (Inr (sql_count (length (filter (\<lambda>r.
     loi_status (it_intent r) = ''submitting'' \<and> \<not> list_ex (\<lambda>od. lor_intent_id (od_order od) = it_id r) (lv_orders d))
     (lv_intents d)))), d))"

subsection \<open>Venue orders and fills\<close>

definition log_live_order :: "live_order \<Rightarrow> live_db \<Rightarrow> i64 live_result" where
  "log_live_order lo = live_call (lor_created_at_ms lo # lor_updated_at_ms lo # opt_params [lor_acknowledged_at_ms lo]) (\<lambda>d.
     if \<not> session_known d (lor_session_id lo) \<or> \<not> intent_known d (lor_intent_id lo)
     then (Inl (LiveDb ForeignKeyViolation), d)
     else if lv_orders_unique d \<and> list_ex (\<lambda>r. lor_intent_id (od_order r) = lor_intent_id lo) (lv_orders d)
     then (Inl (LiveDb UniqueViolation), d)
     else let new_id = lv_order_seq d + 1;
              row = lo\<lparr>lor_requested_price := sql_real_opt (lor_requested_price lo),
                lor_limit_price := sql_real_opt (lor_limit_price lo), lor_requested_size := sql_real_opt (lor_requested_size lo),
                lor_accepted_size := sql_real_opt (lor_accepted_size lo)\<rparr>
       in (Inr new_id, d\<lparr>lv_orders := lv_orders d @ [\<lparr>od_id = new_id, od_order = row, od_reconcile_status = None\<rparr>],
            lv_order_seq := new_id\<rparr>))"

definition update_orders :: "i64 \<Rightarrow> (order_row \<Rightarrow> order_row) \<Rightarrow> live_db \<Rightarrow> nat \<times> live_db" where
  "update_orders oid f d = (length (filter (\<lambda>r. od_id r = oid) (lv_orders d)),
     d\<lparr>lv_orders := map (\<lambda>r. if od_id r = oid then f r else r) (lv_orders d)\<rparr>)"

record order_status_update =
  osu_status :: string
  osu_status_reason :: "string option"
  osu_acknowledged_at_ms :: "u64 option"
  osu_updated_at_ms :: u64
  osu_accepted_size :: "f64 option"
  osu_details_json :: "string option"

definition update_live_order_status :: "i64 \<Rightarrow> order_status_update \<Rightarrow> live_db \<Rightarrow> unit live_result" where
  "update_live_order_status oid u = live_call (osu_updated_at_ms u # opt_params [osu_acknowledged_at_ms u]) (\<lambda>d.
     (Inr (), snd (update_orders oid (\<lambda>r. let lo = od_order r in r\<lparr>od_order := lo\<lparr>lor_status := osu_status u,
        lor_status_reason := osu_status_reason u,
        lor_acknowledged_at_ms := opt_or (osu_acknowledged_at_ms u) (lor_acknowledged_at_ms lo),
        lor_updated_at_ms := osu_updated_at_ms u,
        lor_accepted_size := opt_or (sql_real_opt (osu_accepted_size u)) (lor_accepted_size lo),
        lor_details_json := opt_or (osu_details_json u) (lor_details_json lo)\<rparr>\<rparr>) d)))"

text \<open>The two columns exist in the model, so the schema is ready when the index is.\<close>

definition live_order_idempotency_ready :: "live_db \<Rightarrow> bool live_result" where
  "live_order_idempotency_ready = live_call [] (\<lambda>d. (Inr (lv_orders_unique d), d))"

definition live_order_count :: "live_db \<Rightarrow> u64 live_result" where
  "live_order_count = live_call [] (\<lambda>d. (Inr (sql_count (length (lv_orders d))), d))"

record existing_order =
  eo_id :: i64
  eo_status :: string
  eo_venue_order_id :: "string option"

text \<open>\<open>LIMIT 1\<close> without an order: the first row, which is the only one when the index exists.\<close>

definition find_live_order_by_intent :: "i64 \<Rightarrow> live_db \<Rightarrow> existing_order option live_result" where
  "find_live_order_by_intent iid = live_call [] (\<lambda>d. (Inr (map_option (\<lambda>r. \<lparr>eo_id = od_id r, eo_status = lor_status (od_order r),
     eo_venue_order_id = lor_venue_order_id (od_order r)\<rparr>) (find (\<lambda>r. lor_intent_id (od_order r) = iid) (lv_orders d))), d))"

definition set_live_order_reconcile_status :: "i64 \<Rightarrow> string \<Rightarrow> live_db \<Rightarrow> unit live_result" where
  "set_live_order_reconcile_status oid status = live_call [] (\<lambda>d.
     case update_orders oid (\<lambda>r. r\<lparr>od_reconcile_status := Some status\<rparr>) d of
       (n, d1) \<Rightarrow> (if n = 1 then Inr () else Inl (LiveMessage (''set reconcile status '' @ status @ '' updated '' @ nat_to_string n @
         '' rows for live order '' @ int_to_string oid @ '' (expected 1)'')), d1))"

definition unconfirmed_onchain_fill_count :: "bool \<Rightarrow> live_db \<Rightarrow> u64 live_result" where
  "unconfirmed_onchain_fill_count include_unmarked = live_call [] (\<lambda>d. (Inr (sql_count (length (filter (\<lambda>r. filled_row r \<and>
     (if include_unmarked then unwrap_or (od_reconcile_status r) [] \<noteq> ''confirmed''
      else od_reconcile_status r = Some ''pending'' \<or> od_reconcile_status r = Some ''failed'')) (lv_orders d)))), d))"

definition matched_size_for_token_up_to_order ::
  "(f64 list \<Rightarrow> f64) \<Rightarrow> i64 \<Rightarrow> string \<Rightarrow> i64 \<Rightarrow> live_db \<Rightarrow> f64 live_result" where
  "matched_size_for_token_up_to_order sum_real sid token_id oid = live_call [] (\<lambda>d.
     let created = map_option (\<lambda>r. lor_created_at_ms (od_order r)) (find (\<lambda>r. od_id r = oid) (lv_orders d));
         rows = filter (\<lambda>r. lor_session_id (od_order r) = sid \<and> lor_token_id (od_order r) = Some token_id \<and> filled_row r \<and>
           is_some_and created (\<lambda>c. lor_created_at_ms (od_order r) < c \<or> (lor_created_at_ms (od_order r) = c \<and> od_id r \<le> oid)))
           (lv_orders d)
     in (Inr (if rows = [] then 0 else sum_real (map (\<lambda>r. the (lor_accepted_size (od_order r))) rows)), d))"

definition log_live_fill :: "live_fill \<Rightarrow> live_db \<Rightarrow> i64 live_result" where
  "log_live_fill lf = live_call [lfi_filled_at_ms lf] (\<lambda>d.
     if is_nan (lfi_price lf) \<or> is_nan (lfi_size lf) then (Inl (LiveDb NotNullViolation), d)
     else if \<not> session_known d (lfi_session_id lf) \<or> \<not> is_none_or (lfi_intent_id lf) (intent_known d) \<or>
       (db_foreign_keys (lv_store d) \<and> is_some_and (lfi_live_order_id lf) (\<lambda>i. i \<notin> od_id ` set (lv_orders d)))
     then (Inl (LiveDb ForeignKeyViolation), d)
     else let new_id = lv_fill_seq d + 1;
              row = lf\<lparr>lfi_fee_amount := sql_real_opt (lfi_fee_amount lf), lfi_fee_rate := sql_real_opt (lfi_fee_rate lf)\<rparr>
       in (Inr new_id, d\<lparr>lv_fills := lv_fills d @ [(new_id, row)], lv_fill_seq := new_id\<rparr>))"

definition live_fill_exists :: "i64 \<Rightarrow> string \<Rightarrow> live_db \<Rightarrow> bool live_result" where
  "live_fill_exists sid trade_id = live_call [] (\<lambda>d.
     (Inr (list_ex (\<lambda>(i, lf). lfi_session_id lf = sid \<and> lfi_venue_trade_id lf = Some trade_id) (lv_fills d)), d))"

subsection \<open>Reconciliation, audit and control\<close>

definition log_live_reconciliation_event :: "reconciliation_event \<Rightarrow> live_db \<Rightarrow> i64 live_result" where
  "log_live_reconciliation_event re = live_call [lre_timestamp_ms re] (\<lambda>d.
     if \<not> session_known d (lre_session_id re) then (Inl (LiveDb ForeignKeyViolation), d)
     else let new_id = lv_reconciliation_seq d + 1;
              row = re\<lparr>lre_local_value := sql_real_opt (lre_local_value re), lre_remote_value := sql_real_opt (lre_remote_value re)\<rparr>
       in (Inr new_id, d\<lparr>lv_reconciliation := lv_reconciliation d @ [(new_id, row)], lv_reconciliation_seq := new_id\<rparr>))"

definition critical_live_reconciliation_count :: "i64 \<Rightarrow> live_db \<Rightarrow> u64 live_result" where
  "critical_live_reconciliation_count sid = live_call [] (\<lambda>d. (Inr (sql_count (length (filter (\<lambda>(i, re).
     lre_session_id re = sid \<and> lre_severity re = ''critical'' \<and> lre_event_type re \<noteq> ''user_stream_unhealthy'')
     (lv_reconciliation d)))), d))"

definition log_control_audit :: "audit_entry \<Rightarrow> live_db \<Rightarrow> i64 live_result" where
  "log_control_audit ae = live_call [cau_timestamp_ms ae] (\<lambda>d. let new_id = lv_audit_seq d + 1 in
     (Inr new_id, d\<lparr>lv_audit := lv_audit d @ [(new_id, ae)], lv_audit_seq := new_id\<rparr>))"

definition insert_live_control_state :: "control_state \<Rightarrow> live_db \<Rightarrow> i64 live_result" where
  "insert_live_control_state cs = live_call [lcs_updated_at_ms cs] (\<lambda>d.
     if \<not> session_known d (lcs_session_id cs) then (Inl (LiveDb ForeignKeyViolation), d)
     else let new_id = lv_state_seq d + 1
       in (Inr new_id, d\<lparr>lv_states := lv_states d @ [(new_id, cs)], lv_state_seq := new_id\<rparr>))"

definition latest_live_control_state :: "i64 \<Rightarrow> live_db \<Rightarrow> (i64 \<times> control_state) option live_result" where
  "latest_live_control_state sid = live_call [] (\<lambda>d. (Inr (case sort_key (\<lambda>(i, cs). - uint (lcs_updated_at_ms cs))
       (sort_key (\<lambda>(i, cs). - i) (filter (\<lambda>(i, cs). lcs_session_id cs = sid) (lv_states d))) of
     [] \<Rightarrow> None | x # _ \<Rightarrow> Some x), d))"

definition insert_live_control_command :: "control_command \<Rightarrow> live_db \<Rightarrow> i64 live_result" where
  "insert_live_control_command cc = live_call (lcc_requested_at_ms cc # opt_params [lcc_applied_at_ms cc]) (\<lambda>d.
     if \<not> session_known d (lcc_session_id cc) then (Inl (LiveDb ForeignKeyViolation), d)
     else let new_id = lv_command_seq d + 1
       in (Inr new_id, d\<lparr>lv_commands := lv_commands d @ [(new_id, cc)], lv_command_seq := new_id\<rparr>))"

definition pending_live_control_commands :: "i64 \<Rightarrow> live_db \<Rightarrow> (i64 \<times> control_command) list live_result" where
  "pending_live_control_commands sid = live_call [] (\<lambda>d. (Inr (sort_key (\<lambda>(i, cc). uint (lcc_requested_at_ms cc))
     (sort_key fst (filter (\<lambda>(i, cc). lcc_session_id cc = sid \<and> lcc_status cc = ''pending'') (lv_commands d)))), d))"

definition update_live_control_command_status :: "i64 \<Rightarrow> u64 \<Rightarrow> string \<Rightarrow> string option \<Rightarrow> live_db \<Rightarrow> unit live_result" where
  "update_live_control_command_status cid applied_at_ms status details = live_call [applied_at_ms] (\<lambda>d.
     (Inr (), d\<lparr>lv_commands := map (\<lambda>(i, cc). (i, if i = cid then cc\<lparr>lcc_applied_at_ms := Some applied_at_ms, lcc_status := status,
        lcc_details_json := opt_or details (lcc_details_json cc)\<rparr> else cc)) (lv_commands d)\<rparr>))"

end
