(* ===== verification/LiveSubmission.thy ===== *)
theory LiveSubmission
  imports LiveStore SignalFeatures
begin

section \<open>Submitting live orders to the venue\<close>

text \<open>
  The submission worker of \<^verbatim>\<open>src/bots/paint/src/live.rs\<close> (lines 387 to 1580), which takes the orders the decision engine
  hands out, and the state transitions of \<^verbatim>\<open>live_control.rs\<close>. The venue is reached through a sidecar process: its
  answers are arguments of the model and may depend on every earlier call; the calls made are recorded. So are the detached
  verifications of fills that the worker starts. The worker is the only writer between two of its statements. The text of
  errors and of rendered JSON, the JSON parser and the decimal parser are arguments too.
\<close>

subsection \<open>Messages\<close>

text \<open>\<^verbatim>\<open>src/bots/paint/src/live_sidecar.rs\<close>.\<close>

record order_request =
  orq_session_id :: i64
  orq_intent_id :: i64
  orq_market_id :: string
  orq_token_id :: string
  orq_side :: string
  orq_order_type :: string
  orq_limit_price :: f64
  orq_size :: f64
  orq_amount_usd :: "f64 option"
  orq_client_order_id :: string
  orq_details_json :: "string option"

record order_response =
  ors_ok :: bool
  ors_venue_order_id :: "string option"
  ors_client_order_id :: string
  ors_status :: string
  ors_status_reason :: "string option"
  ors_accepted_size :: "f64 option"
  ors_details_json :: "string option"

record cancellation_response =
  crs_ok :: bool
  crs_cancelled :: u64
  crs_details_json :: "string option"

record onchain_position =
  ocp_token_id :: string
  ocp_account :: string
  ocp_balance_raw :: string
  ocp_collateral_decimals :: u32

record submission_request =
  smr_window :: market_window
  smr_orders :: "queued_intent list"
  smr_critical_events :: "live_event list"
  smr_now_ms :: u64

record submission_state_update =
  smu_state :: string
  smu_reason :: string

record submission_feedback =
  smf_state_update :: "submission_state_update option"
  smf_releases :: "(string \<times> f64) list"
  smf_fills :: "fill_feedback list"
  smf_rejected_signal_ids :: "i64 list"
  smf_now_ms :: u64

datatype order_result =
    OrderFilled f64 f64 i64
  | OrderRejected f64
  | OrderBlocked string string "f64 option"
  | OrderDryRun f64

record onchain_verification =
  ocv_session_id :: i64
  ocv_token_id :: string
  ocv_market_id :: string
  ocv_signal_id :: i64
  ocv_live_order_id :: i64
  ocv_grace_ms :: u64
  ocv_interval_ms :: u64
  ocv_attempts :: u32
  ocv_accepted_size :: f64

text \<open>What is outside of the code: the sidecar, the texts and the parsers.\<close>

record venue_env =
  vn_submit :: "order_request list \<Rightarrow> order_request \<Rightarrow> string + order_response"
  vn_cancel_all :: "order_request list \<Rightarrow> string + cancellation_response"
  vn_render :: "json \<Rightarrow> string"
  vn_show_error :: "live_error \<Rightarrow> string"
  vn_parse_json :: "string \<Rightarrow> json option"
  vn_parse_real :: "string \<Rightarrow> f64 option"

record venue_world =
  vw_db :: live_db
  vw_calls :: "order_request list"
  vw_verifications :: "onchain_verification list"

definition onchain_reconcile_enabled :: "config \<Rightarrow> bool" where
  "onchain_reconcile_enabled c \<longleftrightarrow> is_live_execution c \<and> live_onchain_reconcile c"

subsection \<open>Control states\<close>

definition validate_operator_text :: "string \<Rightarrow> string \<Rightarrow> live_error + unit" where
  "validate_operator_text field v =
     (if str_trim v = [] then Inl (LiveMessage (field @ '' must not be empty'')) else Inr ())"

definition record_live_control_state ::
  "(json \<Rightarrow> string) \<Rightarrow> i64 \<Rightarrow> string \<Rightarrow> string \<Rightarrow> string \<Rightarrow> u64 \<Rightarrow> string option \<Rightarrow> live_db \<Rightarrow> i64 live_result" where
  "record_live_control_state render sid state actor reason now_ms details d =
     (case validate_operator_text ''actor'' actor of Inl err \<Rightarrow> (Inl err, d) | Inr u \<Rightarrow>
     (case validate_operator_text ''reason'' reason of Inl err \<Rightarrow> (Inl err, d) | Inr u \<Rightarrow>
     (case validate_operator_text ''state'' state of Inl err \<Rightarrow> (Inl err, d) | Inr u \<Rightarrow>
     (case insert_live_control_state \<lparr>lcs_session_id = sid, lcs_state = state, lcs_updated_at_ms = now_ms, lcs_actor = actor,
         lcs_reason = reason, lcs_details_json = details\<rparr> d of
        (Inl err, d1) \<Rightarrow> (Inl err, d1)
      | (Inr state_id, d1) \<Rightarrow>
         (case log_control_audit \<lparr>cau_timestamp_ms = now_ms, cau_actor = actor, cau_action = ''live_control_state_changed'',
             cau_target = Some (''live_control_state:'' @ int_to_string state_id),
             cau_details_json = Some (render (JObj [(''session_id'', JInt sid), (''state'', JStr state), (''reason'', JStr reason),
               (''details'', json_opt JStr details)]))\<rparr> d1 of
            (Inl err, d2) \<Rightarrow> (Inl err, d2)
          | (Inr u, d2) \<Rightarrow> (Inr state_id, d2))))))"

definition persist_live_worker_state ::
  "(json \<Rightarrow> string) \<Rightarrow> i64 \<Rightarrow> string \<Rightarrow> string \<Rightarrow> string \<Rightarrow> u64 \<Rightarrow> string option \<Rightarrow> live_db \<Rightarrow> unit live_result" where
  "persist_live_worker_state render sid state actor reason now_ms details d =
     (case open_runtime d of (Inl err, d1) \<Rightarrow> (Inl err, d1) | (Inr u, d1) \<Rightarrow>
     (case record_live_control_state render sid state actor reason now_ms details d1 of
        (Inl err, d2) \<Rightarrow> (Inl err, d2)
      | (Inr i, d2) \<Rightarrow> update_live_session_metadata sid state None None details d2))"

subsection \<open>Before the venue call\<close>

definition CASH_CHANGE_EPSILON_USD :: f64 where
  "CASH_CHANGE_EPSILON_USD = f64_lit 0.01"

definition live_order_pre_submit_rejection :: "queued_intent \<Rightarrow> f64 \<Rightarrow> config \<Rightarrow> string \<times> string option" where
  "live_order_pre_submit_rejection qi notional c =
     (if qi_requested_price qi \<le> 0 \<or> qi_requested_size qi \<le> 0 \<or> qi_limit_price qi \<le> 0
      then (''rejected_before_submit'', Some ''invalid_price_or_size'')
      else if notional + CASH_CHANGE_EPSILON_USD < min_bet_usd c then (''rejected_before_submit'', Some ''below_min_bet'')
      else if live_max_single_order_usd c + CASH_CHANGE_EPSILON_USD < notional
      then (''rejected_before_submit'', Some ''above_live_max_single_order'')
      else (''submitted'', None))"

fun is_signal_event :: "i64 \<Rightarrow> live_event \<Rightarrow> bool" where
  "is_signal_event sid (EvSignal i sig m fid submitted arrival status reason) \<longleftrightarrow> i = sid"
| "is_signal_event sid ev \<longleftrightarrow> False"

definition critical_signal_event_for_order :: "live_event list \<Rightarrow> i64 \<Rightarrow> live_event option" where
  "critical_signal_event_for_order evs sid = find (is_signal_event sid) evs"

definition live_decision_evidence_from_event :: "live_event option \<Rightarrow> i64 \<Rightarrow> live_error + live_evidence" where
  "live_decision_evidence_from_event ev expected = (case ev of
     Some (EvSignal i sig m fid submitted arrival status reason) \<Rightarrow>
       if i \<noteq> expected
       then Inl (LiveMessage (''critical decision evidence signal id mismatch for signal_id='' @ int_to_string expected))
       else Inr \<lparr>lev_signal_id = i, lev_signal = sig, lev_market_id = m, lev_execution_fidelity = fid,
         lev_order_submitted_at_ms = submitted, lev_expected_arrival_at_ms = arrival, lev_decision_status = status,
         lev_rejection_reason = reason\<rparr>
   | _ \<Rightarrow> Inl (LiveMessage (''missing critical decision evidence for signal_id='' @ int_to_string expected)))"

definition live_intent_of ::
  "(json \<Rightarrow> string) \<Rightarrow> i64 \<Rightarrow> market_window \<Rightarrow> queued_intent \<Rightarrow> u64 \<Rightarrow> f64 \<Rightarrow> string \<Rightarrow> string option \<Rightarrow> live_intent" where
  "live_intent_of render sid w qi now_ms notional status reject_reason = \<lparr>loi_session_id = sid,
     loi_signal_id = Some (qi_signal_id qi), loi_market_id = qi_market_id qi, loi_strategy = qi_strategy qi,
     loi_side = direction_to_string (qi_side qi), loi_order_type = ''FOK'', loi_status = status, loi_created_at_ms = now_ms,
     loi_requested_price = Some (qi_requested_price qi), loi_requested_size = Some (qi_requested_size qi),
     loi_limit_price = Some (qi_limit_price qi), loi_fee_schedule_json = mw_fee_schedule_json w,
     loi_token_fee_rates_json = mw_token_fee_rates_json w, loi_execution_group_id = qi_execution_group_id qi,
     loi_details_json = Some (render (JObj [(''signal_timestamp'', json_u64 (qi_signal_timestamp qi)),
       (''arrival_ts'', json_u64 (qi_arrival_ts qi)),
       (''execution_fidelity'', JStr (fidelity_to_string (qi_execution_fidelity qi))),
       (''amount_usd'', json_f64 notional), (''reject_reason'', json_opt JStr reject_reason)]))\<rparr>"

definition persist_live_order_intent ::
  "(json \<Rightarrow> string) \<Rightarrow> config \<Rightarrow> i64 \<Rightarrow> market_window \<Rightarrow> queued_intent \<Rightarrow> live_event option \<Rightarrow> u64 \<Rightarrow> f64 \<Rightarrow> live_db \<Rightarrow>
     (i64 \<times> string option) live_result" where
  "persist_live_order_intent render c sid w qi ev now_ms notional d =
     (case live_order_pre_submit_rejection qi notional c of (status, reject_reason) \<Rightarrow>
     (case open_runtime d of (Inl err, d1) \<Rightarrow> (Inl err, d1) | (Inr u, d1) \<Rightarrow>
     (case live_decision_evidence_from_event ev (qi_signal_id qi) of Inl err \<Rightarrow> (Inl err, d1) | Inr evidence \<Rightarrow>
     (case log_live_order_intent_with_decision_evidence evidence
             (live_intent_of render sid w qi now_ms notional status reject_reason) d1 of
        (Inl err, d2) \<Rightarrow> (Inl err, d2)
      | (Inr iid, d2) \<Rightarrow> (Inr (iid, reject_reason), d2)))))"

definition build_live_order_request :: "(json \<Rightarrow> string) \<Rightarrow> i64 \<Rightarrow> i64 \<Rightarrow> queued_intent \<Rightarrow> f64 \<Rightarrow> order_request" where
  "build_live_order_request render sid iid qi notional = \<lparr>orq_session_id = sid, orq_intent_id = iid,
     orq_market_id = qi_market_id qi, orq_token_id = qi_token_id qi, orq_side = ''BUY'', orq_order_type = ''FOK'',
     orq_limit_price = qi_limit_price qi, orq_size = qi_requested_size qi, orq_amount_usd = Some notional,
     orq_client_order_id = ''buba-live-'' @ int_to_string sid @ ''-'' @ int_to_string iid,
     orq_details_json = Some (render (JObj [(''strategy'', JStr (qi_strategy qi)), (''signal_id'', JInt (qi_signal_id qi)),
       (''execution_group_id'', json_opt JStr (qi_execution_group_id qi))]))\<rparr>"

definition block_live_response_with_state ::
  "(json \<Rightarrow> string) \<Rightarrow> i64 \<Rightarrow> u64 \<Rightarrow> string \<Rightarrow> string option \<Rightarrow> f64 option \<Rightarrow> live_db \<Rightarrow> order_result \<times> live_db" where
  "block_live_response_with_state render sid now_ms reason details release d =
     (OrderBlocked ''unknown_order'' reason release,
      snd (persist_live_worker_state render sid ''unknown_order'' ''system'' reason now_ms details d))"

definition reserve_live_order_submission ::
  "venue_env \<Rightarrow> i64 \<Rightarrow> i64 \<Rightarrow> u64 \<Rightarrow> u32 \<Rightarrow> u32 \<Rightarrow> f64 \<Rightarrow> live_db \<Rightarrow> (order_result + unit) \<times> live_db" where
  "reserve_live_order_submission env sid iid now_ms max_orders max_fills reserved_cost d =
     (let block = (\<lambda>reason details d. case block_live_response_with_state (vn_render env) sid now_ms reason details None d of
            (r, d1) \<Rightarrow> (Inl r, d1));
          fail = (\<lambda>what err. Inl (OrderBlocked ''unknown_order'' (what @ vn_show_error env err) None))
      in case open_runtime d of
        (Inl err, d1) \<Rightarrow> (fail ''failed to open database for submission idempotency check: '' err, d1)
      | (Inr u, d1) \<Rightarrow> (case find_live_order_by_intent iid d1 of
          (Inl err, d2) \<Rightarrow> (fail ''failed to check existing live order for idempotency: '' err, d2)
        | (Inr (Some eo), d2) \<Rightarrow> block ''intent already has a live order; reconcile before any retry''
            (Some (vn_render env (JObj [(''intent_id'', JInt iid), (''existing_status'', JStr (eo_status eo))]))) d2
        | (Inr None, d2) \<Rightarrow> (case try_reserve_venue_attempt iid now_ms sid max_orders max_fills d2 of
            (Inr Reserved, d3) \<Rightarrow> (Inr (), d3)
          | (Inr AlreadyAttempted, d3) \<Rightarrow> block ''intent already attempted venue submission; reconcile before any retry''
              (Some (vn_render env (JObj [(''intent_id'', JInt iid)]))) d3
          | (Inr CapReached, d3) \<Rightarrow> (Inl (OrderRejected reserved_cost), d3)
          | (Inl err, d3) \<Rightarrow> (fail ''failed to reserve venue attempt: '' err, d3))))"

definition side_debug :: "SignalDirection \<Rightarrow> string" where
  "side_debug side = (case side of Up \<Rightarrow> ''Up'' | Down \<Rightarrow> ''Down'')"

definition dry_run_live_order_outcome ::
  "(json \<Rightarrow> string) \<Rightarrow> i64 \<Rightarrow> i64 \<Rightarrow> queued_intent \<Rightarrow> order_request \<Rightarrow> u64 \<Rightarrow> live_db \<Rightarrow> order_result \<times> live_db" where
  "dry_run_live_order_outcome render sid iid qi req now_ms d = (OrderDryRun (qi_reserved_cost qi),
     (case open_runtime d of (Inl err, d1) \<Rightarrow> d1
      | (Inr u, d1) \<Rightarrow> snd (log_live_reconciliation_event \<lparr>lre_session_id = sid, lre_timestamp_ms = now_ms, lre_severity = ''info'',
          lre_event_type = ''dry_run_would_submit'', lre_local_value = Some (orq_size req), lre_remote_value = None,
          lre_details_json = Some (render (JObj [(''intent_id'', JInt iid), (''market_id'', JStr (qi_market_id qi)),
            (''token_id'', JStr (qi_token_id qi)), (''side'', JStr (side_debug (qi_side qi))), (''size'', json_f64 (orq_size req)),
            (''limit_price'', json_f64 (orq_limit_price req))]))\<rparr> (snd (mark_live_order_intent_dry_run iid d1)))))"

definition mark_intent_submitting_or_block :: "venue_env \<Rightarrow> i64 \<Rightarrow> f64 \<Rightarrow> live_db \<Rightarrow> order_result option \<times> live_db" where
  "mark_intent_submitting_or_block env iid reserved_cost d =
     (let stopped = (\<lambda>what err. Some (OrderBlocked ''disarmed'' (what @ vn_show_error env err) (Some reserved_cost)))
      in case open_runtime d of
        (Inl err, d1) \<Rightarrow> (stopped ''failed to open db for submitting marker: '' err, d1)
      | (Inr u, d1) \<Rightarrow> (case mark_live_order_intent_submitting iid d1 of
          (Inl err, d2) \<Rightarrow> (stopped ''failed to record submitting marker: '' err, d2)
        | (Inr u, d2) \<Rightarrow> (None, d2)))"

subsection \<open>After the venue call\<close>

definition live_order_response_is_blocking :: "order_response \<Rightarrow> bool" where
  "live_order_response_is_blocking resp \<longleftrightarrow>
     ors_status resp \<in> {''unknown_submission'', ''venue_restart'', ''timeout'', ''pending_unknown''}"

definition raw_amount :: "(string \<Rightarrow> f64 option) \<Rightarrow> json \<Rightarrow> f64 option" where
  "raw_amount parse_real v = (case v of JNum x \<Rightarrow> Some x | JInt i \<Rightarrow> Some (f64_lit (of_int i)) | JStr s \<Rightarrow> parse_real s | _ \<Rightarrow> None)"

definition json_get :: "string \<Rightarrow> json \<Rightarrow> json option" where
  "json_get k v = (case v of JObj ms \<Rightarrow> map_of ms k | _ \<Rightarrow> None)"

definition raw_response_price :: "venue_env \<Rightarrow> order_response \<Rightarrow> f64 option" where
  "raw_response_price env resp = Option.bind (Option.bind (ors_details_json resp) (vn_parse_json env)) (\<lambda>details.
     Option.bind (json_get ''raw_response'' details) (\<lambda>raw.
     Option.bind (Option.bind (json_get ''takingAmount'' raw) (raw_amount (vn_parse_real env))) (\<lambda>taking.
     Option.bind (Option.bind (json_get ''makingAmount'' raw) (raw_amount (vn_parse_real env))) (\<lambda>making.
       if 0 < taking \<and> 0 < making then Some (making / taking) else None))))"

definition live_response_fill_price :: "venue_env \<Rightarrow> queued_intent \<Rightarrow> order_response \<Rightarrow> f64" where
  "live_response_fill_price env qi resp = (case raw_response_price env resp of
     Some price \<Rightarrow> if is_finite price \<and> 0 < price then price else qi_requested_price qi
   | None \<Rightarrow> qi_requested_price qi)"

definition persist_order_response :: "i64 \<Rightarrow> i64 \<Rightarrow> queued_intent \<Rightarrow> u64 \<Rightarrow> order_response \<Rightarrow> live_db \<Rightarrow> i64 live_result" where
  "persist_order_response sid iid qi now_ms resp = log_live_order \<lparr>lor_session_id = sid, lor_intent_id = iid,
     lor_venue_order_id = ors_venue_order_id resp, lor_client_order_id = Some (ors_client_order_id resp),
     lor_market_id = qi_market_id qi, lor_token_id = Some (qi_token_id qi), lor_side = ''BUY'', lor_order_type = ''FOK'',
     lor_status = ors_status resp, lor_status_reason = ors_status_reason resp, lor_created_at_ms = now_ms,
     lor_acknowledged_at_ms = Some now_ms, lor_updated_at_ms = now_ms, lor_requested_price = Some (qi_requested_price qi),
     lor_limit_price = Some (qi_limit_price qi), lor_requested_size = Some (qi_requested_size qi),
     lor_accepted_size = ors_accepted_size resp, lor_details_json = ors_details_json resp\<rparr>"

definition persist_response_fill :: "i64 \<Rightarrow> i64 \<Rightarrow> i64 \<Rightarrow> u64 \<Rightarrow> order_response \<Rightarrow> f64 \<Rightarrow> live_db \<Rightarrow> unit live_result" where
  "persist_response_fill sid iid oid now_ms resp fill_price d = (case ors_accepted_size resp of
     Some accepted_size \<Rightarrow>
       if 0 < accepted_size
       then (case log_live_fill \<lparr>lfi_session_id = sid, lfi_intent_id = Some iid, lfi_live_order_id = Some oid,
           lfi_venue_trade_id = None, lfi_filled_at_ms = now_ms, lfi_price = fill_price, lfi_size = accepted_size,
           lfi_fee_amount = None, lfi_fee_rate = None, lfi_liquidity_side = Some ''taker'', lfi_tx_hash = None,
           lfi_status = ''venue_response_pending_reconciliation'', lfi_details_json = ors_details_json resp\<rparr> d of
             (Inl err, d1) \<Rightarrow> (Inl err, d1)
           | (Inr i, d1) \<Rightarrow> (Inr (), d1))
       else (Inr (), d)
   | None \<Rightarrow> (Inr (), d))"

definition fill_tolerance :: "f64 \<Rightarrow> f64" where
  "fill_tolerance requested_size = f64_max f64_epsilon (\<bar>requested_size\<bar> * f64_lit 4 * f64_epsilon)"

definition classify_accepted_live_size ::
  "(json \<Rightarrow> string) \<Rightarrow> i64 \<Rightarrow> queued_intent \<Rightarrow> u64 \<Rightarrow> order_response \<Rightarrow> live_db \<Rightarrow> (order_result + f64 option) \<times> live_db" where
  "classify_accepted_live_size render sid qi now_ms resp d =
     (let block = (\<lambda>reason default. case block_live_response_with_state render sid now_ms reason
            (Some (unwrap_or (ors_details_json resp) (render (JObj default)))) None d of (r, d1) \<Rightarrow> (Inl r, d1))
      in case ors_accepted_size resp of
        None \<Rightarrow> block ''venue response missing accepted size''
          [(''status'', JStr (ors_status resp)), (''reason'', JStr ''missing accepted_size'')]
      | Some accepted_size \<Rightarrow>
        let sizes = [(''accepted_size'', json_f64 accepted_size), (''requested_size'', json_f64 (qi_requested_size qi))]
        in if accepted_size \<le> 0 then (Inr None, d)
        else if qi_requested_size qi + fill_tolerance (qi_requested_size qi) < accepted_size
        then block ''venue response accepted more size than requested'' sizes
        else if accepted_size + fill_tolerance (qi_requested_size qi) < qi_requested_size qi
        then block ''FOK order returned a partial fill; reconcile before any retry'' sizes
        else (Inr (Some accepted_size), d))"

definition handle_live_order_response ::
  "venue_env \<Rightarrow> config \<Rightarrow> i64 \<Rightarrow> queued_intent \<Rightarrow> i64 \<Rightarrow> u64 \<Rightarrow> order_response \<Rightarrow> live_db \<Rightarrow> order_result \<times> live_db" where
  "handle_live_order_response env c sid qi iid now_ms resp d =
     (case open_runtime d of
        (Inl err, d1) \<Rightarrow> (OrderBlocked ''unknown_order''
          (''failed to open database for live order response: '' @ vn_show_error env err) None, d1)
      | (Inr u, d1) \<Rightarrow> (case persist_order_response sid iid qi now_ms resp d1 of
          (Inl err, d2) \<Rightarrow> (OrderBlocked ''unknown_order''
            (''failed to persist live order response: '' @ vn_show_error env err) None, d2)
        | (Inr oid, d2) \<Rightarrow>
          if \<not> ors_ok resp
          then (if live_order_response_is_blocking resp
                then block_live_response_with_state (vn_render env) sid now_ms ''blocking venue order response''
                  (Some (unwrap_or (ors_details_json resp) (vn_render env (JObj [(''status'', JStr (ors_status resp)),
                    (''reason'', json_opt JStr (ors_status_reason resp))])))) (Some (qi_reserved_cost qi)) d2
                else (OrderRejected (qi_reserved_cost qi), d2))
          else (case classify_accepted_live_size (vn_render env) sid qi now_ms resp d2 of
              (Inl stopped, d3) \<Rightarrow> (stopped, d3)
            | (Inr None, d3) \<Rightarrow> (OrderRejected (qi_reserved_cost qi), d3)
            | (Inr (Some accepted_size), d3) \<Rightarrow>
                let fill_price = live_response_fill_price env qi resp;
                    d4 = snd (persist_response_fill sid iid oid now_ms resp fill_price d3);
                    d5 = (if onchain_reconcile_enabled c then snd (set_live_order_reconcile_status oid ''pending'' d4) else d4)
                in (OrderFilled accepted_size fill_price oid, d5))))"

text \<open>The sidecar failed, so the venue may or may not have the order; the session is blocked and everything is cancelled.\<close>

definition unknown_submission_order :: "(json \<Rightarrow> string) \<Rightarrow> i64 \<Rightarrow> queued_intent \<Rightarrow> order_request \<Rightarrow> i64 \<Rightarrow> u64 \<Rightarrow> string \<Rightarrow> live_order" where
  "unknown_submission_order render sid qi req iid now_ms err = \<lparr>lor_session_id = sid, lor_intent_id = iid,
     lor_venue_order_id = None, lor_client_order_id = Some (orq_client_order_id req), lor_market_id = qi_market_id qi,
     lor_token_id = Some (qi_token_id qi), lor_side = ''BUY'', lor_order_type = ''FOK'', lor_status = ''unknown_submission'',
     lor_status_reason = Some err, lor_created_at_ms = now_ms, lor_acknowledged_at_ms = None, lor_updated_at_ms = now_ms,
     lor_requested_price = Some (qi_requested_price qi), lor_limit_price = Some (qi_limit_price qi),
     lor_requested_size = Some (qi_requested_size qi), lor_accepted_size = None,
     lor_details_json = Some (render (JObj [(''error'', JStr err)]))\<rparr>"

definition handle_live_order_error ::
  "venue_env \<Rightarrow> i64 \<Rightarrow> queued_intent \<Rightarrow> order_request \<Rightarrow> i64 \<Rightarrow> u64 \<Rightarrow> string \<Rightarrow> order_request list \<Rightarrow> live_db \<Rightarrow> order_result \<times> live_db" where
  "handle_live_order_error env sid qi req iid now_ms err calls d =
     (let d1 = (case open_runtime d of (Inl e, d1) \<Rightarrow> d1
            | (Inr u, d1) \<Rightarrow> snd (log_live_reconciliation_event \<lparr>lre_session_id = sid, lre_timestamp_ms = now_ms,
                lre_severity = ''critical'', lre_event_type = ''unknown_submission'', lre_local_value = None,
                lre_remote_value = None, lre_details_json = Some (vn_render env (JObj [(''intent_id'', JInt iid),
                  (''client_order_id'', JStr (orq_client_order_id req)), (''market_id'', JStr (qi_market_id qi)),
                  (''error'', JStr err)]))\<rparr>
                (snd (log_live_order (unknown_submission_order (vn_render env) sid qi req iid now_ms err) d1))));
          cancel_details = (case vn_cancel_all env calls of
              Inr resp \<Rightarrow> JObj [(''ok'', JBool True), (''response'', JObj [(''ok'', JBool (crs_ok resp)),
                (''cancelled'', json_u64 (crs_cancelled resp)), (''details_json'', json_opt JStr (crs_details_json resp))])]
            | Inl e \<Rightarrow> JObj [(''ok'', JBool False), (''error'', JStr e)]);
          details = vn_render env (JObj [(''intent_id'', JInt iid), (''client_order_id'', JStr (orq_client_order_id req)),
            (''cancel_all'', cancel_details)])
      in (OrderBlocked ''unknown_order'' ''sidecar order submission outcome unknown'' None,
          snd (persist_live_worker_state (vn_render env) sid ''unknown_order'' ''system''
            ''sidecar order submission outcome unknown'' now_ms (Some details) d1)))"

subsection \<open>One order\<close>

definition submit_one_live_order ::
  "venue_env \<Rightarrow> config \<Rightarrow> i64 \<Rightarrow> market_window \<Rightarrow> queued_intent \<Rightarrow> live_event option \<Rightarrow> u64 \<Rightarrow> venue_world \<Rightarrow>
     order_result \<times> venue_world" where
  "submit_one_live_order env c sid w qi ev now_ms y =
     (let cost = qi_reserved_cost qi; notional = qi_requested_price qi * qi_requested_size qi in
      case persist_live_order_intent (vn_render env) c sid w qi ev now_ms notional (vw_db y) of
        (Inl err, d1) \<Rightarrow> (OrderBlocked ''disarmed''
          (''failed to persist live decision evidence and intent: '' @ vn_show_error env err) (Some cost), y\<lparr>vw_db := d1\<rparr>)
      | (Inr (iid, Some reason), d1) \<Rightarrow> (OrderRejected cost, y\<lparr>vw_db := d1\<rparr>)
      | (Inr (iid, None), d1) \<Rightarrow>
        (case reserve_live_order_submission env sid iid now_ms (live_max_session_orders c) (live_max_session_fills c) cost d1 of
          (Inl stopped, d2) \<Rightarrow> (stopped, y\<lparr>vw_db := d2\<rparr>)
        | (Inr u, d2) \<Rightarrow>
          let req = build_live_order_request (vn_render env) sid iid qi notional in
          if live_dry_run c
          then (case dry_run_live_order_outcome (vn_render env) sid iid qi req now_ms d2 of (r, d3) \<Rightarrow> (r, y\<lparr>vw_db := d3\<rparr>))
          else (case mark_intent_submitting_or_block env iid cost d2 of
              (Some stopped, d3) \<Rightarrow> (stopped, y\<lparr>vw_db := d3\<rparr>)
            | (None, d3) \<Rightarrow>
              let calls = vw_calls y @ [req] in
              (case (case vn_submit env (vw_calls y) req of
                  Inr resp \<Rightarrow> handle_live_order_response env c sid qi iid now_ms resp d3
                | Inl err \<Rightarrow> handle_live_order_error env sid qi req iid now_ms err calls d3) of
                 (r, d4) \<Rightarrow> (r, y\<lparr>vw_db := d4, vw_calls := calls\<rparr>)))))"

subsection \<open>A batch\<close>

definition spawn_onchain_fill_verification ::
  "config \<Rightarrow> i64 \<Rightarrow> queued_intent \<Rightarrow> f64 \<Rightarrow> i64 \<Rightarrow> venue_world \<Rightarrow> venue_world" where
  "spawn_onchain_fill_verification c sid qi accepted_size oid y =
     (if \<not> onchain_reconcile_enabled c \<or> \<not> (is_finite accepted_size \<and> 0 < accepted_size) then y
      else y\<lparr>vw_verifications := vw_verifications y @ [\<lparr>ocv_session_id = sid, ocv_token_id = qi_token_id qi,
        ocv_market_id = qi_market_id qi, ocv_signal_id = qi_signal_id qi, ocv_live_order_id = oid,
        ocv_grace_ms = live_onchain_reconcile_grace_ms c, ocv_interval_ms = live_onchain_reconcile_retry_interval_ms c,
        ocv_attempts = max (live_onchain_reconcile_max_attempts c) 1, ocv_accepted_size = accepted_size\<rparr>]\<rparr>)"

definition release_order :: "queued_intent \<Rightarrow> f64 \<Rightarrow> submission_feedback \<Rightarrow> submission_feedback" where
  "release_order qi release fb = fb\<lparr>smf_releases := smf_releases fb @ [(qi_strategy qi, release)],
     smf_rejected_signal_ids := smf_rejected_signal_ids fb @ [qi_signal_id qi]\<rparr>"

definition release_unsubmitted_orders_after_block :: "queued_intent list \<Rightarrow> submission_feedback \<Rightarrow> submission_feedback" where
  "release_unsubmitted_orders_after_block rest fb = fold (\<lambda>qi. release_order qi (qi_reserved_cost qi)) rest fb"

text \<open>The loop over the batch; \<open>rest\<close> is what \<open>skip(index + 1)\<close> leaves. The number counts the fills.\<close>

fun submit_orders ::
  "venue_env \<Rightarrow> config \<Rightarrow> i64 \<Rightarrow> submission_request \<Rightarrow> queued_intent list \<Rightarrow> submission_feedback \<Rightarrow> u64 \<Rightarrow> venue_world \<Rightarrow>
     submission_feedback \<times> u64 \<times> venue_world" where
  "submit_orders env c sid rq [] fb n y = (fb, n, y)"
| "submit_orders env c sid rq (qi # rest) fb n y =
     (case submit_one_live_order env c sid (smr_window rq) qi
             (critical_signal_event_for_order (smr_critical_events rq) (qi_signal_id qi)) (smr_now_ms rq) y of
        (OrderFilled accepted_size fill_price oid, y1) \<Rightarrow>
          submit_orders env c sid rq rest (fb\<lparr>smf_fills := smf_fills fb @ [\<lparr>ff_signal_id = qi_signal_id qi,
            ff_fill_price = fill_price, ff_filled_size = accepted_size\<rparr>]\<rparr>) (n + 1)
            (spawn_onchain_fill_verification c sid qi accepted_size oid y1)
      | (OrderRejected release, y1) \<Rightarrow> submit_orders env c sid rq rest (release_order qi release fb) n y1
      | (OrderDryRun release, y1) \<Rightarrow> submit_orders env c sid rq rest (release_order qi release fb) n y1
      | (OrderBlocked state reason release, y1) \<Rightarrow>
          let fb1 = (case release of Some x \<Rightarrow> release_order qi x fb | None \<Rightarrow> fb)
          in ((release_unsubmitted_orders_after_block rest fb1)\<lparr>smf_state_update := Some \<lparr>smu_state = state, smu_reason = reason\<rparr>\<rparr>,
              n, y1))"

definition submit_live_orders ::
  "venue_env \<Rightarrow> config \<Rightarrow> i64 \<Rightarrow> submission_request \<Rightarrow> venue_world \<Rightarrow> submission_feedback \<times> venue_world" where
  "submit_live_orders env c sid rq y =
     (case submit_orders env c sid rq (smr_orders rq) \<lparr>smf_state_update = None, smf_releases = [], smf_fills = [],
             smf_rejected_signal_ids = [], smf_now_ms = smr_now_ms rq\<rparr> 0 y of
        (fb, n, y1) \<Rightarrow>
          if smf_state_update fb = None \<and> length (smr_orders rq) = 2 \<and>
             list_ex (\<lambda>qi. qi_strategy qi = ''spread-capture'') (smr_orders rq) \<and> n = 1
          then let reason = ''spread residual exposure detected'' in
            (fb\<lparr>smf_state_update := Some \<lparr>smu_state = ''unknown_order'', smu_reason = reason\<rparr>\<rparr>,
             y1\<lparr>vw_db := snd (persist_live_worker_state (vn_render env) sid ''unknown_order'' ''system'' reason (smr_now_ms rq)
               (Some (vn_render env (JObj [(''market_id'', JStr (mw_market_id (smr_window rq))), (''successful_legs'', json_u64 n),
                 (''submitted_legs'', JInt (int (length (smr_orders rq))))]))) (vw_db y1))\<rparr>)
          else (fb, y1))"

text \<open>The worker task: one batch after the other, until the receiver of the feedback is gone.\<close>

fun run_submission_worker ::
  "venue_env \<Rightarrow> config \<Rightarrow> i64 \<Rightarrow> (submission_request \<times> bool) list \<Rightarrow> venue_world \<Rightarrow> submission_feedback list \<times> venue_world" where
  "run_submission_worker env c sid [] y = ([], y)"
| "run_submission_worker env c sid ((rq, received) # rqs) y =
     (case submit_live_orders env c sid rq y of
        (fb, y1) \<Rightarrow> if \<not> received then ([fb], y1)
          else (case run_submission_worker env c sid rqs y1 of (fbs, y2) \<Rightarrow> (fb # fbs, y2)))"

subsection \<open>Starting a session\<close>

definition ensure_live_bootstrap_clean :: "config \<Rightarrow> live_db \<Rightarrow> unit live_result" where
  "ensure_live_bootstrap_clean c d =
     (let refuse = (\<lambda>text. Inl (LiveMessage (''live_trading cannot start'' @ text))) in
      case terminal_live_trading_halt_exists d of
        (Inl err, d1) \<Rightarrow> (Inl err, d1)
      | (Inr True, d1) \<Rightarrow> (refuse '' against a DB with a halted or unknown-order live session; run live-closeout and start a new run DB'', d1)
      | (Inr False, d1) \<Rightarrow> (case unconfirmed_onchain_fill_count (onchain_reconcile_enabled c) d1 of
          (Inl err, d2) \<Rightarrow> (Inl err, d2)
        | (Inr unconfirmed, d2) \<Rightarrow>
          if 0 < unconfirmed then (refuse ('': '' @ nat_to_string (unat unconfirmed) @
            '' filled live orders are not confirmed on-chain (a prior verifier did not finish); investigate the fills on-chain, then start a new run DB''), d2)
          else (case live_order_count d2 of
            (Inl err, d3) \<Rightarrow> (Inl err, d3)
          | (Inr prior_orders, d3) \<Rightarrow>
            if 0 < prior_orders then (refuse ('': this DB already recorded '' @ nat_to_string (unat prior_orders) @
              '' live venue submission(s); the at-most-one-fill caps are per session and would reset on restart, so a prior live position could be doubled. Archive this run DB and start a fresh one''), d3)
            else (case orphaned_venue_attempt_count d3 of
              (Inl err, d4) \<Rightarrow> (Inl err, d4)
            | (Inr orphaned, d4) \<Rightarrow>
              if 0 < orphaned then (refuse ('': '' @ nat_to_string (unat orphaned) @
                '' venue submission(s) have no recorded outcome (a prior process died between submitting and persisting the response); the order(s) may have filled, so investigate venue activity on-chain, then start a new run DB''), d4)
              else (Inr (), d4)))))"

subsection \<open>Verifying a fill on the chain\<close>

text \<open>
  The detached task of one fill. The answers of the sidecar are arguments: \<open>reads k\<close> is the answer to the attempt \<open>k\<close>. A
  \<open>u128\<close> is a natural number; its parser accepts an optional plus sign and decimal digits up to \<open>2 ^ 128 - 1\<close>.
\<close>

datatype onchain_check = Short nat | Unconfirmed string

definition onchain_expected_raw :: "f64 \<Rightarrow> nat option" where
  "onchain_expected_raw accepted_size =
     (if \<not> is_finite accepted_size \<or> accepted_size \<le> 0 then None
      else let raw = f64_round (accepted_size * f64_lit 1000000) in
        if \<not> is_finite raw \<or> raw < 1 \<or> f64_lit (2 ^ 64) < raw then None else Some (nat \<lfloor>fval raw\<rfloor>))"

definition is_digit :: "char \<Rightarrow> bool" where
  "is_digit ch \<longleftrightarrow> (let n = of_char ch :: nat in 48 \<le> n \<and> n \<le> 57)"

definition digits_value :: "string \<Rightarrow> nat" where
  "digits_value s = foldl (\<lambda>v ch. 10 * v + (of_char ch - 48)) 0 s"

definition parse_onchain_balance_raw :: "string \<Rightarrow> nat option" where
  "parse_onchain_balance_raw raw = (let s = str_trim raw; ds = (case s of ch # cs \<Rightarrow> if ch = CHR ''+'' then cs else s | [] \<Rightarrow> []) in
     if ds \<noteq> [] \<and> list_all is_digit ds \<and> digits_value ds < 2 ^ 128 then Some (digits_value ds) else None)"

definition classify_onchain_read :: "onchain_position \<Rightarrow> nat \<Rightarrow> onchain_check + unit" where
  "classify_onchain_read resp expected_raw =
     (if ocp_collateral_decimals resp \<noteq> 6
      then Inl (Unconfirmed (''unexpected collateral decimals '' @ nat_to_string (unat (ocp_collateral_decimals resp)) @ '' (expected 6)''))
      else (case parse_onchain_balance_raw (ocp_balance_raw resp) of
          Some balance_raw \<Rightarrow> if expected_raw \<le> balance_raw then Inr () else Inl (Short balance_raw)
        | None \<Rightarrow> Inl (Unconfirmed (''unparseable on-chain balance '' @ [CHR 0x27] @ ocp_balance_raw resp @ [CHR 0x27]))))"

definition compute_onchain_expected_raw :: "(f64 list \<Rightarrow> f64) \<Rightarrow> onchain_verification \<Rightarrow> live_db \<Rightarrow> nat option \<times> live_db" where
  "compute_onchain_expected_raw sum_real v d = (case open_runtime d of (Inl err, d1) \<Rightarrow> (None, d1) | (Inr u, d1) \<Rightarrow>
     (case matched_size_for_token_up_to_order sum_real (ocv_session_id v) (ocv_token_id v) (ocv_live_order_id v) d1 of
        (Inl err, d2) \<Rightarrow> (None, d2)
      | (Inr cumulative, d2) \<Rightarrow> (onchain_expected_raw cumulative, d2)))"

text \<open>Open the database and run one statement; again at most \<open>n\<close> times until it succeeds.\<close>

definition open_and_run :: "(live_db \<Rightarrow> 'a live_result) \<Rightarrow> live_db \<Rightarrow> 'a live_result" where
  "open_and_run f d = (case open_runtime d of (Inl err, d1) \<Rightarrow> (Inl err, d1) | (Inr u, d1) \<Rightarrow> f d1)"

fun persist_with_retries :: "nat \<Rightarrow> (live_db \<Rightarrow> 'a live_result) \<Rightarrow> live_db \<Rightarrow> bool \<times> live_db" where
  "persist_with_retries 0 f d = (False, d)"
| "persist_with_retries (Suc n) f d = (case open_and_run f d of
     (Inr x, d1) \<Rightarrow> (True, d1)
   | (Inl err, d1) \<Rightarrow> persist_with_retries n f d1)"

definition ONCHAIN_HALT_PERSIST_ATTEMPTS :: nat where
  "ONCHAIN_HALT_PERSIST_ATTEMPTS = 5"

definition mark_onchain_reconcile_status :: "onchain_verification \<Rightarrow> string \<Rightarrow> live_db \<Rightarrow> live_db" where
  "mark_onchain_reconcile_status v status d =
     snd (persist_with_retries ONCHAIN_HALT_PERSIST_ATTEMPTS (set_live_order_reconcile_status (ocv_live_order_id v) status) d)"

definition halt_event :: "(json \<Rightarrow> string) \<Rightarrow> onchain_verification \<Rightarrow> u64 \<Rightarrow> nat \<Rightarrow> onchain_check \<Rightarrow> reconciliation_event" where
  "halt_event render v now expected_raw check =
     (let (event_type, remote, balance, reason) = (case check of
            Short b \<Rightarrow> (''onchain_fill_short'', Some (f64_of_nat b / f64_lit 1000000), Some (nat_to_string b),
              ''on-chain balance '' @ nat_to_string b @ '' below expected '' @ nat_to_string expected_raw)
          | Unconfirmed reason \<Rightarrow> (''onchain_fill_unconfirmed'', None, None, reason))
      in \<lparr>lre_session_id = ocv_session_id v, lre_timestamp_ms = now, lre_severity = ''critical'', lre_event_type = event_type,
          lre_local_value = Some (ocv_accepted_size v), lre_remote_value = remote,
          lre_details_json = Some (render (JObj [(''market_id'', JStr (ocv_market_id v)), (''signal_id'', JInt (ocv_signal_id v)),
            (''token_id'', JStr (ocv_token_id v)), (''live_order_id'', JInt (ocv_live_order_id v)),
            (''expected_raw'', JStr (nat_to_string expected_raw)), (''onchain_balance_raw'', json_opt JStr balance),
            (''accepted_size'', json_f64 (ocv_accepted_size v)), (''reason'', JStr reason)]))\<rparr>)"

definition raise_onchain_reconciliation_halt ::
  "(json \<Rightarrow> string) \<Rightarrow> onchain_verification \<Rightarrow> u64 \<Rightarrow> nat \<Rightarrow> onchain_check \<Rightarrow> live_db \<Rightarrow> live_db" where
  "raise_onchain_reconciliation_halt render v now expected_raw check d =
     mark_onchain_reconcile_status v ''failed'' (snd (persist_with_retries ONCHAIN_HALT_PERSIST_ATTEMPTS
       (log_live_reconciliation_event (halt_event render v now expected_raw check)) d))"

fun onchain_poll :: "nat \<Rightarrow> (nat \<Rightarrow> string + onchain_position) \<Rightarrow> nat \<Rightarrow> nat \<Rightarrow> onchain_check \<Rightarrow> onchain_check + unit" where
  "onchain_poll 0 reads k expected_raw last_check = Inl last_check"
| "onchain_poll (Suc n) reads k expected_raw last_check = (case reads k of
     Inr resp \<Rightarrow> (case classify_onchain_read resp expected_raw of
         Inr u \<Rightarrow> Inr ()
       | Inl check \<Rightarrow> onchain_poll n reads (Suc k) expected_raw check)
   | Inl err \<Rightarrow> onchain_poll n reads (Suc k) expected_raw (Unconfirmed err))"

definition verify_onchain_fill ::
  "(f64 list \<Rightarrow> f64) \<Rightarrow> (json \<Rightarrow> string) \<Rightarrow> (nat \<Rightarrow> string + onchain_position) \<Rightarrow> u64 \<Rightarrow> onchain_verification \<Rightarrow> live_db \<Rightarrow> live_db" where
  "verify_onchain_fill sum_real render reads now v d = (case compute_onchain_expected_raw sum_real v d of
     (None, d1) \<Rightarrow> raise_onchain_reconciliation_halt render v now 0
       (Unconfirmed ''could not compute cumulative expected on-chain position'') d1
   | (Some expected_raw, d1) \<Rightarrow> (case onchain_poll (unat (ocv_attempts v)) reads 0 expected_raw (Unconfirmed ''no on-chain read completed'') of
       Inr u \<Rightarrow> mark_onchain_reconcile_status v ''confirmed'' d1
     | Inl check \<Rightarrow> raise_onchain_reconciliation_halt render v now expected_raw check d1))"

end
