(* ===== verification/LiveStoreFacts.thy ===== *)
theory LiveStoreFacts
  imports LiveSubmission
begin

section \<open>What the statements of a live session leave unchanged\<close>

text \<open>
  Most statements of the submission path write to tables that do not matter for the safety of submissions. \<open>live_frame\<close> is
  the contract of a relation between databases that such statements respect; \<open>live_order_frame\<close> adds the table of the
  venue orders. Both are interpreted on the model's relations: the same intents, orders and signals, and the same intents
  and signals.
\<close>

lemma live_call_cases:
  obtains (error) err fs where "live_call ps f d = (Inl err, d\<lparr>lv_store := (lv_store d)\<lparr>db_faults := fs\<rparr>\<rparr>)"
  | (body) fs where "live_call ps f d = f (d\<lparr>lv_store := (lv_store d)\<lparr>db_faults := fs\<rparr>\<rparr>)"
proof (cases "\<exists>n \<in> set ps. 2 ^ 63 \<le> unat n")
  case True
  then show thesis using error[of "LiveDb IntegerOverflow" "db_faults (lv_store d)"]
    by (simp add: live_call_def on_store_def sql_call_def)
next
  case False
  show thesis
  proof (cases "db_faults (lv_store d)")
    case Nil
    then have e: "(lv_store d)\<lparr>db_faults := []\<rparr> = lv_store d" by (cases "lv_store d") simp
    show thesis by (rule body[of "[]"]) (unfold e, use Nil False in \<open>simp add: live_call_def on_store_def sql_call_def\<close>)
  next
    case (Cons b bs)
    then show thesis using False body[of bs] error[of "LiveDb SqliteError" bs]
      by (cases b) (simp_all add: live_call_def on_store_def sql_call_def)
  qed
qed

locale live_frame =
  fixes R :: "live_db \<Rightarrow> live_db \<Rightarrow> bool"
  assumes frame_refl: "R d d"
    and frame_trans: "R d d1 \<Longrightarrow> R d1 d2 \<Longrightarrow> R d d2"
    and frame_faults: "R d (d\<lparr>lv_store := (lv_store d)\<lparr>db_faults := fs\<rparr>\<rparr>)"
    and frame_sessions: "R d (d\<lparr>lv_sessions := ss\<rparr>)"
    and frame_states: "R d (d\<lparr>lv_states := sts, lv_state_seq := n\<rparr>)"
    and frame_audit: "R d (d\<lparr>lv_audit := as, lv_audit_seq := n\<rparr>)"
    and frame_events: "R d (d\<lparr>lv_reconciliation := res, lv_reconciliation_seq := n\<rparr>)"
    and frame_fills: "R d (d\<lparr>lv_fills := fls, lv_fill_seq := n\<rparr>)"
begin

lemma call: "(\<And>d. R d (snd (f d))) \<Longrightarrow> R d (snd (live_call ps f d))"
  by (cases ps f d rule: live_call_cases) (auto intro: frame_faults frame_trans)

lemma opens: "R d (snd (open_runtime d))"
  unfolding open_runtime_def by (rule call) (simp add: frame_refl)

lemma metadata: "R d (snd (update_live_session_metadata sid status wallet proxy details d))"
  unfolding update_live_session_metadata_def by (rule call) (simp add: update_sessions_def frame_sessions)

lemma control: "R d (snd (insert_live_control_state cs d))"
  unfolding insert_live_control_state_def by (rule call) (simp add: Let_def frame_refl frame_states)

lemma audit: "R d (snd (log_control_audit ae d))"
  unfolding log_control_audit_def by (rule call) (simp add: Let_def frame_audit)

lemma event: "R d (snd (log_live_reconciliation_event re d))"
  unfolding log_live_reconciliation_event_def by (rule call) (simp add: Let_def frame_refl frame_events)

lemma fill: "R d (snd (log_live_fill lf d))"
  unfolding log_live_fill_def by (rule call) (simp add: Let_def frame_refl frame_fills)

lemma next_statement:
  assumes "R d (snd p)" "\<And>x d1. R d1 (snd (g x d1))"
  shows "R d (snd (case p of (Inl err, d1) \<Rightarrow> (h err, d1) | (Inr x, d1) \<Rightarrow> g x d1))"
  using assms frame_trans by (cases p; cases "fst p") auto

lemma recorded: "R d (snd (record_live_control_state render sid state actor reason now_ms details d))"
proof -
  have "R d (snd (case insert_live_control_state cs d of (Inl err, d1) \<Rightarrow> (Inl err, d1)
      | (Inr i, d1) \<Rightarrow> (case log_control_audit (ae i) d1 of (Inl err, d2) \<Rightarrow> (Inl err, d2) | (Inr u, d2) \<Rightarrow> (Inr i, d2))))" for cs ae
    by (rule next_statement[OF control]) (rule next_statement[OF audit], simp add: frame_refl)
  then show ?thesis by (simp add: record_live_control_state_def frame_refl split: sum.split)
qed

lemma worker_state: "R d (snd (persist_live_worker_state render sid state actor reason now_ms details d))"
  unfolding persist_live_worker_state_def
  by (rule next_statement[OF opens]) (rule next_statement[OF recorded metadata])

lemma block_state: "R d (snd (block_live_response_with_state render sid now_ms reason details release d))"
  by (simp add: block_live_response_with_state_def worker_state)

lemma find_order: "R d (snd (find_live_order_by_intent iid d))"
  unfolding find_live_order_by_intent_def by (rule call) (simp add: frame_refl)

end

locale live_order_frame = live_frame +
  assumes frame_orders: "R d (d\<lparr>lv_orders := ods, lv_order_seq := n\<rparr>)"
begin

lemma log_order: "R d (snd (log_live_order lo d))"
  unfolding log_live_order_def by (rule call) (simp add: Let_def frame_refl frame_orders)

lemma orders_only: "R d (d\<lparr>lv_orders := ods\<rparr>)"
  using frame_orders[where d = d and ods = ods and n = "lv_order_seq d"] by simp

lemma reconcile_status: "R d (snd (set_live_order_reconcile_status oid status d))"
  unfolding set_live_order_reconcile_status_def by (rule call) (simp add: update_orders_def orders_only)

lemma response_fill: "R d (snd (persist_response_fill sid iid oid now_ms resp price d))"
  unfolding persist_response_fill_def
  by (auto simp: frame_refl split: option.split intro!: next_statement[OF fill])

lemma classified: "R d (snd (classify_accepted_live_size render sid qi now_ms resp d))"
proof -
  have "R d (snd (case block_live_response_with_state render sid now_ms reason details release d of (r, d1) \<Rightarrow> (Inl r :: order_result + f64 option, d1)))" for reason details release
    using block_state[of d] by (simp add: case_prod_beta)
  then show ?thesis by (simp add: classify_accepted_live_size_def Let_def frame_refl split: option.split)
qed

lemma response: "R d (snd (handle_live_order_response env c sid qi iid now_ms resp d))"
proof -
  have pending: "R d (snd (set_live_order_reconcile_status oid st (snd (persist_response_fill sid iid oid now_ms resp pr d))))"
    for oid st pr d by (rule frame_trans[OF response_fill reconcile_status])
  show ?thesis
    unfolding handle_live_order_response_def persist_order_response_def Let_def
    by (rule next_statement[OF opens], rule next_statement[OF log_order])
      (auto simp: block_state frame_refl pending response_fill split: if_splits option.split intro!: next_statement[OF classified])
qed

lemma order_error: "R d (snd (handle_live_order_error env sid qi req iid now_ms err calls d))"
proof -
  have "R d (case open_runtime d of (Inl e, d1) \<Rightarrow> d1 | (Inr u, d1) \<Rightarrow> snd (log_live_reconciliation_event re (snd (log_live_order lo d1))))" for re lo
    using next_statement[OF opens, of "\<lambda>u d1. ((), snd (log_live_reconciliation_event re (snd (log_live_order lo d1))))" d "\<lambda>e. ()"]
      frame_trans[OF log_order event]
    by (cases "open_runtime d"; cases "fst (open_runtime d)") auto
  from frame_trans[OF this worker_state] show ?thesis unfolding handle_live_order_error_def Let_def snd_conv .
qed

end

subsection \<open>Interpretations\<close>

definition same_core :: "live_db \<Rightarrow> live_db \<Rightarrow> bool" where
  "same_core d d' \<longleftrightarrow> lv_intents d' = lv_intents d \<and> lv_intent_seq d' = lv_intent_seq d \<and> lv_orders d' = lv_orders d \<and>
     lv_order_seq d' = lv_order_seq d \<and> db_signals (lv_store d') = db_signals (lv_store d)"

definition same_intents :: "live_db \<Rightarrow> live_db \<Rightarrow> bool" where
  "same_intents d d' \<longleftrightarrow> lv_intents d' = lv_intents d \<and> lv_intent_seq d' = lv_intent_seq d \<and>
     db_signals (lv_store d') = db_signals (lv_store d)"

interpretation core: live_frame same_core
  by unfold_locales (auto simp: same_core_def)

interpretation intents: live_order_frame same_intents
  by unfold_locales (auto simp: same_intents_def)

lemma same_core_intents: "same_core d d' \<Longrightarrow> same_intents d d'"
  by (simp add: same_core_def same_intents_def)

end
