(* ===== verification/LiveSubmissionFacts.thy ===== *)
theory LiveSubmissionFacts
  imports LiveStoreFacts
begin

section \<open>The safety of live submissions\<close>

text \<open>
  The statements of one submission in the order in which the worker runs them, the invariant of the worker (every call of the
  venue has its intent row, reserved and marked before the call), what a batch returns, why a database with calls refuses
  another session, and when a fill counts as confirmed. Statements may fail anywhere; a crash is a run in which every
  later statement fails.
\<close>

subsection \<open>Storing the intent\<close>

definition adds_intent :: "live_intent \<Rightarrow> live_db \<Rightarrow> live_db \<Rightarrow> bool" where
  "adds_intent li d d' \<longleftrightarrow> lv_intent_seq d' = lv_intent_seq d + 1 \<and> lv_orders d' = lv_orders d \<and>
     (\<exists>row. lv_intents d' = lv_intents d @ [row] \<and> it_id row = lv_intent_seq d + 1 \<and> it_attempted_at_ms row = None \<and>
        loi_session_id (it_intent row) = loi_session_id li \<and> loi_status (it_intent row) = loi_status li)"

lemma log_live_order_intent_cases:
  obtains (error) err where "fst (log_live_order_intent li d) = Inl err" "same_core d (snd (log_live_order_intent li d))"
  | (stored) d' where "log_live_order_intent li d = (Inr (lv_intent_seq d + 1), d')" "adds_intent li d d'"
      "lv_store d' = (lv_store d)\<lparr>db_faults := db_faults (lv_store d')\<rparr>"
  unfolding log_live_order_intent_def
  by (rule live_call_cases[where ps = "[loi_created_at_ms li]" and d = d and f = "\<lambda>d.
     if \<not> session_known d (loi_session_id li) \<or>
        (db_foreign_keys (lv_store d) \<and> is_some_and (loi_signal_id li) (\<lambda>i. i \<notin> sr_id ` set (db_signals (lv_store d))))
     then (Inl (LiveDb ForeignKeyViolation), d)
     else let new_id = lv_intent_seq d + 1;
              row = li\<lparr>loi_requested_price := sql_real_opt (loi_requested_price li),
                loi_requested_size := sql_real_opt (loi_requested_size li), loi_limit_price := sql_real_opt (loi_limit_price li)\<rparr>
       in (Inr new_id, d\<lparr>lv_intents := lv_intents d @ [\<lparr>it_id = new_id, it_intent = row, it_attempted_at_ms = None\<rparr>],
            lv_intent_seq := new_id\<rparr>)"])
    (auto simp: Let_def same_core_def adds_intent_def split: if_splits)

lemma call_put:
  assumes "\<And>s1. same_tables s s1 \<Longrightarrow> Q (g s1)"
  shows "(\<exists>err. fst (sql_call ps (\<lambda>s. (Inr (), g s)) s) = Inl err) \<or>
    fst (sql_call ps (\<lambda>s. (Inr (), g s)) s) = Inr () \<and> Q (snd (sql_call ps (\<lambda>s. (Inr (), g s)) s))"
  using assms by (cases rule: sql_call_cases[of ps "\<lambda>s. (Inr (), g s)" s]) simp_all

lemma insert_live_decision_signal_result:
  "(\<exists>err. fst (insert_live_decision_signal_on_tx ev s) = Inl err) \<or>
   fst (insert_live_decision_signal_on_tx ev s) = Inr () \<and>
     sr_id ` set (db_signals (snd (insert_live_decision_signal_on_tx ev s))) = insert (lev_signal_id ev) (sr_id ` set (db_signals s))"
  unfolding insert_live_decision_signal_on_tx_def Let_def
  by (rule call_put[where Q = "\<lambda>s'. sr_id ` set (db_signals s') = insert (lev_signal_id ev) (sr_id ` set (db_signals s))"])
    (auto simp: same_tables_fields(2))

lemma upsert_signal_metrics_signals: "db_signals (snd (upsert_signal_metrics r s)) = db_signals s"
  unfolding upsert_signal_metrics_def sql_call_def Let_def by (auto split: list.split)

lemma on_store_rest:
  "lv_intents (snd (on_store f d)) = lv_intents d" "lv_intent_seq (snd (on_store f d)) = lv_intent_seq d"
  "lv_orders (snd (on_store f d)) = lv_orders d" "lv_order_seq (snd (on_store f d)) = lv_order_seq d"
  "lv_store (snd (on_store f d)) = snd (f (lv_store d))"
  by (simp_all add: on_store_def split: prod.split sum.split)

lemma transaction_cases:
  obtains (error) err d1 where "body d = (Inl err, d1)" "live_transaction body d = (Inl err, snd (live_transaction body d))"
      "same_core d (snd (live_transaction body d))"
  | (committed) x d1 where "body d = (Inr x, d1)" "live_transaction body d = (Inr x, d1)"
  by (cases "body d"; cases "fst (body d)") (auto simp: live_transaction_def same_core_def)

lemma log_with_evidence_cases:
  obtains (error) err where "fst (log_live_order_intent_with_decision_evidence ev li d) = Inl err"
      "same_core d (snd (log_live_order_intent_with_decision_evidence ev li d))"
  | (stored) d' where "log_live_order_intent_with_decision_evidence ev li d = (Inr (lv_intent_seq d + 1), d')"
      "adds_intent li d d'"
      "sr_id ` set (db_signals (lv_store d')) = insert (lev_signal_id ev) (sr_id ` set (db_signals (lv_store d)))"
proof -
  define metrics where "metrics = (\<lambda>d. case signal_metric_record_from_evidence ev of None \<Rightarrow> (Inr () :: live_error + unit, d)
    | Some r \<Rightarrow> on_store (upsert_signal_metrics_on_tx r) d)"
  define d1 where "d1 = snd (on_store (insert_live_decision_signal_on_tx ev) d)"
  define d2 where "d2 = snd (metrics d1)"
  define body where "body = (\<lambda>d. case on_store (insert_live_decision_signal_on_tx ev) d of
       (Inl err, d1) \<Rightarrow> (Inl err, d1)
     | (Inr u, d1) \<Rightarrow> (case metrics d1 of (Inl err, d2) \<Rightarrow> (Inl err, d2) | (Inr u, d2) \<Rightarrow> insert_live_order_intent_on_tx li d2))"
  have whole: "log_live_order_intent_with_decision_evidence ev li = live_transaction body"
    unfolding log_live_order_intent_with_decision_evidence_def body_def metrics_def ..
  have d1: "lv_intents d1 = lv_intents d" "lv_intent_seq d1 = lv_intent_seq d" "lv_orders d1 = lv_orders d"
    "lv_store d1 = snd (insert_live_decision_signal_on_tx ev (lv_store d))"
    by (simp_all add: d1_def on_store_rest)
  have d2: "lv_intents d2 = lv_intents d1" "lv_intent_seq d2 = lv_intent_seq d1" "lv_orders d2 = lv_orders d1"
    "db_signals (lv_store d2) = db_signals (lv_store d1)"
    by (simp_all add: d2_def metrics_def on_store_rest upsert_signal_metrics_on_tx_def upsert_signal_metrics_signals split: option.split)
  show thesis
  proof (cases rule: transaction_cases[of body d])
    case (error err e1)
    then show thesis using that(1) by (metis fst_conv whole)
  next
    case (committed x e1)
    from committed(1) have ins: "\<exists>u. fst (on_store (insert_live_decision_signal_on_tx ev) d) = Inr u"
      by (auto simp: body_def split: prod.splits sum.splits)
    then have first: "on_store (insert_live_decision_signal_on_tx ev) d = (Inr (), d1)"
      by (metis d1_def old.unit.exhaust prod.collapse)
    from committed(1) have "\<exists>u. fst (metrics d1) = Inr u" by (auto simp: body_def first split: prod.splits sum.splits)
    then have second: "metrics d1 = (Inr (), d2)" by (metis d2_def old.unit.exhaust prod.collapse)
    from committed(1) have last: "log_live_order_intent li d2 = (Inr x, e1)"
      by (simp add: body_def first second insert_live_order_intent_on_tx_def)
    from ins have signals: "sr_id ` set (db_signals (lv_store d1)) = insert (lev_signal_id ev) (sr_id ` set (db_signals (lv_store d)))"
      using insert_live_decision_signal_result[of ev "lv_store d"]
      by (auto simp: d1 on_store_def split: prod.splits sum.splits)
    show thesis
    proof (cases rule: log_live_order_intent_cases[of li d2])
      case (error err)
      with last show thesis by simp
    next
      case (stored d')
      then have "db_signals (lv_store d') = db_signals (lv_store d2)"
        by (metis store.select_convs(3) same_tables_def same_tables_fields(2))
      moreover have "adds_intent li d d'" using stored(2) by (simp add: adds_intent_def d1 d2)
      ultimately show thesis using that(2)[of d'] committed(2) stored(1) last signals by (simp add: whole d1 d2)
    qed
  qed
qed

subsection \<open>Persisting the intent of an order\<close>

definition signal_ids :: "live_db \<Rightarrow> i64 set" where
  "signal_ids d = sr_id ` set (db_signals (lv_store d))"

lemma same_core_signal_ids: "same_core d d' \<Longrightarrow> signal_ids d' = signal_ids d"
  by (simp add: same_core_def signal_ids_def)

lemma evidence_from_event_some:
  "live_decision_evidence_from_event ev i = Inr e \<Longrightarrow> lev_signal_id e = i \<and> (\<exists>x. ev = Some x \<and> is_signal_event i x)"
  by (auto simp: live_decision_evidence_from_event_def split: option.splits live_event.splits if_splits)

lemma persist_intent_cases:
  assumes "verdict = live_order_pre_submit_rejection qi notional c"
  obtains (error) err where "fst (persist_live_order_intent render c sid w qi ev now_ms notional d) = Inl err"
      "same_core d (snd (persist_live_order_intent render c sid w qi ev now_ms notional d))"
  | (stored) d' where "persist_live_order_intent render c sid w qi ev now_ms notional d = (Inr (lv_intent_seq d + 1, snd verdict), d')"
      "adds_intent (live_intent_of render sid w qi now_ms notional (fst verdict) (snd verdict)) d d'"
      "signal_ids d' = insert (qi_signal_id qi) (signal_ids d)" "\<exists>x. ev = Some x \<and> is_signal_event (qi_signal_id qi) x"
proof -
  obtain o1 d1 where opened: "open_runtime d = (o1, d1)" by (cases "open_runtime d")
  with core.opens[of d] have same: "same_core d d1" by simp
  show thesis
  proof (cases o1)
    case (Inl err)
    with opened same that(1) show thesis by (simp add: persist_live_order_intent_def assms[symmetric] case_prod_beta)
  next
    case (Inr u)
    show thesis
    proof (cases "live_decision_evidence_from_event ev (qi_signal_id qi)")
      case Inl': (Inl err)
      with opened same Inr that(1) show thesis
        by (simp add: persist_live_order_intent_def assms[symmetric] case_prod_beta)
    next
      case Inr': (Inr e)
      note e = evidence_from_event_some[OF Inr']
      let ?li = "live_intent_of render sid w qi now_ms notional (fst verdict) (snd verdict)"
      have run: "persist_live_order_intent render c sid w qi ev now_ms notional d =
        (case log_live_order_intent_with_decision_evidence e ?li d1 of (Inl err, d2) \<Rightarrow> (Inl err, d2)
         | (Inr iid, d2) \<Rightarrow> (Inr (iid, snd verdict), d2))"
        by (simp add: persist_live_order_intent_def assms[symmetric] case_prod_beta opened Inr Inr')
      show thesis
      proof (cases rule: log_with_evidence_cases[of e ?li d1])
        case (error err)
        then show thesis using that(1)[of err] core.frame_trans[OF same] by (simp add: run case_prod_beta)
      next
        case (stored d')
        then show thesis using that(2)[of d'] e same
          by (simp add: run adds_intent_def same_core_def signal_ids_def)
      qed
    qed
  qed
qed

subsection \<open>Reserving and marking\<close>

definition intents_sound :: "live_db \<Rightarrow> bool" where
  "intents_sound d \<longleftrightarrow> distinct (map it_id (lv_intents d)) \<and> (\<forall>r \<in> set (lv_intents d). it_id r \<le> lv_intent_seq d)"

definition marks_intent :: "i64 \<Rightarrow> (intent_row \<Rightarrow> intent_row) \<Rightarrow> live_db \<Rightarrow> live_db \<Rightarrow> bool" where
  "marks_intent iid f d d' \<longleftrightarrow> lv_intents d' = map (\<lambda>r. if it_id r = iid then f r else r) (lv_intents d) \<and>
     lv_intent_seq d' = lv_intent_seq d \<and> lv_orders d' = lv_orders d \<and> signal_ids d' = signal_ids d"

lemma length_filter_one: "distinct xs \<Longrightarrow> x \<in> set xs \<Longrightarrow> length (filter (\<lambda>y. y = x) xs) = 1"
  by (induction xs) (auto simp: filter_empty_conv)

lemma update_intents_one:
  assumes "distinct (map it_id (lv_intents d))" "update_intents (\<lambda>r. it_id r = iid \<and> P r) f d = (n, d')"
  shows "n = 1 \<and> marks_intent iid f d d' \<and> (\<exists>r \<in> set (lv_intents d). it_id r = iid \<and> P r) \<or> n = 0 \<and> d' = d"
proof -
  have same: "r = r'" if "r \<in> set (lv_intents d)" "r' \<in> set (lv_intents d)" "it_id r = it_id r'" for r r'
    using assms(1) that by (metis distinct_map inj_on_def)
  show ?thesis
  proof (cases "\<exists>r \<in> set (lv_intents d). it_id r = iid \<and> P r")
    case True
    then obtain r where r: "r \<in> set (lv_intents d)" "it_id r = iid" "P r" by blast
    then have eq: "filter (\<lambda>r. it_id r = iid \<and> P r) (lv_intents d) = filter (\<lambda>x. x = r) (lv_intents d)"
      using same by (intro filter_cong) auto
    have "distinct (lv_intents d)" using assms(1) by (simp add: distinct_map)
    then have "length (filter (\<lambda>x. x = r) (lv_intents d)) = 1" using r(1)
      by (rule length_filter_one)
    moreover have "map (\<lambda>r. if it_id r = iid \<and> P r then f r else r) (lv_intents d) =
      map (\<lambda>r. if it_id r = iid then f r else r) (lv_intents d)"
      using same r by (intro map_cong) auto
    ultimately show ?thesis using assms(2) r by (auto simp: update_intents_def eq marks_intent_def signal_ids_def)
  next
    case False
    then have "map (\<lambda>r. if it_id r = iid \<and> P r then f r else r) (lv_intents d) = lv_intents d"
      by (intro map_idI) auto
    with False assms(2) show ?thesis by (auto simp: update_intents_def filter_empty_conv)
  qed
qed

definition below_caps :: "i64 \<Rightarrow> u32 \<Rightarrow> u32 \<Rightarrow> live_db \<Rightarrow> bool" where
  "below_caps sid max_orders max_fills d \<longleftrightarrow> (max_orders = 0 \<or> length (attempted_in_session sid d) < unat max_orders) \<and>
     (max_fills = 0 \<or> length (fills_in_session sid d) < unat max_fills)"

definition reserves :: "i64 \<Rightarrow> u64 \<Rightarrow> i64 \<Rightarrow> u32 \<Rightarrow> u32 \<Rightarrow> live_db \<Rightarrow> live_db \<Rightarrow> bool" where
  "reserves iid now_ms sid max_orders max_fills d d' \<longleftrightarrow>
     marks_intent iid (\<lambda>r. r\<lparr>it_attempted_at_ms := Some now_ms\<rparr>) d d' \<and> below_caps sid max_orders max_fills d \<and>
     (\<exists>r \<in> set (lv_intents d). it_id r = iid \<and> loi_session_id (it_intent r) = sid \<and> it_attempted_at_ms r = None)"

lemma same_core_refl [simp]: "same_core d d"
  by (rule core.frame_refl)

lemma same_core_faults [simp]: "same_core d (d\<lparr>lv_store := (lv_store d)\<lparr>db_faults := fs\<rparr>\<rparr>)"
  by (rule core.frame_faults)

lemma marks_after_faults:
  "marks_intent iid f (d\<lparr>lv_store := (lv_store d)\<lparr>db_faults := fs\<rparr>\<rparr>) d' = marks_intent iid f d d'"
  by (simp add: marks_intent_def signal_ids_def)

lemma try_reserve_result:
  assumes "distinct (map it_id (lv_intents d))"
    and "try_reserve_venue_attempt iid now_ms sid max_orders max_fills d = (r, d')"
  shows "r = Inr Reserved \<and> reserves iid now_ms sid max_orders max_fills d d' \<or> r \<noteq> Inr Reserved \<and> same_core d d'"
proof -
  define P :: "live_db \<Rightarrow> intent_row \<Rightarrow> bool" where "P = (\<lambda>d r. loi_session_id (it_intent r) = sid \<and> it_attempted_at_ms r = None \<and>
    (max_orders = 0 \<or> length (attempted_in_session sid d) < unat max_orders) \<and>
    (max_fills = 0 \<or> length (fills_in_session sid d) < unat max_fills))"
  define f where "f = (\<lambda>d. case update_intents (\<lambda>r. it_id r = iid \<and> P d r) (\<lambda>r. r\<lparr>it_attempted_at_ms := Some now_ms\<rparr>) d of
    (n, d1) \<Rightarrow> (Inr n :: live_error + nat, d1))"
  have run: "try_reserve_venue_attempt iid now_ms sid max_orders max_fills d = (case live_call [now_ms] f d of
      (Inl err, d1) \<Rightarrow> (Inl err, d1)
    | (Inr n, d1) \<Rightarrow> if n = 1 then (Inr Reserved, d1)
       else live_call [] (\<lambda>d. (Inr (if list_ex (\<lambda>r. it_id r = iid \<and> it_attempted_at_ms r \<noteq> None) (lv_intents d)
         then AlreadyAttempted else CapReached), d)) d1)"
    by (simp add: try_reserve_venue_attempt_def f_def P_def)
  show ?thesis
  proof (cases rule: live_call_cases[of "[now_ms]" f d])
    case (error err fs)
    with assms(2) run show ?thesis by auto
  next
    case (body fs)
    let ?d = "d\<lparr>lv_store := (lv_store d)\<lparr>db_faults := fs\<rparr>\<rparr>"
    obtain n d1 where u: "update_intents (\<lambda>r. it_id r = iid \<and> P ?d r) (\<lambda>r. r\<lparr>it_attempted_at_ms := Some now_ms\<rparr>) ?d = (n, d1)"
      by fastforce
    have "distinct (map it_id (lv_intents ?d))" using assms(1) by simp
    from update_intents_one[OF this u] show ?thesis
    proof
      assume "n = 1 \<and> marks_intent iid (\<lambda>r. r\<lparr>it_attempted_at_ms := Some now_ms\<rparr>) ?d d1 \<and>
        (\<exists>r \<in> set (lv_intents ?d). it_id r = iid \<and> P ?d r)"
      moreover from this body u assms(2) run have "r = Inr Reserved" "d' = d1" by (simp_all add: f_def)
      ultimately show ?thesis
        by (auto simp: reserves_def marks_after_faults P_def below_caps_def attempted_in_session_def fills_in_session_def)
    next
      assume n: "n = 0 \<and> d1 = ?d"
      then have "try_reserve_venue_attempt iid now_ms sid max_orders max_fills d =
        live_call [] (\<lambda>d. (Inr (if list_ex (\<lambda>r. it_id r = iid \<and> it_attempted_at_ms r \<noteq> None) (lv_intents d)
         then AlreadyAttempted else CapReached), d)) ?d"
        using body u by (simp add: run f_def)
      then show ?thesis using assms(2)
        by (cases rule: live_call_cases[of "[]" "\<lambda>d. (Inr (if list_ex (\<lambda>r. it_id r = iid \<and> it_attempted_at_ms r \<noteq> None) (lv_intents d)
         then AlreadyAttempted else CapReached), d)" ?d]) (auto simp: same_core_def)
    qed
  qed
qed

lemma mark_status_result:
  assumes "distinct (map it_id (lv_intents d))" "mark_intent_status status label iid d = (r, d')"
  shows "r = Inr () \<and> marks_intent iid (\<lambda>r. r\<lparr>it_intent := (it_intent r)\<lparr>loi_status := status\<rparr>\<rparr>) d d' \<or>
    (\<exists>err. r = Inl err) \<and> same_core d d'"
proof -
  let ?g = "\<lambda>r. r\<lparr>it_intent := (it_intent r)\<lparr>loi_status := status\<rparr>\<rparr>"
  define f where "f = (\<lambda>d. case update_intents (\<lambda>r. it_id r = iid) ?g d of
       (n, d1) \<Rightarrow> (if n = 1 then Inr () else Inl (LiveMessage (''expected to mark exactly one intent '' @ label @ '', updated '' @
         nat_to_string n @ '' for id '' @ int_to_string iid)), d1))"
  have run: "mark_intent_status status label iid d = live_call [] f d"
    by (simp add: mark_intent_status_def f_def)
  show ?thesis
  proof (cases rule: live_call_cases[of "[]" f d])
    case (error err fs)
    with assms(2) run show ?thesis by auto
  next
    case (body fs)
    let ?d = "d\<lparr>lv_store := (lv_store d)\<lparr>db_faults := fs\<rparr>\<rparr>"
    obtain n d1 where u: "update_intents (\<lambda>r. it_id r = iid) ?g ?d = (n, d1)" by fastforce
    have "distinct (map it_id (lv_intents ?d))" using assms(1) by simp
    from update_intents_one[OF this, of iid "\<lambda>_. True" ?g n d1] u show ?thesis
      using assms(2) run body by (auto simp: f_def marks_after_faults)
  qed
qed

lemmas mark_submitting_result = mark_status_result[where status = "''submitting''" and label = "''submitting''",
    folded mark_live_order_intent_submitting_def]

text \<open>What a result may give back: the cost of the order, or nothing when the outcome at the venue is unknown.\<close>

definition releases_ok :: "queued_intent \<Rightarrow> order_result \<Rightarrow> bool" where
  "releases_ok qi r \<longleftrightarrow> (case r of OrderFilled x price oid \<Rightarrow> True
     | OrderRejected x \<Rightarrow> x = qi_reserved_cost qi
     | OrderDryRun x \<Rightarrow> x = qi_reserved_cost qi
     | OrderBlocked st reason (Some x) \<Rightarrow> x = qi_reserved_cost qi
     | OrderBlocked st reason None \<Rightarrow> st = ''unknown_order'')"

lemma releases_ok_simps [simp]:
  "releases_ok qi (OrderFilled z price oid)"
  "releases_ok qi (OrderRejected x) = (x = qi_reserved_cost qi)"
  "releases_ok qi (OrderDryRun x) = (x = qi_reserved_cost qi)"
  "releases_ok qi (OrderBlocked st reason (Some x)) = (x = qi_reserved_cost qi)"
  "releases_ok qi (OrderBlocked st reason None) = (st = ''unknown_order'')"
  by (simp_all add: releases_ok_def)

lemma reserves_after_core: "same_core d d1 \<Longrightarrow> reserves iid now_ms sid mo mf d1 d' \<Longrightarrow> reserves iid now_ms sid mo mf d d'"
  by (simp add: reserves_def same_core_def marks_intent_def below_caps_def attempted_in_session_def fills_in_session_def
      signal_ids_def)

lemma block_result:
  "block_live_response_with_state render sid now_ms reason details release d = (r, d') \<Longrightarrow>
     r = OrderBlocked ''unknown_order'' reason release \<and> same_core d d'"
  using core.block_state[of d render sid now_ms reason details release] by (auto simp: block_live_response_with_state_def)

lemma reserve_result:
  assumes "distinct (map it_id (lv_intents d))"
    and "reserve_live_order_submission env sid iid now_ms mo mf (qi_reserved_cost qi) d = (r, d')"
  shows "r = Inr () \<and> reserves iid now_ms sid mo mf d d' \<or> (\<exists>x. r = Inl x \<and> releases_ok qi x \<and> same_core d d')"
proof -
  obtain o1 d1 where s1: "open_runtime d = (o1, d1)" by fastforce
  obtain o2 d2 where s2: "find_live_order_by_intent iid d1 = (o2, d2)" by fastforce
  obtain o3 d3 where s3: "try_reserve_venue_attempt iid now_ms sid mo mf d2 = (o3, d3)" by fastforce
  have c1: "same_core d d1" and c2: "same_core d1 d2"
    using core.opens[of d] core.find_order[of d1 iid] by (simp_all add: s1 s2)
  note c = core.frame_trans[OF c1 c2]
  have "distinct (map it_id (lv_intents d2))" using assms(1) c by (simp add: same_core_def)
  from try_reserve_result[OF this s3]
  have c3: "o3 = Inr Reserved \<and> reserves iid now_ms sid mo mf d d3 \<or> o3 \<noteq> Inr Reserved \<and> same_core d d3"
    using reserves_after_core[OF c] core.frame_trans[OF c] by blast
  have blocked: "releases_ok qi x \<and> same_core d e'"
    if "block_live_response_with_state render sid now_ms reason details None e = (x, e')" "same_core d e"
    for render reason details e x e'
    using block_result[OF that(1)] core.frame_trans[OF that(2)] by auto
  from assms(2) c1 c c3 show ?thesis
    by (auto simp: reserve_live_order_submission_def s1 s2 s3 split: sum.splits option.splits venue_attempt.splits prod.splits
        dest: blocked)
qed

lemma mark_or_block_result:
  assumes "distinct (map it_id (lv_intents d))"
    and "mark_intent_submitting_or_block env iid (qi_reserved_cost qi) d = (r, d')"
  shows "r = None \<and> marks_intent iid (\<lambda>r. r\<lparr>it_intent := (it_intent r)\<lparr>loi_status := ''submitting''\<rparr>\<rparr>) d d' \<or>
    (\<exists>x. r = Some x \<and> releases_ok qi x \<and> same_core d d')"
proof -
  obtain o1 d1 where s1: "open_runtime d = (o1, d1)" by fastforce
  obtain o2 d2 where s2: "mark_live_order_intent_submitting iid d1 = (o2, d2)" by fastforce
  have c1: "same_core d d1" using core.opens[of d] by (simp add: s1)
  have "distinct (map it_id (lv_intents d1))" using assms(1) c1 by (simp add: same_core_def)
  from mark_submitting_result[OF this s2]
  have "o2 = Inr () \<and> marks_intent iid (\<lambda>r. r\<lparr>it_intent := (it_intent r)\<lparr>loi_status := ''submitting''\<rparr>\<rparr>) d d2 \<or>
      (\<exists>err. o2 = Inl err) \<and> same_core d d2"
    using c1 core.frame_trans[OF c1] by (auto simp: marks_intent_def same_core_def signal_ids_def)
  with assms(2) c1 show ?thesis
    by (auto simp: mark_intent_submitting_or_block_def s1 s2 Let_def split: sum.splits)
qed

lemma response_releases: "releases_ok qi (fst (handle_live_order_response env c sid qi iid now_ms resp d))"
proof -
  have "releases_ok qi x" if "classify_accepted_live_size render sid qi now_ms resp e = (Inl x, e')" for render e x e'
    using that by (auto simp: classify_accepted_live_size_def Let_def block_live_response_with_state_def split: option.splits if_splits)
  then show ?thesis
    by (auto simp: handle_live_order_response_def block_live_response_with_state_def Let_def split: sum.split prod.split option.split)
qed

lemma order_error_releases: "releases_ok qi (fst (handle_live_order_error env sid qi req iid now_ms err calls d))"
  by (simp add: handle_live_order_error_def Let_def)

subsection \<open>One order\<close>

definition called ::
  "venue_env \<Rightarrow> config \<Rightarrow> i64 \<Rightarrow> queued_intent \<Rightarrow> live_event option \<Rightarrow> intent_row \<Rightarrow> venue_world \<Rightarrow> venue_world \<Rightarrow> bool" where
  "called env c sid qi ev row y y' \<longleftrightarrow>
     vw_calls y' = vw_calls y @ [build_live_order_request (vn_render env) sid (it_id row) qi (qi_requested_price qi * qi_requested_size qi)] \<and>
     it_attempted_at_ms row \<noteq> None \<and> loi_status (it_intent row) = ''submitting'' \<and> \<not> live_dry_run c \<and>
     snd (live_order_pre_submit_rejection qi (qi_requested_price qi * qi_requested_size qi) c) = None \<and>
     (\<exists>x. ev = Some x \<and> is_signal_event (qi_signal_id qi) x) \<and> qi_signal_id qi \<in> signal_ids (vw_db y')"

text \<open>The database and the calls after one order: the intents are extended by at most one row.\<close>

definition submission_effect ::
  "venue_env \<Rightarrow> config \<Rightarrow> i64 \<Rightarrow> queued_intent \<Rightarrow> live_event option \<Rightarrow> venue_world \<Rightarrow> venue_world \<Rightarrow> bool" where
  "submission_effect env c sid qi ev y y' \<longleftrightarrow> signal_ids (vw_db y) \<subseteq> signal_ids (vw_db y') \<and>
     (lv_intents (vw_db y') = lv_intents (vw_db y) \<and> lv_intent_seq (vw_db y') = lv_intent_seq (vw_db y) \<and> vw_calls y' = vw_calls y \<or>
      (\<exists>row. lv_intents (vw_db y') = lv_intents (vw_db y) @ [row] \<and> lv_intent_seq (vw_db y') = lv_intent_seq (vw_db y) + 1 \<and>
         it_id row = lv_intent_seq (vw_db y) + 1 \<and> loi_session_id (it_intent row) = sid \<and>
         (it_attempted_at_ms row \<noteq> None \<longrightarrow>
           below_caps sid (live_max_session_orders c) (live_max_session_fills c) (vw_db y)) \<and>
         (vw_calls y' = vw_calls y \<or> called env c sid qi ev row y y')))"

lemma marks_last:
  assumes "intents_sound d" "lv_intents d1 = lv_intents d @ [row]" "it_id row = lv_intent_seq d + 1" "marks_intent (it_id row) f d1 d'"
  shows "lv_intents d' = lv_intents d @ [f row]"
proof -
  have "map (\<lambda>r. if it_id r = it_id row then f r else r) (lv_intents d) = lv_intents d"
    using assms(1,3) by (intro map_idI) (auto simp: intents_sound_def)
  with assms show ?thesis by (simp add: marks_intent_def)
qed

lemma sound_append:
  assumes "intents_sound d" "lv_intents d1 = lv_intents d @ [row]" "it_id row = lv_intent_seq d + 1" "lv_intent_seq d1 = lv_intent_seq d + 1"
  shows "intents_sound d1"
  using assms by (auto simp: intents_sound_def)

definition extends_by :: "live_db \<Rightarrow> i64 \<Rightarrow> intent_row \<Rightarrow> live_db \<Rightarrow> bool" where
  "extends_by d sid row d' \<longleftrightarrow> lv_intents d' = lv_intents d @ [row] \<and> lv_intent_seq d' = lv_intent_seq d + 1 \<and>
     it_id row = lv_intent_seq d + 1 \<and> loi_session_id (it_intent row) = sid \<and> signal_ids d \<subseteq> signal_ids d'"

lemma extends_same: "extends_by d sid row d1 \<Longrightarrow> same_intents d1 d' \<Longrightarrow> extends_by d sid row d'"
  by (simp add: extends_by_def same_intents_def signal_ids_def)

lemma extends_marked:
  assumes "intents_sound d" "extends_by d sid row d1" "marks_intent (it_id row) f d1 d'"
    and "it_id (f row) = it_id row" "loi_session_id (it_intent (f row)) = loi_session_id (it_intent row)"
  shows "extends_by d sid (f row) d'"
  using marks_last[OF assms(1) _ _ assms(3)] assms by (simp add: extends_by_def marks_intent_def)

lemma extends_distinct: "intents_sound d \<Longrightarrow> extends_by d sid row d' \<Longrightarrow> distinct (map it_id (lv_intents d'))"
  using sound_append[of d d' row] by (simp add: extends_by_def intents_sound_def)

lemma extends_effect:
  "extends_by (vw_db y) sid row d' \<Longrightarrow>
     (it_attempted_at_ms row \<noteq> None \<Longrightarrow> below_caps sid (live_max_session_orders c) (live_max_session_fills c) (vw_db y)) \<Longrightarrow>
     submission_effect env c sid qi ev y (y\<lparr>vw_db := d'\<rparr>)"
  by (auto simp: extends_by_def submission_effect_def)

lemma dry_run_effect:
  assumes "intents_sound d" "extends_by d sid row d1" "dry_run_live_order_outcome render sid (it_id row) qi req now_ms d1 = (r, d')"
  shows "r = OrderDryRun (qi_reserved_cost qi) \<and> (\<exists>row'. extends_by d sid row' d' \<and> it_attempted_at_ms row' = it_attempted_at_ms row)"
proof -
  obtain o1 d2 where s1: "open_runtime d1 = (o1, d2)" by fastforce
  have e2: "extends_by d sid row d2" using extends_same[OF assms(2)] intents.opens[of d1] by (simp add: s1)
  obtain o3 d3 where s3: "mark_intent_status ''dry_run'' ''dry-run'' (it_id row) d2 = (o3, d3)" by fastforce
  from mark_status_result[OF extends_distinct[OF assms(1) e2] s3]
  have "\<exists>row'. extends_by d sid row' d3 \<and> it_attempted_at_ms row' = it_attempted_at_ms row"
    using extends_marked[OF assms(1) e2] extends_same[OF e2 same_core_intents] by fastforce
  then have "\<exists>row'. extends_by d sid row' (snd (log_live_reconciliation_event re d3)) \<and> it_attempted_at_ms row' = it_attempted_at_ms row" for re
    using extends_same intents.event by blast
  with assms(3) e2 show ?thesis
    by (auto simp: dry_run_live_order_outcome_def s1 mark_live_order_intent_dry_run_def s3 split: sum.splits)
qed

lemma submit_one_effect:
  assumes sound: "intents_sound (vw_db y)"
    and run: "submit_one_live_order env c sid w qi ev now_ms y = (r, y')"
  shows "releases_ok qi r \<and> submission_effect env c sid qi ev y y'"
proof -
  define notional where "notional = qi_requested_price qi * qi_requested_size qi"
  define d where "d = vw_db y"
  define caps where "caps = below_caps sid (live_max_session_orders c) (live_max_session_fills c) d"
  note unfolded = submit_one_live_order_def Let_def notional_def[symmetric] d_def[symmetric]
  note effect = extends_effect[of y, folded d_def, of sid _ _ c env qi ev, folded caps_def]
  show ?thesis
  proof (cases rule: persist_intent_cases[OF refl, case_names error stored, where qi = qi and notional = notional and c = c and render = "vn_render env" and sid = sid and
        w = w and ev = ev and now_ms = now_ms and d = d])
    case (error err)
    with run show ?thesis
      by (auto simp: unfolded submission_effect_def same_core_def signal_ids_def split: prod.splits)
  next
    case (stored d1)
    then obtain row where row: "lv_intents d1 = lv_intents d @ [row]" "it_id row = lv_intent_seq d + 1"
        "it_attempted_at_ms row = None" "loi_session_id (it_intent row) = sid"
      by (auto simp: adds_intent_def live_intent_of_def)
    with stored have e1: "extends_by d sid row d1" and orders: "lv_orders d1 = lv_orders d"
      by (auto simp: extends_by_def adds_intent_def)
    note sound' = sound[folded d_def]
    show ?thesis
    proof (cases "snd (live_order_pre_submit_rejection qi notional c)")
      case (Some reason)
      with run stored(1) effect[OF e1] row(3) show ?thesis by (auto simp: unfolded)
    next
      case None
      obtain o2 d2 where s2: "reserve_live_order_submission env sid (it_id row) now_ms (live_max_session_orders c)
          (live_max_session_fills c) (qi_reserved_cost qi) d1 = (o2, d2)" by fastforce
      from reserve_result[OF extends_distinct[OF sound' e1] s2] show ?thesis
      proof
        assume "\<exists>x. o2 = Inl x \<and> releases_ok qi x \<and> same_core d1 d2"
        with run stored(1) None s2 row(2,3) effect[of row d2] extends_same[OF e1 same_core_intents] show ?thesis
          by (auto simp: unfolded)
      next
        assume o2: "o2 = Inr () \<and> reserves (it_id row) now_ms sid (live_max_session_orders c) (live_max_session_fills c) d1 d2"
        define row2 where "row2 = row\<lparr>it_attempted_at_ms := Some now_ms\<rparr>"
        from o2 have e2: "extends_by d sid row2 d2" unfolding row2_def
          by (intro extends_marked[OF sound' e1]) (auto simp: reserves_def)
        have same_counts: "attempted_in_session sid d1 = attempted_in_session sid d" "fills_in_session sid d1 = fills_in_session sid d"
          using row orders by (simp_all add: attempted_in_session_def fills_in_session_def)
        with o2 have caps by (simp add: reserves_def below_caps_def caps_def)
        have id2: "it_id row2 = lv_intent_seq d + 1" using row(2) by (simp add: row2_def)
        let ?req = "build_live_order_request (vn_render env) sid (it_id row2) qi notional"
        have sig: "qi_signal_id qi \<in> signal_ids d2"
          using stored(3) o2 by (auto simp: reserves_def marks_intent_def)
        show ?thesis
        proof (cases "live_dry_run c")
          case True
          obtain r3 d3 where s3: "dry_run_live_order_outcome (vn_render env) sid (it_id row2) qi ?req now_ms d2 = (r3, d3)" by fastforce
          from dry_run_effect[OF sound' e2 s3] run stored(1) None s2 o2 s3 row(2) id2 True effect \<open>caps\<close> show ?thesis
            by (auto simp: unfolded)
        next
          case False
          obtain o3 d3 where s3: "mark_intent_submitting_or_block env (it_id row2) (qi_reserved_cost qi) d2 = (o3, d3)" by fastforce
          from mark_or_block_result[OF extends_distinct[OF sound' e2] s3] show ?thesis
          proof
            assume "\<exists>x. o3 = Some x \<and> releases_ok qi x \<and> same_core d2 d3"
            with run stored(1) None s2 o2 s3 row(2) id2 False effect[of row2 d3] \<open>caps\<close> extends_same[OF e2 same_core_intents]
            show ?thesis by (auto simp: unfolded)
          next
            assume o3: "o3 = None \<and> marks_intent (it_id row2) (\<lambda>r. r\<lparr>it_intent := (it_intent r)\<lparr>loi_status := ''submitting''\<rparr>\<rparr>) d2 d3"
            define row3 where "row3 = row2\<lparr>it_intent := (it_intent row2)\<lparr>loi_status := ''submitting''\<rparr>\<rparr>"
            from o3 have e3: "extends_by d sid row3 d3" unfolding row3_def
              by (intro extends_marked[OF sound' e2]) auto
            have sig3: "qi_signal_id qi \<in> signal_ids d3" using sig o3 by (simp add: marks_intent_def)
            obtain r4 d4 where s4: "(case vn_submit env (vw_calls y) ?req of
                Inr resp \<Rightarrow> handle_live_order_response env c sid qi (it_id row2) now_ms resp d3
              | Inl err \<Rightarrow> handle_live_order_error env sid qi ?req (it_id row2) now_ms err (vw_calls y @ [?req]) d3) = (r4, d4)" by fastforce
            have c4: "same_intents d3 d4" and rel: "releases_ok qi r4"
              using s4 intents.response intents.order_error response_releases order_error_releases
              by (auto split: sum.splits) (metis fst_conv snd_conv)+
            have end_state: "r = r4" "y' = y\<lparr>vw_db := d4, vw_calls := vw_calls y @ [?req]\<rparr>"
              using run stored(1) None s2 o2 s3 o3 row(2) id2 False s4[unfolded id2] by (simp_all add: unfolded)
            have e4: "extends_by d sid row3 d4" by (rule extends_same[OF e3 c4])
            have "called env c sid qi ev row3 y y'"
              using None False stored(4) sig3 c4
              by (simp add: called_def end_state row3_def row2_def notional_def same_intents_def signal_ids_def)
            with e4 rel \<open>caps\<close> show ?thesis
              by (auto simp: submission_effect_def end_state extends_by_def d_def[symmetric] caps_def)
          qed
        qed
      qed
    qed
  qed
qed

subsection \<open>The invariant of the worker\<close>

definition calls_recorded :: "i64 \<Rightarrow> venue_world \<Rightarrow> bool" where
  "calls_recorded sid y \<longleftrightarrow> (\<forall>req \<in> set (vw_calls y). \<exists>row \<in> set (lv_intents (vw_db y)). it_id row = orq_intent_id req \<and>
     loi_session_id (it_intent row) = sid \<and> it_attempted_at_ms row \<noteq> None \<and> loi_status (it_intent row) = ''submitting'')"

definition worker_sound :: "config \<Rightarrow> i64 \<Rightarrow> venue_world \<Rightarrow> bool" where
  "worker_sound c sid y \<longleftrightarrow> intents_sound (vw_db y) \<and> distinct (map orq_intent_id (vw_calls y)) \<and> calls_recorded sid y \<and>
     (live_max_session_orders c = 0 \<or> length (attempted_in_session sid (vw_db y)) \<le> unat (live_max_session_orders c))"

lemma request_intent [simp]: "orq_intent_id (build_live_order_request render sid iid qi notional) = iid"
  by (simp add: build_live_order_request_def)

lemma effect_sound:
  assumes "worker_sound c sid y" "submission_effect env c sid qi ev y y'"
  shows "worker_sound c sid y'"
proof -
  consider (same) "lv_intents (vw_db y') = lv_intents (vw_db y)" "lv_intent_seq (vw_db y') = lv_intent_seq (vw_db y)"
      "vw_calls y' = vw_calls y"
    | (row) row where "lv_intents (vw_db y') = lv_intents (vw_db y) @ [row]" "lv_intent_seq (vw_db y') = lv_intent_seq (vw_db y) + 1"
      "it_id row = lv_intent_seq (vw_db y) + 1" "loi_session_id (it_intent row) = sid"
      "it_attempted_at_ms row \<noteq> None \<longrightarrow> below_caps sid (live_max_session_orders c) (live_max_session_fills c) (vw_db y)"
      "vw_calls y' = vw_calls y \<or> called env c sid qi ev row y y'"
    using assms(2) by (auto simp: submission_effect_def)
  then show ?thesis
  proof cases
    case same
    with assms(1) show ?thesis
      by (simp add: worker_sound_def calls_recorded_def intents_sound_def attempted_in_session_def)
  next
    case row
    have sound: "intents_sound (vw_db y')" using assms(1) row(1,2,3) sound_append by (auto simp: worker_sound_def)
    have old: "\<forall>req \<in> set (vw_calls y). orq_intent_id req \<le> lv_intent_seq (vw_db y)"
      using assms(1) unfolding worker_sound_def calls_recorded_def intents_sound_def by metis
    then have fresh: "it_id row \<notin> orq_intent_id ` set (vw_calls y)" using row(3) by fastforce
    have ids: "distinct (map orq_intent_id (vw_calls y'))"
      using assms(1) row(6) fresh by (auto simp: worker_sound_def called_def)
    have recorded: "calls_recorded sid y'"
      unfolding calls_recorded_def
    proof
      fix req assume "req \<in> set (vw_calls y')"
      then consider "req \<in> set (vw_calls y)" | "called env c sid qi ev row y y'" "orq_intent_id req = it_id row"
        using row(6) by (auto simp: called_def)
      then show "\<exists>row \<in> set (lv_intents (vw_db y')). it_id row = orq_intent_id req \<and> loi_session_id (it_intent row) = sid \<and>
        it_attempted_at_ms row \<noteq> None \<and> loi_status (it_intent row) = ''submitting''"
      proof cases
        case 1
        with assms(1) show ?thesis unfolding worker_sound_def calls_recorded_def row(1) set_append by blast
      next
        case 2
        with row(1,4) show ?thesis by (auto simp: called_def)
      qed
    qed
    have "live_max_session_orders c = 0 \<or> length (attempted_in_session sid (vw_db y')) \<le> unat (live_max_session_orders c)"
      using assms(1) row(1,4,5) by (auto simp: worker_sound_def attempted_in_session_def below_caps_def)
    with sound ids recorded show ?thesis by (simp add: worker_sound_def)
  qed
qed

lemma session_calls_bound:
  assumes "worker_sound c sid y"
  shows "length (vw_calls y) \<le> length (attempted_in_session sid (vw_db y))"
proof -
  let ?rows = "attempted_in_session sid (vw_db y)"
  have "set (map orq_intent_id (vw_calls y)) \<subseteq> set (map it_id ?rows)"
  proof
    fix i assume "i \<in> set (map orq_intent_id (vw_calls y))"
    then obtain req where "req \<in> set (vw_calls y)" "i = orq_intent_id req" by auto
    with assms obtain row where "row \<in> set (lv_intents (vw_db y))" "it_id row = i" "loi_session_id (it_intent row) = sid"
        "it_attempted_at_ms row \<noteq> None"
      unfolding worker_sound_def calls_recorded_def by metis
    then show "i \<in> set (map it_id ?rows)" unfolding attempted_in_session_def by auto
  qed
  moreover have "card (set (map orq_intent_id (vw_calls y))) = length (vw_calls y)"
    using assms by (metis distinct_card length_map worker_sound_def)
  ultimately show ?thesis by (metis List.finite_set card_length card_mono le_trans length_map)
qed

subsection \<open>One batch\<close>

definition fill_within :: "queued_intent \<Rightarrow> f64 \<Rightarrow> bool" where
  "fill_within qi x \<longleftrightarrow> \<not> x \<le> 0 \<and> \<not> qi_requested_size qi + fill_tolerance (qi_requested_size qi) < x \<and>
     \<not> x + fill_tolerance (qi_requested_size qi) < qi_requested_size qi"

definition price_of_fill :: "queued_intent \<Rightarrow> f64 \<Rightarrow> bool" where
  "price_of_fill qi p \<longleftrightarrow> p = qi_requested_price qi \<or> is_finite p \<and> 0 < p"

lemma response_filled:
  "fst (handle_live_order_response env c sid qi iid now_ms resp d) = OrderFilled x p oid \<Longrightarrow>
     fill_within qi x \<and> price_of_fill qi p"
proof -
  have size: "fill_within qi x" if "classify_accepted_live_size render sid qi now_ms resp e = (Inr (Some x), e')" for render e x e'
    using that by (auto simp: classify_accepted_live_size_def Let_def block_live_response_with_state_def fill_within_def
        split: option.splits if_splits)
  have blocked: False if "classify_accepted_live_size render sid qi now_ms resp e = (Inl (OrderFilled x p oid), e')" for render e e'
    using that by (auto simp: classify_accepted_live_size_def Let_def block_live_response_with_state_def split: option.splits if_splits)
  have price: "price_of_fill qi (live_response_fill_price env qi resp)"
    by (simp add: price_of_fill_def live_response_fill_price_def split: option.split)
  show "fst (handle_live_order_response env c sid qi iid now_ms resp d) = OrderFilled x p oid \<Longrightarrow> ?thesis"
    by (auto simp: handle_live_order_response_def block_live_response_with_state_def Let_def price
        split: sum.splits prod.splits option.splits if_splits dest: size blocked)
qed

lemma submit_one_filled:
  assumes "submit_one_live_order env c sid w qi ev now_ms y = (OrderFilled x p oid, y')"
  shows "fill_within qi x \<and> price_of_fill qi p"
proof -
  have reserve: False if "reserve_live_order_submission env sid iid t mo mf cost d = (Inl (OrderFilled x p oid), d')" for iid t mo mf cost d d'
    using that by (auto simp: reserve_live_order_submission_def block_live_response_with_state_def Let_def
        split: sum.splits prod.splits option.splits venue_attempt.splits)
  have mark: False if "mark_intent_submitting_or_block env iid cost d = (Some (OrderFilled x p oid), d')" for iid cost d d'
    using that by (auto simp: mark_intent_submitting_or_block_def Let_def split: sum.splits prod.splits)
  have response: "fill_within qi x \<and> price_of_fill qi p"
    if "handle_live_order_response env c sid qi iid t resp d = (OrderFilled x p oid, d')" for iid t resp d d'
    using response_filled[of env c sid qi iid t resp d] that by simp
  show ?thesis using assms
    by (auto simp: submit_one_live_order_def dry_run_live_order_outcome_def handle_live_order_error_def Let_def
        split: sum.splits prod.splits option.splits if_splits dest: reserve mark response)
qed

text \<open>What a recorded call says of the batch it belongs to.\<close>

definition call_allowed :: "venue_env \<Rightarrow> config \<Rightarrow> i64 \<Rightarrow> submission_request \<Rightarrow> live_db \<Rightarrow> order_request \<Rightarrow> bool" where
  "call_allowed env c sid rq d req \<longleftrightarrow> (\<exists>qi \<in> set (smr_orders rq). \<exists>iid.
     req = build_live_order_request (vn_render env) sid iid qi (qi_requested_price qi * qi_requested_size qi) \<and> \<not> live_dry_run c \<and>
     snd (live_order_pre_submit_rejection qi (qi_requested_price qi * qi_requested_size qi) c) = None \<and>
     list_ex (is_signal_event (qi_signal_id qi)) (smr_critical_events rq) \<and> qi_signal_id qi \<in> signal_ids d)"

lemma call_allowed_mono: "call_allowed env c sid rq d req \<Longrightarrow> signal_ids d \<subseteq> signal_ids d' \<Longrightarrow> call_allowed env c sid rq d' req"
  unfolding call_allowed_def by blast

lemma critical_event_member:
  "critical_signal_event_for_order evs i = Some x \<Longrightarrow> list_ex (is_signal_event i) evs"
  by (induction evs) (auto simp: critical_signal_event_for_order_def split: if_splits)

definition batch_effect :: "venue_env \<Rightarrow> config \<Rightarrow> i64 \<Rightarrow> submission_request \<Rightarrow> venue_world \<Rightarrow> venue_world \<Rightarrow> bool" where
  "batch_effect env c sid rq y y' \<longleftrightarrow> worker_sound c sid y' \<and> signal_ids (vw_db y) \<subseteq> signal_ids (vw_db y') \<and>
     (\<exists>new. vw_calls y' = vw_calls y @ new \<and> list_all (call_allowed env c sid rq (vw_db y')) new)"

lemma batch_effect_refl: "worker_sound c sid y \<Longrightarrow> batch_effect env c sid rq y y"
  by (simp add: batch_effect_def)

lemma batch_effect_trans:
  "batch_effect env c sid rq y y1 \<Longrightarrow> batch_effect env c sid rq y1 y2 \<Longrightarrow> batch_effect env c sid rq y y2"
  unfolding batch_effect_def list_all_iff using call_allowed_mono by fastforce

lemma same_core_worker:
  "same_core (vw_db y) d \<Longrightarrow> worker_sound c sid y \<Longrightarrow> worker_sound c sid (y\<lparr>vw_db := d\<rparr>)"
  by (simp add: worker_sound_def same_core_def intents_sound_def calls_recorded_def attempted_in_session_def)

lemma batch_effect_same_core:
  "batch_effect env c sid rq y y1 \<Longrightarrow> same_core (vw_db y1) d \<Longrightarrow> batch_effect env c sid rq y (y1\<lparr>vw_db := d\<rparr>)"
proof -
  assume e: "batch_effect env c sid rq y y1" and same: "same_core (vw_db y1) d"
  note ids = same_core_signal_ids[OF same]
  have "call_allowed env c sid rq d = call_allowed env c sid rq (vw_db y1)" by (intro ext) (simp add: call_allowed_def ids)
  with e same_core_worker[OF same] ids show ?thesis by (simp add: batch_effect_def)
qed

lemma spawn_world [simp]:
  "vw_db (spawn_onchain_fill_verification c sid qi x oid y) = vw_db y"
  "vw_calls (spawn_onchain_fill_verification c sid qi x oid y) = vw_calls y"
  by (simp_all add: spawn_onchain_fill_verification_def)

lemma batch_effect_spawn:
  "batch_effect env c sid rq y y1 \<Longrightarrow> batch_effect env c sid rq y (spawn_onchain_fill_verification c sid qi x oid y1)"
  by (simp add: batch_effect_def worker_sound_def calls_recorded_def)

lemma one_order_batch_effect:
  assumes "worker_sound c sid y" "qi \<in> set (smr_orders rq)"
    and "submit_one_live_order env c sid w qi (critical_signal_event_for_order (smr_critical_events rq) (qi_signal_id qi)) now_ms y = (r, y')"
  shows "batch_effect env c sid rq y y'"
proof -
  have eff: "submission_effect env c sid qi (critical_signal_event_for_order (smr_critical_events rq) (qi_signal_id qi)) y y'"
    using submit_one_effect[OF _ assms(3)] assms(1) by (simp add: worker_sound_def)
  have "\<exists>new. vw_calls y' = vw_calls y @ new \<and> list_all (call_allowed env c sid rq (vw_db y')) new"
  proof (cases "vw_calls y' = vw_calls y")
    case False
    with eff obtain row where "called env c sid qi (critical_signal_event_for_order (smr_critical_events rq) (qi_signal_id qi)) row y y'"
      by (auto simp: submission_effect_def)
    then show ?thesis using assms(2) critical_event_member unfolding called_def call_allowed_def by fastforce
  qed simp
  with effect_sound[OF assms(1) eff] eff show ?thesis by (simp add: batch_effect_def submission_effect_def)
qed

text \<open>What the feedback of a batch says of its orders; the kept order is the one whose outcome is unknown.\<close>

definition fill_of :: "queued_intent \<Rightarrow> fill_feedback \<Rightarrow> bool" where
  "fill_of qi f \<longleftrightarrow> ff_signal_id f = qi_signal_id qi \<and> fill_within qi (ff_filled_size f) \<and> price_of_fill qi (ff_fill_price f)"

definition accounted :: "queued_intent list \<Rightarrow> submission_feedback \<Rightarrow> submission_feedback \<Rightarrow> bool" where
  "accounted orders fb fb' \<longleftrightarrow> (\<exists>filled rejected kept fills.
     mset orders = mset filled + mset rejected + mset kept \<and>
     smf_fills fb' = smf_fills fb @ fills \<and> list_all2 fill_of filled fills \<and>
     smf_releases fb' = smf_releases fb @ map (\<lambda>qi. (qi_strategy qi, qi_reserved_cost qi)) rejected \<and>
     smf_rejected_signal_ids fb' = smf_rejected_signal_ids fb @ map qi_signal_id rejected \<and>
     (kept = [] \<or> length kept = 1 \<and> (\<exists>reason. smf_state_update fb' = Some \<lparr>smu_state = ''unknown_order'', smu_reason = reason\<rparr>)))"

lemma release_order_simps [simp]:
  "smf_fills (release_order qi x fb) = smf_fills fb"
  "smf_releases (release_order qi x fb) = smf_releases fb @ [(qi_strategy qi, x)]"
  "smf_rejected_signal_ids (release_order qi x fb) = smf_rejected_signal_ids fb @ [qi_signal_id qi]"
  "smf_state_update (release_order qi x fb) = smf_state_update fb"
  by (simp_all add: release_order_def)

lemma release_unsubmitted_simps [simp]:
  "smf_fills (release_unsubmitted_orders_after_block rest fb) = smf_fills fb"
  "smf_releases (release_unsubmitted_orders_after_block rest fb) = smf_releases fb @ map (\<lambda>qi. (qi_strategy qi, qi_reserved_cost qi)) rest"
  "smf_rejected_signal_ids (release_unsubmitted_orders_after_block rest fb) = smf_rejected_signal_ids fb @ map qi_signal_id rest"
  "smf_state_update (release_unsubmitted_orders_after_block rest fb) = smf_state_update fb"
  unfolding release_unsubmitted_orders_after_block_def by (induction rest arbitrary: fb) simp_all

lemma accounted_nil: "accounted [] fb fb"
  by (auto simp: accounted_def)

lemma accounted_filled:
  assumes "fill_of qi f" "accounted rest (fb\<lparr>smf_fills := smf_fills fb @ [f]\<rparr>) fb'"
  shows "accounted (qi # rest) fb fb'"
proof -
  from assms(2) obtain filled rejected kept fills where
    "mset rest = mset filled + mset rejected + mset kept" "smf_fills fb' = smf_fills fb @ [f] @ fills" "list_all2 fill_of filled fills"
    "smf_releases fb' = smf_releases fb @ map (\<lambda>qi. (qi_strategy qi, qi_reserved_cost qi)) rejected"
    "smf_rejected_signal_ids fb' = smf_rejected_signal_ids fb @ map qi_signal_id rejected"
    "kept = [] \<or> length kept = 1 \<and> (\<exists>reason. smf_state_update fb' = Some \<lparr>smu_state = ''unknown_order'', smu_reason = reason\<rparr>)"
    by (auto simp: accounted_def)
  with assms(1) show ?thesis unfolding accounted_def
    by (intro exI[of _ "qi # filled"] exI[of _ rejected] exI[of _ kept] exI[of _ "f # fills"]) auto
qed

lemma accounted_released:
  assumes "accounted rest (release_order qi (qi_reserved_cost qi) fb) fb'"
  shows "accounted (qi # rest) fb fb'"
proof -
  from assms obtain filled rejected kept fills where
    "mset rest = mset filled + mset rejected + mset kept" "smf_fills fb' = smf_fills fb @ fills" "list_all2 fill_of filled fills"
    "smf_releases fb' = smf_releases fb @ map (\<lambda>qi. (qi_strategy qi, qi_reserved_cost qi)) (qi # rejected)"
    "smf_rejected_signal_ids fb' = smf_rejected_signal_ids fb @ map qi_signal_id (qi # rejected)"
    "kept = [] \<or> length kept = 1 \<and> (\<exists>reason. smf_state_update fb' = Some \<lparr>smu_state = ''unknown_order'', smu_reason = reason\<rparr>)"
    by (auto simp: accounted_def)
  then show ?thesis unfolding accounted_def
    by (intro exI[of _ filled] exI[of _ "qi # rejected"] exI[of _ kept] exI[of _ fills]) auto
qed

lemma accounted_blocked:
  assumes "releases_ok qi (OrderBlocked state reason release)"
  shows "accounted (qi # rest) fb ((release_unsubmitted_orders_after_block rest
     (case release of Some x \<Rightarrow> release_order qi x fb | None \<Rightarrow> fb))\<lparr>smf_state_update := Some \<lparr>smu_state = state, smu_reason = reason\<rparr>\<rparr>)"
proof (cases release)
  case None
  with assms show ?thesis unfolding accounted_def
    by (intro exI[of _ "[]"] exI[of _ rest] exI[of _ "[qi]"] exI[of _ "[]"]) auto
next
  case (Some x)
  with assms show ?thesis unfolding accounted_def
    by (intro exI[of _ "[]"] exI[of _ "qi # rest"] exI[of _ "[]"] exI[of _ "[]"]) auto
qed

lemma accounted_residual:
  assumes "accounted orders fb fb1" "smf_state_update fb1 = None"
  shows "accounted orders fb (fb1\<lparr>smf_state_update := st\<rparr>)"
proof -
  from assms obtain filled rejected fills where
    "mset orders = mset filled + mset rejected" "smf_fills fb1 = smf_fills fb @ fills" "list_all2 fill_of filled fills"
    "smf_releases fb1 = smf_releases fb @ map (\<lambda>qi. (qi_strategy qi, qi_reserved_cost qi)) rejected"
    "smf_rejected_signal_ids fb1 = smf_rejected_signal_ids fb @ map qi_signal_id rejected"
    by (auto simp: accounted_def)
  then show ?thesis unfolding accounted_def
    by (intro exI[of _ filled] exI[of _ rejected] exI[of _ "[]"] exI[of _ fills]) auto
qed

lemma submit_orders_effect:
  assumes "worker_sound c sid y" "set orders \<subseteq> set (smr_orders rq)" "submit_orders env c sid rq orders fb n y = (fb', n', y')"
  shows "batch_effect env c sid rq y y' \<and> accounted orders fb fb'"
  using assms
proof (induction orders arbitrary: fb n y)
  case Nil
  then show ?case by (simp add: accounted_nil batch_effect_refl)
next
  case (Cons qi rest)
  obtain r y1 where one: "submit_one_live_order env c sid (smr_window rq) qi
      (critical_signal_event_for_order (smr_critical_events rq) (qi_signal_id qi)) (smr_now_ms rq) y = (r, y1)"
    by fastforce
  have e1: "batch_effect env c sid rq y y1" using one_order_batch_effect[OF Cons.prems(1) _ one] Cons.prems(2) by simp
  have rel: "releases_ok qi r" using submit_one_effect[OF _ one] Cons.prems(1) by (simp add: worker_sound_def)
  have rest: "set rest \<subseteq> set (smr_orders rq)" using Cons.prems(2) by simp
  have later: "batch_effect env c sid rq y y' \<and> accounted rest fb1 fb'"
    if "submit_orders env c sid rq rest fb1 n1 y2 = (fb', n', y')" "batch_effect env c sid rq y y2" for fb1 n1 y2
  proof -
    have "worker_sound c sid y2" using that(2) by (simp add: batch_effect_def)
    from Cons.IH[OF this rest that(1)] batch_effect_trans[OF that(2)] show ?thesis by blast
  qed
  show ?case
  proof (cases r)
    case (OrderFilled x p oid)
    have "fill_within qi x \<and> price_of_fill qi p" using submit_one_filled one OrderFilled by blast
    then have f: "fill_of qi \<lparr>ff_signal_id = qi_signal_id qi, ff_fill_price = p, ff_filled_size = x\<rparr>" by (simp add: fill_of_def)
    show ?thesis using Cons.prems(3) one OrderFilled later[OF _ batch_effect_spawn[OF e1]] accounted_filled[OF f] by auto
  next
    case (OrderRejected x)
    then show ?thesis using Cons.prems(3) one rel later[OF _ e1] accounted_released by auto
  next
    case (OrderDryRun x)
    then show ?thesis using Cons.prems(3) one rel later[OF _ e1] accounted_released by auto
  next
    case (OrderBlocked state reason release)
    then show ?thesis using Cons.prems(3) one rel e1 accounted_blocked[of qi state reason release rest fb] by (auto simp: Let_def)
  qed
qed

lemma submit_live_orders_effect:
  assumes "worker_sound c sid y" "submit_live_orders env c sid rq y = (fb, y')"
  shows "batch_effect env c sid rq y y'"
    and "accounted (smr_orders rq) \<lparr>smf_state_update = None, smf_releases = [], smf_fills = [], smf_rejected_signal_ids = [],
      smf_now_ms = smr_now_ms rq\<rparr> fb"
proof -
  obtain fb1 n1 y1 where all: "submit_orders env c sid rq (smr_orders rq) \<lparr>smf_state_update = None, smf_releases = [], smf_fills = [],
      smf_rejected_signal_ids = [], smf_now_ms = smr_now_ms rq\<rparr> 0 y = (fb1, n1, y1)" by (metis prod_cases3)
  note res = submit_orders_effect[OF assms(1) subset_refl all]
  from assms(2) all res show "batch_effect env c sid rq y y'"
    by (auto simp: submit_live_orders_def Let_def split: if_splits intro!: batch_effect_same_core core.worker_state)
  from assms(2) all res show "accounted (smr_orders rq) \<lparr>smf_state_update = None, smf_releases = [], smf_fills = [],
      smf_rejected_signal_ids = [], smf_now_ms = smr_now_ms rq\<rparr> fb"
    by (auto simp: submit_live_orders_def Let_def split: if_splits intro: accounted_residual)
qed

lemma worker_run_effect:
  assumes "worker_sound c sid y" "run_submission_worker env c sid rqs y = (fbs, y')"
  shows "worker_sound c sid y' \<and> signal_ids (vw_db y) \<subseteq> signal_ids (vw_db y') \<and>
    (\<exists>new. vw_calls y' = vw_calls y @ new \<and> (\<forall>req \<in> set new. \<exists>rq \<in> fst ` set rqs. call_allowed env c sid rq (vw_db y') req))"
  using assms
proof (induction rqs arbitrary: y fbs y')
  case Nil
  then show ?case by simp
next
  case (Cons p rqs)
  obtain rq received where p: "p = (rq, received)" by fastforce
  obtain fb y1 where one: "submit_live_orders env c sid rq y = (fb, y1)" by fastforce
  note e1 = submit_live_orders_effect(1)[OF Cons.prems(1) one]
  then obtain new1 where n1: "vw_calls y1 = vw_calls y @ new1" "\<forall>req \<in> set new1. call_allowed env c sid rq (vw_db y1) req"
    by (auto simp: batch_effect_def list_all_iff)
  show ?case
  proof (cases received)
    case False
    with Cons.prems(2) one p e1 n1 show ?thesis by (auto simp: batch_effect_def)
  next
    case True
    obtain fbs2 y2 where rest: "run_submission_worker env c sid rqs y1 = (fbs2, y2)" by fastforce
    from Cons.IH[OF _ rest] e1 obtain new2 where n2: "worker_sound c sid y2" "signal_ids (vw_db y1) \<subseteq> signal_ids (vw_db y2)"
        "vw_calls y2 = vw_calls y1 @ new2" "\<forall>req \<in> set new2. \<exists>rq \<in> fst ` set rqs. call_allowed env c sid rq (vw_db y2) req"
      by (auto simp: batch_effect_def)
    have y': "y' = y2" using Cons.prems(2) True p one rest by simp
    have "\<exists>rq \<in> fst ` set (p # rqs). call_allowed env c sid rq (vw_db y2) req" if "req \<in> set (new1 @ new2)" for req
      using that n1(2) n2(4) call_allowed_mono[OF _ n2(2)] p by fastforce
    with n1(1) n2 e1 show ?thesis unfolding y' batch_effect_def
      by (intro conjI exI[of _ "new1 @ new2"]) (auto dest: subset_trans)
  qed
qed

subsection \<open>Starting on a used database\<close>

lemma live_read:
  assumes "live_call ps (\<lambda>d. (Inr (g d), d)) d = (Inr x, d')"
  shows "\<exists>fs. d' = d\<lparr>lv_store := (lv_store d)\<lparr>db_faults := fs\<rparr>\<rparr> \<and> x = g d'"
  using assms by (cases rule: live_call_cases[of ps "\<lambda>d. (Inr (g d), d)" d]) auto

lemma sql_count_zero: "sql_count n = 0 \<longleftrightarrow> n = 0"
proof
  assume "sql_count n = 0"
  then have "unat (of_nat (min n (2 ^ 63 - 1)) :: u64) = 0" by (simp add: sql_count_def)
  then show "n = 0" by (simp add: unat_of_nat min_def split: if_splits)
qed (simp add: sql_count_def)

lemma bootstrap_clean_cases:
  assumes "fst (ensure_live_bootstrap_clean c d) = Inr ()"
  shows "lv_orders d = []" and "\<forall>r \<in> set (lv_intents d). loi_status (it_intent r) \<noteq> ''submitting''"
proof -
  from assms obtain d1 d2 d3 d4 where
    s1: "terminal_live_trading_halt_exists d = (Inr False, d1)" and
    s2: "unconfirmed_onchain_fill_count (onchain_reconcile_enabled c) d1 = (Inr 0, d2)" and
    s3: "live_order_count d2 = (Inr 0, d3)" and s4: "orphaned_venue_attempt_count d3 = (Inr 0, d4)"
    by (auto simp: ensure_live_bootstrap_clean_def Let_def word_neq_0_conv[symmetric] split: prod.splits sum.splits bool.splits if_splits)
  have rows: "lv_orders d3 = lv_orders d" "lv_intents d3 = lv_intents d"
    using live_read[OF s1[unfolded terminal_live_trading_halt_exists_def]]
      live_read[OF s2[unfolded unconfirmed_onchain_fill_count_def]] live_read[OF s3[unfolded live_order_count_def]] by auto
  have none: "lv_orders d3 = []" using live_read[OF s3[unfolded live_order_count_def]]
    by (metis length_0_conv sql_count_zero)
  with rows show "lv_orders d = []" by simp
  from live_read[OF s4[unfolded orphaned_venue_attempt_count_def]] obtain fs where
    "d4 = d3\<lparr>lv_store := (lv_store d3)\<lparr>db_faults := fs\<rparr>\<rparr>"
    "sql_count (length (filter (\<lambda>r. loi_status (it_intent r) = ''submitting'' \<and>
       \<not> list_ex (\<lambda>od. lor_intent_id (od_order od) = it_id r) (lv_orders d4)) (lv_intents d4))) = 0" by metis
  then have "filter (\<lambda>r. loi_status (it_intent r) = ''submitting'' \<and>
       \<not> list_ex (\<lambda>od. lor_intent_id (od_order od) = it_id r) (lv_orders d4)) (lv_intents d4) = []"
      "lv_orders d4 = []" "lv_intents d4 = lv_intents d"
    using none rows by (simp_all add: sql_count_zero)
  then show "\<forall>r \<in> set (lv_intents d). loi_status (it_intent r) \<noteq> ''submitting''" by (simp add: filter_empty_conv)
qed

lemma used_database_refused:
  assumes "calls_recorded sid y" "vw_calls y \<noteq> []" "set (lv_intents (vw_db y)) \<subseteq> set (lv_intents d)"
  shows "fst (ensure_live_bootstrap_clean c d) \<noteq> Inr ()"
proof
  assume "fst (ensure_live_bootstrap_clean c d) = Inr ()"
  note clean = bootstrap_clean_cases(2)[OF this]
  from assms(1,2) obtain row where "row \<in> set (lv_intents (vw_db y))" "loi_status (it_intent row) = ''submitting''"
    unfolding calls_recorded_def by (metis list.set_intros(1) neq_Nil_conv)
  with clean assms(3) show False by blast
qed

subsection \<open>Confirming a fill\<close>

definition read_covers :: "nat \<Rightarrow> string + onchain_position \<Rightarrow> bool" where
  "read_covers expected_raw x \<longleftrightarrow> (case x of Inl err \<Rightarrow> False
     | Inr p \<Rightarrow> ocp_collateral_decimals p = 6 \<and> (case parse_onchain_balance_raw (ocp_balance_raw p) of
         None \<Rightarrow> False | Some balance \<Rightarrow> expected_raw \<le> balance))"

lemma read_covers_iff:
  "read_covers expected_raw x \<longleftrightarrow> (\<exists>p balance. x = Inr p \<and> ocp_collateral_decimals p = 6 \<and>
     parse_onchain_balance_raw (ocp_balance_raw p) = Some balance \<and> expected_raw \<le> balance)"
  by (cases x) (auto simp: read_covers_def split: option.split)

lemma poll_confirms:
  "onchain_poll n reads k expected_raw l = Inr () \<longleftrightarrow> (\<exists>i < n. read_covers expected_raw (reads (k + i)))"
proof (induction n arbitrary: k l)
  case (Suc n)
  have "(\<exists>i < Suc n. read_covers expected_raw (reads (k + i))) \<longleftrightarrow>
    read_covers expected_raw (reads k) \<or> (\<exists>i < n. read_covers expected_raw (reads (Suc k + i)))"
    using less_Suc_eq_0_disj by auto
  then show ?case using Suc.IH
    by (auto simp: read_covers_def classify_onchain_read_def split: sum.splits option.splits if_splits)
qed simp

definition status_only :: "i64 \<Rightarrow> string \<Rightarrow> live_db \<Rightarrow> live_db \<Rightarrow> bool" where
  "status_only oid st d d' \<longleftrightarrow>
     (\<forall>r' \<in> set (lv_orders d'). r' \<in> set (lv_orders d) \<or> od_id r' = oid \<and> od_reconcile_status r' = Some st)"

lemma status_only_orders: "lv_orders d' = lv_orders d \<Longrightarrow> status_only oid st d d'"
  by (simp add: status_only_def)

lemma set_status_only: "status_only oid st d (snd (set_live_order_reconcile_status oid st d))"
  unfolding set_live_order_reconcile_status_def
  by (cases rule: live_call_cases[of "[]" "\<lambda>d. case update_orders oid (\<lambda>r. r\<lparr>od_reconcile_status := Some st\<rparr>) d of
       (n, d1) \<Rightarrow> (if n = 1 then Inr () else Inl (LiveMessage (''set reconcile status '' @ st @ '' updated '' @ nat_to_string n @
         '' rows for live order '' @ int_to_string oid @ '' (expected 1)'')), d1)" d])
    (auto simp: status_only_def update_orders_def)

lemma open_and_run_cases: "snd (open_and_run f d) = snd (open_runtime d) \<or> snd (open_and_run f d) = snd (f (snd (open_runtime d)))"
  by (auto simp: open_and_run_def split: prod.split sum.split)

lemma opened_orders: "lv_orders (snd (open_runtime d)) = lv_orders d"
  using core.opens[of d] by (simp add: same_core_def)

lemma retries_status_only:
  assumes "\<And>d. status_only oid st d (snd (f d))"
  shows "status_only oid st d (snd (persist_with_retries n f d))"
proof (induction n arbitrary: d)
  case (Suc n)
  obtain x d1 where run: "open_and_run f d = (x, d1)" by fastforce
  have one: "status_only oid st d d1"
    using open_and_run_cases[of f d] assms[of "snd (open_runtime d)"] by (auto simp: run status_only_def opened_orders)
  show ?case
  proof (cases x)
    case (Inl err)
    with one Suc.IH[of d1] run show ?thesis by (auto simp: status_only_def)
  qed (simp add: run one)
qed (simp add: status_only_def)

lemma event_orders: "lv_orders (snd (log_live_reconciliation_event re d)) = lv_orders d"
  using core.event[of d re] by (simp add: same_core_def)

lemma compute_orders: "lv_orders (snd (compute_onchain_expected_raw sum_real v d)) = lv_orders d"
proof -
  have "same_core d (snd (matched_size_for_token_up_to_order sum_real sid tok oid d))" for sid tok oid d
    unfolding matched_size_for_token_up_to_order_def Let_def by (rule core.call) simp
  then have "lv_orders (snd (matched_size_for_token_up_to_order sum_real sid tok oid d)) = lv_orders d" for sid tok oid d
    by (simp add: same_core_def)
  then show ?thesis
    by (auto simp: compute_onchain_expected_raw_def opened_orders case_prod_beta split: sum.split)
qed

lemma halt_status_only:
  "status_only (ocv_live_order_id v) ''failed'' d (raise_onchain_reconciliation_halt render v now expected_raw check d)"
proof -
  have "status_only (ocv_live_order_id v) ''failed'' d
    (snd (persist_with_retries n (log_live_reconciliation_event re) d))" for n re
    by (rule retries_status_only) (simp add: status_only_orders event_orders)
  moreover have "status_only (ocv_live_order_id v) ''failed'' e (mark_onchain_reconcile_status v ''failed'' e)" for e
    unfolding mark_onchain_reconcile_status_def by (rule retries_status_only) (rule set_status_only)
  ultimately show ?thesis unfolding raise_onchain_reconciliation_halt_def status_only_def by blast
qed

lemma verify_confirms:
  assumes "row \<in> set (lv_orders (verify_onchain_fill sum_real render reads now v d))" "od_reconcile_status row = Some ''confirmed''"
    and "row \<notin> set (lv_orders d)"
  shows "od_id row = ocv_live_order_id v \<and> (\<exists>expected_raw. fst (compute_onchain_expected_raw sum_real v d) = Some expected_raw \<and>
    (\<exists>i < unat (ocv_attempts v). read_covers expected_raw (reads i)))"
proof -
  obtain e d1 where comp: "compute_onchain_expected_raw sum_real v d = (e, d1)" by fastforce
  have orders: "lv_orders d1 = lv_orders d" using compute_orders[of sum_real v d] by (simp add: comp)
  have no_halt: False if "row \<in> set (lv_orders (raise_onchain_reconciliation_halt render v now x check d1))" for x check
    using halt_status_only[of v d1 render now x check] that assms(2,3) by (auto simp: status_only_def orders)
  have confirmed: "od_id row = ocv_live_order_id v" if "row \<in> set (lv_orders (mark_onchain_reconcile_status v ''confirmed'' d1))"
  proof -
    have "status_only (ocv_live_order_id v) ''confirmed'' d1 (mark_onchain_reconcile_status v ''confirmed'' d1)"
      unfolding mark_onchain_reconcile_status_def by (rule retries_status_only) (rule set_status_only)
    with that assms(3) show ?thesis by (auto simp: status_only_def orders)
  qed
  show ?thesis
  proof (cases e)
    case None
    with assms(1) comp no_halt show ?thesis by (auto simp: verify_onchain_fill_def)
  next
    case (Some x)
    show ?thesis
    proof (cases "onchain_poll (unat (ocv_attempts v)) reads 0 x (Unconfirmed ''no on-chain read completed'')")
      case (Inl check)
      with Some assms(1) comp no_halt show ?thesis by (auto simp: verify_onchain_fill_def)
    next
      case (Inr u)
      with Some assms(1) comp confirmed poll_confirms[of "unat (ocv_attempts v)" reads 0 x "Unconfirmed ''no on-chain read completed''"]
      show ?thesis by (auto simp: verify_onchain_fill_def)
    qed
  qed
qed

text \<open>Without failing statements every verification ends in one of its two verdicts.\<close>

lemma live_call_ok: "\<forall>n \<in> set ps. unat n < 2 ^ 63 \<Longrightarrow> db_faults (lv_store d) = [] \<Longrightarrow> live_call ps f d = f d"
  by (auto simp: live_call_def on_store_def sql_call_def not_le)

lemma open_runtime_ok: "db_faults (lv_store d) = [] \<Longrightarrow> open_runtime d = (Inr (), d)"
  by (simp add: open_runtime_def live_call_ok)

lemma length_filter_key:
  "distinct (map f xs) \<Longrightarrow> x \<in> set xs \<Longrightarrow> f x = k \<Longrightarrow> length (filter (\<lambda>y. f y = k) xs) = 1"
  by (induction xs) (auto simp: filter_empty_conv, metis image_eqI)

lemma retries_ok:
  assumes "db_faults (lv_store d) = []" "f d = (Inr x, d')" "0 < n"
  shows "persist_with_retries n f d = (True, d')"
  using assms by (cases n) (simp_all add: open_and_run_def open_runtime_ok)

definition with_status :: "i64 \<Rightarrow> string \<Rightarrow> order_row list \<Rightarrow> order_row list" where
  "with_status oid st = map (\<lambda>r. if od_id r = oid then r\<lparr>od_reconcile_status := Some st\<rparr> else r)"

lemma mark_status_ok:
  assumes "db_faults (lv_store d) = []" "distinct (map od_id (lv_orders d))" "row \<in> set (lv_orders d)" "od_id row = ocv_live_order_id v"
  shows "mark_onchain_reconcile_status v st d = d\<lparr>lv_orders := with_status (ocv_live_order_id v) st (lv_orders d)\<rparr>"
proof -
  have one: "length (filter (\<lambda>r. od_id r = ocv_live_order_id v) (lv_orders d)) = 1"
    by (rule length_filter_key[OF assms(2,3,4)])
  have "set_live_order_reconcile_status (ocv_live_order_id v) st d =
    (Inr (), d\<lparr>lv_orders := with_status (ocv_live_order_id v) st (lv_orders d)\<rparr>)"
    unfolding set_live_order_reconcile_status_def update_orders_def with_status_def
    by (subst live_call_ok) (use assms(1) one in simp_all)
  from retries_ok[where f = "set_live_order_reconcile_status (ocv_live_order_id v) st", OF assms(1) this] show ?thesis
    by (simp add: mark_onchain_reconcile_status_def ONCHAIN_HALT_PERSIST_ATTEMPTS_def)
qed

lemma halt_persisted:
  assumes "db_faults (lv_store d) = []" "session_known d (lre_session_id re)" "unat (lre_timestamp_ms re) < 2 ^ 63"
  shows "\<exists>re'. snd (persist_with_retries ONCHAIN_HALT_PERSIST_ATTEMPTS (log_live_reconciliation_event re) d) =
      d\<lparr>lv_reconciliation := lv_reconciliation d @ [(lv_reconciliation_seq d + 1, re')],
        lv_reconciliation_seq := lv_reconciliation_seq d + 1\<rparr> \<and>
    lre_session_id re' = lre_session_id re \<and> lre_severity re' = lre_severity re \<and> lre_event_type re' = lre_event_type re"
proof -
  let ?row = "re\<lparr>lre_local_value := sql_real_opt (lre_local_value re), lre_remote_value := sql_real_opt (lre_remote_value re)\<rparr>"
  have "log_live_reconciliation_event re d = (Inr (lv_reconciliation_seq d + 1),
      d\<lparr>lv_reconciliation := lv_reconciliation d @ [(lv_reconciliation_seq d + 1, ?row)],
        lv_reconciliation_seq := lv_reconciliation_seq d + 1\<rparr>)"
    unfolding log_live_reconciliation_event_def Let_def
    by (subst live_call_ok) (use assms in simp_all)
  from retries_ok[where f = "log_live_reconciliation_event re", OF assms(1) this] show ?thesis
    by (intro exI[of _ ?row]) (simp add: ONCHAIN_HALT_PERSIST_ATTEMPTS_def)
qed

definition onchain_confirmed :: "(f64 list \<Rightarrow> f64) \<Rightarrow> (nat \<Rightarrow> string + onchain_position) \<Rightarrow> onchain_verification \<Rightarrow> live_db \<Rightarrow> bool" where
  "onchain_confirmed sum_real reads v d \<longleftrightarrow> (case fst (compute_onchain_expected_raw sum_real v d) of None \<Rightarrow> False
     | Some expected_raw \<Rightarrow> list_ex (\<lambda>i. read_covers expected_raw (reads i)) [0..<unat (ocv_attempts v)])"

lemma compute_ok: "db_faults (lv_store d) = [] \<Longrightarrow> snd (compute_onchain_expected_raw sum_real v d) = d"
  by (simp add: compute_onchain_expected_raw_def open_runtime_ok matched_size_for_token_up_to_order_def live_call_ok Let_def)

lemma raise_halt_ok:
  assumes "db_faults (lv_store d) = []" "distinct (map od_id (lv_orders d))" "row \<in> set (lv_orders d)" "od_id row = ocv_live_order_id v"
    and "session_known d (ocv_session_id v)" "unat now < 2 ^ 63"
  shows "lv_orders (raise_onchain_reconciliation_halt render v now x check d) = with_status (ocv_live_order_id v) ''failed'' (lv_orders d) \<and>
    (\<exists>re. lv_reconciliation (raise_onchain_reconciliation_halt render v now x check d) = lv_reconciliation d @ [(lv_reconciliation_seq d + 1, re)] \<and>
      lre_session_id re = ocv_session_id v \<and> lre_severity re = ''critical'' \<and>
      lre_event_type re \<in> {''onchain_fill_short'', ''onchain_fill_unconfirmed''})"
proof -
  have re: "lre_session_id (halt_event render v now x check) = ocv_session_id v" "lre_severity (halt_event render v now x check) = ''critical''"
    "lre_timestamp_ms (halt_event render v now x check) = now"
    "lre_event_type (halt_event render v now x check) \<in> {''onchain_fill_short'', ''onchain_fill_unconfirmed''}"
    by (simp_all add: halt_event_def split: onchain_check.split)
  obtain re' where p: "snd (persist_with_retries ONCHAIN_HALT_PERSIST_ATTEMPTS (log_live_reconciliation_event (halt_event render v now x check)) d) =
      d\<lparr>lv_reconciliation := lv_reconciliation d @ [(lv_reconciliation_seq d + 1, re')],
        lv_reconciliation_seq := lv_reconciliation_seq d + 1\<rparr>"
    "lre_session_id re' = ocv_session_id v" "lre_severity re' = ''critical''" "lre_event_type re' = lre_event_type (halt_event render v now x check)"
    using halt_persisted[of d "halt_event render v now x check"] assms(1,5,6) re by auto
  show ?thesis using assms re p unfolding raise_onchain_reconciliation_halt_def p(1)
    by (subst (1 2) mark_status_ok[where row = row]) auto
qed

lemma verify_verdict:
  assumes "db_faults (lv_store d) = []" "distinct (map od_id (lv_orders d))" "row \<in> set (lv_orders d)" "od_id row = ocv_live_order_id v"
    and "session_known d (ocv_session_id v)" "unat now < 2 ^ 63"
  shows "if onchain_confirmed sum_real reads v d
    then lv_orders (verify_onchain_fill sum_real render reads now v d) = with_status (ocv_live_order_id v) ''confirmed'' (lv_orders d) \<and>
      lv_reconciliation (verify_onchain_fill sum_real render reads now v d) = lv_reconciliation d
    else lv_orders (verify_onchain_fill sum_real render reads now v d) = with_status (ocv_live_order_id v) ''failed'' (lv_orders d) \<and>
      (\<exists>re. lv_reconciliation (verify_onchain_fill sum_real render reads now v d) = lv_reconciliation d @ [(lv_reconciliation_seq d + 1, re)] \<and>
        lre_session_id re = ocv_session_id v \<and> lre_severity re = ''critical'' \<and>
        lre_event_type re \<in> {''onchain_fill_short'', ''onchain_fill_unconfirmed''})"
proof (cases "fst (compute_onchain_expected_raw sum_real v d)")
  case None
  then have "verify_onchain_fill sum_real render reads now v d = raise_onchain_reconciliation_halt render v now 0
      (Unconfirmed ''could not compute cumulative expected on-chain position'') d"
    using compute_ok[OF assms(1), of sum_real v]
    by (cases "compute_onchain_expected_raw sum_real v d") (simp add: verify_onchain_fill_def)
  with None raise_halt_ok[OF assms] show ?thesis by (simp add: onchain_confirmed_def)
next
  case (Some x)
  then have comp: "compute_onchain_expected_raw sum_real v d = (Some x, d)"
    using compute_ok[OF assms(1), of sum_real v] by (metis prod.collapse)
  show ?thesis
  proof (cases "onchain_poll (unat (ocv_attempts v)) reads 0 x (Unconfirmed ''no on-chain read completed'')")
    case (Inl check)
    then have "\<not> onchain_confirmed sum_real reads v d"
      using poll_confirms[of "unat (ocv_attempts v)" reads 0 x "Unconfirmed ''no on-chain read completed''"]
      by (auto simp: onchain_confirmed_def comp list_ex_iff)
    with Inl raise_halt_ok[OF assms] show ?thesis by (simp add: verify_onchain_fill_def comp)
  next
    case (Inr u)
    then have "onchain_confirmed sum_real reads v d"
      using poll_confirms[of "unat (ocv_attempts v)" reads 0 x "Unconfirmed ''no on-chain read completed''"]
      by (auto simp: onchain_confirmed_def comp list_ex_iff)
    with Inr mark_status_ok[OF assms(1-4)] show ?thesis by (simp add: verify_onchain_fill_def comp)
  qed
qed

subsection \<open>An allowed order reaches the venue\<close>

definition only_intents :: "live_db \<Rightarrow> live_db \<Rightarrow> bool" where
  "only_intents d d' \<longleftrightarrow> lv_store d' = lv_store d \<and> lv_sessions d' = lv_sessions d \<and> lv_orders d' = lv_orders d \<and>
     lv_order_seq d' = lv_order_seq d \<and> lv_orders_unique d' = lv_orders_unique d"

lemma update_intents_hit:
  assumes "distinct (map it_id (lv_intents d))" "row \<in> set (lv_intents d)" "it_id row = iid" "P row"
  shows "\<exists>d'. update_intents (\<lambda>r. it_id r = iid \<and> P r) f d = (1, d') \<and> marks_intent iid f d d' \<and> only_intents d d'"
proof -
  obtain n d' where u: "update_intents (\<lambda>r. it_id r = iid \<and> P r) f d = (n, d')" by fastforce
  from u have "only_intents d d'" by (auto simp: update_intents_def only_intents_def)
  moreover from u assms(2-4) have "n \<noteq> 0" by (auto simp: update_intents_def filter_empty_conv)
  ultimately show ?thesis using update_intents_one[OF assms(1) u] u by auto
qed

lemma reserve_succeeds:
  assumes "distinct (map it_id (lv_intents d))" "row \<in> set (lv_intents d)" "it_id row = iid" "loi_session_id (it_intent row) = sid"
    and "it_attempted_at_ms row = None" "below_caps sid mo mf d" "\<forall>r \<in> set (lv_orders d). lor_intent_id (od_order r) \<noteq> iid"
    and "db_faults (lv_store d) = []" "unat now_ms < 2 ^ 63"
  shows "\<exists>d'. reserve_live_order_submission env sid iid now_ms mo mf cost d = (Inr (), d') \<and>
    marks_intent iid (\<lambda>r. r\<lparr>it_attempted_at_ms := Some now_ms\<rparr>) d d' \<and> only_intents d d'"
proof -
  obtain d' where u: "update_intents (\<lambda>r. it_id r = iid \<and> loi_session_id (it_intent r) = sid \<and> it_attempted_at_ms r = None \<and>
      (mo = 0 \<or> length (attempted_in_session sid d) < unat mo) \<and> (mf = 0 \<or> length (fills_in_session sid d) < unat mf))
      (\<lambda>r. r\<lparr>it_attempted_at_ms := Some now_ms\<rparr>) d = (1, d')"
    and m: "marks_intent iid (\<lambda>r. r\<lparr>it_attempted_at_ms := Some now_ms\<rparr>) d d'" "only_intents d d'"
    using update_intents_hit[OF assms(1,2,3), where P = "\<lambda>r. loi_session_id (it_intent r) = sid \<and> it_attempted_at_ms r = None \<and>
      (mo = 0 \<or> length (attempted_in_session sid d) < unat mo) \<and> (mf = 0 \<or> length (fills_in_session sid d) < unat mf)"]
      assms(4-6) by (auto simp: below_caps_def)
  have r: "try_reserve_venue_attempt iid now_ms sid mo mf d = (Inr Reserved, d')"
    unfolding try_reserve_venue_attempt_def using assms(8,9) by (simp add: live_call_ok u)
  have "find (\<lambda>r. lor_intent_id (od_order r) = iid) (lv_orders d) = None" using assms(7) by (simp add: find_None_iff)
  then have "find_live_order_by_intent iid d = (Inr None, d)"
    using assms(8) by (simp add: find_live_order_by_intent_def live_call_ok)
  with r m assms(8) show ?thesis by (simp add: reserve_live_order_submission_def open_runtime_ok)
qed

lemma submit_one_submits:
  assumes "intents_sound (vw_db y)"
    and stored: "persist_live_order_intent (vn_render env) c sid w qi ev now_ms (qi_requested_price qi * qi_requested_size qi) (vw_db y) =
      (Inr (iid, None), d1)"
    and "db_faults (lv_store d1) = []" "unat now_ms < 2 ^ 63"
    and "below_caps sid (live_max_session_orders c) (live_max_session_fills c) (vw_db y)"
    and "\<forall>r \<in> set (lv_orders (vw_db y)). lor_intent_id (od_order r) \<noteq> iid" "\<not> live_dry_run c"
  shows "\<exists>d3. only_intents d1 d3 \<and> intent_known d3 iid \<and>
    submit_one_live_order env c sid w qi ev now_ms y =
      (let req = build_live_order_request (vn_render env) sid iid qi (qi_requested_price qi * qi_requested_size qi) in
       case (case vn_submit env (vw_calls y) req of
           Inr resp \<Rightarrow> handle_live_order_response env c sid qi iid now_ms resp d3
         | Inl err \<Rightarrow> handle_live_order_error env sid qi req iid now_ms err (vw_calls y @ [req]) d3) of
         (r, d4) \<Rightarrow> (r, y\<lparr>vw_db := d4, vw_calls := vw_calls y @ [req]\<rparr>))"
proof -
  define notional where "notional = qi_requested_price qi * qi_requested_size qi"
  let ?li = "live_intent_of (vn_render env) sid w qi now_ms notional (fst (live_order_pre_submit_rejection qi notional c))
    (snd (live_order_pre_submit_rejection qi notional c))"
  have "iid = lv_intent_seq (vw_db y) + 1 \<and> adds_intent ?li (vw_db y) d1"
  proof (cases rule: persist_intent_cases[OF refl, case_names error stored, where qi = qi and notional = notional and c = c and
        render = "vn_render env" and sid = sid and w = w and ev = ev and now_ms = now_ms and d = "vw_db y"])
    case (error err)
    with stored show ?thesis by (simp add: notional_def)
  next
    case (stored d')
    with assms(2) show ?thesis by (simp add: notional_def)
  qed
  then have iid: "iid = lv_intent_seq (vw_db y) + 1" and add: "adds_intent ?li (vw_db y) d1" by simp_all
  from add iid obtain row where row: "lv_intents d1 = lv_intents (vw_db y) @ [row]" "it_id row = iid" "it_attempted_at_ms row = None"
      "loi_session_id (it_intent row) = sid" "lv_orders d1 = lv_orders (vw_db y)" "lv_intent_seq d1 = lv_intent_seq (vw_db y) + 1"
    by (auto simp: adds_intent_def live_intent_of_def)
  have sound: "intents_sound d1" using sound_append[OF assms(1) row(1)] row(2,6) iid by simp
  then have dist: "distinct (map it_id (lv_intents d1))" by (simp add: intents_sound_def)
  have caps: "below_caps sid (live_max_session_orders c) (live_max_session_fills c) d1"
    using assms(5) row by (simp add: below_caps_def attempted_in_session_def fills_in_session_def)
  obtain d2 where d2: "reserve_live_order_submission env sid iid now_ms (live_max_session_orders c) (live_max_session_fills c)
      (qi_reserved_cost qi) d1 = (Inr (), d2)" "marks_intent iid (\<lambda>r. r\<lparr>it_attempted_at_ms := Some now_ms\<rparr>) d1 d2" "only_intents d1 d2"
    using reserve_succeeds[where env = env and cost = "qi_reserved_cost qi", OF dist _ row(2,4,3) caps _ assms(3,4)] row(1,5) assms(6)
    by (metis in_set_conv_decomp)
  have row2: "row\<lparr>it_attempted_at_ms := Some now_ms\<rparr> \<in> set (lv_intents d2)" using d2(2) row(1,2) by (auto simp: marks_intent_def)
  have "map it_id (lv_intents d2) = map it_id (lv_intents d1)" using d2(2) by (simp add: marks_intent_def)
  with dist have "distinct (map it_id (lv_intents d2))" by simp
  from update_intents_hit[OF this row2, of iid "\<lambda>_. True" "\<lambda>r. r\<lparr>it_intent := (it_intent r)\<lparr>loi_status := ''submitting''\<rparr>\<rparr>"] row(2)
  obtain d3 where u: "update_intents (\<lambda>r. it_id r = iid) (\<lambda>r. r\<lparr>it_intent := (it_intent r)\<lparr>loi_status := ''submitting''\<rparr>\<rparr>) d2 = (1, d3)"
      "marks_intent iid (\<lambda>r. r\<lparr>it_intent := (it_intent r)\<lparr>loi_status := ''submitting''\<rparr>\<rparr>) d2 d3" "only_intents d2 d3"
    by auto
  have "lv_store d2 = lv_store d1" using d2(3) by (simp add: only_intents_def)
  with u(1) have m: "mark_intent_submitting_or_block env iid (qi_reserved_cost qi) d2 = (None, d3)"
    using assms(3)
    by (simp add: mark_intent_submitting_or_block_def mark_live_order_intent_submitting_def mark_intent_status_def open_runtime_ok live_call_ok)
  have "map it_id (lv_intents d3) = map it_id (lv_intents d2)" using u(2) by (simp add: marks_intent_def)
  then have "it_id ` set (lv_intents d3) = it_id ` set (lv_intents d2)" by (metis list.set_map)
  moreover have "iid \<in> it_id ` set (lv_intents d2)" using imageI[OF row2, of it_id] row(2) by simp
  ultimately have "intent_known d3 iid" by (simp add: intent_known_def)
  moreover have "only_intents d1 d3" using d2(3) u(3) by (simp add: only_intents_def)
  ultimately show ?thesis using d2(1) stored assms(7) m
    by (intro exI[of _ d3]) (simp add: submit_one_live_order_def Let_def)
qed

lemma submit_one_calls:
  assumes "intents_sound (vw_db y)"
    and "persist_live_order_intent (vn_render env) c sid w qi ev now_ms (qi_requested_price qi * qi_requested_size qi) (vw_db y) =
      (Inr (iid, None), d1)"
    and "db_faults (lv_store d1) = []" "unat now_ms < 2 ^ 63"
    and "below_caps sid (live_max_session_orders c) (live_max_session_fills c) (vw_db y)"
    and "\<forall>r \<in> set (lv_orders (vw_db y)). lor_intent_id (od_order r) \<noteq> iid" "\<not> live_dry_run c"
  shows "vw_calls (snd (submit_one_live_order env c sid w qi ev now_ms y)) =
    vw_calls y @ [build_live_order_request (vn_render env) sid iid qi (qi_requested_price qi * qi_requested_size qi)]"
  using submit_one_submits[OF assms] by (auto simp: Let_def case_prod_beta)

lemma single_batch_calls:
  assumes "smr_orders rq = [qi]"
  shows "vw_calls (snd (submit_live_orders env c sid rq y)) = vw_calls (snd (submit_one_live_order env c sid (smr_window rq) qi
    (critical_signal_event_for_order (smr_critical_events rq) (qi_signal_id qi)) (smr_now_ms rq) y))"
proof -
  obtain r y1 where one: "submit_one_live_order env c sid (smr_window rq) qi
    (critical_signal_event_for_order (smr_critical_events rq) (qi_signal_id qi)) (smr_now_ms rq) y = (r, y1)" by fastforce
  then show ?thesis by (cases r) (simp_all add: submit_live_orders_def assms Let_def split: option.split)
qed

end
