(* ===== verification/LiveVenueInstances.thy ===== *)
theory LiveVenueInstances
  imports LiveInstances LiveSubmissionFacts
begin

section \<open>A concrete submission worker\<close>

text \<open>
  One session, two orders of the live engine, and a venue that fills the first order in full and does not answer the second
  one.
\<close>

definition demo_venue_config :: config where
  "demo_venue_config = demo\<lparr>execution_mode := LiveTrading, min_bet_usd := 1, live_max_single_order_usd := f64_lit 64,
     live_max_session_orders := 2, live_max_session_fills := 2, live_onchain_reconcile := True\<rparr>"

definition demo_session :: live_session where
  "demo_session = \<lparr>lse_started_at_ms = 0, lse_ended_at_ms = None, lse_status = ''armed'', lse_execution_mode = ''live_trading'',
     lse_wallet_address = None, lse_proxy_wallet = None, lse_enabled_strategies_json = ''[]'', lse_config_fingerprint = ''f'',
     lse_cash_cap_usd = f64_lit 128, lse_details_json = None\<rparr>"

definition demo_live_db :: live_db where
  "demo_live_db = (live_db_empty [])\<lparr>lv_sessions := [(1, demo_session)], lv_session_seq := 1\<rparr>"

definition demo_venue_world :: venue_world where
  "demo_venue_world = \<lparr>vw_db = demo_live_db, vw_calls = [], vw_verifications = []\<rparr>"

definition demo_intent :: "i64 \<Rightarrow> queued_intent" where
  "demo_intent i = live_order_intent (demo_runtime_order\<lparr>ro_signal_id := i\<rparr>)"

definition demo_submission :: "i64 list \<Rightarrow> submission_request" where
  "demo_submission is = \<lparr>smr_window = demo_window, smr_orders = map demo_intent is,
     smr_critical_events = map (\<lambda>i. EvSignal i demo_signal ''m1'' LegacySnapshot (Some 1000) (Some 1250) ''submitted'' None) is,
     smr_now_ms = 1300\<rparr>"

definition demo_response :: order_response where
  "demo_response = \<lparr>ors_ok = True, ors_venue_order_id = Some ''v1'', ors_client_order_id = ''c1'', ors_status = ''matched'',
     ors_status_reason = None, ors_accepted_size = Some (f64_lit 128), ors_details_json = None\<rparr>"

definition demo_venue :: venue_env where
  "demo_venue = \<lparr>vn_submit = (\<lambda>calls req. if calls = [] then Inr demo_response else Inl ''timeout''),
     vn_cancel_all = (\<lambda>calls. Inl ''timeout''), vn_render = (\<lambda>j. []), vn_show_error = (\<lambda>e. []),
     vn_parse_json = (\<lambda>s. None), vn_parse_real = (\<lambda>s. None)\<rparr>"

lemma demo_intent_fields:
  "qi_signal_id (demo_intent i) = i" "qi_requested_price (demo_intent i) = f64_lit 0.5" "qi_requested_size (demo_intent i) = f64_lit 128"
  "qi_limit_price (demo_intent i) = f64_lit 0.5" "f64_lit 0.5 * f64_lit 128 = f64_lit 64"
  "f64_lit (1 / 2) * f64_lit 128 = f64_lit 64"
  by (simp_all add: demo_intent_def live_order_intent_def demo_runtime_order_def live_single_order_def)
    (simp_all add: lit_eval del: lit_0 lit_1)

lemma demo_notional: "\<not> f64_lit 64 + f64_lit (1 / 100) < f64_lit 64 \<and> \<not> f64_lit 64 + f64_lit (1 / 100) < 1"
  by code_simp

lemma demo_verdict: "live_order_pre_submit_rejection (demo_intent i) (f64_lit 64) demo_venue_config = (''submitted'', None)"
  unfolding live_order_pre_submit_rejection_def demo_intent_fields
  using demo_notional by (simp add: demo_venue_config_def CASH_CHANGE_EPSILON_USD_def) (simp add: lit_eval del: lit_0 lit_1)

lemma demo_persist:
  "\<exists>d1. persist_live_order_intent (\<lambda>j. []) demo_venue_config 1 demo_window (demo_intent i)
      (Some (EvSignal i demo_signal ''m1'' LegacySnapshot (Some 1000) (Some 1250) ''submitted'' None)) 1300 (f64_lit 64) demo_live_db =
      (Inr (1, None), d1) \<and> db_faults (lv_store d1) = [] \<and> lv_orders d1 = [] \<and> lv_sessions d1 = [(1, demo_session)] \<and> lv_order_seq d1 = 0"
proof -
  have "db_faults (lv_store demo_live_db) = []" by (simp add: demo_live_db_def live_db_empty_def db_empty_def)
  then show ?thesis
    by (simp add: persist_live_order_intent_def demo_verdict open_runtime_ok live_decision_evidence_from_event_def demo_intent_fields
        log_live_order_intent_with_decision_evidence_def live_transaction_def on_store_def insert_live_decision_signal_on_tx_def
        sql_call_def signal_metric_record_from_evidence_def demo_signal_def insert_live_order_intent_on_tx_def log_live_order_intent_def
        live_call_def session_known_def live_intent_of_def demo_live_db_def live_db_empty_def db_empty_def opt_params_def Let_def)
qed

lemma demo_sound: "worker_sound demo_venue_config 1 demo_venue_world"
  by (simp add: worker_sound_def intents_sound_def calls_recorded_def attempted_in_session_def demo_venue_world_def demo_live_db_def
      live_db_empty_def)

lemma demo_world_facts: "intents_sound demo_live_db" "attempted_in_session 1 demo_live_db = []" "vw_db demo_venue_world = demo_live_db"
  "vw_calls demo_venue_world = []" "lv_orders demo_live_db = []" "fills_in_session 1 demo_live_db = []"
  by (simp_all add: intents_sound_def attempted_in_session_def fills_in_session_def demo_venue_world_def demo_live_db_def live_db_empty_def)

lemma demo_caps: "below_caps 1 (live_max_session_orders demo_venue_config) (live_max_session_fills demo_venue_config) demo_live_db"
  by (simp add: below_caps_def demo_world_facts demo_venue_config_def)

lemma demo_batch: "vw_calls (snd (submit_live_orders demo_venue demo_venue_config 1 (demo_submission [1]) demo_venue_world)) =
  [build_live_order_request (\<lambda>j. []) 1 1 (demo_intent 1) (f64_lit 64)]"
proof -
  let ?ev = "Some (EvSignal 1 demo_signal ''m1'' LegacySnapshot (Some 1000) (Some 1250) ''submitted'' None)"
  have rq: "smr_orders (demo_submission [1]) = [demo_intent 1]" "smr_window (demo_submission [1]) = demo_window"
    "smr_now_ms (demo_submission [1]) = 1300" "vn_render demo_venue = (\<lambda>j. [])"
    "critical_signal_event_for_order (smr_critical_events (demo_submission [1])) (qi_signal_id (demo_intent 1)) = ?ev"
    by (simp_all add: demo_submission_def demo_venue_def demo_intent_fields critical_signal_event_for_order_def)
  obtain d1 where d1: "persist_live_order_intent (\<lambda>j. []) demo_venue_config 1 demo_window (demo_intent 1) ?ev 1300 (f64_lit 64) demo_live_db =
      (Inr (1, None), d1)" "db_faults (lv_store d1) = []" using demo_persist by blast
  have live: "\<not> live_dry_run demo_venue_config" by (simp add: demo_venue_config_def demo_def config_default_def)
  show ?thesis
    unfolding single_batch_calls[of "demo_submission [1]", OF rq(1)] rq(2,3,5)
    using submit_one_calls[of demo_venue_world demo_venue demo_venue_config 1 demo_window "demo_intent 1" ?ev 1300 1 d1] d1 demo_caps live
    by (simp add: demo_intent_fields demo_world_facts rq(4))
qed

lemma demo_worker_run: "vw_calls (snd (run_submission_worker demo_venue demo_venue_config 1 [(demo_submission [1], True)] demo_venue_world)) =
  [build_live_order_request (\<lambda>j. []) 1 1 (demo_intent 1) (f64_lit 64)]"
  using demo_batch by (simp add: case_prod_beta)

lemma demo_tolerance: "\<not> f64_lit 128 + fill_tolerance (f64_lit 128) < f64_lit 128" "\<not> f64_lit 128 \<le> 0"
  by code_simp+

lemma demo_order_filled:
  "\<exists>y'. submit_one_live_order demo_venue demo_venue_config 1 demo_window (demo_intent 1)
     (Some (EvSignal 1 demo_signal ''m1'' LegacySnapshot (Some 1000) (Some 1250) ''submitted'' None)) 1300 demo_venue_world =
     (OrderFilled (f64_lit 128) (f64_lit 0.5) 1, y')"
proof -
  let ?ev = "Some (EvSignal 1 demo_signal ''m1'' LegacySnapshot (Some 1000) (Some 1250) ''submitted'' None)"
  obtain d1 where d1: "persist_live_order_intent (\<lambda>j. []) demo_venue_config 1 demo_window (demo_intent 1) ?ev 1300 (f64_lit 64) demo_live_db =
      (Inr (1, None), d1)" "db_faults (lv_store d1) = []" "lv_orders d1 = []" "lv_sessions d1 = [(1, demo_session)]"
    "lv_order_seq d1 = 0" using demo_persist by blast
  have live: "\<not> live_dry_run demo_venue_config" by (simp add: demo_venue_config_def demo_def config_default_def)
  have env: "vn_render demo_venue = (\<lambda>j. [])" "vn_submit demo_venue [] req = Inr demo_response" for req by (simp_all add: demo_venue_def)
  obtain d3 where d3: "only_intents d1 d3" "intent_known d3 1" and run:
    "submit_one_live_order demo_venue demo_venue_config 1 demo_window (demo_intent 1) ?ev 1300 demo_venue_world =
      (let req = build_live_order_request (\<lambda>j. []) 1 1 (demo_intent 1) (f64_lit 64) in
       case handle_live_order_response demo_venue demo_venue_config 1 (demo_intent 1) 1 1300 demo_response d3 of
         (r, d4) \<Rightarrow> (r, demo_venue_world\<lparr>vw_db := d4, vw_calls := [req]\<rparr>))"
    using submit_one_submits[of demo_venue_world demo_venue demo_venue_config 1 demo_window "demo_intent 1" ?ev 1300 1 d1] d1 demo_caps live
    by (auto simp: demo_intent_fields demo_world_facts env Let_def)
  have d3f: "db_faults (lv_store d3) = []" "lv_orders d3 = []" "session_known d3 1" "lv_order_seq d3 = 0"
    using d1 d3(1) by (simp_all add: only_intents_def session_known_def)
  have stored: "\<exists>d4. persist_order_response 1 1 (demo_intent 1) 1300 demo_response d3 = (Inr 1, d4)"
    using d3f d3(2) by (simp add: persist_order_response_def log_live_order_def live_call_ok opt_params_def Let_def)
  then have "fst (handle_live_order_response demo_venue demo_venue_config 1 (demo_intent 1) 1 1300 demo_response d3) =
      OrderFilled (f64_lit 128) (f64_lit 0.5) 1"
    using demo_tolerance d3f(1)
    by (auto simp: handle_live_order_response_def open_runtime_ok demo_response_def classify_accepted_live_size_def Let_def demo_intent_fields
        live_response_fill_price_def raw_response_price_def)
  then show ?thesis by (simp add: run Let_def case_prod_beta)
qed

lemma demo_batch_fills:
  "smf_fills (fst (submit_live_orders demo_venue demo_venue_config 1 (demo_submission [1]) demo_venue_world)) =
     [\<lparr>ff_signal_id = 1, ff_fill_price = f64_lit 0.5, ff_filled_size = f64_lit 128\<rparr>]"
proof -
  let ?ev = "Some (EvSignal 1 demo_signal ''m1'' LegacySnapshot (Some 1000) (Some 1250) ''submitted'' None)"
  have rq: "smr_orders (demo_submission [1]) = [demo_intent 1]" "smr_window (demo_submission [1]) = demo_window"
    "smr_now_ms (demo_submission [1]) = 1300"
    "critical_signal_event_for_order (smr_critical_events (demo_submission [1])) 1 = ?ev"
    by (simp_all add: demo_submission_def critical_signal_event_for_order_def)
  from demo_order_filled show ?thesis by (auto simp: submit_live_orders_def rq demo_intent_fields Let_def)
qed

subsection \<open>A fill on the chain\<close>

definition demo_filled_row :: order_row where
  "demo_filled_row = \<lparr>od_id = 1, od_order = \<lparr>lor_session_id = 1, lor_intent_id = 1, lor_venue_order_id = None, lor_client_order_id = None,
     lor_market_id = ''m1'', lor_token_id = Some ''t'', lor_side = ''BUY'', lor_order_type = ''FOK'', lor_status = ''matched'',
     lor_status_reason = None, lor_created_at_ms = 1300, lor_acknowledged_at_ms = None, lor_updated_at_ms = 1300,
     lor_requested_price = None, lor_limit_price = None, lor_requested_size = None, lor_accepted_size = Some (f64_lit 128),
     lor_details_json = None\<rparr>, od_reconcile_status = Some ''pending''\<rparr>"

definition demo_filled_db :: live_db where
  "demo_filled_db = demo_live_db\<lparr>lv_orders := [demo_filled_row], lv_order_seq := 1\<rparr>"

definition demo_verification :: onchain_verification where
  "demo_verification = \<lparr>ocv_session_id = 1, ocv_token_id = ''t'', ocv_market_id = ''m1'', ocv_signal_id = 1, ocv_live_order_id = 1,
     ocv_grace_ms = 0, ocv_interval_ms = 0, ocv_attempts = 2, ocv_accepted_size = f64_lit 128\<rparr>"

definition demo_reads :: "nat \<Rightarrow> string + onchain_position" where
  "demo_reads k = (if k = 0 then Inl ''timeout'' else Inr \<lparr>ocp_token_id = ''t'', ocp_account = [], ocp_balance_raw = ''128000000'',
     ocp_collateral_decimals = 6\<rparr>)"

lemma demo_round: "f64_round (f64_lit 128000000) = f64_lit 128000000"
  by code_simp

lemma demo_floor: "\<lfloor>fval (f64_lit 128000000)\<rfloor> = 128000000"
  by code_simp

lemma demo_u64_limit: "\<not> f64_lit 18446744073709551616 < f64_lit 128000000"
  by code_simp

lemma demo_expected: "onchain_expected_raw (f64_lit 128) = Some 128000000" "0 < f64_lit 128"
  using demo_floor demo_u64_limit by (simp_all add: onchain_expected_raw_def lit_eval demo_round Let_def del: lit_0 lit_1 cong: weak_congs)

lemma demo_trim: "str_trim ''128000000'' = ''128000000''"
  by code_simp

lemma demo_balance: "parse_onchain_balance_raw ''128000000'' = Some 128000000"
  by (simp add: parse_onchain_balance_raw_def Let_def digits_value_def is_digit_def demo_trim)

lemma demo_filled_facts: "db_faults (lv_store demo_filled_db) = []" "lv_orders demo_filled_db = [demo_filled_row]"
  "session_known demo_filled_db 1" "od_id demo_filled_row = 1" "filled_row demo_filled_row"
  using demo_expected(2)
  by (simp_all add: demo_filled_db_def demo_live_db_def live_db_empty_def db_empty_def session_known_def demo_filled_row_def filled_row_def
      is_some_and_def)

lemma demo_confirmed: "onchain_confirmed (\<lambda>xs. f64_lit 128) demo_reads demo_verification demo_filled_db"
proof -
  have "fst (compute_onchain_expected_raw (\<lambda>xs. f64_lit 128) demo_verification demo_filled_db) = Some 128000000"
    using demo_filled_facts demo_expected(1)
    by (simp add: compute_onchain_expected_raw_def open_runtime_ok matched_size_for_token_up_to_order_def live_call_ok Let_def
        demo_verification_def is_some_and_def) (simp add: demo_filled_row_def)
  moreover have "read_covers 128000000 (demo_reads 1)" by (simp add: read_covers_def demo_reads_def demo_balance)
  ultimately show ?thesis by (simp add: onchain_confirmed_def demo_verification_def list_ex_iff) (rule bexI[of _ 1], simp_all)
qed

end
