(* ===== verification/Spec2Isabelle.thy ===== *)
theory Spec2Isabelle
  imports CycleInstances CircuitBreaker FeatureBounds RollingMomentum BacktestInstances BlockInstances LiveVenueInstances
begin

text \<open>
  A verification library for the trading bot of \<^verbatim>\<open>src/bots/paint\<close>. The bot watches short prediction-market windows,
  lets three strategies propose signals, routes one family per regime, sizes and reserves capital, queues simulated
  orders, fills them against the book, and settles them when the window resolves. A recorded run is replayed through the
  same core as a backtest, and the live runtimes drive it through an engine that lives in memory.

  \<^bold>\<open>Values.\<close> \<open>Float64\<close> models IEEE binary64 as Rust's \<open>f64\<close> uses it: sign, subnormals, infinities, NaN, rounding to
  nearest even, the comparison that is false on NaN, \<open>min\<close>, \<open>max\<close>, \<open>clamp\<close>, \<open>mul_add\<close>, \<open>powi\<close>, the rounding functions.
  \<open>Rounding\<close> bounds the rounding error; \<open>Evaluation\<close> evaluates closed terms on exact literals. \<open>u64\<close> and \<open>u32\<close> are
  words (release builds wrap), saturating operations and casts are in \<open>Prelude\<close>, with the interfaces the components
  share: bounded buffers, label codecs, guarded and monotone machines. Row ids are integers.

  \<^bold>\<open>Components.\<close>
  \<open>Types\<close> (types.rs, signal_features.rs): the data model. \<open>Config\<close> (config.rs): all parameters, defaults, validation,
  setters. \<open>Fees\<close> (fees.rs). \<open>CircuitBreaker\<close> (circuit_breaker.rs). \<open>TrendTracker\<close> (trend_tracker.rs). \<open>Portfolio\<close>
  (portfolio.rs): families, regimes, the router. \<open>Database\<close> (db/database.rs, the statements the core uses): a store
  of tables with a list of faults that says which statements fail; \<open>TradeStore\<close> states the contract of the trade table.
  \<open>Bankroll\<close> (bankroll.rs) with \<open>Ledger\<close> (the reserve buckets), \<open>Exposure\<close> (the open-exposure ceiling) and
  \<open>BankrollMachine\<close> (histories of operations). \<open>Executor\<close> (executor.rs) with \<open>OrderQueue\<close> (case rules of the handlers)
  and \<open>EngineMachine\<close> (histories of the engine). \<open>PositionManager\<close> (position_manager.rs) with \<open>Settlement\<close> (resolved
  windows). \<open>Attribution\<close> (the counters of portfolio.rs). \<open>Strategies\<close> and \<open>CalmPersistence\<close> (strategies/) with \<open>Momentum\<close>
  (the sample buffer and the threshold) and \<open>SignalRules\<close> (what an emitted signal satisfies). \<open>SignalFeatures\<close>
  (signal_features.rs) over \<open>Sqrt\<close> (the correctly rounded square root), with \<open>History\<close> (the contract of a pruned queue)
  and \<open>FeatureBounds\<close> (histories and ranges). \<open>RollingMomentum\<close> (backtest/momentum.rs). \<open>RejectionDiagnostics\<close>
  (rejection_diagnostics.rs). \<open>StrategyCycle\<close> (strategy_cycle.rs) with \<open>CycleFacts\<close> (totality, routing, the engine's
  invariants over a cycle). The backtest: \<open>FloatBits\<close>, \<open>ByteReader\<close> and \<open>ReplayBlocks\<close> (db/clob_replay_blocks.rs) with
  \<open>ReplayBlockFacts\<close> (round trip, damage, summaries) and \<open>BlockTypes\<close> (what can be decoded); \<open>FeedStore\<close> (db/database.rs,
  db/backtest_prepare.rs: the tables a replay reads), \<open>TickStore\<close> and \<open>TickReplay\<close> (backtest/tick_replay.rs: the loader and
  the grouping) with \<open>StorageFacts\<close> (rows or blocks); \<open>WindowManager\<close> (backtest/window_manager.rs); \<open>FeedState\<close>
  (backtest/feed_state.rs); \<open>Backtest\<close> and \<open>BacktestRun\<close> (backtest/runner.rs) with \<open>BankTrace\<close> (every change of the bankroll
  is a sequence of its operations), \<open>BacktestFacts\<close> (invariants of the loop) and \<open>BacktestLaws\<close> (a whole run).
  Live trading: \<open>LiveDecision\<close> (live_decision.rs, with the worker loop of live.rs) keeps orders, trades and bankroll in memory;
  \<open>LiveDecisionFacts\<close> relates it to the simulator of executor.rs and to the position manager and shows what its steps keep.
  \<open>LiveStore\<close> (the tables of a live session in db/database.rs), \<open>LiveSubmission\<close> (the submission worker and the on-chain
  verification of live.rs, live_control.rs, live_sidecar.rs); \<open>LiveStoreFacts\<close> states what statements leave unchanged,
  \<open>LiveSubmissionFacts\<close> proves the invariant of the worker, the accounting of a batch, the refusal of a used database and
  the verdict on a fill. The sidecar's answers are arguments that may depend on every earlier call; a crash is a run in which
  every later statement fails.
  \<open>BacktestInstances\<close>, \<open>BlockInstances\<close>, \<open>LiveInstances\<close>, \<open>LiveVenueInstances\<close>, \<open>Instances\<close>, \<open>SignalInstances\<close> and \<open>CycleInstances\<close> hold the inputs of the witnesses.

  \<^bold>\<open>State and effects.\<close> A struct is a record, a method takes the record last and returns it updated. A handler that
  receives the engine, the database and the bankroll by reference works on a \<open>world\<close> of the three. \<open>anyhow::Result\<close> is a
  sum with the error left, and the \<open>?\<close> operator an early return that keeps the changes made so far. The clock's
  readings are arguments, in the order the code reads it. Logging is left out, except where a field records it.

  \<^bold>\<open>Loops.\<close> The loops of the modelled code run over finite collections and are structural recursions or folds; pruning
  loops are \<open>dropWhile\<close>. The loops over a cursor (\<open>group_loop\<close>, \<open>open_next\<close>, \<open>backtest_loop\<close>) terminate because the cursor
  moves towards the end of its list. The integer square root and \<open>powi\<close> recurse on a decreasing number. No fuel is used. Where the code
  can panic (an index, a slice, a clamp with an empty interval) the result is an option and \<open>None\<close> is the panic.

  \<^bold>\<open>Not modelled.\<close> The asynchronous live runtime around the decision engine and the submission worker (live.rs: its event loop,
  the monitors and the timers), feeds and market discovery (network I/O), parameter
  sweeps and reports over backtests, the copying of the audit tables by the backtest preparation, the dashboard server,
  the agent, and the TypeScript sidecar and client. Code outside the repository enters as a parameter: the JSON parser
  of fee schedules, the URL and IP address parsers of the validation, the compressor (with the law that decompressing
  gives the input back) and the checksum of the blocks. Wall-clock readings are parameters.

  \<^bold>\<open>Properties.\<close> They follow in the order: a whole backtest, the live engine, submitting to the venue, replay, the exposure ceiling, the reserve ledger, the executor, the trade table,
  pauses, the trend filter and the router, fees and configuration, positions and settlement, strategies, the feature
  engine, the strategy cycle.
\<close>

section \<open>Properties\<close>

subsection \<open>A whole backtest\<close>



text \<open>C2: whatever a backtest does and whichever database statements fail, at its end the reserve buckets of the bankroll
  are consistent, no two queued orders share a key, and the wins and losses, also those reported, add up to the settled trades.\<close>

theorem backtest_keeps_books:
  assumes run: "run_backtest url_ok ip_ok parse decode wall elapsed (db_empty faults) op = Some (out, Some y)"
    and ticks: "load_replay decode op = Inr r" "clean_ticks (rp_ticks r)"
    and lim: "limits_ok (op_config op)" "0 \<le> calm_persistence_max_fair_bias (op_config op)"
  shows "ledger_ok (w_bank (bt_world y)) \<and> queue_distinct (bt_world y) \<and>
    bk_total_wins (w_bank (bt_world y)) + bk_total_losses (w_bank (bt_world y)) = bk_total_trades (w_bank (bt_world y)) \<and>
    (\<forall>res. out = Inr res \<longrightarrow> bo_wins res + bo_losses res = bo_trades res)"
proof -
  obtain ts where r: "r = from_cached ts" "clean_ticks ts" using load_replay_cached[OF ticks(1)] ticks(2) by (auto simp: from_cached_def)
  let ?en = "backtest_env_of parse wall op"
  let ?y0 = "\<lambda>wm. initial_backtest op wm (db_empty faults)"
  have en: "limits_ok (be_config ?en)" "0 \<le> calm_persistence_max_fair_bias (be_config ?en)" using lim by (simp_all add: backtest_env_of_def)
  consider (early) wm where "y = ?y0 wm" "\<forall>res. out \<noteq> Inr res"
    | (ran) wm where "run_loop ?en op elapsed (from_cached ts) (?y0 wm) = Some (out, y)"
    using run ticks(1) r(1) by (auto simp: run_backtest_def split: sum.splits if_splits)
  then show ?thesis
  proof cases
    case early
    then show ?thesis using initial_engine_inv by (simp add: engine_inv_def initial_bank new_in_memory_def)
  next
    case ran
    let ?b0 = "w_bank (bt_world (?y0 wm))"
    have e: "engine_inv (bt_world y)"
      by (rule engine_run.run_loop_keeps[OF initial_engine_inv initial_ready r(2) en ran])
    have "bank_moves ?b0 (w_bank (bt_world y))"
      by (rule moved_run.run_loop_keeps[OF bank_moves_refl initial_ready r(2) en ran])
    then have c: "counts_ok (w_bank (bt_world y))"
      by (rule bank_moves_laws(2)) (simp add: initial_bank counts_ok_def new_in_memory_def)
    have "bo_wins res + bo_losses res = bo_trades res" if "out = Inr res" for res
      by (rule run_loop_result[OF ran[unfolded that]]) (use c in \<open>simp add: summarize_counts counts_ok_def\<close>)
    then show ?thesis using e c by (simp add: engine_inv_def counts_ok_def)
  qed
qed

theorem backtest_keeps_books_witness:
  "\<exists>res y. run_backtest (\<lambda>_. True) (\<lambda>_. True) (\<lambda>_. None) (\<lambda>_ _. Inr []) (\<lambda>_ _. 0) 1 (db_empty []) demo_options = Some (Inr res, Some y) \<and>
     ledger_ok (w_bank (bt_world y)) \<and> bo_wins res + bo_losses res = bo_trades res"
proof -
  obtain res y where run: "run_backtest (\<lambda>_. True) (\<lambda>_. True) (\<lambda>_. None) (\<lambda>_ _. Inr []) (\<lambda>_ _. 0) 1 (db_empty []) demo_options = Some (Inr res, Some y)"
    using demo_run by blast
  have "load_replay (\<lambda>_ _. Inr []) demo_options = Inr (from_cached demo_ticks)" by (simp add: load_replay_def demo_options_def)
  from backtest_keeps_books[OF run this] show ?thesis
    using run demo_clean demo_limits by (simp add: from_cached_def demo_options_def)
qed



text \<open>C4: a backtest does not depend on how the order-book events it replays were stored: as compact rows, as one
  compressed block, or handed over directly in the stable order of their receive times.\<close>

theorem backtest_ignores_storage:
  assumes st: "list_all storable_event es" and enc: "encode_events compress crc es level = Inr blk"
    and size: "length (block_bytes es) < 2 ^ 64" "unat (eb_compressed_bytes blk) < 2 ^ 63" "unat (eb_uncompressed_bytes blk) < 2 ^ 63"
    and zstd: "\<forall>p lv bs. compress lv p = Some bs \<longrightarrow> decompress bs = Some p"
    and period: "unat (op_start_time op) < 2 ^ 63" "unat (op_end_time op) < 2 ^ 63"
  shows "\<exists>rows blocks. log_feed_events_batch_with_compact_clob es True fresh_data_db = Inr (of_nat (length es), rows) \<and>
    log_feed_events_and_clob_block compress crc [] es level fresh_data_db = Inr (of_nat (length es), blocks) \<and>
    (\<forall>src \<in> {FromDb rows, FromDb blocks, Cached (replayed (uint (op_start_time op)) (uint (op_end_time op)) es)}.
       run_backtest url_ok ip_ok parse (decode_payload decompress crc) wall elapsed results (op\<lparr>op_tick_source := src\<rparr>) =
       run_backtest url_ok ip_ok parse (decode_payload decompress crc) wall elapsed results (op\<lparr>op_tick_source := FromDb rows\<rparr>))"
proof -
  let ?dec = "decode_payload decompress crc"
  let ?ts = "replayed (uint (op_start_time op)) (uint (op_end_time op)) es"
  obtain rows blocks where l: "log_feed_events_batch_with_compact_clob es True fresh_data_db = Inr (of_nat (length es), rows)"
      "log_feed_events_and_clob_block compress crc [] es level fresh_data_db = Inr (of_nat (length es), blocks)"
    and t: "\<And>t1 t2 a b. timestamp_param t1 ''start_time'' = Inr a \<Longrightarrow> timestamp_param t2 ''end_time'' = Inr b \<Longrightarrow>
       load_ticks ?dec rows t1 t2 = Inr (replayed a b es) \<and> load_ticks ?dec blocks t1 t2 = Inr (replayed a b es)"
    using storage_irrelevant[OF st enc size zstd] by blast
  have "load_replay ?dec (op\<lparr>op_tick_source := src\<rparr>) = Inr (from_cached ?ts)"
    if "src \<in> {FromDb rows, FromDb blocks, Cached ?ts}" for src
    using that t[of "op_start_time op" _ "op_end_time op"] period
    by (auto simp: load_replay_def from_db_def timestamp_param_def)
  then have "load_replay ?dec (op\<lparr>op_tick_source := src\<rparr>) = load_replay ?dec (op\<lparr>op_tick_source := FromDb rows\<rparr>)"
    if "src \<in> {FromDb rows, FromDb blocks, Cached ?ts}" for src using that by simp
  then show ?thesis using l by (blast intro: run_backtest_source)
qed

theorem backtest_ignores_storage_witness:
  "\<exists>rows blocks. log_feed_events_batch_with_compact_clob [demo_event] True fresh_data_db = Inr (1, rows) \<and>
     log_feed_events_and_clob_block demo_compress (\<lambda>_. 0) [] [demo_event] 3 fresh_data_db = Inr (1, blocks) \<and>
     run_backtest (\<lambda>_. True) (\<lambda>_. True) (\<lambda>_. None) (decode_payload Some (\<lambda>_. 0)) (\<lambda>_ _. 0) 1 (db_empty []) (demo_options\<lparr>op_tick_source := FromDb blocks\<rparr>) =
     run_backtest (\<lambda>_. True) (\<lambda>_. True) (\<lambda>_. None) (decode_payload Some (\<lambda>_. 0)) (\<lambda>_ _. 0) 1 (db_empty []) (demo_options\<lparr>op_tick_source := FromDb rows\<rparr>)"
proof -
  obtain blk where blk: "encode_events demo_compress (\<lambda>_. 0) [demo_event] 3 = Inr blk" "length (block_bytes [demo_event]) < 2 ^ 64"
    "unat (eb_compressed_bytes blk) < 2 ^ 63" "unat (eb_uncompressed_bytes blk) < 2 ^ 63" using demo_block by blast
  have s: "list_all storable_event [demo_event]" using demo_event_storable by simp
  have z: "\<forall>p lv bs. demo_compress lv p = Some bs \<longrightarrow> Some bs = Some p" by simp
  have t: "unat (op_start_time demo_options) < 2 ^ 63" "unat (op_end_time demo_options) < 2 ^ 63" by (simp_all add: demo_options_def)
  from backtest_ignores_storage[OF s blk z t, of "\<lambda>_. True" "\<lambda>_. True" "\<lambda>_. None" "\<lambda>_ _. 0" 1 "db_empty []"]
  show ?thesis by auto
qed

subsection \<open>The live engine\<close>





text \<open>C7: a pass of the live engine over its due orders does what the simulator does when no statement fails: the same
  bankroll, counters, queue and outcomes, and the same trades but for their identifiers.\<close>

theorem live_due_orders_match_simulator:
  assumes "process_due_orders (due_context_of req (rd_config e)) x = (Inr ts, x')"
    and "live_process_due_orders req e = (outs, evs, e')"
    and "rd_bankroll e = w_bank x" "rd_stats e = en_stats (w_engine x)"
    and "en_pending_orders (w_engine x) = map order_of (rd_pending e)" "en_recent_outcomes (w_engine x) = []"
  shows "rd_bankroll e' = w_bank x' \<and> rd_stats e' = en_stats (w_engine x') \<and>
    en_pending_orders (w_engine x') = map order_of (rd_pending e') \<and> en_recent_outcomes (w_engine x') = outs \<and>
    (\<exists>ts'. open_trades e' = open_trades e @ ts' \<and> list_all2 same_trade ts ts')"
  using due_loop_sim[of req "rd_config e" "rd_pending e" "[]" "[]" "[]" x ts x' "[]" "[]" e outs evs e' "open_trades e" "[]"] assms
  by (simp add: process_due_orders_def live_process_due_orders_def live_sim_def)

theorem live_due_orders_match_simulator_witness:
  "\<exists>outs evs e' t. live_process_due_orders demo_request demo_live_queue = (outs, evs, e') \<and> open_trades e' = [t]"
proof -
  obtain t x' where p: "process_due_orders (due_context_of demo_request (rd_config demo_live_queue)) (demo_queue []) = (Inr [t], x')"
    using demo_pass_trade by (auto simp: demo_live_queue_def demo_due_request)
  obtain outs evs e' where l: "live_process_due_orders demo_request demo_live_queue = (outs, evs, e')" by (metis surj_pair)
  have s: "rd_bankroll demo_live_queue = w_bank (demo_queue [])" "rd_stats demo_live_queue = en_stats (w_engine (demo_queue []))"
    "en_pending_orders (w_engine (demo_queue [])) = map order_of (rd_pending demo_live_queue)"
    "en_recent_outcomes (w_engine (demo_queue [])) = []" "open_trades demo_live_queue = []"
    using demo_orders_match by (simp_all add: demo_live_queue_def demo_queue_def engine_new_def open_trades_def)
  from live_due_orders_match_simulator[OF p l s(1-4)] l s(5) show ?thesis by (auto simp: list_all2_Cons1)
qed

text \<open>C8: a resolution closes the open trades of its market and no other, settles each of them once, in order, and reports
  each; when the market is resolved again nothing is settled and the engine stays as it is.\<close>

theorem live_resolution_settles_once:
  "(let fp = resolve_fee_params parse (rd_config e) (Some w) now_ms;
        ts = filter (\<lambda>t. tr_market_id t = mw_market_id w \<and> tr_id t \<noteq> None) (open_trades e);
        r = live_resolution parse w outcome now_ms e
    in open_trades (snd r) = filter (\<lambda>t. tr_market_id t \<noteq> mw_market_id w) (open_trades e) \<and>
       rd_bankroll (snd r) = fold (settle_bank fp outcome) ts (rd_bankroll e) \<and>
       dx_persistence_events (fst r) = EvMarketResolved (mw_market_id w) (direction_to_string outcome) #
         close_events fp outcome now_ms (rd_bankroll e) ts \<and>
       live_resolution parse w outcome2 now2 (snd r) =
         (make_output [EvMarketResolved (mw_market_id w) (direction_to_string outcome2)] [] [] [] None now2 0, snd r))"
proof -
  obtain out e' where r: "live_resolution parse w outcome now_ms e = (out, e')" by fastforce
  show ?thesis using resolution_effect[OF r refl refl] resolution_again[OF r] r
    by (simp add: Let_def open_trades_def remove_market_def same_book_def filter_map o_def conj_commute)
qed

text \<open>C9: the live engine and the position manager, holding the same open trades of a market and using the same fee, settle
  a resolution to the same bankroll, with the same prices and fees trade by trade.\<close>

theorem live_settlement_matches_manager:
  assumes man: "resolve_window_with_outcome parse w outcome (rd_config e) now wall x = (rs, x')"
      "get_open_trades_for_market (mw_market_id w) (dk_db x) = (Inr ts, s1)"
    and live: "live_resolution parse w outcome now_ms e = (out, e')"
      "list_all2 same_trade ts (filter (\<lambda>t. tr_market_id t = mw_market_id w \<and> tr_id t \<noteq> None) (open_trades e))"
    and same: "rd_bankroll e = dk_bank x"
      "resolve_fee_params parse (rd_config e) (Some w) now_ms = resolve_fee_params parse (rd_config e) (Some w) (mw_end_time w)"
  shows "rd_bankroll e' = dk_bank x' \<and> map closed_terms (tl (dx_persistence_events out)) =
    map (\<lambda>(t, r). Some (res_settlement_price r, res_fee_amount r)) rs"
proof -
  note m = resolve_effect[OF man refl]
  note l = resolution_effect[OF live(1) refl refl]
  show ?thesis using m(1,3) l(3,4) same settle_same_trades[OF live(2)] terms_same_trades[OF live(2)] settled_terms[OF m(2)]
    by (simp add: closed_events_terms open_trades_def filter_map o_def conj_commute)
qed

theorem live_settlement_matches_manager_witness:
  "rd_bankroll (snd (live_resolution (\<lambda>_. None) demo_window Up 300500 demo_live_position)) =
     dk_bank (snd (resolve_window_with_outcome (\<lambda>_. None) demo_window Up demo_free (\<lambda>_. 5) (\<lambda>_. 6) demo_desk))"
proof -
  have c: "rd_config demo_live_position = demo_free" by (simp add: demo_live_position_def)
  have s: "list_all2 same_trade [demo_position\<lparr>tr_id := Some 1\<rparr>] (filter (\<lambda>t. tr_market_id t = mw_market_id demo_window \<and> tr_id t \<noteq> None)
      (open_trades demo_live_position))"
    by (simp add: demo_live_position_def open_trades_def add_open_trade_def same_trade_def demo_position_def new_position_def)
  have b: "rd_bankroll demo_live_position = dk_bank demo_desk" by (simp add: demo_live_position_def demo_desk_facts)
  show ?thesis
    using live_settlement_matches_manager[OF surjective_pairing demo_desk_open surjective_pairing s b, of "\<lambda>_. None" 300500 Up "\<lambda>_. 5" "\<lambda>_. 6"]
    by (simp only: c demo_fee simp_thms)
qed

text \<open>C10: an evaluation hands out orders for the venue only in live mode, with trading not paused and submission armed; in
  live mode it leaves bankroll, queue and trades as they are when it is paused or disarmed.\<close>

theorem live_orders_only_when_armed:
  assumes ev: "live_evaluate parse render req e = Some (out, e')" and ok: "request_ok req e"
  shows "(dx_live_orders out \<noteq> [] \<longrightarrow> execution_mode (rd_config e) = LiveTrading \<and>
      cb_can_trade (rd_breaker e) (rq_now_ms req) \<and> rq_live_trading_can_submit req) \<and>
    (execution_mode (rd_config e) = LiveTrading \<and> \<not> (cb_can_trade (rd_breaker e) (rq_now_ms req) \<and> rq_live_trading_can_submit req) \<longrightarrow>
      rd_bankroll e' = rd_bankroll e \<and> rd_pending e' = rd_pending e \<and> rd_exposure e' = rd_exposure e \<and> dx_persistence_events out = [])"
  using evaluate_no_orders[OF ev ok] evaluate_disarmed[OF ev] by (auto simp: same_book_def)

theorem live_orders_only_when_armed_witness:
  "\<exists>out e'. live_evaluate (\<lambda>_. None) (\<lambda>_. []) (demo_request\<lparr>rq_live_trading_can_submit := False\<rparr>) (demo_live demo_live_quotes) = Some (out, e') \<and>
     dx_live_orders out = [] \<and> rd_pending e' = []"
proof -
  let ?req = "demo_request\<lparr>rq_live_trading_can_submit := False\<rparr>" and ?e = "demo_live demo_live_quotes"
  obtain out e' where ev: "live_evaluate (\<lambda>_. None) (\<lambda>_. []) ?req ?e = Some (out, e')"
    using evaluate_total[of ?e "\<lambda>_. None" "\<lambda>_. []" ?req] demo_live_strategies demo_live_quotes by (auto simp: strategies_ok_def)
  have "request_ok ?req ?e"
    using demo_request_ok demo_live_quotes demo_live_strategies by (simp add: request_ok_def strategies_ok_def)
  from live_orders_only_when_armed[OF ev this] ev show ?thesis using demo_live_quotes(3) by auto
qed

text \<open>C11: when the output of a live evaluation is not delivered, the queue is what it was before the evaluation, the
  reserves of exactly its orders are released, and nothing else of the engine changes.\<close>

theorem live_rollback_restores_queue:
  assumes ev: "live_evaluate parse render req e = Some (out, e')" and ok: "request_ok req e" "ids_ok e"
    and live: "execution_mode (rd_config e) = LiveTrading" and ids: "- (2 ^ 63) < rd_next_signal_id e'"
  shows "forward_strategy_output False (out, e') = e'\<lparr>rd_pending := rd_pending e, rd_bankroll :=
    fold (\<lambda>qi. release_reserved_for_strategy (qi_reserved_cost qi) (qi_strategy qi)) (dx_live_orders out) (rd_bankroll e')\<rparr>"
proof -
  obtain ros where r: "rd_pending e' = rd_pending e @ ros" "dx_live_orders out = map live_order_intent ros"
    using evaluate_orders[OF ev ok(1) live] by blast
  have "ids_ok e'" using steps_laws(4)[OF evaluate_steps[OF ev ok(1)]] ok(2) by blast
  then have "distinct (map ro_signal_id (rd_pending e @ ros))" using ids r(1) by (simp add: ids_ok_def)
  from rollback_effect[OF r(1) this r(2)] show ?thesis
    by (simp add: forward_strategy_output_def r(2) fold_map o_def live_order_intent_def)
qed

theorem live_rollback_restores_queue_witness:
  "\<exists>out e'. live_evaluate (\<lambda>_. None) (\<lambda>_. []) demo_calm_request demo_calm_live = Some (out, e') \<and> dx_live_orders out \<noteq> [] \<and>
     rd_pending e' \<noteq> [] \<and> rd_pending (forward_strategy_output False (out, e')) = []"
proof -
  obtain out e' where ev: "live_evaluate (\<lambda>_. None) (\<lambda>_. []) demo_calm_request demo_calm_live = Some (out, e')"
    "dx_live_orders out \<noteq> []" "rd_pending e' \<noteq> []" "rd_next_signal_id e' = - 2" using demo_live_order by blast
  from live_rollback_restores_queue[OF ev(1) demo_calm_ok] ev show ?thesis by (simp add: demo_calm_fields)
qed

text \<open>C12: a fill reported for a pending order removes that order and no other, opens one trade with the reported price and
  size, and releases exactly the unused part of the reserve.\<close>

theorem live_feedback_opens_fill:
  assumes "rd_pending e = old @ ro # rest" "ids_ok e" "- (2 ^ 63) < rd_next_signal_id e" "ff_signal_id ff = ro_signal_id ro"
    and "\<not> ff_filled_size ff \<le> 0" "\<not> ff_fill_price ff \<le> 0"
  shows "(let e' = apply_live_submission_feedback [ff] [] now e; cost = ff_filled_size ff * ff_fill_price ff
    in rd_pending e' = old @ rest \<and>
       open_trades e' = open_trades e @ [live_build_trade ro (rd_next_trade_id e) (ff_fill_price ff) (ff_filled_size ff) now ''live''] \<and>
       rd_bankroll e' = (if cost < ro_reserved_cost ro
         then release_reserved_for_strategy (ro_reserved_cost ro - cost) (ro_strategy ro) (rd_bankroll e) else rd_bankroll e))"
proof -
  have "ro_signal_id ro \<notin> set (map ro_signal_id old)" using assms(1-3) by (auto simp: ids_ok_def)
  from apply_fill_effect[OF assms(1) this assms(4-6)] show ?thesis
    by (simp add: apply_live_submission_feedback_def Let_def open_trades_def add_open_trade_def)
qed

theorem live_feedback_opens_fill_witness:
  "(let e = (demo_live demo)\<lparr>rd_pending := [demo_runtime_order\<lparr>ro_signal_id := - 1\<rparr>], rd_next_signal_id := - 2\<rparr>;
        e' = apply_live_submission_feedback [\<lparr>ff_signal_id = - 1, ff_fill_price = f64_lit 0.5, ff_filled_size = f64_lit 64\<rparr>] [] 1300 e
    in rd_pending e' = [] \<and> map tr_size (open_trades e') = [f64_lit 64])"
proof -
  let ?ro = "demo_runtime_order\<lparr>ro_signal_id := - 1\<rparr>"
  let ?e = "(demo_live demo)\<lparr>rd_pending := [?ro], rd_next_signal_id := - 2\<rparr>"
  let ?ff = "\<lparr>ff_signal_id = - 1, ff_fill_price = f64_lit 0.5, ff_filled_size = f64_lit 64\<rparr>"
  have "ids_ok ?e" and o: "open_trades ?e = []" by (simp_all add: ids_ok_def open_trades_def)
  from live_feedback_opens_fill[of ?e "[]" ?ro "[]" ?ff, OF _ this(1), of 1300] show ?thesis
    by (simp add: Let_def live_build_trade_def o positive_lits)
qed

subsection \<open>Submitting to the venue\<close>

text \<open>C13: in a new session, whatever the venue answers and whichever statements of the database fail (a crash makes all
  later ones fail), the worker calls the venue at most once for an intent and at most as often as the order cap allows;
  the row of every intent sent is in the database, reserved and marked as submitting.\<close>

theorem venue_called_once_per_intent:
  assumes "intents_sound d" "attempted_in_session sid d = []"
  shows "let y = snd (run_submission_worker env c sid rqs \<lparr>vw_db = d, vw_calls = [], vw_verifications = vs\<rparr>) in
    distinct (map orq_intent_id (vw_calls y)) \<and>
    (live_max_session_orders c \<noteq> 0 \<longrightarrow> length (vw_calls y) \<le> unat (live_max_session_orders c)) \<and>
    (\<forall>req \<in> set (vw_calls y). \<exists>row \<in> set (lv_intents (vw_db y)). it_id row = orq_intent_id req \<and>
       loi_session_id (it_intent row) = sid \<and> it_attempted_at_ms row \<noteq> None \<and> loi_status (it_intent row) = ''submitting'')"
proof -
  let ?y0 = "\<lparr>vw_db = d, vw_calls = [], vw_verifications = vs\<rparr>"
  have "worker_sound c sid ?y0" using assms by (simp add: worker_sound_def calls_recorded_def)
  from worker_run_effect[OF this surjective_pairing, of env rqs] have
    s: "worker_sound c sid (snd (run_submission_worker env c sid rqs ?y0))" by simp
  from session_calls_bound[OF s] s show ?thesis unfolding worker_sound_def calls_recorded_def Let_def by auto
qed

theorem venue_called_once_per_intent_witness:
  "distinct (map orq_intent_id (vw_calls (snd (run_submission_worker demo_venue demo_venue_config 1
     [(demo_submission [1, 2], True), (demo_submission [2], True)] demo_venue_world)))) \<and>
   length (vw_calls (snd (run_submission_worker demo_venue demo_venue_config 1
     [(demo_submission [1, 2], True), (demo_submission [2], True)] demo_venue_world))) \<le> 2"
proof -
  have "live_max_session_orders demo_venue_config = 2" by (simp add: demo_venue_config_def)
  then show ?thesis
    using venue_called_once_per_intent[OF demo_world_facts(1,2), of demo_venue demo_venue_config
        "[(demo_submission [1, 2], True), (demo_submission [2], True)]" "[]"]
    by (simp add: demo_venue_world_def Let_def)
qed

text \<open>C14: when a worker has called the venue once, every later start of live trading on a database that still holds its
  intents is refused, also when the outcome of the call was never stored.\<close>

theorem used_database_not_restarted:
  assumes "intents_sound d" "attempted_in_session sid d = []"
    and "y = snd (run_submission_worker env c sid rqs \<lparr>vw_db = d, vw_calls = [], vw_verifications = vs\<rparr>)"
    and "vw_calls y \<noteq> []" "set (lv_intents (vw_db y)) \<subseteq> set (lv_intents d')"
  shows "fst (ensure_live_bootstrap_clean c' d') \<noteq> Inr ()"
proof -
  let ?y0 = "\<lparr>vw_db = d, vw_calls = [], vw_verifications = vs\<rparr>"
  have "worker_sound c sid ?y0" using assms(1,2) by (simp add: worker_sound_def calls_recorded_def)
  from worker_run_effect[OF this surjective_pairing, of env rqs] assms(3) have "calls_recorded sid y" by (simp add: worker_sound_def)
  from used_database_refused[OF this assms(4,5)] show ?thesis .
qed

theorem used_database_not_restarted_witness:
  "fst (ensure_live_bootstrap_clean demo_venue_config (vw_db (snd (run_submission_worker demo_venue demo_venue_config 1
     [(demo_submission [1], True)] demo_venue_world)))) \<noteq> Inr ()"
proof (rule used_database_not_restarted[OF demo_world_facts(1,2) refl])
  show "vw_calls (snd (run_submission_worker demo_venue demo_venue_config 1 [(demo_submission [1], True)]
      \<lparr>vw_db = demo_live_db, vw_calls = [], vw_verifications = []\<rparr>)) \<noteq> []"
    unfolding demo_worker_run[unfolded demo_venue_world_def] by simp
qed (simp add: demo_venue_world_def)



text \<open>C16: an order whose intent is stored and not rejected is sent to the venue, when the caps of the session leave room, the
  intent has no order yet, the remaining statements succeed and this is not a dry run.\<close>

theorem allowed_order_reaches_venue:
  assumes "intents_sound (vw_db y)"
    and "persist_live_order_intent (vn_render env) c sid w qi ev now_ms (qi_requested_price qi * qi_requested_size qi) (vw_db y) =
      (Inr (iid, None), d1)"
    and "db_faults (lv_store d1) = []" "unat now_ms < 2 ^ 63"
    and "live_max_session_orders c = 0 \<or> length (attempted_in_session sid (vw_db y)) < unat (live_max_session_orders c)"
    and "live_max_session_fills c = 0 \<or> length (fills_in_session sid (vw_db y)) < unat (live_max_session_fills c)"
    and "\<forall>r \<in> set (lv_orders (vw_db y)). lor_intent_id (od_order r) \<noteq> iid" "\<not> live_dry_run c"
  shows "vw_calls (snd (submit_one_live_order env c sid w qi ev now_ms y)) =
    vw_calls y @ [build_live_order_request (vn_render env) sid iid qi (qi_requested_price qi * qi_requested_size qi)]"
  by (rule submit_one_calls) (use assms in \<open>simp_all add: below_caps_def\<close>)

theorem allowed_order_reaches_venue_witness:
  "vw_calls (snd (submit_one_live_order demo_venue demo_venue_config 1 demo_window (demo_intent 1)
     (Some (EvSignal 1 demo_signal ''m1'' LegacySnapshot (Some 1000) (Some 1250) ''submitted'' None)) 1300 demo_venue_world)) =
   [build_live_order_request (\<lambda>j. []) 1 1 (demo_intent 1) (f64_lit 64)]"
proof -
  let ?ev = "Some (EvSignal 1 demo_signal ''m1'' LegacySnapshot (Some 1000) (Some 1250) ''submitted'' None)"
  obtain d1 where d1: "persist_live_order_intent (\<lambda>j. []) demo_venue_config 1 demo_window (demo_intent 1) ?ev 1300 (f64_lit 64) demo_live_db =
      (Inr (1, None), d1)" "db_faults (lv_store d1) = []" using demo_persist by blast
  have live: "\<not> live_dry_run demo_venue_config" by (simp add: demo_venue_config_def demo_def config_default_def)
  have r: "vn_render demo_venue = (\<lambda>j. [])" by (simp add: demo_venue_def)
  show ?thesis
    using allowed_order_reaches_venue[of demo_venue_world demo_venue demo_venue_config 1 demo_window "demo_intent 1" ?ev 1300 1 d1]
      d1 demo_caps live
    by (simp add: demo_intent_fields demo_world_facts r below_caps_def)
qed

text \<open>C17: the feedback accounts for every order of a batch exactly once: an order is filled, or it is rejected and its whole
  reserve given back under its strategy, or it is kept because its outcome is unknown, which happens to at most one order and
  blocks the session.\<close>

theorem batch_orders_accounted:
  assumes "worker_sound c sid y" "submit_live_orders env c sid rq y = (fb, y')"
  shows "\<exists>filled rejected kept. mset (smr_orders rq) = mset filled + mset rejected + mset kept \<and>
    map ff_signal_id (smf_fills fb) = map qi_signal_id filled \<and>
    smf_releases fb = map (\<lambda>qi. (qi_strategy qi, qi_reserved_cost qi)) rejected \<and>
    smf_rejected_signal_ids fb = map qi_signal_id rejected \<and>
    (kept = [] \<or> length kept = 1 \<and> (\<exists>reason. smf_state_update fb = Some \<lparr>smu_state = ''unknown_order'', smu_reason = reason\<rparr>))"
proof -
  have ids: "map ff_signal_id fills = map qi_signal_id filled" if "list_all2 fill_of filled fills" for filled fills
    using that by (induction rule: list_all2_induct) (simp_all add: fill_of_def)
  from submit_live_orders_effect(2)[OF assms] obtain filled rejected kept fills where
    "mset (smr_orders rq) = mset filled + mset rejected + mset kept" "smf_fills fb = fills" "list_all2 fill_of filled fills"
    "smf_releases fb = map (\<lambda>qi. (qi_strategy qi, qi_reserved_cost qi)) rejected" "smf_rejected_signal_ids fb = map qi_signal_id rejected"
    "kept = [] \<or> length kept = 1 \<and> (\<exists>reason. smf_state_update fb = Some \<lparr>smu_state = ''unknown_order'', smu_reason = reason\<rparr>)"
    by (auto simp: accounted_def)
  with ids show ?thesis by (intro exI[of _ filled] exI[of _ rejected] exI[of _ kept]) auto
qed

theorem batch_orders_accounted_witness:
  "\<exists>filled rejected kept. mset (map demo_intent [1, 2]) = mset filled + mset rejected + mset kept \<and>
    smf_rejected_signal_ids (fst (submit_live_orders demo_venue demo_venue_config 1 (demo_submission [1, 2]) demo_venue_world)) =
      map qi_signal_id rejected \<and> length kept \<le> 1"
proof -
  have "smr_orders (demo_submission [1, 2]) = map demo_intent [1, 2]" by (simp add: demo_submission_def)
  moreover obtain filled rejected kept where "mset (smr_orders (demo_submission [1, 2])) = mset filled + mset rejected + mset kept"
    "smf_rejected_signal_ids (fst (submit_live_orders demo_venue demo_venue_config 1 (demo_submission [1, 2]) demo_venue_world)) =
      map qi_signal_id rejected" "kept = [] \<or> length kept = 1"
    using batch_orders_accounted[OF demo_sound surjective_pairing, where env = demo_venue and rq = "demo_submission [1, 2]"] by blast
  ultimately show ?thesis by (intro exI[of _ filled] exI[of _ rejected] exI[of _ kept]) auto
qed



text \<open>C19: whichever statements fail, a verification confirms no order but its own, and only after one of its reads showed, in
  the expected unit, at least the amount that all matched orders of the token add up to.\<close>

theorem fill_confirmed_only_when_covered:
  assumes "row \<in> set (lv_orders (verify_onchain_fill sum_real render answers now v d))"
    and "od_reconcile_status row = Some ''confirmed''" "row \<notin> set (lv_orders d)"
  shows "od_id row = ocv_live_order_id v \<and> (\<exists>expected_raw i p balance.
    fst (compute_onchain_expected_raw sum_real v d) = Some expected_raw \<and> i < unat (ocv_attempts v) \<and> answers i = Inr p \<and>
    ocp_collateral_decimals p = 6 \<and> parse_onchain_balance_raw (ocp_balance_raw p) = Some balance \<and> expected_raw \<le> balance)"
  using verify_confirms[OF assms] unfolding read_covers_iff by blast

theorem fill_confirmed_only_when_covered_witness:
  "\<exists>expected_raw i p balance. fst (compute_onchain_expected_raw (\<lambda>xs. f64_lit 128) demo_verification demo_filled_db) = Some expected_raw \<and>
     i < unat (ocv_attempts demo_verification) \<and> demo_reads i = Inr p \<and> parse_onchain_balance_raw (ocp_balance_raw p) = Some balance \<and>
     expected_raw \<le> balance"
proof -
  have orders: "lv_orders (verify_onchain_fill (\<lambda>xs. f64_lit 128) (\<lambda>j. []) demo_reads 5000 demo_verification demo_filled_db) =
      [demo_filled_row\<lparr>od_reconcile_status := Some ''confirmed''\<rparr>]"
    using verify_verdict[of demo_filled_db demo_filled_row demo_verification 5000 "\<lambda>xs. f64_lit 128" demo_reads "\<lambda>j. []"] demo_filled_facts demo_confirmed
    by (simp add: demo_verification_def with_status_def)
  have "demo_filled_row\<lparr>od_reconcile_status := Some ''confirmed''\<rparr> \<noteq> demo_filled_row" by (simp add: demo_filled_row_def)
  then show ?thesis
    using fill_confirmed_only_when_covered[of "demo_filled_row\<lparr>od_reconcile_status := Some ''confirmed''\<rparr>" "\<lambda>xs. f64_lit 128" "\<lambda>j. []" demo_reads 5000
        demo_verification demo_filled_db] demo_filled_facts(2)
    unfolding orders by auto
qed

text \<open>C20: when no statement fails, a verification ends in one of two verdicts: a read covers the expected amount, its order is
  marked confirmed and nothing is reported; or the order is marked failed and one critical event of the session is recorded.\<close>

theorem fill_verdict_exact:
  assumes "db_faults (lv_store d) = []" "distinct (map od_id (lv_orders d))" "row \<in> set (lv_orders d)" "od_id row = ocv_live_order_id v"
    and "session_known d (ocv_session_id v)" "unat now < 2 ^ 63"
  shows "let d' = verify_onchain_fill sum_real render answers now v d;
      covered = (case fst (compute_onchain_expected_raw sum_real v d) of None \<Rightarrow> False
        | Some expected_raw \<Rightarrow> list_ex (\<lambda>i. read_covers expected_raw (answers i)) [0..<unat (ocv_attempts v)])
    in lv_orders d' = with_status (ocv_live_order_id v) (if covered then ''confirmed'' else ''failed'') (lv_orders d) \<and>
       (if covered then lv_reconciliation d' = lv_reconciliation d
        else \<exists>re. lv_reconciliation d' = lv_reconciliation d @ [(lv_reconciliation_seq d + 1, re)] \<and>
          lre_session_id re = ocv_session_id v \<and> lre_severity re = ''critical'')"
proof (cases "onchain_confirmed sum_real answers v d")
  case True
  with verify_verdict[OF assms, of sum_real answers render] show ?thesis by (simp add: Let_def onchain_confirmed_def)
next
  case False
  with verify_verdict[OF assms, of sum_real answers render] show ?thesis unfolding onchain_confirmed_def Let_def by auto
qed

theorem fill_verdict_exact_witness:
  "lv_orders (verify_onchain_fill (\<lambda>xs. f64_lit 128) (\<lambda>j. []) demo_reads 5000 demo_verification demo_filled_db) =
     [demo_filled_row\<lparr>od_reconcile_status := Some ''confirmed''\<rparr>]"
  using fill_verdict_exact[of demo_filled_db demo_filled_row demo_verification 5000 "\<lambda>xs. f64_lit 128" "\<lambda>j. []" demo_reads]
    demo_filled_facts demo_confirmed[unfolded onchain_confirmed_def]
  by (simp add: demo_verification_def with_status_def Let_def)

subsection \<open>Replay\<close>

text \<open>C21: the replay cuts the ticks into consecutive groups without losing or reordering any; a group has the time and
  fidelity of its first tick, the last tick of each source, and behind the first only snapshots within the window of the first.\<close>

theorem replay_groups_ticks:
  "replay_groups (from_cached ts) = map summary_of (chunks ts) \<and> concat (chunks ts) = ts \<and>
   (\<forall>c \<in> set (chunks ts). c \<noteq> [] \<and> tg_timestamp (summary_of c) = tk_timestamp (hd c) \<and> tg_fidelity (summary_of c) = tk_fidelity (hd c) \<and>
      tg_binance (summary_of c) = last_of ''binance'' c \<and> tg_chainlink (summary_of c) = last_of ''chainlink'' c \<and>
      tg_clob_up (summary_of c) = last_of ''clob_up'' c \<and> tg_clob_down (summary_of c) = last_of ''clob_down'' c \<and>
      (\<forall>t \<in> set (tl c). tk_fidelity t = LegacySnapshot \<and>
         saturating_sub (tk_timestamp t) (tk_timestamp (hd c)) \<le> group_window_ms (tk_fidelity (hd c))))"
  using chunks_nonempty[of _ ts] chunk_window[of _ ts]
  by (auto simp: groups_of_cached concat_chunks summary_of_fields simp del: chunks.simps)

theorem replay_groups_ticks_witness:
  "concat (chunks demo_ticks) = demo_ticks \<and> tg_timestamp (hd (replay_groups (from_cached demo_ticks))) = 1500"
  using replay_groups_ticks[of demo_ticks]
  by (simp add: demo_ticks_def blank_tick_def joins_def within_window_def)







text \<open>C25: no damaged length goes unnoticed: bytes behind an accepted payload are reported as trailing, and every proper
  prefix of an accepted payload is an error.\<close>

theorem replay_block_damage:
  assumes "decode_bytes p = Inr rows"
  shows "(extra \<noteq> [] \<longrightarrow> decode_bytes (p @ extra) = Inl TrailingBytes) \<and> (n < length p \<longrightarrow> (\<exists>err. decode_bytes (take n p) = Inl err))"
  using decode_bytes_extended[OF assms] decode_bytes_truncated[OF assms] by blast

theorem replay_block_damage_witness:
  "\<exists>rows. decode_bytes (block_bytes [demo_event]) = Inr rows \<and> decode_bytes (block_bytes [demo_event] @ [0]) = Inl TrailingBytes"
proof -
  obtain blk where blk: "encode_events demo_compress (\<lambda>_. 0) [demo_event] 3 = Inr blk" "length (block_bytes [demo_event]) < 2 ^ 64"
    using demo_block by blast
  have c: "list_all codable [demo_event]" using demo_event_storable by (simp add: storable_event_def)
  have "decode_bytes (block_bytes [demo_event]) = Inr [decoded_of demo_event]"
    using encode_events_Inr[OF blk(1) c] block_round_trip[OF blk(1) c blk(2), of Some] by (simp add: decode_payload_def)
  then show ?thesis using replay_block_damage[of "block_bytes [demo_event]" _ "[0]"] by blast
qed

text \<open>C26: whatever bytes a block holds, the rows the decoder accepts are the decoded form of events the encoder takes:
  sides and event types are known, strings are well-formed UTF-8, and no time is the mark of absence.\<close>

theorem replay_block_rows_typed:
  assumes "decode_payload decompress crc p c = Inr rows"
  shows "\<exists>es. rows = map decoded_of es \<and> list_all is_blockable_clob_event es \<and> list_all codable es"
proof (intro exI conjI)
  show "rows = map decoded_of (map event_of_row rows)" by (simp add: map_idI typed_row_event(1))
  show "list_all is_blockable_clob_event (map event_of_row rows)" "list_all codable (map event_of_row rows)"
    using decode_typed[OF assms] typed_row_event(2) by (auto simp: list_all_iff)
qed

theorem replay_block_rows_typed_witness:
  "\<exists>es. [decoded_of demo_event] = map decoded_of es \<and> list_all is_blockable_clob_event es \<and> list_all codable es"
proof -
  obtain blk where blk: "encode_events demo_compress (\<lambda>_. 0) [demo_event] 3 = Inr blk" "length (block_bytes [demo_event]) < 2 ^ 64"
    using demo_block by blast
  have c: "list_all codable [demo_event]" using demo_event_storable by (simp add: storable_event_def)
  have "decode_payload Some (\<lambda>_. 0) (eb_payload blk) (eb_checksum blk) = Inr [decoded_of demo_event]"
    using block_round_trip[OF blk(1) c blk(2), of Some] by simp
  from replay_block_rows_typed[OF this] show ?thesis .
qed

text \<open>C27: the predicate that selects events for a block is enough for the encoder to succeed, and the summary stored with
  the block has the earliest and latest receive time and the exact counts.\<close>

theorem blockable_events_encode:
  assumes "es \<noteq> []" "list_all is_blockable_clob_event es" "length es < 2 ^ 32"
    and "\<forall>e \<in> set es. \<forall>s \<in> set (event_strings e). length s < 2 ^ 32" "\<forall>p. compress level p \<noteq> None"
  shows "\<exists>blk. encode_events compress crc es level = Inr blk \<and> eb_min_received_at_ms blk = Min (fe_received_at_ms ` set es) \<and>
    eb_max_received_at_ms blk = Max (fe_received_at_ms ` set es) \<and> unat (eb_row_count blk) = length es \<and>
    unat (eb_up_rows blk) = length (filter (\<lambda>e. fe_source e = ''clob_up'') es) \<and> unat (eb_up_rows blk) + unat (eb_down_rows blk) = length es"
  using blockable_encodes[of es compress level crc, OF assms] block_summary[of compress crc es level] by blast

theorem blockable_events_encode_witness:
  "\<exists>blk. encode_events demo_compress (\<lambda>_. 0) [demo_event, demo_event] 3 = Inr blk \<and> unat (eb_row_count blk) = 2 \<and> eb_max_received_at_ms blk = 1500"
  using blockable_events_encode[of "[demo_event, demo_event]" demo_compress 3 "\<lambda>_. 0"]
  by (auto simp: demo_event_def is_blockable_clob_event_def event_strings_def)

subsection \<open>The open-exposure ceiling\<close>

text \<open>C28: a successful single-order reservation keeps the committed exposure (active plus pending
  settlement) within the configured ceiling, up to the relative rounding margin \<open>2 ^ - 50\<close>.\<close>

theorem reserve_respects_ceiling:
  assumes "ledger_ok b" "open_exposure_ceiling_usd c = Some M" "1 \<le> M" "M \<le> f64_lit (10 ^ 12)"
    and "\<not> is_nan entry_price" "f64_lit 0.001 \<le> reserve_price"
    and "reserve_capital_with_reserve_price entry_price reserve_price confidence strategy f c now b = (t, b')"
    and "0 < t"
  shows "is_finite (bk_active b' + bk_pending b') \<and>
    fval (bk_active b' + bk_pending b') \<le> fval M * (1 + 1 / 2 ^ 50)"
  by (rule exposure_ceiling_single[OF assms])

theorem reserve_respects_ceiling_witness:
  "fst (reserve_capital_with_reserve_price (f64_lit 0.5) (f64_lit 0.5) 1 ''latency-arb'' LatencyArb demo 5 demo_bank) = f64_lit 128 \<and>
   (let b' = snd (reserve_capital_with_reserve_price (f64_lit 0.5) (f64_lit 0.5) 1 ''latency-arb'' LatencyArb demo 5 demo_bank)
    in fval (bk_active b' + bk_pending b') \<le> fval (f64_lit 64) * (1 + 1 / 2 ^ 50))"
  using reserve_respects_ceiling[OF demo_bank_ledger demo_ceiling demo_ceiling_range lit_nan(1) demo_order_facts(1) surjective_pairing,
      of "1 / 2" 1 "''latency-arb''" LatencyArb 5] demo_reserve
  by (simp add: Let_def demo_order_facts)

text \<open>A successful reservation for both legs of a spread keeps the committed exposure within the
  configured ceiling, up to the relative rounding margin \<open>2 ^ - 50\<close>.\<close>

lemma spread_respects_ceiling:
  assumes "ledger_ok b" "open_exposure_ceiling_usd c = Some M" "1 \<le> M" "M \<le> f64_lit (10 ^ 12)"
    and "f64_lit 0.001 \<le> up_price" "f64_lit 0.001 \<le> down_price"
    and "reserve_spread_capital_for_family up_price down_price confidence f c now b = ((t1, t2), b')"
    and "0 < t1"
  shows "is_finite (bk_active b' + bk_pending b') \<and>
    fval (bk_active b' + bk_pending b') \<le> fval M * (1 + 1 / 2 ^ 50)"
  by (rule exposure_ceiling_spread[OF assms])

subsection \<open>The reserve ledger\<close>

text \<open>C29: after every sequence of bankroll operations that starts from a fresh bankroll, the reserve
  buckets are non-negative, the raw totals are the sums of the buckets, and no total counts as manually overridden.\<close>

theorem bankroll_ledger_histories:
  assumes "list_all bk_op_ok es"
  shows "ledger_ok (fold bk_step es (new_in_memory starting current c)) \<and>
    \<not> manually_overridden (fold bk_step es (new_in_memory starting current c))"
  using ledger_machine.inv_run[OF new_in_memory_ledger assms] not_overridden(1) by blast

theorem bankroll_ledger_histories_witness:
  "list_all bk_op_ok demo_ops \<and> ledger_ok (fold bk_step demo_ops demo_bank)"
  using bankroll_ledger_histories[OF demo_ops_ok, of "f64_lit 1024" "f64_lit 1024" demo] demo_ops_ok
  by (simp add: demo_bank_def)

text \<open>Along every sequence of operations the high-water mark of the bankroll never falls.\<close>

lemma high_water_mark_monotone:
  assumes "\<not> is_nan (bk_high_water_mark b)" "list_all bk_op_ok es"
  shows "bk_high_water_mark b \<le> bk_high_water_mark (fold bk_step es b)"
  using hwm_machine.leq_run[of b es] assms by (simp add: hwm_number_def hwm_le_def)

text \<open>Along every sequence of operations without settlement corrections the wins and losses add up
  to the number of applied results.\<close>

lemma win_loss_counts:
  assumes "list_all bk_op_counted es"
  shows "bk_total_wins (fold bk_step es (new_in_memory starting current c)) +
    bk_total_losses (fold bk_step es (new_in_memory starting current c)) =
    bk_total_trades (fold bk_step es (new_in_memory starting current c))"
  using counts_machine.inv_run[OF _ assms, of "new_in_memory starting current c"]
  by (simp add: counts_ok_def new_in_memory_def)

text \<open>Applying a trade result with persistence changes the bankroll exactly as the in-memory variant does,
  whether or not the database accepts the balance row.\<close>

lemma result_persisted:
  "fst (apply_trade_result i entry_price sz settlement fee strategy now s b) =
     snd (apply_trade_result_in_memory entry_price sz settlement fee strategy b)"
  by (rule apply_trade_result_refines)

subsection \<open>Executor\<close>

text \<open>C30: a pass over the due orders that meets no database error keeps exactly the orders that are not due, records
  one outcome for each due order in queue order, and returns one trade for each filled outcome.\<close>

theorem due_pass_complete:
  assumes "process_due_orders dc x = (Inr ts, x')"
  shows "en_pending_orders (w_engine x') = filter (\<lambda>po. \<not> due dc po) (en_pending_orders (w_engine x)) \<and>
    (\<exists>outs. en_recent_outcomes (w_engine x') = en_recent_outcomes (w_engine x) @ outs \<and>
       map out_signal_id outs = map po_signal_id (filter (due dc) (en_pending_orders (w_engine x))) \<and>
       length ts = length (filter (\<lambda>out. out_disposition out = Filled) outs))"
  using process_due_orders_ok[OF assms] by (auto simp: pass_ok_def)

theorem due_pass_complete_witness:
  "en_pending_orders (w_engine (snd (process_due_orders demo_due (demo_queue [])))) = [demo_late_order]"
proof -
  obtain t x' where p: "process_due_orders demo_due (demo_queue []) = (Inr [t], x')" using demo_pass_trade by blast
  show ?thesis using due_pass_complete[OF p] by (simp add: p demo_queue_pending demo_due_split)
qed

text \<open>C31: a pass stopped by a database error loses exactly one order: it was due, it leaves the queue and it has no
  outcome; the orders before it were handled as usual and the orders after it are all kept.\<close>

theorem due_pass_error:
  assumes "process_due_orders dc x = (Inl e, x')"
  shows "\<exists>pre po post outs. en_pending_orders (w_engine x) = pre @ po # post \<and> due dc po \<and>
    en_pending_orders (w_engine x') = filter (\<lambda>po. \<not> due dc po) pre @ post \<and>
    en_recent_outcomes (w_engine x') = en_recent_outcomes (w_engine x) @ outs \<and>
    map out_signal_id outs = map po_signal_id (filter (due dc) pre)"
proof -
  from process_due_orders_error[OF assms] obtain pre po post outs ts
    where "en_pending_orders (w_engine x) = pre @ po # post" "due dc po"
      "en_pending_orders (w_engine x') = filter (\<lambda>po. \<not> due dc po) pre @ post"
      "en_recent_outcomes (w_engine x') = en_recent_outcomes (w_engine x) @ outs" "pass_ok dc pre outs ts" by blast
  then show ?thesis by (intro exI[of _ pre] exI[of _ po] exI[of _ post] exI[of _ outs]) (simp add: pass_ok_def)
qed

theorem due_pass_error_witness:
  "en_pending_orders (w_engine (snd (process_due_orders demo_due (demo_queue [True])))) = [demo_late_order]"
  using due_pass_error[of demo_due "demo_queue [True]" SqliteError "snd (process_due_orders demo_due (demo_queue [True]))"]
    demo_pass_fault by (auto simp: prod_eq_iff demo_queue_pending demo_due_split Cons_eq_append_conv)

text \<open>C32: every trade a pass opens comes from a due order of the queue and respects its terms: the price is positive and
  at most the limit, the size positive and at most the requested size, the notional not below the minimum bet.\<close>

theorem fills_within_terms:
  assumes "process_due_orders dc x = (Inr ts, x')" "t \<in> set ts"
    and "\<forall>po \<in> set (en_pending_orders (w_engine x)). \<not> is_nan (po_limit_price po) \<and> \<not> is_nan (po_requested_size po)"
  shows "\<exists>po \<in> set (en_pending_orders (w_engine x)). due dc po \<and> fill_terms dc po t"
  using process_due_orders_ok[OF assms(1)] assms(2,3) fill_ok_terms unfolding pass_ok_def by blast

theorem fills_within_terms_witness:
  "\<exists>po \<in> {demo_order, demo_late_order}. due demo_due po \<and>
     fill_terms demo_due po (hd (sum.projr (fst (process_due_orders demo_due (demo_queue [])))))"
proof -
  obtain t x' where p: "process_due_orders demo_due (demo_queue []) = (Inr [t], x')" using demo_pass_trade by blast
  show ?thesis
    using fills_within_terms[OF p, of t] demo_orders_numbers by (simp add: p demo_queue_pending)
qed

text \<open>Along every history of submissions and passes, database errors included, no two queued orders share
  market, strategy and side.\<close>

lemma queue_has_no_duplicates:
  "distinct (map (\<lambda>po. (po_market_id po, po_strategy po, po_side po))
     (en_pending_orders (w_engine (fold en_step es \<lparr>w_engine = engine_new, w_db = s, w_bank = b\<rparr>))))"
proof -
  have "queue_distinct (fold en_step es \<lparr>w_engine = engine_new, w_db = s, w_bank = b\<rparr>)"
    by (rule queue_machine.inv_run) (simp_all add: queue_distinct_def engine_new_def list_all_iff)
  then show ?thesis by (simp add: queue_distinct_def order_key_def[abs_def])
qed

text \<open>The reserve ledger holds after every history of engine operations whose signals quote numbers, whatever the
  database answers.\<close>

lemma engine_keeps_ledger:
  assumes "list_all en_op_ok es"
  shows "ledger_ok (w_bank (fold en_step es \<lparr>w_engine = e, w_db = s, w_bank = new_in_memory starting current c\<rparr>))"
  by (rule engine_ledger.inv_run[OF _ assms]) (simp add: new_in_memory_ledger)

text \<open>C33: when a single order is queued, the open trades that count against the limit and all queued orders together,
  the new one included, are at most the configured maximum.\<close>

theorem submission_within_position_limit:
  assumes "submit_single sig w c now1 now2 fid x = (Inr (Queued ids orders), x')" "execution_mode c \<noteq> LiveTrading"
    and "relevant_open c now1 (w_db x) + length (en_pending_orders (w_engine x)) + 1 < 2 ^ 64"
  shows "relevant_open c now1 (w_db x) + length (en_pending_orders (w_engine x')) \<le> unat (max_open_positions c)"
  by (rule submit_single_slots[OF assms])

theorem submission_within_position_limit_witness:
  "length (en_pending_orders (w_engine (snd (submit_single demo_signal demo_window demo 1000 5 RawEvent demo_world)))) \<le> 5"
  using submission_within_position_limit[OF demo_submit_order] by (simp add: demo_world_open)

text \<open>When the two legs of a spread are queued, the open trades that count against the limit and all queued orders
  together, the new legs included, are at most the configured maximum.\<close>

lemma spread_within_position_limit:
  assumes "submit_spread parse sigs w c now0 now1 now2 fid x = (Inr (Queued ids orders), x')" "orders \<noteq> []"
    and "execution_mode c \<noteq> LiveTrading"
    and "relevant_open c now1 (w_db x) + length (en_pending_orders (w_engine x)) + 2 < 2 ^ 64"
  shows "relevant_open c now1 (w_db x) + length (en_pending_orders (w_engine x')) \<le> unat (max_open_positions c)"
  by (rule submit_spread_slots[OF assms])

text \<open>In live trading mode neither a single nor a spread submission changes the queue of simulated orders.\<close>

lemma live_never_queues:
  assumes "execution_mode c = LiveTrading"
  shows "en_pending_orders (w_engine (snd (submit_single sig w c now1 now2 fid x))) = en_pending_orders (w_engine x) \<and>
    en_pending_orders (w_engine (snd (submit_spread parse sigs w c now0 now1 now2 fid x))) = en_pending_orders (w_engine x)"
proof
  obtain r x' where s: "submit_single sig w c now1 now2 fid x = (r, x')" by fastforce
  show "en_pending_orders (w_engine (snd (submit_single sig w c now1 now2 fid x))) = en_pending_orders (w_engine x)"
    using s by (cases rule: submit_single_queue) (use assms s in simp_all)
  obtain r2 y where p: "submit_spread parse sigs w c now0 now1 now2 fid x = (r2, y)" by fastforce
  show "en_pending_orders (w_engine (snd (submit_spread parse sigs w c now0 now1 now2 fid x))) = en_pending_orders (w_engine x)"
    using p by (cases rule: submit_spread_queue) (use assms p in simp_all)
qed

subsection \<open>Trade table\<close>

text \<open>For every sequence of opening and closing trades on an empty database, with any pattern of faults, the open
  trades are exactly those of the abstract book, in order and under distinct ids.\<close>

lemma open_trades_listed:
  assumes "book_run (book_step store_open store_close) es (db_empty faults) = (rs, s)"
  shows "open_book s = spec_run (map (stored_op (\<lambda>t. trade_columns (t\<lparr>tr_id := None, tr_status := Open\<rparr>))) es) rs [] \<and>
    distinct (map fst (open_book s))"
proof -
  have e: "open_book (db_empty faults) = []" by (simp add: open_book_def open_rows_def db_empty_def)
  have "store_book.book_inv (db_empty faults)"
    unfolding store_book.book_inv_def by (simp add: e) (simp add: store_inv_def db_empty_def)
  from store_book.book_run_refines[OF this assms] show ?thesis by (auto simp: e store_book.book_inv_def)
qed

subsection \<open>Pauses\<close>

text \<open>C34: in the drawdown pause zone the first check of an armed bankroll starts the pause and is refused; of the later
  checks, in time order, exactly those at or after the end of the pause are let through.\<close>

theorem drawdown_pause:
  assumes "pause_zone c b" "bk_dd_pause_armed b" "bk_peak_dd_pause_until b = 0"
    and "t0 < t0 + peak_dd_pause_ms c" "sorted ts"
  shows "fst (check_times c (t0 # ts) b) = False # map (\<lambda>t. t0 + peak_dd_pause_ms c \<le> t) ts"
  by (rule check_times_first[OF assms])

theorem drawdown_pause_witness:
  "fst (check_times demo [10, 20, 3600010, 3600020] demo_drawdown) = [False, False, True, True]"
  using drawdown_pause[OF demo_drawdown_zone, of 10 "[20, 3600010, 3600020]"] by (simp add: demo_drawdown_armed)

text \<open>After every history of results the loss counter of the breaker is the length of the current losing
  streak modulo the configured number of losses.\<close>

lemma breaker_counts_losses:
  assumes "0 < m"
  shows "unat (cb_consecutive_losses (cb_run hs (cb_new m p))) = trailing_losses hs mod unat m"
  by (rule cb_counter_refines[OF assms])

text \<open>The breaker allows trading exactly when it has never tripped or the pause after its last trip is over, where
  the trips are the losses that complete a multiple of the configured streak.\<close>

lemma breaker_pause_interval:
  assumes "0 < m"
  shows "cb_can_trade (cb_run hs (cb_new m p)) now \<longleftrightarrow>
    cb_trips m hs = [] \<or> snd (hs ! last (cb_trips m hs)) + p \<le> now"
  using cb_pause_refines[OF assms, of hs p] by (simp add: cb_can_trade_def)

subsection \<open>Trend filter and router\<close>

text \<open>The trend bias lies between minus one and one, and with a non-negative threshold the filter never suppresses
  both directions.\<close>

lemma trend_bias_in_unit:
  assumes "length (tt_recent_outcomes t) < 2 ^ 32" "0 \<le> tt_filter_threshold t"
  shows "- 1 \<le> get_trend_bias t \<and> get_trend_bias t \<le> 1 \<and> \<not> (tt_should_suppress t Up \<and> tt_should_suppress t Down)"
  using trend_bias_bounds[OF assms(1)] not_both_suppressed[OF assms(2)] by blast

text \<open>A tracker remembers exactly the most recent outcomes, as many as its window, in order.\<close>

lemma trend_window_recent:
  "tt_recent_outcomes (fold tt_push os (tt_new w enabled threshold)) = drop (length os - w) (map outcome_of os)"
  using tt_window.items_fold[of "tt_new w enabled threshold" os] by (simp add: tt_new_def)

text \<open>The router selects the family of the detected regime exactly when it is a candidate; the order and
  multiplicity of the candidates do not matter.\<close>

lemma router_choice_unique:
  "selected_family (select_family_for_candidates ctx c fs) =
     (if family_of_regime (detect_regime ctx c) \<in> set fs
      then Some (family_of_regime (detect_regime ctx c)) else None)"
  by (rule select_family_eq)

subsection \<open>Fees and configuration\<close>

text \<open>For a price in the unit interval, a finite non-negative size and a rate in the unit interval, the taker fee
  is non-negative and at most the notional.\<close>

lemma taker_fee_within_notional:
  assumes "0 \<le> price" "price \<le> 1" "0 \<le> shares" "is_finite shares" "0 \<le> rate" "rate \<le> 1"
  shows "0 \<le> compute_taker_fee price shares rate e \<and> compute_taker_fee price shares rate e \<le> shares * price"
proof -
  have "\<not> is_nan price" "unit_f64 rate" using f64_le_not_nan[OF assms(1)] assms(5,6) by (simp_all add: unit_f64_def)
  then show ?thesis using taker_fee_bounds assms by blast
qed

subsection \<open>Positions and settlement\<close>

text \<open>C35: on every desk reachable by opening positions, opening spreads and resolving windows, whatever statements the
  database rejects, the number of open positions is at most the configured maximum and the reserve ledger is well formed.\<close>

theorem desk_within_limit:
  assumes "(desk_step c)\<^sup>*\<^sup>* x x'" "unat (max_open_positions c) + 2 < 2 ^ 64"
    and "dk_open_count x \<le> max_open_positions c" "ledger_ok (dk_bank x)"
  shows "dk_open_count x' \<le> max_open_positions c \<and> ledger_ok (dk_bank x')"
  by (rule desk_reachable[OF assms])

theorem desk_within_limit_witness:
  "(let x = pm_new demo_store demo_bank; x' = snd (try_open demo_signal demo_window False (f64_lit 64) demo 4 5 x)
    in dk_open_count x' \<le> 5 \<and> ledger_ok (dk_bank x'))"
proof -
  let ?x = "pm_new demo_store demo_bank"
  have "desk_step demo ?x (snd (try_open demo_signal demo_window False (f64_lit 64) demo 4 5 ?x))"
    by (rule open_one[OF surjective_pairing]) (simp add: trade_entry_def demo_signal_def)
  then have "(desk_step demo)\<^sup>*\<^sup>* ?x (snd (try_open demo_signal demo_window False (f64_lit 64) demo 4 5 ?x))" by (rule r_into_rtranclp)
  from desk_within_limit[OF this] show ?thesis by (simp add: pm_new_def demo_bank_ledger)
qed

text \<open>Resolving a window settles the listed open trades in order, each with the result determined by the trade, the
  outcome and the fee, and changes the bankroll as the pure fold of the settlements does, whatever the database accepts.\<close>

lemma settlement_results:
  assumes "resolve_window_with_outcome parse w outcome c now wall x = (rs, x')"
    and "get_open_trades_for_market (mw_market_id w) (dk_db x) = (Inr ts, s1)"
    and "fp = resolve_fee_params parse c (Some w) (mw_end_time w)"
  shows "map fst rs = ts \<and> list_all (\<lambda>(t, r). r = settlement_result fp outcome (the (tr_id t)) t) rs \<and>
    dk_bank x' = fold (settle_bank fp outcome) ts (dk_bank x) \<and> dk_open_count x' \<le> dk_open_count x"
  using resolve_effect[OF assms] by blast

text \<open>When no statement fails, the row ids are distinct and the results are numbers that can be stored, no open trade is
  left in the market after its window is resolved.\<close>

lemma resolved_market_closed:
  assumes "resolve_window_with_outcome parse w outcome c now wall x = (rs, x')"
    and "get_open_trades_for_market (mw_market_id w) (dk_db x) = (Inr ts, dk_db x)"
    and "db_faults (dk_db x) = []" "\<forall>n. unat (wall n) < 2 ^ 63" "distinct (map row_id (db_trades (dk_db x)))"
    and "\<forall>t \<in> set ts. \<forall>i. tr_id t = Some i \<longrightarrow>
      storable (settlement_result (resolve_fee_params parse c (Some w) (mw_end_time w)) outcome i t) \<and>
      i \<notin> rr_trade_id ` set (db_results (dk_db x))"
  shows "open_rows_for_market (mw_market_id w) (dk_db x') = []"
  by (rule resolve_closes[OF assms])

text \<open>A trade that was inserted is read back unchanged from its market, as the last open trade and with the row id
  the insert returned.\<close>

lemma opened_trade_read_back:
  assumes "open_trade t s = (Inr i, s1)" "tr_id t = None" "tr_status t = Open" "opt_numbers t"
    and "get_open_trades_for_market (tr_market_id t) s1 = (Inr ts, s2)"
  shows "ts \<noteq> [] \<and> last ts = t\<lparr>tr_id := Some i\<rparr>"
  by (rule opened_trade_listed[OF assms])

subsection \<open>Strategies\<close>

text \<open>C36: in every run of the latency strategy, whatever the order of the clock readings, the signals are at least the
  configured cooldown apart.\<close>

theorem latency_cooldown:
  assumes "la_run c es (la_new t) = Some (rs, la)" "0 < latency_arb_cooldown_ms c"
  shows "spaced (latency_arb_cooldown_ms c) (signal_times rs)"
  using la_run_spaced[OF assms(1) la_new_inv assms(2)] by (simp add: spaced_def)

theorem latency_cooldown_witness:
  "\<exists>s la. la_run demo_quotes [(demo_ctx, 100000)] (la_new 1) = Some ([Single s], la) \<and> spaced 60000 (signal_times [Single s])"
proof -
  obtain s la where "la_evaluate demo_ctx demo_quotes 100000 (la_new 1) = Some (Single s, la)" using demo_latency by blast
  then have r: "la_run demo_quotes [(demo_ctx, 100000)] (la_new 1) = Some ([Single s], la)" by simp
  have "latency_arb_cooldown_ms demo_quotes = 60000" by (simp add: demo_quotes_def)
  then show ?thesis using latency_cooldown[OF r] r by fastforce
qed

text \<open>When the threshold is recalculated on at least sixty samples of the window, none of them NaN, the result is the
  larger of the base and a sample whose rank is the percentile index.\<close>

lemma adaptive_threshold_percentile:
  assumes "get_adaptive_threshold now base la = Some (t, la')" "\<not> saturating_sub now (la_last_threshold_calc la) < 10000"
    and "la_inv la" "\<forall>x \<in> set (la_momentum_buffer la). \<not> is_nan x"
    and "\<forall>ts \<in> set (la_momentum_timestamps la). saturating_sub now ts \<le> la_adaptive_window_ms la"
    and "60 \<le> length (la_momentum_buffer la)"
  shows "\<exists>x \<in> set (la_momentum_buffer la). t = f64_max base x \<and>
    p85_index (length (la_momentum_buffer la)) < length (filter (\<lambda>y. y \<le> x) (la_momentum_buffer la)) \<and>
    length (la_momentum_buffer la) - p85_index (length (la_momentum_buffer la)) \<le> length (filter (\<lambda>y. x \<le> y) (la_momentum_buffer la))"
  by (rule adaptive_threshold_rank[OF assms])

text \<open>A signal of the latency strategy buys at a positive ask below the configured maximum and not below the
  minimum, with enough time left and fresh features; when its expected edge is a number, the edge is positive and the
  confidence lies between zero and one.\<close>

lemma latency_signal_rules:
  assumes "la_evaluate ctx c now la = Some (Single s, la')"
  shows "0 < sig_ask s \<and> sig_ask s < latency_arb_max_ask c \<and> \<not> sig_ask s < latency_arb_min_ask c \<and>
    min_window_time_ms c \<le> ctx_window_time_remaining_ms ctx \<and> features_are_fresh ctx c \<and>
    (\<exists>edge. sig_expected_edge s = Some edge \<and> (\<not> is_nan edge \<longrightarrow> 0 < edge \<and> unit_f64 (sig_confidence s)))"
  using la_signal_rules[OF assms] by blast

text \<open>A signal of the calm strategy is emitted inside the configured late part of the window, with a confidence between
  zero and one, an ask within the configured maximum, and an edge not at or below the configured minimum.\<close>

lemma calm_signal_rules_hold:
  assumes "calm_evaluate ctx c now = Some (Single s)"
  shows "unit_f64 (sig_confidence s) \<and> (\<not> is_nan (sig_ask s) \<longrightarrow> 0 < sig_ask s) \<and>
    \<not> calm_persistence_max_ask c < sig_ask s \<and>
    calm_persistence_min_window_time_ms c \<le> ctx_window_time_remaining_ms ctx \<and>
    ctx_window_time_remaining_ms ctx \<le> calm_persistence_max_window_time_ms c \<and>
    (\<exists>edge. sig_expected_edge s = Some edge \<and> \<not> edge \<le> 0 \<and> \<not> edge \<le> calm_persistence_min_expected_edge c)"
  using calm_signal_rules[OF assms] by blast

text \<open>An evaluation of the calm strategy panics exactly when the snapshot passes every guard on the market and the
  configured maximum bias is negative or NaN, which makes the interval of the clamp empty.\<close>

lemma calm_panic_condition:
  "calm_evaluate ctx c now = None \<longleftrightarrow> \<not> 0 \<le> calm_persistence_max_fair_bias c \<and>
     calm_persistence_min_window_time_ms c \<le> ctx_window_time_remaining_ms ctx \<and>
     ctx_window_time_remaining_ms ctx \<le> calm_persistence_max_window_time_ms c \<and> quotes_are_fresh ctx c \<and>
     (\<exists>up down ci. book_up (ctx_book_state ctx) = Some up \<and> book_down (ctx_book_state ctx) = Some down \<and>
        calm_guards ctx c up down = Inr ci)"
  by (rule calm_panic_iff)

text \<open>A batch of the spread strategy consists of an up leg and a down leg of the same time and expected edge; when the
  values are numbers and the slippage is not negative, the edge is positive and the asks leave part of the payout.\<close>

lemma spread_signal_rules:
  assumes "sc_evaluate parse ctx c now = Batch ss" "unit_f64 (taker_fee_rate c)"
    and "0 \<le> unwrap_or (ft_expected_up_slippage (ctx_features ctx)) 0 + unwrap_or (ft_expected_down_slippage (ctx_features ctx)) 0"
  shows "\<exists>u d edge. ss = [u, d] \<and> sig_direction u = Up \<and> sig_direction d = Down \<and> sig_timestamp u = now \<and> sig_timestamp d = now \<and>
    sig_expected_edge u = Some edge \<and> sig_expected_edge d = Some edge \<and> \<not> spread_capture_threshold c \<le> sig_ask u + sig_ask d \<and>
    (\<not> is_nan (sig_ask u) \<longrightarrow> \<not> is_nan (sig_ask d) \<longrightarrow> \<not> is_nan edge \<longrightarrow> 0 < edge \<and> 0 < 1 * (1 - sig_ask u - sig_ask d))"
  using sc_batch_discount[OF assms(1,2)] assms(3) by metis

text \<open>Once a submission is queued in a regime, the fills and misses of its signals are counted in that regime and in
  no other.\<close>

lemma attribution_credited:
  assumes "\<forall>out \<in> set outs. out_signal_id out \<in> set ids"
  shows "filled_count q (record_processed_outcomes outs (record_submission f r (Queued ids orders) a)) = filled_count q a +
      (if q = r then of_nat (length (filter (\<lambda>out. out_disposition out = Filled) outs)) else 0) \<and>
    missed_count q (record_processed_outcomes outs (record_submission f r (Queued ids orders) a)) = missed_count q a +
      (if q = r then of_nat (length (filter (\<lambda>out. out_disposition out = Missed) outs)) else 0)"
  using submission_credited[OF assms] by blast

subsection \<open>Feature engine\<close>

text \<open>Over feed events in time order, the bounded trade queue holds exactly the observed trades within thirty seconds
  of every pruning event, in the order of their times.\<close>

lemma trade_history_exact:
  assumes "sorted (map event_time es)"
  shows "ss_binance_trades (fold ss_step es signal_state_new) =
      filter (\<lambda>t. \<forall>e \<in> set es. event_cutoff TRADE_HISTORY_MS e \<le> to_event_ms t) (concat (map event_trades es)) \<and>
    sorted (map to_event_ms (ss_binance_trades (fold ss_step es signal_state_new)))"
  using trade_history.items_run[OF signal_state_new_trades assms] unfolding pushed_trades .



text \<open>On prices in time order the momentum equals the relative change from the first price of the whole history that
  lies within the window to the newest price, and zero when there is no such pair or the first price is not positive.\<close>

lemma momentum_value_exact:
  assumes "sorted (map snd (es @ [e]))"
  shows "mc_get (fold mc_feed (es @ [e]) (mc_new w)) =
    (let kept = filter (\<lambda>x. saturating_sub (snd e) w \<le> snd x) (es @ [e])
     in if length kept < 2 \<or> fst (hd kept) \<le> 0 then 0 else (fst e - fst (hd kept)) / fst (hd kept))"
  by (rule momentum_value[OF assms])

subsection \<open>Strategy cycle\<close>



text \<open>C39: on books with numeric asks a whole strategy cycle, also one that ends in a database error, keeps the reserve
  ledger consistent and the order queue free of duplicates.\<close>

theorem cycle_keeps_engine:
  assumes "run_strategy_cycle parse ctx w c clk fid now sts y = Some (out, sts', y')"
    and "\<forall>st \<in> set sts. inst_inv st" "books_ok ctx" "limits_ok c"
    and "ledger_ok (w_bank (cy_world y))" "queue_distinct (cy_world y)"
  shows "ledger_ok (w_bank (cy_world y')) \<and> queue_distinct (cy_world y')"
  using engine_world.cycle_keeps[OF assms(1-4)] assms(5,6) by (simp add: engine_inv_def)

theorem cycle_keeps_engine_witness:
  "\<exists>res y. run_strategy_cycle (\<lambda>_. None) demo_calm_ctx demo_window demo_quotes (\<lambda>i j. 100000) RawEvent 100000 [SpreadInst, CalmInst] demo_cycle =
     Some (Inr res, [SpreadInst, CalmInst], y) \<and> ledger_ok (w_bank (cy_world y)) \<and> queue_distinct (cy_world y)"
proof -
  obtain res y where r: "run_strategy_cycle (\<lambda>_. None) demo_calm_ctx demo_window demo_quotes (\<lambda>i j. 100000) RawEvent 100000
      [SpreadInst, CalmInst] demo_cycle = Some (Inr res, [SpreadInst, CalmInst], y)" using demo_cycle_runs by blast
  from cycle_keeps_engine[OF r _ demo_cycle_facts] show ?thesis using r by simp
qed



text \<open>After any sequence of recorded rejections, draining a market reports for each strategy and reason one row with
  the number of its rejections, and none when there was none.\<close>

lemma rejections_reported:
  "map su_count (filter (\<lambda>r. su_strategy r = s \<and> su_reason r = rejection_reason_as_str q)
     (fst (rt_drain_market m now (fold (\<lambda>(m, r). rt_record m r) rs rt_new)))) =
   (let n = length (filter (\<lambda>(m', r). rt_key m' r = \<lparr>rk_market_id = m, rk_strategy = s, rk_reason = q\<rparr>) rs)
    in if n = 0 then [] else [of_nat n])"
  by (rule rt_drained_counts)

end
